(* ===== verification/Prelude.thy ===== *)
theory Prelude
  imports Main "HOL-Library.Sublist"
begin

text \<open>
  Shared vocabulary of the development: JavaScript values and the parts of the language
  and of its standard library that the sources use, the state of a running Node process
  with its outside world, and the effect type in which the asynchronous functions of
  \<^verbatim>\<open>src/testing/e2e/skr\<close> are written.

  Strings are byte strings (\<^typ>\<open>string\<close>): a JavaScript string is represented by its UTF-8
  encoding.  Integral numbers are \<open>Num\<close>; a number with a fraction or an exponent is kept as
  its text (\<open>Dec\<close>), since no code computes with one.  Objects are association lists in
  insertion order.  A thrown value is any JavaScript value; an \<open>Error\<close> object has its own
  constructor with its name, its message and its further properties.
\<close>

section \<open>Collections of facts\<close>

named_theorems js_simps \<open>equations of the language primitives\<close>
named_theorems run_simps \<open>running an effectful program one statement at a time\<close>
named_theorems frame_rules \<open>what an effectful program leaves unchanged\<close>

section \<open>JavaScript values\<close>

datatype js =
    Undef
  | Null
  | Bool bool
  | Num int
  | Dec string
  | Str string
  | Arr "js list"
  | Obj "(string \<times> js) list"
  | Err string string "(string \<times> js) list"

datatype key = K string | I nat

text \<open>\<open>new Error(message)\<close> and the \<open>TypeError\<close> the engine raises on its own.\<close>

definition new_Error :: "string \<Rightarrow> js" where
  "new_Error msg = Err ''Error'' msg []"

definition quoted :: "string \<Rightarrow> string" where
  "quoted s = [CHR 0x27] @ s @ [CHR 0x27]"

definition TypeError :: "string \<Rightarrow> js" where
  "TypeError msg = Err ''TypeError'' msg []"

definition cannot_read :: "string \<Rightarrow> string \<Rightarrow> js" where
  "cannot_read what k =
     TypeError (''Cannot read properties of '' @ what @ '' (reading '' @ quoted k @ '')'')"

subsection \<open>Numbers as text\<close>

definition digit_char :: "nat \<Rightarrow> char" where
  "digit_char d = char_of (48 + d)"

fun show_nat :: "nat \<Rightarrow> string" where
  "show_nat n = (if n < 10 then [digit_char n] else show_nat (n div 10) @ [digit_char (n mod 10)])"

declare show_nat.simps [simp del]

definition show_int :: "int \<Rightarrow> string" where
  "show_int i = (if i < 0 then ''-'' @ show_nat (nat (- i)) else show_nat (nat i))"

subsection \<open>Conversion to string and to boolean\<close>

fun join :: "string \<Rightarrow> string list \<Rightarrow> string" where
  "join sep [] = []"
| "join sep [x] = x"
| "join sep (x # y # ys) = x @ sep @ join sep (y # ys)"

text \<open>
  \<open>String(v)\<close>, which template literals and \<open>toString\<close> use.  Inside an array the two
  nullish values print as nothing.
\<close>

fun to_str :: "js \<Rightarrow> string" where
  "to_str Undef = ''undefined''"
| "to_str Null = ''null''"
| "to_str (Bool b) = (if b then ''true'' else ''false'')"
| "to_str (Num i) = show_int i"
| "to_str (Dec s) = s"
| "to_str (Str s) = s"
| "to_str (Arr vs) = join '','' (map (\<lambda>v. if v = Undef \<or> v = Null then [] else to_str v) vs)"
| "to_str (Obj ps) = ''[object Object]''"
| "to_str (Err n m ps) = (if m = [] then n else n @ '': '' @ m)"

fun truthy :: "js \<Rightarrow> bool" where
  "truthy Undef = False"
| "truthy Null = False"
| "truthy (Bool b) = b"
| "truthy (Num i) = (i \<noteq> 0)"
| "truthy (Dec s) =
     list_ex (\<lambda>c. c \<in> set ''123456789'') (takeWhile (\<lambda>c. c \<noteq> CHR ''e'' \<and> c \<noteq> CHR ''E'') s)"
| "truthy (Str s) = (s \<noteq> [])"
| "truthy (Arr vs) = True"
| "truthy (Obj ps) = True"
| "truthy (Err n m ps) = True"

text \<open>\<open>a || b\<close> and \<open>a && b\<close> on values.\<close>

definition js_or :: "js \<Rightarrow> js \<Rightarrow> js" where
  "js_or a b = (if truthy a then a else b)"

text \<open>Loose comparison \<open>v == 'literal'\<close> with a string on the right.\<close>

definition loose_eq :: "js \<Rightarrow> string \<Rightarrow> bool" where
  "loose_eq v s = (v \<noteq> Undef \<and> v \<noteq> Null \<and> to_str v = s)"

subsection \<open>Property access\<close>

definition lookup :: "(string \<times> js) list \<Rightarrow> string \<Rightarrow> js" where
  "lookup ps k = (case map_of ps k of None \<Rightarrow> Undef | Some v \<Rightarrow> v)"

text \<open>
  \<open>v.k\<close> and \<open>v[k]\<close>: reading a property of \<open>undefined\<close> or \<open>null\<close> throws, a missing property
  is \<open>undefined\<close>.  Of an \<open>Error\<close>, \<open>stack\<close> is modelled by its first line.
\<close>

fun member :: "js \<Rightarrow> key \<Rightarrow> js + js" where
  "member Undef (K k) = Inl (cannot_read ''undefined'' k)"
| "member Undef (I i) = Inl (cannot_read ''undefined'' (show_nat i))"
| "member Null (K k) = Inl (cannot_read ''null'' k)"
| "member Null (I i) = Inl (cannot_read ''null'' (show_nat i))"
| "member (Obj ps) (K k) = Inr (lookup ps k)"
| "member (Obj ps) (I i) = Inr (lookup ps (show_nat i))"
| "member (Arr vs) (K k) = Inr (if k = ''length'' then Num (int (length vs)) else Undef)"
| "member (Arr vs) (I i) = Inr (if i < length vs then vs ! i else Undef)"
| "member (Str s) (K k) = Inr (if k = ''length'' then Num (int (length s)) else Undef)"
| "member (Str s) (I i) = Inr (if i < length s then Str [s ! i] else Undef)"
| "member (Err n m ps) (K k) =
     Inr (if k \<in> fst ` set ps then lookup ps k
          else if k = ''message'' then Str m
          else if k = ''name'' then Str n
          else if k = ''stack'' then Str (to_str (Err n m ps))
          else Undef)"
| "member (Err n m ps) (I i) = Inr (lookup ps (show_nat i))"
| "member (Bool b) k = Inr Undef"
| "member (Num n) k = Inr Undef"
| "member (Dec s) k = Inr Undef"

text \<open>A chain of accesses \<open>v.a[0].b\<close>; the first nullish link throws.\<close>

fun path :: "js \<Rightarrow> key list \<Rightarrow> js + js" where
  "path v [] = Inr v"
| "path v (k # ks) = (case member v k of Inl e \<Rightarrow> Inl e | Inr u \<Rightarrow> path u ks)"

declare path.simps [simp del]

text \<open>\<open>v.toString()\<close>: a method call, so it throws on the nullish values.\<close>

definition toString :: "js \<Rightarrow> js + string" where
  "toString v = (case v of Undef \<Rightarrow> Inl (cannot_read ''undefined'' ''toString'')
                 | Null \<Rightarrow> Inl (cannot_read ''null'' ''toString'')
                 | _ \<Rightarrow> Inr (to_str v))"

text \<open>Assignment to a property of an object: overwrite in place or append.\<close>

fun assoc_set :: "string \<Rightarrow> 'v \<Rightarrow> (string \<times> 'v) list \<Rightarrow> (string \<times> 'v) list" where
  "assoc_set k v [] = [(k, v)]"
| "assoc_set k v ((k', v') # ps) = (if k = k' then (k, v) # ps else (k', v') # assoc_set k v ps)"

definition assoc_del :: "string \<Rightarrow> (string \<times> 'v) list \<Rightarrow> (string \<times> 'v) list" where
  "assoc_del k ps = filter (\<lambda>(k', v). k' \<noteq> k) ps"

text \<open>Object spread \<open>{...a, ...b}\<close>: the properties of \<open>b\<close> are assigned over those of \<open>a\<close>.\<close>

definition spread :: "(string \<times> 'v) list \<Rightarrow> (string \<times> 'v) list \<Rightarrow> (string \<times> 'v) list" where
  "spread a b = fold (\<lambda>(k, v) acc. assoc_set k v acc) b a"

fun entries :: "js \<Rightarrow> (string \<times> js) list" where
  "entries (Obj ps) = ps"
| "entries (Err n m ps) = ps"
| "entries _ = []"

fun set_prop :: "js \<Rightarrow> string \<Rightarrow> js \<Rightarrow> js + js" where
  "set_prop (Obj ps) k v = Inr (Obj (assoc_set k v ps))"
| "set_prop (Err n m ps) k v = Inr (Err n m (assoc_set k v ps))"
| "set_prop Undef k v = Inl (TypeError (''Cannot set properties of undefined (setting '' @ quoted k @ '')''))"
| "set_prop Null k v = Inl (TypeError (''Cannot set properties of null (setting '' @ quoted k @ '')''))"
| "set_prop u k v = Inr u"

text \<open>In strict mode, as in the body of a class, a primitive value refuses new properties.\<close>

definition set_prop_strict :: "js \<Rightarrow> string \<Rightarrow> js \<Rightarrow> js + js" where
  "set_prop_strict u k v = (case u of
     Bool b \<Rightarrow> Inl (TypeError (''Cannot create property '' @ quoted k))
   | Num n \<Rightarrow> Inl (TypeError (''Cannot create property '' @ quoted k))
   | Dec d \<Rightarrow> Inl (TypeError (''Cannot create property '' @ quoted k))
   | Str s \<Rightarrow> Inl (TypeError (''Cannot create property '' @ quoted k))
   | _ \<Rightarrow> set_prop u k v)"

fun del_prop :: "js \<Rightarrow> string \<Rightarrow> js + js" where
  "del_prop (Obj ps) k = Inr (Obj (assoc_del k ps))"
| "del_prop (Err n m ps) k = Inr (Err n m (assoc_del k ps))"
| "del_prop Undef k = Inl (TypeError ''Cannot convert undefined or null to object'')"
| "del_prop Null k = Inl (TypeError ''Cannot convert undefined or null to object'')"
| "del_prop u k = Inr u"

section \<open>Strings of the standard library\<close>

definition starts_with :: "string \<Rightarrow> string \<Rightarrow> bool" where
  "starts_with p s = (take (length p) s = p)"

fun str_includes :: "string \<Rightarrow> string \<Rightarrow> bool" where
  "str_includes [] t = (t = [])"
| "str_includes (c # s) t = (starts_with t (c # s) \<or> str_includes s t)"

text \<open>\<open>s.split(sep)\<close> for a non-empty separator; the accumulator is the current piece, reversed.\<close>

function split_acc :: "string \<Rightarrow> string \<Rightarrow> string \<Rightarrow> string list" where
  "split_acc sep acc [] = [rev acc]"
| "split_acc sep acc (c # s) =
     (if sep \<noteq> [] \<and> starts_with sep (c # s)
      then rev acc # split_acc sep [] (drop (length sep) (c # s))
      else split_acc sep (c # acc) s)"
  by pat_completeness auto
termination
  by (relation "measure (\<lambda>(sep, acc, s). length s)") auto

definition split :: "string \<Rightarrow> string \<Rightarrow> string list" where
  "split s sep = split_acc sep [] s"

text \<open>
  The replacement string of \<open>s.replace(/literal/g, r)\<close> is itself a small language:
  \<open>$$\<close>, \<open>$&\<close>, \<open>$`\<close> and \<open>$'\<close> stand for a dollar, the match, the text before and the text
  after it.
\<close>

fun expand_replacement :: "string \<Rightarrow> string \<Rightarrow> string \<Rightarrow> string \<Rightarrow> string" where
  "expand_replacement mat before after (c # d # r) =
     (if c = CHR 0x24 \<and> d = CHR 0x24 then CHR 0x24 # expand_replacement mat before after r
      else if c = CHR 0x24 \<and> d = CHR 0x26 then mat @ expand_replacement mat before after r
      else if c = CHR 0x24 \<and> d = CHR 0x60 then before @ expand_replacement mat before after r
      else if c = CHR 0x24 \<and> d = CHR 0x27 then after @ expand_replacement mat before after r
      else c # expand_replacement mat before after (d # r))"
| "expand_replacement mat before after r = r"

function replace_acc :: "string \<Rightarrow> string \<Rightarrow> string \<Rightarrow> string \<Rightarrow> string" where
  "replace_acc pat r before [] = []"
| "replace_acc pat r before (c # s) =
     (if pat \<noteq> [] \<and> starts_with pat (c # s)
      then expand_replacement pat before (drop (length pat) (c # s)) r
             @ replace_acc pat r (before @ pat) (drop (length pat) (c # s))
      else c # replace_acc pat r (before @ [c]) s)"
  by pat_completeness auto
termination
  by (relation "measure (\<lambda>(pat, r, before, s). length s)") auto

definition replace_all :: "string \<Rightarrow> string \<Rightarrow> string \<Rightarrow> string" where
  "replace_all s pat r = replace_acc pat r [] s"

section \<open>Characters as bytes\<close>

lemma of_char_less: "(of_char c :: nat) < 256"
  by (metis less_irrefl linorder_not_less of_char_mod_256 mod_less_divisor zero_less_numeral)

section \<open>Printing and parsing as an interface\<close>

locale text_codec =
  fixes print :: "'v \<Rightarrow> 't"
    and parse :: "'t \<Rightarrow> 'e + 'v"
    and ok :: "'v \<Rightarrow> bool"
  assumes parse_print: "ok v \<Longrightarrow> parse (print v) = Inr v"
    and parse_ok: "parse t = Inr v \<Longrightarrow> ok v"
begin

lemma reparse: "parse t = Inr v \<Longrightarrow> parse (print v) = Inr v"
  by (rule parse_print) (rule parse_ok)

lemma print_inject: "ok u \<Longrightarrow> ok v \<Longrightarrow> print u = print v \<Longrightarrow> u = v"
  by (metis parse_print sum.inject(2))

end

text \<open>Assignment into an association list: its keys, its entries and its lookups.\<close>

lemma keys_assoc_set: "fst ` set (assoc_set k v ps) = insert k (fst ` set ps)"
  by (induction k v ps rule: assoc_set.induct) auto

lemma distinct_assoc_set: "distinct (map fst ps) \<Longrightarrow> distinct (map fst (assoc_set k v ps))"
  by (induction k v ps rule: assoc_set.induct) (auto simp: keys_assoc_set)

lemma set_assoc_set: "set (assoc_set k v ps) \<subseteq> insert (k, v) (set ps)"
  by (induction k v ps rule: assoc_set.induct) auto

lemma assoc_set_fresh: "k \<notin> fst ` set ps \<Longrightarrow> assoc_set k v ps = ps @ [(k, v)]"
  by (induction k v ps rule: assoc_set.induct) auto

lemma map_of_assoc_set: "map_of (assoc_set k v ps) = (map_of ps)(k \<mapsto> v)"
  by (induction k v ps rule: assoc_set.induct) (auto simp: fun_eq_iff)

end
