(* ===== verification/Effects.thy ===== *)
theory Effects
  imports Prelude
begin

text \<open>
  The state of a running Node process and the effect type of its functions.

  Everything outside the sources (the HTTP client axios, the subprocess launcher execa, the
  Kubernetes client, the random source, the uuid package, the assertion library chai) is a
  parameter: the field \<open>services\<close> of the world answers every external call, and may let the
  answer depend on the whole history of earlier calls, so every behaviour of the environment is
  some value of that field.  An answer is a rejection (\<open>Inl\<close>) or a resolution (\<open>Inr\<close>) and the
  time it takes in milliseconds.  Calls are recorded in order in \<open>calls\<close>.

  An asynchronous function is a state transformer whose outcome is a value, a thrown value, or
  \<open>Hang\<close>: an awaited promise that is never settled.
\<close>

section \<open>External calls\<close>

datatype kube_client = Global | Gardener

datatype kube_op =
    KPatch js
  | KCreate js
  | KDelete js
  | KRead js
  | KRequest js
  | KListClusterRoleBinding
  | KReadSecret string string
  | KWatch string

datatype call =
    Axios js
  | AxiosPost string string js
  | Execa string "string list" bool
  | Kube kube_client kube_op
  | LoadKubeconfig kube_client js
  | LoadYaml string
  | Sleep int
  | UuidV4
  | MkDir string
  | WriteFile string string
  | StreamDownload string
  | Unlink string
  | HomeDir
  | ExistsSync string

text \<open>Assertions of the chai library, as the sources write them.\<close>

datatype assertion =
    HaveProperty js string
  | NestedProperty js string js
  | NestedNotEmpty js string
  | EqualTo js js
  | DeepEqual js js
  | IsUndefined js
  | IsNotUndefined js
  | NotEmpty js
  | LengthOf js nat
  | IncludesValue js js
  | MatchesRegExp js string

text \<open>
  A watch on a Kubernetes collection: when the connection is established (or that it is
  refused), and the events it delivers, each with its time after the start of the watch.
\<close>

record watch_run =
  established :: "js + nat"
  events :: "(nat \<times> js) list"

text \<open>What the documentation of chai promises of these assertions, on plain data.\<close>

fun has_property :: "js \<Rightarrow> string \<Rightarrow> bool" where
  "has_property (Obj ps) k = (k \<in> fst ` set ps)"
| "has_property (Err n m ps) k = (k \<in> fst ` set ps \<or> k = ''name'' \<or> k = ''message'' \<or> k = ''stack'')"
| "has_property (Arr vs) k = (k = ''length'')"
| "has_property (Str s) k = (k = ''length'')"
| "has_property _ k = False"

text \<open>
  A concrete assertion library with the documented behaviour, which the examples use.  Nested
  properties are looked up along a path of names and indices.
\<close>

fun path_keys :: "string \<Rightarrow> string \<Rightarrow> key list" where
  "path_keys acc [] = (if acc = [] then [] else [K (rev acc)])"
| "path_keys acc (c # s) =
     (if c = CHR ''.'' \<or> c = CHR ''['' \<or> c = CHR '']''
      then (if acc = [] then path_keys [] s else K (rev acc) # path_keys [] s)
      else path_keys (c # acc) s)"

definition number_keys :: "key list \<Rightarrow> key list" where
  "number_keys ks = map (\<lambda>k. case k of K n \<Rightarrow> (if n = ''0'' then I 0 else K n) | I i \<Rightarrow> I i) ks"

definition chai_documented :: "(assertion \<Rightarrow> js option) \<Rightarrow> bool" where
  "chai_documented c =
     ((\<forall>v k. (c (HaveProperty v k) = None) = has_property v k) \<and>
      (\<forall>v. (c (IsUndefined v) = None) = (v = Undef)) \<and>
      (\<forall>v. (c (IsNotUndefined v) = None) = (v \<noteq> Undef)) \<and>
      (\<forall>u v. (c (EqualTo u v) = None) = (u = v)) \<and>
      (\<forall>vs n. (c (LengthOf (Arr vs) n) = None) = (length vs = n)) \<and>
      (\<forall>s. (c (NotEmpty (Str s)) = None) = (s \<noteq> [])) \<and>
      (\<forall>vs v. (c (IncludesValue (Arr vs) v) = None) = (v \<in> set vs)) \<and>
      (\<forall>v p s. (c (NestedProperty v p (Str s)) = None) = (path v (number_keys (path_keys [] p)) = Inr (Str s))) \<and>
      (\<forall>v. c (DeepEqual v v) = None))"

fun nonempty :: "js \<Rightarrow> bool" where
  "nonempty (Str s) = (s \<noteq> [])"
| "nonempty (Arr vs) = (vs \<noteq> [])"
| "nonempty (Obj ps) = (ps \<noteq> [])"
| "nonempty _ = False"

fun assertion_holds :: "assertion \<Rightarrow> bool" where
  "assertion_holds (HaveProperty v k) = has_property v k"
| "assertion_holds (NestedProperty v p u) = (path v (number_keys (path_keys [] p)) = Inr u)"
| "assertion_holds (NestedNotEmpty v p) =
     (case path v (number_keys (path_keys [] p)) of Inr u \<Rightarrow> nonempty u | Inl _ \<Rightarrow> False)"
| "assertion_holds (EqualTo u v) = (u = v)"
| "assertion_holds (DeepEqual u v) = (u = v)"
| "assertion_holds (IsUndefined v) = (v = Undef)"
| "assertion_holds (IsNotUndefined v) = (v \<noteq> Undef)"
| "assertion_holds (NotEmpty v) = nonempty v"
| "assertion_holds (LengthOf v n) = (case v of Arr vs \<Rightarrow> length vs = n | Str s \<Rightarrow> length s = n | _ \<Rightarrow> False)"
| "assertion_holds (IncludesValue v u) =
     (case v of Arr vs \<Rightarrow> u \<in> set vs
      | Str s \<Rightarrow> (case u of Str t \<Rightarrow> str_includes s t | _ \<Rightarrow> False)
      | _ \<Rightarrow> False)"
| "assertion_holds (MatchesRegExp v p) = (case v of Str s \<Rightarrow> str_includes s p | _ \<Rightarrow> False)"

definition AssertionError :: js where
  "AssertionError = Err ''AssertionError'' ''assertion failed'' []"

definition plain_chai :: "assertion \<Rightarrow> js option" where
  "plain_chai a = (if assertion_holds a then None else Some AssertionError)"

lemma plain_chai_documented: "chai_documented plain_chai"
  by (simp add: chai_documented_def plain_chai_def)

lemma chai_has_property: "chai_documented c \<Longrightarrow> (c (HaveProperty v k) = None) = has_property v k"
  by (simp add: chai_documented_def)

section \<open>The world\<close>

record world =
  env :: "string \<Rightarrow> string option"
  now :: int
  services :: "call list \<Rightarrow> call \<Rightarrow> (js + js) \<times> nat"
  watches :: "call list \<Rightarrow> kube_client \<Rightarrow> string \<Rightarrow> watch_run"
  rng :: "nat \<Rightarrow> nat"
  draws :: nat
  chai :: "assertion \<Rightarrow> js option"
  calls :: "call list"
  console :: "js list list"
  debugOn :: bool
  cells :: "nat \<Rightarrow> js"
  unhandled :: "js list"

text \<open>A world in which every call succeeds at once with \<open>undefined\<close>, for examples.\<close>

definition quiet_world :: world where
  "quiet_world = \<lparr>env = (\<lambda>_. None), now = 0, services = (\<lambda>_ _. (Inr Undef, 0)),
     watches = (\<lambda>_ _ _. \<lparr>established = Inr 0, events = []\<rparr>), rng = (\<lambda>n. n), draws = 0,
     chai = plain_chai, calls = [], console = [], debugOn = False, cells = (\<lambda>_. Undef), unhandled = []\<rparr>"

datatype 'a outcome = Ret 'a | Throw js | Hang

type_synonym 'a prog = "world \<Rightarrow> 'a outcome \<times> world"

section \<open>Statements\<close>

definition ret :: "'a \<Rightarrow> 'a prog" where
  "ret x w = (Ret x, w)"

definition throw :: "js \<Rightarrow> 'a prog" where
  "throw e w = (Throw e, w)"

definition never :: "'a prog" where
  "never w = (Hang, w)"

definition bind :: "'a prog \<Rightarrow> ('a \<Rightarrow> 'b prog) \<Rightarrow> 'b prog" where
  "bind m f w = (case m w of
     (Ret x, w') \<Rightarrow> f x w'
   | (Throw e, w') \<Rightarrow> (Throw e, w')
   | (Hang, w') \<Rightarrow> (Hang, w'))"

definition seq :: "'a prog \<Rightarrow> 'b prog \<Rightarrow> 'b prog" where
  "seq m k = bind m (\<lambda>_. k)"

text \<open>\<open>try { m } catch (e) { h e }\<close>\<close>

definition try_catch :: "'a prog \<Rightarrow> (js \<Rightarrow> 'a prog) \<Rightarrow> 'a prog" where
  "try_catch m h w = (case m w of
     (Ret x, w') \<Rightarrow> (Ret x, w')
   | (Throw e, w') \<Rightarrow> h e w'
   | (Hang, w') \<Rightarrow> (Hang, w'))"

text \<open>
  \<open>try { m } finally { f }\<close>: the block \<open>f\<close> runs after a value and after a throw; if it throws,
  its own error replaces the outcome.
\<close>

definition finally_do :: "'a prog \<Rightarrow> unit prog \<Rightarrow> 'a prog" where
  "finally_do m f w = (case m w of
     (Hang, w') \<Rightarrow> (Hang, w')
   | (r, w') \<Rightarrow> (case f w' of
         (Ret _, w'') \<Rightarrow> (r, w'')
       | (Throw e, w'') \<Rightarrow> (Throw e, w'')
       | (Hang, w'') \<Rightarrow> (Hang, w'')))"

text \<open>An expression whose evaluation may throw.\<close>

definition eval :: "js + 'a \<Rightarrow> 'a prog" where
  "eval r = (case r of Inl e \<Rightarrow> throw e | Inr x \<Rightarrow> ret x)"

definition if_then :: "bool \<Rightarrow> unit prog \<Rightarrow> unit prog" where
  "if_then b m = (if b then m else ret ())"

text \<open>\<open>for (const x of xs) { await body(x) }\<close>, stopping at the first throw.\<close>

fun for_each :: "'a list \<Rightarrow> ('a \<Rightarrow> unit prog) \<Rightarrow> unit prog" where
  "for_each [] body = ret ()"
| "for_each (x # xs) body = seq (body x) (for_each xs body)"

text \<open>The same loop, collecting what each turn returns.\<close>

fun map_each :: "'a list \<Rightarrow> ('a \<Rightarrow> 'b prog) \<Rightarrow> 'b list prog" where
  "map_each [] body = ret []"
| "map_each (x # xs) body = bind (body x) (\<lambda>y. bind (map_each xs body) (\<lambda>ys. ret (y # ys)))"

section \<open>Primitive operations on the world\<close>

text \<open>\<open>await\<close> of an external call.\<close>

definition await :: "call \<Rightarrow> js prog" where
  "await c w =
     (let (ans, d) = services w (calls w) c;
          w' = w\<lparr>calls := calls w @ [c], now := now w + int d\<rparr>
      in case ans of Inl e \<Rightarrow> (Throw e, w') | Inr v \<Rightarrow> (Ret v, w'))"

definition console_log :: "js list \<Rightarrow> unit prog" where
  "console_log args w = (Ret (), w\<lparr>console := console w @ [args]\<rparr>)"

text \<open>\<open>process.env[key]\<close>\<close>

definition process_env :: "string \<Rightarrow> js prog" where
  "process_env k w = (Ret (case env w k of None \<Rightarrow> Undef | Some v \<Rightarrow> Str v), w)"

text \<open>\<open>+new Date()\<close>\<close>

definition date_now :: "int prog" where
  "date_now w = (Ret (now w), w)"

text \<open>
  \<open>Math.random()\<close>, as the numerator of a fraction with denominator \<open>2 ^ 53\<close>: the next draw of the
  random source \<open>rng\<close>.
\<close>

definition math_random :: "nat prog" where
  "math_random w = (Ret (rng w (draws w) mod 2 ^ 53), w\<lparr>draws := Suc (draws w)\<rparr>)"

text \<open>Mutable object fields shared between calls live in \<open>cells\<close>.\<close>

definition get_cell :: "nat \<Rightarrow> js prog" where
  "get_cell a w = (Ret (cells w a), w)"

definition set_cell :: "nat \<Rightarrow> js \<Rightarrow> unit prog" where
  "set_cell a v w = (Ret (), w\<lparr>cells := (cells w)(a := v)\<rparr>)"

definition expect :: "assertion \<Rightarrow> unit prog" where
  "expect a w = (case chai w a of None \<Rightarrow> (Ret (), w) | Some e \<Rightarrow> (Throw e, w))"

text \<open>An error that escapes through an event handler instead of a promise.\<close>

definition uncaught :: "js \<Rightarrow> unit prog" where
  "uncaught e w = (Ret (), w\<lparr>unhandled := unhandled w @ [e]\<rparr>)"

definition get_path :: "js \<Rightarrow> key list \<Rightarrow> js prog" where
  "get_path v ks = eval (path v ks)"

section \<open>Running programs\<close>

text \<open>
  \<open>wp m Q w\<close> says that the outcome and the world that \<open>m\<close> leaves from \<open>w\<close> satisfy \<open>Q\<close>.  The
  equations below push it through every statement, which is how the component proofs run a
  function symbolically against an arbitrary outside world.
\<close>

definition wp :: "'a prog \<Rightarrow> ('a outcome \<Rightarrow> world \<Rightarrow> bool) \<Rightarrow> world \<Rightarrow> bool" where
  "wp m Q w = (case m w of (r, w') \<Rightarrow> Q r w')"

lemma wp_iff: "wp m Q w \<longleftrightarrow> (\<forall>r w'. m w = (r, w') \<longrightarrow> Q r w')"
  by (simp add: wp_def split: prod.splits)

lemma wp_fst_snd: "wp m Q w = Q (fst (m w)) (snd (m w))"
  by (simp add: wp_def split_beta)

lemma wpI: "(\<And>r w'. m w = (r, w') \<Longrightarrow> Q r w') \<Longrightarrow> wp m Q w"
  by (simp add: wp_iff)

lemma wpD: "wp m Q w \<Longrightarrow> m w = (r, w') \<Longrightarrow> Q r w'"
  by (simp add: wp_iff)

lemma wp_mono: "wp m Q w \<Longrightarrow> (\<And>r w'. Q r w' \<Longrightarrow> R r w') \<Longrightarrow> wp m R w"
  by (simp add: wp_iff)

lemma ret_run [run_simps]: "ret x w = (Ret x, w)"
  by (simp add: ret_def)

lemma throw_run [run_simps]: "throw e w = (Throw e, w)"
  by (simp add: throw_def)

lemma seq_run [run_simps]: "seq m k w = bind m (\<lambda>_. k) w"
  by (simp add: seq_def)

lemma bind_Ret [run_simps]: "m w = (Ret x, w') \<Longrightarrow> bind m f w = f x w'"
  by (simp add: bind_def)

lemma bind_Throw [run_simps]: "m w = (Throw e, w') \<Longrightarrow> bind m f w = (Throw e, w')"
  by (simp add: bind_def)

lemma bind_Hang [run_simps]: "m w = (Hang, w') \<Longrightarrow> bind m f w = (Hang, w')"
  by (simp add: bind_def)

text \<open>Statements associate, and a returned value is passed on.\<close>

lemma bind_bind: "bind (bind m f) g = bind m (\<lambda>x. bind (f x) g)"
  by (rule ext) (simp add: bind_def split: prod.splits outcome.splits)

lemma bind_ret: "bind (ret x) f = f x"
  by (rule ext) (simp add: bind_def ret_def)

lemma try_Ret [run_simps]: "m w = (Ret x, w') \<Longrightarrow> try_catch m h w = (Ret x, w')"
  by (simp add: try_catch_def)

lemma try_Throw [run_simps]: "m w = (Throw e, w') \<Longrightarrow> try_catch m h w = h e w'"
  by (simp add: try_catch_def)

lemma try_Hang [run_simps]: "m w = (Hang, w') \<Longrightarrow> try_catch m h w = (Hang, w')"
  by (simp add: try_catch_def)

lemma eval_Inr [run_simps]: "eval (Inr x) w = (Ret x, w)"
  by (simp add: eval_def ret_def)

lemma eval_Inl [run_simps]: "eval (Inl e) w = (Throw e, w)"
  by (simp add: eval_def throw_def)

lemma eval_run: "eval r w = (case r of Inl e \<Rightarrow> Throw e | Inr x \<Rightarrow> Ret x, w)"
  by (cases r) (simp_all add: run_simps)

lemma await_run:
  "await c w =
     (case fst (services w (calls w) c) of Inl e \<Rightarrow> Throw e | Inr v \<Rightarrow> Ret v,
      w\<lparr>calls := calls w @ [c], now := now w + int (snd (services w (calls w) c))\<rparr>)"
  by (simp add: await_def Let_def split_beta split: sum.splits)

lemmas prim_run [run_simps] =
  console_log_def process_env_def date_now_def get_cell_def set_cell_def expect_def
  get_path_def if_then_def math_random_def uncaught_def

section \<open>What programs leave unchanged\<close>

text \<open>
  Every function of the sources only adds to the call history, and none of them changes the
  environment variables, the outside world or the assertion library.
\<close>

definition same_outside :: "world \<Rightarrow> world \<Rightarrow> bool" where
  "same_outside w w' =
     (env w' = env w \<and> services w' = services w \<and> watches w' = watches w \<and> chai w' = chai w \<and>
      rng w' = rng w \<and> prefix (calls w) (calls w'))"

lemma same_outside_refl [simp, intro]: "same_outside w w"
  by (simp add: same_outside_def)

lemma same_outside_trans [trans]: "same_outside u v \<Longrightarrow> same_outside v w \<Longrightarrow> same_outside u w"
  by (auto simp: same_outside_def)

definition framed :: "'a prog \<Rightarrow> bool" where
  "framed m = (\<forall>w. same_outside w (snd (m w)))"

lemma framedD: "framed m \<Longrightarrow> m w = (r, w') \<Longrightarrow> same_outside w w'"
  by (metis framed_def snd_conv)

lemma framedI: "(\<And>w. same_outside w (snd (m w))) \<Longrightarrow> framed m"
  by (simp add: framed_def)

lemma framed_ret [frame_rules, intro!]: "framed (ret x)"
  by (simp add: framed_def ret_def)

lemma framed_throw [frame_rules, intro!]: "framed (throw e)"
  by (simp add: framed_def throw_def)

lemma framed_never [frame_rules, intro!]: "framed never"
  by (simp add: framed_def never_def)

lemma framed_bind [frame_rules, intro]:
  assumes "framed m" and "\<And>x. framed (f x)"
  shows "framed (bind m f)"
proof (rule framedI)
  fix w
  obtain r w' where m: "m w = (r, w')" by fastforce
  then have *: "same_outside w w'" using assms(1) by (rule framedD [rotated])
  show "same_outside w (snd (bind m f w))"
  proof (cases r)
    case (Ret x)
    with m have "bind m f w = f x w'" by (simp add: run_simps)
    moreover have "same_outside w' (snd (f x w'))" using assms(2) by (simp add: framed_def)
    ultimately show ?thesis using * by (metis same_outside_trans)
  qed (use m * in \<open>simp_all add: run_simps\<close>)
qed

lemma framed_seq [frame_rules, intro]: "framed m \<Longrightarrow> framed k \<Longrightarrow> framed (seq m k)"
  by (simp add: seq_def framed_bind)

lemma framed_try [frame_rules, intro]:
  assumes "framed m" and "\<And>e. framed (h e)"
  shows "framed (try_catch m h)"
proof (rule framedI)
  fix w
  obtain r w' where m: "m w = (r, w')" by fastforce
  then have *: "same_outside w w'" using assms(1) by (rule framedD [rotated])
  show "same_outside w (snd (try_catch m h w))"
  proof (cases r)
    case (Throw e)
    with m have "try_catch m h w = h e w'" by (simp add: run_simps)
    moreover have "same_outside w' (snd (h e w'))" using assms(2) by (simp add: framed_def)
    ultimately show ?thesis using * by (metis same_outside_trans)
  qed (use m * in \<open>simp_all add: run_simps\<close>)
qed

lemma framed_finally [frame_rules, intro]:
  assumes "framed m" and "framed f"
  shows "framed (finally_do m f)"
proof (rule framedI)
  fix w
  obtain r w' where m: "m w = (r, w')" by fastforce
  obtain r2 w'' where f: "f w' = (r2, w'')" by fastforce
  have "same_outside w w'" using assms(1) m by (rule framedD)
  moreover have "same_outside w' w''" using assms(2) f by (rule framedD)
  ultimately show "same_outside w (snd (finally_do m f w))"
    by (cases r; cases r2)
       (auto simp: finally_do_def m f intro: same_outside_trans)
qed

lemma framed_eval [frame_rules, intro!]: "framed (eval r)"
  by (cases r) (simp_all add: framed_def run_simps)

lemma framed_get_path [frame_rules, intro!]: "framed (get_path v ks)"
  by (simp add: get_path_def framed_eval)

lemma framed_await [frame_rules, intro!]: "framed (await c)"
  by (simp add: framed_def await_run same_outside_def)

lemma framed_console_log [frame_rules, intro!]: "framed (console_log args)"
  by (simp add: framed_def console_log_def same_outside_def)

lemma framed_process_env [frame_rules, intro!]: "framed (process_env k)"
  by (simp add: framed_def process_env_def)

lemma framed_date_now [frame_rules, intro!]: "framed date_now"
  by (simp add: framed_def date_now_def)

lemma framed_math_random [frame_rules, intro!]: "framed math_random"
  by (simp add: framed_def math_random_def same_outside_def)

lemma framed_get_cell [frame_rules, intro!]: "framed (get_cell a)"
  by (simp add: framed_def get_cell_def)

lemma framed_set_cell [frame_rules, intro!]: "framed (set_cell a v)"
  by (simp add: framed_def set_cell_def same_outside_def)

lemma framed_expect [frame_rules, intro!]: "framed (expect a)"
  by (simp add: framed_def expect_def split: option.splits)

lemma framed_uncaught [frame_rules, intro!]: "framed (uncaught e)"
  by (simp add: framed_def uncaught_def same_outside_def)

lemma framed_if [frame_rules, intro]: "framed m \<Longrightarrow> framed k \<Longrightarrow> framed (if b then m else k)"
  by simp

lemma framed_if_then [frame_rules, intro]: "framed m \<Longrightarrow> framed (if_then b m)"
  by (simp add: if_then_def framed_ret)

lemma framed_for_each [frame_rules, intro]: "(\<And>x. framed (body x)) \<Longrightarrow> framed (for_each xs body)"
  by (induction xs) (auto intro: frame_rules)

lemma framed_map_each [frame_rules, intro]: "(\<And>x. framed (body x)) \<Longrightarrow> framed (map_each xs body)"
  by (induction xs) (auto intro: frame_rules)

section \<open>Programs that settle, programs that always return\<close>

definition settles :: "'a prog \<Rightarrow> bool" where
  "settles m = (\<forall>w. fst (m w) \<noteq> Hang)"

definition returns :: "'a prog \<Rightarrow> bool" where
  "returns m = (\<forall>w. \<exists>x. fst (m w) = Ret x)"

named_theorems settle_rules \<open>programs whose promise is always settled\<close>

lemma returns_settles: "returns m \<Longrightarrow> settles m"
  by (metis outcome.distinct(3) returns_def settles_def)

lemma settles_basic [settle_rules, intro!]:
  "settles (ret x)" "settles (throw e)" "settles (eval r)" "settles (get_path v ks)"
  "settles (await c)" "settles (console_log args)" "settles (process_env k)" "settles date_now"
  "settles (get_cell a)" "settles (set_cell a v)" "settles (expect b)" "settles math_random"
  "settles (uncaught e')"
  by (simp_all add: settles_def run_simps eval_run await_run split: sum.splits option.splits)

lemma settles_bind [settle_rules, intro]:
  "settles m \<Longrightarrow> (\<And>x. settles (f x)) \<Longrightarrow> settles (bind m f)"
  by (auto simp: settles_def bind_def split: prod.splits outcome.splits) (metis fst_conv)

lemma settles_seq [settle_rules, intro]: "settles m \<Longrightarrow> settles k \<Longrightarrow> settles (seq m k)"
  by (simp add: seq_def settles_bind)

lemma settles_try [settle_rules, intro]:
  "settles m \<Longrightarrow> (\<And>e. settles (h e)) \<Longrightarrow> settles (try_catch m h)"
  by (auto simp: settles_def try_catch_def split: prod.splits outcome.splits) (metis fst_conv)

lemma settles_finally [settle_rules, intro]:
  "settles m \<Longrightarrow> settles f \<Longrightarrow> settles (finally_do m f)"
  by (auto simp: settles_def finally_do_def split: prod.splits outcome.splits) (metis fst_conv)+

lemma settles_if [settle_rules, intro]: "settles m \<Longrightarrow> settles k \<Longrightarrow> settles (if b then m else k)"
  by simp

lemma settles_if_then [settle_rules, intro]: "settles m \<Longrightarrow> settles (if_then b m)"
  by (simp add: if_then_def settles_basic)

lemma settles_for_each [settle_rules, intro]: "(\<And>x. settles (body x)) \<Longrightarrow> settles (for_each xs body)"
  by (induction xs) (auto intro: settle_rules)

lemma settles_map_each [settle_rules, intro]: "(\<And>x. settles (body x)) \<Longrightarrow> settles (map_each xs body)"
  by (induction xs) (auto intro!: settle_rules)

text \<open>A handler that cannot fail makes a settling program always return.\<close>

lemma returns_try:
  assumes "settles m" and "\<And>e. returns (h e)"
  shows "returns (try_catch m h)"
  unfolding returns_def
proof
  fix w
  obtain r w' where m: "m w = (r, w')" by fastforce
  with assms(1) have "r \<noteq> Hang" by (metis fst_conv settles_def)
  with m assms(2) show "\<exists>x. fst (try_catch m h w) = Ret x"
    by (cases r) (auto simp: run_simps returns_def)
qed

lemma returns_bind: "returns m \<Longrightarrow> (\<And>x. returns (f x)) \<Longrightarrow> returns (bind m f)"
  by (auto simp: returns_def bind_def split: prod.splits outcome.splits)
     (metis fst_conv outcome.distinct(1,3))+

lemma returns_seq: "returns m \<Longrightarrow> returns k \<Longrightarrow> returns (seq m k)"
  by (simp add: seq_def returns_bind)

lemma returns_basic:
  "returns (ret x)" "returns (console_log args)" "returns (process_env k)" "returns (get_cell a)"
  "returns (set_cell a v)" "returns (uncaught e)"
  by (simp_all add: returns_def run_simps)

lemma returns_unit: "returns m \<Longrightarrow> fst (m w) = Ret ()"
  by (auto simp: returns_def)

section \<open>Remote operations as an interface\<close>

text \<open>
  What a caller may rely on when it awaits an operation of another component: the operation
  always settles, and all it does to the outside is to append to the history of calls.
\<close>

locale remote_operation =
  fixes op :: "'x \<Rightarrow> 'a prog"
  assumes op_framed: "framed (op x)"
    and op_settles: "settles (op x)"
begin

lemma op_outcome: "\<exists>w'. (\<exists>v. op x w = (Ret v, w')) \<or> (\<exists>e. op x w = (Throw e, w'))"
  using op_settles [of x] by (metis outcome.exhaust prod.collapse settles_def)

lemma op_history: "\<exists>cs. calls (snd (op x w)) = calls w @ cs"
  using op_framed [of x] by (auto simp: framed_def same_outside_def prefix_def)

lemma op_env: "env (snd (op x w)) = env w"
  using op_framed [of x] by (simp add: framed_def same_outside_def)

lemma wrapped_framed: "(\<And>e. framed (h e)) \<Longrightarrow> framed (try_catch (op x) h)"
  by (rule framed_try [OF op_framed])

lemma wrapped_settles: "(\<And>e. settles (h e)) \<Longrightarrow> settles (try_catch (op x) h)"
  by (rule settles_try [OF op_settles])

end

end
