(* ===== verification/Json.thy ===== *)
theory Json
  imports Effects
begin

text \<open>
  \<open>JSON.parse\<close> and \<open>JSON.stringify\<close> of the JavaScript standard library, which the clients use
  on everything that comes from and goes to a subprocess.  The parser is recursive descent with
  fuel; \<open>json_value_enough\<close> shows that twice the length of the text is enough fuel.  The main fact is
  the round trip: what was parsed once is parsed to the same value after it was printed, with
  any indentation.
\<close>

section \<open>Characters\<close>

definition is_ws :: "char \<Rightarrow> bool" where
  "is_ws c = (c = CHR 0x20 \<or> c = CHR 0x09 \<or> c = CHR 0x0A \<or> c = CHR 0x0D)"

definition is_digit :: "char \<Rightarrow> bool" where
  "is_digit c = (48 \<le> (of_char c :: nat) \<and> (of_char c :: nat) \<le> 57)"

definition digit_val :: "char \<Rightarrow> nat" where
  "digit_val c = of_char c - 48"

definition skip_ws :: "string \<Rightarrow> string" where
  "skip_ws s = dropWhile is_ws s"

definition hex_val :: "char \<Rightarrow> nat option" where
  "hex_val c = (let n = of_char c in
     if 48 \<le> n \<and> n \<le> 57 then Some (n - 48)
     else if 97 \<le> n \<and> n \<le> 102 then Some (n - 87)
     else if 65 \<le> n \<and> n \<le> 70 then Some (n - 55)
     else None)"

definition hex_char :: "nat \<Rightarrow> char" where
  "hex_char d = (if d < 10 then char_of (48 + d) else char_of (87 + d))"

section \<open>Printing\<close>

definition esc :: "char \<Rightarrow> string" where
  "esc c =
     (if c = CHR 0x22 then [CHR 0x5C, CHR 0x22]
      else if c = CHR 0x5C then [CHR 0x5C, CHR 0x5C]
      else if c = CHR 0x08 then [CHR 0x5C, CHR ''b'']
      else if c = CHR 0x0C then [CHR 0x5C, CHR ''f'']
      else if c = CHR 0x0A then [CHR 0x5C, CHR ''n'']
      else if c = CHR 0x0D then [CHR 0x5C, CHR ''r'']
      else if c = CHR 0x09 then [CHR 0x5C, CHR ''t'']
      else if (of_char c :: nat) < 32
        then [CHR 0x5C, CHR ''u'', CHR ''0'', CHR ''0'',
              hex_char (of_char c div 16), hex_char (of_char c mod 16)]
      else [c])"

definition json_quote :: "string \<Rightarrow> string" where
  "json_quote s = [CHR 0x22] @ concat (map esc s) @ [CHR 0x22]"

text \<open>
  The text of a value, given the indentation unit \<open>gap\<close> (empty for the compact form) and the
  current indentation.  Undefined members of an object are left out, an undefined array element
  is \<open>null\<close>, and of an \<open>Error\<close> only its own further properties are visible.
\<close>

definition newline :: "string \<Rightarrow> string \<Rightarrow> string" where
  "newline gap ind = (if gap = [] then [] else CHR 0x0A # ind)"

definition colon :: "string \<Rightarrow> string" where
  "colon gap = (if gap = [] then '':'' else '': '')"

fun ser :: "string \<Rightarrow> string \<Rightarrow> js \<Rightarrow> string"
  and ser_elems :: "string \<Rightarrow> string \<Rightarrow> js list \<Rightarrow> string"
  and ser_members :: "string \<Rightarrow> string \<Rightarrow> (string \<times> js) list \<Rightarrow> string list"
where
  "ser gap ind Undef = ''null''"
| "ser gap ind Null = ''null''"
| "ser gap ind (Bool b) = (if b then ''true'' else ''false'')"
| "ser gap ind (Num i) = show_int i"
| "ser gap ind (Dec s) = s"
| "ser gap ind (Str s) = json_quote s"
| "ser gap ind (Arr []) = ''[]''"
| "ser gap ind (Arr (v # vs)) =
     ''['' @ newline gap (ind @ gap) @ ser gap (ind @ gap) v @ ser_elems gap (ind @ gap) vs
       @ newline gap ind @ '']''"
| "ser gap ind (Obj ps) =
     (case ser_members gap (ind @ gap) ps of
        [] \<Rightarrow> ''{}''
      | ms \<Rightarrow> ''{'' @ newline gap (ind @ gap) @ join ('','' @ newline gap (ind @ gap)) ms
               @ newline gap ind @ ''}'')"
| "ser gap ind (Err n m ps) =
     (case ser_members gap (ind @ gap) ps of
        [] \<Rightarrow> ''{}''
      | ms \<Rightarrow> ''{'' @ newline gap (ind @ gap) @ join ('','' @ newline gap (ind @ gap)) ms
               @ newline gap ind @ ''}'')"
| "ser_elems gap ind [] = []"
| "ser_elems gap ind (v # vs) = '','' @ newline gap ind @ ser gap ind v @ ser_elems gap ind vs"
| "ser_members gap ind [] = []"
| "ser_members gap ind ((k, v) # ps) =
     (if v = Undef then ser_members gap ind ps
      else (json_quote k @ colon gap @ ser gap ind v) # ser_members gap ind ps)"

text \<open>\<open>JSON.stringify(v, null, gap)\<close>\<close>

definition stringify :: "string \<Rightarrow> js \<Rightarrow> js" where
  "stringify gap v = (if v = Undef then Undef else Str (ser gap [] v))"

abbreviation tab :: string where
  "tab \<equiv> [CHR 0x09]"

section \<open>Parsing\<close>

text \<open>A code point as UTF-8 bytes.\<close>

definition utf8 :: "nat \<Rightarrow> string" where
  "utf8 u =
     (if u < 128 then [char_of u]
      else if u < 2048 then [char_of (192 + u div 64), char_of (128 + u mod 64)]
      else if u < 65536
        then [char_of (224 + u div 4096), char_of (128 + u div 64 mod 64), char_of (128 + u mod 64)]
      else [char_of (240 + u div 262144), char_of (128 + u div 4096 mod 64),
            char_of (128 + u div 64 mod 64), char_of (128 + u mod 64)])"

definition hex4 :: "string \<Rightarrow> nat option" where
  "hex4 s = (case map hex_val (take 4 s) of
     [Some a, Some b, Some c, Some d] \<Rightarrow> Some (4096 * a + 256 * b + 16 * c + d)
   | _ \<Rightarrow> None)"

text \<open>The escapes of one character after a backslash, other than \<open>u\<close>.\<close>

definition simple_escape :: "char \<Rightarrow> char option" where
  "simple_escape d =
     (if d = CHR 0x22 then Some (CHR 0x22)
      else if d = CHR 0x5C then Some (CHR 0x5C)
      else if d = CHR 0x2F then Some (CHR 0x2F)
      else if d = CHR ''b'' then Some (CHR 0x08)
      else if d = CHR ''f'' then Some (CHR 0x0C)
      else if d = CHR ''n'' then Some (CHR 0x0A)
      else if d = CHR ''r'' then Some (CHR 0x0D)
      else if d = CHR ''t'' then Some (CHR 0x09)
      else None)"

text \<open>
  One \<open>u\<close> escape: the text after the letter gives the bytes and how much was read; a high
  surrogate followed by an escaped low one is a single code point.
\<close>

definition unicode_escape :: "string \<Rightarrow> (string \<times> nat) option" where
  "unicode_escape s = (case hex4 s of
     None \<Rightarrow> None
   | Some u \<Rightarrow>
       (if 55296 \<le> u \<and> u < 56320 \<and> take 2 (drop 4 s) = [CHR 0x5C, CHR ''u'']
        then (case hex4 (drop 6 s) of
                None \<Rightarrow> None
              | Some l \<Rightarrow> if 56320 \<le> l \<and> l < 57344
                          then Some (utf8 (65536 + (u - 55296) * 1024 + (l - 56320)), 10)
                          else Some (utf8 u, 4))
        else Some (utf8 u, 4)))"

definition prepend :: "'c list \<Rightarrow> ('c list \<times> 'd) option \<Rightarrow> ('c list \<times> 'd) option" where
  "prepend cs r = (case r of None \<Rightarrow> None | Some (t, rest) \<Rightarrow> Some (cs @ t, rest))"

text \<open>The rest of a string literal after its opening quote.\<close>

function parse_str :: "string \<Rightarrow> (string \<times> string) option" where
  "parse_str [] = None"
| "parse_str (c # r) =
     (if c = CHR 0x22 then Some ([], r)
      else if c = CHR 0x5C then
        (case r of
           [] \<Rightarrow> None
         | d # r' \<Rightarrow>
             (if d = CHR ''u''
              then (case unicode_escape r' of
                      None \<Rightarrow> None
                    | Some (bs, n) \<Rightarrow> prepend bs (parse_str (drop n r')))
              else (case simple_escape d of
                      None \<Rightarrow> None
                    | Some e \<Rightarrow> prepend [e] (parse_str r'))))
      else if (of_char c :: nat) < 32 then None
      else prepend [c] (parse_str r))"
  by pat_completeness auto
termination
  by (relation "measure length") auto

declare parse_str.simps [simp del]

definition read_nat :: "string \<Rightarrow> nat" where
  "read_nat ds = foldl (\<lambda>n c. 10 * n + digit_val c) 0 ds"

definition frac_part :: "string \<Rightarrow> (string \<times> string) option" where
  "frac_part s = (case s of
     c # r \<Rightarrow> (if c = CHR ''.''
               then (let ds = takeWhile is_digit r in
                     if ds = [] then None else Some (c # ds, dropWhile is_digit r))
               else Some ([], s))
   | [] \<Rightarrow> Some ([], []))"

definition sign_part :: "string \<Rightarrow> string \<times> string" where
  "sign_part s = (case s of
     c # r \<Rightarrow> (if c = CHR ''+'' \<or> c = CHR ''-'' then ([c], r) else ([], s))
   | [] \<Rightarrow> ([], []))"

definition exp_part :: "string \<Rightarrow> (string \<times> string) option" where
  "exp_part s = (case s of
     c # r \<Rightarrow> (if c = CHR ''e'' \<or> c = CHR ''E''
               then (let (sg, r') = sign_part r; ds = takeWhile is_digit r' in
                     if ds = [] then None else Some (c # sg @ ds, dropWhile is_digit r'))
               else Some ([], s))
   | [] \<Rightarrow> Some ([], []))"

definition minus_part :: "string \<Rightarrow> string \<times> string" where
  "minus_part s = (case s of c # r \<Rightarrow> (if c = CHR ''-'' then ([c], r) else ([], s)) | [] \<Rightarrow> ([], []))"

definition number_of :: "string \<Rightarrow> string \<Rightarrow> string \<Rightarrow> string \<Rightarrow> js" where
  "number_of mi ds fr ex =
     (if fr = [] \<and> ex = []
      then Num (if mi = [] then int (read_nat ds) else - int (read_nat ds))
      else Dec (mi @ ds @ fr @ ex))"

definition int_part_ok :: "string \<Rightarrow> bool" where
  "int_part_ok ds = (ds \<noteq> [] \<and> (hd ds = CHR ''0'' \<longrightarrow> tl ds = []))"

definition parse_number :: "string \<Rightarrow> (js \<times> string) option" where
  "parse_number s =
     (let (mi, s1) = minus_part s; ds = takeWhile is_digit s1; s2 = dropWhile is_digit s1 in
      if \<not> int_part_ok ds then None
      else case frac_part s2 of
        None \<Rightarrow> None
      | Some (fr, s3) \<Rightarrow>
          (case exp_part s3 of
             None \<Rightarrow> None
           | Some (ex, s4) \<Rightarrow> Some (number_of mi ds fr ex, s4)))"

text \<open>\<open>true\<close>, \<open>false\<close>, \<open>null\<close> and numbers.\<close>

definition parse_atom :: "string \<Rightarrow> (js \<times> string) option" where
  "parse_atom s =
     (if starts_with ''true'' s then Some (Bool True, drop 4 s)
      else if starts_with ''false'' s then Some (Bool False, drop 5 s)
      else if starts_with ''null'' s then Some (Null, drop 4 s)
      else parse_number s)"

text \<open>The name of a member with its colon.\<close>

definition parse_key :: "string \<Rightarrow> (string \<times> string) option" where
  "parse_key s =
     (case skip_ws s of
        [] \<Rightarrow> None
      | q # r1 \<Rightarrow>
          (if q \<noteq> CHR 0x22 then None
           else case parse_str r1 of
             None \<Rightarrow> None
           | Some (k, r2) \<Rightarrow>
               (case skip_ws r2 of
                  [] \<Rightarrow> None
                | c # r3 \<Rightarrow> if c = CHR '':'' then Some (k, r3) else None)))"

fun json_value :: "nat \<Rightarrow> string \<Rightarrow> (js \<times> string) option"
  and json_elems :: "nat \<Rightarrow> js list \<Rightarrow> string \<Rightarrow> (js \<times> string) option"
  and json_members :: "nat \<Rightarrow> (string \<times> js) list \<Rightarrow> string \<Rightarrow> (js \<times> string) option"
where
  "json_value 0 s = None"
| "json_value (Suc n) s =
     (case skip_ws s of
        [] \<Rightarrow> None
      | c # r \<Rightarrow>
          (if c = CHR ''{''
           then (case skip_ws r of
                   c' # r' \<Rightarrow> (if c' = CHR ''}'' then Some (Obj [], r') else json_members n [] r)
                 | [] \<Rightarrow> None)
           else if c = CHR ''[''
           then (case skip_ws r of
                   c' # r' \<Rightarrow> (if c' = CHR '']'' then Some (Arr [], r') else json_elems n [] r)
                 | [] \<Rightarrow> None)
           else if c = CHR 0x22
           then (case parse_str r of None \<Rightarrow> None | Some (t, r') \<Rightarrow> Some (Str t, r'))
           else parse_atom (c # r)))"
| "json_elems 0 acc s = None"
| "json_elems (Suc n) acc s =
     (case json_value n s of
        None \<Rightarrow> None
      | Some (v, r) \<Rightarrow>
          (case skip_ws r of
             [] \<Rightarrow> None
           | c # r' \<Rightarrow>
               (if c = CHR '','' then json_elems n (acc @ [v]) r'
                else if c = CHR '']'' then Some (Arr (acc @ [v]), r')
                else None)))"
| "json_members 0 acc s = None"
| "json_members (Suc n) acc s =
     (case parse_key s of
        None \<Rightarrow> None
      | Some (k, r3) \<Rightarrow>
          (case json_value n r3 of
             None \<Rightarrow> None
           | Some (v, r4) \<Rightarrow>
               (case skip_ws r4 of
                  [] \<Rightarrow> None
                | c # r5 \<Rightarrow>
                    (if c = CHR '','' then json_members n (assoc_set k v acc) r5
                     else if c = CHR ''}'' then Some (Obj (assoc_set k v acc), r5)
                     else None))))"

text \<open>\<open>JSON.parse(s)\<close>: one value with nothing but white space after it.\<close>

definition syntax_error :: js where
  "syntax_error = Err ''SyntaxError'' ''Unexpected token in JSON'' []"

definition parse_text :: "string \<Rightarrow> js + js" where
  "parse_text s = (case json_value (Suc (2 * length s)) s of
     Some (v, r) \<Rightarrow> if skip_ws r = [] then Inr v else Inl syntax_error
   | None \<Rightarrow> Inl syntax_error)"

text \<open>The argument of \<open>JSON.parse\<close> is converted to a string first.\<close>

definition json_parse :: "js \<Rightarrow> js + js" where
  "json_parse v = parse_text (to_str v)"

section \<open>Fuel\<close>

lemma prepend_Some: "prepend cs x = Some (t, r) \<longleftrightarrow> (\<exists>u. x = Some (u, r) \<and> t = cs @ u)"
  by (auto simp: prepend_def split: option.splits)

lemma skip_ws_length [simp, intro]: "length (skip_ws s) \<le> length s"
  by (simp add: skip_ws_def length_dropWhile_le)

lemma skip_ws_Cons_length: "skip_ws s = c # r \<Longrightarrow> length r < length s"
  using skip_ws_length [of s] by simp

lemma parse_str_length: "parse_str s = Some (t, r) \<Longrightarrow> length r < length s"
proof (induction "length s" arbitrary: s t r rule: less_induct)
  case less
  show ?case
  proof (cases s)
    case Nil
    with less.prems show ?thesis by (simp add: parse_str.simps)
  next
    case (Cons c s')
    have IH: "length r < length u" if "parse_str u = Some (t', r)" "length u \<le> length s'" for u t'
      using less.hyps [of u t' r] that Cons by simp
    from less.prems [unfolded Cons parse_str.simps] show ?thesis
      by (auto simp: Cons prepend_Some split: if_splits list.splits option.splits dest!: IH)
  qed
qed

lemma dropWhile_length_less: "takeWhile P s \<noteq> [] \<Longrightarrow> length (dropWhile P s) < length s"
  by (metis append_self_conv2 length_dropWhile_le nat_less_le takeWhile_dropWhile_id append_Nil2 
      length_append add_eq_self_zero add.commute length_0_conv)

lemma frac_part_length: "frac_part s = Some (l, r) \<Longrightarrow> length r \<le> length s"
  by (auto simp: frac_part_def Let_def split: list.splits if_splits
      intro: le_trans [OF length_dropWhile_le] le_SucI)

lemma exp_part_length: "exp_part s = Some (l, r) \<Longrightarrow> length r \<le> length s"
  by (auto simp: exp_part_def sign_part_def Let_def split: list.splits if_splits
      intro: le_trans [OF length_dropWhile_le] le_SucI)

lemma minus_part_length: "minus_part s = (l, r) \<Longrightarrow> length r \<le> length s"
  by (auto simp: minus_part_def split: list.splits if_splits)

lemma parse_number_Some:
  "parse_number s = Some (v, r) \<longleftrightarrow>
   (\<exists>mi s1 fr s3 ex. minus_part s = (mi, s1) \<and> int_part_ok (takeWhile is_digit s1) \<and>
      frac_part (dropWhile is_digit s1) = Some (fr, s3) \<and> exp_part s3 = Some (ex, r) \<and>
      v = number_of mi (takeWhile is_digit s1) fr ex)"
  by (simp add: parse_number_def Let_def split: prod.split option.split) blast

lemma parse_number_length: "parse_number s = Some (v, r) \<Longrightarrow> length r < length s"
  by (auto simp: parse_number_Some int_part_ok_def
      dest!: frac_part_length exp_part_length minus_part_length dropWhile_length_less)

lemma starts_with_drop: "starts_with p s \<Longrightarrow> p \<noteq> [] \<Longrightarrow> length (drop (length p) s) < length s"
  by (cases s) (auto simp: starts_with_def)

lemma parse_atom_length: "parse_atom s = Some (v, r) \<Longrightarrow> length r < length s"
  using starts_with_drop [of "''true''" s] starts_with_drop [of "''false''" s]
    starts_with_drop [of "''null''" s]
  by (auto simp: parse_atom_def dest: parse_number_length split: if_splits)

lemma parse_key_length: "parse_key s = Some (k, r) \<Longrightarrow> length r < length s"
  by (auto simp: parse_key_def split: list.splits if_splits option.splits
      dest!: skip_ws_Cons_length parse_str_length)

lemma json_lengths:
  "(\<forall>s v r. json_value n s = Some (v, r) \<longrightarrow> length r < length s) \<and>
   (\<forall>vs s v r. json_elems n vs s = Some (v, r) \<longrightarrow> length r < length s) \<and>
   (\<forall>ps s v r. json_members n ps s = Some (v, r) \<longrightarrow> length r < length s)"
proof (induction n)
  case 0
  show ?case by simp
next
  case (Suc n)
  then have V: "\<And>s v r. json_value n s = Some (v, r) \<Longrightarrow> length r < length s"
    and E: "\<And>vs s v r. json_elems n vs s = Some (v, r) \<Longrightarrow> length r < length s"
    and M: "\<And>ps s v r. json_members n ps s = Some (v, r) \<Longrightarrow> length r < length s"
    by blast+
  have "length r < length s" if "json_value (Suc n) s = Some (v, r)" for s v r
    using that
    by (auto split: list.splits if_splits option.splits
        dest!: skip_ws_Cons_length parse_str_length parse_atom_length V E M)
  moreover have "length r < length s" if "json_elems (Suc n) vs s = Some (v, r)" for vs s v r
    using that
    by (auto split: list.splits if_splits option.splits dest!: skip_ws_Cons_length V E)
  moreover have "length r < length s" if "json_members (Suc n) ps s = Some (v, r)" for ps s v r
    using that
    by (auto split: list.splits if_splits option.splits
        dest!: skip_ws_Cons_length parse_key_length V M)
  ultimately show ?case by blast
qed

lemmas json_value_length = json_lengths [THEN conjunct1, rule_format]

lemma json_fuel:
  "(\<forall>s m. 2 * length s < n \<longrightarrow> 2 * length s < m \<longrightarrow> json_value n s = json_value m s) \<and>
   (\<forall>vs s m. 2 * length s + 1 < n \<longrightarrow> 2 * length s + 1 < m \<longrightarrow> json_elems n vs s = json_elems m vs s) \<and>
   (\<forall>ps s m. 2 * length s + 1 < n \<longrightarrow> 2 * length s + 1 < m \<longrightarrow> json_members n ps s = json_members m ps s)"
proof (induction n)
  case 0
  show ?case by simp
next
  case (Suc n)
  then have V: "\<And>s m. 2 * length s < n \<Longrightarrow> 2 * length s < m \<Longrightarrow> json_value n s = json_value m s"
    and E: "\<And>vs s m. 2 * length s + 1 < n \<Longrightarrow> 2 * length s + 1 < m \<Longrightarrow>
              json_elems n vs s = json_elems m vs s"
    and M: "\<And>ps s m. 2 * length s + 1 < n \<Longrightarrow> 2 * length s + 1 < m \<Longrightarrow>
              json_members n ps s = json_members m ps s"
    by blast+
  have "json_value (Suc n) s = json_value m s" if "2 * length s < Suc n" "2 * length s < m" for s m
  proof -
    from that(2) obtain m' where m: "m = Suc m'" by (cases m) auto
    have "json_elems n [] r = json_elems m' [] r" "json_members n [] r = json_members m' [] r"
      if "skip_ws s = c # r" for c r
      using skip_ws_Cons_length [OF that] \<open>2 * length s < Suc n\<close> \<open>2 * length s < m\<close> m
      by (auto intro!: E M)
    then show ?thesis by (simp add: m split: list.split)
  qed
  moreover have "json_elems (Suc n) vs s = json_elems m vs s"
    if "2 * length s + 1 < Suc n" "2 * length s + 1 < m" for vs s m
  proof -
    from that(2) obtain m' where m: "m = Suc m'" by (cases m) auto
    have v: "json_value n s = json_value m' s" using that m by (auto intro: V)
    have "json_elems n (vs @ [v]) r' = json_elems m' (vs @ [v]) r'"
      if "json_value m' s = Some (v, r)" "skip_ws r = c # r'" for v r c r'
      using json_value_length [OF that(1)] skip_ws_Cons_length [OF that(2)]
        \<open>2 * length s + 1 < Suc n\<close> \<open>2 * length s + 1 < m\<close> m
      by (auto intro!: E)
    then show ?thesis by (simp add: m v split: list.split option.split)
  qed
  moreover have "json_members (Suc n) ps s = json_members m ps s"
    if "2 * length s + 1 < Suc n" "2 * length s + 1 < m" for ps s m
  proof -
    from that(2) obtain m' where m: "m = Suc m'" by (cases m) auto
    have v: "json_value n r3 = json_value m' r3" if "parse_key s = Some (k, r3)" for k r3
      using parse_key_length [OF that] \<open>2 * length s + 1 < Suc n\<close> \<open>2 * length s + 1 < m\<close> m
      by (auto intro!: V)
    have "json_members n (assoc_set k v ps) r5 = json_members m' (assoc_set k v ps) r5"
      if "parse_key s = Some (k, r3)" "json_value m' r3 = Some (v, r4)" "skip_ws r4 = c' # r5"
      for k r3 v r4 c' r5
      using parse_key_length [OF that(1)] json_value_length [OF that(2)] skip_ws_Cons_length [OF that(3)]
        \<open>2 * length s + 1 < Suc n\<close> \<open>2 * length s + 1 < m\<close> m
      by (auto intro!: M)
    note M' = this
    show ?thesis
    proof (cases "parse_key s")
      case None
      then show ?thesis by (simp add: m)
    next
      case (Some kr)
      then obtain k r3 where key: "parse_key s = Some (k, r3)" by (cases kr) auto
      show ?thesis
      proof (cases "json_value m' r3")
        case None
        then show ?thesis by (simp add: m key v [OF key])
      next
        case (Some vr)
        then obtain v r4 where val: "json_value m' r3 = Some (v, r4)" by (cases vr) auto
        show ?thesis
          by (cases "skip_ws r4") (simp_all add: m key v [OF key] val M' [OF key val])
      qed
    qed
  qed
  ultimately show ?case by blast
qed

lemma json_value_enough: "2 * length s < n \<Longrightarrow> json_value n s = json_value (Suc (2 * length s)) s"
  by (rule json_fuel [THEN conjunct1, rule_format]) simp_all

section \<open>Reading back what was printed\<close>

subsection \<open>Numbers\<close>

lemma of_char_char_of_small [simp]: "n < 256 \<Longrightarrow> of_char (char_of n :: char) = (n :: nat)"
  by simp

lemma digit_char_props:
  assumes "d < 10"
  shows "is_digit (digit_char d)" and "digit_val (digit_char d) = d"
    and "digit_char d = CHR ''0'' \<longleftrightarrow> d = 0"
proof -
  have c: "(of_char (digit_char d) :: nat) = 48 + d"
    using assms by (simp add: digit_char_def)
  then show "is_digit (digit_char d)" "digit_val (digit_char d) = d"
    using assms by (simp_all add: is_digit_def digit_val_def)
  have "(of_char (CHR ''0'') :: nat) = 48" by simp
  with c show "digit_char d = CHR ''0'' \<longleftrightarrow> d = 0"
    by (metis add.right_neutral add_left_cancel of_char_eq_iff)
qed

lemma show_nat_digits: "\<forall>c \<in> set (show_nat n). is_digit c"
proof (induction n rule: show_nat.induct)
  case (1 n)
  then show ?case
    by (subst show_nat.simps) (auto simp: digit_char_props)
qed

lemma show_nat_nonempty [simp]: "show_nat n \<noteq> []"
  by (subst show_nat.simps) simp

lemma show_nat_hd: "hd (show_nat n) = CHR ''0'' \<Longrightarrow> n = 0"
proof (induction n rule: show_nat.induct)
  case (1 n)
  show ?case
  proof (cases "n < 10")
    case True
    with 1 show ?thesis by (simp add: show_nat.simps [of n] digit_char_props)
  next
    case False
    with 1 have "n div 10 = 0" by (simp add: show_nat.simps [of n])
    with False show ?thesis by simp
  qed
qed

lemma read_nat_snoc: "read_nat (ds @ [c]) = 10 * read_nat ds + digit_val c"
  by (simp add: read_nat_def)

lemma read_show_nat: "read_nat (show_nat n) = n"
proof (induction n rule: show_nat.induct)
  case (1 n)
  show ?case
  proof (cases "n < 10")
    case True
    then show ?thesis by (simp add: show_nat.simps [of n] read_nat_def digit_char_props)
  next
    case False
    with 1 show ?thesis by (simp add: show_nat.simps [of n] read_nat_snoc digit_char_props)
  qed
qed

text \<open>A text that cannot continue a number.\<close>

definition ends_number :: "string \<Rightarrow> bool" where
  "ends_number r = (case r of [] \<Rightarrow> True
     | c # _ \<Rightarrow> \<not> is_digit c \<and> c \<notin> set ''.eE+-'')"

lemma takeWhile_digits_append:
  "\<forall>c \<in> set ds. is_digit c \<Longrightarrow> ends_number r \<Longrightarrow>
   takeWhile is_digit (ds @ r) = ds \<and> dropWhile is_digit (ds @ r) = r"
  by (induction ds) (auto simp: ends_number_def split: list.splits)

lemma ends_number_parts:
  assumes "ends_number r"
  shows "frac_part r = Some ([], r)" and "exp_part r = Some ([], r)"
  using assms by (auto simp: frac_part_def exp_part_def ends_number_def split: list.splits)

lemma show_nat_no_minus: "minus_part (show_nat n @ r) = ([], show_nat n @ r)"
proof -
  obtain c ds where s: "show_nat n = c # ds" by (cases "show_nat n") auto
  then have "is_digit c" using show_nat_digits [of n] by simp
  then have "c \<noteq> CHR ''-''" by (auto simp: is_digit_def)
  then show ?thesis by (simp add: minus_part_def s)
qed

lemma show_nat_int_part: "int_part_ok (show_nat n)"
  using show_nat_hd [of n] by (auto simp: int_part_ok_def show_nat.simps [of 0])

lemma parse_show_int:
  assumes "ends_number r"
  shows "parse_number (show_int i @ r) = Some (Num i, r)"
proof (cases "i < 0")
  case True
  then have "minus_part (show_int i @ r) = (''-'', show_nat (nat (- i)) @ r)"
    by (simp add: show_int_def minus_part_def)
  with True assms show ?thesis
    using takeWhile_digits_append [OF show_nat_digits assms, of "nat (- i)"]
    by (simp add: parse_number_Some show_nat_int_part ends_number_parts read_show_nat number_of_def)
next
  case False
  with assms show ?thesis
    using takeWhile_digits_append [OF show_nat_digits assms, of "nat i"]
    by (simp add: parse_number_Some show_int_def show_nat_no_minus show_nat_int_part
        ends_number_parts read_show_nat number_of_def)
qed

lemma lexeme_span:
  assumes "x = [] \<or> \<not> is_digit (hd x)"
  shows "takeWhile is_digit (takeWhile is_digit t @ x) = takeWhile is_digit t"
    and "dropWhile is_digit (takeWhile is_digit t @ x) = x"
proof -
  have "takeWhile is_digit x = []" using assms by (cases x) auto
  moreover have "dropWhile is_digit x = x" using assms by (cases x) auto
  ultimately show "takeWhile is_digit (takeWhile is_digit t @ x) = takeWhile is_digit t"
    and "dropWhile is_digit (takeWhile is_digit t @ x) = x"
    by (induction t) simp_all
qed

lemma span_append:
  assumes "ends_number r"
  shows "takeWhile is_digit (s @ r) = takeWhile is_digit s"
    and "dropWhile is_digit (s @ r) = dropWhile is_digit s @ r"
  using assms by (induction s) (auto simp: ends_number_def split: list.splits)

lemma frac_part_append:
  assumes "frac_part s = Some (l, s')" and "ends_number r"
  shows "frac_part (s @ r) = Some (l, s' @ r)"
proof (cases s)
  case Nil
  with assms show ?thesis by (simp add: frac_part_def [of "[]"] ends_number_parts)
next
  case (Cons c t)
  with assms show ?thesis
    by (auto simp: frac_part_def Let_def span_append split: if_splits)
qed

lemma exp_part_append:
  assumes "exp_part s = Some (l, s')" and "ends_number r"
  shows "exp_part (s @ r) = Some (l, s' @ r)"
proof (cases s)
  case Nil
  with assms show ?thesis by (simp add: exp_part_def [of "[]"] ends_number_parts)
next
  case (Cons c t)
  have "sign_part (t @ r) = (fst (sign_part t), snd (sign_part t) @ r)" if "t \<noteq> []"
    using that by (cases t) (simp_all add: sign_part_def)
  moreover have "t \<noteq> []" if "c = CHR ''e'' \<or> c = CHR ''E''"
    using assms(1) Cons that by (auto simp: exp_part_def sign_part_def)
  ultimately show ?thesis using assms Cons
    by (auto simp: exp_part_def Let_def span_append split: if_splits prod.splits)
qed

lemma parse_number_append:
  assumes "parse_number s = Some (v, s')" and "ends_number r"
  shows "parse_number (s @ r) = Some (v, s' @ r)"
proof -
  from assms(1) have "s \<noteq> []"
    by (auto simp: parse_number_Some minus_part_def int_part_ok_def)
  then have m: "minus_part (s @ r) = (fst (minus_part s), snd (minus_part s) @ r)"
    by (cases s) (simp_all add: minus_part_def)
  from assms(1) obtain mi s1 fr s3 ex where "minus_part s = (mi, s1)"
    "int_part_ok (takeWhile is_digit s1)" "frac_part (dropWhile is_digit s1) = Some (fr, s3)"
    "exp_part s3 = Some (ex, s')" "v = number_of mi (takeWhile is_digit s1) fr ex"
    by (auto simp: parse_number_Some)
  with m frac_part_append [OF _ assms(2)] exp_part_append [OF _ assms(2)] show ?thesis
    by (simp add: parse_number_def span_append [OF assms(2)])
qed

lemma exp_lexeme:
  "exp_part s = Some (l, s') \<Longrightarrow> exp_part l = Some (l, []) \<and> (l = [] \<or> hd l \<in> set ''eE'')"
  by (auto simp: exp_part_def sign_part_def Let_def takeWhile_idem split: list.splits if_splits
      dest: set_takeWhileD)


lemma frac_lexeme:
  assumes "frac_part s = Some (l, s')" and "x = [] \<or> hd x \<in> set ''eE''"
  shows "frac_part (l @ x) = Some (l, x)" and "l = [] \<or> hd l = CHR ''.''"
proof -
  have x': "x = [] \<or> \<not> is_digit (hd x)" using assms(2) by (auto simp: is_digit_def)
  note span = lexeme_span [OF x']
  have "frac_part x = Some ([], x)"
    using assms(2) by (cases x) (auto simp: frac_part_def)
  then show "frac_part (l @ x) = Some (l, x)"
    using assms(1) span by (auto simp: frac_part_def [of s] frac_part_def [of "CHR ''.'' # _"] Let_def
        split: list.splits if_splits)
  show "l = [] \<or> hd l = CHR ''.''"
    using assms(1) by (auto simp: frac_part_def Let_def split: list.splits if_splits)
qed


lemma parse_number_lexeme:
  assumes "parse_number s = Some (Dec d, r)"
  shows "parse_number d = Some (Dec d, [])"
proof -
  from assms obtain mi s1 fr s3 ex where minus: "minus_part s = (mi, s1)"
    and ok: "int_part_ok (takeWhile is_digit s1)"
    and fr: "frac_part (dropWhile is_digit s1) = Some (fr, s3)" and ex: "exp_part s3 = Some (ex, r)"
    and d: "Dec d = number_of mi (takeWhile is_digit s1) fr ex"
    by (auto simp: parse_number_Some)
  let ?ds = "takeWhile is_digit s1"
  have ex': "exp_part ex = Some (ex, [])" "ex = [] \<or> hd ex \<in> set ''eE''"
    using exp_lexeme [OF ex] by auto
  have fr': "frac_part (fr @ ex) = Some (fr, ex)" "fr = [] \<or> hd fr = CHR ''.''"
    using frac_lexeme [OF fr ex'(2)] by auto
  from d have d': "d = mi @ ?ds @ fr @ ex" by (simp add: number_of_def split: if_splits)
  have digits: "is_digit c" if "c \<in> set ?ds" for c using that by (auto dest: set_takeWhileD)
  have "fr @ ex = [] \<or> \<not> is_digit (hd (fr @ ex))"
    using fr'(2) ex'(2) by (cases fr) (auto simp: is_digit_def)
  note span = lexeme_span [OF this, of s1]
  have "minus_part d = (mi, ?ds @ fr @ ex)"
  proof (cases "mi = []")
    case True
    obtain c t where ds: "?ds = c # t" using ok by (cases ?ds) (auto simp: int_part_ok_def)
    then have "is_digit c" using digits by simp
    then have "c \<noteq> CHR ''-''" by (auto simp: is_digit_def)
    with True ds show ?thesis by (simp add: d' minus_part_def)
  next
    case False
    then have "mi = ''-''" using minus by (auto simp: minus_part_def split: list.splits if_splits)
    then show ?thesis by (simp add: d' minus_part_def)
  qed
  then show ?thesis using span ok fr' ex' d by (simp add: parse_number_Some)
qed

subsection \<open>Strings\<close>

lemma hex_val_char: "d < 16 \<Longrightarrow> hex_val (hex_char d) = Some d"
  by (auto simp: hex_val_def hex_char_def)

lemma hex_val_0: "hex_val (CHR ''0'') = Some 0"
  by (simp add: hex_val_def)

lemma parse_str_esc: "parse_str (esc c @ t) = prepend [c] (parse_str t)"
proof -
  let ?n = "of_char c :: nat"
  consider (special) "c \<in> {CHR 0x22, CHR 0x5C, CHR 0x08, CHR 0x0C, CHR 0x0A, CHR 0x0D, CHR 0x09}"
    | (control) "?n < 32" "c \<notin> {CHR 0x22, CHR 0x5C, CHR 0x08, CHR 0x0C, CHR 0x0A, CHR 0x0D, CHR 0x09}"
    | (plain) "\<not> ?n < 32" "c \<noteq> CHR 0x22" "c \<noteq> CHR 0x5C"
    by force
  then show ?thesis
  proof cases
    case special
    then show ?thesis
      by (elim insertE emptyE) (simp_all add: esc_def parse_str.simps simple_escape_def)
  next
    case control
    let ?h = "hex_char (?n div 16)" and ?l = "hex_char (?n mod 16)"
    have "hex4 (CHR ''0'' # CHR ''0'' # ?h # ?l # t) = Some ?n"
      using control(1) by (simp add: hex4_def hex_val_0 hex_val_char)
    then have "unicode_escape (CHR ''0'' # CHR ''0'' # ?h # ?l # t) = Some ([c], 4)"
      using control(1) by (simp add: unicode_escape_def utf8_def)
    with control show ?thesis by (simp add: esc_def parse_str.simps)
  next
    case plain
    then show ?thesis by (auto simp: esc_def parse_str.simps)
  qed
qed

lemma parse_str_quote: "parse_str (concat (map esc s) @ CHR 0x22 # r) = Some (s, r)"
  by (induction s) (simp_all add: parse_str_esc parse_str.simps(2) [of "CHR 0x22" r] prepend_def)

subsection \<open>Values\<close>

text \<open>What \<open>JSON.parse\<close> can return: no \<open>undefined\<close>, no \<open>Error\<close>, no repeated names.\<close>

fun wf_json :: "js \<Rightarrow> bool" where
  "wf_json Undef = False"
| "wf_json (Dec d) = (parse_number d = Some (Dec d, []))"
| "wf_json (Arr vs) = (\<forall>v \<in> set vs. wf_json v)"
| "wf_json (Obj ps) = (distinct (map fst ps) \<and> (\<forall>p \<in> set ps. wf_json (snd p)))"
| "wf_json (Err n m ps) = False"
| "wf_json _ = True"

lemma wf_assoc_set: "wf_json (Obj ps) \<Longrightarrow> wf_json v \<Longrightarrow> wf_json (Obj (assoc_set k v ps))"
  using set_assoc_set [of k v ps] by (auto simp: distinct_assoc_set)

lemma parse_number_wf: "parse_number s = Some (v, r) \<Longrightarrow> wf_json v"
proof -
  assume run: "parse_number s = Some (v, r)"
  then consider i where "v = Num i" | d where "v = Dec d"
    by (auto simp: parse_number_Some number_of_def split: if_splits)
  then show ?thesis using run by cases (auto dest: parse_number_lexeme)
qed

lemma parse_atom_wf: "parse_atom s = Some (v, r) \<Longrightarrow> wf_json v"
  by (auto simp: parse_atom_def split: if_splits dest: parse_number_wf)

lemma json_wf:
  "(\<forall>s v r. json_value n s = Some (v, r) \<longrightarrow> wf_json v) \<and>
   (\<forall>vs s v r. wf_json (Arr vs) \<longrightarrow> json_elems n vs s = Some (v, r) \<longrightarrow> wf_json v) \<and>
   (\<forall>ps s v r. wf_json (Obj ps) \<longrightarrow> json_members n ps s = Some (v, r) \<longrightarrow> wf_json v)"
proof (induction n)
  case 0
  show ?case by simp
next
  case (Suc n)
  then have V: "\<And>s v r. json_value n s = Some (v, r) \<Longrightarrow> wf_json v"
    and E: "\<And>vs s v r. json_elems n vs s = Some (v, r) \<Longrightarrow> wf_json (Arr vs) \<Longrightarrow> wf_json v"
    and M: "\<And>ps s v r. json_members n ps s = Some (v, r) \<Longrightarrow> wf_json (Obj ps) \<Longrightarrow> wf_json v"
    by blast+
  have "wf_json v" if "json_value (Suc n) s = Some (v, r)" for s v r
    using that E [of "[]"] M [of "[]"]
    by (auto split: list.splits if_splits option.splits dest: parse_atom_wf)
  moreover have "wf_json v" if "wf_json (Arr vs)" "json_elems (Suc n) vs s = Some (v, r)" for vs s v r
  proof -
    from that(2) obtain r3 u r4 where "json_value n s = Some (u, r4)"
      and "v = Arr (vs @ [u]) \<or> json_elems n (vs @ [u]) r3 = Some (v, r)"
      by (fastforce split: list.splits if_splits option.splits)
    moreover from this have "wf_json (Arr (vs @ [u]))" using that(1) V by auto
    ultimately show ?thesis using E by blast
  qed
  moreover have "wf_json v" if wf: "wf_json (Obj ps)" and run: "json_members (Suc n) ps s = Some (v, r)"
    for ps s v r
  proof -
    from run obtain k r3 u r4 c r5 where "json_value n r3 = Some (u, r4)"
      and "v = Obj (assoc_set k u ps) \<or> json_members n (assoc_set k u ps) r5 = Some (v, r)"
      by (simp split: list.splits if_splits option.splits prod.splits) blast+
    moreover from this have "wf_json (Obj (assoc_set k u ps))" using wf V wf_assoc_set by blast
    ultimately show ?thesis using M by blast
  qed
  ultimately show ?case by blast
qed

lemma parse_text_wf: "parse_text s = Inr v \<Longrightarrow> wf_json v"
  by (auto simp: parse_text_def split: option.splits if_splits
      dest: json_wf [THEN conjunct1, rule_format] simp del: json_value.simps)

subsection \<open>The round trip\<close>

abbreviation blank :: "string \<Rightarrow> bool" where
  "blank s \<equiv> list_all is_ws s"

lemma skip_ws_blank [simp]: "blank b \<Longrightarrow> skip_ws (b @ s) = skip_ws s"
  by (induction b) (auto simp: skip_ws_def)

lemma skip_ws_stop [simp]: "\<not> is_ws c \<Longrightarrow> skip_ws (c # s) = c # s"
  by (simp add: skip_ws_def)

lemma json_value_blank: "blank b \<Longrightarrow> json_value n (b @ s) = json_value n s"
  by (cases n) simp_all

lemma not_ws [simp]:
  "\<not> is_ws (CHR ''{'')" "\<not> is_ws (CHR ''}'')" "\<not> is_ws (CHR ''['')" "\<not> is_ws (CHR '']'')"
  "\<not> is_ws (CHR 0x22)" "\<not> is_ws (CHR '','')" "\<not> is_ws (CHR '':'')" "\<not> is_ws (CHR ''t'')"
  "\<not> is_ws (CHR ''f'')" "\<not> is_ws (CHR ''n'')" "\<not> is_ws (CHR ''-'')"
  by (simp_all add: is_ws_def)

lemma blank_newline [simp]: "blank ind \<Longrightarrow> blank (newline gap ind)"
  by (simp add: newline_def is_ws_def)

lemma ends_number_simps [simp]:
  "ends_number []" "ends_number (CHR '','' # s)" "ends_number (CHR '']'' # s)"
  "ends_number (CHR ''}'' # s)"
  by (simp_all add: ends_number_def is_digit_def)

lemma ends_number_blank: "blank b \<Longrightarrow> ends_number s \<Longrightarrow> ends_number (b @ s)"
  by (cases b) (auto simp: ends_number_def is_ws_def is_digit_def)

lemma parse_number_hd:
  "parse_number s = Some x \<Longrightarrow> \<exists>c t. s = c # t \<and> (is_digit c \<or> c = CHR ''-'')"
  by (cases s; cases x)
     (auto simp: parse_number_Some minus_part_def int_part_ok_def split: if_splits)

lemma json_value_number:
  assumes "parse_number s = Some (v, r)"
  shows "json_value (Suc n) s = Some (v, r)"
proof -
  from parse_number_hd [OF assms] obtain c t where s: "s = c # t"
    and c: "is_digit c \<or> c = CHR ''-''" by blast
  have "\<not> is_ws c" "c \<notin> {CHR ''{'', CHR ''['', CHR 0x22, CHR ''t'', CHR ''f'', CHR ''n''}"
    using c by (auto simp: is_digit_def is_ws_def)
  with s assms show ?thesis by (simp add: parse_atom_def starts_with_def)
qed

definition reads_back :: "js \<Rightarrow> bool" where
  "reads_back v = (\<forall>gap ind r. blank gap \<longrightarrow> blank ind \<longrightarrow> ends_number r \<longrightarrow>
     (\<exists>N. \<forall>n \<ge> N. json_value n (ser gap ind v @ r) = Some (v, r)))"

lemma reads_backE:
  assumes "reads_back v" "blank gap" "blank ind" "ends_number r"
  obtains N where "\<And>n. n \<ge> N \<Longrightarrow> json_value n (ser gap ind v @ r) = Some (v, r)"
  using assms unfolding reads_back_def by meson

lemma reads_back_Suc:
  assumes "\<And>gap ind r n. blank gap \<Longrightarrow> blank ind \<Longrightarrow> ends_number r \<Longrightarrow>
             json_value (Suc n) (ser gap ind v @ r) = Some (v, r)"
  shows "reads_back v"
  unfolding reads_back_def
proof (intro allI impI)
  fix gap ind r assume "blank gap" "blank ind" "ends_number r"
  then have "\<forall>n\<ge>1. json_value n (ser gap ind v @ r) = Some (v, r)"
    using assms by (metis One_nat_def Suc_le_D)
  then show "\<exists>N. \<forall>n\<ge>N. json_value n (ser gap ind v @ r) = Some (v, r)" by blast
qed

lemma reads_back_atoms:
  "reads_back Null" "reads_back (Bool b)" "reads_back (Num i)" "reads_back (Str s)"
  "wf_json (Dec d) \<Longrightarrow> reads_back (Dec d)"
proof -
  show "reads_back Null" "reads_back (Bool b)"
    by (rule reads_back_Suc, cases b; simp add: parse_atom_def starts_with_def)+
  show "reads_back (Num i)"
    by (rule reads_back_Suc) (simp add: json_value_number parse_show_int del: json_value.simps)
  show "reads_back (Str s)"
    by (rule reads_back_Suc) (simp add: json_quote_def parse_str_quote)
  show "reads_back (Dec d)" if "wf_json (Dec d)"
    using parse_number_append [of d "Dec d" "[]"] that
    by (intro reads_back_Suc) (simp add: json_value_number del: json_value.simps)
qed

lemma reads_back_elems:
  assumes "\<forall>u \<in> set (v # vs). reads_back u" and "blank gap" and "blank ind" and "blank b"
  shows "\<exists>N. \<forall>n \<ge> N. \<forall>acc. json_elems n acc
           (newline gap ind @ ser gap ind v @ ser_elems gap ind vs @ b @ '']'' @ r)
         = Some (Arr (acc @ v # vs), r)"
  using assms(1)
proof (induction vs arbitrary: v)
  case Nil
  have "ends_number (b @ '']'' @ r)" by (simp add: ends_number_blank assms(4))
  then obtain N where
    N: "\<And>n. n \<ge> N \<Longrightarrow> json_value n (ser gap ind v @ b @ '']'' @ r) = Some (v, b @ '']'' @ r)"
    using reads_backE [of v gap ind] Nil assms(2,3) by auto
  have "json_elems n acc (newline gap ind @ ser gap ind v @ ser_elems gap ind [] @ b @ '']'' @ r)
        = Some (Arr (acc @ [v]), r)" if "n \<ge> Suc N" for n acc
  proof -
    from that obtain m where "n = Suc m" "m \<ge> N" by (cases n) auto
    with N assms(3,4) show ?thesis by (simp add: json_value_blank)
  qed
  then show ?case by blast
next
  case (Cons u us)
  let ?X = "ser_elems gap ind (u # us) @ b @ '']'' @ r"
  have "ends_number ?X" by simp
  then obtain N where N: "\<And>n. n \<ge> N \<Longrightarrow> json_value n (ser gap ind v @ ?X) = Some (v, ?X)"
    using reads_backE [of v gap ind ?X] Cons.prems assms(2,3) by auto
  obtain N' where N': "\<forall>n\<ge>N'. \<forall>acc. json_elems n acc
        (newline gap ind @ ser gap ind u @ ser_elems gap ind us @ b @ '']'' @ r)
        = Some (Arr (acc @ u # us), r)"
    using Cons.IH [of u] Cons.prems by auto
  have "json_elems n acc (newline gap ind @ ser gap ind v @ ?X) = Some (Arr (acc @ v # u # us), r)"
    if "n \<ge> Suc (max N N')" for n acc
  proof -
    from that obtain m where "n = Suc m" "m \<ge> N" "m \<ge> N'" by (cases n) auto
    moreover have "json_value m (newline gap ind @ ser gap ind v @ ?X) = Some (v, ?X)"
      using N \<open>m \<ge> N\<close> assms(3) json_value_blank by (metis blank_newline)
    ultimately show ?thesis using N' by simp
  qed
  then show ?case by blast
qed


lemma ser_members_map:
  "(\<forall>p \<in> set ps. snd p \<noteq> Undef) \<Longrightarrow>
   ser_members gap ind ps = map (\<lambda>(k, v). json_quote k @ colon gap @ ser gap ind v) ps"
  by (induction ps) auto

lemma parse_key_quote:
  assumes "blank b"
  shows "parse_key (b @ json_quote k @ colon gap @ s) = Some (k, (if gap = [] then s else '' '' @ s))"
  using assms by (simp add: parse_key_def json_quote_def parse_str_quote colon_def)

lemma json_value_after_colon: "json_value n (if gap = [] then s else '' '' @ s) = json_value n s"
  by (simp add: json_value_blank [of "'' ''", simplified] is_ws_def)

lemma reads_back_members:
  assumes "\<forall>p \<in> set ((k, v) # ps). reads_back (snd p)" and "blank gap" and "blank ind" and "blank b"
  defines "f \<equiv> \<lambda>(k, v). json_quote k @ colon gap @ ser gap ind v"
  shows "\<exists>N. \<forall>n \<ge> N. \<forall>acc. distinct (map fst (acc @ (k, v) # ps)) \<longrightarrow>
           json_members n acc
             (newline gap ind @ join ('','' @ newline gap ind) (map f ((k, v) # ps)) @ b @ ''}'' @ r)
           = Some (Obj (acc @ (k, v) # ps), r)"
  using assms(1)
proof (induction ps arbitrary: k v)
  case Nil
  have "ends_number (b @ ''}'' @ r)" by (simp add: ends_number_blank assms(4))
  then obtain N where
    N: "\<And>n. n \<ge> N \<Longrightarrow> json_value n (ser gap ind v @ b @ ''}'' @ r) = Some (v, b @ ''}'' @ r)"
    using reads_backE [of v gap ind] Nil assms(2,3) by auto
  have "json_members n acc (newline gap ind @ f (k, v) @ b @ ''}'' @ r) = Some (Obj (acc @ [(k, v)]), r)"
    if "n \<ge> Suc N" "distinct (map fst (acc @ [(k, v)]))" for n acc
  proof -
    from that obtain m where "n = Suc m" "m \<ge> N" by (cases n) auto
    with N assms(3,4) that(2) show ?thesis
      by (simp add: f_def parse_key_quote json_value_after_colon assoc_set_fresh)
  qed
  then show ?case by auto
next
  case (Cons p ps)
  obtain k' v' where p: "p = (k', v')" by (cases p)
  let ?Y = "newline gap ind @ join ('','' @ newline gap ind) (map f ((k', v') # ps)) @ b @ ''}'' @ r"
  obtain N where N: "\<And>n. n \<ge> N \<Longrightarrow> json_value n (ser gap ind v @ CHR '','' # ?Y) = Some (v, CHR '','' # ?Y)"
    using reads_backE [of v gap ind "CHR '','' # ?Y"] Cons.prems assms(2,3) by auto
  obtain N' where N': "\<forall>n\<ge>N'. \<forall>acc. distinct (map fst (acc @ (k', v') # ps)) \<longrightarrow>
        json_members n acc ?Y = Some (Obj (acc @ (k', v') # ps), r)"
    using Cons.IH [of k' v'] Cons.prems p by auto
  have "json_members n acc (newline gap ind @ f (k, v) @ CHR '','' # ?Y) = Some (Obj (acc @ (k, v) # p # ps), r)"
    if "n \<ge> Suc (max N N')" and d: "distinct (map fst (acc @ (k, v) # p # ps))" for n acc
  proof -
    from that(1) obtain m where m: "n = Suc m" "m \<ge> N" "m \<ge> N'" by (cases n) auto
    have key: "parse_key (newline gap ind @ f (k, v) @ CHR '','' # ?Y) =
        Some (k, if gap = [] then ser gap ind v @ CHR '','' # ?Y else '' '' @ ser gap ind v @ CHR '','' # ?Y)"
      using parse_key_quote [of "newline gap ind" k gap "ser gap ind v @ CHR '','' # ?Y"] assms(3)
      by (simp add: f_def)
    have "json_members m (acc @ [(k, v)]) ?Y = Some (Obj (acc @ (k, v) # p # ps), r)"
      using N' m(3) d p by auto
    moreover have "assoc_set k v acc = acc @ [(k, v)]" using d by (simp add: assoc_set_fresh)
    ultimately show ?thesis using N [OF m(2)]
      by (simp only: m(1) json_members.simps key option.case prod.case json_value_after_colon
          skip_ws_stop not_ws list.case simp_thms if_True)
  qed
  moreover have "newline gap ind @ join ('','' @ newline gap ind) (map f ((k, v) # p # ps)) @ b @ ''}'' @ r
      = newline gap ind @ f (k, v) @ CHR '','' # ?Y"
    by (simp add: p)
  ultimately show ?case by (metis (no_types, lifting))
qed

text \<open>A list that parses as elements or members does not start with the closing bracket.\<close>

lemma json_elems_start:
  assumes "json_elems n acc s = Some x"
  obtains c t where "skip_ws s = c # t" and "c \<noteq> CHR '']''"
proof -
  obtain m where "n = Suc m" using assms by (cases n) auto
  with assms obtain y where y: "json_value m s = Some y" by (auto split: option.splits)
  then obtain k where m: "m = Suc k" by (cases m) auto
  obtain c t where c: "skip_ws s = c # t" using y m by (auto split: list.splits)
  have "parse_number (CHR '']'' # t) = None"
    using parse_number_hd [of "CHR '']'' # t"] by (cases "parse_number (CHR '']'' # t)") (auto simp: is_digit_def)
  then have "c \<noteq> CHR '']''" using y m c by (auto simp: parse_atom_def starts_with_def)
  with c show ?thesis by (rule that)
qed

lemma json_members_start:
  assumes "json_members n acc s = Some x"
  obtains t where "skip_ws s = CHR 0x22 # t"
  using assms by (cases n) (auto simp: parse_key_def split: list.splits option.splits if_splits)

lemma reads_back_Arr:
  assumes "\<forall>w \<in> set vs. reads_back w"
  shows "reads_back (Arr vs)"
proof (cases vs)
  case Nil
  then show ?thesis by (intro reads_back_Suc) simp
next
  case (Cons u us)
  show ?thesis
    unfolding reads_back_def
  proof (intro allI impI)
    fix gap ind r assume b: "blank gap" "blank ind" "ends_number r"
    let ?s = "newline gap (ind @ gap) @ ser gap (ind @ gap) u @ ser_elems gap (ind @ gap) us
              @ newline gap ind @ '']'' @ r"
    obtain N where N: "\<forall>n\<ge>N. \<forall>acc. json_elems n acc ?s = Some (Arr (acc @ u # us), r)"
      using reads_back_elems [OF assms [unfolded Cons], of gap "ind @ gap" "newline gap ind" r] b by auto
    obtain c t where c: "skip_ws ?s = c # t" "c \<noteq> CHR '']''"
      using N json_elems_start [of N "[]" ?s] by blast
    have "json_value n (ser gap ind (Arr vs) @ r) = Some (Arr vs, r)" if "n \<ge> Suc N" for n
    proof -
      from that obtain m where m: "n = Suc m" "m \<ge> N" by (cases n) auto
      have "ser gap ind (Arr vs) @ r = CHR ''['' # ?s" by (simp add: Cons)
      moreover have "json_elems m [] ?s = Some (Arr vs, r)" using N m(2) Cons by simp
      ultimately show ?thesis using c by (simp add: m(1))
    qed
    then show "\<exists>N. \<forall>n\<ge>N. json_value n (ser gap ind (Arr vs) @ r) = Some (Arr vs, r)" by blast
  qed
qed

lemma reads_back_Obj:
  assumes "\<forall>p \<in> set ps. reads_back (snd p)" and "distinct (map fst ps)"
    and "\<forall>p \<in> set ps. snd p \<noteq> Undef"
  shows "reads_back (Obj ps)"
proof (cases ps)
  case Nil
  then show ?thesis by (intro reads_back_Suc) simp
next
  case (Cons p qs)
  obtain k v where p: "p = (k, v)" by (cases p)
  show ?thesis
    unfolding reads_back_def
  proof (intro allI impI)
    fix gap ind r assume b: "blank gap" "blank ind" "ends_number r"
    define f where "f = (\<lambda>(k, v). json_quote k @ colon gap @ ser gap (ind @ gap) v)"
    let ?s = "newline gap (ind @ gap) @ join ('','' @ newline gap (ind @ gap)) (map f ps)
              @ newline gap ind @ ''}'' @ r"
    have "\<exists>N. \<forall>n \<ge> N. \<forall>acc. distinct (map fst (acc @ (k, v) # qs)) \<longrightarrow>
            json_members n acc ?s = Some (Obj (acc @ (k, v) # qs), r)"
      using reads_back_members [of k v qs gap "ind @ gap" "newline gap ind" r] assms(1) b
      by (simp add: Cons p f_def)
    then obtain N where N: "\<And>n. n \<ge> N \<Longrightarrow> json_members n [] ?s = Some (Obj ps, r)"
      using assms(2) Cons p by (metis append_Nil)
    obtain t where t: "skip_ws ?s = CHR 0x22 # t" using N json_members_start [of N "[]" ?s] by blast
    have "json_value n (ser gap ind (Obj ps) @ r) = Some (Obj ps, r)" if "n \<ge> Suc N" for n
    proof -
      from that obtain m where m: "n = Suc m" "m \<ge> N" by (cases n) auto
      have "ser_members gap (ind @ gap) ps = map f ps"
        using assms(3) by (simp add: ser_members_map f_def)
      then have "ser gap ind (Obj ps) @ r = CHR ''{'' # ?s" by (simp add: Cons)
      then show ?thesis using t N [OF m(2)] by (simp add: m(1))
    qed
    then show "\<exists>N. \<forall>n\<ge>N. json_value n (ser gap ind (Obj ps) @ r) = Some (Obj ps, r)" by blast
  qed
qed

lemma reads_back_wf: "wf_json v \<Longrightarrow> reads_back v"
proof (induction v)
  case (Arr vs)
  then show ?case by (intro reads_back_Arr) auto
next
  case (Obj ps)
  have "reads_back (snd p)" if "p \<in> set ps" for p
    using Obj that by (cases p) (auto simp: snds.simps)
  moreover have "snd p \<noteq> Undef" if "p \<in> set ps" for p
    using Obj.prems that by fastforce
  ultimately show ?case using Obj.prems by (intro reads_back_Obj) auto
qed (auto simp: reads_back_atoms)

lemma parse_text_ser:
  assumes "wf_json v" and "blank gap"
  shows "parse_text (ser gap [] v) = Inr v"
proof -
  obtain N where N: "\<And>n. n \<ge> N \<Longrightarrow> json_value n (ser gap [] v) = Some (v, [])"
    using reads_backE [OF reads_back_wf [OF assms(1)] assms(2), of "[]" "[]"] by auto
  let ?s = "ser gap [] v"
  have "json_value (Suc (2 * length ?s)) ?s = json_value (max N (Suc (2 * length ?s))) ?s"
    by (rule json_value_enough [symmetric]) simp
  then have "json_value (Suc (2 * length ?s)) ?s = Some (v, [])" using N by simp
  then show ?thesis by (simp add: parse_text_def skip_ws_def del: json_value.simps)
qed

lemma wf_json_not_Undef: "wf_json v \<Longrightarrow> v \<noteq> Undef"
  by auto

lemma json_parse_stringify:
  assumes "wf_json v" and "blank gap"
  shows "json_parse (stringify gap v) = Inr v"
  using assms parse_text_ser by (auto simp: json_parse_def stringify_def)

lemma json_parse_wf: "json_parse t = Inr v \<Longrightarrow> wf_json v"
  by (auto simp: json_parse_def dest: parse_text_wf)


section \<open>The codec interface\<close>

text \<open>
  What the clients rely on when they print a value and somebody parses the text again:
  \<open>parse\<close> gives back what \<open>print\<close> was given, on all values that a parse can produce.
\<close>

interpretation json: text_codec "stringify tab" json_parse wf_json
  by unfold_locales (auto simp: json_parse_stringify is_ws_def dest: json_parse_wf)

end
