(* ===== verification/Base64.thy ===== *)
theory Base64
  imports Prelude
begin

text \<open>
  The base64 conversions of Node's \<open>Buffer\<close>, used by \<open>toBase64\<close>, \<open>fromBase64\<close> and
  \<open>getSecretData\<close> of \<^verbatim>\<open>src/testing/e2e/skr/utils/index.js\<close>, on byte strings.  Decoding accepts
  the standard and the URL-safe alphabet and skips every other character, padding included.
\<close>

definition alphabet :: string where
  "alphabet = ''ABCDEFGHIJKLMNOPQRSTUVWXYZabcdefghijklmnopqrstuvwxyz0123456789+/''"

definition sextet_char :: "nat \<Rightarrow> char" where
  "sextet_char n =
     (if n < 26 then char_of (65 + n)
      else if n < 52 then char_of (71 + n)
      else if n < 62 then char_of (n - 4)
      else if n = 62 then CHR ''+'' else CHR ''/'')"

definition char_sextet :: "char \<Rightarrow> nat option" where
  "char_sextet c =
     (let n = of_char c in
      if 65 \<le> n \<and> n \<le> 90 then Some (n - 65)
      else if 97 \<le> n \<and> n \<le> 122 then Some (n - 71)
      else if 48 \<le> n \<and> n \<le> 57 then Some (n + 4)
      else if n = 43 \<or> n = 45 then Some 62
      else if n = 47 \<or> n = 95 then Some 63
      else None)"

fun encode_bytes :: "nat list \<Rightarrow> string" where
  "encode_bytes [] = []"
| "encode_bytes [a] = [sextet_char (a div 4), sextet_char (a mod 4 * 16), CHR ''='', CHR ''='']"
| "encode_bytes [a, b] =
     [sextet_char (a div 4), sextet_char (a mod 4 * 16 + b div 16), sextet_char (b mod 16 * 4), CHR ''='']"
| "encode_bytes (a # b # c # r) =
     [sextet_char (a div 4), sextet_char (a mod 4 * 16 + b div 16),
      sextet_char (b mod 16 * 4 + c div 64), sextet_char (c mod 64)] @ encode_bytes r"

fun decode_sextets :: "nat list \<Rightarrow> nat list" where
  "decode_sextets (w # x # y # z # r) =
     [w * 4 + x div 16, x mod 16 * 16 + y div 4, y mod 4 * 64 + z] @ decode_sextets r"
| "decode_sextets [w, x, y] = [w * 4 + x div 16, x mod 16 * 16 + y div 4]"
| "decode_sextets [w, x] = [w * 4 + x div 16]"
| "decode_sextets _ = []"

definition sextets :: "string \<Rightarrow> nat list" where
  "sextets s = List.map_filter char_sextet s"

definition base64_encode :: "string \<Rightarrow> string" where
  "base64_encode s = encode_bytes (map of_char s)"

definition base64_decode :: "string \<Rightarrow> string" where
  "base64_decode s = map char_of (decode_sextets (sextets s))"

text \<open>\<open>buffer.toString('ascii')\<close> clears the high bit of every byte.\<close>

definition to_ascii :: "string \<Rightarrow> string" where
  "to_ascii s = map (\<lambda>c. char_of (of_char c mod (128::nat))) s"

definition is_ascii :: "string \<Rightarrow> bool" where
  "is_ascii s = list_all (\<lambda>c. (of_char c :: nat) < 128) s"

section \<open>The alphabet\<close>

lemma char_sextet_inverse: "n < 64 \<Longrightarrow> char_sextet (sextet_char n) = Some n"
  by (auto simp: char_sextet_def sextet_char_def Let_def)

lemma sextet_char_alphabet: "n < 64 \<Longrightarrow> sextet_char n = alphabet ! n"
proof -
  have "list_all (\<lambda>n. sextet_char n = alphabet ! n) [0..<64]"
    by code_simp
  then show "n < 64 \<Longrightarrow> sextet_char n = alphabet ! n"
    by (simp add: list_all_iff)
qed

lemma char_sextet_pad: "char_sextet (CHR ''='') = None"
  by (simp add: char_sextet_def)

lemma sextets_simps [simp]:
  "sextets [] = []"
  "n < 64 \<Longrightarrow> sextets (sextet_char n # s) = n # sextets s"
  "sextets (CHR ''='' # s) = sextets s"
  by (simp_all add: sextets_def List.map_filter_def char_sextet_inverse char_sextet_pad)

section \<open>Round trip\<close>

lemma decode_encode_bytes:
  "\<forall>b \<in> set bs. b < 256 \<Longrightarrow> decode_sextets (sextets (encode_bytes bs)) = bs"
proof (induction bs rule: encode_bytes.induct)
  case (4 a b c r)
  then have "a div 4 < 64" "a mod 4 * 16 + b div 16 < 64" "b mod 16 * 4 + c div 64 < 64" "c mod 64 < 64"
    by auto
  moreover have "a div 4 * 4 + (a mod 4 * 16 + b div 16) div 16 = a"
    "(a mod 4 * 16 + b div 16) mod 16 * 16 + (b mod 16 * 4 + c div 64) div 4 = b"
    "(b mod 16 * 4 + c div 64) mod 4 * 64 + c mod 64 = c"
    using "4.prems" by auto
  ultimately show ?case using 4 by simp
qed auto

lemma base64_roundtrip: "base64_decode (base64_encode s) = s"
proof -
  have "\<forall>b \<in> set (map of_char s). b < (256::nat)"
    by (simp add: of_char_less)
  then have "decode_sextets (sextets (encode_bytes (map of_char s))) = map of_char s"
    by (rule decode_encode_bytes)
  then show ?thesis by (simp add: base64_decode_def base64_encode_def comp_def)
qed

lemma to_ascii_id: "is_ascii s \<Longrightarrow> to_ascii s = s"
  by (induction s) (auto simp: is_ascii_def to_ascii_def)

end
