(* ===== verification/Utils.thy ===== *)
theory Utils
  imports Json Base64
begin

text \<open>
  \<^verbatim>\<open>src/testing/e2e/skr/utils/index.js\<close>: logging, environment variables, base64, random names, the
  Kubernetes helpers, and the polling primitive \<open>wait\<close> on which every client builds.
\<close>

section \<open>Logging\<close>

definition log_with :: "string \<Rightarrow> js list \<Rightarrow> unit prog" where
  "log_with pre args =
     (case args of
        [] \<Rightarrow> ret ()
      | a # rest \<Rightarrow> console_log (Str (''['' @ pre @ ''] '' @ to_str a) # rest))"

definition isDebugEnabled :: "bool prog" where
  "isDebugEnabled w = (Ret (debugOn w), w)"

definition switchDebug :: "bool \<Rightarrow> unit prog" where
  "switchDebug on w = (Ret (), w\<lparr>debugOn := on\<rparr>)"

definition debug :: "js list \<Rightarrow> unit prog" where
  "debug args = bind isDebugEnabled (\<lambda>on. if on then log_with ''DEBUG'' args else ret ())"

definition info :: "js list \<Rightarrow> unit prog" where
  "info args = log_with ''INFO'' args"

definition error :: "js list \<Rightarrow> unit prog" where
  "error args = log_with ''ERROR'' args"

section \<open>Environment, base64, random names\<close>

definition getEnvOrThrow :: "string \<Rightarrow> string prog" where
  "getEnvOrThrow key =
     bind (process_env key) (\<lambda>v.
       if \<not> truthy v then throw (new_Error (''Env '' @ key @ '' not present'')) else ret (to_str v))"

definition fromBase64 :: "string \<Rightarrow> string" where
  "fromBase64 s = base64_decode s"

definition toBase64 :: "string \<Rightarrow> string" where
  "toBase64 s = base64_encode s"

definition chrs :: string where
  "chrs = ''abcdefghijklmnopqrstuvwxyz0123456789''"

definition charAt :: "string \<Rightarrow> nat \<Rightarrow> string" where
  "charAt s i = (if i < length s then [s ! i] else [])"

fun genRandom_loop :: "nat \<Rightarrow> string \<Rightarrow> string prog" where
  "genRandom_loop 0 res = ret res"
| "genRandom_loop (Suc n) res =
     bind math_random (\<lambda>r. genRandom_loop n (res @ charAt chrs (r * length chrs div 2 ^ 53)))"

definition genRandom :: "nat \<Rightarrow> string prog" where
  "genRandom len = genRandom_loop len []"

section \<open>The Kubernetes client of the module\<close>

text \<open>
  The module variable \<open>k8sDynamicApi\<close> lives in a cell; it is \<open>undefined\<close> until a kubeconfig was
  loaded, and then an object with the \<open>basePath\<close> of the cluster.
\<close>

definition k8sDynamicApi :: nat where
  "k8sDynamicApi = 0"

definition initializeK8sClient :: "js \<Rightarrow> unit prog" where
  "initializeK8sClient opts0 =
     (let opts = js_or opts0 (Obj []) in
      try_catch
        (seq (console_log [Str ''Trying to initialize a K8S client'']) (
          bind (get_path opts [K ''kubeconfigPath'']) (\<lambda>p.
          bind (get_path opts [K ''kubeconfig'']) (\<lambda>c.
          bind (if truthy p
                  then seq (console_log [Str ''Path initialization''])
                           (await (LoadKubeconfig Global (Obj [(''file'', p)])))
                  else if truthy c
                  then seq (console_log [Str ''Kubeconfig initialization''])
                           (await (LoadKubeconfig Global (Obj [(''string'', c)])))
                  else seq (console_log [Str ''Default initialization''])
                           (await (LoadKubeconfig Global (Obj [])))) (\<lambda>api.
          seq (console_log [Str ''Clients creation'']) (
          seq (set_cell k8sDynamicApi api) (
          seq (console_log [Str ''Making Api client - Apps'']) (
          seq (console_log [Str ''Making Api client - Core'']) (
          seq (console_log [Str ''Making Api client - Auth'']) (
          seq (console_log [Str ''Making Api client - Logs'']) (
          console_log [Str ''Making Api client - Watch''])))))))))))
        (\<lambda>err. bind (get_path err [K ''message'']) (\<lambda>m. console_log [m])))"

text \<open>\<open>k8sDynamicApi.m(...)\<close> and \<open>k8sDynamicApi.basePath + p\<close>\<close>

definition api_call :: "string \<Rightarrow> kube_op \<Rightarrow> js prog" where
  "api_call m op = bind (get_cell k8sDynamicApi) (\<lambda>api. seq (get_path api [K m]) (await (Kube Global op)))"

definition api_url :: "string \<Rightarrow> string prog" where
  "api_url p = bind (get_cell k8sDynamicApi) (\<lambda>api.
     bind (get_path api [K ''basePath'']) (\<lambda>b. ret (to_str b @ p)))"

definition ignore404 :: "js \<Rightarrow> unit prog" where
  "ignore404 e =
     (bind (get_path e [K ''statusCode'']) (\<lambda>sc.
      bind (get_path e [K ''response'']) (\<lambda>resp.
      bind (if truthy resp then get_path resp [K ''statusCode''] else ret Undef) (\<lambda>rsc.
      if sc = Num 404 \<or> rsc = Num 404
      then debug [Str ''Warning: Ignoring NotFound error'']
      else throw e))))"

definition getSecret :: "string \<Rightarrow> string \<Rightarrow> js prog" where
  "getSecret name namespace =
     (bind (api_url (''/api/v1/namespaces/'' @ namespace @ ''/secrets/'' @ name)) (\<lambda>url.
      bind (api_call ''requestPromise'' (KRequest (Obj [(''url'', Str url)]))) (\<lambda>response.
      bind (get_path response [K ''body'']) (\<lambda>body.
      eval (json_parse body)))))"

text \<open>One value of a secret: base64 to bytes to ASCII.\<close>

definition decode_value :: "js \<Rightarrow> js + js" where
  "decode_value v = (case v of
     Str s \<Rightarrow> Inr (Str (to_ascii (base64_decode s)))
   | _ \<Rightarrow> Inl (TypeError ''The first argument must be of type string''))"

fun decode_entries :: "(string \<times> js) list \<Rightarrow> js + (string \<times> js) list" where
  "decode_entries [] = Inr []"
| "decode_entries ((k, v) # ps) =
     (case decode_value v of
        Inl e \<Rightarrow> Inl e
      | Inr d \<Rightarrow> (case decode_entries ps of Inl e \<Rightarrow> Inl e | Inr ds \<Rightarrow> Inr ((k, d) # ds)))"

definition getSecretData :: "string \<Rightarrow> string \<Rightarrow> js prog" where
  "getSecretData name namespace =
     try_catch
       (bind (getSecret name namespace) (\<lambda>secret.
         bind (get_path secret [K ''data'']) (\<lambda>encodedData.
         if encodedData = Undef \<or> encodedData = Null
         then throw (TypeError ''Cannot convert undefined or null to object'')
         else bind (eval (decode_entries (entries encodedData))) (\<lambda>ds. ret (Obj ds)))))
       (\<lambda>e. seq (console_log [Str ''Error:'', e]) (throw e))"

section \<open>Deleting and applying resources\<close>

definition deleteK8sResource :: "js \<Rightarrow> string \<Rightarrow> bool \<Rightarrow> unit prog" where
  "deleteK8sResource obj p keepFinalizer =
     (bind (get_path obj [K ''metadata'', K ''finalizers'']) (\<lambda>fin.
      bind (if truthy fin then get_path fin [K ''length''] else ret Undef) (\<lambda>n.
      bind (get_path obj [K ''metadata'', K ''name'']) (\<lambda>name.
      bind (get_path obj [K ''metadata'', K ''namespace'']) (\<lambda>ns.
      bind (get_path obj [K ''kind'']) (\<lambda>kind.
      bind (get_path obj [K ''apiVersion'']) (\<lambda>av.
      seq (if_then (truthy fin \<and> truthy n \<and> \<not> keepFinalizer)
        (let patch = Obj [(''kind'', js_or kind (Str ''Secret'')), (''apiVersion'', js_or av (Str ''v1'')),
                          (''metadata'', Obj [(''name'', name), (''namespace'', ns), (''finalizers'', Arr [])])]
         in seq (debug [Str ''Removing finalizers from'', patch])
                (try_catch (seq (api_call ''patch'' (KPatch patch)) (ret ())) ignore404))) (
      seq (try_catch
        (bind (api_url (p @ ''/'' @ to_str name)) (\<lambda>url0.
          bind (get_path obj [K ''metadata'', K ''selfLink'']) (\<lambda>link.
          bind (if truthy link
                  then seq (debug [Str ''using selfLink for deleting object'']) (api_url (to_str link))
                  else ret url0) (\<lambda>url.
          seq (debug [Str ''Deleting resource: '', Str url]) (
          seq (api_call ''requestPromise'' (KRequest (Obj [(''url'', Str url), (''method'', Str ''DELETE'')]))) (
          ret ()))))))
        ignore404) (
      debug [Str ''Deleted resource:'', name, Str ''namespace:'', ns])))))))))"

definition deleteAll_turn :: "string \<Rightarrow> js \<Rightarrow> int \<Rightarrow> bool \<Rightarrow> nat \<Rightarrow> unit prog" where
  "deleteAll_turn p query interval keepFinalizer i =
     (seq (if_then (i \<noteq> 0) (seq (await (Sleep interval)) (ret ()))) (
      bind (api_url p) (\<lambda>url.
      bind (api_call ''requestPromise'' (KRequest (Obj [(''url'', Str url), (''qs'', query)]))) (\<lambda>response.
      bind (get_path response [K ''body'']) (\<lambda>raw.
      bind (eval (json_parse raw)) (\<lambda>body.
      bind (get_path body [K ''items'']) (\<lambda>items.
      (case items of
         Arr (x # xs) \<Rightarrow> for_each (x # xs) (\<lambda>it. deleteK8sResource it p keepFinalizer)
       | _ \<Rightarrow> if truthy items then ret () else deleteK8sResource body p keepFinalizer))))))))"

definition deleteAllK8sResources :: "string \<Rightarrow> js \<Rightarrow> nat \<Rightarrow> int \<Rightarrow> bool \<Rightarrow> unit prog" where
  "deleteAllK8sResources p query retries interval keepFinalizer =
     try_catch
       (for_each [0..<retries] (deleteAll_turn p query interval keepFinalizer))
       (\<lambda>e. seq (debug [Str ''Error during delete '', Str p, Str (take 1000 (to_str e))]) (debug [e]))"

definition set_metadata :: "js \<Rightarrow> string \<Rightarrow> js \<Rightarrow> js prog" where
  "set_metadata res k v =
     (bind (get_path res [K ''metadata'']) (\<lambda>m.
      bind (eval (set_prop m k v)) (\<lambda>m'.
      eval (set_prop res ''metadata'' m'))))"

text \<open>One turn of \<open>k8sDelete\<close>; it returns the resource as the call leaves it.\<close>

definition k8sDelete_one :: "js \<Rightarrow> js \<Rightarrow> js prog" where
  "k8sDelete_one namespace res0 =
     (bind (if truthy namespace then set_metadata res0 ''namespace'' namespace else ret res0) (\<lambda>res.
      bind (get_path res [K ''metadata'', K ''name'']) (\<lambda>name.
      seq (debug [Str (''Delete '' @ to_str name)]) (
      seq (try_catch
        (bind (get_path res [K ''kind'']) (\<lambda>kind.
          bind (get_path res [K ''metadata'', K ''selfLink'']) (\<lambda>link.
          seq (if truthy kind then seq (api_call ''delete'' (KDelete res)) (ret ())
           else if truthy link
           then bind (api_url (to_str link)) (\<lambda>url.
                  seq (api_call ''requestPromise''
                         (KRequest (Obj [(''url'', Str url), (''method'', Str ''DELETE'')]))) (ret ()))
           else throw (new_Error
                  ''Object kind or metadata.selfLink is required to delete the resource'')) (
          if_then (kind = Str ''CustomResourceDefinition'')
            (bind (get_path res [K ''spec'', K ''version'']) (\<lambda>v0.
              bind (if truthy v0 then ret v0
                          else get_path res [K ''spec'', K ''versions'', I 0, K ''name'']) (\<lambda>version.
              bind (get_path res [K ''spec'', K ''group'']) (\<lambda>group.
              bind (get_path res [K ''spec'', K ''names'', K ''plural'']) (\<lambda>plural.
              deleteAllK8sResources
                (''/apis/'' @ to_str group @ ''/'' @ to_str version @ ''/'' @ to_str plural)
                (Obj []) 2 1000 False)))))))))
        ignore404) (
      ret res)))))"

definition k8sDelete :: "js list \<Rightarrow> js \<Rightarrow> js list prog" where
  "k8sDelete listOfSpecs namespace = map_each listOfSpecs (k8sDelete_one namespace)"

text \<open>The request of \<open>k8sApply\<close>: patch the resource, and create it when the cluster does not have it.\<close>

definition patch_or_create :: "js \<Rightarrow> js \<Rightarrow> js \<Rightarrow> unit prog" where
  "patch_or_create resource kind name =
     try_catch
       (seq (api_call ''patch'' (KPatch resource)) (debug [kind, name, Str ''reconfigured'']))
       (\<lambda>e.
          (bind (get_path e [K ''body'']) (\<lambda>b.
           bind (if truthy b then get_path b [K ''reason''] else ret Undef) (\<lambda>reason.
           if truthy b \<and> reason = Str ''NotFound''
           then try_catch
                  (seq (api_call ''create'' (KCreate resource)) (debug [kind, name, Str ''created'']))
                  (\<lambda>createError.
                     (seq (debug [kind, name, Str ''failed to create'']) (
                      seq (debug [stringify ''    '' createError]) (
                      throw createError))))
           else throw e))))"

text \<open>One turn of \<open>k8sApply\<close>.\<close>

definition k8sApply_one :: "js \<Rightarrow> js \<Rightarrow> js prog" where
  "k8sApply_one namespace resource0 =
     (bind (if \<not> truthy resource0 then ret False
                else bind (get_path resource0 [K ''kind'']) (\<lambda>k.
                     if \<not> truthy k then ret False
                     else bind (get_path resource0 [K ''metadata'', K ''name'']) (\<lambda>n. ret (truthy n)))) (\<lambda>valid.
      if \<not> valid then seq (debug [Str ''Skipping invalid resource:'', resource0]) (ret resource0)
      else
         (bind (get_path resource0 [K ''metadata'', K ''namespace'']) (\<lambda>ns.
          bind (if truthy ns then ret resource0 else set_metadata resource0 ''namespace'' namespace) (\<lambda>r1.
          bind (get_path r1 [K ''kind'']) (\<lambda>kind.
          bind (if loose_eq kind ''Namespace''
                       then set_metadata r1 ''labels'' (Obj [(''istio-injection'', Str ''enabled'')])
                       else ret r1) (\<lambda>resource.
          bind (get_path resource [K ''metadata'', K ''name'']) (\<lambda>name.
          seq (patch_or_create resource kind name) (
          ret resource)))))))))"

definition k8sApply :: "js list \<Rightarrow> js \<Rightarrow> js list prog" where
  "k8sApply resources namespace = map_each resources (k8sApply_one namespace)"

section \<open>Watching\<close>

text \<open>
  The callback of a watch: events in order of arrival, until one passes the check or the
  deadline (if there is one) has passed.  A check that throws leaves an uncaught error behind.
  The result is the event with its time, and the errors.
\<close>

fun watch_events :: "(js \<Rightarrow> js + bool) \<Rightarrow> nat option \<Rightarrow> (nat \<times> js) list \<Rightarrow> js list \<Rightarrow>
    (nat \<times> js) option \<times> js list" where
  "watch_events check deadline [] errs = (None, errs)"
| "watch_events check deadline ((t, ev) # evs) errs =
     (if deadline \<noteq> None \<and> t \<ge> the deadline then (None, errs)
      else case check ev of
        Inl e \<Rightarrow> watch_events check deadline evs (errs @ [e])
      | Inr True \<Rightarrow> (Some (t, ev), errs)
      | Inr False \<Rightarrow> watch_events check deadline evs errs)"

text \<open>The module's own watch is \<open>undefined\<close> as long as no kubeconfig was loaded.\<close>

definition no_watch :: "kube_client \<Rightarrow> world \<Rightarrow> bool" where
  "no_watch client w = (client = Global \<and> cells w k8sDynamicApi = Undef)"

definition waitForK8sObject ::
    "kube_client \<Rightarrow> string \<Rightarrow> (js \<Rightarrow> js + bool) \<Rightarrow> nat \<Rightarrow> string \<Rightarrow> js prog" where
  "waitForK8sObject client p check timeout timeoutMsg =
     seq (debug [Str ''waiting for'', Str p])
     (\<lambda>w. if no_watch client w then (Throw (cannot_read ''undefined'' ''watch''), w) else
          let run = watches w (calls w) client p;
              w1 = w\<lparr>calls := calls w @ [Kube client (KWatch p)]\<rparr>;
              deadline = (case established run of Inl _ \<Rightarrow> None | Inr t0 \<Rightarrow> Some (t0 + timeout));
              (hit, errs) = watch_events check deadline (events run) [];
              w2 = w1\<lparr>unhandled := unhandled w1 @ errs\<rparr>
          in case hit of
               Some (t, ev) \<Rightarrow>
                 seq (debug [Str ''finished waiting for '', Str p]) (get_path ev [K ''object''])
                   (w2\<lparr>now := now w2 + int t\<rparr>)
             | None \<Rightarrow>
                 (case established run of
                    Inl e \<Rightarrow> (Hang, w2\<lparr>unhandled := unhandled w2 @ [e]\<rparr>)
                  | Inr t0 \<Rightarrow> (Throw (new_Error timeoutMsg), w2\<lparr>now := now w2 + int (t0 + timeout)\<rparr>)))"

text \<open>\<open>watchObj.object.metadata.name.includes(secretName)\<close>\<close>

definition name_includes :: "string \<Rightarrow> js \<Rightarrow> js + bool" where
  "name_includes secretName ev =
     (case path ev [K ''object'', K ''metadata'', K ''name''] of
        Inl e \<Rightarrow> Inl e
      | Inr (Str n) \<Rightarrow> Inr (str_includes n secretName)
      | Inr Undef \<Rightarrow> Inl (cannot_read ''undefined'' ''includes'')
      | Inr Null \<Rightarrow> Inl (cannot_read ''null'' ''includes'')
      | Inr _ \<Rightarrow> Inl (TypeError ''watchObj.object.metadata.name.includes is not a function''))"

definition waitForSecret :: "string \<Rightarrow> string \<Rightarrow> nat \<Rightarrow> js prog" where
  "waitForSecret secretName namespace timeout =
     waitForK8sObject Global (''/api/v1/namespaces/'' @ namespace @ ''/secrets'')
       (name_includes secretName) timeout
       (''Waiting for '' @ secretName @ '' Secret timeout ('' @ show_nat timeout @ '' ms)'')"

section \<open>Cluster role bindings\<close>

text \<open>An array argument of \<open>filter\<close> or \<open>map\<close>; anything else has no such method.\<close>

definition as_array :: "js \<Rightarrow> js + js list" where
  "as_array v = (case v of
     Arr vs \<Rightarrow> Inr vs
   | Undef \<Rightarrow> Inl (cannot_read ''undefined'' ''filter'')
   | Null \<Rightarrow> Inl (cannot_read ''null'' ''filter'')
   | _ \<Rightarrow> Inl (TypeError ''filter is not a function''))"

text \<open>\<open>subjects.filter((sub) => sub.kind === k).map((sub) => sub.name)\<close>\<close>

fun subject_names :: "string \<Rightarrow> js list \<Rightarrow> js + js list" where
  "subject_names k [] = Inr []"
| "subject_names k (s # ss) =
     (case path s [K ''kind''] of
        Inl e \<Rightarrow> Inl e
      | Inr kind \<Rightarrow>
          (case subject_names k ss of
             Inl e \<Rightarrow> Inl e
           | Inr names \<Rightarrow>
               if kind = Str k
               then (case path s [K ''name''] of Inl e \<Rightarrow> Inl e | Inr n \<Rightarrow> Inr (n # names))
               else Inr names))"

definition binding_info :: "js \<Rightarrow> js prog" where
  "binding_info b =
     (bind (get_path b [K ''metadata'', K ''name'']) (\<lambda>name.
      bind (get_path b [K ''roleRef'', K ''name'']) (\<lambda>role.
      bind (get_path b [K ''subjects'']) (\<lambda>subjects.
      bind (eval (as_array subjects)) (\<lambda>ss.
      bind (eval (subject_names ''User'' ss)) (\<lambda>users.
      bind (eval (subject_names ''Group'' ss)) (\<lambda>groups.
      ret (Obj [(''name'', name), (''role'', role), (''users'', Arr users), (''groups'', Arr groups)]))))))))"

fun admin_only :: "js list \<Rightarrow> js + js list" where
  "admin_only [] = Inr []"
| "admin_only (b # bs) =
     (case path b [K ''roleRef'', K ''name''] of
        Inl e \<Rightarrow> Inl e
      | Inr r \<Rightarrow> (case admin_only bs of
                     Inl e \<Rightarrow> Inl e
                   | Inr rest \<Rightarrow> Inr (if r = Str ''cluster-admin'' then b # rest else rest)))"

definition getKymaAdminBindings :: "js list prog" where
  "getKymaAdminBindings =
     (bind (api_call ''listClusterRoleBinding'' KListClusterRoleBinding) (\<lambda>resp.
      bind (get_path resp [K ''body'', K ''items'']) (\<lambda>items.
      bind (eval (as_array items)) (\<lambda>bs.
      bind (eval (admin_only bs)) (\<lambda>admins.
      map_each admins binding_info)))))"

definition has_user :: "js \<Rightarrow> js \<Rightarrow> bool" where
  "has_user target b = (case path b [K ''users''] of Inr (Arr us) \<Rightarrow> target \<in> set us | _ \<Rightarrow> False)"

definition findKymaAdminBindingForUser :: "js \<Rightarrow> js prog" where
  "findKymaAdminBindingForUser targetUser =
     bind getKymaAdminBindings (\<lambda>bindings.
       ret (case find (has_user targetUser) bindings of None \<Rightarrow> Undef | Some b \<Rightarrow> b))"

definition ensureKymaAdminBindingExistsForUser :: "js \<Rightarrow> unit prog" where
  "ensureKymaAdminBindingExistsForUser targetUser =
     (bind (findKymaAdminBindingForUser targetUser) (\<lambda>binding.
      seq (expect (IsNotUndefined binding)) (
      bind (get_path binding [K ''users'']) (\<lambda>users.
      expect (IncludesValue users targetUser)))))"

definition ensureKymaAdminBindingDoesNotExistsForUser :: "js \<Rightarrow> unit prog" where
  "ensureKymaAdminBindingDoesNotExistsForUser targetUser =
     bind (findKymaAdminBindingForUser targetUser) (\<lambda>binding. expect (IsUndefined binding))"

section \<open>Polling\<close>

text \<open>
  \<open>wait(fn, checkFn, timeout, interval)\<close>.  The interval timer starts a poll at every multiple of
  the interval before the timeout, unless an earlier poll has already succeeded; a poll runs
  \<open>fn\<close> and turns a throw into its result.  Polls may overlap: a poll counts when it is complete,
  and the first completion that passes the check settles the promise.  A check that throws
  leaves an unhandled rejection and the polling goes on.  Timers of less than a millisecond run
  after one.  \<open>wait_polls n\<close> runs the \<open>n\<close> remaining ticks; \<open>best\<close> is the earliest success so far.
\<close>

type_synonym success = "(int \<times> js) option"

definition wait_timeout :: js where
  "wait_timeout = new_Error ''wait timeout''"

definition better :: "success \<Rightarrow> int \<Rightarrow> js \<Rightarrow> success" where
  "better best c res = (case best of
     None \<Rightarrow> Some (c, res)
   | Some (c', _) \<Rightarrow> if c < c' then Some (c, res) else best)"

fun wait_polls :: "nat \<Rightarrow> int \<Rightarrow> int \<Rightarrow> int \<Rightarrow> success \<Rightarrow> js prog \<Rightarrow> (js \<Rightarrow> js + bool) \<Rightarrow> world \<Rightarrow>
    success \<times> world" where
  "wait_polls 0 t interval deadline best fn check w = (best, w)"
| "wait_polls (Suc n) t interval deadline best fn check w =
     (if best \<noteq> None \<and> fst (the best) \<le> t then (best, w)
      else case fn (w\<lparr>now := t\<rparr>) of
        (Hang, w') \<Rightarrow> wait_polls n (t + interval) interval deadline best fn check w'
      | (r, w') \<Rightarrow>
          (let res = (case r of Ret v \<Rightarrow> v | Throw e \<Rightarrow> e | Hang \<Rightarrow> Undef) in
           case check res of
             Inl e \<Rightarrow> wait_polls n (t + interval) interval deadline best fn check
                        (w'\<lparr>unhandled := unhandled w' @ [e]\<rparr>)
           | Inr ok \<Rightarrow>
               wait_polls n (t + interval) interval deadline
                 (if ok \<and> now w' < deadline then better best (now w') res else best) fn check w'))"

definition at_least_1 :: "int \<Rightarrow> int" where
  "at_least_1 ms = max 1 ms"

definition tick_count :: "int \<Rightarrow> int \<Rightarrow> nat" where
  "tick_count timeout interval = nat ((at_least_1 timeout - 1) div at_least_1 interval)"

definition wait :: "js prog \<Rightarrow> (js \<Rightarrow> js + bool) \<Rightarrow> int \<Rightarrow> int \<Rightarrow> js prog" where
  "wait fn checkFn timeout interval w =
     (let deadline = now w + at_least_1 timeout;
          step = at_least_1 interval;
          (best, w') = wait_polls (tick_count timeout interval) (now w + step) step deadline None fn checkFn w
      in case best of
           Some (c, res) \<Rightarrow> (Ret res, w'\<lparr>now := c\<rparr>)
         | None \<Rightarrow> seq (debug [Str ''wait timeout'']) (throw wait_timeout) (w'\<lparr>now := deadline\<rparr>))"

section \<open>Facts about the helpers\<close>

text \<open>What a debug message leaves behind: nothing but console output.\<close>

definition debugged :: "js list \<Rightarrow> world \<Rightarrow> world" where
  "debugged args w = snd (debug args w)"

lemma debug_run [run_simps]: "debug args w = (Ret (), debugged args w)"
  by (cases args) (auto simp: debugged_def debug_def isDebugEnabled_def log_with_def seq_run bind_def prim_run ret_run)

lemma debugged_fields [simp]:
  "env (debugged a w) = env w" "now (debugged a w) = now w" "services (debugged a w) = services w"
  "watches (debugged a w) = watches w" "rng (debugged a w) = rng w" "draws (debugged a w) = draws w"
  "chai (debugged a w) = chai w" "calls (debugged a w) = calls w" "debugOn (debugged a w) = debugOn w"
  "cells (debugged a w) = cells w" "unhandled (debugged a w) = unhandled w"
  by (cases a; simp add: debugged_def debug_def isDebugEnabled_def log_with_def bind_def prim_run ret_run)+

lemma returns_debug: "returns (debug args)"
  by (simp add: returns_def debug_run)

lemma settles_debug [settle_rules, intro!]: "settles (debug args)"
  by (rule returns_settles) (rule returns_debug)

lemma framed_debug [frame_rules, intro!]: "framed (debug args)"
  by (simp add: framed_def debug_run same_outside_def)

lemma framed_api [frame_rules, intro!]: "framed (api_call m op)" "framed (api_url p)"
  by (auto simp: api_call_def api_url_def intro!: frame_rules)

lemma settles_api [settle_rules, intro!]: "settles (api_call m op)" "settles (api_url p)"
  by (auto simp: api_call_def api_url_def intro!: settle_rules)

lemma framed_ignore404 [frame_rules, intro!]: "framed (ignore404 e)"
  by (auto simp: ignore404_def intro!: frame_rules)

lemma settles_ignore404 [settle_rules, intro!]: "settles (ignore404 e)"
  by (auto simp: ignore404_def intro!: settle_rules)

lemma framed_getEnvOrThrow [frame_rules, intro!]: "framed (getEnvOrThrow k)"
  by (auto simp: getEnvOrThrow_def intro!: frame_rules)

lemma settles_getEnvOrThrow [settle_rules, intro!]: "settles (getEnvOrThrow k)"
  by (auto simp: getEnvOrThrow_def intro!: settle_rules)

lemma getEnvOrThrow_run:
  "getEnvOrThrow k w =
     (case env w k of
        Some v \<Rightarrow> (if v = [] then Throw (new_Error (''Env '' @ k @ '' not present'')) else Ret v, w)
      | None \<Rightarrow> (Throw (new_Error (''Env '' @ k @ '' not present'')), w))"
  by (simp add: getEnvOrThrow_def run_simps split: option.splits)

lemma framed_getSecret [frame_rules, intro!]: "framed (getSecret n ns)" "framed (getSecretData n ns)"
  by (auto simp: getSecret_def getSecretData_def intro!: frame_rules)

lemma settles_getSecret [settle_rules, intro!]: "settles (getSecret n ns)" "settles (getSecretData n ns)"
  by (auto simp: getSecret_def getSecretData_def intro!: settle_rules)

lemma framed_deleteK8sResource [frame_rules, intro!]: "framed (deleteK8sResource x p b)"
  by (auto simp: deleteK8sResource_def Let_def intro!: frame_rules)

lemma settles_deleteK8sResource [settle_rules, intro!]: "settles (deleteK8sResource x p b)"
  by (auto simp: deleteK8sResource_def Let_def intro!: settle_rules)

lemma framed_deleteAll [frame_rules, intro!]:
  "framed (deleteAll_turn p q i b k)" "framed (deleteAllK8sResources p q n i b)"
  by (auto simp: deleteAll_turn_def deleteAllK8sResources_def intro!: frame_rules
      split: js.splits list.splits)

lemma settles_deleteAll_turn [settle_rules, intro!]: "settles (deleteAll_turn p q i b k)"
  by (auto simp: deleteAll_turn_def intro!: settle_rules split: js.splits list.splits)

lemma returns_deleteAll: "returns (deleteAllK8sResources p q n i b)"
  unfolding deleteAllK8sResources_def
  by (intro returns_try settles_for_each settles_deleteAll_turn returns_seq returns_debug)

subsection \<open>Random names\<close>

lemma random_index: "0 < n \<Longrightarrow> (r mod 2 ^ 53) * n div 2 ^ 53 < (n :: nat)"
proof (rule less_mult_imp_div_less)
  assume "0 < n"
  moreover have "r mod 2 ^ 53 < (2 ^ 53 :: nat)" by simp
  ultimately show "r mod 2 ^ 53 * n < n * 2 ^ 53"
    by (metis mult.commute mult_strict_right_mono)
qed

lemma genRandom_loop_spec:
  "\<exists>s w'. genRandom_loop n res w = (Ret (res @ s), w') \<and> length s = n \<and> set s \<subseteq> set chrs \<and>
          w' = w\<lparr>draws := draws w + n\<rparr>"
proof (induction n arbitrary: res w)
  case 0
  then show ?case by (simp add: ret_run)
next
  case (Suc n)
  let ?i = "(rng w (draws w) mod 2 ^ 53) * length chrs div 2 ^ 53"
  have "?i < length chrs"
    by (rule random_index) (simp add: chrs_def)
  then have c: "charAt chrs ?i = [chrs ! ?i]" and "chrs ! ?i \<in> set chrs"
    by (simp_all add: charAt_def)
  let ?w = "w\<lparr>draws := Suc (draws w)\<rparr>"
  obtain s w' where "genRandom_loop n (res @ [chrs ! ?i]) ?w = (Ret ((res @ [chrs ! ?i]) @ s), w')"
    "length s = n" "set s \<subseteq> set chrs" "w' = ?w\<lparr>draws := draws ?w + n\<rparr>"
    using Suc by blast
  with c \<open>chrs ! ?i \<in> set chrs\<close> show ?case
    by (intro exI [of _ "chrs ! ?i # s"] exI [of _ w'])
       (simp add: bind_def math_random_def)
qed


subsection \<open>Polling\<close>

lemma better_spec:
  "better best c res = Some (c', res') \<Longrightarrow>
   (c', res') = (c, res) \<or> best = Some (c', res')"
  by (auto simp: better_def split: option.splits if_splits)

text \<open>
  What holds of the earliest success so far: it passed the check and was complete before the
  deadline.
\<close>

definition good_success :: "(js \<Rightarrow> js + bool) \<Rightarrow> int \<Rightarrow> success \<Rightarrow> bool" where
  "good_success check deadline best =
     (\<forall>c res. best = Some (c, res) \<longrightarrow> check res = Inr True \<and> c < deadline)"

lemma good_better:
  "good_success check deadline best \<Longrightarrow> check res = Inr True \<Longrightarrow> c < deadline \<Longrightarrow>
   good_success check deadline (better best c res)"
  by (auto simp: good_success_def better_def split: option.splits)

lemma wait_polls_good:
  "good_success check deadline best \<Longrightarrow>
   wait_polls n t i deadline best fn check w = (best', w') \<Longrightarrow> good_success check deadline best'"
proof (induction n arbitrary: t best w)
  case 0
  then show ?case by simp
next
  case (Suc n)
  show ?case
  proof (cases "best \<noteq> None \<and> fst (the best) \<le> t")
    case True
    with Suc.prems show ?thesis by simp
  next
    case False
    obtain r v where fn: "fn (w\<lparr>now := t\<rparr>) = (r, v)" by fastforce
    have step: "good_success check deadline (if ok \<and> now v < deadline then better best (now v) res else best)"
      if "check res = Inr ok" for ok res
      using Suc.prems(1) that by (auto intro: good_better)
    from Suc.prems(2) False fn show ?thesis
      by (cases r) (auto simp: Let_def split: sum.splits intro: Suc.IH [OF Suc.prems(1)] Suc.IH [OF step])
  qed
qed

lemma wait_polls_framed:
  "framed fn \<Longrightarrow> wait_polls n t i deadline best fn check w = (best', w') \<Longrightarrow> same_outside w w'"
proof (induction n arbitrary: t best w)
  case 0
  then show ?case by simp
next
  case (Suc n)
  obtain r v where fn: "fn (w\<lparr>now := t\<rparr>) = (r, v)" by fastforce
  have "same_outside (w\<lparr>now := t\<rparr>) v" using Suc.prems(1) fn by (rule framedD)
  then have v: "same_outside w v" and "same_outside w (v\<lparr>unhandled := u\<rparr>)" for u
    by (simp_all add: same_outside_def)
  with Suc.prems fn show ?case
    by (cases r)
       (auto simp: Let_def split: if_splits sum.splits
             dest!: Suc.IH [OF Suc.prems(1)] intro: same_outside_trans)
qed

lemma framed_wait [frame_rules, intro]:
  assumes "framed fn"
  shows "framed (wait fn check timeout interval)"
proof (rule framedI)
  fix w :: world
  let ?step = "at_least_1 interval" and ?dl = "now w + at_least_1 timeout"
  obtain best w' where run:
    "wait_polls (tick_count timeout interval) (now w + ?step) ?step ?dl None fn check w = (best, w')"
    by fastforce
  then have "same_outside w w'" using wait_polls_framed [OF assms] by blast
  with run show "same_outside w (snd (wait fn check timeout interval w))"
    by (auto simp: wait_def seq_run bind_def debug_run throw_run same_outside_def split: option.splits)
qed

lemma settles_wait [settle_rules, intro!]: "settles (wait fn check timeout interval)"
  by (auto simp: settles_def wait_def seq_run bind_def debug_run throw_run Let_def
      split: option.splits prod.splits)

lemma wait_outcome:
  assumes "wait fn check timeout interval w = (r, w')"
  shows "(\<exists>v. r = Ret v \<and> check v = Inr True \<and> now w' < now w + at_least_1 timeout) \<or>
         (r = Throw wait_timeout \<and> now w' = now w + at_least_1 timeout)"
proof -
  let ?step = "at_least_1 interval" and ?dl = "now w + at_least_1 timeout"
  obtain best u where run:
    "wait_polls (tick_count timeout interval) (now w + ?step) ?step ?dl None fn check w = (best, u)"
    by fastforce
  have "good_success check ?dl best"
    by (rule wait_polls_good [OF _ run]) (simp add: good_success_def)
  with assms run show ?thesis
    by (cases best)
       (auto simp: wait_def good_success_def Let_def seq_run bind_def debug_run throw_run split: if_splits)
qed


text \<open>
  The plain sequential loop: one poll per tick until one passes.  It is the reference for
  \<open>wait\<close> when no poll outlasts the interval.
\<close>

fun poll_in_turn :: "nat \<Rightarrow> int \<Rightarrow> int \<Rightarrow> int \<Rightarrow> js prog \<Rightarrow> (js \<Rightarrow> js + bool) \<Rightarrow> world \<Rightarrow> success \<times> world" where
  "poll_in_turn 0 t interval deadline fn check w = (None, w)"
| "poll_in_turn (Suc n) t interval deadline fn check w =
     (case fn (w\<lparr>now := t\<rparr>) of
        (Hang, w') \<Rightarrow> poll_in_turn n (t + interval) interval deadline fn check w'
      | (r, w') \<Rightarrow>
          (let res = (case r of Ret v \<Rightarrow> v | Throw e \<Rightarrow> e | Hang \<Rightarrow> Undef) in
           case check res of
             Inl e \<Rightarrow> poll_in_turn n (t + interval) interval deadline fn check
                        (w'\<lparr>unhandled := unhandled w' @ [e]\<rparr>)
           | Inr ok \<Rightarrow>
               if ok \<and> now w' < deadline then (Some (now w', res), w')
               else poll_in_turn n (t + interval) interval deadline fn check w'))"

definition brief :: "int \<Rightarrow> js prog \<Rightarrow> bool" where
  "brief interval fn = (\<forall>w. now (snd (fn w)) \<le> now w + interval)"

lemma wait_polls_stop: "c \<le> t \<Longrightarrow> wait_polls n t i dl (Some (c, res)) fn check w = (Some (c, res), w)"
  by (cases n) auto

lemma wait_polls_in_turn:
  assumes "brief i fn"
  shows "wait_polls n t i dl None fn check w = poll_in_turn n t i dl fn check w"
proof (induction n arbitrary: t w)
  case 0
  then show ?case by simp
next
  case (Suc n)
  obtain r v where fn: "fn (w\<lparr>now := t\<rparr>) = (r, v)" by fastforce
  have "now v \<le> t + i" using assms fn unfolding brief_def
    by (metis (no_types, lifting) snd_conv select_convs(2) surjective update_convs(2))
  with fn show ?case
    by (cases r) (auto simp: Let_def Suc better_def wait_polls_stop split: sum.split)
qed

subsection \<open>Applying resources\<close>

definition not_found :: "js \<Rightarrow> bool" where
  "not_found e = (path e [K ''body'', K ''reason''] = Inr (Str ''NotFound'') \<and>
                  (\<exists>b. path e [K ''body''] = Inr b \<and> truthy b))"

lemma api_call_run:
  assumes "cells w k8sDynamicApi = Obj ps"
  shows "api_call m op w = await (Kube Global op) w"
  using assms by (simp add: api_call_def seq_run bind_def get_cell_def get_path_def eval_run path.simps)

lemma patch_or_create_run:
  assumes api: "cells w k8sDynamicApi = Obj ps"
    and run: "patch_or_create r kind name w = (res, w')"
  defines "P \<equiv> Kube Global (KPatch r)" and "C \<equiv> Kube Global (KCreate r)"
  shows "case fst (services w (calls w) P) of
      Inr v \<Rightarrow> res = Ret () \<and> calls w' = calls w @ [P]
    | Inl e \<Rightarrow>
        if not_found e
        then calls w' = calls w @ [P, C] \<and>
             res = (case fst (services w (calls w @ [P]) C) of Inr _ \<Rightarrow> Ret () | Inl ce \<Rightarrow> Throw ce)
        else calls w' = calls w @ [P] \<and> (\<exists>x. res = Throw x \<and> (e \<noteq> Undef \<and> e \<noteq> Null \<longrightarrow> x = e))"
proof (cases "fst (services w (calls w) P)")
  case (Inr v)
  with run show ?thesis
    by (auto simp: patch_or_create_def P_def try_catch_def seq_run bind_def api_call_run [OF api]
        await_run debug_run)
next
  case (Inl e)
  note patch = this [unfolded P_def]
  let ?w1 = "w\<lparr>calls := calls w @ [P], now := now w + int (snd (services w (calls w) P))\<rparr>"
  have api1: "cells ?w1 k8sDynamicApi = Obj ps" using api by simp
  note exec = patch_or_create_def try_catch_def seq_run bind_def get_path_def eval_run api_call_run [OF api]
    await_run patch debug_run throw_run ret_run
  show ?thesis
  proof (cases "path e [K ''body'']")
    case (Inl x)
    then have "e = Undef \<or> e = Null" by (cases e) (auto simp: path.simps)
    with run patch Inl show ?thesis
      by (auto simp: exec not_found_def P_def)
  next
    case (Inr b)
    have nf: "not_found e \<longleftrightarrow> truthy b \<and> path b [K ''reason''] = Inr (Str ''NotFound'')"
      using Inr by (auto simp: not_found_def path.simps split: sum.splits)
    have ok: "\<exists>r. path b [K ''reason''] = Inr r" if "truthy b"
      using that by (cases b) (auto simp: path.simps)
    show ?thesis
    proof (cases "not_found e")
      case True
      with run Inr nf patch show ?thesis
        by (cases "fst (services w (calls w @ [P]) C)")
           (auto simp: exec api_call_run [OF api1, unfolded P_def] P_def C_def)
    next
      case False
      with run Inr nf patch ok show ?thesis
        by (cases "truthy b") (auto simp: exec P_def)
    qed
  qed
qed


subsection \<open>Secrets\<close>

text \<open>A secret whose values are base64 of ASCII text.\<close>

lemma decode_entries_encoded:
  assumes "\<forall>kv \<in> set kvs. is_ascii (snd kv)"
  shows "decode_entries (map (\<lambda>(k, v). (k, Str (toBase64 v))) kvs) = Inr (map (\<lambda>(k, v). (k, Str v)) kvs)"
  using assms
  by (induction kvs) (auto simp: decode_value_def toBase64_def base64_roundtrip to_ascii_id)

subsection \<open>Watches\<close>

lemma watch_events_hit:
  "watch_events check dl evs errs = (Some (t, ev), errs') \<Longrightarrow>
   (t, ev) \<in> set evs \<and> check ev = Inr True \<and> (\<forall>d. dl = Some d \<longrightarrow> t < d)"
  by (induction check dl evs errs rule: watch_events.induct)
     (auto split: if_splits sum.splits bool.splits)

lemma watch_events_miss:
  "(\<forall>p \<in> set evs. check (snd p) \<noteq> Inr True) \<Longrightarrow> \<exists>errs'. watch_events check dl evs errs = (None, errs')"
  by (induction check dl evs errs rule: watch_events.induct)
     (auto split: sum.splits bool.splits)

lemma framed_waitForK8sObject [frame_rules, intro!]: "framed (waitForK8sObject c p check t m)"
proof (rule framedI)
  fix w :: world
  show "same_outside w (snd (waitForK8sObject c p check t m w))"
    by (auto simp: waitForK8sObject_def seq_run bind_def debug_run Let_def get_path_def eval_run
        same_outside_def split: prod.splits option.splits sum.splits)
qed

subsection \<open>Cluster administrators\<close>

text \<open>
  A listed cluster role binding as the API server returns it when it has subjects, and what it
  means for a user to be a cluster administrator.
\<close>

definition wf_binding :: "js \<Rightarrow> bool" where
  "wf_binding b =
     ((\<exists>n. path b [K ''metadata'', K ''name''] = Inr n) \<and>
      (\<exists>r. path b [K ''roleRef'', K ''name''] = Inr r) \<and>
      (\<exists>ss. path b [K ''subjects''] = Inr (Arr ss) \<and> (\<forall>s \<in> set ss. \<exists>ps. s = Obj ps)))"

definition subject_is :: "string \<Rightarrow> js \<Rightarrow> js \<Rightarrow> bool" where
  "subject_is kind name s = (path s [K ''kind''] = Inr (Str kind) \<and> path s [K ''name''] = Inr name)"

definition grants_admin :: "js \<Rightarrow> js \<Rightarrow> bool" where
  "grants_admin user b =
     (path b [K ''roleRef'', K ''name''] = Inr (Str ''cluster-admin'') \<and>
      (\<exists>ss. path b [K ''subjects''] = Inr (Arr ss) \<and> (\<exists>s \<in> set ss. subject_is ''User'' user s)))"

lemma subject_names_spec:
  assumes "\<forall>s \<in> set ss. \<exists>ps. s = Obj ps"
  shows "\<exists>ns. subject_names k ss = Inr ns \<and> (\<forall>n. n \<in> set ns \<longleftrightarrow> (\<exists>s \<in> set ss. subject_is k n s))"
  using assms
proof (induction ss)
  case Nil
  then show ?case by simp
next
  case (Cons s ss)
  then obtain ns where "subject_names k ss = Inr ns" "\<forall>n. n \<in> set ns \<longleftrightarrow> (\<exists>s \<in> set ss. subject_is k n s)"
    by auto
  moreover from Cons.prems obtain ps where "s = Obj ps" by auto
  ultimately show ?case
    by (auto simp: path.simps subject_is_def)
qed

lemma binding_info_run:
  assumes "wf_binding b"
  shows "\<exists>info. binding_info b w = (Ret info, w) \<and> info \<noteq> Undef \<and>
           (\<exists>us. path info [K ''users''] = Inr (Arr us) \<and>
              (\<forall>u. u \<in> set us \<longleftrightarrow>
                 (\<exists>ss. path b [K ''subjects''] = Inr (Arr ss) \<and> (\<exists>s \<in> set ss. subject_is ''User'' u s))))"
proof -
  from assms obtain n r ss where n: "path b [K ''metadata'', K ''name''] = Inr n"
    and r: "path b [K ''roleRef'', K ''name''] = Inr r"
    and ss: "path b [K ''subjects''] = Inr (Arr ss)" "\<forall>s \<in> set ss. \<exists>ps. s = Obj ps"
    by (auto simp: wf_binding_def)
  obtain us where us: "subject_names ''User'' ss = Inr us"
    "\<forall>n. n \<in> set us \<longleftrightarrow> (\<exists>s \<in> set ss. subject_is ''User'' n s)"
    using subject_names_spec [OF ss(2)] by blast
  obtain gs where gs: "subject_names ''Group'' ss = Inr gs"
    using subject_names_spec [OF ss(2)] by blast
  have "binding_info b w = (Ret (Obj [(''name'', n), (''role'', r), (''users'', Arr us), (''groups'', Arr gs)]), w)"
    by (simp add: binding_info_def bind_def get_path_def eval_run n r ss as_array_def us gs ret_run)
  then show ?thesis using us ss by (auto simp: path.simps lookup_def)
qed

lemma admin_only_spec:
  assumes "\<forall>b \<in> set bs. wf_binding b"
  shows "admin_only bs = Inr (filter (\<lambda>b. path b [K ''roleRef'', K ''name''] = Inr (Str ''cluster-admin'')) bs)"
  using assms by (induction bs) (auto simp: wf_binding_def)

lemma map_binding_info:
  assumes "\<forall>b \<in> set bs. wf_binding b"
  shows "\<exists>infos. map_each bs binding_info w = (Ret infos, w) \<and> (\<forall>i \<in> set infos. i \<noteq> Undef) \<and>
     ((\<exists>i \<in> set infos. has_user u i) \<longleftrightarrow>
      (\<exists>b \<in> set bs. \<exists>ss. path b [K ''subjects''] = Inr (Arr ss) \<and> (\<exists>s \<in> set ss. subject_is ''User'' u s)))"
  using assms
proof (induction bs)
  case Nil
  then show ?case by (simp add: ret_run)
next
  case (Cons b bs)
  then obtain infos where infos: "map_each bs binding_info w = (Ret infos, w)" "\<forall>i \<in> set infos. i \<noteq> Undef"
    "(\<exists>i \<in> set infos. has_user u i) \<longleftrightarrow>
      (\<exists>b \<in> set bs. \<exists>ss. path b [K ''subjects''] = Inr (Arr ss) \<and> (\<exists>s \<in> set ss. subject_is ''User'' u s))"
    by auto
  obtain info us where info: "binding_info b w = (Ret info, w)" "info \<noteq> Undef"
    "path info [K ''users''] = Inr (Arr us)"
    "\<forall>u. u \<in> set us \<longleftrightarrow> (\<exists>ss. path b [K ''subjects''] = Inr (Arr ss) \<and> (\<exists>s \<in> set ss. subject_is ''User'' u s))"
    using binding_info_run [of b w] Cons.prems by auto
  have "map_each (b # bs) binding_info w = (Ret (info # infos), w)"
    using info(1) infos(1) by (simp add: bind_def ret_run)
  with info infos show ?case by (auto simp: has_user_def)
qed

lemma find_or_undef:
  "\<forall>i \<in> set xs. i \<noteq> Undef \<Longrightarrow>
   ((case find P xs of None \<Rightarrow> Undef | Some b \<Rightarrow> b) \<noteq> Undef) = (\<exists>i \<in> set xs. P i)"
  by (induction xs) auto

lemma find_or_undef_holds:
  "(case find P xs of None \<Rightarrow> Undef | Some b \<Rightarrow> b) \<noteq> Undef \<Longrightarrow>
   P (case find P xs of None \<Rightarrow> Undef | Some b \<Rightarrow> b)"
  by (induction xs) auto

lemma findKymaAdminBindingForUser_run:
  assumes api: "cells w k8sDynamicApi = Obj ps"
    and ans: "services w (calls w) (Kube Global KListClusterRoleBinding) = (Inr resp, d)"
    and items: "path resp [K ''body'', K ''items''] = Inr (Arr bs)" and wf: "\<forall>b \<in> set bs. wf_binding b"
  shows "\<exists>v w'. findKymaAdminBindingForUser u w = (Ret v, w') \<and> chai w' = chai w \<and>
           ((v \<noteq> Undef) = (\<exists>b \<in> set bs. grants_admin u b)) \<and> (v \<noteq> Undef \<longrightarrow> has_user u v)"
proof -
  let ?w = "w\<lparr>calls := calls w @ [Kube Global KListClusterRoleBinding], now := now w + int d\<rparr>"
  let ?as = "filter (\<lambda>b. path b [K ''roleRef'', K ''name''] = Inr (Str ''cluster-admin'')) bs"
  obtain infos where infos: "map_each ?as binding_info ?w = (Ret infos, ?w)" "\<forall>i \<in> set infos. i \<noteq> Undef"
    "(\<exists>i \<in> set infos. has_user u i) \<longleftrightarrow>
      (\<exists>b \<in> set ?as. \<exists>ss. path b [K ''subjects''] = Inr (Arr ss) \<and> (\<exists>s \<in> set ss. subject_is ''User'' u s))"
    using map_binding_info [of ?as ?w u] wf by auto
  let ?v = "case find (has_user u) infos of None \<Rightarrow> Undef | Some b \<Rightarrow> b"
  have "findKymaAdminBindingForUser u w = (Ret ?v, ?w)"
    by (simp add: findKymaAdminBindingForUser_def getKymaAdminBindings_def bind_def api_call_run [OF api] await_run ans
        get_path_def eval_run items as_array_def admin_only_spec [OF wf] infos(1) ret_run)
  moreover have "(?v \<noteq> Undef) = (\<exists>i \<in> set infos. has_user u i)"
    by (rule find_or_undef [OF infos(2)])
  moreover have "?v \<noteq> Undef \<longrightarrow> has_user u ?v"
    using find_or_undef_holds by blast
  ultimately show ?thesis using infos(3) by (auto simp: grants_admin_def)
qed


section \<open>Properties\<close>

text \<open>
  @CID:Utils.base64_round_trip@ Decoding the base64 form of any byte string gives the string back.
\<close>

theorem base64_round_trip: "fromBase64 (toBase64 s) = s"
  by (simp add: fromBase64_def toBase64_def base64_roundtrip)

text \<open>
  Whatever the random source delivers, \<open>genRandom len\<close> returns a name of
  exactly \<open>len\<close> characters, all of them lower-case letters or digits.
\<close>

theorem genRandom_alphabet:
  "\<exists>s. fst (genRandom len w) = Ret s \<and> length s = len \<and> set s \<subseteq> set chrs"
  using genRandom_loop_spec [of len "[]" w] by (auto simp: genRandom_def)


text \<open>
  When no poll outlasts the interval, \<open>wait\<close> does exactly what
  the plain loop does that polls once per tick, stops at the first result that passes the check
  and gives up at the timeout.
\<close>

theorem wait_polls_one_after_the_other:
  assumes "brief (at_least_1 interval) fn"
  shows "wait fn checkFn timeout interval w =
     (case poll_in_turn (tick_count timeout interval) (now w + at_least_1 interval) (at_least_1 interval)
             (now w + at_least_1 timeout) fn checkFn w of
        (Some (c, res), w') \<Rightarrow> (Ret res, w'\<lparr>now := c\<rparr>)
      | (None, w') \<Rightarrow> (Throw wait_timeout,
            debugged [Str ''wait timeout''] (w'\<lparr>now := now w + at_least_1 timeout\<rparr>)))"
  using assms
  by (simp add: wait_def wait_polls_in_turn Let_def seq_run bind_def debug_run throw_run
      split: prod.split option.split)

theorem wait_polls_one_after_the_other_witness:
  "brief (at_least_1 10) (ret (Num 1)) \<and>
   fst (wait (ret (Num 1)) (\<lambda>v. Inr (truthy v)) 35 10 quiet_world) = Ret (Num 1) \<and>
   now (snd (wait (ret (Num 1)) (\<lambda>v. Inr (truthy v)) 35 10 quiet_world)) = 10"
proof -
  have b: "brief (at_least_1 10) (ret (Num 1))"
    by (simp add: brief_def ret_def at_least_1_def)
  have n: "tick_count 35 10 = Suc 2" by (simp add: tick_count_def at_least_1_def)
  show ?thesis
    using b by (simp add: wait_polls_one_after_the_other [OF b] n ret_def quiet_world_def at_least_1_def
        eval_nat_numeral)
qed

text \<open>
  If the API server answers the read of a secret with the JSON text (in
  any indentation) of an object whose \<open>data\<close> holds base64 of ASCII values, \<open>getSecretData\<close> returns
  these values in clear under the same keys and in the same order.
\<close>

theorem getSecretData_decodes:
  assumes api: "cells w k8sDynamicApi = Obj [(''basePath'', Str base)]"
    and answer: "services w (calls w) (Kube Global (KRequest (Obj [(''url'',
        Str (base @ ''/api/v1/namespaces/'' @ ns @ ''/secrets/'' @ name))]))) =
        (Inr (Obj [(''body'', stringify gap secret)]), d)"
    and wf: "wf_json secret" "blank gap"
    and data: "path secret [K ''data''] = Inr (Obj (map (\<lambda>(k, v). (k, Str (toBase64 v))) kvs))"
    and ascii: "\<forall>kv \<in> set kvs. is_ascii (snd kv)"
  shows "fst (getSecretData name ns w) = Ret (Obj (map (\<lambda>(k, v). (k, Str v)) kvs))"
proof -
  have url: "api_url p w = (Ret (base @ p), w)" for p
    by (simp add: api_url_def bind_def prim_run eval_run path.simps lookup_def api ret_run)
  have "fst (getSecret name ns w) = Ret secret"
    using api answer wf
    by (simp add: getSecret_def bind_def url api_call_run await_run get_path_def eval_run path.simps
        lookup_def json_parse_stringify)
  then obtain w' where "getSecret name ns w = (Ret secret, w')" by (metis prod.collapse)
  then show ?thesis
    by (simp add: getSecretData_def try_catch_def bind_def get_path_def eval_run data
        decode_entries_encoded [OF ascii] ret_run)
qed

theorem getSecretData_decodes_witness:
  "fst (getSecretData ''s'' ''n''
     (quiet_world\<lparr>cells := (\<lambda>_. Obj [(''basePath'', Str ''h'')]),
        services := (\<lambda>_ _. (Inr (Obj [(''body'',
          stringify tab (Obj [(''data'', Obj [(''k'', Str (toBase64 ''v''))])]))]), 0))\<rparr>)) =
   Ret (Obj [(''k'', Str ''v'')])"
  by (rule getSecretData_decodes [where base = "''h''" and gap = tab and d = 0 and kvs = "[(''k'', ''v'')]"
        and secret = "Obj [(''data'', Obj [(''k'', Str (toBase64 ''v''))])]", simplified])
     (simp_all add: quiet_world_def path.simps lookup_def is_ascii_def is_ws_def)

text \<open>
  @CID:Utils.deleteAllK8sResources_returns@ \<open>deleteAllK8sResources\<close> never throws and never hangs: every
  failure inside it is logged and dropped.
\<close>

theorem deleteAllK8sResources_returns:
  "fst (deleteAllK8sResources p query retries interval keepFinalizer w) = Ret ()"
  by (rule returns_unit) (rule returns_deleteAll)

text \<open>
  The request of \<open>k8sApply\<close> for one resource: it patches; a
  successful patch is the only request; a patch that fails with reason \<open>NotFound\<close> is followed by
  exactly one create, whose error is the error of the operation; any other failure of the patch is
  thrown without a create.
\<close>

theorem patch_or_create_branches:
  assumes "cells w k8sDynamicApi = Obj ps"
  shows "case fst (services w (calls w) (Kube Global (KPatch r))) of
      Inr v \<Rightarrow> fst (patch_or_create r kind name w) = Ret () \<and>
               calls (snd (patch_or_create r kind name w)) = calls w @ [Kube Global (KPatch r)]
    | Inl e \<Rightarrow>
        if not_found e
        then calls (snd (patch_or_create r kind name w)) =
               calls w @ [Kube Global (KPatch r), Kube Global (KCreate r)] \<and>
             fst (patch_or_create r kind name w) =
               (case fst (services w (calls w @ [Kube Global (KPatch r)]) (Kube Global (KCreate r))) of
                  Inr _ \<Rightarrow> Ret () | Inl ce \<Rightarrow> Throw ce)
        else calls (snd (patch_or_create r kind name w)) = calls w @ [Kube Global (KPatch r)] \<and>
             (\<exists>x. fst (patch_or_create r kind name w) = Throw x \<and> (e \<noteq> Undef \<and> e \<noteq> Null \<longrightarrow> x = e))"
  by (rule patch_or_create_run [OF assms prod.collapse [symmetric]])

theorem patch_or_create_branches_witness:
  "fst (patch_or_create (Obj []) Undef Undef
     (quiet_world\<lparr>cells := (\<lambda>_. Obj []), services := (\<lambda>_ c.
        (if c = Kube Global (KCreate (Obj [])) then Inr Undef
         else Inl (Obj [(''body'', Obj [(''reason'', Str ''NotFound'')])]), 0))\<rparr>)) = Ret ()"
  using patch_or_create_branches [of "quiet_world\<lparr>cells := (\<lambda>_. Obj []), services := (\<lambda>_ c.
        (if c = Kube Global (KCreate (Obj [])) then Inr Undef
         else Inl (Obj [(''body'', Obj [(''reason'', Str ''NotFound'')])]), 0))\<rparr>" "[]" "Obj []" Undef Undef]
  by (simp add: quiet_world_def not_found_def path.simps lookup_def)

text \<open>
  For a list of well-formed cluster role bindings, the check that a user
  is an administrator passes exactly when some binding to the role \<open>cluster-admin\<close> names the user
  as a subject of kind \<open>User\<close>, and the check that the user is none passes exactly when there is no
  such binding.
\<close>

theorem cluster_admin_checks:
  assumes chai: "chai_documented (chai w)"
    and api: "cells w k8sDynamicApi = Obj ps"
    and ans: "services w (calls w) (Kube Global KListClusterRoleBinding) = (Inr resp, d)"
    and items: "path resp [K ''body'', K ''items''] = Inr (Arr bs)" and wf: "\<forall>b \<in> set bs. wf_binding b"
  shows "(fst (ensureKymaAdminBindingExistsForUser u w) = Ret () \<longleftrightarrow> (\<exists>b \<in> set bs. grants_admin u b)) \<and>
    (fst (ensureKymaAdminBindingDoesNotExistsForUser u w) = Ret () \<longleftrightarrow> \<not> (\<exists>b \<in> set bs. grants_admin u b))"
proof -
  obtain v w' where run: "findKymaAdminBindingForUser u w = (Ret v, w')" "chai w' = chai w"
    "(v \<noteq> Undef) = (\<exists>b \<in> set bs. grants_admin u b)" "v \<noteq> Undef \<longrightarrow> has_user u v"
    using findKymaAdminBindingForUser_run [OF api ans items wf] by blast
  have defd: "chai w (IsNotUndefined v) = None \<longleftrightarrow> v \<noteq> Undef" and undef: "chai w (IsUndefined v) = None \<longleftrightarrow> v = Undef"
    using chai by (simp_all add: chai_documented_def)
  have "fst (ensureKymaAdminBindingExistsForUser u w) = Ret () \<longleftrightarrow> (\<exists>b \<in> set bs. grants_admin u b)"
  proof (cases "v = Undef")
    case True
    with defd run show ?thesis
      by (auto simp: ensureKymaAdminBindingExistsForUser_def bind_def seq_run expect_def split: option.splits)
  next
    case False
    then obtain us where us: "path v [K ''users''] = Inr (Arr us)" "u \<in> set us"
      using run(4) by (auto simp: has_user_def split: sum.splits js.splits)
    have "chai w (IncludesValue (Arr us) u) = None" using chai us(2) by (simp add: chai_documented_def)
    with False defd run us show ?thesis
      by (simp add: ensureKymaAdminBindingExistsForUser_def bind_def seq_run expect_def get_path_def eval_run)
  qed
  moreover have "fst (ensureKymaAdminBindingDoesNotExistsForUser u w) = Ret () \<longleftrightarrow>
      \<not> (\<exists>b \<in> set bs. grants_admin u b)"
    using undef run
    by (auto simp: ensureKymaAdminBindingDoesNotExistsForUser_def bind_def expect_def split: option.splits)
  ultimately show ?thesis by simp
qed

definition admin_list :: "js list" where
  "admin_list = [Obj [(''metadata'', Obj [(''name'', Str ''b'')]),
     (''roleRef'', Obj [(''name'', Str ''cluster-admin'')]),
     (''subjects'', Arr [Obj [(''kind'', Str ''User''), (''name'', Str ''jane'')]])]]"

theorem cluster_admin_checks_witness:
  "fst (ensureKymaAdminBindingExistsForUser (Str ''jane'') (quiet_world\<lparr>cells := (\<lambda>_. Obj []), services :=
     (\<lambda>_ _. (Inr (Obj [(''body'', Obj [(''items'', Arr admin_list)])]), 0))\<rparr>)) = Ret ()"
proof -
  let ?w = "quiet_world\<lparr>cells := (\<lambda>_. Obj []),
     services := (\<lambda>_ _. (Inr (Obj [(''body'', Obj [(''items'', Arr admin_list)])]), 0))\<rparr>"
  have "cells ?w k8sDynamicApi = Obj []" by simp
  moreover have "chai_documented (chai ?w)" by (simp add: quiet_world_def plain_chai_documented)
  moreover have "services ?w (calls ?w) (Kube Global KListClusterRoleBinding) =
      (Inr (Obj [(''body'', Obj [(''items'', Arr admin_list)])]), 0)" by simp
  moreover have "path (Obj [(''body'', Obj [(''items'', Arr admin_list)])]) [K ''body'', K ''items''] =
      Inr (Arr admin_list)" by (simp add: path.simps lookup_def)
  moreover have "\<forall>b \<in> set admin_list. wf_binding b"
    by (simp add: admin_list_def wf_binding_def path.simps lookup_def)
  moreover have "\<exists>b \<in> set admin_list. grants_admin (Str ''jane'') b"
    by (simp add: admin_list_def grants_admin_def subject_is_def path.simps lookup_def)
  ultimately show ?thesis using cluster_admin_checks by blast
qed

text \<open>
  A watch that was established always settles: it returns the object of a
  delivered event that passed the check in time, or throws the timeout error.  A watch whose
  connection is refused and that has delivered no matching event is never settled: the
  rejection of the connection is not handled and no timer was started.
\<close>

theorem watch_outcomes:
  assumes "\<not> no_watch client w"
  shows "(case established (watches w (calls w) client p) of
      Inr t0 \<Rightarrow>
        fst (waitForK8sObject client p check timeout msg w) = Throw (new_Error msg) \<or>
        (\<exists>t ev. (t, ev) \<in> set (events (watches w (calls w) client p)) \<and> check ev = Inr True \<and>
           t < t0 + timeout \<and>
           fst (waitForK8sObject client p check timeout msg w) =
             (case path ev [K ''object''] of Inl e \<Rightarrow> Throw e | Inr ob \<Rightarrow> Ret ob))
    | Inl e \<Rightarrow>
        (\<forall>te \<in> set (events (watches w (calls w) client p)). check (snd te) \<noteq> Inr True) \<longrightarrow>
        fst (waitForK8sObject client p check timeout msg w) = Hang \<and>
        e \<in> set (unhandled (snd (waitForK8sObject client p check timeout msg w))))"
proof (cases "established (watches w (calls w) client p)")
  case (Inl e)
  have live: "\<not> no_watch client (debugged a w)" for a using assms by (simp add: no_watch_def)
  let ?evs = "events (watches w (calls w) client p)"
  show ?thesis
  proof (cases "\<forall>te \<in> set ?evs. check (snd te) \<noteq> Inr True")
    case True
    then obtain errs where "watch_events check None ?evs [] = (None, errs)"
      using watch_events_miss by blast
    with Inl show ?thesis
      by (simp add: waitForK8sObject_def seq_run bind_def debug_run Let_def live)
  next
    case False
    with Inl show ?thesis by auto
  qed
next
  case (Inr t0)
  have live: "\<not> no_watch client (debugged a w)" for a using assms by (simp add: no_watch_def)
  let ?evs = "events (watches w (calls w) client p)"
  obtain hit errs where we: "watch_events check (Some (t0 + timeout)) ?evs [] = (hit, errs)" by fastforce
  show ?thesis
  proof (cases hit)
    case None
    with Inr we show ?thesis by (simp add: waitForK8sObject_def seq_run bind_def debug_run Let_def live)
  next
    case (Some te)
    obtain t ev where te: "te = (t, ev)" by (cases te)
    have "(t, ev) \<in> set ?evs" "check ev = Inr True" "t < t0 + timeout"
      using watch_events_hit we Some te by (metis, metis, metis)
    with Inr we Some te show ?thesis
      by (auto simp: waitForK8sObject_def seq_run bind_def debug_run Let_def live get_path_def eval_run)
  qed
qed

theorem watch_outcomes_witness:
  "fst (waitForSecret ''s'' ''n'' 5
     (quiet_world\<lparr>cells := (\<lambda>_. Obj []), watches := (\<lambda>_ _ _. \<lparr>established = Inl Null, events = []\<rparr>)\<rparr>)) = Hang"
  using watch_outcomes [of Global "quiet_world\<lparr>cells := (\<lambda>_. Obj []),
     watches := (\<lambda>_ _ _. \<lparr>established = Inl Null, events = []\<rparr>)\<rparr>"]
  by (simp add: waitForSecret_def no_watch_def)

end
