(* ===== verification/Wait_Machine.thy ===== *)
theory Wait_Machine
  imports Utils
begin

text \<open>
  The event machine behind \<open>wait\<close> of \<^verbatim>\<open>src/testing/e2e/skr/utils/index.js\<close>.  One timeout timer and one
  interval timer are armed; every tick of the interval starts a poll, polls end in any order and
  at any time, and the timeout may fire at any moment while it is armed.  The relation below has
  one rule per kind of event and leaves all timing and all interleaving open; the executable
  \<open>wait\<close> of \<^verbatim>\<open>Utils\<close> is one schedule of it.
\<close>

section \<open>The machine\<close>

record waiter =
  th :: bool
  ih :: bool
  running :: nat
  started :: nat
  settled :: "(js + js) option"
  crashes :: "js list"

definition fresh_waiter :: waiter where
  "fresh_waiter = \<lparr>th = True, ih = True, running = 0, started = 0, settled = None, crashes = []\<rparr>"

text \<open>\<open>done(fn, arg)\<close>: clear both timers and settle; settling a settled promise has no effect.\<close>

definition finish :: "js + js \<Rightarrow> waiter \<Rightarrow> waiter" where
  "finish r s = s\<lparr>th := False, ih := False, settled := (case settled s of None \<Rightarrow> Some r | Some x \<Rightarrow> Some x)\<rparr>"

inductive wait_step :: "(js \<Rightarrow> js + bool) \<Rightarrow> waiter \<Rightarrow> waiter \<Rightarrow> bool" for check where
  tick: "ih s \<Longrightarrow> wait_step check s (s\<lparr>running := Suc (running s), started := Suc (started s)\<rparr>)"
| passed: "running s = Suc n \<Longrightarrow> check res = Inr True \<Longrightarrow>
    wait_step check s (finish (Inr res) (s\<lparr>running := n\<rparr>))"
| not_yet: "running s = Suc n \<Longrightarrow> check res = Inr False \<Longrightarrow> wait_step check s (s\<lparr>running := n\<rparr>)"
| check_threw: "running s = Suc n \<Longrightarrow> check res = Inl e \<Longrightarrow>
    wait_step check s (s\<lparr>running := n, crashes := crashes s @ [e]\<rparr>)"
| timed_out: "th s \<Longrightarrow> wait_step check s (finish (Inl wait_timeout) s)"

inductive wait_reach :: "(js \<Rightarrow> js + bool) \<Rightarrow> waiter \<Rightarrow> bool" for check where
  start: "wait_reach check fresh_waiter"
| step: "wait_reach check s \<Longrightarrow> wait_step check s t \<Longrightarrow> wait_reach check t"

inductive_cases wait_stepE: "wait_step check s t"

inductive wait_steps :: "(js \<Rightarrow> js + bool) \<Rightarrow> waiter \<Rightarrow> waiter \<Rightarrow> bool" for check where
  none: "wait_steps check s s"
| more: "wait_steps check s t \<Longrightarrow> wait_step check t u \<Longrightarrow> wait_steps check s u"

section \<open>Invariants\<close>

definition waiter_inv :: "(js \<Rightarrow> js + bool) \<Rightarrow> waiter \<Rightarrow> bool" where
  "waiter_inv check s =
     (th s = ih s \<and> (settled s = None) = ih s \<and> running s \<le> started s \<and>
      (\<forall>v. settled s = Some (Inr v) \<longrightarrow> check v = Inr True) \<and>
      (\<forall>e. settled s = Some (Inl e) \<longrightarrow> e = wait_timeout))"

lemma waiter_inv_step: "wait_step check s t \<Longrightarrow> waiter_inv check s \<Longrightarrow> waiter_inv check t"
  by (induction rule: wait_step.induct) (auto simp: waiter_inv_def finish_def split: option.splits)

lemma waiter_inv_reach: "wait_reach check s \<Longrightarrow> waiter_inv check s"
proof (induction rule: wait_reach.induct)
  case start
  show ?case by (simp add: waiter_inv_def fresh_waiter_def)
next
  case (step s t)
  then show ?case by (blast intro: waiter_inv_step)
qed

lemma settled_step: "wait_step check s t \<Longrightarrow> settled s = Some r \<Longrightarrow> settled t = Some r"
  by (induction rule: wait_step.induct) (auto simp: finish_def)

lemma no_new_polls: "wait_step check s t \<Longrightarrow> \<not> ih s \<Longrightarrow> started t = started s \<and> \<not> ih t"
  by (induction rule: wait_step.induct) (auto simp: finish_def)

lemma settled_steps: "wait_steps check s t \<Longrightarrow> settled s = Some r \<Longrightarrow> settled t = Some r"
  by (induction rule: wait_steps.induct) (auto dest: settled_step)

lemma quiet_steps: "wait_steps check s t \<Longrightarrow> \<not> ih s \<Longrightarrow> started t = started s \<and> \<not> ih t"
  by (induction rule: wait_steps.induct) (auto dest: no_new_polls)

lemma wait_reach_steps: "wait_steps check s t \<Longrightarrow> wait_reach check s \<Longrightarrow> wait_reach check t"
  by (induction rule: wait_steps.induct) (auto intro: wait_reach.step)

section \<open>Properties\<close>

text \<open>
  In every interleaving of ticks, completions and the timeout, the
  promise of \<open>wait\<close> is settled at most once and never changes afterwards; it is resolved only
  with a value that passed the check and rejected only with the timeout error; and once it is
  settled both timers are cleared and no further poll is ever started.
\<close>

theorem wait_settles_once:
  assumes "wait_reach check s" and "settled s = Some r" and "wait_steps check s t"
  shows "settled t = Some r \<and> started t = started s \<and> \<not> th t \<and> \<not> ih t \<and>
         (case r of Inr v \<Rightarrow> check v = Inr True | Inl e \<Rightarrow> e = wait_timeout)"
proof -
  have s: "waiter_inv check s" using assms(1) by (rule waiter_inv_reach)
  have t: "waiter_inv check t" using wait_reach_steps [OF assms(3,1)] by (rule waiter_inv_reach)
  have "\<not> ih s" using s assms(2) by (auto simp: waiter_inv_def)
  then have "started t = started s" "\<not> ih t" using quiet_steps [OF assms(3)] by auto
  then show ?thesis
    using settled_steps [OF assms(3,2)] s t assms(2) by (auto simp: waiter_inv_def split: sum.splits)
qed

text \<open>Two overlapping polls that both pass: the first completion wins, the second changes nothing.\<close>

definition two_polls :: waiter where
  "two_polls = \<lparr>th = False, ih = False, running = 1, started = 2, settled = Some (Inr (Num 1)), crashes = []\<rparr>"

lemma two_polls_reach: "wait_reach (\<lambda>v. Inr (truthy v)) two_polls"
proof -
  let ?s1 = "fresh_waiter\<lparr>running := 1, started := 1\<rparr>"
  let ?s2 = "fresh_waiter\<lparr>running := 2, started := 2\<rparr>"
  have "wait_reach (\<lambda>v. Inr (truthy v)) ?s1"
    using wait_reach.step [OF wait_reach.start wait_step.tick] by (simp add: fresh_waiter_def)
  then have "wait_reach (\<lambda>v. Inr (truthy v)) ?s2"
    using wait_reach.step [OF _ wait_step.tick, of _ ?s1] by (simp add: fresh_waiter_def numeral_2_eq_2)
  then show ?thesis
    using wait_reach.step [OF _ wait_step.passed, of "\<lambda>v. Inr (truthy v)" ?s2 1 "Num 1"]
    by (simp add: fresh_waiter_def finish_def two_polls_def)
qed

theorem wait_settles_once_witness:
  "settled (finish (Inr (Num 2)) (two_polls\<lparr>running := 0\<rparr>)) = Some (Inr (Num 1))"
proof -
  have "wait_steps (\<lambda>v. Inr (truthy v)) two_polls (finish (Inr (Num 2)) (two_polls\<lparr>running := 0\<rparr>))"
    by (rule wait_steps.more [OF wait_steps.none], rule wait_step.passed) (simp_all add: two_polls_def)
  with wait_settles_once [OF two_polls_reach, of "Inr (Num 1)"] show ?thesis
    by (simp add: two_polls_def)
qed

text \<open>
  The executable \<open>wait\<close> is a schedule of the machine: whatever it
  returns or throws, some reachable state of the machine has settled the promise that way.
\<close>

lemma wait_is_a_schedule:
  "\<exists>s. wait_reach checkFn s \<and>
     (case fst (wait fn checkFn timeout interval w) of
        Ret v \<Rightarrow> settled s = Some (Inr v)
      | Throw e \<Rightarrow> settled s = Some (Inl e)
      | Hang \<Rightarrow> False)"
proof -
  obtain r w' where run: "wait fn checkFn timeout interval w = (r, w')" by fastforce
  from wait_outcome [OF run] show ?thesis
  proof (elim disjE exE conjE)
    fix v assume v: "r = Ret v" "checkFn v = Inr True"
    let ?s = "fresh_waiter\<lparr>running := 1, started := 1\<rparr>"
    have "wait_reach checkFn ?s"
      using wait_reach.step [OF wait_reach.start wait_step.tick] by (simp add: fresh_waiter_def)
    then have "wait_reach checkFn (finish (Inr v) (?s\<lparr>running := 0\<rparr>))"
      by (rule wait_reach.step) (rule wait_step.passed, simp_all add: fresh_waiter_def v)
    then show ?thesis
      using run v by (intro exI [of _ "finish (Inr v) (?s\<lparr>running := 0\<rparr>)"])
                     (simp add: finish_def fresh_waiter_def)
  next
    assume "r = Throw wait_timeout"
    moreover have "wait_reach checkFn (finish (Inl wait_timeout) fresh_waiter)"
      by (rule wait_reach.step [OF wait_reach.start]) (rule wait_step.timed_out, simp add: fresh_waiter_def)
    ultimately show ?thesis
      using run by (intro exI [of _ "finish (Inl wait_timeout) fresh_waiter"])
                   (simp add: finish_def fresh_waiter_def)
  qed
qed

end
