(* ===== verification/OAuth.thy ===== *)
theory OAuth
  imports Utils
begin

text \<open>
  \<^verbatim>\<open>src/testing/e2e/skr/lib/oauth.js\<close>: OAuth2 client credentials and a token that is requested on demand
  and kept until it expires.  The mutable field \<open>_token\<close> is a cell of the world.
\<close>

section \<open>Credentials and token\<close>

record OAuthCredentials =
  clientID :: string
  clientSecret :: string

definition OAuthCredentials_fromEnv :: "string \<Rightarrow> string \<Rightarrow> OAuthCredentials prog" where
  "OAuthCredentials_fromEnv clientIDEnv clientSecretEnv =
     (bind (getEnvOrThrow clientIDEnv) (\<lambda>i.
      bind (getEnvOrThrow clientSecretEnv) (\<lambda>s.
      ret \<lparr>clientID = i, clientSecret = s\<rparr>)))"

record OAuthToken =
  tokenUrl :: string
  credentials :: OAuthCredentials
  tokenCell :: nat

definition new_OAuthToken :: "nat \<Rightarrow> string \<Rightarrow> OAuthCredentials \<Rightarrow> OAuthToken prog" where
  "new_OAuthToken cell url creds =
     seq (set_cell cell Undef) (ret \<lparr>tokenUrl = url, credentials = creds, tokenCell = cell\<rparr>)"

text \<open>Numeric conversion of an integral value; \<open>NaN\<close> is the text \<open>NaN\<close>.\<close>

definition to_int :: "js \<Rightarrow> int option" where
  "to_int v = (case v of
     Num i \<Rightarrow> Some i
   | Null \<Rightarrow> Some 0
   | Bool b \<Rightarrow> Some (if b then 1 else 0)
   | Str s \<Rightarrow> (if s = [] then Some 0 else case parse_text s of Inr (Num i) \<Rightarrow> Some i | _ \<Rightarrow> None)
   | _ \<Rightarrow> None)"

definition expiry :: "int \<Rightarrow> js \<Rightarrow> js" where
  "expiry t expires_in = (case to_int expires_in of None \<Rightarrow> Dec ''NaN'' | Some s \<Rightarrow> Num (t + s * 1000))"

text \<open>\<open>v < n\<close>: false when \<open>v\<close> has no numeric value.\<close>

definition less_num :: "js \<Rightarrow> int \<Rightarrow> bool" where
  "less_num v n = (case to_int v of None \<Rightarrow> False | Some i \<Rightarrow> i < n)"

text \<open>The error of a failed HTTP request, as \<open>getToken\<close> and \<open>callKEB\<close> both report it.\<close>

definition http_error :: "string \<Rightarrow> js \<Rightarrow> 'a prog" where
  "http_error msg err =
     (bind (get_path err [K ''response'']) (\<lambda>response.
      if truthy response
      then
         (bind (get_path response [K ''status'']) (\<lambda>status.
          bind (get_path response [K ''statusText'']) (\<lambda>statusText.
          throw (new_Error (msg @ '': '' @ to_str status @ '' '' @ to_str statusText)))))
      else
         (bind (eval (toString err)) (\<lambda>text.
          throw (new_Error (msg @ '': '' @ text))))))"

definition token_request :: "OAuthToken \<Rightarrow> string list \<Rightarrow> call" where
  "token_request t scopes =
     AxiosPost (tokenUrl t) (''grant_type=client_credentials&scope='' @ join '' '' scopes)
       (Obj [(''auth'', Obj [(''username'', Str (clientID (credentials t))),
                           (''password'', Str (clientSecret (credentials t)))]),
             (''headers'', Obj [(''Content-Type'', Str ''application/x-www-form-urlencoded'')])])"

definition refresh_token :: "OAuthToken \<Rightarrow> string list \<Rightarrow> unit prog" where
  "refresh_token t scopes =
     try_catch
       (bind (await (token_request t scopes)) (\<lambda>resp.
         bind (get_path resp [K ''data'']) (\<lambda>data.
         seq (set_cell (tokenCell t) data) (
         bind date_now (\<lambda>at.
         bind (get_path data [K ''expires_in'']) (\<lambda>expires_in.
         bind (eval (set_prop_strict data ''expires_at'' (expiry at expires_in))) (\<lambda>data'.
         set_cell (tokenCell t) data')))))))
       (http_error (''Error when requesting bearer token from '' @ tokenUrl t))"

definition getToken :: "OAuthToken \<Rightarrow> string list \<Rightarrow> js prog" where
  "getToken t scopes =
     (bind (get_cell (tokenCell t)) (\<lambda>tok.
      bind (if truthy tok then get_path tok [K ''expires_at''] else ret Undef) (\<lambda>expires_at.
      bind date_now (\<lambda>at.
      seq (if_then (\<not> truthy tok \<or> less_num expires_at at) (refresh_token t scopes)) (
      bind (get_cell (tokenCell t)) (\<lambda>current.
      get_path current [K ''access_token'']))))))"

section \<open>Facts\<close>

lemma framed_http_error [frame_rules, intro!]: "framed (http_error m e)"
  by (auto simp: http_error_def intro!: frame_rules)

lemma settles_http_error [settle_rules, intro!]: "settles (http_error m e)"
  by (auto simp: http_error_def intro!: settle_rules)

lemma http_error_throws: "\<exists>x. http_error m e w = (Throw x, w)"
  by (auto simp: http_error_def bind_def get_path_def eval_run throw_run split: sum.splits)

lemma getToken_framed: "framed (getToken t s)"
  by (auto simp: getToken_def refresh_token_def intro!: frame_rules)

lemma getToken_settles: "settles (getToken t s)"
  by (auto simp: getToken_def refresh_token_def intro!: settle_rules)

interpretation token: remote_operation "\<lambda>(t, scopes). getToken t scopes"
  by unfold_locales (auto simp: getToken_framed getToken_settles)

text \<open>A token that has not expired.\<close>

definition live_token :: "int \<Rightarrow> js \<Rightarrow> bool" where
  "live_token t tok = (\<exists>ps i. tok = Obj ps \<and> lookup ps ''expires_at'' = Num i \<and> t \<le> i)"

lemma getToken_live:
  assumes "live_token (now w) (cells w (tokenCell t))"
  shows "getToken t scopes w =
     (case path (cells w (tokenCell t)) [K ''access_token''] of Inl e \<Rightarrow> (Throw e, w) | Inr v \<Rightarrow> (Ret v, w))"
  using assms
  by (auto simp: live_token_def getToken_def bind_def prim_run seq_run eval_run path.simps less_num_def
      to_int_def ret_run)

lemma lookup_assoc_set: "lookup (assoc_set k v ps) k' = (if k' = k then v else lookup ps k')"
  by (induction k v ps rule: assoc_set.induct) (auto simp: lookup_def)

section \<open>Properties\<close>

text \<open>
  When no token is stored yet, \<open>getToken\<close> requests one with exactly one call
  and stores it with the time at which it expires; as long as that time has not passed, every
  later \<open>getToken\<close> returns the same token without any call and leaves the world as it is.
\<close>

theorem token_is_reused:
  assumes none: "cells w (tokenCell t) = Undef"
    and answer: "services w (calls w) (token_request t scopes) =
       (Inr (Obj [(''data'', Obj [(''access_token'', tok), (''expires_in'', Num secs)])]), d)"
    and run: "getToken t scopes w = (r, w1)"
    and later: "now w1 \<le> now v" "now v \<le> now w1 + secs * 1000" "cells v = cells w1"
  shows "r = Ret tok \<and> calls w1 = calls w @ [token_request t scopes] \<and> getToken t scopes' v = (Ret tok, v)"
proof -
  let ?data = "Obj [(''access_token'', tok), (''expires_in'', Num secs)]"
  let ?w = "w\<lparr>calls := calls w @ [token_request t scopes], now := now w + int d\<rparr>"
  let ?tok = "Obj [(''access_token'', tok), (''expires_in'', Num secs),
                   (''expires_at'', Num (now w + int d + secs * 1000))]"
  have first: "getToken t scopes w = (Ret tok, ?w\<lparr>cells := (cells w)(tokenCell t := ?tok)\<rparr>)"
    using none answer
    by (simp add: getToken_def refresh_token_def bind_def prim_run seq_run eval_run ret_run try_catch_def
        await_run path.simps lookup_def set_prop_strict_def expiry_def to_int_def)
  then have w1: "w1 = ?w\<lparr>cells := (cells w)(tokenCell t := ?tok)\<rparr>" and r: "r = Ret tok" using run by auto
  have cell: "cells v (tokenCell t) = ?tok" using later(3) w1 by simp
  have "live_token (now v) (cells v (tokenCell t))"
    using later(2) w1 by (simp add: cell live_token_def lookup_def)
  then have "getToken t scopes' v = (Ret tok, v)"
    by (simp add: getToken_live cell path.simps lookup_def)
  with r w1 show ?thesis by simp
qed

definition some_token :: OAuthToken where
  "some_token = \<lparr>tokenUrl = ''u'', credentials = \<lparr>clientID = ''i'', clientSecret = ''s''\<rparr>, tokenCell = 1\<rparr>"

definition token_world :: world where
  "token_world = quiet_world\<lparr>services := (\<lambda>_ _.
     (Inr (Obj [(''data'', Obj [(''access_token'', Str ''t''), (''expires_in'', Num 60)])]), 5))\<rparr>"

theorem token_is_reused_witness:
  "fst (getToken some_token [''x''] token_world) = Ret (Str ''t'') \<and>
   getToken some_token [''y''] (snd (getToken some_token [''x''] token_world)) =
     (Ret (Str ''t''), snd (getToken some_token [''x''] token_world))"
proof -
  obtain r w1 where run: "getToken some_token [''x''] token_world = (r, w1)" by fastforce
  have "cells token_world (tokenCell some_token) = Undef"
    by (simp add: token_world_def quiet_world_def)
  moreover have "services token_world (calls token_world) (token_request some_token [''x'']) =
      (Inr (Obj [(''data'', Obj [(''access_token'', Str ''t''), (''expires_in'', Num 60)])]), 5)"
    by (simp add: token_world_def)
  ultimately have "r = Ret (Str ''t'') \<and> getToken some_token [''y''] w1 = (Ret (Str ''t''), w1)"
    using token_is_reused [OF _ _ run, of "Str ''t''" 60 5 w1 "[''y'']"] by simp
  then show ?thesis by (simp add: run)
qed

text \<open>
  When the token endpoint refuses the request, \<open>getToken\<close> throws an
  \<open>Error\<close> that names the endpoint and the status, and the stored token is left as it was, so
  the next call asks again.
\<close>

theorem failed_request_keeps_token:
  assumes "\<not> truthy (cells w (tokenCell t))"
    and "services w (calls w) (token_request t scopes) =
       (Inl (Obj [(''response'', Obj [(''status'', st), (''statusText'', tx)])]), d)"
  shows "fst (getToken t scopes w) =
           Throw (new_Error (''Error when requesting bearer token from '' @ tokenUrl t @ '': '' @
                             to_str st @ '' '' @ to_str tx)) \<and>
         cells (snd (getToken t scopes w)) = cells w"
  using assms
  by (simp add: getToken_def refresh_token_def http_error_def bind_def prim_run seq_run eval_run ret_run
      throw_run try_catch_def await_run path.simps lookup_def)

theorem failed_request_keeps_token_witness:
  "fst (getToken some_token [''x''] (quiet_world\<lparr>services := (\<lambda>_ _.
      (Inl (Obj [(''response'', Obj [(''status'', Num 401), (''statusText'', Str ''no'')])]), 0))\<rparr>)) =
   Throw (new_Error (''Error when requesting bearer token from u: '' @ to_str (Num 401) @ '' no''))"
  using failed_request_keeps_token [of "quiet_world\<lparr>services := (\<lambda>_ _.
      (Inl (Obj [(''response'', Obj [(''status'', Num 401), (''statusText'', Str ''no'')])]), 0))\<rparr>"
      some_token "[''x'']" "Num 401" "Str ''no''" 0]
  by (simp add: quiet_world_def some_token_def)

end
