(* ===== verification/Polling.thy ===== *)
theory Polling
  imports OAuth
begin

text \<open>
  What the clients share: they poll a remote operation with \<open>wait\<close> until a check accepts what
  came back, and they report a failed request as an \<open>Error\<close> with a message of their own.  The
  locale \<open>polled_operation\<close> states what such a poll gives its caller.
\<close>

section \<open>Shared expressions of the sources\<close>

text \<open>\<open>throw new Error(`msg: ${err.toString()}`)\<close>\<close>

definition rethrow_as :: "string \<Rightarrow> js \<Rightarrow> 'a prog" where
  "rethrow_as msg err = bind (eval (toString err)) (\<lambda>text. throw (new_Error (msg @ '': '' @ text)))"

text \<open>
  The check \<open>res && res.state && (res.state === 'succeeded' || res.state === 'failed')\<close>.
\<close>

definition finished :: "js \<Rightarrow> js + bool" where
  "finished res =
     (if \<not> truthy res then Inr False
      else case path res [K ''state''] of
             Inl e \<Rightarrow> Inl e
           | Inr state \<Rightarrow> Inr (state = Str ''succeeded'' \<or> state = Str ''failed''))"

text \<open>A value used as a string by one of its methods.\<close>

definition as_string :: "string \<Rightarrow> js \<Rightarrow> js + string" where
  "as_string m v = (case v of
     Str s \<Rightarrow> Inr s
   | Undef \<Rightarrow> Inl (cannot_read ''undefined'' m)
   | Null \<Rightarrow> Inl (cannot_read ''null'' m)
   | _ \<Rightarrow> Inl (TypeError (m @ '' is not a function'')))"

text \<open>The properties that \<open>...v\<close> copies into an object literal.\<close>

definition own_props :: "js \<Rightarrow> (string \<times> js) list" where
  "own_props v = (case v of
     Obj ps \<Rightarrow> ps
   | Err n m ps \<Rightarrow> ps
   | Arr vs \<Rightarrow> zip (map show_nat [0..<length vs]) vs
   | Str s \<Rightarrow> zip (map show_nat [0..<length s]) (map (\<lambda>c. Str [c]) s)
   | _ \<Rightarrow> [])"

text \<open>An object literal \<open>{k: v.a.b, ...}\<close> whose properties are all read off one value, in order.\<close>

fun read_fields :: "js \<Rightarrow> (string \<times> key list) list \<Rightarrow> js + (string \<times> js) list" where
  "read_fields v [] = Inr []"
| "read_fields v ((k, p) # fs) =
     (case path v p of
        Inl e \<Rightarrow> Inl e
      | Inr x \<Rightarrow> (case read_fields v fs of Inl e \<Rightarrow> Inl e | Inr xs \<Rightarrow> Inr ((k, x) # xs)))"

definition nl :: string where
  "nl = [CHR 0x0A]"

definition in_quotes :: "string \<Rightarrow> string" where
  "in_quotes s = [CHR 0x22] @ s @ [CHR 0x22]"

section \<open>Facts\<close>

lemma framed_rethrow_as [frame_rules, intro!]: "framed (rethrow_as m e)"
  by (auto simp: rethrow_as_def intro!: frame_rules)

lemma settles_rethrow_as [settle_rules, intro!]: "settles (rethrow_as m e)"
  by (auto simp: rethrow_as_def intro!: settle_rules)

lemma rethrow_as_throws: "\<exists>x. rethrow_as m e w = (Throw x, w)"
  by (auto simp: rethrow_as_def bind_def eval_run throw_run split: sum.splits)

text \<open>Programs that throw nothing but \<open>Error\<close> objects.\<close>

definition is_error :: "js \<Rightarrow> bool" where
  "is_error e = (case e of Err _ _ _ \<Rightarrow> True | _ \<Rightarrow> False)"

definition throws_errors :: "'a prog \<Rightarrow> bool" where
  "throws_errors m = (\<forall>w e. fst (m w) = Throw e \<longrightarrow> is_error e)"

named_theorems error_rules \<open>programs that throw nothing but Error objects\<close>

lemma is_error_new [simp]: "is_error (new_Error m)" "is_error (TypeError m)" "is_error (cannot_read x k)"
  by (simp_all add: is_error_def new_Error_def TypeError_def cannot_read_def)

lemma toString_error: "is_error e \<Longrightarrow> toString e = Inr (to_str e)"
  by (cases e) (simp_all add: is_error_def toString_def)

lemma member_error: "member v k = Inl e \<Longrightarrow> is_error e"
  by (cases "(v, k)" rule: member.cases) auto

lemma path_error: "path v ks = Inl e \<Longrightarrow> is_error e"
  by (induction v ks rule: path.induct) (auto simp: path.simps member_error split: sum.splits)

text \<open>The errors of a failed property access carry no properties of their own.\<close>

lemma member_plain: "member v k = Inl e \<Longrightarrow> \<exists>m. e = Err ''TypeError'' m []"
  by (cases "(v, k)" rule: member.cases) (auto simp: cannot_read_def TypeError_def)

lemma path_plain: "path v ks = Inl e \<Longrightarrow> \<exists>m. e = Err ''TypeError'' m []"
  by (induction v ks rule: path.induct) (auto simp: path.simps member_plain split: sum.splits)

lemma throws_errorsD: "throws_errors m \<Longrightarrow> m w = (Throw e, w') \<Longrightarrow> is_error e"
  by (metis fst_conv throws_errors_def)

lemma throws_errors_bind [error_rules]:
  "throws_errors m \<Longrightarrow> (\<And>x. throws_errors (f x)) \<Longrightarrow> throws_errors (bind m f)"
  by (auto simp: throws_errors_def bind_def split: prod.splits outcome.splits) (metis fst_conv)+

lemma throws_errors_seq [error_rules]:
  "throws_errors m \<Longrightarrow> throws_errors k \<Longrightarrow> throws_errors (seq m k)"
  by (simp add: seq_def throws_errors_bind)

lemma throws_errors_try [error_rules]:
  "(\<And>e. throws_errors (h e)) \<Longrightarrow> throws_errors (try_catch m h)"
  by (auto simp: throws_errors_def try_catch_def split: prod.splits outcome.splits)

lemma throws_errors_basic [error_rules]:
  "throws_errors (ret x)" "throws_errors (throw (new_Error msg))" "throws_errors (get_path v ks)"
  "throws_errors (get_cell a)" "throws_errors (set_cell a u)" "throws_errors date_now"
  "throws_errors (process_env k)" "throws_errors (debug args)" "throws_errors (console_log args)"
  by (auto simp: throws_errors_def run_simps eval_run dest: path_error split: sum.splits)

lemma throws_errors_if [error_rules]:
  "throws_errors m \<Longrightarrow> throws_errors k \<Longrightarrow> throws_errors (if b then m else k)"
  "throws_errors n \<Longrightarrow> throws_errors (if_then b n)"
  by (simp_all add: if_then_def throws_errors_basic)

lemma throws_errors_toString [error_rules]: "throws_errors (eval (toString v))"
  by (cases v) (auto simp: throws_errors_def eval_run toString_def)

lemma throws_errors_http_error [error_rules]: "throws_errors (http_error m e)"
  by (auto simp: http_error_def intro!: error_rules)

lemma throws_errors_rethrow [error_rules]: "throws_errors (rethrow_as m e)"
  by (auto simp: rethrow_as_def intro!: error_rules)

text \<open>A handler that only converts the error to text cannot fail on an \<open>Error\<close>.\<close>

lemma try_error_returns:
  assumes "settles m" and "throws_errors m" and "\<And>e w. is_error e \<Longrightarrow> \<exists>x. fst (h e w) = Ret x"
  shows "returns (try_catch m h)"
  unfolding returns_def
proof
  fix w
  obtain r w' where m: "m w = (r, w')" by fastforce
  with assms(1) have "r \<noteq> Hang" by (metis fst_conv settles_def)
  with m throws_errorsD [OF assms(2)] assms(3) show "\<exists>x. fst (try_catch m h w) = Ret x"
    by (cases r) (auto simp: run_simps)
qed

lemma finished_state:
  "finished res = Inr True \<longleftrightarrow>
   path res [K ''state''] = Inr (Str ''succeeded'') \<or> path res [K ''state''] = Inr (Str ''failed'')"
  by (cases res) (auto simp: finished_def path.simps split: sum.splits)

lemma finished_total: "\<exists>b. finished res = Inr b"
  by (cases res) (auto simp: finished_def path.simps)

text \<open>
  Postconditions of what a program returns, whatever the world; the rules follow the statements
  of a function backwards to the value it returns.
\<close>

definition returns_only :: "'a prog \<Rightarrow> ('a \<Rightarrow> bool) \<Rightarrow> bool" where
  "returns_only m P = (\<forall>w x. fst (m w) = Ret x \<longrightarrow> P x)"

lemma returns_onlyI: "(\<And>w x w'. m w = (Ret x, w') \<Longrightarrow> P x) \<Longrightarrow> returns_only m P"
  unfolding returns_only_def by (metis prod.collapse)

lemma returns_onlyD: "returns_only m P \<Longrightarrow> m w = (Ret x, w') \<Longrightarrow> P x"
  by (metis fst_conv returns_only_def)

lemma returns_only_bind:
  "returns_only m Q \<Longrightarrow> (\<And>x. Q x \<Longrightarrow> returns_only (f x) P) \<Longrightarrow> returns_only (bind m f) P"
  by (auto simp: returns_only_def bind_def split: prod.splits outcome.splits) (metis fst_conv)

lemma returns_only_seq: "returns_only k P \<Longrightarrow> returns_only (seq m k) P"
  by (auto simp: returns_only_def seq_def bind_def split: prod.splits outcome.splits)

lemma returns_only_try:
  "returns_only m P \<Longrightarrow> (\<And>e. returns_only (h e) P) \<Longrightarrow> returns_only (try_catch m h) P"
  by (auto simp: returns_only_def try_catch_def split: prod.splits outcome.splits) (metis fst_conv)

lemma returns_only_basic:
  "returns_only (throw e) P" "returns_only (ret x) P = P x" "returns_only (get_path v ks) (\<lambda>x. path v ks = Inr x)"
  "returns_only (eval r) (\<lambda>x. r = Inr x)" "returns_only (if_then b (throw e)) (\<lambda>_. \<not> b)"
  "returns_only m (\<lambda>_. True)"
  by (auto simp: returns_only_def run_simps eval_run if_then_def split: sum.splits)

lemma as_string_Inr: "as_string m v = Inr s \<longleftrightarrow> v = Str s"
  by (cases v) (simp_all add: as_string_def)

text \<open>Programs that make at most \<open>n\<close> external calls.\<close>

definition at_most :: "nat \<Rightarrow> 'a prog \<Rightarrow> bool" where
  "at_most n m = (\<forall>w. \<exists>cs. calls (snd (m w)) = calls w @ cs \<and> length cs \<le> n)"

lemma at_most_mono: "at_most n m \<Longrightarrow> n \<le> k \<Longrightarrow> at_most k m"
  by (auto simp: at_most_def) (meson le_trans)

lemma at_mostD: "at_most n m \<Longrightarrow> m w = (r, w') \<Longrightarrow> \<exists>cs. calls w' = calls w @ cs \<and> length cs \<le> n"
  by (metis at_most_def snd_conv)

lemma at_most_basic:
  "at_most 0 (ret x)" "at_most 0 (throw e)" "at_most 0 (get_path v ks)" "at_most 0 (eval r)"
  "at_most 0 (console_log args)" "at_most 0 (process_env k)" "at_most 0 (debug args)"
  "at_most 1 (await c)"
  by (simp_all add: at_most_def run_simps eval_run await_run split: sum.splits)

lemma at_most_bind:
  assumes "at_most n m" and "\<And>x. at_most k (f x)"
  shows "at_most (n + k) (bind m f)"
  unfolding at_most_def
proof
  fix w
  obtain r w' where m: "m w = (r, w')" by fastforce
  obtain cs where cs: "calls w' = calls w @ cs" "length cs \<le> n" using at_mostD [OF assms(1) m] by blast
  show "\<exists>cs. calls (snd (bind m f w)) = calls w @ cs \<and> length cs \<le> n + k"
  proof (cases r)
    case (Ret x)
    obtain ds where "calls (snd (f x w')) = calls w' @ ds" "length ds \<le> k"
      using assms(2) by (auto simp: at_most_def)
    with cs m Ret show ?thesis by (intro exI [of _ "cs @ ds"]) (simp add: run_simps)
  qed (use cs m in \<open>auto simp: run_simps\<close>)
qed

lemma at_most_seq: "at_most n m \<Longrightarrow> at_most k p \<Longrightarrow> at_most (n + k) (seq m p)"
  by (simp add: seq_def at_most_bind)

lemma at_most_try:
  assumes "at_most n m" and "\<And>e. at_most k (h e)"
  shows "at_most (n + k) (try_catch m h)"
  unfolding at_most_def
proof
  fix w
  obtain r w' where m: "m w = (r, w')" by fastforce
  obtain cs where cs: "calls w' = calls w @ cs" "length cs \<le> n" using at_mostD [OF assms(1) m] by blast
  show "\<exists>cs. calls (snd (try_catch m h w)) = calls w @ cs \<and> length cs \<le> n + k"
  proof (cases r)
    case (Throw e)
    obtain ds where "calls (snd (h e w')) = calls w' @ ds" "length ds \<le> k"
      using assms(2) by (auto simp: at_most_def)
    with cs m Throw show ?thesis by (intro exI [of _ "cs @ ds"]) (simp add: run_simps)
  qed (use cs m in \<open>auto simp: run_simps\<close>)
qed

named_theorems call_rules \<open>statements that add nothing to the number of calls\<close>

lemma at_most_silent [call_rules]:
  "at_most k (ret x)" "at_most k (throw e)" "at_most k (get_path v ks)" "at_most k (eval r)"
  "at_most k (console_log args)" "at_most k (debug args)"
  by (rule at_most_mono, rule at_most_basic, simp)+

lemma at_most_bind_silent [call_rules]:
  "(\<And>x. at_most k (f x)) \<Longrightarrow> at_most k (bind (get_path v ks) f)"
  "(\<And>x. at_most k (h x)) \<Longrightarrow> at_most k (bind (process_env s) h)"
  using at_most_bind [OF at_most_basic(3), of k f v ks] at_most_bind [OF at_most_basic(6), of k h s] by simp_all

lemma at_most_seq_silent [call_rules]:
  "at_most k m \<Longrightarrow> at_most k (seq (console_log args) m)"
  "at_most k m \<Longrightarrow> at_most k (seq (debug args) m)"
  using at_most_seq [OF at_most_basic(5), of k m args] at_most_seq [OF at_most_basic(7), of k m args] by simp_all

lemma at_most_if [call_rules]: "at_most k m \<Longrightarrow> at_most k p \<Longrightarrow> at_most k (if b then m else p)"
  by simp

lemma at_most_bind_eval [call_rules]: "(\<And>x. r = Inr x \<Longrightarrow> at_most k (f x)) \<Longrightarrow> at_most k (bind (eval r) f)"
  by (cases r) (auto simp: at_most_def bind_def eval_run)

lemma at_most_for_each:
  "(\<And>x. at_most n (body x)) \<Longrightarrow> at_most (length xs * n) (for_each xs body)"
proof (induction xs)
  case Nil
  then show ?case by (simp add: at_most_basic)
next
  case (Cons x xs)
  then have "at_most (n + length xs * n) (seq (body x) (for_each xs body))" by (intro at_most_seq) auto
  then show ?case by simp
qed

section \<open>Polled operations as an interface\<close>

locale polled_operation = remote_operation op
  for op :: "'x \<Rightarrow> js prog" +
  fixes check :: "js \<Rightarrow> js + bool"
    and good :: "js \<Rightarrow> bool"
  assumes check_good: "check res = Inr True \<Longrightarrow> good res"
begin

lemma poll_framed: "framed (wait (op x) check t i)"
  by (rule framed_wait) (rule op_framed)

lemma poll_cases:
  assumes "wait (op x) check t i w = (r, w')"
  shows "(\<exists>res. r = Ret res \<and> good res) \<or> r = Throw wait_timeout"
  using wait_outcome [OF assms] check_good by blast

lemma poll_result: "wait (op x) check t i w = (Ret res, w') \<Longrightarrow> good res"
  using poll_cases by blast

lemma poll_history:
  "wait (op x) check t i w = (r, w') \<Longrightarrow> services w' = services w \<and> chai w' = chai w \<and> env w' = env w"
  using poll_framed [of x t i] by (auto simp: framed_def same_outside_def) (metis snd_conv)+

end

end
