(* ===== verification/KEB_Client.thy ===== *)
theory KEB_Client
  imports Polling
begin

text \<open>
  \<^verbatim>\<open>src/testing/e2e/skr/kyma-environment-broker/client.js\<close>: the client of the Kyma Environment Broker,
  an Open Service Broker API over HTTP.  Requests are values of \<open>js\<close> handed to axios; the token
  of the client lives in a cell of the world.
\<close>

section \<open>Configuration\<close>

definition SCOPES :: "string list" where
  "SCOPES = [''broker:write'']"

definition KYMA_SERVICE_ID :: string where
  "KYMA_SERVICE_ID = ''47c9dcbf-ff30-448e-ab36-d3bad66ba281''"

definition trialPlanID :: string where
  "trialPlanID = ''7d55d31d-35ae-4438-bf13-6ffdfa107d9f''"

record KEBConfig =
  cfg_host :: string
  cfg_credentials :: OAuthCredentials
  cfg_globalAccountID :: string
  cfg_subaccountID :: string
  cfg_userID :: string
  cfg_planID :: string
  cfg_region :: js
  cfg_platformRegion :: js
  cfg_tokenUrl :: js

definition KEBConfig_fromEnv :: "KEBConfig prog" where
  "KEBConfig_fromEnv =
     (bind (getEnvOrThrow ''KEB_HOST'') (\<lambda>h.
      bind (OAuthCredentials_fromEnv ''KEB_CLIENT_ID'' ''KEB_CLIENT_SECRET'') (\<lambda>creds.
      bind (getEnvOrThrow ''KEB_GLOBALACCOUNT_ID'') (\<lambda>ga.
      bind (getEnvOrThrow ''KEB_SUBACCOUNT_ID'') (\<lambda>sa.
      bind (getEnvOrThrow ''KEB_USER_ID'') (\<lambda>u.
      bind (getEnvOrThrow ''KEB_PLAN_ID'') (\<lambda>plan.
      bind (process_env ''KEB_REGION'') (\<lambda>reg.
      bind (process_env ''KEB_PLATFORM_REGION'') (\<lambda>preg.
      bind (process_env ''KEB_TOKEN_URL'') (\<lambda>turl.
      ret \<lparr>cfg_host = h, cfg_credentials = creds, cfg_globalAccountID = ga, cfg_subaccountID = sa,
           cfg_userID = u, cfg_planID = plan, cfg_region = reg, cfg_platformRegion = preg,
           cfg_tokenUrl = turl\<rparr>))))))))))"

record KEBClient =
  token :: OAuthToken
  host :: string
  globalAccountID :: string
  subaccountID :: string
  userID :: string
  planID :: string
  region :: js
  platformRegion :: js

definition new_KEBClient :: "nat \<Rightarrow> KEBConfig \<Rightarrow> KEBClient prog" where
  "new_KEBClient cell config =
     (let url0 = ''https://oauth2.'' @ cfg_host config @ ''/oauth2/token'';
          url = (if truthy (cfg_tokenUrl config) then to_str (cfg_tokenUrl config) else url0)
      in bind (new_OAuthToken cell url (cfg_credentials config)) (\<lambda>t.
           ret \<lparr>token = t, host = cfg_host config, globalAccountID = cfg_globalAccountID config,
                subaccountID = cfg_subaccountID config, userID = cfg_userID config,
                planID = cfg_planID config, region = cfg_region config,
                platformRegion = cfg_platformRegion config\<rparr>))"

section \<open>Requests\<close>

definition getPlatformRegion :: "KEBClient \<Rightarrow> string" where
  "getPlatformRegion keb =
     (if truthy (platformRegion keb) \<and> \<not> loose_eq (platformRegion keb) []
      then to_str (platformRegion keb) @ ''/'' else [])"

definition buildRequest :: "KEBClient \<Rightarrow> js \<Rightarrow> string \<Rightarrow> string \<Rightarrow> js prog" where
  "buildRequest keb payload endpoint verb =
     (bind (getToken (token keb) SCOPES) (\<lambda>tok.
      let url = ''https://kyma-env-broker.'' @ host keb @ ''/oauth/'' @ getPlatformRegion keb @ ''v2/'' @ endpoint in
      let headers = Obj [(''X-Broker-API-Version'', Dec ''2.14''),
                         (''Authorization'', Str (''Bearer '' @ to_str tok)),
                         (''Content-Type'', Str ''application/json'')] in
      ret (Obj [(''url'', Str url), (''method'', Str verb), (''headers'', headers), (''data'', payload)])))"

definition buildRequestWithoutToken :: "KEBClient \<Rightarrow> js \<Rightarrow> string \<Rightarrow> string \<Rightarrow> js prog" where
  "buildRequestWithoutToken keb payload endpoint verb =
     (let url = ''https://kyma-env-broker.'' @ host keb @ ''/'' @ endpoint;
          headers = Obj [(''X-Broker-API-Version'', Dec ''2.14''),
                         (''Content-Type'', Str ''application/json'')]
      in ret (Obj [(''url'', Str url), (''method'', Str verb), (''headers'', headers), (''data'', payload)]))"

definition callKEB :: "KEBClient \<Rightarrow> js \<Rightarrow> string \<Rightarrow> string \<Rightarrow> js prog" where
  "callKEB keb payload endpoint verb =
     (bind (buildRequest keb payload endpoint verb) (\<lambda>config.
      try_catch
        (bind (await (Axios config)) (\<lambda>resp.
          bind (get_path resp [K ''data'']) (\<lambda>data.
          bind (get_path data [K ''errors'']) (\<lambda>errors.
          if truthy errors then throw (new_Error (to_str data)) else ret data))))
        (http_error ''Error calling KEB'')))"

text \<open>The status that a request without a token has to be answered with.\<close>

definition refused :: "js \<Rightarrow> bool" where
  "refused status = (status = Num 403 \<or> status = Num 401)"

definition anonymous_failure :: "js \<Rightarrow> unit prog" where
  "anonymous_failure err =
     (let msg = ''Error calling KEB'' in
      bind (get_path err [K ''response'']) (\<lambda>response.
      if truthy response
      then
         (bind (get_path response [K ''status'']) (\<lambda>status.
          if_then (\<not> refused status)
            (bind (get_path response [K ''statusText'']) (\<lambda>statusText.
               throw (new_Error (msg @ '': '' @ to_str status @ '' '' @ to_str statusText))))))
      else rethrow_as msg err))"

definition callKEBWithoutToken :: "KEBClient \<Rightarrow> js \<Rightarrow> string \<Rightarrow> string \<Rightarrow> unit prog" where
  "callKEBWithoutToken keb payload endpoint verb =
     (bind (buildRequestWithoutToken keb payload endpoint verb) (\<lambda>config.
      try_catch
        (bind (await (Axios config)) (\<lambda>resp.
          bind (get_path resp [K ''status'']) (\<lambda>status.
          if_then (\<not> refused status) (throw (new_Error (''Unexpected status: '' @ to_str status))))))
        anonymous_failure))"

section \<open>Operations on instances\<close>

definition getSKR :: "KEBClient \<Rightarrow> string \<Rightarrow> js prog" where
  "getSKR keb instanceID =
     try_catch (callKEB keb (Obj []) (''service_instances/'' @ instanceID) ''get'')
       (rethrow_as ''error while getting SKR'')"

definition getCatalog :: "KEBClient \<Rightarrow> js prog" where
  "getCatalog keb =
     try_catch (callKEB keb (Obj []) ''catalog'' ''get'') (rethrow_as ''error while getting catalog'')"

text \<open>The entry that credentials add to the context of a provisioning request.\<close>

definition platform_entry :: "js \<Rightarrow> js \<Rightarrow> js + js" where
  "platform_entry platformCreds btpOperatorCreds =
     (case read_fields platformCreds [(''username'', [K ''credentials'', K ''username'']),
                                      (''password'', [K ''credentials'', K ''password''])] of
        Inl e \<Rightarrow> Inl e
      | Inr basic \<Rightarrow>
          (case path btpOperatorCreds [K ''smURL''] of
             Inl e \<Rightarrow> Inl e
           | Inr url \<Rightarrow> Inr (Obj [(''credentials'', Obj [(''basic'', Obj basic)]), (''url'', url)])))"

definition operator_entry :: "js \<Rightarrow> js + js" where
  "operator_entry btpOperatorCreds =
     map_sum id Obj
       (read_fields btpOperatorCreds [(''clientid'', [K ''clientid'']), (''clientsecret'', [K ''clientsecret'']),
                                      (''sm_url'', [K ''smURL'']), (''url'', [K ''url''])])"

definition credentials_entry :: "js \<Rightarrow> js \<Rightarrow> js + (string \<times> js) list" where
  "credentials_entry platformCreds btpOperatorCreds =
     (if truthy platformCreds \<and> truthy btpOperatorCreds
      then map_sum id (\<lambda>e. [(''sm_platform_credentials'', e)]) (platform_entry platformCreds btpOperatorCreds)
      else if truthy btpOperatorCreds
      then map_sum id (\<lambda>e. [(''sm_operator_credentials'', e)]) (operator_entry btpOperatorCreds)
      else Inr [])"

definition provision_parameters :: "KEBClient \<Rightarrow> js \<Rightarrow> js \<Rightarrow> (string \<times> js) list" where
  "provision_parameters keb name customParams =
     spread (spread [(''name'', name)] (if planID keb = trialPlanID then [] else [(''region'', region keb)]))
       (own_props customParams)"

definition buildPayload :: "KEBClient \<Rightarrow> js \<Rightarrow> string \<Rightarrow> js \<Rightarrow> js \<Rightarrow> js \<Rightarrow> js + js" where
  "buildPayload keb name instanceID platformCreds btpOperatorCreds customParams =
     (case credentials_entry platformCreds btpOperatorCreds of
        Inl e \<Rightarrow> Inl e
      | Inr creds \<Rightarrow>
          Inr (Obj [(''service_id'', Str KYMA_SERVICE_ID), (''plan_id'', Str (planID keb)),
                    (''context'', Obj ([(''globalaccount_id'', Str (globalAccountID keb)),
                                      (''subaccount_id'', Str (subaccountID keb)),
                                      (''user_id'', Str (userID keb))] @ creds)),
                    (''parameters'', Obj (provision_parameters keb name customParams))]))"

definition provisionSKR :: "KEBClient \<Rightarrow> js \<Rightarrow> string \<Rightarrow> js \<Rightarrow> js \<Rightarrow> js \<Rightarrow> js prog" where
  "provisionSKR keb name instanceID platformCreds btpOperatorCreds customParams =
     (bind (eval (buildPayload keb name instanceID platformCreds btpOperatorCreds customParams)) (\<lambda>payload.
      try_catch (callKEB keb payload (''service_instances/'' @ instanceID) ''put'')
        (rethrow_as ''error while provisioning SKR'')))"

definition update_credentials :: "js \<Rightarrow> js + (string \<times> js) list" where
  "update_credentials btpOperatorCreds =
     (if truthy btpOperatorCreds
      then map_sum id (\<lambda>ps. [(''sm_operator_credentials'', Obj ps)])
             (read_fields btpOperatorCreds [(''clientid'', [K ''clientId'']), (''clientsecret'', [K ''clientSecret'']),
                                            (''sm_url'', [K ''smURL'']), (''url'', [K ''url''])])
      else Inr [])"

definition updateSKR :: "KEBClient \<Rightarrow> string \<Rightarrow> js \<Rightarrow> js \<Rightarrow> js \<Rightarrow> js prog" where
  "updateSKR keb instanceID customParams btpOperatorCreds isMigration =
     (bind (eval (update_credentials btpOperatorCreds)) (\<lambda>creds.
      let payload = Obj [(''service_id'', Str KYMA_SERVICE_ID),
                         (''context'', Obj ([(''globalaccount_id'', Str (globalAccountID keb)),
                                           (''isMigration'', isMigration)] @ creds)),
                         (''parameters'', Obj (spread [] (own_props customParams)))] in
      try_catch (callKEB keb payload (''service_instances/'' @ instanceID @ ''?accepts_incomplete=true'') ''patch'')
        (rethrow_as ''error while updating SKR'')))"

definition getOperation :: "KEBClient \<Rightarrow> string \<Rightarrow> js \<Rightarrow> js prog" where
  "getOperation keb instanceID operationID =
     try_catch
       (callKEB keb (Obj [])
          (''service_instances/'' @ instanceID @ ''/last_operation?operation='' @ to_str operationID) ''get'')
       (\<lambda>err.
          (bind (eval (toString err)) (\<lambda>text.
           seq (debug [Str text]) (
           ret (new_Error (''error while checking SKR State: '' @ text))))))"

definition deprovisionSKR :: "KEBClient \<Rightarrow> string \<Rightarrow> js prog" where
  "deprovisionSKR keb instanceID =
     try_catch
       (callKEB keb Null
          (''service_instances/'' @ instanceID @ ''?service_id='' @ KYMA_SERVICE_ID @ ''&plan_id='' @ planID keb)
          ''delete'')
       (\<lambda>err. bind (eval (toString err)) (\<lambda>text.
          ret (new_Error (''error while deprovisioning SKR: '' @ text))))"

text \<open>
  The kubeconfig is streamed into a file.  The answer to \<open>StreamDownload\<close> stands for the pair of
  streams: a rejection is the error event of the write stream; \<open>null\<close> is a source that breaks
  off, after which neither event is fired and the promise is never settled; any other value is
  what \<open>readFile\<close> hands to its callback.  An error thrown in an event handler or in the catch
  block of the asynchronous executor escapes the promise.
\<close>

definition kubeconfig_file :: string where
  "kubeconfig_file = ''./shoot-kubeconfig.yaml''"

definition or_never :: "unit prog \<Rightarrow> 'a prog \<Rightarrow> 'a prog" where
  "or_never m k w = (case m w of
     (Ret _, w') \<Rightarrow> k w'
   | (Throw e, w') \<Rightarrow> seq (uncaught e) never w'
   | (Hang, w') \<Rightarrow> (Hang, w'))"

definition downloadKubeconfig :: "KEBClient \<Rightarrow> string \<Rightarrow> js prog" where
  "downloadKubeconfig keb instanceID =
     (let downloadUrl = ''https://kyma-env-broker.'' @ host keb @ ''/kubeconfig/'' @ instanceID in
      seq (debug [Str (''Downloading kubeconfig from: '' @ downloadUrl)]) (
      seq (try_catch
        (bind (await (Axios (Obj [(''method'', Str ''get''), (''url'', Str downloadUrl),
                                     (''responseType'', Str ''stream'')]))) (\<lambda>resp.
          bind (get_path resp [K ''data'']) (\<lambda>data.
          bind (get_path data [K ''errors'']) (\<lambda>errors.
          if_then (truthy errors) (throw (new_Error (to_str data)))))))
        (\<lambda>err. or_never
           (bind (get_path err [K ''data'']) (\<lambda>data.
             seq (debug [data]) (
             seq (await (Unlink kubeconfig_file)) (
             ret ()))))
           (throw err))) (
      bind (await (StreamDownload kubeconfig_file)) (\<lambda>content.
      if content = Null then never
      else or_never (seq (await (Unlink kubeconfig_file)) (ret ())) (ret content)))))"

section \<open>Facts\<close>

lemma framed_buildRequest [frame_rules, intro!]: "framed (buildRequest keb p e v)"
  by (auto simp: buildRequest_def Let_def intro!: frame_rules getToken_framed)

lemma settles_buildRequest [settle_rules, intro!]: "settles (buildRequest keb p e v)"
  by (auto simp: buildRequest_def Let_def intro!: settle_rules getToken_settles)

lemma buildRequest_errors [error_rules]: "throws_errors (buildRequest keb p e v)"
  by (auto simp: buildRequest_def Let_def getToken_def refresh_token_def intro!: error_rules)

lemma framed_callKEB [frame_rules, intro!]: "framed (callKEB keb p e v)"
  by (auto simp: callKEB_def intro!: frame_rules)

lemma settles_callKEB [settle_rules, intro!]: "settles (callKEB keb p e v)"
  by (auto simp: callKEB_def intro!: settle_rules)

lemma callKEB_errors [error_rules]: "throws_errors (callKEB keb p e v)"
  by (auto simp: callKEB_def intro!: error_rules)

interpretation keb_call: remote_operation "\<lambda>(keb, payload, endpoint, verb). callKEB keb payload endpoint verb"
  by unfold_locales auto

lemma framed_instance_operations [frame_rules, intro!]:
  "framed (getSKR keb i)" "framed (getCatalog keb)" "framed (provisionSKR keb n i pc bc cp)"
  "framed (updateSKR keb i cp bc m)" "framed (getOperation keb i opid)" "framed (deprovisionSKR keb i)"
  by (auto simp: getSKR_def getCatalog_def provisionSKR_def updateSKR_def getOperation_def
      deprovisionSKR_def Let_def intro!: frame_rules)

lemma settles_instance_operations [settle_rules, intro!]:
  "settles (getSKR keb i)" "settles (getCatalog keb)" "settles (provisionSKR keb n i pc bc cp)"
  "settles (updateSKR keb i cp bc m)" "settles (getOperation keb i opid)" "settles (deprovisionSKR keb i)"
  by (auto simp: getSKR_def getCatalog_def provisionSKR_def updateSKR_def getOperation_def
      deprovisionSKR_def Let_def intro!: settle_rules)

interpretation keb_operation: polled_operation
    "\<lambda>(keb, i, opid). getOperation keb i opid" finished
    "\<lambda>res. path res [K ''state''] \<in> {Inr (Str ''succeeded''), Inr (Str ''failed'')}"
  by unfold_locales (auto simp: finished_state)

text \<open>With a live token the request is a function of the client and its arguments.\<close>

definition keb_request :: "KEBClient \<Rightarrow> js \<Rightarrow> js \<Rightarrow> string \<Rightarrow> string \<Rightarrow> js" where
  "keb_request keb tok payload endpoint verb =
     Obj [(''url'', Str (''https://kyma-env-broker.'' @ host keb @ ''/oauth/'' @ getPlatformRegion keb @
                         ''v2/'' @ endpoint)),
          (''method'', Str verb),
          (''headers'', Obj [(''X-Broker-API-Version'', Dec ''2.14''),
                           (''Authorization'', Str (''Bearer '' @ to_str tok)),
                           (''Content-Type'', Str ''application/json'')]),
          (''data'', payload)]"

definition has_live_token :: "KEBClient \<Rightarrow> js \<Rightarrow> world \<Rightarrow> bool" where
  "has_live_token keb tok w =
     (let cell = cells w (tokenCell (token keb)) in
      live_token (now w) cell \<and> path cell [K ''access_token''] = Inr tok)"

lemma buildRequest_live:
  "has_live_token keb tok w \<Longrightarrow>
   buildRequest keb payload endpoint verb w = (Ret (keb_request keb tok payload endpoint verb), w)"
  by (simp add: has_live_token_def Let_def buildRequest_def bind_def getToken_live ret_run keb_request_def)

lemma callKEB_live:
  assumes "has_live_token keb tok w"
  shows "callKEB keb payload endpoint verb w =
     try_catch
       (bind (await (Axios (keb_request keb tok payload endpoint verb))) (\<lambda>resp.
        bind (get_path resp [K ''data'']) (\<lambda>data.
        bind (get_path data [K ''errors'']) (\<lambda>errors.
        if truthy errors then throw (new_Error (to_str data)) else ret data))))
       (http_error ''Error calling KEB'') w"
  using buildRequest_live [OF assms, of payload endpoint verb] by (simp add: callKEB_def bind_def)

lemma lookup_spread:
  "lookup (spread a b) k = (case map_of (rev b) k of Some v \<Rightarrow> v | None \<Rightarrow> lookup a k)"
proof -
  have "lookup (fold (\<lambda>(k, v) acc. assoc_set k v acc) b a) k =
        (case map_of (rev b) k of Some v \<Rightarrow> v | None \<Rightarrow> lookup a k)"
    by (induction b arbitrary: a) (auto simp: lookup_assoc_set map_add_def split: option.splits)
  then show ?thesis by (simp add: spread_def)
qed

lemma returns_getOperation: "returns (getOperation keb i opid)"
  unfolding getOperation_def
  by (rule try_error_returns)
     (auto simp: bind_def seq_run eval_run debug_run ret_run toString_error callKEB_errors)

lemma returns_deprovisionSKR: "returns (deprovisionSKR keb i)"
  unfolding deprovisionSKR_def
  by (rule try_error_returns) (auto simp: bind_def eval_run ret_run toString_error callKEB_errors)

lemma truthy_member: "member v (K ''status'') = Inr (Num n) \<Longrightarrow> truthy v"
  by (cases v) (auto split: if_splits)

lemma anonymous_failure_run:
  "fst (anonymous_failure e w) = Ret () \<longleftrightarrow>
     path e [K ''response'', K ''status''] \<in> {Inr (Num 401), Inr (Num 403)}"
  "snd (anonymous_failure e w) = w" "fst (anonymous_failure e w) \<noteq> Hang"
  by (auto simp: anonymous_failure_def Let_def bind_def get_path_def eval_run prim_run ret_run throw_run
      rethrow_as_def refused_def path.simps dest: truthy_member split: sum.splits if_splits)

lemma no_response:
  "path (new_Error m) [K ''response'', K ''status''] = Inl (cannot_read ''undefined'' ''status'')"
  "path v ks = Inl e \<Longrightarrow> path e [K ''response'', K ''status''] = Inl (cannot_read ''undefined'' ''status'')"
  by (auto simp: new_Error_def path.simps dest!: path_plain)

text \<open>An answer of the broker that refuses the request.\<close>

definition is_refusal :: "js + js \<Rightarrow> bool" where
  "is_refusal ans =
     (case ans of
        Inr resp \<Rightarrow> path resp [K ''status''] \<in> {Inr (Num 401), Inr (Num 403)}
      | Inl err \<Rightarrow> path err [K ''response'', K ''status''] \<in> {Inr (Num 401), Inr (Num 403)})"

lemma anonymous_call:
  "\<exists>req. calls (snd (callKEBWithoutToken keb payload endpoint verb w)) = calls w @ [Axios req] \<and>
     path req [K ''headers'', K ''Authorization''] = Inr Undef \<and>
     path req [K ''url''] = Inr (Str (''https://kyma-env-broker.'' @ host keb @ ''/'' @ endpoint)) \<and>
     fst (callKEBWithoutToken keb payload endpoint verb w) \<noteq> Hang \<and>
     (fst (callKEBWithoutToken keb payload endpoint verb w) = Ret () \<longleftrightarrow>
        is_refusal (fst (services w (calls w) (Axios req))))"
proof -
  let ?req = "Obj [(''url'', Str (''https://kyma-env-broker.'' @ host keb @ ''/'' @ endpoint)),
     (''method'', Str verb), (''headers'', Obj [(''X-Broker-API-Version'', Dec ''2.14''),
     (''Content-Type'', Str ''application/json'')]), (''data'', payload)]"
  let ?m = "callKEBWithoutToken keb payload endpoint verb"
  show ?thesis
  proof (intro exI [of _ ?req] conjI)
    note run = callKEBWithoutToken_def buildRequestWithoutToken_def Let_def bind_def try_catch_def
      await_run get_path_def eval_run prim_run ret_run throw_run anonymous_failure_run
    show "calls (snd (?m w)) = calls w @ [Axios ?req]"
      by (auto simp: run split: sum.splits if_splits)
    show "path ?req [K ''headers'', K ''Authorization''] = Inr Undef"
      "path ?req [K ''url''] = Inr (Str (''https://kyma-env-broker.'' @ host keb @ ''/'' @ endpoint))"
      by (simp_all add: path.simps lookup_def)
    show "fst (?m w) \<noteq> Hang" by (auto simp: run split: sum.splits if_splits)
    show "fst (?m w) = Ret () \<longleftrightarrow>
        is_refusal (fst (services w (calls w) (Axios ?req)))"
      by (auto simp: run is_refusal_def refused_def no_response split: sum.splits if_splits)
  qed
qed

section \<open>Properties\<close>

text \<open>
  With a live token, \<open>callKEB\<close> makes exactly one call, the request with
  that token for the region and endpoint, and nothing else.  It returns the data of an answer
  that carries no errors, and turns errors in the data and a refused request into an \<open>Error\<close>
  whose message starts with the same words.
\<close>

theorem callKEB_outcomes:
  assumes "has_live_token keb tok w"
    and "services w (calls w) (Axios (keb_request keb tok payload endpoint verb)) = (ans, d)"
    and "callKEB keb payload endpoint verb w = (r, w')"
  shows "calls w' = calls w @ [Axios (keb_request keb tok payload endpoint verb)] \<and>
         (\<forall>ps data. ans = Inr (Obj ps) \<longrightarrow> lookup ps ''data'' = Obj data \<longrightarrow>
            r = (if truthy (lookup data ''errors'')
                 then Throw (new_Error ''Error calling KEB: Error: [object Object]'')
                 else Ret (Obj data))) \<and>
         (\<forall>ps resp. ans = Inl (Obj ps) \<longrightarrow> lookup ps ''response'' = Obj resp \<longrightarrow>
            r = Throw (new_Error (''Error calling KEB: '' @ to_str (lookup resp ''status'') @ '' '' @
                                  to_str (lookup resp ''statusText''))))"
  using assms
  by (auto simp: callKEB_live try_catch_def bind_def await_run get_path_def eval_run path.simps
      http_error_def throw_run ret_run new_Error_def toString_def
      split: sum.splits if_splits outcome.splits prod.splits)

definition some_client :: KEBClient where
  "some_client = \<lparr>token = some_token, host = ''h'', globalAccountID = ''g'', subaccountID = ''s'', userID = ''u'',
     planID = ''p'', region = Str ''eu'', platformRegion = Str ''cf-eu10''\<rparr>"

definition live_world :: "(call \<Rightarrow> js + js) \<Rightarrow> world" where
  "live_world f = quiet_world\<lparr>services := (\<lambda>_ c. (f c, 5)),
     cells := (\<lambda>_. Obj [(''access_token'', Str ''t''), (''expires_at'', Num 1000)])\<rparr>"

lemma live_world_token: "has_live_token some_client (Str ''t'') (live_world f)"
  by (simp add: has_live_token_def live_world_def some_client_def live_token_def path.simps lookup_def
      quiet_world_def)

theorem callKEB_outcomes_witness:
  "fst (callKEB some_client Null ''catalog'' ''get''
     (live_world (\<lambda>_. Inr (Obj [(''data'', Obj [(''services'', Arr [])])])))) =
   Ret (Obj [(''services'', Arr [])])"
proof -
  let ?w = "live_world (\<lambda>_. Inr (Obj [(''data'', Obj [(''services'', Arr [])])]))"
  obtain r w' where run: "callKEB some_client Null ''catalog'' ''get'' ?w = (r, w')" by fastforce
  have "services ?w (calls ?w) (Axios (keb_request some_client (Str ''t'') Null ''catalog'' ''get'')) =
        (Inr (Obj [(''data'', Obj [(''services'', Arr [])])]), 5)"
    by (simp add: live_world_def)
  from callKEB_outcomes [OF live_world_token this run] show ?thesis
    by (simp add: run lookup_def)
qed

text \<open>
  \<open>callKEBWithoutToken\<close> makes exactly one call, whose headers
  have no \<open>Authorization\<close>, and it returns if and only if the broker refuses the request: with
  status 401 or 403, in an answer or in the response of a rejection.  It throws otherwise, and it
  always settles.
\<close>

theorem anonymous_call_is_refused:
  "\<exists>req. calls (snd (callKEBWithoutToken keb payload endpoint verb w)) = calls w @ [Axios req] \<and>
     path req [K ''headers'', K ''Authorization''] = Inr Undef \<and>
     path req [K ''url''] = Inr (Str (''https://kyma-env-broker.'' @ host keb @ ''/'' @ endpoint)) \<and>
     fst (callKEBWithoutToken keb payload endpoint verb w) \<noteq> Hang \<and>
     (fst (callKEBWithoutToken keb payload endpoint verb w) = Ret () \<longleftrightarrow>
        is_refusal (fst (services w (calls w) (Axios req))))"
  by (rule anonymous_call)

text \<open>
  The provisioning payload: every custom parameter is sent and overrides
  the client's own; otherwise the parameters are the name and, unless the plan is the trial plan,
  the region of the client.  The context carries platform credentials exactly when both kinds of
  credentials were given, operator credentials exactly when only those were, never both.
\<close>

theorem payload_contents:
  assumes "buildPayload keb name instanceID platformCreds btpOperatorCreds (Obj custom) = Inr p"
  shows "path p [K ''parameters'', K k] =
           Inr (case map_of (rev custom) k of
                  Some v \<Rightarrow> v
                | None \<Rightarrow> if k = ''name'' then name
                          else if k = ''region'' \<and> planID keb \<noteq> trialPlanID then region keb
                          else Undef) \<and>
         (path p [K ''context'', K ''sm_platform_credentials''] \<noteq> Inr Undef \<longleftrightarrow>
            truthy platformCreds \<and> truthy btpOperatorCreds) \<and>
         (path p [K ''context'', K ''sm_operator_credentials''] \<noteq> Inr Undef \<longleftrightarrow>
            \<not> truthy platformCreds \<and> truthy btpOperatorCreds) \<and>
         path p [K ''context'', K ''globalaccount_id''] = Inr (Str (globalAccountID keb)) \<and>
         path p [K ''plan_id''] = Inr (Str (planID keb))"
proof -
  obtain creds where creds: "credentials_entry platformCreds btpOperatorCreds = Inr creds"
    and p: "p = Obj [(''service_id'', Str KYMA_SERVICE_ID), (''plan_id'', Str (planID keb)),
                    (''context'', Obj ([(''globalaccount_id'', Str (globalAccountID keb)),
                                      (''subaccount_id'', Str (subaccountID keb)),
                                      (''user_id'', Str (userID keb))] @ creds)),
                    (''parameters'', Obj (provision_parameters keb name (Obj custom)))]"
    using assms by (auto simp: buildPayload_def split: sum.splits)
  have params: "path p [K ''parameters'', K k] = Inr (lookup (provision_parameters keb name (Obj custom)) k)"
    by (simp add: p path.simps lookup_def)
  have ctx: "path p [K ''context'', K k'] =
      Inr (lookup ([(''globalaccount_id'', Str (globalAccountID keb)),
                    (''subaccount_id'', Str (subaccountID keb)), (''user_id'', Str (userID keb))] @ creds) k')" for k'
    by (simp add: p path.simps lookup_def)
  have entry: "map_sum id f r = Inr x \<longleftrightarrow> (\<exists>y. r = Inr y \<and> x = f y)" for f and r :: "js + 'z" and x :: "'y"
    by (cases r) auto
  have "lookup creds ''sm_platform_credentials'' \<noteq> Undef \<longleftrightarrow> truthy platformCreds \<and> truthy btpOperatorCreds"
    "lookup creds ''sm_operator_credentials'' \<noteq> Undef \<longleftrightarrow> \<not> truthy platformCreds \<and> truthy btpOperatorCreds"
    using creds
    by (auto simp: credentials_entry_def platform_entry_def operator_entry_def entry lookup_def
        split: if_splits sum.splits)
  moreover have "lookup (provision_parameters keb name (Obj custom)) k =
      (case map_of (rev custom) k of Some v \<Rightarrow> v
       | None \<Rightarrow> if k = ''name'' then name
                 else if k = ''region'' \<and> planID keb \<noteq> trialPlanID then region keb else Undef)"
    unfolding provision_parameters_def lookup_spread
    by (auto simp: own_props_def lookup_def split: option.splits)
  ultimately show ?thesis
    by (auto simp: params ctx lookup_def p path.simps)
qed

theorem payload_contents_witness:
  "path (Obj [(''service_id'', Str KYMA_SERVICE_ID), (''plan_id'', Str ''p''),
              (''context'', Obj [(''globalaccount_id'', Str ''g''), (''subaccount_id'', Str ''s''), (''user_id'', Str ''u'')]),
              (''parameters'', Obj [(''name'', Str ''n''), (''region'', Str ''us'')])])
     [K ''parameters'', K ''region''] = Inr (Str ''us'')"
proof -
  have "buildPayload some_client (Str ''n'') ''i'' Undef Undef (Obj [(''region'', Str ''us'')]) =
    Inr (Obj [(''service_id'', Str KYMA_SERVICE_ID), (''plan_id'', Str ''p''),
              (''context'', Obj [(''globalaccount_id'', Str ''g''), (''subaccount_id'', Str ''s''), (''user_id'', Str ''u'')]),
              (''parameters'', Obj [(''name'', Str ''n''), (''region'', Str ''us'')])])"
    by (simp add: buildPayload_def credentials_entry_def provision_parameters_def spread_def own_props_def
        some_client_def trialPlanID_def)
  from payload_contents [OF this, of "''region''"] show ?thesis by simp
qed

text \<open>
  \<open>getOperation\<close> and \<open>deprovisionSKR\<close> return in every world: a failure to
  reach the broker or to get a token becomes an \<open>Error\<close> object that is returned, one without a
  \<open>state\<close> and without an \<open>operation\<close>, so a poll of it is never taken for a finished operation.
\<close>

theorem polling_never_throws:
  "(\<exists>v. fst (getOperation keb i opid w) = Ret v) \<and> (\<exists>u. fst (deprovisionSKR keb i w) = Ret u) \<and>
   (\<forall>e. fst (callKEB keb (Obj []) (''service_instances/'' @ i @ ''/last_operation?operation='' @ to_str opid)
             ''get'' w) = Throw e \<longrightarrow>
        (let v = new_Error (''error while checking SKR State: '' @ to_str e) in
         fst (getOperation keb i opid w) = Ret v \<and> finished v = Inr False)) \<and>
   (\<forall>e. fst (callKEB keb Null (''service_instances/'' @ i @ ''?service_id='' @ KYMA_SERVICE_ID @
             ''&plan_id='' @ planID keb) ''delete'' w) = Throw e \<longrightarrow>
        (let u = new_Error (''error while deprovisioning SKR: '' @ to_str e) in
         fst (deprovisionSKR keb i w) = Ret u \<and> path u [K ''operation''] = Inr Undef))"
proof (intro conjI allI impI)
  show "\<exists>v. fst (getOperation keb i opid w) = Ret v" "\<exists>u. fst (deprovisionSKR keb i w) = Ret u"
    using returns_getOperation returns_deprovisionSKR by (simp_all add: returns_def)
next
  fix e
  assume *: "fst (callKEB keb (Obj []) (''service_instances/'' @ i @ ''/last_operation?operation='' @ to_str opid)
             ''get'' w) = Throw e"
  with callKEB_errors have "is_error e" by (auto simp: throws_errors_def)
  with * show "let v = new_Error (''error while checking SKR State: '' @ to_str e) in
         fst (getOperation keb i opid w) = Ret v \<and> finished v = Inr False"
    by (auto simp: getOperation_def try_catch_def bind_def seq_run eval_run debug_run ret_run toString_error
        finished_def new_Error_def path.simps split: prod.splits outcome.splits)
next
  fix e
  assume *: "fst (callKEB keb Null (''service_instances/'' @ i @ ''?service_id='' @ KYMA_SERVICE_ID @
             ''&plan_id='' @ planID keb) ''delete'' w) = Throw e"
  with callKEB_errors have "is_error e" by (auto simp: throws_errors_def)
  with * show "let u = new_Error (''error while deprovisioning SKR: '' @ to_str e) in
         fst (deprovisionSKR keb i w) = Ret u \<and> path u [K ''operation''] = Inr Undef"
    by (auto simp: deprovisionSKR_def try_catch_def bind_def eval_run ret_run toString_error
        new_Error_def path.simps split: prod.splits outcome.splits)
qed

theorem polling_never_throws_witness:
  "\<exists>v. fst (getOperation some_client ''i'' (Str ''o'') (live_world (\<lambda>_. Inl (new_Error ''x'')))) = Ret v \<and>
     finished v = Inr False"
proof -
  let ?w = "live_world (\<lambda>_. Inl (new_Error ''x''))"
  have "\<exists>e w1. callKEB some_client (Obj []) ep ''get'' ?w = (Throw e, w1)" for ep
    unfolding callKEB_live [OF live_world_token]
    by (simp add: try_catch_def bind_def await_run live_world_def quiet_world_def
        http_error_def get_path_def eval_run path.simps lookup_def new_Error_def throw_run toString_def)
  then obtain e w1 where "callKEB some_client (Obj []) (''service_instances/'' @ ''i'' @ ''/last_operation?operation='' @
      to_str (Str ''o'')) ''get'' ?w = (Throw e, w1)" by blast
  then show ?thesis
    using polling_never_throws [of some_client "''i''" "Str ''o''" ?w] by (metis fst_conv)
qed

end
