(* ===== verification/KCP_Client.thy ===== *)
theory KCP_Client
  imports Polling
begin

text \<open>
  \<^verbatim>\<open>src/testing/e2e/skr/kcp/client.js\<close>: the wrapper around the command line tool kcp of the Kyma control
  plane.  Every operation is one or more runs of the subprocess; its standard output is parsed
  as JSON or scanned as text.  The formatting of \<open>util.inspect\<close> is not modelled: where the source
  logs an inspected value, the console receives the value itself.
\<close>

section \<open>Configuration\<close>

record KCPConfig =
  kcp_host :: string
  kcp_issuerURL :: string
  kcp_gardenerNamespace :: string
  kcp_username :: string
  kcp_password :: string
  kcp_clientID :: string
  kcp_clientSecret :: js
  kcp_oauthClientID :: js
  kcp_oauthSecret :: js
  kcp_oauthIssuer :: js
  kcp_motherShipApiUrl :: string
  kcp_kubeConfigApiUrl :: string

definition KCPConfig_fromEnv :: "KCPConfig prog" where
  "KCPConfig_fromEnv =
     (bind (getEnvOrThrow ''KCP_KEB_API_URL'') (\<lambda>h.
      bind (getEnvOrThrow ''KCP_OIDC_ISSUER_URL'') (\<lambda>iss.
      bind (getEnvOrThrow ''KCP_GARDENER_NAMESPACE'') (\<lambda>ns.
      bind (getEnvOrThrow ''KCP_TECH_USER_LOGIN'') (\<lambda>user.
      bind (getEnvOrThrow ''KCP_TECH_USER_PASSWORD'') (\<lambda>pass.
      bind (getEnvOrThrow ''KCP_OIDC_CLIENT_ID'') (\<lambda>cid.
      bind (process_env ''KCP_OIDC_CLIENT_SECRET'') (\<lambda>secretSet.
      bind (if truthy secretSet
         then bind (getEnvOrThrow ''KCP_OIDC_CLIENT_SECRET'') (\<lambda>s. ret (Str s, Undef, Undef, Undef))
         else
            (bind (getEnvOrThrow ''KCP_OAUTH2_CLIENT_ID'') (\<lambda>i.
             bind (getEnvOrThrow ''KCP_OAUTH2_CLIENT_SECRET'') (\<lambda>s.
             bind (getEnvOrThrow ''KCP_OAUTH2_ISSUER_URL'') (\<lambda>u.
             ret (Undef, Str i, Str s, Str u)))))) (\<lambda>(cs, oid, os, oi).
      bind (getEnvOrThrow ''KCP_MOTHERSHIP_API_URL'') (\<lambda>ms.
      bind (getEnvOrThrow ''KCP_KUBECONFIG_API_URL'') (\<lambda>kc.
      ret \<lparr>kcp_host = h, kcp_issuerURL = iss, kcp_gardenerNamespace = ns, kcp_username = user,
           kcp_password = pass, kcp_clientID = cid, kcp_clientSecret = cs, kcp_oauthClientID = oid,
           kcp_oauthSecret = os, kcp_oauthIssuer = oi, kcp_motherShipApiUrl = ms,
           kcp_kubeConfigApiUrl = kc\<rparr>)))))))))))"

text \<open>The wrapper keeps the configuration and the path of the file it writes from it.\<close>

record KCPWrapper = KCPConfig +
  kcpConfigPath :: string

definition config_yaml :: "KCPConfig \<Rightarrow> bool \<Rightarrow> string" where
  "config_yaml c secretSet =
     ''gardener-namespace: '' @ in_quotes (kcp_gardenerNamespace c) @ nl @
     (if secretSet
      then ''oidc-client-id: '' @ in_quotes (kcp_clientID c) @ nl @
           ''oidc-client-secret: '' @ to_str (kcp_clientSecret c) @ nl @
           ''username: '' @ kcp_username c @ nl
      else ''oauth2-client-id: '' @ in_quotes (to_str (kcp_oauthClientID c)) @ nl @
           ''oauth2-client-secret: '' @ in_quotes (to_str (kcp_oauthSecret c)) @ nl @
           ''oauth2-issuer-url: '' @ in_quotes (to_str (kcp_oauthIssuer c)) @ nl) @
     ''keb-api-url: '' @ in_quotes (kcp_host c) @ nl @
     ''oidc-issuer-url: '' @ in_quotes (kcp_issuerURL c) @ nl @
     ''mothership-api-url: '' @ in_quotes (kcp_motherShipApiUrl c) @ nl @
     ''kubeconfig-api-url: '' @ in_quotes (kcp_kubeConfigApiUrl c) @ nl"

text \<open>
  The file is written through a stream without an error handler, so a failure to write it is an
  uncaught error, not a failure of the constructor.
\<close>

definition new_KCPWrapper :: "KCPConfig \<Rightarrow> KCPWrapper prog" where
  "new_KCPWrapper c =
     (bind (process_env ''KCP_OIDC_CLIENT_SECRET'') (\<lambda>secretSet.
      seq (try_catch (seq (await (WriteFile ''config.yaml'' (config_yaml c (truthy secretSet)))) (ret ())) uncaught) (
      ret (KCPConfig.extend c \<lparr>kcpConfigPath = ''config.yaml''\<rparr>))))"

section \<open>Running the tool\<close>

definition exec_failure :: "js \<Rightarrow> 'a prog" where
  "exec_failure err =
     (bind (get_path err [K ''stderr'']) (\<lambda>stderr.
      if stderr = Undef then rethrow_as ''failed to process kcp binary output'' err
      else rethrow_as ''kcp command failed'' err))"

definition exec :: "KCPWrapper \<Rightarrow> string list \<Rightarrow> bool \<Rightarrow> js prog" where
  "exec kcp args sendYes =
     try_catch
       (bind (await (Execa ''kcp'' ([''--config'', kcpConfigPath kcp] @ args) sendYes))
             (\<lambda>out. get_path out [K ''stdout'']))
       exec_failure"

text \<open>\<open>args.concat(flag, `${query.k}`)\<close> and \<open>args.concat(flag)\<close>, when the query asks for it.\<close>

definition value_flag :: "(string \<times> js) list \<Rightarrow> string \<Rightarrow> string \<Rightarrow> string list" where
  "value_flag query k flag = (if truthy (lookup query k) then [flag, to_str (lookup query k)] else [])"

definition switch_flag :: "(string \<times> js) list \<Rightarrow> string \<Rightarrow> string \<Rightarrow> string list" where
  "switch_flag query k flag = (if truthy (lookup query k) then [flag] else [])"

definition runtimes_args :: "(string \<times> js) list \<Rightarrow> string list" where
  "runtimes_args query =
     [''runtimes'', ''--output'', ''json''] @
     value_flag query ''account'' ''--account'' @
     value_flag query ''subaccount'' ''--subaccount'' @
     value_flag query ''instanceID'' ''--instance-id'' @
     value_flag query ''runtimeID'' ''--runtime-id'' @
     value_flag query ''region'' ''--region'' @
     value_flag query ''shoot'' ''--shoot'' @
     value_flag query ''state'' ''--state'' @
     switch_flag query ''ops'' ''--ops'' @
     switch_flag query ''gardenerConfig'' ''--gardener-config''"

definition runtimes :: "KCPWrapper \<Rightarrow> (string \<times> js) list \<Rightarrow> js prog" where
  "runtimes kcp query = bind (exec kcp (runtimes_args query) False) (\<lambda>result. eval (json_parse result))"

definition reconciliations_args :: "(string \<times> js) list \<Rightarrow> string list" where
  "reconciliations_args query =
     [''reconciliations'', to_str (lookup query ''parameter''), ''--output'', ''json''] @
     value_flag query ''runtimeID'' ''--runtime-id'' @
     value_flag query ''schedulingID'' ''--scheduling-id''"

definition reconciliations :: "KCPWrapper \<Rightarrow> (string \<times> js) list \<Rightarrow> js prog" where
  "reconciliations kcp query =
     bind (exec kcp (reconciliations_args query) False) (\<lambda>result. eval (json_parse result))"

definition login_args :: "KCPWrapper \<Rightarrow> bool \<Rightarrow> string list" where
  "login_args kcp secretSet =
     (if secretSet then [''login'', ''-u'', kcp_username kcp, ''-p'', kcp_password kcp] else [''login''])"

definition login :: "KCPWrapper \<Rightarrow> js prog" where
  "login kcp = bind (process_env ''KCP_OIDC_CLIENT_SECRET'') (\<lambda>secret.
     exec kcp (login_args kcp (truthy secret)) False)"

definition version :: "KCPWrapper \<Rightarrow> js prog" where
  "version kcp = exec kcp [''--version''] False"

definition kubeconfig :: "KCPWrapper \<Rightarrow> string \<Rightarrow> js prog" where
  "kubeconfig kcp shoot = exec kcp [''kubeconfig'', ''--shoot'', shoot] False"

definition getKubeconfig :: "KCPWrapper \<Rightarrow> string \<Rightarrow> js prog" where
  "getKubeconfig kcp shoot =
     (seq (login kcp) (
      bind (kubeconfig kcp shoot) (\<lambda>result.
      bind (eval (as_string ''split'' result)) (\<lambda>text.
      ret (Str (last (split text '' '')))))))"

text \<open>A query behind a login, printed as indented JSON.\<close>

definition getReconciliationsOperations :: "KCPWrapper \<Rightarrow> js \<Rightarrow> js prog" where
  "getReconciliationsOperations kcp runtimeID =
     (seq (login kcp) (
      bind (reconciliations kcp [(''parameter'', Str ''operations''), (''runtimeID'', runtimeID)]) (\<lambda>ops.
      ret (stringify tab ops))))"

definition getReconciliationsInfo :: "KCPWrapper \<Rightarrow> js \<Rightarrow> js prog" where
  "getReconciliationsInfo kcp schedulingID =
     (seq (login kcp) (
      bind (reconciliations kcp [(''parameter'', Str ''info''), (''schedulingID'', schedulingID)]) (\<lambda>i.
      ret (stringify tab i))))"

definition getRuntimeEvents :: "KCPWrapper \<Rightarrow> string \<Rightarrow> js prog" where
  "getRuntimeEvents kcp instanceID =
     seq (login kcp) (exec kcp [''runtimes'', ''--instance-id'', instanceID, ''--events''] False)"

definition getRuntimeStatusOperations :: "KCPWrapper \<Rightarrow> string \<Rightarrow> js prog" where
  "getRuntimeStatusOperations kcp instanceID =
     (seq (login kcp) (
      bind (runtimes kcp [(''instanceID'', Str instanceID), (''ops'', Bool True), (''state'', Str ''all'')]) (\<lambda>st.
      ret (stringify tab st))))"

definition getRuntimeGardenerConfig :: "KCPWrapper \<Rightarrow> string \<Rightarrow> js prog" where
  "getRuntimeGardenerConfig kcp shoot =
     (seq (login kcp) (
      bind (runtimes kcp [(''shoot'', Str shoot), (''gardenerConfig'', Bool True)]) (\<lambda>cfg.
      ret (stringify tab cfg))))"

section \<open>Orchestrations\<close>

text \<open>\<open>catch (error) { debug(error); throw new Error(msg) }\<close>\<close>

definition fail_during :: "string \<Rightarrow> js \<Rightarrow> 'a prog" where
  "fail_during msg err = seq (debug [err]) (throw (new_Error msg))"

definition getOrchestrationsOperations :: "KCPWrapper \<Rightarrow> js \<Rightarrow> js prog" where
  "getOrchestrationsOperations kcp orchestrationID =
     try_catch
       (bind (exec kcp [''orchestration'', to_str orchestrationID, ''operations'', ''-o'', ''json''] False)
             (\<lambda>res. eval (json_parse res)))
       (fail_during ''failed during getOrchestrationsOperations'')"

definition getOrchestrationsOperationStatus :: "KCPWrapper \<Rightarrow> js \<Rightarrow> js \<Rightarrow> js prog" where
  "getOrchestrationsOperationStatus kcp orchestrationID operationID =
     try_catch
       (bind (exec kcp [''orchestration'', to_str orchestrationID, ''--operation'', to_str operationID,
                        ''-o'', ''json''] False)
             (\<lambda>res. eval (json_parse res)))
       (fail_during ''failed during getOrchestrationsOperationStatus'')"

text \<open>\<open>v > 0\<close>\<close>

definition positive :: "js \<Rightarrow> bool" where
  "positive v = (case to_int v of None \<Rightarrow> False | Some i \<Rightarrow> 0 < i)"

definition getOrchestrationStatus :: "KCPWrapper \<Rightarrow> js \<Rightarrow> js prog" where
  "getOrchestrationStatus kcp orchestrationID =
     try_catch
       (bind (exec kcp [''orchestrations'', to_str orchestrationID, ''-o'', ''json''] False) (\<lambda>res.
         bind (eval (json_parse res)) (\<lambda>orch.
         bind (get_path orch [K ''orchestrationID'']) (\<lambda>oid.
         bind (get_path orch [K ''type'']) (\<lambda>type.
         bind (get_path orch [K ''parameters'', K ''kyma'', K ''version'']) (\<lambda>ver.
         bind (get_path orch [K ''state'']) (\<lambda>state.
         seq (debug [Str (''OrchestrationID: '' @ to_str oid @ '' ('' @ to_str type @ '' to version '' @ to_str ver @
                     '')'' @ nl @ ''      Status: '' @ to_str state)]) (
         bind (getOrchestrationsOperations kcp oid) (\<lambda>operations.
         bind (get_path operations [K ''count'']) (\<lambda>count.
         seq (if positive count
          then
             (bind (get_path operations [K ''data'', I 0, K ''operationID'']) (\<lambda>opid.
              bind (getOrchestrationsOperationStatus kcp orchestrationID opid) (\<lambda>upgradeOperation.
              bind (get_path upgradeOperation [I 0, K ''state'']) (\<lambda>ust.
              debug [Str (''OrchestrationID: '' @ to_str orchestrationID @ nl @ ''        OperationID: '' @
                          to_str opid @ nl @ ''        OperationStatus: '' @ to_str ust)]))))
          else debug [Str (''No operations in OrchestrationID '' @ to_str oid)]) (
         ret orch)))))))))))
       (fail_during ''failed during getOrchestrationStatus'')"

definition second :: "string list \<Rightarrow> string option" where
  "second xs = (case xs of _ # x # _ \<Rightarrow> Some x | _ \<Rightarrow> None)"

definition ensureOrchestrationSucceeded :: "KCPWrapper \<Rightarrow> js \<Rightarrow> int \<Rightarrow> js prog" where
  "ensureOrchestrationSucceeded kcp orchestrationID upgradeTimeoutMin =
     (seq (debug [Str (''Waiting for Kyma Upgrade with OrchestrationID '' @ to_str orchestrationID @ '' to succeed...'')]) (
      try_catch
        (bind (wait (getOrchestrationStatus kcp orchestrationID) finished (1000 * 60 * upgradeTimeoutMin) (1000 * 30)) (\<lambda>res.
          bind (get_path res [K ''state'']) (\<lambda>state.
          seq (if_then (state \<noteq> Str ''succeeded'')
            (seq (debug [Str ''KEB Orchestration Status:'', res])
                 (throw (new_Error (''orchestration didn'' @ [CHR 0x27] @ ''t succeed in 15min: '' @
                                    to_str (stringify [] res)))))) (
          bind (get_path res [K ''description'']) (\<lambda>desc.
          bind (eval (as_string ''split'' desc)) (\<lambda>text.
          seq (if_then (second (split text '' '') \<noteq> Some ''1'')
            (throw (new_Error (''orchestration didn'' @ [CHR 0x27] @
               ''t succeed (number of scheduled operations should be equal to 1):'' @ nl @ ''        '' @
               to_str (stringify [] res))))) (
          ret res)))))))
        (fail_during ''failed during ensureOrchestrationSucceeded'')))"

text \<open>One of the three diagnostic blocks that \<open>upgradeKyma\<close> runs after a failed upgrade.\<close>

definition diagnose :: "string \<Rightarrow> js prog \<Rightarrow> string \<Rightarrow> unit prog" where
  "diagnose title query label =
     try_catch
       (seq (console_log [Str title]) (bind query (\<lambda>v. debug [Str label, v])))
       (\<lambda>err. debug [err])"

definition upgradeKyma :: "KCPWrapper \<Rightarrow> string \<Rightarrow> string \<Rightarrow> int \<Rightarrow> js prog" where
  "upgradeKyma kcp instanceID kymaUpgradeVersion upgradeTimeoutMin =
     try_catch
       (seq (console_log [Str ''Executing kcp upgrade'']) (
         bind (exec kcp [''upgrade'', ''kyma'', ''--version='' @ kymaUpgradeVersion, ''--target'',
                          ''instance-id='' @ instanceID] True) (\<lambda>res.
         seq (console_log [Str ''Checking orchestration'']) (
         bind (eval (as_string ''includes'' res)) (\<lambda>text.
         seq (if_then (\<not> str_includes text ''OrchestrationID: '')
           (throw (new_Error (''Kyma Upgrade failed. KCP upgrade command returned no OrchestrationID. Response: '' @
                              in_quotes text)))) (
         let orchestrationID = (case second (split text ''OrchestrationID: '') of Some i \<Rightarrow> Str i | None \<Rightarrow> Undef) in
         seq (debug [Str (''OrchestrationID: '' @ to_str orchestrationID)]) (
         bind (try_catch
           (seq (console_log [Str ''Ensure execution suceeded'']) (
             bind (ensureOrchestrationSucceeded kcp orchestrationID upgradeTimeoutMin) (\<lambda>st.
             ret (Some st))))
           (\<lambda>err. seq (debug [err]) (ret None))) (\<lambda>status.
         (case status of
            Some st \<Rightarrow> ret st
          | None \<Rightarrow>
             (seq (diagnose ''Check runtime status'' (runtimes kcp [(''instanceID'', Str instanceID)]) ''Runtime Status: '') (
              seq (diagnose ''Check orchestration'' (getOrchestrationStatus kcp orchestrationID) ''Orchestration Status: '') (
              seq (diagnose ''Check operations'' (getOrchestrationsOperations kcp orchestrationID) ''Operations: '') (
              throw (new_Error ''Kyma Upgrade failed''))))))))))))))
       (fail_during ''failed during upgradeKyma'')"

section \<open>Reconciliation log and operation states\<close>

text \<open>\<open>v.slice(Math.max(0, v.length - 3), v.length)\<close>, and the elements a \<open>for of\<close> loop sees.\<close>

definition last_three :: "js \<Rightarrow> js + js list" where
  "last_three v = (case v of
     Arr vs \<Rightarrow> Inr (drop (length vs - 3) vs)
   | Str s \<Rightarrow> Inr (map (\<lambda>c. Str [c]) (drop (length s - 3) s))
   | _ \<Rightarrow> Inl (TypeError ''objReconciliationsOperations.slice is not a function''))"

definition reconciliation_turn :: "KCPWrapper \<Rightarrow> js \<Rightarrow> unit prog" where
  "reconciliation_turn kcp i =
     (bind (get_path i [K ''status'']) (\<lambda>status.
      seq (console_log [Str (''reconciliation operation status: '' @ to_str status)]) (
      bind (get_path i [K ''schedulingID'']) (\<lambda>schedulingID.
      seq (getReconciliationsInfo kcp schedulingID) (
      ret ())))))"

definition reconciliation_details :: "KCPWrapper \<Rightarrow> js \<Rightarrow> unit prog" where
  "reconciliation_details kcp objRuntimeStatus =
     (bind (get_path objRuntimeStatus [K ''data'', I 0, K ''runtimeID'']) (\<lambda>runtimeID.
      bind (getReconciliationsOperations kcp runtimeID) (\<lambda>reconciliationsOperations.
      bind (eval (json_parse reconciliationsOperations)) (\<lambda>objOps.
      if objOps = Null \<or> objOps = Undef
      then console_log [Str (''skipping reconciliation logging: kcp rc operations -r '' @ to_str runtimeID @ nl @
                             ''         -o json returned null'')]
      else
         (bind (get_path objOps [K ''length'']) (\<lambda>len.
          if len = Num 0 then console_log [Str ''no reconciliation operations found'']
          else
             (seq (console_log [Str (''number of reconciliation operations: '' @ to_str len)]) (
              bind (eval (last_three objOps)) (\<lambda>lastOps.
              for_each lastOps (reconciliation_turn kcp))))))))))"

definition reconcileInformationLog :: "KCPWrapper \<Rightarrow> js \<Rightarrow> unit prog" where
  "reconcileInformationLog kcp runtimeStatus =
     try_catch
       (bind (eval (json_parse runtimeStatus)) (\<lambda>objRuntimeStatus.
         (case path objRuntimeStatus [K ''data'', I 0, K ''runtimeID''] of
            Inl _ \<Rightarrow> console_log [Str ''skipping reconciliation logging: no runtimeID provided by runtimeStatus'']
          | Inr _ \<Rightarrow> reconciliation_details kcp objRuntimeStatus)))
       (\<lambda>err. seq (debug [err])
          (console_log [Str (''skipping reconciliation logging: error in reconcileInformationLog: '' @ to_str err)]))"

text \<open>
  The check of \<open>ensureLatestGivenOperationTypeIsInGivenState\<close>, each conjunct evaluated only when
  the ones before it hold.
\<close>

definition latest_state :: "string \<Rightarrow> string \<Rightarrow> js \<Rightarrow> js + bool" where
  "latest_state operationType operationState res =
     (if \<not> truthy res then Inr False
      else case path res [K ''data'', K ''length''] of
        Inl e \<Rightarrow> Inl e
      | Inr n \<Rightarrow>
          if \<not> positive n then Inr False
          else case path res [K ''data'', I 0, K ''status'', K ''hasOwnProperty''] of
            Inl e \<Rightarrow> Inl e
          | Inr _ \<Rightarrow>
              (case path res [K ''data'', I 0, K ''status''] of
                 Inl e \<Rightarrow> Inl e
               | Inr status \<Rightarrow>
                   if operationType \<notin> fst ` set (entries status) then Inr False
                   else (case path status [K operationType, K ''data'', I 0, K ''state''] of
                           Inl e \<Rightarrow> Inl e
                         | Inr state \<Rightarrow> Inr (state = Str operationState))))"

definition ensureLatestGivenOperationTypeIsInGivenState ::
    "KCPWrapper \<Rightarrow> string \<Rightarrow> string \<Rightarrow> string \<Rightarrow> int \<Rightarrow> js prog" where
  "ensureLatestGivenOperationTypeIsInGivenState kcp instanceID operationType operationState timeout =
     (seq (debug [Str (''Waiting for '' @ in_quotes operationType @ '' operation to be in state '' @
                  in_quotes operationState @ ''...'')]) (
      try_catch
        (seq (login kcp) (
          wait (runtimes kcp [(''instanceID'', Str instanceID), (''ops'', Bool True)])
            (latest_state operationType operationState) timeout (1000 * 60)))
        (fail_during ''failed during ensureLatestGivenOperationTypeIsInGivenState'')))"

section \<open>Facts\<close>

lemma json_parse_errors [error_rules]: "throws_errors (eval (json_parse v))"
  by (auto simp: throws_errors_def eval_run json_parse_def parse_text_def syntax_error_def is_error_def
      split: option.splits if_splits prod.splits)

lemma framed_fail_during [frame_rules, intro!]: "framed (fail_during m e)"
  by (auto simp: fail_during_def intro!: frame_rules)

lemma settles_fail_during [settle_rules, intro!]: "settles (fail_during m e)"
  by (auto simp: fail_during_def intro!: settle_rules)

lemma fail_during_run: "fail_during m e w = (Throw (new_Error m), debugged [e] w)"
  by (simp add: fail_during_def seq_run bind_def debug_run throw_run)

lemma framed_exec [frame_rules, intro!]: "framed (exec kcp args y)"
  by (auto simp: exec_def exec_failure_def intro!: frame_rules)

lemma settles_exec [settle_rules, intro!]: "settles (exec kcp args y)"
  by (auto simp: exec_def exec_failure_def intro!: settle_rules)

lemma exec_errors [error_rules]: "throws_errors (exec kcp args y)"
  by (auto simp: exec_def exec_failure_def intro!: error_rules)

interpretation kcp_exec: remote_operation "\<lambda>(kcp, args, sendYes). exec kcp args sendYes"
  by unfold_locales auto

lemmas kcp_query_defs = runtimes_def reconciliations_def login_def version_def kubeconfig_def getKubeconfig_def
  getReconciliationsOperations_def getReconciliationsInfo_def getRuntimeEvents_def
  getRuntimeStatusOperations_def getRuntimeGardenerConfig_def getOrchestrationsOperations_def
  getOrchestrationsOperationStatus_def getOrchestrationStatus_def

lemma framed_kcp_queries [frame_rules, intro!]:
  "framed (runtimes kcp q)" "framed (reconciliations kcp q)" "framed (login kcp)" "framed (version kcp)"
  "framed (kubeconfig kcp s)" "framed (getKubeconfig kcp s)" "framed (getReconciliationsOperations kcp v)"
  "framed (getReconciliationsInfo kcp v)" "framed (getRuntimeEvents kcp s)"
  "framed (getRuntimeStatusOperations kcp s)" "framed (getRuntimeGardenerConfig kcp s)"
  "framed (getOrchestrationsOperations kcp v)" "framed (getOrchestrationsOperationStatus kcp v u)"
  "framed (getOrchestrationStatus kcp v)"
  by (auto simp: kcp_query_defs intro!: frame_rules)

lemma settles_kcp_queries [settle_rules, intro!]:
  "settles (runtimes kcp q)" "settles (reconciliations kcp q)" "settles (login kcp)" "settles (version kcp)"
  "settles (kubeconfig kcp s)" "settles (getKubeconfig kcp s)" "settles (getReconciliationsOperations kcp v)"
  "settles (getReconciliationsInfo kcp v)" "settles (getRuntimeEvents kcp s)"
  "settles (getRuntimeStatusOperations kcp s)" "settles (getRuntimeGardenerConfig kcp s)"
  "settles (getOrchestrationsOperations kcp v)" "settles (getOrchestrationsOperationStatus kcp v u)"
  "settles (getOrchestrationStatus kcp v)"
  by (auto simp: kcp_query_defs intro!: settle_rules)

interpretation kcp_orchestration: polled_operation
    "\<lambda>(kcp, i). getOrchestrationStatus kcp i" finished
    "\<lambda>res. path res [K ''state''] \<in> {Inr (Str ''succeeded''), Inr (Str ''failed'')}"
  by unfold_locales (auto simp: finished_state)

text \<open>The path that the check of the latest operation follows.\<close>

definition latest_path :: "string \<Rightarrow> key list" where
  "latest_path operationType = [K ''data'', I 0, K ''status'', K operationType, K ''data'', I 0, K ''state'']"

lemma latest_state_True:
  "latest_state ty st res = Inr True \<Longrightarrow> path res (latest_path ty) = Inr (Str st)"
  by (auto simp: latest_state_def latest_path_def path.simps split: if_splits sum.splits)

interpretation kcp_runtimes: polled_operation
    "\<lambda>(kcp, q). runtimes kcp q" "latest_state ty st" "\<lambda>res. path res (latest_path ty) = Inr (Str st)"
    for ty st
  by unfold_locales (auto dest: latest_state_True)

lemma framed_ensureOrchestration [frame_rules, intro!]: "framed (ensureOrchestrationSucceeded kcp v t)"
  by (auto simp: ensureOrchestrationSucceeded_def intro!: frame_rules)

lemma settles_ensureOrchestration [settle_rules, intro!]: "settles (ensureOrchestrationSucceeded kcp v t)"
  by (auto simp: ensureOrchestrationSucceeded_def intro!: settle_rules)

lemma settles_diagnose [settle_rules, intro!]: "settles q \<Longrightarrow> settles (diagnose t q l)"
  by (auto simp: diagnose_def intro!: settle_rules)

lemma framed_diagnose [frame_rules, intro!]: "framed q \<Longrightarrow> framed (diagnose t q l)"
  by (auto simp: diagnose_def intro!: frame_rules)

lemma framed_upgradeKyma [frame_rules, intro!]: "framed (upgradeKyma kcp i v t)"
  by (auto simp: upgradeKyma_def Let_def intro!: frame_rules split: option.splits)

lemma settles_upgradeKyma [settle_rules, intro!]: "settles (upgradeKyma kcp i v t)"
  by (auto simp: upgradeKyma_def Let_def intro!: settle_rules split: option.splits)

text \<open>What a completed orchestration looks like: succeeded, with exactly one operation scheduled.\<close>

definition orchestration_done :: "js \<Rightarrow> bool" where
  "orchestration_done st =
     (path st [K ''state''] = Inr (Str ''succeeded'') \<and>
      (\<exists>d. path st [K ''description''] = Inr (Str d) \<and> second (split d '' '') = Some ''1''))"

lemma returns_only_fail [simp]: "returns_only (fail_during msg e) P"
  by (simp add: returns_only_def fail_during_run)

lemma returns_only_ensureOrchestration: "returns_only (ensureOrchestrationSucceeded kcp i t) orchestration_done"
proof (rule returns_onlyI)
  fix w w' :: world and x
  assume run: "ensureOrchestrationSucceeded kcp i t w = (Ret x, w')"
  then show "orchestration_done x"
    by (auto simp: ensureOrchestrationSucceeded_def seq_run bind_def try_catch_def debug_run fail_during_run
        get_path_def eval_run prim_run ret_run throw_run as_string_Inr orchestration_done_def
        split: prod.splits outcome.splits sum.splits if_splits)
qed

lemma returns_only_upgradeKyma: "returns_only (upgradeKyma kcp i v t) orchestration_done"
proof -
  have status: "returns_only
      (try_catch
         (seq (console_log msg) (bind (ensureOrchestrationSucceeded kcp oid t) (\<lambda>st. ret (Some st))))
         (\<lambda>err. seq (debug [err]) (ret None)))
      (\<lambda>s. \<forall>st. s = Some st \<longrightarrow> orchestration_done st)" for msg oid
    by (intro returns_only_try returns_only_seq returns_only_bind [OF returns_only_ensureOrchestration])
       (simp_all add: returns_only_basic)
  show ?thesis
    unfolding upgradeKyma_def Let_def
    by (intro returns_only_try returns_only_seq returns_only_bind [OF status]
          returns_only_bind [OF returns_only_basic(6)])
       (auto simp: returns_only_basic intro!: returns_only_seq split: option.splits)
qed

lemma throws_only_fail:
  "fst (try_catch m (fail_during msg) w) = Throw e \<Longrightarrow> e = new_Error msg"
  by (auto simp: try_catch_def fail_during_run split: prod.splits outcome.splits)

section \<open>Properties\<close>

text \<open>
  \<open>upgradeKyma\<close> always settles.  It returns only the status of
  an orchestration that succeeded and had exactly one operation scheduled; every other course of
  events, a failed subprocess, output without an id, a failed or late orchestration, ends in one
  and the same \<open>Error\<close>.
\<close>

theorem upgrade_returns_only_success:
  "case fst (upgradeKyma kcp instanceID ver timeoutMin w) of
     Ret st \<Rightarrow> orchestration_done st
   | Throw e \<Rightarrow> e = new_Error ''failed during upgradeKyma''
   | Hang \<Rightarrow> False"
proof (cases "fst (upgradeKyma kcp instanceID ver timeoutMin w)")
  case (Ret st)
  then show ?thesis using returns_only_upgradeKyma by (auto simp: returns_only_def)
next
  case (Throw e)
  then show ?thesis by (auto simp: upgradeKyma_def dest: throws_only_fail)
next
  case Hang
  then show ?thesis using settles_upgradeKyma by (auto simp: settles_def)
qed

lemma at_most_exec: "at_most 1 (exec kcp args y)"
proof -
  have "at_most 0 (exec_failure e :: js prog)" for e
    unfolding exec_failure_def rethrow_as_def by (intro call_rules)
  then have "at_most ((1 + 0) + 0) (exec kcp args y)"
    unfolding exec_def by (intro at_most_try at_most_bind at_most_basic)
  then show ?thesis by simp
qed

lemma at_most_login: "at_most 1 (login kcp)"
  unfolding login_def by (intro call_rules at_most_exec)

lemma at_most_reconciliations: "at_most 1 (reconciliations kcp q)"
  unfolding reconciliations_def using at_most_bind [OF at_most_exec at_most_basic(4)] by simp

lemma at_most_reconciliation_queries:
  "at_most 2 (getReconciliationsOperations kcp v)" "at_most 2 (getReconciliationsInfo kcp v)"
  unfolding getReconciliationsOperations_def getReconciliationsInfo_def
  using at_most_seq [OF at_most_login at_most_bind [OF at_most_reconciliations at_most_basic(1)]]
  by (simp_all add: numeral_2_eq_2)

lemma last_three_length: "last_three v = Inr vs \<Longrightarrow> length vs \<le> 3"
  by (cases v) (auto simp: last_three_def)

lemma at_most_reconciliation_turn: "at_most 2 (reconciliation_turn kcp i)"
  unfolding reconciliation_turn_def
  using at_most_seq [OF at_most_reconciliation_queries(2) at_most_basic(1)]
  by (intro call_rules) simp

lemma at_most_reconciliation_details: "at_most 8 (reconciliation_details kcp v)"
proof -
  have loop: "at_most 6 (for_each vs (reconciliation_turn kcp))" if "length vs \<le> 3" for vs
    by (rule at_most_mono [OF at_most_for_each [OF at_most_reconciliation_turn]]) (use that in simp)
  have "at_most (2 + 6) (reconciliation_details kcp v)"
    unfolding reconciliation_details_def
    by (rule at_most_bind_silent, rule at_most_bind [OF at_most_reconciliation_queries(1)])
       (intro call_rules loop last_three_length, assumption)
  then show ?thesis by simp
qed

lemma settles_reconciliation_details [settle_rules, intro!]: "settles (reconciliation_details kcp v)"
  by (auto simp: reconciliation_details_def reconciliation_turn_def intro!: settle_rules)

lemma returns_reconcileInformationLog: "returns (reconcileInformationLog kcp s)"
  unfolding reconcileInformationLog_def
  by (intro returns_try returns_seq returns_debug returns_basic settles_bind settles_basic)
     (auto split: sum.splits)

lemma at_most_reconcileInformationLog: "at_most 8 (reconcileInformationLog kcp s)"
proof -
  have "at_most (8 + 0) (reconcileInformationLog kcp s)"
    unfolding reconcileInformationLog_def
    by (intro at_most_try call_rules)
       (auto intro: call_rules at_most_reconciliation_details split: sum.splits)
  then show ?thesis by simp
qed

text \<open>
  \<open>reconcileInformationLog\<close> never fails, whatever text it is
  given and whatever the tool answers, and it runs the tool at most eight times: a login and a
  query for the list, and the same for each of the last three operations.
\<close>

theorem reconciliation_log_is_harmless:
  "fst (reconcileInformationLog kcp runtimeStatus w) = Ret () \<and>
   (\<exists>cs. calls (snd (reconcileInformationLog kcp runtimeStatus w)) = calls w @ cs \<and> length cs \<le> 8)"
  using at_most_reconcileInformationLog returns_unit [OF returns_reconcileInformationLog]
  by (simp add: at_most_def)

text \<open>The run of the tool for given arguments, and a successful one.\<close>

definition kcp_run :: "KCPWrapper \<Rightarrow> string list \<Rightarrow> call" where
  "kcp_run kcp args = Execa ''kcp'' ([''--config'', kcpConfigPath kcp] @ args) False"

definition secret_set :: "world \<Rightarrow> bool" where
  "secret_set w = (\<exists>v. env w ''KCP_OIDC_CLIENT_SECRET'' = Some v \<and> v \<noteq> [])"

lemma exec_Ret:
  assumes "exec kcp args False w = (Ret out, w')"
  shows "\<exists>a d. services w (calls w) (kcp_run kcp args) = (Inr a, d) \<and> path a [K ''stdout''] = Inr out \<and>
    w' = w\<lparr>calls := calls w @ [kcp_run kcp args], now := now w + int d\<rparr>"
proof -
  obtain ans d where s: "services w (calls w) (kcp_run kcp args) = (ans, d)" by fastforce
  have "exec_failure e v \<noteq> (Ret out, w')" for e v
    by (auto simp: exec_failure_def rethrow_as_def bind_def get_path_def eval_run throw_run
        split: sum.splits if_splits)
  with assms s show ?thesis
    by (auto simp: exec_def kcp_run_def try_catch_def bind_def await_run get_path_def eval_run
        split: sum.splits)
qed

lemma login_Ret:
  assumes "login kcp w = (Ret out, w')"
  shows "calls w' = calls w @ [kcp_run kcp (login_args kcp (secret_set w))] \<and> services w' = services w"
proof -
  have "truthy (case env w ''KCP_OIDC_CLIENT_SECRET'' of None \<Rightarrow> Undef | Some v \<Rightarrow> Str v) = secret_set w"
    by (auto simp: secret_set_def split: option.splits)
  with assms have "exec kcp (login_args kcp (secret_set w)) False w = (Ret out, w')"
    by (simp add: login_def bind_def prim_run)
  from exec_Ret [OF this] show ?thesis by auto
qed

text \<open>
  The text that \<open>getRuntimeStatusOperations\<close> returns parses back to
  exactly the value that the tool printed, so the callers that parse it again, as \<open>provisionSKR\<close>
  and \<open>reconcileInformationLog\<close> do, neither fail on it nor lose anything.  The tool was run twice:
  a login for the configured kind of credentials and the query for all operations of the instance
  in every state.
\<close>

theorem status_report_parses_back:
  assumes "instanceID \<noteq> []"
    and "getRuntimeStatusOperations kcp instanceID w = (Ret s, w')"
  shows "\<exists>logged query a out v.
     logged = kcp_run kcp (login_args kcp (secret_set w)) \<and>
     query = kcp_run kcp [''runtimes'', ''--output'', ''json'', ''--instance-id'', instanceID, ''--state'', ''all'', ''--ops''] \<and>
     calls w' = calls w @ [logged, query] \<and>
     fst (services w (calls w @ [logged]) query) = Inr a \<and> path a [K ''stdout''] = Inr out \<and>
     json_parse out = Inr v \<and> json_parse s = Inr v"
proof -
  let ?args = "[''runtimes'', ''--output'', ''json'', ''--instance-id'', instanceID, ''--state'', ''all'', ''--ops'']"
  let ?query = "[(''instanceID'', Str instanceID), (''ops'', Bool True), (''state'', Str ''all'')]"
  have args: "runtimes_args ?query = ?args"
    using assms(1) by (simp add: runtimes_args_def value_flag_def switch_flag_def lookup_def)
  obtain l w1 where l: "login kcp w = (Ret l, w1)"
    using assms(2) by (auto simp: getRuntimeStatusOperations_def seq_run bind_def split: prod.splits outcome.splits)
  then obtain out w2 v where q: "exec kcp ?args False w1 = (Ret out, w2)"
    and v: "json_parse out = Inr v" and s: "s = stringify tab v" "w' = w2"
    using assms(2)
    by (auto simp: getRuntimeStatusOperations_def runtimes_def args seq_run bind_def eval_run ret_run
        split: prod.splits outcome.splits sum.splits)
  have "json_parse s = Inr v" unfolding s(1) using v by (rule json.reparse)
  with login_Ret [OF l] exec_Ret [OF q] v s(2) show ?thesis by fastforce
qed

definition some_kcp :: KCPWrapper where
  "some_kcp = \<lparr>kcp_host = ''h'', kcp_issuerURL = ''i'', kcp_gardenerNamespace = ''n'', kcp_username = ''u'',
     kcp_password = ''p'', kcp_clientID = ''c'', kcp_clientSecret = Undef, kcp_oauthClientID = Str ''o'',
     kcp_oauthSecret = Str ''s'', kcp_oauthIssuer = Str ''x'', kcp_motherShipApiUrl = ''m'',
     kcp_kubeConfigApiUrl = ''k'', kcpConfigPath = ''config.yaml''\<rparr>"

definition printing_world :: "string \<Rightarrow> world" where
  "printing_world text = quiet_world\<lparr>services := (\<lambda>_ _. (Inr (Obj [(''stdout'', Str text)]), 0))\<rparr>"

lemma parse_null: "json_parse (Str ''null'') = Inr Null"
  by (simp add: json_parse_def parse_text_def) code_simp

theorem status_report_parses_back_witness:
  "\<exists>s w'. getRuntimeStatusOperations some_kcp ''abc'' (printing_world ''null'') = (Ret s, w') \<and>
     json_parse s = Inr Null"
proof -
  have "\<exists>w'. getRuntimeStatusOperations some_kcp ''abc'' (printing_world ''null'') = (Ret (stringify tab Null), w')"
    by (simp add: getRuntimeStatusOperations_def runtimes_def login_def exec_def seq_run bind_def try_catch_def
        await_run get_path_def eval_run prim_run ret_run path.simps lookup_def printing_world_def parse_null)
  then obtain w' where run:
    "getRuntimeStatusOperations some_kcp ''abc'' (printing_world ''null'') = (Ret (stringify tab Null), w')" ..
  from status_report_parses_back [OF _ this] obtain a out v where
    "fst (services (printing_world ''null'') (calls (printing_world ''null'') @
       [kcp_run some_kcp (login_args some_kcp (secret_set (printing_world ''null'')))])
       (kcp_run some_kcp [''runtimes'', ''--output'', ''json'', ''--instance-id'', ''abc'', ''--state'', ''all'', ''--ops''])) = Inr a"
    "path a [K ''stdout''] = Inr out" "json_parse out = Inr v" "json_parse (stringify tab Null) = Inr v"
    by auto
  then have "json_parse (stringify tab Null) = Inr Null"
    by (auto simp: printing_world_def path.simps lookup_def parse_null)
  with run show ?thesis by blast
qed

text \<open>The environment variables that a configuration needs, in the order in which they are read.\<close>

definition present :: "world \<Rightarrow> string \<Rightarrow> bool" where
  "present w k = (case env w k of None \<Rightarrow> False | Some v \<Rightarrow> v \<noteq> [])"

definition required_env :: "world \<Rightarrow> string list" where
  "required_env w =
     [''KCP_KEB_API_URL'', ''KCP_OIDC_ISSUER_URL'', ''KCP_GARDENER_NAMESPACE'', ''KCP_TECH_USER_LOGIN'',
      ''KCP_TECH_USER_PASSWORD'', ''KCP_OIDC_CLIENT_ID''] @
     (if present w ''KCP_OIDC_CLIENT_SECRET'' then []
      else [''KCP_OAUTH2_CLIENT_ID'', ''KCP_OAUTH2_CLIENT_SECRET'', ''KCP_OAUTH2_ISSUER_URL'']) @
     [''KCP_MOTHERSHIP_API_URL'', ''KCP_KUBECONFIG_API_URL'']"

definition env_missing :: "string \<Rightarrow> js" where
  "env_missing k = new_Error (''Env '' @ k @ '' not present'')"

lemma bind_getEnvOrThrow:
  "bind (getEnvOrThrow k) f w =
     (if present w k then f (the (env w k)) w else (Throw (env_missing k), w))"
  by (simp add: bind_def getEnvOrThrow_run present_def env_missing_def split: option.splits)

lemma bind_process_env_truthy:
  "bind (process_env k) f w = f (case env w k of None \<Rightarrow> Undef | Some v \<Rightarrow> Str v) w"
  "truthy (case env w k of None \<Rightarrow> Undef | Some v \<Rightarrow> Str v) = present w k"
  by (auto simp: bind_def process_env_def present_def split: option.splits)

text \<open>
  Reading the configuration touches nothing and fails exactly on the
  first variable, in the order of reading, that is unset or empty.  A configuration that is
  returned holds the client secret if that variable is set, and otherwise all three values of the
  OAuth2 client.
\<close>

theorem configuration_is_complete:
  "snd (KCPConfig_fromEnv w) = w \<and>
   (case find (\<lambda>k. \<not> present w k) (required_env w) of
      Some k \<Rightarrow> fst (KCPConfig_fromEnv w) = Throw (env_missing k)
    | None \<Rightarrow> \<exists>c. fst (KCPConfig_fromEnv w) = Ret c \<and>
        (if present w ''KCP_OIDC_CLIENT_SECRET''
         then kcp_clientSecret c = Str (the (env w ''KCP_OIDC_CLIENT_SECRET''))
         else kcp_oauthClientID c = Str (the (env w ''KCP_OAUTH2_CLIENT_ID'')) \<and>
              kcp_oauthSecret c = Str (the (env w ''KCP_OAUTH2_CLIENT_SECRET'')) \<and>
              kcp_oauthIssuer c = Str (the (env w ''KCP_OAUTH2_ISSUER_URL''))))"
proof (cases "present w ''KCP_OIDC_CLIENT_SECRET''")
  case True
  then show ?thesis
    by (simp add: KCPConfig_fromEnv_def bind_getEnvOrThrow bind_process_env_truthy bind_bind bind_ret ret_run required_env_def)
next
  case False
  then show ?thesis
    by (simp add: KCPConfig_fromEnv_def bind_getEnvOrThrow bind_process_env_truthy bind_bind bind_ret ret_run required_env_def)
qed

text \<open>
  \<open>ensureLatestGivenOperationTypeIsInGivenState\<close> always settles; it
  returns only a report whose first runtime has, as the latest operation of the given type, one in
  the given state, and it fails only with its own \<open>Error\<close>.
\<close>

theorem latest_operation_reached:
  "case fst (ensureLatestGivenOperationTypeIsInGivenState kcp instanceID ty st timeout w) of
     Ret res \<Rightarrow> path res (latest_path ty) = Inr (Str st)
   | Throw e \<Rightarrow> e = new_Error ''failed during ensureLatestGivenOperationTypeIsInGivenState''
   | Hang \<Rightarrow> False"
proof -
  let ?poll = "wait (runtimes kcp [(''instanceID'', Str instanceID), (''ops'', Bool True)]) (latest_state ty st)
     timeout (1000 * 60)"
  have "returns_only ?poll (\<lambda>res. path res (latest_path ty) = Inr (Str st))"
    using kcp_runtimes.poll_result [where x = "(kcp, q)" for q] by (auto intro!: returns_onlyI)
  then have "returns_only (ensureLatestGivenOperationTypeIsInGivenState kcp instanceID ty st timeout)
      (\<lambda>res. path res (latest_path ty) = Inr (Str st))"
    unfolding ensureLatestGivenOperationTypeIsInGivenState_def
    by (intro returns_only_seq returns_only_try) simp_all
  moreover have "settles (ensureLatestGivenOperationTypeIsInGivenState kcp instanceID ty st timeout)"
    by (auto simp: ensureLatestGivenOperationTypeIsInGivenState_def intro!: settle_rules)
  moreover have "e = new_Error ''failed during ensureLatestGivenOperationTypeIsInGivenState''"
    if "fst (ensureLatestGivenOperationTypeIsInGivenState kcp instanceID ty st timeout w) = Throw e" for e
    using that
    by (auto simp: ensureLatestGivenOperationTypeIsInGivenState_def seq_run bind_def debug_run dest: throws_only_fail)
  ultimately show ?thesis
    by (auto simp: returns_only_def settles_def split: outcome.splits)
qed

text \<open>
  A poll of \<open>ensureLatestGivenOperationTypeIsInGivenState\<close> whose query fails
  is not an ordinary negative answer: the check is applied to the \<open>Error\<close>, throws a \<open>TypeError\<close> on
  its missing \<open>data\<close>, and that error becomes an unhandled rejection; the polling goes on with the
  next tick.
\<close>

theorem failed_poll_escapes:
  assumes "runtimes kcp query (w\<lparr>now := t\<rparr>) = (Throw (Err n m []), w')"
  shows "wait_polls (Suc k) t i deadline None (runtimes kcp query) (latest_state ty st) w =
         wait_polls k (t + i) i deadline None (runtimes kcp query) (latest_state ty st)
           (w'\<lparr>unhandled := unhandled w' @ [cannot_read ''undefined'' ''length'']\<rparr>)"
  using assms by (simp add: latest_state_def path.simps lookup_def)

theorem failed_poll_escapes_witness:
  "unhandled (snd (wait_polls 1 1 1 10 None (runtimes some_kcp []) (latest_state ''provisioning'' ''succeeded'')
     (quiet_world\<lparr>services := (\<lambda>_ _. (Inl (Err ''Error'' ''x'' []), 0))\<rparr>))) =
   [cannot_read ''undefined'' ''length'']"
proof -
  let ?w = "quiet_world\<lparr>services := (\<lambda>_ _. (Inl (Err ''Error'' ''x'' []), 0))\<rparr>"
  let ?w' = "?w\<lparr>now := 1, calls := [kcp_run some_kcp [''runtimes'', ''--output'', ''json'']]\<rparr>"
  let ?msg = "''failed to process kcp binary output: Error: x''"
  have run: "runtimes some_kcp [] (?w\<lparr>now := 1\<rparr>) = (Throw (Err ''Error'' ?msg []), ?w')"
    by (simp add: runtimes_def exec_def exec_failure_def rethrow_as_def bind_def try_catch_def await_run
        get_path_def eval_run path.simps runtimes_args_def value_flag_def switch_flag_def lookup_def
        kcp_run_def quiet_world_def throw_run new_Error_def toString_def)
  have "wait_polls (Suc 0) 1 1 10 None (runtimes some_kcp []) (latest_state ''provisioning'' ''succeeded'') ?w =
      (None, ?w'\<lparr>unhandled := [cannot_read ''undefined'' ''length'']\<rparr>)"
    unfolding failed_poll_escapes [OF run] by (simp add: quiet_world_def)
  then show ?thesis by simp
qed

end
