(* ===== verification/Gardener_Client.thy ===== *)
theory Gardener_Client
  imports Polling
begin

text \<open>
  \<^verbatim>\<open>src/testing/e2e/skr/gardener/client.js\<close>: the client of the Gardener cluster in which the shoots (the
  Kubernetes clusters under test) are objects.  A client built without a kubeconfig has none of
  its fields: \<open>return null\<close> in a constructor has no effect, so the object is there, and its
  methods fail when they reach for the missing API.
\<close>

section \<open>Configuration\<close>

text \<open>\<open>process.env.KCP_GARDENER_NAMESPACE || 'garden-kyma-dev'\<close>; no code changes the variable.\<close>

definition GARDENER_PROJECT :: "string prog" where
  "GARDENER_PROJECT = bind (process_env ''KCP_GARDENER_NAMESPACE'') (\<lambda>v.
     ret (to_str (js_or v (Str ''garden-kyma-dev''))))"

definition COMPASS_ID_ANNOTATION_KEY :: string where
  "COMPASS_ID_ANNOTATION_KEY = ''compass.provisioner.kyma-project.io/runtime-id''"

record GardenerConfig =
  gc_kubeconfigPath :: js
  gc_kubeconfig :: js
  gc_shootTemplate :: js

definition GardenerConfig_fromEnv :: "GardenerConfig prog" where
  "GardenerConfig_fromEnv =
     (bind (process_env ''GARDENER_KUBECONFIG'') (\<lambda>p.
      bind (process_env ''GARDENER_SHOOT_TEMPLATE'') (\<lambda>t.
      ret \<lparr>gc_kubeconfigPath = p, gc_kubeconfig = Undef, gc_shootTemplate = t\<rparr>)))"

definition GardenerConfig_fromString :: "js \<Rightarrow> GardenerConfig" where
  "GardenerConfig_fromString kubeconfig =
     \<lparr>gc_kubeconfigPath = Undef, gc_kubeconfig = kubeconfig, gc_shootTemplate = Undef\<rparr>"

record GardenerClient =
  connected :: bool
  shootTemplate :: js

definition new_GardenerClient :: "GardenerConfig \<Rightarrow> GardenerClient prog" where
  "new_GardenerClient config =
     (let client = \<lparr>connected = True, shootTemplate = gc_shootTemplate config\<rparr> in
      if truthy (gc_kubeconfigPath config)
      then
         (seq (console_log [Str ''Using Gardener kubeconfig'']) (
          seq (await (LoadKubeconfig Gardener (Obj [(''file'', gc_kubeconfigPath config)]))) (
          ret client)))
      else if truthy (gc_kubeconfig config)
      then
         (seq (console_log [Str ''Using Gardener kubeconfig'']) (
          seq (await (LoadKubeconfig Gardener (Obj [(''string'', gc_kubeconfig config)]))) (
          ret client)))
      else
         (seq (console_log [Str ''Unable to create GardenerClient - no Gardener kubeconfig provided'']) (
          ret \<lparr>connected = False, shootTemplate = Undef\<rparr>)))"

section \<open>Operations\<close>

text \<open>\<open>this.dynamicAPI.m(...)\<close> and \<open>this.coreV1API.m(...)\<close>\<close>

definition gardener_call :: "GardenerClient \<Rightarrow> string \<Rightarrow> kube_op \<Rightarrow> js prog" where
  "gardener_call g m op =
     (if connected g then await (Kube Gardener op) else throw (cannot_read ''undefined'' m))"

definition shoot_ref :: "string \<Rightarrow> string \<Rightarrow> js" where
  "shoot_ref name namespace =
     Obj [(''apiVersion'', Str ''core.gardener.cloud/v1beta1''), (''kind'', Str ''Shoot''),
          (''metadata'', Obj [(''name'', Str name), (''namespace'', Str namespace)])]"

text \<open>The handler of a failed create or delete: it logs the message of the answer.\<close>

definition log_response :: "js \<Rightarrow> unit prog" where
  "log_response err =
     (bind (get_path err [K ''body'', K ''message'']) (\<lambda>msg.
      error [Str (''Got the error with response '' @ to_str (stringify [] msg))]))"

definition deleteShoot :: "GardenerClient \<Rightarrow> string \<Rightarrow> unit prog" where
  "deleteShoot g name =
     (bind GARDENER_PROJECT (\<lambda>project.
      if \<not> connected g then throw (cannot_read ''undefined'' ''delete'')
      else try_catch (seq (gardener_call g ''delete'' (KDelete (shoot_ref name project))) (ret ())) log_response))"

text \<open>
  The check of a watch event: skip other shoots, then look at the last operation.  (What the
  callback logs is left out.)
\<close>

definition shoot_ready :: "string \<Rightarrow> string \<Rightarrow> js \<Rightarrow> js + bool" where
  "shoot_ready shootName lastOpType ev =
     (case path ev [K ''object'', K ''metadata'', K ''name''] of
        Inl e \<Rightarrow> Inl e
      | Inr name \<Rightarrow>
          if \<not> loose_eq name shootName then Inr False
          else case path ev [K ''object'', K ''status'', K ''lastOperation''] of
            Inl e \<Rightarrow> Inl e
          | Inr lastOperation \<Rightarrow>
              (case path lastOperation [K ''type''] of
                 Inl e \<Rightarrow> Inl e
               | Inr type \<Rightarrow>
                   (case path lastOperation [K ''state''] of
                      Inl e \<Rightarrow> Inl e
                    | Inr state \<Rightarrow> Inr (loose_eq type lastOpType \<and> loose_eq state ''Succeeded''))))"

definition waitForShoot :: "GardenerClient \<Rightarrow> string \<Rightarrow> string \<Rightarrow> js prog" where
  "waitForShoot g shootName lastOpType =
     (bind GARDENER_PROJECT (\<lambda>project.
      waitForK8sObject (if connected g then Gardener else Global)
        (''/apis/core.gardener.cloud/v1beta1/namespaces/'' @ project @ ''/shoots'')
        (shoot_ready shootName lastOpType) (1200 * 1000) ''Waiting for shoot to be ready timeout''))"

definition decoded_kubeconfig :: "js \<Rightarrow> js + js" where
  "decoded_kubeconfig v = (case v of
     Str s \<Rightarrow> Inr (Str (fromBase64 s))
   | _ \<Rightarrow> Inl (TypeError ''The first argument must be of type string or an instance of Buffer''))"

definition getShoot :: "GardenerClient \<Rightarrow> string \<Rightarrow> js prog" where
  "getShoot g shootName =
     (bind GARDENER_PROJECT (\<lambda>project.
      seq (debug [Str (''Fetching shoot: '' @ shootName @ '' from gardener namespace: '' @ project)]) (
      bind (gardener_call g ''readNamespacedSecret'' (KReadSecret (shootName @ ''.kubeconfig'') project)) (\<lambda>secretResp.
      bind (gardener_call g ''read'' (KRead (shoot_ref shootName project))) (\<lambda>shootResp.
      bind (get_path shootResp [K ''body'', K ''metadata'', K ''annotations'', K COMPASS_ID_ANNOTATION_KEY]) (\<lambda>compassID.
      bind (get_path secretResp [K ''body'', K ''data'', K ''kubeconfig'']) (\<lambda>encoded.
      bind (eval (decoded_kubeconfig encoded)) (\<lambda>kc.
      bind (get_path shootResp [K ''body'', K ''spec'', K ''kubernetes'', K ''kubeAPIServer'', K ''oidcConfig'']) (\<lambda>oidc.
      bind (get_path shootResp [K ''body'', K ''spec'', K ''dns'', K ''domain'']) (\<lambda>domain.
      bind (get_path shootResp [K ''body'', K ''spec'']) (\<lambda>spec.
      ret (Obj [(''name'', Str shootName), (''compassID'', compassID), (''kubeconfig'', kc), (''oidcConfig'', oidc),
                (''shootDomain'', domain), (''spec'', spec)]))))))))))))"

definition filled_template :: "string \<Rightarrow> string \<Rightarrow> string \<Rightarrow> string" where
  "filled_template template shootName project =
     replace_all (replace_all template ''<SHOOT>'' shootName) ''<NAMESPACE>'' project"

definition createShoot :: "GardenerClient \<Rightarrow> string \<Rightarrow> js prog" where
  "createShoot g shootName =
     (seq (debug [Str ''Creating a K8S cluster in gardener namespace'']) (
      if \<not> truthy (shootTemplate g)
      then seq (error [Str ''No shoot Template'']) (ret (new_Error ''no shoot template defined in the Gardener client''))
      else
         (bind GARDENER_PROJECT (\<lambda>project.
          let data = fromBase64 (to_str (shootTemplate g)) in
          bind (await (LoadYaml (filled_template data shootName project))) (\<lambda>template.
          seq (try_catch (seq (gardener_call g ''create'' (KCreate template)) (ret ())) log_response) (
          seq (waitForShoot g shootName ''Create'') (
          getShoot g shootName)))))))"

section \<open>Facts\<close>

lemma GARDENER_PROJECT_run:
  "\<exists>p. GARDENER_PROJECT w = (Ret p, w)"
  by (simp add: GARDENER_PROJECT_def bind_def prim_run ret_run)

lemma framed_gardener [frame_rules, intro!]:
  "framed GARDENER_PROJECT" "framed (gardener_call g m op)" "framed (getShoot g s)"
  by (auto simp: GARDENER_PROJECT_def gardener_call_def getShoot_def intro!: frame_rules)

lemma settles_gardener [settle_rules, intro!]:
  "settles GARDENER_PROJECT" "settles (gardener_call g m op)" "settles (getShoot g s)"
  by (auto simp: GARDENER_PROJECT_def gardener_call_def getShoot_def intro!: settle_rules)

interpretation gardener_shoot: remote_operation "\<lambda>(g, shootName). getShoot g shootName"
  by unfold_locales auto

lemma shoot_ready_True:
  "shoot_ready s ty ev = Inr True \<Longrightarrow>
   \<exists>n op t st. path ev [K ''object'', K ''metadata'', K ''name''] = Inr n \<and> loose_eq n s \<and>
     path ev [K ''object'', K ''status'', K ''lastOperation''] = Inr op \<and>
     path op [K ''type''] = Inr t \<and> loose_eq t ty \<and> path op [K ''state''] = Inr st \<and> loose_eq st ''Succeeded''"
  by (auto simp: shoot_ready_def split: sum.splits if_splits)

section \<open>Properties\<close>

text \<open>
  A client that was built without a kubeconfig exists, but
  \<open>getShoot\<close> and \<open>deleteShoot\<close> fail with a \<open>TypeError\<close> before any call is made, and \<open>createShoot\<close>
  returns an \<open>Error\<close> object without any call.
\<close>

theorem unconnected_client_fails:
  assumes "\<not> truthy (gc_kubeconfigPath config)" and "\<not> truthy (gc_kubeconfig config)"
    and "new_GardenerClient config w = (Ret g, w')"
  shows "calls w' = calls w \<and>
         fst (getShoot g s v) = Throw (cannot_read ''undefined'' ''readNamespacedSecret'') \<and>
         calls (snd (getShoot g s v)) = calls v \<and>
         fst (deleteShoot g s v) = Throw (cannot_read ''undefined'' ''delete'') \<and>
         calls (snd (deleteShoot g s v)) = calls v \<and>
         fst (createShoot g s v) = Ret (new_Error ''no shoot template defined in the Gardener client'') \<and>
         calls (snd (createShoot g s v)) = calls v"
proof -
  have g: "g = \<lparr>connected = False, shootTemplate = Undef\<rparr>" and w': "calls w' = calls w"
    using assms by (auto simp: new_GardenerClient_def seq_run bind_def prim_run ret_run)
  obtain p where p: "GARDENER_PROJECT v = (Ret p, v)" using GARDENER_PROJECT_run by blast
  show ?thesis
    by (simp add: g w' p getShoot_def deleteShoot_def createShoot_def gardener_call_def seq_run bind_def debug_run
        throw_run ret_run error_def log_with_def prim_run)
qed

theorem unconnected_client_fails_witness:
  "fst (getShoot \<lparr>connected = False, shootTemplate = Undef\<rparr> ''s'' quiet_world) =
     Throw (cannot_read ''undefined'' ''readNamespacedSecret'')"
  using unconnected_client_fails [of "GardenerConfig_fromString Undef" quiet_world
      "\<lparr>connected = False, shootTemplate = Undef\<rparr>" "quiet_world\<lparr>console :=
        [[Str ''Unable to create GardenerClient - no Gardener kubeconfig provided'']]\<rparr>" "''s''" quiet_world]
  by (simp add: GardenerConfig_fromString_def new_GardenerClient_def seq_run bind_def prim_run ret_run quiet_world_def)

end
