(* ===== verification/Smctl.thy ===== *)
theory Smctl
  imports Polling
begin

text \<open>
  \<^verbatim>\<open>src/testing/e2e/skr/smctl/helpers.js\<close>: driving the command line tool of the SAP Service Manager, and
  the credentials the tests hand to the broker.
\<close>

section \<open>Credentials\<close>

record AdminCreds =
  admin_clientid :: string
  admin_clientsecret :: string
  admin_url :: string

definition AdminCreds_fromEnv :: "AdminCreds prog" where
  "AdminCreds_fromEnv =
     (bind (getEnvOrThrow ''BTP_SM_ADMIN_CLIENTID'') (\<lambda>i.
      bind (getEnvOrThrow ''BTP_SM_ADMIN_CLIENTSECRET'') (\<lambda>s.
      bind (getEnvOrThrow ''BTP_SM_ADMIN_URL'') (\<lambda>u.
      ret \<lparr>admin_clientid = i, admin_clientsecret = s, admin_url = u\<rparr>))))"

text \<open>The broker client reads operator credentials as an object.\<close>

definition BTPOperatorCreds :: "string \<Rightarrow> string \<Rightarrow> string \<Rightarrow> string \<Rightarrow> js" where
  "BTPOperatorCreds clientid clientsecret smURL url =
     Obj [(''clientid'', Str clientid), (''clientsecret'', Str clientsecret), (''smURL'', Str smURL), (''url'', Str url)]"

definition BTPOperatorCreds_fromEnv :: "js prog" where
  "BTPOperatorCreds_fromEnv =
     (bind (getEnvOrThrow ''BTP_OPERATOR_CLIENTID'') (\<lambda>i.
      bind (getEnvOrThrow ''BTP_OPERATOR_CLIENTSECRET'') (\<lambda>s.
      bind (getEnvOrThrow ''BTP_OPERATOR_URL'') (\<lambda>u.
      bind (getEnvOrThrow ''BTP_OPERATOR_TOKENURL'') (\<lambda>t.
      ret (BTPOperatorCreds i s u t))))))"

definition BTPOperatorCreds_dummy :: js where
  "BTPOperatorCreds_dummy =
     BTPOperatorCreds ''dummy_client_id'' ''dummy_client_secret'' ''dummy_url'' ''dummy_token_url''"

section \<open>Commands\<close>

definition smctl_login_args :: "AdminCreds \<Rightarrow> string list" where
  "smctl_login_args creds =
     [''login'', ''-a'', admin_url creds, ''--param'', ''subdomain=e2etestingscmigration'', ''--auth-flow'',
      ''client-credentials'']"

text \<open>The credentials are passed to the command but not to its error messages.\<close>

definition smctl_login_secrets :: "AdminCreds \<Rightarrow> string list" where
  "smctl_login_secrets creds = [''--client-id'', admin_clientid creds, ''--client-secret'', admin_clientsecret creds]"

definition smctl :: "string list \<Rightarrow> js prog" where
  "smctl args = await (Execa ''smctl'' args False)"

definition smctl_text :: "string list \<Rightarrow> string" where
  "smctl_text args = in_quotes (''smctl '' @ join '' '' args)"

text \<open>
  The commands of \<open>smInstanceBinding\<close> and \<open>provisionPlatform\<close> share one catch block, which names the
  command that was last assigned to \<open>args\<close>.
\<close>

definition smctl_failure :: "string list \<Rightarrow> js \<Rightarrow> 'a prog" where
  "smctl_failure args err =
     (bind (get_path err [K ''stderr'']) (\<lambda>stderr.
      if stderr = Undef then throw (new_Error (''failed to process output of '' @ smctl_text args))
      else throw (new_Error (''failed '' @ smctl_text args @ '': '' @ to_str stderr))))"

definition smctl_step :: "string list \<Rightarrow> string list \<Rightarrow> js prog" where
  "smctl_step args extra = try_catch (smctl (args @ extra)) (smctl_failure args)"

definition smInstanceBinding :: "AdminCreds \<Rightarrow> string \<Rightarrow> string \<Rightarrow> js prog" where
  "smInstanceBinding creds btpOperatorInstance btpOperatorBinding =
     (seq (smctl_step (smctl_login_args creds) (smctl_login_secrets creds)) (
      seq (smctl_step [''provision'', btpOperatorInstance, ''service-manager'', ''service-operator-access'', ''--mode=sync''] []) (
      seq (smctl_step [''bind'', btpOperatorInstance, btpOperatorBinding, ''--mode=sync''] []) (
      let args = [''get-binding'', btpOperatorBinding, ''-o'', ''json''] in
      try_catch
        (bind (smctl args) (\<lambda>out.
          bind (get_path out [K ''stdout'']) (\<lambda>stdout.
          bind (eval (json_parse stdout)) (\<lambda>b.
          bind (get_path b [K ''items'', I 0, K ''credentials'']) (\<lambda>c.
          bind (eval (read_fields c [(''clientId'', [K ''clientid'']), (''clientSecret'', [K ''clientsecret'']),
                                         (''smURL'', [K ''sm_url'']), (''url'', [K ''url''])])) (\<lambda>fields.
          bind (get_path b [K ''items'', I 0, K ''service_instance_id'']) (\<lambda>i.
          ret (Obj (fields @ [(''instanceId'', i)])))))))))
        (smctl_failure args)))))"

definition provisionPlatform :: "AdminCreds \<Rightarrow> string \<Rightarrow> js prog" where
  "provisionPlatform creds svcatPlatform =
     (seq (smctl_step (smctl_login_args creds) (smctl_login_secrets creds)) (
      let args = [''register-platform'', svcatPlatform, ''kubernetes'', ''-o'', ''json''] in
      try_catch
        (bind (smctl args) (\<lambda>out.
          bind (get_path out [K ''stdout'']) (\<lambda>stdout.
          bind (eval (json_parse stdout)) (\<lambda>platform.
          bind (eval (read_fields platform [(''clusterId'', [K ''id'']), (''name'', [K ''name'']),
                                                (''credentials'', [K ''credentials'', K ''basic''])])) (\<lambda>fields.
          ret (Obj fields))))))
        (smctl_failure args)))"

section \<open>Commands that collect their errors\<close>

text \<open>A command whose failure is only recorded, and what is recorded of it.\<close>

definition recorded :: "string list \<Rightarrow> string list \<Rightarrow> string list prog" where
  "recorded args extra =
     try_catch
       (seq (smctl (args @ extra)) (ret []))
       (\<lambda>err. bind (get_path err [K ''stderr'']) (\<lambda>stderr.
          ret [''failed '' @ smctl_text args @ '': '' @ to_str stderr @ nl]))"

text \<open>The same for a command that has to answer with a given line.\<close>

definition recorded_answer :: "string list \<Rightarrow> string \<Rightarrow> string list prog" where
  "recorded_answer args expected =
     try_catch
       (bind (smctl args) (\<lambda>out.
         bind (get_path out [K ''stdout'']) (\<lambda>stdout.
         ret (if stdout \<noteq> Str expected then [''failed '' @ smctl_text args @ '': '' @ to_str stdout] else []))))
       (\<lambda>err. bind (get_path err [K ''stderr'']) (\<lambda>stderr.
          ret [''failed '' @ smctl_text args @ '': '' @ to_str stderr @ nl @ to_str err]))"

definition throw_collected :: "string list \<Rightarrow> unit prog" where
  "throw_collected errors = if_then (errors \<noteq> []) (throw (new_Error (join '', '' errors)))"

definition markForMigration :: "AdminCreds \<Rightarrow> string \<Rightarrow> string \<Rightarrow> unit prog" where
  "markForMigration creds svcatPlatform btpOperatorInstanceId =
     (bind (recorded (smctl_login_args creds) (smctl_login_secrets creds)) (\<lambda>e1.
      let data = stringify [] (Obj [(''sourcePlatformID'', Str svcatPlatform)]) in
      bind (recorded [''curl'', ''-X'', ''PUT'', ''-d'', to_str data,
                      ''/v1/migrate/service_operator/'' @ btpOperatorInstanceId] []) (\<lambda>e2.
      throw_collected (e1 @ e2))))"

definition cleanupInstanceBinding :: "AdminCreds \<Rightarrow> string \<Rightarrow> string \<Rightarrow> string \<Rightarrow> unit prog" where
  "cleanupInstanceBinding creds svcatPlatform btpOperatorInstance btpOperatorBinding =
     (bind (recorded (smctl_login_args creds) (smctl_login_secrets creds)) (\<lambda>e1.
      bind (recorded_answer [''unbind'', btpOperatorInstance, btpOperatorBinding, ''-f'', ''--mode=sync'']
              ''Service Binding successfully deleted.'') (\<lambda>e2.
      bind (recorded_answer [''deprovision'', btpOperatorInstance, ''-f'', ''--mode=sync'']
              ''Service Instance successfully deleted.'') (\<lambda>e3.
      bind (recorded [''delete-platform'', svcatPlatform, ''-f'', ''--cascade''] []) (\<lambda>e4.
      throw_collected (e1 @ e2 @ e3 @ e4))))))"

section \<open>Facts\<close>

text \<open>
  What the documentation of execa says of a failed command: its promise is rejected with an
  \<open>Error\<close> object.
\<close>

definition execa_rejects_errors :: "world \<Rightarrow> bool" where
  "execa_rejects_errors w =
     (\<forall>h args e. fst (services w h (Execa ''smctl'' args False)) = Inl e \<longrightarrow> is_error e)"

text \<open>The answer of the world to one command.\<close>

definition succeeded :: "world \<Rightarrow> call list \<Rightarrow> string list \<Rightarrow> bool" where
  "succeeded w h args = (\<exists>a. fst (services w h (Execa ''smctl'' args False)) = Inr a)"

definition answered :: "world \<Rightarrow> call list \<Rightarrow> string list \<Rightarrow> string \<Rightarrow> bool" where
  "answered w h args line =
     (\<exists>a. fst (services w h (Execa ''smctl'' args False)) = Inr a \<and> path a [K ''stdout''] = Inr (Str line))"

definition advanced :: "world \<Rightarrow> string list \<Rightarrow> world" where
  "advanced w args =
     w\<lparr>calls := calls w @ [Execa ''smctl'' args False],
       now := now w + int (snd (services w (calls w) (Execa ''smctl'' args False)))\<rparr>"

lemma advanced_fields [simp]:
  "calls (advanced w args) = calls w @ [Execa ''smctl'' args False]" "services (advanced w args) = services w"
  by (simp_all add: advanced_def)

lemma smctl_run:
  "smctl args w =
     (case fst (services w (calls w) (Execa ''smctl'' args False)) of Inl e \<Rightarrow> Throw e | Inr v \<Rightarrow> Ret v,
      advanced w args)"
  by (simp add: smctl_def await_run advanced_def)

lemma error_stderr: "is_error e \<Longrightarrow> \<exists>v. path e [K ''stderr''] = Inr v"
  by (cases e) (auto simp: is_error_def path.simps)

lemma recorded_run:
  assumes "execa_rejects_errors w"
  shows "\<exists>errs. recorded args extra w = (Ret errs, advanced w (args @ extra)) \<and>
           (errs = [] \<longleftrightarrow> succeeded w (calls w) (args @ extra))"
proof (cases "fst (services w (calls w) (Execa ''smctl'' (args @ extra) False))")
  case (Inl e)
  then have "is_error e" using assms by (auto simp: execa_rejects_errors_def)
  from error_stderr [OF this] Inl show ?thesis
    by (auto simp: recorded_def try_catch_def seq_run bind_def smctl_run get_path_def eval_run ret_run
        succeeded_def)
next
  case (Inr a)
  then show ?thesis
    by (simp add: recorded_def try_catch_def seq_run bind_def smctl_run ret_run succeeded_def)
qed

lemma recorded_answer_run:
  assumes "execa_rejects_errors w"
  shows "\<exists>errs. recorded_answer args line w = (Ret errs, advanced w args) \<and>
           (errs = [] \<longleftrightarrow> answered w (calls w) args line)"
proof (cases "fst (services w (calls w) (Execa ''smctl'' args False))")
  case (Inl e)
  then have "is_error e" using assms by (auto simp: execa_rejects_errors_def)
  from error_stderr [OF this] Inl show ?thesis
    by (auto simp: recorded_answer_def try_catch_def bind_def smctl_run get_path_def eval_run ret_run
        answered_def)
next
  case (Inr a)
  have "\<exists>v. path e [K ''stderr''] = Inr v" if "path a [K ''stdout''] = Inl e" for e
    using path_error [OF that] by (rule error_stderr)
  with Inr show ?thesis
    by (auto simp: recorded_answer_def try_catch_def bind_def smctl_run get_path_def eval_run ret_run
        answered_def split: sum.splits)
qed

lemma advanced_rejects [simp]: "execa_rejects_errors (advanced w args) = execa_rejects_errors w"
  by (simp add: execa_rejects_errors_def)

lemma answers_after [simp]:
  "succeeded (advanced w args) = succeeded w" "answered (advanced w args) = answered w"
  by (intro ext, simp add: succeeded_def answered_def)+

definition cleanup_commands :: "AdminCreds \<Rightarrow> string \<Rightarrow> string \<Rightarrow> string \<Rightarrow> string list list" where
  "cleanup_commands creds platform inst binding =
     [smctl_login_args creds @ smctl_login_secrets creds,
      [''unbind'', inst, binding, ''-f'', ''--mode=sync''],
      [''deprovision'', inst, ''-f'', ''--mode=sync''],
      [''delete-platform'', platform, ''-f'', ''--cascade'']]"

section \<open>Properties\<close>

text \<open>
  \<open>cleanupInstanceBinding\<close> runs all four commands in order, whatever
  becomes of the earlier ones, and then throws exactly when one of them failed or, for unbinding
  and deprovisioning, did not answer with the expected line.
\<close>

theorem cleanup_runs_every_command:
  assumes "execa_rejects_errors w"
    and "cs = map (\<lambda>args. Execa ''smctl'' args False) (cleanup_commands creds platform inst binding)"
  shows "calls (snd (cleanupInstanceBinding creds platform inst binding w)) = calls w @ cs \<and>
         (fst (cleanupInstanceBinding creds platform inst binding w) = Ret () \<longleftrightarrow>
            succeeded w (calls w) (smctl_login_args creds @ smctl_login_secrets creds) \<and>
            answered w (calls w @ take 1 cs) [''unbind'', inst, binding, ''-f'', ''--mode=sync'']
              ''Service Binding successfully deleted.'' \<and>
            answered w (calls w @ take 2 cs) [''deprovision'', inst, ''-f'', ''--mode=sync'']
              ''Service Instance successfully deleted.'' \<and>
            succeeded w (calls w @ take 3 cs) [''delete-platform'', platform, ''-f'', ''--cascade''])"
proof -
  let ?c1 = "smctl_login_args creds @ smctl_login_secrets creds"
  let ?c2 = "[''unbind'', inst, binding, ''-f'', ''--mode=sync'']"
  let ?c3 = "[''deprovision'', inst, ''-f'', ''--mode=sync'']"
  let ?c4 = "[''delete-platform'', platform, ''-f'', ''--cascade'']"
  let ?w1 = "advanced w ?c1"
  let ?w2 = "advanced ?w1 ?c2"
  let ?w3 = "advanced ?w2 ?c3"
  obtain e1 where 1: "recorded (smctl_login_args creds) (smctl_login_secrets creds) w = (Ret e1, ?w1)"
    "e1 = [] \<longleftrightarrow> succeeded w (calls w) ?c1" using recorded_run [OF assms(1)] by blast
  obtain e2 where 2: "recorded_answer ?c2 ''Service Binding successfully deleted.'' ?w1 = (Ret e2, ?w2)"
    "e2 = [] \<longleftrightarrow> answered w (calls ?w1) ?c2 ''Service Binding successfully deleted.''"
    using recorded_answer_run [of ?w1] assms(1) by fastforce
  obtain e3 where 3: "recorded_answer ?c3 ''Service Instance successfully deleted.'' ?w2 = (Ret e3, ?w3)"
    "e3 = [] \<longleftrightarrow> answered w (calls ?w2) ?c3 ''Service Instance successfully deleted.''"
    using recorded_answer_run [of ?w2] assms(1) by fastforce
  obtain e4 where 4: "recorded ?c4 [] ?w3 = (Ret e4, advanced ?w3 ?c4)"
    "e4 = [] \<longleftrightarrow> succeeded w (calls ?w3) ?c4" using recorded_run [of ?w3 ?c4 "[]"] assms(1) by auto
  have "cleanupInstanceBinding creds platform inst binding w = throw_collected (e1 @ e2 @ e3 @ e4) (advanced ?w3 ?c4)"
    by (simp add: cleanupInstanceBinding_def bind_def 1(1) 2(1) 3(1) 4(1))
  then show ?thesis
    using 1(2) 2(2) 3(2) 4(2) assms(2)
    by (auto simp: throw_collected_def if_then_def throw_run ret_run cleanup_commands_def numeral_3_eq_3 numeral_2_eq_2)
qed

theorem cleanup_runs_every_command_witness:
  "fst (cleanupInstanceBinding \<lparr>admin_clientid = ''i'', admin_clientsecret = ''s'', admin_url = ''u''\<rparr> ''p'' ''x'' ''b''
     quiet_world) \<noteq> Ret () \<and>
   length (calls (snd (cleanupInstanceBinding
     \<lparr>admin_clientid = ''i'', admin_clientsecret = ''s'', admin_url = ''u''\<rparr> ''p'' ''x'' ''b'' quiet_world))) = 4"
proof -
  have "execa_rejects_errors quiet_world" by (simp add: execa_rejects_errors_def quiet_world_def)
  from cleanup_runs_every_command [OF this refl, of "\<lparr>admin_clientid = ''i'', admin_clientsecret = ''s'', admin_url = ''u''\<rparr>"
      "''p''" "''x''" "''b''"]
  show ?thesis by (simp add: quiet_world_def answered_def path.simps cleanup_commands_def)
qed

end
