(* ===== verification/KEB_Helpers.thy ===== *)
theory KEB_Helpers
  imports KEB_Client KCP_Client Gardener_Client Smctl
begin

text \<open>
  \<^verbatim>\<open>src/testing/e2e/skr/kyma-environment-broker/helpers.js\<close>: provisioning, updating and deprovisioning an
  instance from the request to the end of the operation.  The three clients are passed in, as in
  the source.  Functions that have the name of a client's method carry the prefix \<open>helpers_\<close>.
  Names of shoots are strings.
\<close>

section \<open>Waiting for an operation\<close>

definition operation_timeout :: "KCPWrapper \<Rightarrow> string \<Rightarrow> js \<Rightarrow> 'a prog" where
  "operation_timeout kcp instanceID err =
     (bind (getRuntimeStatusOperations kcp instanceID) (\<lambda>runtimeStatus.
      bind (getRuntimeEvents kcp instanceID) (\<lambda>events.
      let msg = to_str err @ nl @ ''Error thrown by ensureOperationSucceeded: Runtime status: '' @ to_str runtimeStatus in
      throw (new_Error (msg @ nl @ ''Events:'' @ nl @ to_str events)))))"

definition ensureOperationSucceeded :: "KEBClient \<Rightarrow> KCPWrapper \<Rightarrow> string \<Rightarrow> js \<Rightarrow> int \<Rightarrow> js prog" where
  "ensureOperationSucceeded keb kcp instanceID operationID timeout =
     (bind (try_catch (wait (getOperation keb instanceID operationID) finished timeout (1000 * 30))
               (operation_timeout kcp instanceID)) (\<lambda>res.
      bind (get_path res [K ''state'']) (\<lambda>state.
      seq (if_then (state \<noteq> Str ''succeeded'')
        (bind (getRuntimeStatusOperations kcp instanceID) (\<lambda>runtimeStatus.
           throw (new_Error (''Error thrown by ensureOperationSucceeded: operation didn'' @ [CHR 0x27] @
             ''t succeed in time:'' @ nl @ ''     '' @ to_str (stringify tab res) @ nl @ ''Runtime status: '' @
             to_str runtimeStatus))))) (
      seq (console_log [Str (''Operation '' @ to_str operationID @ '' finished with state '' @ to_str state)]) (
      ret res)))))"

section \<open>Shoots\<close>

definition helpers_getShoot :: "KCPWrapper \<Rightarrow> string \<Rightarrow> js prog" where
  "helpers_getShoot kcp shootName =
     (seq (debug [Str (''Fetching shoot: '' @ shootName)]) (
      bind (getKubeconfig kcp shootName) (\<lambda>kubeconfigPath.
      bind (getRuntimeGardenerConfig kcp shootName) (\<lambda>runtimeGardenerConfig.
      bind (eval (json_parse runtimeGardenerConfig)) (\<lambda>cfg.
      seq (expect (NestedNotEmpty cfg ''data[0].status.gardenerConfig.oidcConfig'')) (
      seq (expect (NestedNotEmpty cfg ''data[0].status.gardenerConfig.machineType'')) (
      bind (get_path cfg [K ''data'', I 0, K ''status'', K ''gardenerConfig'', K ''oidcConfig'']) (\<lambda>oidc.
      bind (get_path cfg [K ''data'', I 0, K ''status'', K ''gardenerConfig'', K ''machineType'']) (\<lambda>machine.
      ret (Obj [(''name'', Str shootName), (''kubeconfig'', kubeconfigPath), (''oidcConfig'', oidc),
                (''machineType'', machine)]))))))))))"

text \<open>The choice between the Gardener API and the command line tool.\<close>

definition fetch_shoot :: "KCPWrapper \<Rightarrow> GardenerClient \<Rightarrow> string \<Rightarrow> js prog" where
  "fetch_shoot kcp gardener shootName =
     (bind (process_env ''GARDENER_KUBECONFIG'') (\<lambda>viaGardener.
      if truthy viaGardener then getShoot gardener shootName else helpers_getShoot kcp shootName))"

section \<open>Provisioning, updating, deprovisioning\<close>

text \<open>What follows a successful provisioning operation: the shoot of the new runtime.\<close>

definition provisioned_shoot :: "KCPWrapper \<Rightarrow> GardenerClient \<Rightarrow> string \<Rightarrow> js prog" where
  "provisioned_shoot kcp gardener instanceID =
     (seq (debug [Str ''Fetching runtime operation status...'']) (
      bind (getRuntimeStatusOperations kcp instanceID) (\<lambda>runtimeStatus.
      bind (eval (json_parse runtimeStatus)) (\<lambda>objRuntimeStatus.
      seq (expect (NestedNotEmpty objRuntimeStatus ''data[0].shootName'')) (
      bind (process_env ''GARDENER_KUBECONFIG'') (\<lambda>viaGardener.
      if truthy viaGardener
      then
         (seq (debug [Str ''Fetching shoot info from gardener...'']) (
          bind (get_path objRuntimeStatus [K ''data'', I 0, K ''shootName'']) (\<lambda>shootName.
          bind (getShoot gardener (to_str shootName)) (\<lambda>shoot.
          bind (get_path shoot [K ''compassID'']) (\<lambda>compassID.
          seq (debug [Str (''Compass ID '' @ to_str compassID)]) (
          ret shoot))))))
      else
         (seq (debug [Str ''Fetching shoot info using kcp cli...'']) (
          bind (get_path objRuntimeStatus [K ''data'', I 0, K ''shootName'']) (\<lambda>shootName.
          helpers_getShoot kcp (to_str shootName))))))))))"

definition helpers_provisionSKR ::
    "KEBClient \<Rightarrow> KCPWrapper \<Rightarrow> GardenerClient \<Rightarrow> string \<Rightarrow> js \<Rightarrow> js \<Rightarrow> js \<Rightarrow> js \<Rightarrow> int \<Rightarrow> js prog" where
  "helpers_provisionSKR keb kcp gardener instanceID name platformCreds btpOperatorCreds customParams timeout =
     (bind (provisionSKR keb name instanceID platformCreds btpOperatorCreds customParams) (\<lambda>resp.
      seq (expect (HaveProperty resp ''operation'')) (
      bind (get_path resp [K ''operation'']) (\<lambda>operationID.
      seq (debug [Str (''Operation ID '' @ to_str operationID)]) (
      seq (ensureOperationSucceeded keb kcp instanceID operationID timeout) (
      bind (provisioned_shoot kcp gardener instanceID) (\<lambda>shoot.
      ret (Obj [(''operationID'', operationID), (''shoot'', shoot)]))))))))"

definition helpers_deprovisionSKR :: "KEBClient \<Rightarrow> KCPWrapper \<Rightarrow> string \<Rightarrow> int \<Rightarrow> bool \<Rightarrow> js prog" where
  "helpers_deprovisionSKR keb kcp instanceID timeout ensureSuccess =
     (bind (deprovisionSKR keb instanceID) (\<lambda>resp.
      seq (expect (HaveProperty resp ''operation'')) (
      bind (get_path resp [K ''operation'']) (\<lambda>operationID.
      seq (console_log [Str (''Deprovision SKR - operation ID '' @ to_str operationID)]) (
      seq (if_then ensureSuccess (seq (ensureOperationSucceeded keb kcp instanceID operationID timeout) (ret ()))) (
      ret operationID))))))"

definition helpers_updateSKR ::
    "KEBClient \<Rightarrow> KCPWrapper \<Rightarrow> GardenerClient \<Rightarrow> string \<Rightarrow> string \<Rightarrow> js \<Rightarrow> int \<Rightarrow> js \<Rightarrow> bool \<Rightarrow> js prog" where
  "helpers_updateSKR keb kcp gardener instanceID shootName customParams timeout btpOperatorCreds isMigration =
     (bind (updateSKR keb instanceID customParams btpOperatorCreds (Bool isMigration)) (\<lambda>resp.
      seq (expect (HaveProperty resp ''operation'')) (
      bind (get_path resp [K ''operation'']) (\<lambda>operationID.
      seq (debug [Str (''Operation ID '' @ to_str operationID)]) (
      seq (ensureOperationSucceeded keb kcp instanceID operationID timeout) (
      bind (fetch_shoot kcp gardener shootName) (\<lambda>shoot.
      ret (Obj [(''operationID'', operationID), (''shoot'', shoot)]))))))))"

definition helpers_getCatalog :: "KEBClient \<Rightarrow> js prog" where
  "helpers_getCatalog keb = getCatalog keb"

text \<open>
  \<open>getShootName\<close> calls \<open>keb.getRuntime\<close>, a method that the class \<open>KEBClient\<close> does not have, so the
  rest of its body is never reached.
\<close>

definition getShootName :: "KEBClient \<Rightarrow> string \<Rightarrow> js prog" where
  "getShootName keb instanceID = throw (TypeError ''keb.getRuntime is not a function'')"

section \<open>OIDC configuration and kubeconfig\<close>

text \<open>One comparison of \<open>ensureValidShootOIDCConfig\<close>.\<close>

definition expect_oidc :: "js \<Rightarrow> js \<Rightarrow> string \<Rightarrow> unit prog" where
  "expect_oidc shoot target field =
     bind (get_path target [K field]) (\<lambda>v. expect (NestedProperty shoot (''oidcConfig.'' @ field) v))"

definition ensureValidShootOIDCConfig :: "js \<Rightarrow> js \<Rightarrow> unit prog" where
  "ensureValidShootOIDCConfig shoot targetOIDCConfig =
     (seq (for_each [''clientID'', ''issuerURL'', ''groupsClaim'', ''usernameClaim'', ''usernamePrefix'']
        (expect_oidc shoot targetOIDCConfig)) (
      bind (get_path shoot [K ''oidcConfig'', K ''signingAlgs'']) (\<lambda>actual.
      bind (get_path targetOIDCConfig [K ''signingAlgs'']) (\<lambda>expected.
      expect (DeepEqual actual expected)))))"

definition ensureValidOIDCConfigInCustomerFacingKubeconfig :: "KEBClient \<Rightarrow> string \<Rightarrow> js \<Rightarrow> unit prog" where
  "ensureValidOIDCConfigInCustomerFacingKubeconfig keb instanceID oidcConfig =
     (bind (try_catch (downloadKubeconfig keb instanceID) (\<lambda>err. seq (console_log [err]) (ret Undef))) (\<lambda>content.
      let word = (\<lambda>v. [CHR 0x5C] @ ''b'' @ to_str v @ [CHR 0x5C] @ ''b'') in
      bind (get_path oidcConfig [K ''issuerURL'']) (\<lambda>issuer.
      bind (get_path oidcConfig [K ''clientID'']) (\<lambda>client.
      seq (expect (MatchesRegExp content (word issuer))) (
      expect (MatchesRegExp content (word client)))))))"

definition saveKubeconfig :: "js \<Rightarrow> unit prog" where
  "saveKubeconfig kc =
     (bind (await HomeDir) (\<lambda>home.
      let directory = to_str home @ ''/.kube'' in
      bind (await (ExistsSync directory)) (\<lambda>there.
      seq (if_then (\<not> truthy there) (seq (await (MkDir directory)) (ret ()))) (
      seq (await (WriteFile (directory @ ''/config'') (to_str kc))) (
      ret ())))))"

section \<open>Facts\<close>

lemma framed_ensureOperationSucceeded [frame_rules, intro!]: "framed (ensureOperationSucceeded keb kcp i opid t)"
  by (auto simp: ensureOperationSucceeded_def operation_timeout_def Let_def intro!: frame_rules)

lemma settles_ensureOperationSucceeded [settle_rules, intro!]: "settles (ensureOperationSucceeded keb kcp i opid t)"
  by (auto simp: ensureOperationSucceeded_def operation_timeout_def Let_def intro!: settle_rules)

lemma operation_timeout_never_returns: "returns_only (operation_timeout kcp i e) P"
  unfolding operation_timeout_def Let_def
  by (intro returns_only_bind [OF returns_only_basic(6)] returns_only_basic)

lemma returns_only_ensureOperationSucceeded:
  "returns_only (ensureOperationSucceeded keb kcp i opid t)
     (\<lambda>res. path res [K ''state''] = Inr (Str ''succeeded''))"
proof (rule returns_onlyI)
  fix w w' :: world and x
  assume "ensureOperationSucceeded keb kcp i opid t w = (Ret x, w')"
  then show "path x [K ''state''] = Inr (Str ''succeeded'')"
    by (auto simp: ensureOperationSucceeded_def seq_run bind_def get_path_def eval_run prim_run ret_run throw_run
        split: prod.splits outcome.splits sum.splits if_splits)
qed

lemma framed_helpers_getShoot [frame_rules, intro!]: "framed (helpers_getShoot kcp s)" "framed (fetch_shoot kcp g s)"
  "framed (provisioned_shoot kcp g s)"
  by (auto simp: helpers_getShoot_def fetch_shoot_def provisioned_shoot_def intro!: frame_rules)

lemma settles_helpers_getShoot [settle_rules, intro!]: "settles (helpers_getShoot kcp s)" "settles (fetch_shoot kcp g s)"
  "settles (provisioned_shoot kcp g s)"
  by (auto simp: helpers_getShoot_def fetch_shoot_def provisioned_shoot_def intro!: settle_rules)

lemma framed_helpers [frame_rules, intro!]:
  "framed (helpers_provisionSKR keb kcp g i n pc bc cp t)" "framed (helpers_deprovisionSKR keb kcp i t b)"
  "framed (helpers_updateSKR keb kcp g i s cp t bc m)"
  by (auto simp: helpers_provisionSKR_def helpers_deprovisionSKR_def helpers_updateSKR_def intro!: frame_rules)

lemma settles_helpers [settle_rules, intro!]:
  "settles (helpers_provisionSKR keb kcp g i n pc bc cp t)" "settles (helpers_deprovisionSKR keb kcp i t b)"
  "settles (helpers_updateSKR keb kcp g i s cp t bc m)"
  by (auto simp: helpers_provisionSKR_def helpers_deprovisionSKR_def helpers_updateSKR_def intro!: settle_rules)

text \<open>A poll that succeeds before the second tick settles the wait with its result.\<close>

lemma wait_first_poll:
  assumes "fn (w\<lparr>now := now w + at_least_1 i\<rparr>) = (Ret res, w1)" and "check res = Inr True"
    and "now w1 \<le> now w + 2 * at_least_1 i" and "now w1 < now w + at_least_1 t" and "at_least_1 i < at_least_1 t"
  shows "wait fn check t i w = (Ret res, w1)"
proof -
  let ?i = "at_least_1 i" and ?t = "at_least_1 t"
  have "0 < ?i" by (simp add: at_least_1_def)
  then have "0 < (?t - 1) div ?i" using assms(5) by (simp add: pos_imp_zdiv_pos_iff)
  then have "0 < tick_count t i" by (simp add: tick_count_def)
  then obtain n where n: "tick_count t i = Suc n" by (auto simp: gr0_conv_Suc)
  have "wait_polls n (now w + 2 * ?i) ?i (now w + ?t) (Some (now w1, res)) fn check w1 = (Some (now w1, res), w1)"
    using assms(3) by (cases n) simp_all
  then show ?thesis
    using assms(1,2,4) by (simp add: wait_def n better_def Let_def algebra_simps)
qed

section \<open>Properties\<close>


text \<open>
  (C33) When \<open>provisionSKR\<close> returns, the broker accepted the request
  and named an operation, that operation was polled until it had succeeded, and its id is the one
  that is returned.
\<close>

theorem provisioned_means_succeeded:
  assumes "chai_documented (chai w)"
    and "helpers_provisionSKR keb kcp gardener i name pc bc cp t w = (Ret out, w')"
  shows "\<exists>resp opid w1 w2 res w3.
     provisionSKR keb name i pc bc cp w = (Ret resp, w1) \<and> has_property resp ''operation'' \<and>
     path resp [K ''operation''] = Inr opid \<and> same_outside w1 w2 \<and>
     ensureOperationSucceeded keb kcp i opid t w2 = (Ret res, w3) \<and>
     path res [K ''state''] = Inr (Str ''succeeded'') \<and> path out [K ''operationID''] = Inr opid \<and>
     same_outside w3 w'"
proof -
  obtain resp w1 where p: "provisionSKR keb name i pc bc cp w = (Ret resp, w1)"
    using assms(2) by (auto simp: helpers_provisionSKR_def bind_def split: prod.splits outcome.splits)
  have c: "chai w1 = chai w" using framedD [OF framed_instance_operations(3) p] by (simp add: same_outside_def)
  obtain opid where o: "chai w (HaveProperty resp ''operation'') = None" "path resp [K ''operation''] = Inr opid"
    using assms(2)
    by (auto simp: helpers_provisionSKR_def bind_def p seq_run prim_run c eval_run split: option.splits sum.splits)
  let ?w2 = "debugged [Str (''Operation ID '' @ to_str opid)] w1"
  obtain res w3 where e: "ensureOperationSucceeded keb kcp i opid t ?w2 = (Ret res, w3)"
    using assms(2)
    by (auto simp: helpers_provisionSKR_def bind_def p seq_run prim_run c o eval_run debug_run
        split: prod.splits outcome.splits)
  have "path res [K ''state''] = Inr (Str ''succeeded'')"
    using returns_onlyD [OF returns_only_ensureOperationSucceeded e] .
  moreover have "has_property resp ''operation''" using chai_has_property [OF assms(1)] o by simp
  moreover have "same_outside w1 ?w2" by (simp add: same_outside_def)
  moreover obtain sh where sh: "provisioned_shoot kcp gardener i w3 = (Ret sh, w')"
      "out = Obj [(''operationID'', opid), (''shoot'', sh)]"
    using assms(2)
    by (auto simp: helpers_provisionSKR_def bind_def p seq_run prim_run c o eval_run debug_run e [simplified] ret_run
        split: prod.splits outcome.splits)
  moreover have "path out [K ''operationID''] = Inr opid" by (simp add: sh(2) path.simps lookup_def)
  moreover have "same_outside w3 w'" using framed_helpers_getShoot(3) sh(1) by (rule framedD)
  ultimately show ?thesis using p o(2) e by blast
qed

text \<open>
  A world in which everything goes well: the broker accepts each request and reports success,
  and the tool prints one runtime with its shoot.
\<close>

definition some_report :: js where
  "some_report = Obj [(''data'', Arr [Obj [(''shootName'', Str ''s''),
     (''status'', Obj [(''gardenerConfig'', Obj [(''oidcConfig'', Obj [(''clientID'', Str ''c'')]), (''machineType'', Str ''m'')])])]])]"

definition happy_services :: "call list \<Rightarrow> call \<Rightarrow> (js + js) \<times> nat" where
  "happy_services h c = (Inr (case c of
     Axios _ \<Rightarrow> Obj [(''data'', Obj [(''operation'', Str ''o''), (''state'', Str ''succeeded'')])]
   | _ \<Rightarrow> Obj [(''stdout'', stringify tab some_report)]), 0)"

definition happy_token :: js where
  "happy_token = Obj [(''access_token'', Str ''t''), (''expires_at'', Num 1000000)]"

definition happy :: "int \<Rightarrow> world \<Rightarrow> bool" where
  "happy t w = (services w = happy_services \<and> chai w = plain_chai \<and> env w = (\<lambda>_. None) \<and>
     cells w = (\<lambda>_. happy_token) \<and> now w = t)"

lemma some_report_json: "json_parse (stringify tab some_report) = Inr some_report"
  by (rule json.parse_print) (simp add: some_report_def)

lemma happy_exec: "happy t w \<Longrightarrow> \<exists>w'. exec kcp args y w = (Ret (stringify tab some_report), w') \<and> happy t w'"
  by (simp add: happy_def exec_def try_catch_def bind_def await_run happy_services_def get_path_def eval_run
      path.simps lookup_def)

lemma happy_login: "happy t w \<Longrightarrow> \<exists>w'. login kcp w = (Ret (stringify tab some_report), w') \<and> happy t w'"
  using happy_exec [of t w] by (simp add: login_def bind_def prim_run)

lemma happy_runtimes: "happy t w \<Longrightarrow> \<exists>w'. runtimes kcp q w = (Ret some_report, w') \<and> happy t w'"
  using happy_exec [of t w kcp "runtimes_args q" False]
  by (auto simp: runtimes_def bind_def eval_run some_report_json)

lemma happy_reports:
  assumes "happy t w"
  shows "\<exists>w'. getRuntimeStatusOperations kcp i w = (Ret (stringify tab some_report), w') \<and> happy t w'"
    and "\<exists>w'. getRuntimeGardenerConfig kcp s w = (Ret (stringify tab some_report), w') \<and> happy t w'"
    and "\<exists>v w'. getKubeconfig kcp s w = (Ret v, w') \<and> happy t w'"
proof -
  obtain w1 where w1: "login kcp w = (Ret (stringify tab some_report), w1)" "happy t w1"
    using happy_login [OF assms] by blast
  have run: "\<exists>w'. bind (runtimes kcp q) (\<lambda>v. ret (stringify tab v)) w1 = (Ret (stringify tab some_report), w') \<and>
      happy t w'" for q
    using happy_runtimes [OF w1(2), of kcp q] by (auto simp: bind_def ret_run)
  show "\<exists>w'. getRuntimeStatusOperations kcp i w = (Ret (stringify tab some_report), w') \<and> happy t w'"
    "\<exists>w'. getRuntimeGardenerConfig kcp s w = (Ret (stringify tab some_report), w') \<and> happy t w'"
    unfolding getRuntimeStatusOperations_def getRuntimeGardenerConfig_def seq_run bind_Ret [where m = "login kcp", OF w1(1)] by (rule run)+
  have "\<exists>s. stringify tab some_report = Str s" by (simp add: stringify_def some_report_def)
  then show "\<exists>v w'. getKubeconfig kcp s w = (Ret v, w') \<and> happy t w'"
    using happy_exec [OF w1(2), of kcp "[''kubeconfig'', ''--shoot'', s]" False] w1(1)
    by (auto simp: getKubeconfig_def kubeconfig_def seq_run bind_def ret_run eval_run as_string_def)
qed

lemma happy_token_live: "happy t w \<Longrightarrow> t \<le> 1000000 \<Longrightarrow> has_live_token some_client (Str ''t'') w"
  by (simp add: happy_def has_live_token_def live_token_def happy_token_def path.simps lookup_def)

lemma happy_callKEB:
  assumes "happy t w" and "t \<le> 1000000"
  shows "\<exists>w'. callKEB some_client p e v w =
           (Ret (Obj [(''operation'', Str ''o''), (''state'', Str ''succeeded'')]), w') \<and> happy t w'"
  using assms(1)
  by (simp add: callKEB_live [OF happy_token_live [OF assms]] happy_def try_catch_def bind_def await_run
      happy_services_def get_path_def eval_run ret_run path.simps lookup_def)

lemma happy_debugged [simp]: "happy t (debugged args w) = happy t w"
  by (simp add: happy_def)

lemma happy_getShoot: "happy t w \<Longrightarrow> \<exists>v w'. helpers_getShoot kcp s w = (Ret v, w')"
proof -
  assume "happy t w"
  then obtain v w1 where 1: "getKubeconfig kcp s (debugged [Str (''Fetching shoot: '' @ s)] w) = (Ret v, w1)" "happy t w1"
    using happy_reports(3) by (metis happy_debugged)
  then obtain w2 where 2: "getRuntimeGardenerConfig kcp s w1 = (Ret (stringify tab some_report), w2)" "happy t w2"
    using happy_reports(2) by blast
  then have "chai w2 = plain_chai" by (simp add: happy_def)
  then show ?thesis
    unfolding helpers_getShoot_def seq_run bind_Ret [where m = "debug args" for args, OF debug_run]
      bind_Ret [where m = "getKubeconfig kcp s", OF 1(1)] bind_Ret [where m = "getRuntimeGardenerConfig kcp s", OF 2(1)]
    by (simp add: bind_def eval_run some_report_json [unfolded some_report_def] prim_run plain_chai_def some_report_def path.simps lookup_def
        number_keys_def ret_run)
qed

lemma happy_provisioned_shoot: "happy t w \<Longrightarrow> \<exists>v w'. provisioned_shoot kcp g i w = (Ret v, w')"
proof -
  assume "happy t w"
  then obtain w1 where 1: "getRuntimeStatusOperations kcp i (debugged [Str ''Fetching runtime operation status...''] w) =
      (Ret (stringify tab some_report), w1)" "happy t w1"
    using happy_reports(1) by (metis happy_debugged)
  then have c: "chai w1 = plain_chai" "env w1 = (\<lambda>_. None)" by (simp_all add: happy_def)
  have "happy t (debugged [Str ''Fetching shoot info using kcp cli...''] w1)" using 1 by simp
  from happy_getShoot [OF this] c show ?thesis
    unfolding provisioned_shoot_def seq_run bind_Ret [where m = "debug args" for args, OF debug_run]
      bind_Ret [where m = "getRuntimeStatusOperations kcp i", OF 1(1)]
    by (simp add: bind_def eval_run some_report_json [unfolded some_report_def] prim_run plain_chai_def some_report_def path.simps lookup_def
        number_keys_def ret_run seq_run debug_run)
qed

lemma happy_getOperation:
  "happy t w \<Longrightarrow> t \<le> 1000000 \<Longrightarrow>
   \<exists>w'. getOperation some_client i v w = (Ret (Obj [(''operation'', Str ''o''), (''state'', Str ''succeeded'')]), w') \<and> happy t w'"
proof -
  assume "happy t w" "t \<le> 1000000"
  then obtain w' where "callKEB some_client (Obj []) (''service_instances/'' @ i @ ''/last_operation?operation='' @ to_str v)
      ''get'' w = (Ret (Obj [(''operation'', Str ''o''), (''state'', Str ''succeeded'')]), w')" "happy t w'"
    using happy_callKEB by blast
  then show ?thesis unfolding getOperation_def by (intro exI conjI) (rule try_Ret)
qed

lemma happy_provisionSKR:
  assumes "happy 0 w"
  shows "\<exists>out w'. helpers_provisionSKR some_client kcp g i n Null Null (Obj []) 100000 w = (Ret out, w')"
proof -
  let ?resp = "Obj [(''operation'', Str ''o''), (''state'', Str ''succeeded'')]"
  obtain w1 where 1: "provisionSKR some_client n i Null Null (Obj []) w = (Ret ?resp, w1)" "happy 0 w1"
  proof -
    obtain payload where "buildPayload some_client n i Null Null (Obj []) = Inr payload"
      by (simp add: buildPayload_def credentials_entry_def)
    moreover obtain w' where "callKEB some_client payload (''service_instances/'' @ i) ''put'' w = (Ret ?resp, w')"
      "happy 0 w'" using happy_callKEB [OF assms] by fastforce
    ultimately show thesis using that by (simp add: provisionSKR_def bind_def eval_run try_catch_def)
  qed
  let ?w2 = "debugged [Str (''Operation ID '' @ to_str (Str ''o''))] w1"
  have "happy 30000 (?w2\<lparr>now := 30000\<rparr>)" using 1(2) by (simp add: happy_def)
  then obtain w3 where 3: "getOperation some_client i (Str ''o'') (?w2\<lparr>now := 30000\<rparr>) = (Ret ?resp, w3)" "happy 30000 w3"
    using happy_getOperation by fastforce
  have "wait (getOperation some_client i (Str ''o'')) finished 100000 (1000 * 30) ?w2 = (Ret ?resp, w3)"
    by (rule wait_first_poll)
       (use 1(2) 3 in \<open>auto simp: at_least_1_def finished_state happy_def path.simps lookup_def\<close>)
  then obtain w4 where 4: "ensureOperationSucceeded some_client kcp i (Str ''o'') 100000 ?w2 = (Ret ?resp, w4)" "happy 30000 w4"
    using 3(2)
    by (simp add: ensureOperationSucceeded_def bind_def try_catch_def seq_run get_path_def eval_run prim_run
        path.simps lookup_def ret_run happy_def)
  obtain sh w5 where 5: "provisioned_shoot kcp g i w4 = (Ret sh, w5)" using happy_provisioned_shoot [OF 4(2)] by blast
  have "chai w1 = plain_chai" using 1(2) by (simp add: happy_def)
  then show ?thesis
    using 1(1) 4(1) 5
    by (simp add: helpers_provisionSKR_def bind_def seq_run prim_run plain_chai_def eval_run debug_run path.simps
        lookup_def ret_run)
qed

theorem provisioned_means_succeeded_witness:
  "\<exists>out w'. helpers_provisionSKR some_client some_kcp \<lparr>connected = False, shootTemplate = Undef\<rparr> ''i'' (Str ''n'')
      Null Null (Obj []) 100000 (quiet_world\<lparr>services := happy_services, cells := (\<lambda>_. happy_token)\<rparr>) = (Ret out, w') \<and>
    (\<exists>opid. path out [K ''operationID''] = Inr opid)"
proof -
  let ?w = "quiet_world\<lparr>services := happy_services, cells := (\<lambda>_. happy_token)\<rparr>"
  have "happy 0 ?w" by (simp add: happy_def quiet_world_def)
  then obtain out w' where run: "helpers_provisionSKR some_client some_kcp \<lparr>connected = False, shootTemplate = Undef\<rparr> ''i''
      (Str ''n'') Null Null (Obj []) 100000 ?w = (Ret out, w')"
    using happy_provisionSKR by blast
  have "chai_documented (chai ?w)" by (simp add: quiet_world_def plain_chai_documented)
  from provisioned_means_succeeded [OF this run] run show ?thesis by blast
qed


text \<open>
  The client hands back the failure of a deprovisioning request as
  an \<open>Error\<close> object; \<open>deprovisionSKR\<close> of the helpers does not take it for an answer but throws, and it
  does not start to poll.
\<close>

theorem failed_deprovisioning_is_noticed:
  assumes "chai_documented (chai w)"
    and "callKEB keb Null (''service_instances/'' @ i @ ''?service_id='' @ KYMA_SERVICE_ID @ ''&plan_id='' @ planID keb)
           ''delete'' w = (Throw e, w1)"
  shows "\<exists>x. helpers_deprovisionSKR keb kcp i t b w = (Throw x, w1)"
proof -
  define u where "u = new_Error (''error while deprovisioning SKR: '' @ to_str e)"
  have "is_error e" using callKEB_errors assms(2) by (rule throws_errorsD)
  then have d: "deprovisionSKR keb i w = (Ret u, w1)"
    unfolding u_def using assms(2) by (simp add: deprovisionSKR_def try_catch_def bind_def eval_run toString_error ret_run)
  have "chai w1 = chai w" using framedD [OF framed_callKEB assms(2)] by (simp add: same_outside_def)
  moreover have "\<not> has_property u ''operation''" by (simp add: u_def new_Error_def)
  ultimately obtain x where "chai w1 (HaveProperty u ''operation'') = Some x"
    using chai_has_property [OF assms(1)] by (cases "chai w1 (HaveProperty u ''operation'')") simp_all
  then show ?thesis
    by (simp add: helpers_deprovisionSKR_def bind_def d seq_run prim_run)
qed

theorem failed_deprovisioning_is_noticed_witness:
  "\<exists>x w1. helpers_deprovisionSKR some_client some_kcp ''i'' 1000 True (live_world (\<lambda>_. Inl (new_Error ''x''))) = (Throw x, w1)"
proof -
  let ?w = "live_world (\<lambda>_. Inl (new_Error ''x''))"
  have "\<exists>e w1. callKEB some_client Null ep ''delete'' ?w = (Throw e, w1)" for ep
    unfolding callKEB_live [OF live_world_token]
    by (simp add: try_catch_def bind_def await_run live_world_def quiet_world_def
        http_error_def get_path_def eval_run path.simps lookup_def new_Error_def throw_run toString_def)
  then obtain e w1 where run: "callKEB some_client Null (''service_instances/'' @ ''i'' @ ''?service_id='' @ KYMA_SERVICE_ID @
      ''&plan_id='' @ planID some_client) ''delete'' ?w = (Throw e, w1)" by blast
  have "chai_documented (chai ?w)" by (simp add: live_world_def quiet_world_def plain_chai_documented)
  from failed_deprovisioning_is_noticed [OF this run] show ?thesis by blast
qed

end
