(* ===== verification/SKR_Test.thy ===== *)
theory SKR_Test
  imports KEB_Helpers
begin

text \<open>
  The test scenarios of \<^verbatim>\<open>src/testing/e2e/skr\<close>: \<open>skr-test\<close> with its options, provisioning and deprovisioning
  steps and the machine type, OIDC and BTP manager secret tests, \<open>trial-suspension-test\<close>,
  \<open>skr-aws-upgrade-integration\<close>, \<open>skr-networking-test\<close> and \<open>keb-endpoints-test\<close>.  The body of each test is a
  program; the order in which the test runner calls the bodies is not modelled.  The clients that
  the modules create when they are loaded are passed in.
\<close>

section \<open>skr-test/helpers.js: options\<close>

record skr_options =
  opt_instanceID :: string
  opt_testNS :: string
  opt_oidc0 :: js
  opt_oidc1 :: js
  opt_kebUserId :: string
  opt_administrators1 :: "string list"
  opt_customParams :: js
  opt_suffix :: "string option"
  opt_runtimeName :: string
  opt_appName :: string
  opt_scenarioName :: string

definition withInstanceID :: "string \<Rightarrow> skr_options \<Rightarrow> skr_options" where
  "withInstanceID v options = options\<lparr>opt_instanceID := v\<rparr>"

definition withRuntimeName :: "string \<Rightarrow> skr_options \<Rightarrow> skr_options" where
  "withRuntimeName v options = options\<lparr>opt_runtimeName := v\<rparr>"

definition withAppName :: "string \<Rightarrow> skr_options \<Rightarrow> skr_options" where
  "withAppName v options = options\<lparr>opt_appName := v\<rparr>"

definition withScenarioName :: "string \<Rightarrow> skr_options \<Rightarrow> skr_options" where
  "withScenarioName v options = options\<lparr>opt_scenarioName := v\<rparr>"

definition withTestNS :: "string \<Rightarrow> skr_options \<Rightarrow> skr_options" where
  "withTestNS v options = options\<lparr>opt_testNS := v\<rparr>"

definition withSuffix :: "string \<Rightarrow> skr_options \<Rightarrow> skr_options" where
  "withSuffix v options = options\<lparr>opt_suffix := Some v\<rparr>"

definition withCustomParams :: "js \<Rightarrow> skr_options \<Rightarrow> skr_options" where
  "withCustomParams v options = options\<lparr>opt_customParams := v\<rparr>"

definition default_options :: "string \<Rightarrow> string \<Rightarrow> skr_options" where
  "default_options uuid userId =
     \<lparr>opt_instanceID = uuid, opt_testNS = ''skr-test'',
      opt_oidc0 = Obj [(''clientID'', Str ''9bd05ed7-a930-44e6-8c79-e6defeb7dec9''), (''groupsClaim'', Str ''groups''),
        (''issuerURL'', Str ''https://kymatest.accounts400.ondemand.com''), (''signingAlgs'', Arr [Str ''RS256'']),
        (''usernameClaim'', Str ''sub''), (''usernamePrefix'', Str ''-'')],
      opt_oidc1 = Obj [(''clientID'', Str ''foo-bar''), (''groupsClaim'', Str ''groups1''),
        (''issuerURL'', Str ''https://new.custom.ias.com''), (''signingAlgs'', Arr [Str ''RS256'']),
        (''usernameClaim'', Str ''email''), (''usernamePrefix'', Str ''acme-'')],
      opt_kebUserId = userId, opt_administrators1 = [''admin1@acme.com'', ''admin2@acme.com''],
      opt_customParams = Obj [], opt_suffix = None, opt_runtimeName = [], opt_appName = [], opt_scenarioName = []\<rparr>"

definition gatherOptions :: "(skr_options \<Rightarrow> skr_options) list \<Rightarrow> skr_options prog" where
  "gatherOptions opts =
     (bind (await UuidV4) (\<lambda>uuid.
      bind (getEnvOrThrow ''KEB_USER_ID'') (\<lambda>userId.
      let options = fold (\<lambda>opt o1. opt o1) opts (default_options (to_str uuid) userId) in
      bind (case opt_suffix options of None \<Rightarrow> genRandom 4 | Some s \<Rightarrow> ret s) (\<lambda>suffix.
      ret (options\<lparr>opt_suffix := Some suffix, opt_runtimeName := ''kyma-'' @ suffix, opt_appName := ''app-'' @ suffix,
                   opt_scenarioName := ''test-'' @ suffix\<rparr>)))))"

text \<open>The module's own \<open>debug\<close>, switched by an environment variable.\<close>

definition helpers_debug :: "js list \<Rightarrow> unit prog" where
  "helpers_debug args = bind (process_env ''DEBUG'') (\<lambda>d. if d = Str ''true'' then log_with ''DEBUG'' args else ret ())"

definition getSKRRuntimeStatus :: "KCPWrapper \<Rightarrow> string \<Rightarrow> js prog" where
  "getSKRRuntimeStatus kcp instanceID = bind (getRuntimeStatusOperations kcp instanceID) (\<lambda>s. eval (json_parse s))"

definition getSKRConfig :: "KCPWrapper \<Rightarrow> GardenerClient \<Rightarrow> string \<Rightarrow> js prog" where
  "getSKRConfig kcp gardener instanceID =
     (bind (getRuntimeStatusOperations kcp instanceID) (\<lambda>runtimeStatus.
      bind (eval (json_parse runtimeStatus)) (\<lambda>obj.
      seq (expect (NestedNotEmpty obj ''data[0].shootName'')) (
      bind (get_path obj [K ''data'', I 0, K ''shootName'']) (\<lambda>shootName.
      seq (console_log [Str (''Fetching SKR info for shoot: '' @ to_str shootName)]) (
      getShoot gardener (to_str shootName)))))))"

definition initK8sConfig :: "js \<Rightarrow> unit prog" where
  "initK8sConfig shoot =
     (seq (console_log [Str ''Should save kubeconfig for the SKR to ~/.kube/config'']) (
      bind (get_path shoot [K ''kubeconfig'']) (\<lambda>kc.
      seq (saveKubeconfig kc) (
      seq (console_log [Str ''Should initialize K8s client'']) (
      initializeK8sClient (Obj [(''kubeconfig'', kc)]))))))"

section \<open>skr-test/provision: provisioning and deprovisioning\<close>

text \<open>
  What several functions do in their \<open>finally\<close> block: print the status and the events of the
  runtime, then the reconciliation log.
\<close>

definition report_status :: "KCPWrapper \<Rightarrow> string \<Rightarrow> string \<Rightarrow> unit prog" where
  "report_status kcp instanceID title =
     (bind (getRuntimeStatusOperations kcp instanceID) (\<lambda>runtimeStatus.
      bind (getRuntimeEvents kcp instanceID) (\<lambda>events.
      seq (console_log [Str (title @ to_str runtimeStatus @ nl @ ''Events:'' @ nl @ to_str events)]) (
      reconcileInformationLog kcp runtimeStatus))))"

definition provisionSKRInstance ::
    "KEBClient \<Rightarrow> KCPWrapper \<Rightarrow> GardenerClient \<Rightarrow> skr_options \<Rightarrow> int \<Rightarrow> js prog" where
  "provisionSKRInstance keb kcp gardener options timeout =
     finally_do
       (try_catch
         (seq (console_log [Str (nl @ ''InstanceID '' @ opt_instanceID options), Str (''Runtime '' @ opt_runtimeName options),
                        Str (''Application '' @ opt_appName options),
                        Str (''Suffix '' @ (case opt_suffix options of Some s \<Rightarrow> s | None \<Rightarrow> ''undefined''))]) (
           bind (helpers_provisionSKR keb kcp gardener (opt_instanceID options) (Str (opt_runtimeName options)) Null
                    BTPOperatorCreds_dummy (opt_customParams options) timeout) (\<lambda>skr.
           seq (helpers_debug [Str ''SKR is provisioned!'']) (
           get_path skr [K ''shoot'']))))
         (\<lambda>e.
            (seq (eval (toString e)) (
             bind (get_path e [K ''stack'']) (\<lambda>stack.
             throw (new_Error (''Provisioning failed: '' @ to_str stack)))))))
       (seq (helpers_debug [Str ''Fetching runtime status...''])
            (report_status kcp (opt_instanceID options) (nl @ ''Runtime status after provisioning: '')))"

definition provisionSKRAndInitK8sConfig ::
    "KEBClient \<Rightarrow> KCPWrapper \<Rightarrow> GardenerClient \<Rightarrow> skr_options \<Rightarrow> int \<Rightarrow> (skr_options \<times> js) prog" where
  "provisionSKRAndInitK8sConfig keb kcp gardener options provisioningTimeout =
     (seq (console_log [Str ''Provisioning new SKR instance...'']) (
      bind (provisionSKRInstance keb kcp gardener options provisioningTimeout) (\<lambda>shoot.
      bind (process_env ''GARDENER_KUBECONFIG'') (\<lambda>viaGardener.
      seq (if truthy viaGardener
       then seq (console_log [Str ''Initiating K8s config...'']) (initK8sConfig shoot)
       else
          (seq (console_log [Str ''Initiating K8s client...'']) (
           bind (get_path shoot [K ''kubeconfig'']) (\<lambda>kc.
           initializeK8sClient (Obj [(''kubeconfigPath'', kc)]))))) (
      seq (console_log [Str ''Initialization of K8s finished...'']) (
      ret (options, shoot)))))))"

definition getSKRKymaVersion :: "KCPWrapper \<Rightarrow> string \<Rightarrow> js prog" where
  "getSKRKymaVersion kcp instanceID =
     (bind (getSKRRuntimeStatus kcp instanceID) (\<lambda>runtimeStatus.
      bind (if truthy runtimeStatus then get_path runtimeStatus [K ''data''] else ret Undef) (\<lambda>data.
      if truthy runtimeStatus \<and> truthy data then get_path data [I 0, K ''kymaVersion''] else ret (Str []))))"

definition deprovisionSKRInstance :: "KEBClient \<Rightarrow> KCPWrapper \<Rightarrow> skr_options \<Rightarrow> int \<Rightarrow> bool \<Rightarrow> unit prog" where
  "deprovisionSKRInstance keb kcp options timeout ensureSuccess =
     finally_do
       (try_catch
         (seq (helpers_deprovisionSKR keb kcp (opt_instanceID options) timeout ensureSuccess) (ret ()))
         (rethrow_as ''De-provisioning failed''))
       (report_status kcp (opt_instanceID options) (nl @ ''Runtime status after de-provisioning: ''))"

definition deprovisionAndUnregisterSKR :: "KEBClient \<Rightarrow> KCPWrapper \<Rightarrow> skr_options \<Rightarrow> int \<Rightarrow> bool \<Rightarrow> unit prog" where
  "deprovisionAndUnregisterSKR keb kcp options deprovisioningTimeout ensureSuccess =
     deprovisionSKRInstance keb kcp options deprovisioningTimeout ensureSuccess"

section \<open>skr-test/machine-type\<close>

definition getMachineType :: "KCPWrapper \<Rightarrow> GardenerClient \<Rightarrow> string \<Rightarrow> js prog" where
  "getMachineType kcp gardener shoot =
     (bind (process_env ''GARDENER_KUBECONFIG'') (\<lambda>viaGardener.
      if truthy viaGardener
      then
         (seq (waitForShoot gardener shoot ''Reconcile'') (
          bind (getShoot gardener shoot) (\<lambda>sh.
          get_path sh [K ''spec'', K ''provider'', K ''workers'', I 0, K ''machine'', K ''type''])))
      else bind (helpers_getShoot kcp shoot) (\<lambda>sh. get_path sh [K ''machineType''])))"

text \<open>The elements that a loop up to \<open>v.length\<close> visits, for an array.\<close>

definition elements :: "js \<Rightarrow> js + js list" where
  "elements v = (case v of
     Arr vs \<Rightarrow> Inr vs
   | Undef \<Rightarrow> Inl (cannot_read ''undefined'' ''length'')
   | Null \<Rightarrow> Inl (cannot_read ''null'' ''length'')
   | Str s \<Rightarrow> Inr (map (\<lambda>c. Str [c]) s)
   | _ \<Rightarrow> Inr [])"

text \<open>
  The innermost loop: find the default type and take the one after it, round the end of the list.
  The result is the value that \<open>updateMachineType\<close> has afterwards.
\<close>

fun type_loop :: "js list \<Rightarrow> js \<Rightarrow> js \<Rightarrow> nat \<Rightarrow> js list \<Rightarrow> js prog" where
  "type_loop mt d upd i [] = ret upd"
| "type_loop mt d upd i (t # ts) =
     seq (console_log [Str (''checking catalog plan update machine type comp '' @ to_str t @ '', looking for '' @ to_str d)])
       (if t = d
        then seq (console_log [Str (''catalog plan update machine type '' @ to_str t @ '' === '' @ to_str d)])
                 (ret (mt ! ((i + 1) mod length mt)))
        else type_loop mt d upd (Suc i) ts)"

text \<open>One plan of the catalog: the value of \<open>updateMachineType\<close> and whether the loop is left.\<close>

definition plan_turn :: "string \<Rightarrow> js \<Rightarrow> js \<Rightarrow> js \<Rightarrow> (js \<times> bool) prog" where
  "plan_turn plan d upd p =
     (bind (get_path p [K ''id'']) (\<lambda>pid.
      seq (console_log [Str (''checking catalog plan '' @ to_str pid @ '', looking for '' @ plan)]) (
      if pid \<noteq> Str plan then ret (upd, False)
      else
         (bind (get_path p [K ''schemas'', K ''service_instance'']) (\<lambda>si.
          bind (get_path si [K ''update'']) (\<lambda>update.
          seq (console_log [Str (''catalog plan update '' @ to_str (Bool (update \<noteq> Undef)))]) (
          bind (if update = Undef then ret Undef
                  else get_path update [K ''parameters'', K ''properties'', K ''machineType'']) (\<lambda>mtp.
          if mtp = Undef then ret (upd, False)
          else
             (bind (get_path mtp [K ''enum'']) (\<lambda>mts.
              seq (console_log [Str (''catalog plan update machine types '' @ to_str mts)]) (
              bind (eval (elements mts)) (\<lambda>mt.
              if length mt < 2 then ret (upd, False)
              else bind (type_loop mt d upd 0 mt) (\<lambda>upd'. ret (upd', upd' \<noteq> Undef))))))))))))))"

fun plan_loop :: "string \<Rightarrow> js \<Rightarrow> js \<Rightarrow> js list \<Rightarrow> js prog" where
  "plan_loop plan d upd [] = ret upd"
| "plan_loop plan d upd (p # ps) =
     bind (plan_turn plan d upd p) (\<lambda>r. if snd r then ret (fst r) else plan_loop plan d (fst r) ps)"

fun service_loop :: "string \<Rightarrow> js \<Rightarrow> js \<Rightarrow> js list \<Rightarrow> js prog" where
  "service_loop plan d upd [] = ret upd"
| "service_loop plan d upd (s # ss) =
     bind (get_path s [K ''id'']) (\<lambda>sid.
     seq (console_log [Str (''checking catalog service '' @ to_str sid)])
       (if sid \<noteq> Str KYMA_SERVICE_ID then service_loop plan d upd ss
        else bind (get_path s [K ''plans'']) (\<lambda>plans.
             bind (eval (elements plans)) (\<lambda>ps.
             bind (plan_loop plan d upd ps) (\<lambda>upd'. service_loop plan d upd' ss)))))"

definition next_machine_type :: "KEBClient \<Rightarrow> string \<Rightarrow> js \<Rightarrow> js prog" where
  "next_machine_type keb plan defaultMachineType =
     (bind (helpers_getCatalog keb) (\<lambda>catalog.
      bind (get_path catalog [K ''services'']) (\<lambda>svcs.
      bind (eval (elements svcs)) (\<lambda>ss.
      seq (console_log [Str (''catalog services '' @ show_nat (length ss))]) (
      bind (service_loop plan defaultMachineType Undef ss) (\<lambda>upd.
      seq (console_log [Str (''determined machine type to update: '' @ to_str upd)]) (
      ret upd)))))))"

definition machine_type_timeout :: int where
  "machine_type_timeout = 1000 * 60 * 30"

definition update_machine_type ::
    "KEBClient \<Rightarrow> KCPWrapper \<Rightarrow> GardenerClient \<Rightarrow> skr_options \<Rightarrow> js \<Rightarrow> js \<Rightarrow> js \<Rightarrow> js prog" where
  "update_machine_type keb kcp gardener options shoot d upd =
     (if upd = Undef then seq (console_log [Str ''skipping machine type update'']) (ret shoot)
      else
         (seq (console_log [Str (''updating '' @ to_str d @ '' => '' @ to_str upd)]) (
          bind (get_path shoot [K ''name'']) (\<lambda>name.
          bind (helpers_updateSKR keb kcp gardener (opt_instanceID options) (to_str name)
                   (Obj [(''machineType'', upd)]) machine_type_timeout Null False) (\<lambda>skr.
          get_path skr [K ''shoot''])))))"

definition check_machine_type :: "KCPWrapper \<Rightarrow> GardenerClient \<Rightarrow> js \<Rightarrow> js \<Rightarrow> unit prog" where
  "check_machine_type kcp gardener shoot upd =
     (if upd = Undef then console_log [Str ''skipping machine type update'']
      else
         (bind (get_path shoot [K ''name'']) (\<lambda>name.
          bind (getMachineType kcp gardener (to_str name)) (\<lambda>machineType.
          expect (EqualTo machineType upd)))))"

section \<open>skr-test/oidc\<close>

definition oidc_timeout :: int where
  "oidc_timeout = 1000 * 60 * 20"

definition oidc_before :: "js \<Rightarrow> js prog" where
  "oidc_before shoot = seq (expect (IsNotUndefined shoot)) (get_path shoot [K ''oidcConfig''])"

definition oidc_update ::
    "KEBClient \<Rightarrow> KCPWrapper \<Rightarrow> GardenerClient \<Rightarrow> skr_options \<Rightarrow> js \<Rightarrow> js \<Rightarrow> js prog" where
  "oidc_update keb kcp gardener options shoot customParams =
     (bind (get_path shoot [K ''name'']) (\<lambda>name.
      bind (helpers_updateSKR keb kcp gardener (opt_instanceID options) (to_str name) customParams oidc_timeout Null False) (\<lambda>skr.
      get_path skr [K ''shoot''])))"

definition oidc_status :: "KCPWrapper \<Rightarrow> skr_options \<Rightarrow> unit prog" where
  "oidc_status kcp options =
     (bind (getRuntimeStatusOperations kcp (opt_instanceID options)) (\<lambda>runtimeStatus.
      seq (console_log [Str (nl @ ''Runtime status: '' @ to_str runtimeStatus)]) (
      reconcileInformationLog kcp runtimeStatus)))"

text \<open>After the update of the configuration a failed status query is only logged.\<close>

definition oidc_status_after_update :: "KCPWrapper \<Rightarrow> skr_options \<Rightarrow> unit prog" where
  "oidc_status_after_update kcp options =
     try_catch (oidc_status kcp options)
       (\<lambda>e. bind (eval (toString e)) (\<lambda>t. console_log [Str (''before hook failed: '' @ t)]))"

definition oidc_new_admins_only :: "skr_options \<Rightarrow> unit prog" where
  "oidc_new_admins_only options =
     (seq (ensureKymaAdminBindingExistsForUser (Str (opt_administrators1 options ! 0))) (
      seq (ensureKymaAdminBindingExistsForUser (Str (opt_administrators1 options ! 1))) (
      ensureKymaAdminBindingDoesNotExistsForUser (Str (opt_kebUserId options)))))"

text \<open>The tests of the suite, in their order; the shoot is the variable they share.\<close>

definition oidc_tests ::
    "KEBClient \<Rightarrow> KCPWrapper \<Rightarrow> GardenerClient \<Rightarrow> skr_options \<Rightarrow> js \<Rightarrow> js \<Rightarrow> (string \<times> js prog) list" where
  "oidc_tests keb kcp gardener options given shoot =
     (let keep = (\<lambda>m. seq m (ret shoot)); i = opt_instanceID options in
      [(''Assure initial OIDC config is applied on shoot cluster'', keep (ensureValidShootOIDCConfig shoot given)),
       (''Assure initial OIDC config is part of kubeconfig'',
          keep (ensureValidOIDCConfigInCustomerFacingKubeconfig keb i given)),
       (''Assure initial cluster admin'', keep (ensureKymaAdminBindingExistsForUser (Str (opt_kebUserId options)))),
       (''Update SKR service instance with OIDC config'',
          oidc_update keb kcp gardener options shoot (Obj [(''oidc'', opt_oidc1 options)])),
       (''Should get Runtime Status after updating OIDC config'', keep (oidc_status_after_update kcp options)),
       (''Assure updated OIDC config is applied on shoot cluster'',
          keep (ensureValidShootOIDCConfig shoot (opt_oidc1 options))),
       (''Assure updated OIDC config is part of kubeconfig'',
          keep (ensureValidOIDCConfigInCustomerFacingKubeconfig keb i (opt_oidc1 options))),
       (''Assure cluster admin is preserved'', keep (ensureKymaAdminBindingExistsForUser (Str (opt_kebUserId options)))),
       (''Update SKR service instance with new admins'',
          oidc_update keb kcp gardener options shoot
            (Obj [(''administrators'', Arr (map Str (opt_administrators1 options)))])),
       (''Should get Runtime Status after updating admins'', keep (oidc_status kcp options)),
       (''Assure only new cluster admins are configured'', keep (oidc_new_admins_only options))])"

section \<open>skr-test/btp-manager-secret\<close>

definition secretName :: string where
  "secretName = ''sap-btp-manager''"

definition secret_ns :: string where
  "secret_ns = ''kyma-system''"

definition reconciliationTimeout :: nat where
  "reconciliationTimeout = 1000 * 70"

definition checkSecretDataKeys :: "js \<Rightarrow> unit prog" where
  "checkSecretDataKeys secret =
     (seq (console_log [Str (''Checking the data keys of the '' @ in_quotes secretName @ '' Secret'')]) (
      seq (expect (NotEmpty secret)) (
      bind (get_path secret [K ''metadata'', K ''labels'', K ''app.kubernetes.io/managed-by'']) (\<lambda>managedBy.
      seq (expect (EqualTo managedBy (Str ''kcp-kyma-environment-broker''))) (
      bind (get_path secret [K ''data'']) (\<lambda>data.
      for_each [''clientid'', ''clientsecret'', ''sm_url'', ''tokenurl'', ''cluster_id'']
        (\<lambda>k. expect (HaveProperty data k))))))))"

text \<open>One comparison of \<open>checkSecretDataValues\<close>: the key of the secret and the field of the credentials.\<close>

definition expect_secret_value :: "js \<Rightarrow> string \<times> string \<Rightarrow> unit prog" where
  "expect_secret_value secret kf =
     (bind (get_path secret [K (fst kf)]) (\<lambda>actual.
      bind (get_path BTPOperatorCreds_dummy [K (snd kf)]) (\<lambda>expected.
      expect (EqualTo actual expected))))"

definition checkSecretDataValues :: "js \<Rightarrow> unit prog" where
  "checkSecretDataValues secret =
     (seq (console_log [Str (''Checking data values of the '' @ in_quotes secretName @ '' Secret'')]) (
      for_each [(''clientid'', ''clientid''), (''clientsecret'', ''clientsecret''), (''sm_url'', ''smURL''), (''tokenurl'', ''url'')]
        (expect_secret_value secret)))"

fun del_metadata :: "string list \<Rightarrow> js \<Rightarrow> js + js" where
  "del_metadata [] m = Inr m"
| "del_metadata (k # ks) m = (case del_prop m k of Inl e \<Rightarrow> Inl e | Inr m' \<Rightarrow> del_metadata ks m')"

definition prepareSecretForApply :: "js \<Rightarrow> js prog" where
  "prepareSecretForApply secret =
     (bind (get_path secret [K ''metadata'']) (\<lambda>m.
      bind (eval (del_metadata [''uid'', ''resourceVersion'', ''creationTimestamp'', ''annotations'', ''managedFields''] m)) (\<lambda>m'.
      eval (set_prop secret ''metadata'' m'))))"

fun set_props :: "(string \<times> js) list \<Rightarrow> js \<Rightarrow> js + js" where
  "set_props [] v = Inr v"
| "set_props ((k, x) # ps) v = (case set_prop v k x of Inl e \<Rightarrow> Inl e | Inr v' \<Rightarrow> set_props ps v')"

definition changeSecretData :: "js \<Rightarrow> js prog" where
  "changeSecretData secret =
     (bind (get_path secret [K ''data'']) (\<lambda>data.
      bind (eval (set_props [(''clientid'', Str (toBase64 ''edited-clientid'')), (''clientsecret'', Str []), (''sm_url'', Str []),
                                (''tokenurl'', Str (toBase64 ''edited-tokenurl''))] data)) (\<lambda>data'.
      eval (set_prop secret ''data'' data'))))"

text \<open>First test: the secret as provisioned, and a copy of it that the last test edits.\<close>

definition secret_exists :: "(js \<times> js) prog" where
  "secret_exists =
     (bind (getSecret secretName secret_ns) (\<lambda>secret.
      seq (checkSecretDataKeys secret) (
      bind (eval (json_parse (stringify [] secret))) (\<lambda>copy.
      ret (secret, copy)))))"

definition secret_values_match :: "unit prog" where
  "secret_values_match = bind (getSecretData secretName secret_ns) checkSecretDataValues"

definition secret_is_correct :: "unit prog" where
  "secret_is_correct =
     (bind (getSecret secretName secret_ns) (\<lambda>actual.
      seq (checkSecretDataKeys actual) (
      secret_values_match)))"

definition secret_after_deletion :: "js \<Rightarrow> unit prog" where
  "secret_after_deletion secretFromProvisioning =
     (seq (console_log [Str (''Deleting the '' @ in_quotes secretName @ '' Secret'')]) (
      seq (k8sDelete [secretFromProvisioning] (Str secret_ns)) (
      seq (console_log [Str (''Waiting for the reconciliation for '' @ show_nat reconciliationTimeout @ '' ms'')]) (
      seq (waitForSecret secretName secret_ns reconciliationTimeout) (
      seq (console_log [Str (''Secret has been re-created. Checking Secret'' @ [CHR 0x27] @ ''s data'')]) (
      seq secret_is_correct (
      console_log [Str ''Secret has been properly reconciled''])))))))"

definition other_version :: "js \<Rightarrow> js \<Rightarrow> js + bool" where
  "other_version actual ev =
     (case name_includes secretName ev of
        Inl e \<Rightarrow> Inl e
      | Inr False \<Rightarrow> Inr False
      | Inr True \<Rightarrow>
          (case path ev [K ''object'', K ''metadata'', K ''resourceVersion''] of
             Inl e \<Rightarrow> Inl e
           | Inr v \<Rightarrow> (case path actual [K ''metadata'', K ''resourceVersion''] of
                          Inl e \<Rightarrow> Inl e
                        | Inr u \<Rightarrow> Inr (v \<noteq> u))))"

definition secret_after_edit :: "js \<Rightarrow> unit prog" where
  "secret_after_edit modifiedSecret =
     (seq (console_log [Str (''Changing data in the '' @ in_quotes secretName @ '' Secret'')]) (
      bind (prepareSecretForApply modifiedSecret) (\<lambda>m1.
      bind (changeSecretData m1) (\<lambda>m2.
      seq (console_log [Str ''Applying edited Secret'']) (
      seq (k8sApply [m2] (Str secret_ns)) (
      seq (console_log [Str (''Waiting '' @ show_nat reconciliationTimeout @ '' ms until edited Secret is created'')]) (
      seq (waitForSecret secretName secret_ns reconciliationTimeout) (
      bind (getSecret secretName secret_ns) (\<lambda>actual.
      seq (console_log [Str (''Waiting for the reconciliation for '' @ show_nat reconciliationTimeout @ '' ms'')]) (
      seq (waitForK8sObject Global (''/api/v1/namespaces/'' @ secret_ns @ ''/secrets'') (other_version actual) reconciliationTimeout
        (''Waiting for '' @ secretName @ '' Secret reconciliation timeout ('' @ show_nat reconciliationTimeout @ '' ms)'')) (
      seq (console_log [Str (''Secret has been reconciled. Checking Secret'' @ [CHR 0x27] @ ''s data'')]) (
      seq secret_is_correct (
      console_log [Str ''Secret is correct''])))))))))))))"

section \<open>trial-suspension-test\<close>

definition suspensionOperationType :: string where
  "suspensionOperationType = ''suspension''"

definition inProgressOperationState :: string where
  "inProgressOperationState = ''in progress''"

definition callFuncAndPrintExecutionTime :: "string \<Rightarrow> 'a prog \<Rightarrow> 'a prog" where
  "callFuncAndPrintExecutionTime name callback =
     bind date_now (\<lambda>startTime.
       finally_do
         (try_catch callback
           (\<lambda>e. bind (eval (toString e)) (\<lambda>t.
              throw (new_Error (''callFuncAndPrintExecutionTime: failed during '' @ in_quotes name @ '': '' @ t @ nl)))))
         (bind date_now (\<lambda>endTime.
            console_log [Str (nl @ in_quotes name @ '' execution time: '' @ show_int (endTime - startTime) @ '' ms'' @ nl)])))"

definition ensureSuspensionIsInProgress :: "KCPWrapper \<Rightarrow> string \<Rightarrow> int \<Rightarrow> js prog" where
  "ensureSuspensionIsInProgress kcp instanceID timeout =
     finally_do
       (try_catch
         (ensureLatestGivenOperationTypeIsInGivenState kcp instanceID suspensionOperationType inProgressOperationState timeout)
         (\<lambda>e.
            (seq (console_log [Str (''cannot ensure '' @ in_quotes suspensionOperationType @ '' operation to be in state '' @
                               in_quotes inProgressOperationState)]) (
             bind (eval (toString e)) (\<lambda>t.
             throw (new_Error (''ensureLatestGivenOperationTypeIsInGivenState failed: '' @ t @ nl)))))))
       (report_status kcp instanceID (''Runtime status:'' @ nl))"

definition ensureSuspensionSucceeded :: "KEBClient \<Rightarrow> KCPWrapper \<Rightarrow> string \<Rightarrow> js \<Rightarrow> int \<Rightarrow> unit prog" where
  "ensureSuspensionSucceeded keb kcp instanceID operationID timeout =
     finally_do
       (try_catch
         (seq (ensureOperationSucceeded keb kcp instanceID operationID timeout) (ret ()))
         (\<lambda>e.
            (bind (eval (toString e)) (\<lambda>t.
             seq (console_log [Str (''cannot ensure '' @ in_quotes suspensionOperationType @ '' operation success: '' @ t @ nl)]) (
             throw (new_Error (''ensureOperationSucceeded failed: '' @ t @ nl)))))))
       (report_status kcp instanceID (''Runtime status after suspension:'' @ nl))"

text \<open>The second test of the suite: the id of the suspension operation.\<close>

definition wait_for_suspension :: "KCPWrapper \<Rightarrow> skr_options \<Rightarrow> js prog" where
  "wait_for_suspension kcp options =
     try_catch
       (bind (callFuncAndPrintExecutionTime ''ensureSuspensionIsInProgress''
                 (ensureSuspensionIsInProgress kcp (opt_instanceID options) (1000 * 60 * 11))) (\<lambda>rs.
         bind (get_path rs [K ''data'', I 0, K ''status'', K suspensionOperationType, K ''data'', I 0, K ''operationID'']) (\<lambda>opid.
         seq (expect (IsNotUndefined opid)) (
         ret opid))))
       (\<lambda>e. bind (eval (toString e)) (\<lambda>t. throw (new_Error (t @ nl))))"

definition wait_for_suspension_success :: "KEBClient \<Rightarrow> KCPWrapper \<Rightarrow> skr_options \<Rightarrow> js \<Rightarrow> unit prog" where
  "wait_for_suspension_success keb kcp options suspensionOpID =
     try_catch
       (seq (debug [Str ''Waiting until suspension operation succeeds...''])
            (callFuncAndPrintExecutionTime ''ensureSuspensionSucceeded''
               (ensureSuspensionSucceeded keb kcp (opt_instanceID options) suspensionOpID (1000 * 60 * 60))))
       (\<lambda>e. bind (eval (toString e)) (\<lambda>t. throw (new_Error (t @ nl))))"

section \<open>skr-aws-upgrade-integration\<close>

definition upgradeSKRInstance :: "KCPWrapper \<Rightarrow> skr_options \<Rightarrow> string \<Rightarrow> int \<Rightarrow> unit prog" where
  "upgradeSKRInstance kcp options kymaUpgradeVersion timeout =
     finally_do
       (try_catch
         (seq (upgradeKyma kcp (opt_instanceID options) kymaUpgradeVersion timeout) (console_log [Str ''Upgrade Done!'']))
         (rethrow_as ''Upgrade failed''))
       (report_status kcp (opt_instanceID options) (nl @ ''Runtime status after upgrade: ''))"

section \<open>skr-networking-test\<close>

text \<open>
  \<open>fail\<close> is not defined in the module, so reaching it raises a \<open>ReferenceError\<close>, which the same
  catch block then inspects as if it were the answer of the broker.
\<close>

definition fail_undefined :: js where
  "fail_undefined = Err ''ReferenceError'' ''fail is not defined'' []"

definition try_networking :: "KEBClient \<Rightarrow> string \<Rightarrow> string \<Rightarrow> (js \<Rightarrow> unit prog) \<Rightarrow> unit prog" where
  "try_networking keb nodes instanceID check =
     (bind (eval (buildPayload keb (Str ''wrong-nodes'') instanceID Null Null
                         (Obj [(''networking'', Obj [(''nodes'', Str nodes)])]))) (\<lambda>payload.
      bind (buildRequest keb payload ''service_instances/id01234876'' ''put'') (\<lambda>config.
      try_catch (seq (await (Axios config)) (throw fail_undefined)) check)))"

definition overlapping_range :: "KEBClient \<Rightarrow> unit prog" where
  "overlapping_range keb = try_networking keb ''10.242.0.0/22'' ''id01234876'' (\<lambda>err.
     (bind (get_path err [K ''response'', K ''status'']) (\<lambda>status.
      seq (expect (EqualTo status (Num 400))) (
      bind (get_path err [K ''response'', K ''data'', K ''description'']) (\<lambda>description.
      seq (expect (IncludesValue description (Str ''overlap''))) (
      seq (console_log [Str ''Got response:'']) (
      bind (get_path err [K ''response'', K ''data'']) (\<lambda>data.
      console_log [data]))))))))"

definition invalid_range :: "KEBClient \<Rightarrow> unit prog" where
  "invalid_range keb = try_networking keb ''333.242.0.0/22'' ''id01234873'' (\<lambda>err.
     (seq (console_log [Str ''Got response:'']) (
      bind (get_path err [K ''response'', K ''data'']) (\<lambda>data.
      seq (console_log [data]) (
      bind (get_path err [K ''response'', K ''status'']) (\<lambda>status.
      expect (EqualTo status (Num 400))))))))"

section \<open>keb-endpoints-test\<close>

definition testEndpointWithoutToken :: "KEBClient \<Rightarrow> js \<Rightarrow> string \<Rightarrow> string \<Rightarrow> unit prog" where
  "testEndpointWithoutToken keb requestBody endpoint method =
     try_catch (callKEBWithoutToken keb requestBody endpoint method)
       (rethrow_as (''error while calling KEB endpoint '' @ in_quotes endpoint @ '' without authorization''))"

definition testData :: "KEBClient \<Rightarrow> (string \<times> string) list" where
  "testData keb =
     (let inst = ''service_instances/keb-endpoints-test'' in
      [(''oauth/v2/'' @ inst, ''get''), (''runtimes'', ''get''), (''info/runtimes'', ''get''), (''orchestrations'', ''get''),
       (''oauth/'' @ getPlatformRegion keb @ ''v2/'' @ inst, ''put''), (''upgrade/cluster'', ''post''), (''upgrade/kyma'', ''post''),
       (''oauth/v2/'' @ inst, ''patch''), (''oauth/v2/'' @ inst, ''delete'')])"

definition reject_without_authorization :: "KEBClient \<Rightarrow> unit prog" where
  "reject_without_authorization keb =
     for_each (testData keb) (\<lambda>t. testEndpointWithoutToken keb (Obj []) (fst t) (snd t))"

section \<open>Facts\<close>

text \<open>The type that follows \<open>d\<close> in a list, round the end.\<close>

definition follows :: "js list \<Rightarrow> js \<Rightarrow> js \<Rightarrow> bool" where
  "follows mt d u = (\<exists>i < length mt. mt ! i = d \<and> u = mt ! ((i + 1) mod length mt))"

lemma type_loop_spec:
  "ts = drop i mt \<Longrightarrow> \<exists>u w'. type_loop mt d upd i ts w = (Ret u, w') \<and>
     (if d \<in> set ts then follows mt d u else u = upd)"
proof (induction mt d upd i ts arbitrary: w rule: type_loop.induct)
  case (1 mt d upd i)
  then show ?case by (simp add: ret_run)
next
  case (2 mt d upd i t ts)
  then have "i < length mt" by (metis drop_eq_Nil list.distinct(1) not_le)
  then have t: "mt ! i = t" and ts: "ts = drop (Suc i) mt"
    using 2(2) by (metis Cons_nth_drop_Suc list.inject)+
  show ?case
  proof (cases "t = d")
    case True
    then show ?thesis using t \<open>i < length mt\<close> by (auto simp: seq_run bind_def prim_run ret_run follows_def)
  next
    case False
    then show ?thesis using 2(1) [OF False ts] by (simp add: seq_run bind_def prim_run)
  qed
qed

lemma follows_differs:
  assumes "distinct mt" and "2 \<le> length mt" and "follows mt d u"
  shows "u \<noteq> d \<and> u \<in> set mt"
proof -
  obtain i where i: "i < length mt" "mt ! i = d" "u = mt ! ((i + 1) mod length mt)"
    using assms(3) by (auto simp: follows_def)
  have "(i + 1) mod length mt \<noteq> i"
    using i(1) assms(2) by (cases "i + 1 = length mt") auto
  moreover have "(i + 1) mod length mt < length mt" using i(1) by (intro mod_less_divisor) auto
  ultimately show ?thesis using i assms(1) by (auto simp: nth_eq_iff_index_eq)
qed

text \<open>The machine types that a plan of the catalog offers for an update.\<close>

definition offers :: "js \<Rightarrow> js list \<Rightarrow> bool" where
  "offers p mt =
     (\<exists>v. path p [K ''schemas'', K ''service_instance'', K ''update'', K ''parameters'', K ''properties'', K ''machineType'', K ''enum'']
            = Inr v \<and> elements v = Inr mt)"

definition chosen :: "js \<Rightarrow> js \<Rightarrow> js \<Rightarrow> bool" where
  "chosen p d u = (\<exists>mt. offers p mt \<and> 2 \<le> length mt \<and> follows mt d u)"

lemma returns_only_type_loop: "returns_only (type_loop mt d upd 0 mt) (\<lambda>u. u = upd \<or> follows mt d u)"
  using type_loop_spec [of mt 0 mt d upd] by (auto simp: returns_only_def split: if_splits) (metis fst_conv outcome.inject(1))

lemma returns_only_if:
  "(b \<Longrightarrow> returns_only m P) \<Longrightarrow> (\<not> b \<Longrightarrow> returns_only k P) \<Longrightarrow> returns_only (if b then m else k) P"
  by simp

lemma path_append: "path v ks = Inr u \<Longrightarrow> path v (ks @ js) = path u js"
  by (induction v ks rule: path.induct) (auto simp: path.simps split: sum.splits)

lemma returns_only_plan_turn:
  "returns_only (plan_turn plan d upd p) (\<lambda>r. fst r = upd \<or> path p [K ''id''] = Inr (Str plan) \<and> chosen p d (fst r))"
proof -
  have found: "chosen p d u"
    if "path p [K ''schemas'', K ''service_instance''] = Inr si" "path si [K ''update''] = Inr update"
       "path update [K ''parameters'', K ''properties'', K ''machineType''] = Inr mtp" "path mtp [K ''enum''] = Inr mts"
       "elements mts = Inr mt" "\<not> length mt < 2" "follows mt d u" for si update mtp mts mt u
  proof -
    have "path p ([K ''schemas'', K ''service_instance''] @ [K ''update''] @
        [K ''parameters'', K ''properties'', K ''machineType''] @ [K ''enum'']) = Inr mts"
      by (simp only: path_append [OF that(1)] path_append [OF that(2)] path_append [OF that(3)] that(4))
    then show ?thesis using that(5-7) by (auto simp: chosen_def offers_def intro!: exI [of _ mt] exI [of _ mts])
  qed
  have mtp: "returns_only (if update = Undef then ret Undef
      else get_path update [K ''parameters'', K ''properties'', K ''machineType''])
      (\<lambda>x. x \<noteq> Undef \<longrightarrow> path update [K ''parameters'', K ''properties'', K ''machineType''] = Inr x)" for update
    by (auto simp: returns_only_def get_path_def eval_run ret_run split: sum.splits)
  show ?thesis
    unfolding plan_turn_def
    by (intro returns_only_bind [OF returns_only_basic(3)] returns_only_bind [OF returns_only_basic(4)]
          returns_only_bind [OF mtp] returns_only_bind [OF returns_only_type_loop] returns_only_seq returns_only_if)
       (auto simp: returns_only_basic intro: found)
qed

text \<open>A choice that a service, or a whole catalog, justifies.\<close>

definition from_service :: "js \<Rightarrow> string \<Rightarrow> js \<Rightarrow> js \<Rightarrow> bool" where
  "from_service s plan d u =
     (path s [K ''id''] = Inr (Str KYMA_SERVICE_ID) \<and>
      (\<exists>pv ps p. path s [K ''plans''] = Inr pv \<and> elements pv = Inr ps \<and> p \<in> set ps \<and>
         path p [K ''id''] = Inr (Str plan) \<and> chosen p d u))"

lemma returns_only_plan_loop:
  "returns_only (plan_loop plan d upd ps)
     (\<lambda>u. u = upd \<or> (\<exists>p \<in> set ps. path p [K ''id''] = Inr (Str plan) \<and> chosen p d u))"
proof (induction ps arbitrary: upd)
  case Nil
  then show ?case by (simp add: returns_only_basic)
next
  case (Cons p ps)
  have IH: "returns_only (plan_loop plan d (fst r) ps)
      (\<lambda>u. u = upd \<or> (\<exists>p \<in> set (p # ps). path p [K ''id''] = Inr (Str plan) \<and> chosen p d u))"
    if "fst r = upd \<or> path p [K ''id''] = Inr (Str plan) \<and> chosen p d (fst r)" for r :: "js \<times> bool"
    using Cons [of "fst r"] that by (auto simp: returns_only_def)
  show ?case
    unfolding plan_loop.simps
    by (intro returns_only_bind [OF returns_only_plan_turn] returns_only_if IH) (auto simp: returns_only_basic)
qed

lemma returns_only_service_loop:
  "returns_only (service_loop plan d upd ss) (\<lambda>u. u = upd \<or> (\<exists>s \<in> set ss. from_service s plan d u))"
proof (induction ss arbitrary: upd)
  case Nil
  then show ?case by (simp add: returns_only_basic)
next
  case (Cons s ss)
  have IH: "returns_only (service_loop plan d upd' ss) (\<lambda>u. u = upd \<or> (\<exists>s \<in> set (s # ss). from_service s plan d u))"
    if "upd' = upd \<or> from_service s plan d upd'" for upd'
    using Cons [of upd'] that by (auto simp: returns_only_def)
  show ?case
    unfolding service_loop.simps
    by (intro returns_only_bind [OF returns_only_basic(3)] returns_only_bind [OF returns_only_basic(4)]
          returns_only_bind [OF returns_only_plan_loop] returns_only_seq returns_only_if IH)
       (auto simp: from_service_def)
qed

lemma finally_Ret:
  "fst (finally_do m f w) = Ret x \<longleftrightarrow> (\<exists>w1. m w = (Ret x, w1) \<and> fst (f w1) = Ret ())"
  by (auto simp: finally_do_def split: prod.splits outcome.splits)

lemma try_rethrow_Ret: "try_catch m (rethrow_as msg) w = (Ret x, w1) \<longleftrightarrow> m w = (Ret x, w1)"
proof -
  have "rethrow_as msg e v \<noteq> (Ret x, w1)" for e v
    by (auto simp: rethrow_as_def bind_def eval_run throw_run split: sum.splits)
  then show ?thesis by (auto simp: try_catch_def split: prod.splits outcome.splits)
qed

section \<open>Properties\<close>

text \<open>
  The machine type that the test updates to, when it finds one, is
  the one that follows the current type in the list that the catalog offers for the plan of the
  Kyma service; if that list has no repetitions, it is one of the list and not the current one, so
  the update changes something.
\<close>

theorem next_machine_type_differs:
  assumes "next_machine_type keb plan d w = (Ret u, w')" and "u \<noteq> Undef"
  shows "\<exists>catalog w1 sv ss s p mt. getCatalog keb w = (Ret catalog, w1) \<and>
     path catalog [K ''services''] = Inr sv \<and> elements sv = Inr ss \<and> s \<in> set ss \<and> from_service s plan d u \<and>
     offers p mt \<and> follows mt d u \<and> (distinct mt \<longrightarrow> u \<in> set mt \<and> u \<noteq> d)"
proof -
  obtain catalog w1 where c: "getCatalog keb w = (Ret catalog, w1)"
    using assms(1) by (auto simp: next_machine_type_def helpers_getCatalog_def bind_def split: prod.splits outcome.splits)
  then obtain sv where sv: "path catalog [K ''services''] = Inr sv"
    using assms(1)
    by (auto simp: next_machine_type_def helpers_getCatalog_def bind_def get_path_def eval_run split: sum.splits)
  then obtain ss where ss: "elements sv = Inr ss"
    using assms(1) c
    by (auto simp: next_machine_type_def helpers_getCatalog_def bind_def get_path_def eval_run split: sum.splits)
  have "\<exists>v v'. service_loop plan d Undef ss v = (Ret u, v')"
    using assms(1) c sv ss
    by (auto simp: next_machine_type_def helpers_getCatalog_def bind_def get_path_def eval_run seq_run prim_run ret_run
        split: prod.splits outcome.splits)
  then obtain s where s: "s \<in> set ss" "from_service s plan d u"
    using returns_onlyD [OF returns_only_service_loop] assms(2) by blast
  then obtain p mt where "offers p mt" "2 \<le> length mt" "follows mt d u"
    by (auto simp: from_service_def chosen_def)
  with c sv ss s show ?thesis using follows_differs [of mt d u] by blast
qed

definition some_catalog :: js where
  "some_catalog = Obj [(''services'', Arr [Obj [(''id'', Str KYMA_SERVICE_ID), (''plans'', Arr [Obj [(''id'', Str ''p''),
     (''schemas'', Obj [(''service_instance'', Obj [(''update'', Obj [(''parameters'', Obj [(''properties'', Obj [(''machineType'',
       Obj [(''enum'', Arr [Str ''a'', Str ''b''])])])])])])])]])]])]"

theorem next_machine_type_differs_witness:
  "\<exists>u w'. next_machine_type some_client ''p'' (Str ''b'') (live_world (\<lambda>_. Inr (Obj [(''data'', some_catalog)]))) = (Ret u, w') \<and>
     u = Str ''a'' \<and> (\<exists>mt. follows mt (Str ''b'') u)"
proof -
  let ?w = "live_world (\<lambda>_. Inr (Obj [(''data'', some_catalog)]))"
  have "\<exists>w1. getCatalog some_client ?w = (Ret some_catalog, w1)"
    unfolding getCatalog_def try_catch_def callKEB_live [OF live_world_token]
    by (simp add: bind_def await_run live_world_def quiet_world_def get_path_def eval_run ret_run path.simps lookup_def
        try_catch_def some_catalog_def)
  then obtain w1 where c: "getCatalog some_client ?w = (Ret some_catalog, w1)" by blast
  have "\<exists>w'. next_machine_type some_client ''p'' (Str ''b'') ?w = (Ret (Str ''a''), w')"
    unfolding next_machine_type_def helpers_getCatalog_def bind_Ret [where m = "getCatalog some_client", OF c]
    by (simp add: some_catalog_def bind_def seq_run get_path_def eval_run prim_run ret_run path.simps lookup_def
        elements_def plan_turn_def eval_nat_numeral)
  then obtain w' where run: "next_machine_type some_client ''p'' (Str ''b'') ?w = (Ret (Str ''a''), w')" by blast
  from next_machine_type_differs [OF run] run show ?thesis by blast
qed

text \<open>
  \<open>gatherOptions\<close> makes no call but the one for a fresh id.  The runtime,
  application and scenario names are always derived from the suffix: the given one, or else four
  characters of the lower case alphabet and digits; names given by \<open>withRuntimeName\<close>,
  \<open>withAppName\<close> and \<open>withScenarioName\<close> have no effect.
\<close>

theorem option_names:
  assumes "gatherOptions opts w = (Ret options, w')"
  shows "\<exists>s. opt_suffix options = Some s \<and> opt_runtimeName options = ''kyma-'' @ s \<and>
           opt_appName options = ''app-'' @ s \<and> opt_scenarioName options = ''test-'' @ s \<and>
           calls w' = calls w @ [UuidV4] \<and>
           gatherOptions (opts @ [withRuntimeName a, withAppName b, withScenarioName c]) w = (Ret options, w') \<and>
           (opts = [] \<longrightarrow> length s = 4 \<and> set s \<subseteq> set chrs)"
proof -
  obtain u w1 where u: "await UuidV4 w = (Ret u, w1)"
    using assms by (auto simp: gatherOptions_def bind_def split: prod.splits outcome.splits)
  then have w1: "calls w1 = calls w @ [UuidV4]" by (auto simp: await_run split: sum.splits)
  obtain i where i: "getEnvOrThrow ''KEB_USER_ID'' w1 = (Ret i, w1)"
    using assms u by (auto simp: gatherOptions_def bind_def getEnvOrThrow_run split: option.splits if_splits)
  define o1 where "o1 = fold (\<lambda>opt o1. opt o1) opts (default_options (to_str u) i)"
  define sfx where "sfx = (case opt_suffix o1 of None \<Rightarrow> genRandom 4 | Some s \<Rightarrow> ret s)"
  define named where "named s = o1\<lparr>opt_suffix := Some s, opt_runtimeName := ''kyma-'' @ s, opt_appName := ''app-'' @ s,
      opt_scenarioName := ''test-'' @ s\<rparr>" for s
  have run: "gatherOptions opts w = bind sfx (\<lambda>s. ret (named s)) w1"
    by (simp add: gatherOptions_def Let_def bind_def u i o1_def sfx_def named_def)
  have run': "gatherOptions (opts @ [withRuntimeName a, withAppName b, withScenarioName c]) w =
      bind sfx (\<lambda>s. ret (named s)) w1"
    by (simp add: gatherOptions_def Let_def bind_def u i o1_def [symmetric] sfx_def named_def withRuntimeName_def
        withAppName_def withScenarioName_def)
  have "\<exists>s w2. sfx w1 = (Ret s, w2) \<and> calls w2 = calls w1 \<and> (opt_suffix o1 = None \<longrightarrow> length s = 4 \<and> set s \<subseteq> set chrs)"
    using genRandom_loop_spec [of 4 "[]" w1]
    by (auto simp: sfx_def genRandom_def ret_run split: option.splits)
  then obtain s w2 where s: "sfx w1 = (Ret s, w2)" "calls w2 = calls w1"
      "opt_suffix o1 = None \<longrightarrow> length s = 4 \<and> set s \<subseteq> set chrs" by auto
  then have o2: "options = named s" "w' = w2" using assms by (simp_all add: run bind_def ret_run)
  have "opts = [] \<longrightarrow> opt_suffix o1 = None" by (simp add: o1_def default_options_def)
  then show ?thesis using s w1 assms by (auto simp: o2 named_def run run')
qed

theorem option_names_witness:
  "\<exists>options w'. gatherOptions [] (quiet_world\<lparr>env := (\<lambda>_. Some ''u'')\<rparr>) = (Ret options, w') \<and>
     (\<exists>s. opt_runtimeName options = ''kyma-'' @ s \<and> length s = 4)"
proof -
  let ?w = "quiet_world\<lparr>env := (\<lambda>_. Some ''u'')\<rparr>"
  have "\<exists>options w'. gatherOptions [] ?w = (Ret options, w')"
    using genRandom_loop_spec [of 4 "[]" "?w\<lparr>calls := [UuidV4]\<rparr>"]
    by (auto simp: gatherOptions_def bind_def await_run getEnvOrThrow_run quiet_world_def default_options_def
        genRandom_def ret_run)
  then obtain options w' where run: "gatherOptions [] ?w = (Ret options, w')" by blast
  from option_names [OF run] run show ?thesis by blast
qed

text \<open>
  \<open>deprovisionAndUnregisterSKR\<close> succeeds exactly when the instance was
  deprovisioned and the status report of the \<open>finally\<close> block, made in the state that is left, succeeds
  as well: a failing status query turns a successful deprovisioning into a failure.
\<close>

theorem deprovisioning_outcome:
  "fst (deprovisionAndUnregisterSKR keb kcp options t ensure w) = Ret () \<longleftrightarrow>
   (\<exists>opid w1. helpers_deprovisionSKR keb kcp (opt_instanceID options) t ensure w = (Ret opid, w1) \<and>
      fst (report_status kcp (opt_instanceID options) (nl @ ''Runtime status after de-provisioning: '') w1) = Ret ())"
proof -
  have "seq m (ret ()) w = (Ret (), w1) \<longleftrightarrow> (\<exists>x. m w = (Ret x, w1))" for m :: "js prog" and w1
    by (auto simp: seq_run bind_def ret_run split: prod.splits outcome.splits)
  then show ?thesis
    by (auto simp: deprovisionAndUnregisterSKR_def deprovisionSKRInstance_def finally_Ret try_rethrow_Ret)
qed

text \<open>
  When the broker wrongly accepts a forbidden network range, the
  test does fail, but not with the message it means to give: \<open>fail\<close> is undefined, and what the
  test reports is that it cannot read a property of \<open>undefined\<close>.
\<close>

theorem accepted_range_is_misreported:
  assumes "has_live_token keb tok w"
    and "\<And>req. \<exists>v d. services w (calls w) (Axios req) = (Inr v, d)"
  shows "fst (overlapping_range keb w) = Throw (cannot_read ''undefined'' ''status'') \<and>
         fst (invalid_range keb w) = Throw (cannot_read ''undefined'' ''data'')"
proof -
  have p: "\<exists>payload. buildPayload keb n i Null Null c = Inr payload" for n i c
    by (simp add: buildPayload_def credentials_entry_def)
  have run: "fst (try_networking keb nodes i check w) = fst (check fail_undefined w')"
    if "\<And>v. fst (check fail_undefined v) = fst (check fail_undefined w')" for nodes i check w'
  proof -
    obtain payload where "buildPayload keb (Str ''wrong-nodes'') i Null Null
        (Obj [(''networking'', Obj [(''nodes'', Str nodes)])]) = Inr payload" using p by blast
    moreover obtain v d where "services w (calls w) (Axios (keb_request keb tok payload ''service_instances/id01234876'' ''put'')) =
        (Inr v, d)" using assms(2) by blast
    ultimately show ?thesis
      using that
      by (simp add: try_networking_def bind_def eval_run buildRequest_live [OF assms(1)] try_catch_def seq_run await_run throw_run)
  qed
  show ?thesis
    unfolding overlapping_range_def invalid_range_def
    by (subst run [of _ quiet_world], simp_all add: fail_undefined_def bind_def get_path_def eval_run path.simps
        lookup_def seq_run prim_run)+
qed

theorem accepted_range_is_misreported_witness:
  "fst (overlapping_range some_client (live_world (\<lambda>_. Inr Undef))) = Throw (cannot_read ''undefined'' ''status'')"
  using accepted_range_is_misreported [OF live_world_token, of "\<lambda>_. Inr Undef"] by (simp add: live_world_def)

text \<open>What the turns of the endpoint test did, when they all returned.\<close>

definition refused_request :: "KEBClient \<Rightarrow> world \<Rightarrow> call list \<Rightarrow> string \<Rightarrow> js \<Rightarrow> bool" where
  "refused_request keb w history endpoint req =
     (path req [K ''url''] = Inr (Str (''https://kyma-env-broker.'' @ host keb @ ''/'' @ endpoint)) \<and>
      path req [K ''headers'', K ''Authorization''] = Inr Undef \<and>
      is_refusal (fst (services w history (Axios req))))"

lemma framed_callKEBWithoutToken [frame_rules, intro!]: "framed (callKEBWithoutToken keb p e v)"
  by (auto simp: callKEBWithoutToken_def buildRequestWithoutToken_def anonymous_failure_def Let_def intro!: frame_rules)

lemma endpoint_turn:
  assumes "testEndpointWithoutToken keb p e v w = (Ret (), w')"
  shows "\<exists>req. calls w' = calls w @ [Axios req] \<and> services w' = services w \<and> refused_request keb w (calls w) e req"
proof -
  have run: "callKEBWithoutToken keb p e v w = (Ret (), w')"
    using assms by (simp add: testEndpointWithoutToken_def try_rethrow_Ret)
  moreover have "services w' = services w"
    using framedD [OF framed_callKEBWithoutToken run] by (simp add: same_outside_def)
  ultimately show ?thesis
    using anonymous_call [of keb p e v w] by (auto simp: refused_request_def)
qed

lemma endpoint_loop:
  assumes "for_each ts (\<lambda>t. testEndpointWithoutToken keb p (fst t) (snd t)) w = (Ret (), w')"
  shows "\<exists>reqs. calls w' = calls w @ map Axios reqs \<and> length reqs = length ts \<and>
     (\<forall>j < length ts. refused_request keb w (calls w @ map Axios (take j reqs)) (fst (ts ! j)) (reqs ! j))"
  using assms
proof (induction ts arbitrary: w)
  case Nil
  then show ?case by (simp add: ret_run)
next
  case (Cons t ts)
  obtain w1 where 1: "testEndpointWithoutToken keb p (fst t) (snd t) w = (Ret (), w1)"
      and rest: "for_each ts (\<lambda>t. testEndpointWithoutToken keb p (fst t) (snd t)) w1 = (Ret (), w')"
    using Cons.prems by (auto simp: seq_run bind_def split: prod.splits outcome.splits)
  obtain req where req: "calls w1 = calls w @ [Axios req]" "services w1 = services w"
      "refused_request keb w (calls w) (fst t) req" using endpoint_turn [OF 1] by blast
  obtain reqs where reqs: "calls w' = calls w1 @ map Axios reqs" "length reqs = length ts"
      "\<forall>j < length ts. refused_request keb w1 (calls w1 @ map Axios (take j reqs)) (fst (ts ! j)) (reqs ! j)"
    using Cons.IH [OF rest] by blast
  have "\<forall>j < length (t # ts). refused_request keb w (calls w @ map Axios (take j (req # reqs))) (fst ((t # ts) ! j)) ((req # reqs) ! j)"
    using req reqs(3) by (auto simp: refused_request_def less_Suc_eq_0_disj)
  then show ?case using req reqs by (intro exI [of _ "req # reqs"]) simp
qed

text \<open>
  When the endpoint test passes, all nine endpoints were called, in order,
  each exactly once and without an \<open>Authorization\<close> header, and each answered with status 401 or 403.
\<close>

theorem endpoints_are_protected:
  assumes "reject_without_authorization keb w = (Ret (), w')"
  shows "\<exists>reqs. calls w' = calls w @ map Axios reqs \<and> length reqs = 9 \<and>
     (\<forall>j < 9. refused_request keb w (calls w @ map Axios (take j reqs)) (fst (testData keb ! j)) (reqs ! j))"
proof -
  have "length (testData keb) = 9" by (simp add: testData_def Let_def)
  with endpoint_loop [OF assms [unfolded reject_without_authorization_def]] show ?thesis by simp
qed

lemma refusing_turn:
  assumes "services w = (\<lambda>_ _. (Inr (Obj [(''status'', Num 401)]), 0))"
  shows "\<exists>w'. testEndpointWithoutToken keb p e v w = (Ret (), w') \<and> services w' = services w"
  using assms
  by (simp add: testEndpointWithoutToken_def callKEBWithoutToken_def buildRequestWithoutToken_def Let_def try_catch_def
      bind_def await_run get_path_def eval_run ret_run prim_run path.simps lookup_def refused_def)

lemma refusing_loop:
  assumes "services w = (\<lambda>_ _. (Inr (Obj [(''status'', Num 401)]), 0))"
  shows "\<exists>w'. for_each ts (\<lambda>t. testEndpointWithoutToken keb p (fst t) (snd t)) w = (Ret (), w')"
  using assms
proof (induction ts arbitrary: w)
  case (Cons t ts)
  from refusing_turn [OF Cons.prems] obtain w1 where
    "testEndpointWithoutToken keb p (fst t) (snd t) w = (Ret (), w1)" "services w1 = services w" by blast
  then show ?case using Cons.IH [of w1] Cons.prems by (simp add: seq_run bind_def)
qed (simp add: ret_run)

theorem endpoints_are_protected_witness:
  "\<exists>w'. reject_without_authorization some_client (quiet_world\<lparr>services := (\<lambda>_ _. (Inr (Obj [(''status'', Num 401)]), 0))\<rparr>) =
     (Ret (), w') \<and> length (calls w') = 9"
proof -
  let ?w = "quiet_world\<lparr>services := (\<lambda>_ _. (Inr (Obj [(''status'', Num 401)]), 0))\<rparr>"
  obtain w' where run: "reject_without_authorization some_client ?w = (Ret (), w')"
    using refusing_loop [of ?w] unfolding reject_without_authorization_def by fastforce
  from endpoints_are_protected [OF run] run show ?thesis by (auto simp: quiet_world_def)
qed

text \<open>
  The first OIDC test compares the configuration of the shoot with
  itself: with the configuration that the \<open>before\<close> hook takes from the shoot, the check passes for
  every shoot whose fields are strings, whatever they are.
\<close>

theorem initial_oidc_check_is_vacuous:
  assumes "chai_documented (chai w)"
    and "path shoot [K ''oidcConfig''] = Inr (Obj cfg)"
    and "\<And>f. f \<in> {''clientID'', ''issuerURL'', ''groupsClaim'', ''usernameClaim'', ''usernamePrefix''} \<Longrightarrow>
           \<exists>s. lookup cfg f = Str s"
  shows "\<exists>given. oidc_before shoot w = (Ret given, w) \<and> ensureValidShootOIDCConfig shoot given w = (Ret (), w)"
proof -
  have shoot: "shoot \<noteq> Undef" using assms(2) by (auto simp: path.simps)
  have p: "path shoot [K ''oidcConfig'', K f] = Inr (lookup cfg f)" for f
    using assms(2) by (auto simp: path.simps split: sum.splits)
  have one: "expect_oidc shoot (Obj cfg) f w = (Ret (), w)"
    if f: "f \<in> {''clientID'', ''issuerURL'', ''groupsClaim'', ''usernameClaim'', ''usernamePrefix''}" for f
  proof -
    obtain s where s: "lookup cfg f = Str s" using assms(3) f by blast
    have keys: "number_keys (path_keys [] (''oidcConfig.'' @ f)) = [K ''oidcConfig'', K f]"
      using f by (auto simp: number_keys_def)
    have "chai w (NestedProperty shoot (''oidcConfig.'' @ f) (Str s)) = None"
      using assms(1) p [of f] s keys by (simp add: chai_documented_def del: append.simps)
    then show ?thesis by (simp add: expect_oidc_def bind_def get_path_def eval_run path.simps s prim_run del: append.simps)
  qed
  have "chai w (DeepEqual (lookup cfg ''signingAlgs'') (lookup cfg ''signingAlgs'')) = None"
    using assms(1) by (simp add: chai_documented_def)
  moreover have "path (Obj cfg) [K ''signingAlgs''] = Inr (lookup cfg ''signingAlgs'')" by (simp add: path.simps)
  ultimately have "ensureValidShootOIDCConfig shoot (Obj cfg) w = (Ret (), w)"
    by (simp add: ensureValidShootOIDCConfig_def seq_run bind_def one get_path_def eval_run p ret_run prim_run)
  moreover have "oidc_before shoot w = (Ret (Obj cfg), w)"
  proof -
    have "chai w (IsNotUndefined shoot) = None" using assms(1) shoot by (simp add: chai_documented_def)
    then show ?thesis using assms(2) by (simp add: oidc_before_def seq_run bind_def prim_run eval_run)
  qed
  ultimately show ?thesis by blast
qed

theorem initial_oidc_check_is_vacuous_witness:
  "\<exists>given. oidc_before (Obj [(''oidcConfig'', Obj [(''clientID'', Str ''a''), (''issuerURL'', Str ''b''), (''groupsClaim'', Str ''c''),
      (''usernameClaim'', Str ''d''), (''usernamePrefix'', Str ''e'')])]) quiet_world = (Ret given, quiet_world)"
proof -
  let ?cfg = "[(''clientID'', Str ''a''), (''issuerURL'', Str ''b''), (''groupsClaim'', Str ''c''), (''usernameClaim'', Str ''d''),
      (''usernamePrefix'', Str ''e'')]"
  have c: "chai_documented (chai quiet_world)" by (simp add: quiet_world_def plain_chai_documented)
  have p: "path (Obj [(''oidcConfig'', Obj ?cfg)]) [K ''oidcConfig''] = Inr (Obj ?cfg)"
    by (simp add: path.simps lookup_def)
  have f: "\<exists>s. lookup ?cfg f = Str s"
    if "f \<in> {''clientID'', ''issuerURL'', ''groupsClaim'', ''usernameClaim'', ''usernamePrefix''}" for f
    using that by (auto simp: lookup_def)
  show ?thesis using initial_oidc_check_is_vacuous [OF c p f] by blast
qed

end
