(* ===== verification/Webpack.thy ===== *)
theory Webpack
  imports Prelude
begin

text \<open>
  The bootstrap code of the five Swagger UI bundles that the broker serves with its API
  documentation (\<^verbatim>\<open>src/files/swagger/*.js\<close>).  Each bundle is one minified line: a wrapper that
  chooses where to publish the library, the webpack module loader with its helpers, an array of
  module functions, and the \<open>default\<close> export of the entry module as the result.

  Modelled here are the wrapper, the loader \<open>n\<close>, its helpers \<open>n.d\<close>, \<open>n.r\<close>, \<open>n.n\<close> and \<open>n.o\<close> (\<open>n.t\<close> is called
  in none of the bundles), and the module that stands for the external package \<open>esprima\<close>.  The other module functions are a
  parameter: a module body is a tree of the steps it takes, which may read and change every object, require
  other modules and catch what they throw, assign \<open>module.exports\<close>, and throw.  A body does not
  write to the module cache \<open>n.c\<close> and does not hand its \<open>module\<close> object to others.
\<close>

section \<open>Values and objects\<close>

datatype val =
    Undefined
  | NullVal
  | BoolVal bool
  | NumVal int
  | StrVal string
  | ErrVal string
  | Ref nat

text \<open>
  What a function without arguments returns: the current value of a variable of a module body (a
  closure, interpreted by a parameter), a fixed value, or a property of a fixed value, read at
  the time of the call.
\<close>

datatype getter =
    Closure nat
  | Returns val
  | ReturnsMember val string

text \<open>A property: whether it is enumerable, and its value or its getter.\<close>

datatype property_desc =
    Data bool val
  | Accessor bool getter

record obj =
  props :: "(string \<times> property_desc) list"
  callee :: "getter option"

type_synonym heap = "obj list"

type_synonym closures = "nat \<Rightarrow> heap \<Rightarrow> val"

fun truthy_val :: "val \<Rightarrow> bool" where
  "truthy_val Undefined = False"
| "truthy_val NullVal = False"
| "truthy_val (BoolVal b) = b"
| "truthy_val (NumVal i) = (i \<noteq> 0)"
| "truthy_val (StrVal s) = (s \<noteq> [])"
| "truthy_val (ErrVal m) = True"
| "truthy_val (Ref a) = True"

text \<open>
  \<open>v[name]\<close>, with getters called.  \<open>None\<close>: the read throws (on \<open>undefined\<close> and \<open>null\<close>) or chases
  getters for ever.
\<close>

partial_function (option) read_member :: "closures \<Rightarrow> heap \<Rightarrow> val \<Rightarrow> string \<Rightarrow> val option" where
  "read_member c h v name =
     (case v of
        Undefined \<Rightarrow> None
      | NullVal \<Rightarrow> None
      | Ref a \<Rightarrow>
          (if a < length h
           then (case map_of (props (h ! a)) name of
                   None \<Rightarrow> Some Undefined
                 | Some (Data _ x) \<Rightarrow> Some x
                 | Some (Accessor _ (Closure i)) \<Rightarrow> Some (c i h)
                 | Some (Accessor _ (Returns x)) \<Rightarrow> Some x
                 | Some (Accessor _ (ReturnsMember u m)) \<Rightarrow> read_member c h u m)
           else None)
      | _ \<Rightarrow> Some Undefined)"

definition apply_getter :: "closures \<Rightarrow> heap \<Rightarrow> getter \<Rightarrow> val option" where
  "apply_getter c h g =
     (case g of Closure i \<Rightarrow> Some (c i h) | Returns x \<Rightarrow> Some x | ReturnsMember u m \<Rightarrow> read_member c h u m)"

text \<open>Calling a function object without arguments.\<close>

definition call_val :: "closures \<Rightarrow> heap \<Rightarrow> val \<Rightarrow> val option" where
  "call_val c h f =
     (case f of
        Ref a \<Rightarrow> (if a < length h then (case callee (h ! a) of Some g \<Rightarrow> apply_getter c h g | None \<Rightarrow> None) else None)
      | _ \<Rightarrow> None)"

lemma member_Ref:
  "a < length h \<Longrightarrow> read_member c h (Ref a) name =
     (case map_of (props (h ! a)) name of
        None \<Rightarrow> Some Undefined
      | Some (Data _ x) \<Rightarrow> Some x
      | Some (Accessor _ g) \<Rightarrow> apply_getter c h g)"
  by (subst read_member.simps) (simp add: apply_getter_def split: option.split property_desc.split getter.split)

section \<open>Helpers of the loader\<close>

text \<open>\<open>n.o(e, t)\<close>: an own property.\<close>

definition n_o :: "heap \<Rightarrow> nat \<Rightarrow> string \<Rightarrow> bool" where
  "n_o h a name = (name \<in> fst ` set (props (h ! a)))"

text \<open>
  \<open>Object.defineProperty\<close> with a value or with a getter; the attributes \<open>writable\<close> and
  \<open>configurable\<close> are not modelled, since the loader never redefines a property with another
  value.
\<close>

definition define_property :: "heap \<Rightarrow> nat \<Rightarrow> string \<Rightarrow> property_desc \<Rightarrow> heap" where
  "define_property h a name p =
     h[a := (h ! a)\<lparr>props := filter (\<lambda>kv. fst kv \<noteq> name) (props (h ! a)) @ [(name, p)]\<rparr>]"

text \<open>\<open>n.d(e, t, r)\<close>: a getter for an export, unless the name is taken.\<close>

definition n_d :: "heap \<Rightarrow> nat \<Rightarrow> string \<Rightarrow> getter \<Rightarrow> heap" where
  "n_d h a name g = (if n_o h a name then h else define_property h a name (Accessor True g))"

text \<open>\<open>n.r(e)\<close>: marks an ES module; the tag only where the engine has symbols.\<close>

definition n_r :: "bool \<Rightarrow> heap \<Rightarrow> nat \<Rightarrow> heap" where
  "n_r has_toStringTag h a =
     (let h1 = (if has_toStringTag then define_property h a ''Symbol(Symbol.toStringTag)'' (Data False (StrVal ''Module'')) else h)
      in define_property h1 a ''__esModule'' (Data False (BoolVal True)))"

text \<open>\<open>e && e.__esModule\<close>\<close>

definition is_esModule :: "closures \<Rightarrow> heap \<Rightarrow> val \<Rightarrow> bool option" where
  "is_esModule c h e =
     (if truthy_val e then map_option truthy_val (read_member c h e ''__esModule'') else Some False)"

text \<open>\<open>n.n(e)\<close>: a function that gives the default export, which is also its property \<open>a\<close>.\<close>

definition n_n :: "closures \<Rightarrow> heap \<Rightarrow> val \<Rightarrow> (val \<times> heap) option" where
  "n_n c h e =
     (case is_esModule c h e of
        None \<Rightarrow> None
      | Some esm \<Rightarrow>
          (let g = (if esm then ReturnsMember e ''default'' else Returns e);
               h1 = h @ [\<lparr>props = [], callee = Some g\<rparr>]
           in Some (Ref (length h), n_d h1 (length h) ''a'' g)))"

section \<open>The module loader\<close>

datatype 'a res = Ok 'a | Thrown val | NoFuel

datatype body =
    Finish
  | Raise val
  | Act "heap \<Rightarrow> heap \<times> val" "val \<Rightarrow> body"
  | Require nat "val + val \<Rightarrow> body"
  | SetExports val body
  | GetExports "val \<Rightarrow> body"

text \<open>A module function takes its \<open>exports\<close> object.\<close>

type_synonym modules = "(val \<Rightarrow> body) list"

record module_rec =
  mod_i :: nat
  mod_l :: bool
  mod_exports :: val

text \<open>The cache \<open>t\<close>, the objects, and the ids of the bodies that were started, in order.\<close>

record loader =
  cache :: "nat \<rightharpoonup> module_rec"
  objects :: heap
  started :: "nat list"

definition fresh_loader :: loader where
  "fresh_loader = \<lparr>cache = Map.empty, objects = [], started = []\<rparr>"

definition exports_of :: "loader \<Rightarrow> nat \<Rightarrow> val" where
  "exports_of s r = (case cache s r of Some m \<Rightarrow> mod_exports m | None \<Rightarrow> Undefined)"

definition update_module :: "nat \<Rightarrow> (module_rec \<Rightarrow> module_rec) \<Rightarrow> loader \<Rightarrow> loader" where
  "update_module r f s = s\<lparr>cache := (cache s)(r := map_option f (cache s r))\<rparr>"

text \<open>\<open>t[r] = {i: r, l: false, exports: {}}\<close>\<close>

definition new_module :: "nat \<Rightarrow> loader \<Rightarrow> loader" where
  "new_module r s =
     s\<lparr>cache := (cache s)(r \<mapsto> \<lparr>mod_i = r, mod_l = False, mod_exports = Ref (length (objects s))\<rparr>),
       objects := objects s @ [\<lparr>props = [], callee = None\<rparr>]\<rparr>"

text \<open>The steps of the body of module \<open>r\<close>, where \<open>req\<close> is the loader function it was given.\<close>

primrec exec_body ::
  "(nat \<Rightarrow> loader \<Rightarrow> val res \<times> loader) \<Rightarrow> nat \<Rightarrow> body \<Rightarrow> loader \<Rightarrow> unit res \<times> loader" where
  "exec_body req r Finish s = (Ok (), s)"
| "exec_body req r (Raise x) s = (Thrown x, s)"
| "exec_body req r (Act f k) s =
     (let (h, v) = f (objects s) in exec_body req r (k v) (s\<lparr>objects := h\<rparr>))"
| "exec_body req r (Require i k) s =
     (case req i s of
        (Ok v, s') \<Rightarrow> exec_body req r (k (Inr v)) s'
      | (Thrown x, s') \<Rightarrow> exec_body req r (k (Inl x)) s'
      | (NoFuel, s') \<Rightarrow> (NoFuel, s'))"
| "exec_body req r (SetExports v b) s =
     exec_body req r b (update_module r (\<lambda>m. m\<lparr>mod_exports := v\<rparr>) s)"
| "exec_body req r (GetExports k) s = exec_body req r (k (exports_of s r)) s"

text \<open>
  \<open>n(r)\<close>: the exports of a module that is in the cache, finished or not; otherwise a new entry
  and one run of its body.  A missing module function throws when it is called, after the entry
  was made.  Fuel bounds the nesting of requires only.
\<close>

fun n_require :: "modules \<Rightarrow> nat \<Rightarrow> nat \<Rightarrow> loader \<Rightarrow> val res \<times> loader" where
  "n_require e 0 r s = (case cache s r of Some m \<Rightarrow> (Ok (mod_exports m), s) | None \<Rightarrow> (NoFuel, s))"
| "n_require e (Suc k) r s =
     (case cache s r of
        Some m \<Rightarrow> (Ok (mod_exports m), s)
      | None \<Rightarrow>
          (let s1 = new_module r s in
           if r < length e then
             (case exec_body (n_require e k) r ((e ! r) (exports_of s1 r)) (s1\<lparr>started := started s1 @ [r]\<rparr>) of
                (Ok _, s2) \<Rightarrow>
                  (let s3 = update_module r (\<lambda>m. m\<lparr>mod_l := True\<rparr>) s2 in (Ok (exports_of s3 r), s3))
              | (Thrown x, s2) \<Rightarrow> (Thrown x, s2)
              | (NoFuel, s2) \<Rightarrow> (NoFuel, s2))
           else (Thrown (ErrVal (''Cannot read property '' @ quoted ''call'' @ '' of undefined'')), s1)))"

text \<open>The loader with fuel for one nesting level per module.\<close>

definition load :: "modules \<Rightarrow> nat \<Rightarrow> loader \<Rightarrow> val res \<times> loader" where
  "load e r s = n_require e (Suc (length e)) r s"

text \<open>Further requires, one after the other, whatever becomes of each.\<close>

fun load_all :: "modules \<Rightarrow> nat list \<Rightarrow> loader \<Rightarrow> loader" where
  "load_all e [] s = s"
| "load_all e (r # rs) s = load_all e rs (snd (load e r s))"

text \<open>
  The module that stands for the package \<open>esprima\<close>, which is not part of the bundle: it exports
  what the wrapper found, or throws.
\<close>

definition external_esprima :: "val \<Rightarrow> val \<Rightarrow> body" where
  "external_esprima dep exports =
     (if dep = Undefined then Raise (ErrVal (''Cannot find module '' @ quoted ''esprima''))
      else SetExports dep Finish)"

section \<open>The wrappers\<close>

text \<open>
  What the wrapper finds where the script runs: the outcome of its \<open>typeof\<close> tests, \<open>require\<close>
  (\<open>None\<close> when it is missing or throws) and the properties of the global object \<open>this\<close>.
\<close>

record host_env =
  exports_object :: bool
  module_object :: bool
  define_amd :: bool
  host_require :: "string \<Rightarrow> val option"
  root :: "string \<Rightarrow> val"

datatype published =
    ModuleExports val
  | AmdDefine "string list"
  | ExportsProperty string val
  | GlobalProperty string val
  | Escaped val
  | Unfinished

definition publish :: "(val \<Rightarrow> published) \<Rightarrow> val res \<Rightarrow> published" where
  "publish f out = (case out of Ok v \<Rightarrow> f v | Thrown x \<Rightarrow> Escaped x | NoFuel \<Rightarrow> Unfinished)"

text \<open>\<open>n(n.s = entry)\<close> and its \<open>default\<close> export.\<close>

definition default_export :: "closures \<Rightarrow> modules \<Rightarrow> nat \<Rightarrow> val res" where
  "default_export c e entry =
     (case load e entry fresh_loader of
        (Ok v, s) \<Rightarrow>
          (case read_member c (objects s) v ''default'' of
             Some d \<Rightarrow> Ok d
           | None \<Rightarrow> Thrown (ErrVal ''cannot read default''))
      | (Thrown x, s) \<Rightarrow> Thrown x
      | (NoFuel, s) \<Rightarrow> NoFuel)"

definition umd_with_esprima :: "closures \<Rightarrow> string \<Rightarrow> nat \<Rightarrow> (val \<Rightarrow> modules) \<Rightarrow> host_env \<Rightarrow> published" where
  "umd_with_esprima c name entry e h =
     (let dep = (case host_require h ''esprima'' of Some v \<Rightarrow> v | None \<Rightarrow> Undefined) in
      if exports_object h \<and> module_object h then publish ModuleExports (default_export c (e dep) entry)
      else if define_amd h then AmdDefine [''esprima'']
      else if exports_object h then publish (ExportsProperty name) (default_export c (e dep) entry)
      else publish (GlobalProperty name) (default_export c (e (root h ''esprima'')) entry))"

definition swagger_ui_bundle :: "closures \<Rightarrow> (val \<Rightarrow> modules) \<Rightarrow> host_env \<Rightarrow> published" where
  "swagger_ui_bundle c e h = umd_with_esprima c ''SwaggerUIBundle'' 556 e h"

definition swagger_ui_standalone_preset :: "closures \<Rightarrow> (val \<Rightarrow> modules) \<Rightarrow> host_env \<Rightarrow> published" where
  "swagger_ui_standalone_preset c e h = umd_with_esprima c ''SwaggerUIStandalonePreset'' 243 e h"

text \<open>The core bundle has no dependency to pass.\<close>

definition swagger_ui :: "closures \<Rightarrow> modules \<Rightarrow> host_env \<Rightarrow> published" where
  "swagger_ui c e h =
     (if exports_object h \<and> module_object h then publish ModuleExports (default_export c e 418)
      else if define_amd h then AmdDefine []
      else if exports_object h then publish (ExportsProperty ''SwaggerUICore'') (default_export c e 418)
      else publish (GlobalProperty ''SwaggerUICore'') (default_export c e 418))"

text \<open>The bundles for bundlers assign \<open>module.exports\<close> unconditionally.\<close>

definition swagger_ui_es_bundle :: "closures \<Rightarrow> modules \<Rightarrow> published" where
  "swagger_ui_es_bundle c e = publish ModuleExports (default_export c e 556)"

definition swagger_ui_es_bundle_core :: "closures \<Rightarrow> modules \<Rightarrow> published" where
  "swagger_ui_es_bundle_core c e = publish ModuleExports (default_export c e 418)"

section \<open>The cache only grows\<close>

text \<open>
  From \<open>s\<close> to \<open>s'\<close> entries outside \<open>X\<close> stay as they are, entries in \<open>X\<close> keep all but their exports,
  and the bodies started in between are distinct and were not in the cache.
\<close>

definition grows :: "nat set \<Rightarrow> loader \<Rightarrow> loader \<Rightarrow> bool" where
  "grows X s s' =
     ((\<forall>i m. cache s i = Some m \<longrightarrow>
         (\<exists>v. cache s' i = Some (m\<lparr>mod_exports := v\<rparr>) \<and> (i \<notin> X \<longrightarrow> v = mod_exports m))) \<and>
      (\<exists>new. started s' = started s @ new \<and> distinct new \<and> set new \<inter> dom (cache s) = {} \<and>
         set new \<subseteq> dom (cache s')))"

lemma grows_dom: "grows X s s' \<Longrightarrow> dom (cache s) \<subseteq> dom (cache s')"
  unfolding grows_def dom_def by blast

lemma module_rec_exports_id: "m\<lparr>mod_exports := mod_exports m\<rparr> = (m :: module_rec)"
  by simp

lemma grows_same: "cache s' = cache s \<Longrightarrow> started s' = started s \<Longrightarrow> grows X s s'"
  unfolding grows_def by (metis module_rec_exports_id append_Nil2 distinct.simps(1) empty_set empty_subsetI inf_bot_left)

lemma grows_trans:
  assumes "grows X s s1" and "grows X s1 s2"
  shows "grows X s s2"
proof -
  obtain a b where n: "started s1 = started s @ a" "started s2 = started s1 @ b" "distinct a" "distinct b"
      "set a \<inter> dom (cache s) = {}" "set b \<inter> dom (cache s1) = {}"
      "set a \<subseteq> dom (cache s1)" "set b \<subseteq> dom (cache s2)"
    using assms unfolding grows_def by blast
  moreover note d = grows_dom [OF assms(1)] grows_dom [OF assms(2)]
  ultimately have "set (a @ b) \<inter> dom (cache s) = {}" "set (a @ b) \<subseteq> dom (cache s2)"
      "distinct (a @ b)" "started s2 = started s @ a @ b"
    by (simp_all add: Int_Un_distrib2) blast+
  moreover have "\<exists>v. cache s2 i = Some (m\<lparr>mod_exports := v\<rparr>) \<and> (i \<notin> X \<longrightarrow> v = mod_exports m)"
    if "cache s i = Some m" for i m
  proof -
    obtain v where v: "cache s1 i = Some (m\<lparr>mod_exports := v\<rparr>)" "i \<notin> X \<longrightarrow> v = mod_exports m"
      using assms(1) \<open>cache s i = Some m\<close> unfolding grows_def by blast
    then obtain u where "cache s2 i = Some (m\<lparr>mod_exports := v\<rparr>\<lparr>mod_exports := u\<rparr>)" "i \<notin> X \<longrightarrow> u = v"
      using assms(2) unfolding grows_def by fastforce
    then show ?thesis using v(2) by auto
  qed
  ultimately show ?thesis unfolding grows_def by blast
qed

lemma grows_mono: "grows X s s' \<Longrightarrow> X \<subseteq> Y \<Longrightarrow> grows Y s s'"
  unfolding grows_def by blast

lemma grows_set_exports: "grows {r} s (update_module r (\<lambda>m. m\<lparr>mod_exports := v\<rparr>) s)"
  by (auto simp: grows_def update_module_def)

text \<open>The interface of the loader function that a body is given: what one require may change.\<close>

locale requirer =
  fixes req :: "nat \<Rightarrow> loader \<Rightarrow> val res \<times> loader"
  assumes req_grows: "grows {} s (snd (req i s))"
begin

lemma body_grows: "grows {r} s (snd (exec_body req r b s))"
proof (induction b arbitrary: s)
  case (Act f k)
  let ?s1 = "s\<lparr>objects := fst (f (objects s))\<rparr>"
  have "grows {r} s ?s1" by (rule grows_same) simp_all
  moreover have "grows {r} ?s1 (snd (exec_body req r (k (snd (f (objects s)))) ?s1))" by (rule Act) simp
  ultimately show ?case by (simp add: split_beta Let_def) (rule grows_trans)
next
  case (Require i k)
  have "grows {r} s (snd (req i s))" using req_grows by (rule grows_mono) simp
  with Require show ?case
    by (auto split: prod.split res.split intro: grows_trans)
next
  case (SetExports v b)
  from SetExports [of "update_module r (\<lambda>m. m\<lparr>mod_exports := v\<rparr>) s"] show ?case
    by (simp only: exec_body.simps) (rule grows_trans [OF grows_set_exports])
qed (auto intro: grows_same)

end

text \<open>A require that cannot run out of fuel while enough of it is left for the uncached modules.\<close>

definition pending :: "modules \<Rightarrow> loader \<Rightarrow> nat" where
  "pending e s = card {r. r < length e \<and> cache s r = None}"

lemma pending_antimono: "dom (cache s) \<subseteq> dom (cache s') \<Longrightarrow> pending e s' \<le> pending e s"
  unfolding pending_def by (rule card_mono) auto

lemma pending_decreases:
  assumes "r < length e" "cache s r = None" "cache s' = (cache s)(r \<mapsto> m)"
  shows "pending e s' < pending e s"
proof -
  have "{i. i < length e \<and> cache s' i = None} = {i. i < length e \<and> cache s i = None} - {r}"
    using assms(3) by auto
  moreover have "card ({i. i < length e \<and> cache s i = None} - {r}) < card {i. i < length e \<and> cache s i = None}"
    using assms(1,2) by (intro card_Diff1_less) auto
  ultimately show ?thesis unfolding pending_def by simp
qed

locale fuelled_requirer = requirer +
  fixes e :: modules and k :: nat
  assumes req_returns: "pending e s < k \<Longrightarrow> fst (req i s) \<noteq> NoFuel"
begin

lemma body_returns: "pending e s < k \<Longrightarrow> fst (exec_body req r b s) \<noteq> NoFuel"
proof (induction b arbitrary: s)
  case (Act f b)
  have "pending e (s\<lparr>objects := h\<rparr>) = pending e s" for h by (simp add: pending_def)
  with Act show ?case by (auto simp: split_beta Let_def)
next
  case (Require i b)
  have "pending e (snd (req i s)) < k"
    using Require.prems pending_antimono [OF grows_dom [OF req_grows]] by (rule le_less_trans [rotated])
  then show ?case
    using Require.IH [of _ "snd (req i s)"] req_returns [OF Require.prems, of i]
    by (auto split: prod.split res.split)
next
  case (SetExports v b)
  have "pending e (update_module r f s) = pending e s" for f
    unfolding pending_def update_module_def by (rule arg_cong [where f = card]) auto
  with SetExports show ?case by simp
qed simp_all

end

text \<open>The loader satisfies both contracts, at every amount of fuel.\<close>

lemma new_module_then_body:
  assumes "cache s r = None" "grows {r} (s1\<lparr>started := started s1 @ [r]\<rparr>) s2" "s1 = new_module r s"
  shows "grows {} s s2"
    and "\<exists>v. cache s2 r = Some \<lparr>mod_i = r, mod_l = False, mod_exports = v\<rparr>"
proof -
  let ?m = "\<lparr>mod_i = r, mod_l = False, mod_exports = Ref (length (objects s))\<rparr>"
  have c: "cache s1 = (cache s)(r \<mapsto> ?m)" "started s1 = started s" by (simp_all add: assms(3) new_module_def)
  obtain a where a: "started s2 = started s @ r # a" "distinct a" "set a \<inter> insert r (dom (cache s)) = {}"
      "set a \<subseteq> dom (cache s2)"
    using assms(2) c unfolding grows_def by auto
  have e: "\<exists>v. cache s2 i = Some (m\<lparr>mod_exports := v\<rparr>) \<and> (i \<noteq> r \<longrightarrow> v = mod_exports m)"
    if "cache s1 i = Some m" for i m
    using assms(2) that unfolding grows_def by auto
  from e [of r ?m] c show r: "\<exists>v. cache s2 r = Some \<lparr>mod_i = r, mod_l = False, mod_exports = v\<rparr>" by auto
  have "cache s2 i = Some m" if "cache s i = Some m" for i m
  proof -
    have "i \<noteq> r" using that assms(1) by auto
    then have "cache s1 i = Some m" using that c by simp
    from e [OF this] \<open>i \<noteq> r\<close> show ?thesis by auto
  qed
  moreover have "distinct (r # a) \<and> set (r # a) \<inter> dom (cache s) = {} \<and> set (r # a) \<subseteq> dom (cache s2)"
    using a r assms(1) by auto
  ultimately show "grows {} s s2" unfolding grows_def using a(1) by (auto intro!: exI [of _ "r # a"])
qed

lemma loaded_grows: "grows {} s s2 \<Longrightarrow> cache s r = None \<Longrightarrow> grows {} s (update_module r f s2)"
  unfolding grows_def update_module_def by (auto 0 3)

lemma n_require_cached [simp]: "cache s r = Some m \<Longrightarrow> n_require e k r s = (Ok (mod_exports m), s)"
  by (cases k) simp_all

lemma n_require_missing:
  "cache s r = None \<Longrightarrow> \<not> r < length e \<Longrightarrow>
   \<exists>x. n_require e (Suc k) r s = (Thrown x, new_module r s)"
  by simp

lemma requirer_n_require: "requirer (n_require e k)"
proof (induction k)
  case 0
  show ?case by unfold_locales (auto split: option.split intro: grows_same)
next
  case (Suc k)
  show ?case
  proof unfold_locales
    fix i s
    show "grows {} s (snd (n_require e (Suc k) i s))"
    proof (cases "cache s i")
      case None
      let ?s1 = "new_module i s"
      let ?run = "exec_body (n_require e k) i ((e ! i) (exports_of ?s1 i)) (?s1\<lparr>started := started ?s1 @ [i]\<rparr>)"
      have b: "grows {} s (snd ?run)"
        by (rule new_module_then_body(1) [OF None requirer.body_grows [OF Suc.IH] refl])
      have m: "grows {} s ?s1"
        using None by (auto simp: grows_def new_module_def module_rec_exports_id)
      show ?thesis
        using None b m loaded_grows [OF b None]
        by (auto simp: Let_def split: prod.split res.split)
    qed (auto intro: grows_same)
  qed
qed

interpretation loader_calls: requirer "n_require e k" for e k
  by (rule requirer_n_require)

lemma fuelled_n_require: "fuelled_requirer (n_require e k) e k"
proof (induction k)
  case 0
  show ?case by unfold_locales simp
next
  case (Suc k)
  show ?case
  proof unfold_locales
    fix i s
    assume p: "pending e s < Suc k"
    show "fst (n_require e (Suc k) i s) \<noteq> NoFuel"
    proof (cases "cache s i")
      case None
      let ?s1 = "new_module i s"
      let ?s2 = "?s1\<lparr>started := started ?s1 @ [i]\<rparr>"
      have "cache ?s2 = (cache s)(i \<mapsto> \<lparr>mod_i = i, mod_l = False, mod_exports = Ref (length (objects s))\<rparr>)"
        by (simp add: new_module_def)
      then have "pending e ?s2 < k" if "i < length e"
        using pending_decreases [OF that None] p by (meson less_Suc_eq_le less_le_trans)
      then have "fst (exec_body (n_require e k) i b ?s2) \<noteq> NoFuel" if "i < length e" for b
        using fuelled_requirer.body_returns [OF Suc.IH] that by blast
      then show ?thesis using None by (auto simp: Let_def split: prod.split res.split) (metis fst_conv)
    qed simp
  qed
qed

interpretation loader_fuel: fuelled_requirer "n_require e k" e k for e k
  by (rule fuelled_n_require)

lemma load_returns: "fst (load e r s) \<noteq> NoFuel"
proof -
  have "pending e s \<le> card {..< length e}" unfolding pending_def by (rule card_mono) auto
  then show ?thesis unfolding load_def by (intro loader_fuel.req_returns) simp
qed

lemma load_grows: "grows {} s (snd (load e r s))"
  unfolding load_def by (rule loader_calls.req_grows)

lemma load_all_grows: "grows {} s (load_all e rs s)"
  by (induction rs arbitrary: s) (auto intro: grows_same grows_trans load_grows)

lemma grows_cache: "grows {} s s' \<Longrightarrow> cache s r = Some m \<Longrightarrow> cache s' r = Some m"
  unfolding grows_def by auto

text \<open>What a first require leaves in the cache.\<close>

lemma first_load:
  assumes "cache s r = None" and "load e r s = (out, s')"
  shows "case out of
           Ok v \<Rightarrow> cache s' r = Some \<lparr>mod_i = r, mod_l = True, mod_exports = v\<rparr>
         | Thrown x \<Rightarrow> \<exists>v. cache s' r = Some \<lparr>mod_i = r, mod_l = False, mod_exports = v\<rparr>
         | NoFuel \<Rightarrow> False"
proof -
  let ?s1 = "new_module r s"
  let ?run = "exec_body (n_require e (length e)) r ((e ! r) (exports_of ?s1 r)) (?s1\<lparr>started := started ?s1 @ [r]\<rparr>)"
  have "\<exists>v. cache (snd ?run) r = Some \<lparr>mod_i = r, mod_l = False, mod_exports = v\<rparr>"
    by (rule new_module_then_body(2) [OF assms(1) loader_calls.body_grows refl])
  moreover have "out \<noteq> NoFuel" using load_returns [of e r s] assms(2) by simp
  ultimately show ?thesis
    using assms
    by (auto simp: load_def Let_def update_module_def exports_of_def new_module_def
        split: prod.splits res.splits if_splits)
qed

section \<open>Properties\<close>

text \<open>
  (C36) Whatever modules are required, in whatever order, and
  whatever throws: the body of a module is run at most once, and a required id is in the cache
  afterwards.
\<close>

theorem module_bodies_run_once:
  "distinct (started (load_all e rs fresh_loader)) \<and>
   set (started (load_all e rs fresh_loader)) \<union> set rs \<subseteq> dom (cache (load_all e rs fresh_loader))"
proof -
  have "set rs \<subseteq> dom (cache (load_all e rs s))" for s
  proof (induction rs arbitrary: s)
    case (Cons r rs)
    have "r \<in> dom (cache (snd (load e r s)))"
    proof (cases "cache s r")
      case None
      obtain out s' where run: "load e r s = (out, s')" by fastforce
      from first_load [OF None run] run show ?thesis by (auto split: res.splits)
    qed (auto simp: load_def)
    then have "r \<in> dom (cache (load_all e rs (snd (load e r s))))"
      using grows_dom [OF load_all_grows] by blast
    with Cons show ?case by simp
  qed simp
  moreover have "grows {} fresh_loader (load_all e rs fresh_loader)" by (rule load_all_grows)
  ultimately show ?thesis unfolding grows_def fresh_loader_def by fastforce
qed

text \<open>
  Loading ends, however the modules require each other, cycles
  included: the fuel given, one nesting level per module, is never used up.
\<close>

theorem loading_ends: "fst (load e r s) \<noteq> NoFuel"
  by (rule load_returns)

text \<open>
  A module that was required once gives the same exports to
  everybody who requires it later, whatever was loaded in between, and requiring it again
  changes nothing.
\<close>

theorem exports_are_shared:
  assumes "load e r s = (Ok v, s')"
  shows "load e r (load_all e rs s') = (Ok v, load_all e rs s')"
proof -
  obtain m where "cache s' r = Some m" "mod_exports m = v"
  proof (cases "cache s r")
    case None
    from first_load [OF None assms] that show ?thesis by simp
  next
    case (Some m)
    with assms that show ?thesis by (simp add: load_def)
  qed
  with grows_cache [OF load_all_grows] show ?thesis by (simp add: load_def)
qed

theorem exports_are_shared_witness:
  "load [external_esprima (NumVal 3)] 0 (load_all [external_esprima (NumVal 3)] [7] (snd (load [external_esprima (NumVal 3)] 0 fresh_loader)))
   = (Ok (NumVal 3), load_all [external_esprima (NumVal 3)] [7] (snd (load [external_esprima (NumVal 3)] 0 fresh_loader)))"
  by (rule exports_are_shared [of _ _ fresh_loader])
     (simp add: load_def external_esprima_def fresh_loader_def new_module_def exports_of_def update_module_def Let_def)

text \<open>
  A module whose body throws, or that does not exist,
  fails only the first time: its unfinished entry stays in the cache, and from then on requiring
  it quietly gives whatever it had exported before it threw.
\<close>

theorem failed_module_is_not_retried:
  assumes "cache s r = None" and "load e r s = (Thrown x, s')"
  shows "\<exists>v. cache s' r = Some \<lparr>mod_i = r, mod_l = False, mod_exports = v\<rparr> \<and>
             load e r (load_all e rs s') = (Ok v, load_all e rs s')"
proof -
  obtain v where "cache s' r = Some \<lparr>mod_i = r, mod_l = False, mod_exports = v\<rparr>"
    using first_load [OF assms] by auto
  with grows_cache [OF load_all_grows this] show ?thesis by (simp add: load_def)
qed

theorem failed_module_is_not_retried_witness:
  "\<exists>v. load [external_esprima Undefined] 0 (snd (load [external_esprima Undefined] 0 fresh_loader)) =
       (Ok v, snd (load [external_esprima Undefined] 0 fresh_loader))"
proof -
  have "load [external_esprima Undefined] 0 fresh_loader =
      (Thrown (ErrVal (''Cannot find module '' @ quoted ''esprima'')),
       snd (load [external_esprima Undefined] 0 fresh_loader))"
    by (simp add: load_def external_esprima_def fresh_loader_def new_module_def exports_of_def Let_def)
  from failed_module_is_not_retried [OF _ this, of "[]"] show ?thesis by (auto simp: fresh_loader_def)
qed

lemma default_export_ends: "default_export c e entry \<noteq> NoFuel"
  using load_returns [of e entry fresh_loader]
  by (auto simp: default_export_def split: prod.splits res.splits option.splits)

text \<open>
  On the documentation page, where neither \<open>exports\<close> nor
  \<open>define\<close> exists, both scripts end, and each either defines exactly the global that the page uses, as
  the default export of its entry module built with the global \<open>esprima\<close>, or throws what the
  loading of that module threw.
\<close>

theorem page_finds_the_bundles:
  assumes "\<not> exports_object h" and "\<not> define_amd h"
  shows "swagger_ui_bundle c e h =
           (case default_export c (e (root h ''esprima'')) 556 of
              Ok v \<Rightarrow> GlobalProperty ''SwaggerUIBundle'' v | Thrown x \<Rightarrow> Escaped x | NoFuel \<Rightarrow> Unfinished) \<and>
         swagger_ui_standalone_preset c e' h =
           (case default_export c (e' (root h ''esprima'')) 243 of
              Ok v \<Rightarrow> GlobalProperty ''SwaggerUIStandalonePreset'' v | Thrown x \<Rightarrow> Escaped x | NoFuel \<Rightarrow> Unfinished) \<and>
         swagger_ui_bundle c e h \<noteq> Unfinished \<and> swagger_ui_standalone_preset c e' h \<noteq> Unfinished"
  using assms default_export_ends
  by (auto simp: swagger_ui_bundle_def swagger_ui_standalone_preset_def umd_with_esprima_def publish_def
      split: res.split)

theorem page_finds_the_bundles_witness:
  "swagger_ui_bundle (\<lambda>_ _. Undefined) (\<lambda>_. [])
     \<lparr>exports_object = False, module_object = False, define_amd = False, host_require = (\<lambda>_. None), root = (\<lambda>_. Undefined)\<rparr>
   \<noteq> Unfinished"
  by (rule page_finds_the_bundles [THEN conjunct2, THEN conjunct2, THEN conjunct1]) simp_all

text \<open>
  \<open>n.n(e)\<close> leaves every existing object alone and returns a function that
  at each later time gives the default export an ES module has then, and any other value itself;
  its property \<open>a\<close> gives the same.
\<close>

theorem default_interop:
  assumes "n_n c h e = Some (f, h')" and "is_esModule c h e = Some esm"
    and "length h' \<le> length h2" and "h2 ! length h = h' ! length h"
  shows "call_val c h2 f = (if esm then read_member c h2 e ''default'' else Some e) \<and>
         read_member c h2 f ''a'' = call_val c h2 f \<and> take (length h) h' = h"
proof -
  let ?g = "if esm then ReturnsMember e ''default'' else Returns e"
  let ?h1 = "h @ [\<lparr>props = [], callee = Some ?g\<rparr>]"
  have f: "f = Ref (length h)" "h' = n_d ?h1 (length h) ''a'' ?g"
    using assms(1,2) by (auto simp: n_n_def Let_def)
  then have "h' = h @ [\<lparr>props = [(''a'', Accessor True ?g)], callee = Some ?g\<rparr>]"
    by (simp add: n_d_def n_o_def define_property_def)
  then have "h2 ! length h = \<lparr>props = [(''a'', Accessor True ?g)], callee = Some ?g\<rparr>" "length h < length h2"
      "take (length h) h' = h"
    using assms(3,4) by simp_all
  then show ?thesis by (simp add: f(1) call_val_def member_Ref apply_getter_def)
qed

theorem default_interop_witness:
  "call_val (\<lambda>_ _. Undefined) (snd (the (n_n (\<lambda>_ _. Undefined) [] (NumVal 1)))) (fst (the (n_n (\<lambda>_ _. Undefined) [] (NumVal 1))))
     = Some (NumVal 1)"
proof -
  let ?c = "\<lambda>_ _. Undefined" and ?h' = "snd (the (n_n (\<lambda>_ _. Undefined) [] (NumVal 1)))"
  have e: "is_esModule ?c [] (NumVal 1) = Some False" by (simp add: is_esModule_def read_member.simps)
  then have "n_n ?c [] (NumVal 1) = Some (fst (the (n_n ?c [] (NumVal 1))), ?h')"
    by (simp add: n_n_def Let_def)
  from default_interop [OF this e, of ?h'] show ?thesis by simp
qed

end
