(* ===== verification/Percent.thy ===== *)
theory Percent
  imports Prelude
begin

text \<open>
  Percent encoding as JavaScript does it: \<open>encodeURIComponent\<close>, \<open>decodeURIComponent\<close>, and what every
  encoder of this kind has in common, as the locale \<open>percent_encoding\<close>: decoding undoes it and the
  result has only harmless bytes.  Strings are given by their UTF-8 bytes; a string with unpaired
  surrogates has none and is not covered.
\<close>

section \<open>Percent encoding\<close>

text \<open>The characters that \<open>encodeURIComponent\<close> leaves alone.\<close>

definition unreserved :: "char \<Rightarrow> bool" where
  "unreserved c =
     (let m = of_char c :: nat in
      48 \<le> m \<and> m \<le> 57 \<or> 65 \<le> m \<and> m \<le> 90 \<or> 97 \<le> m \<and> m \<le> 122 \<or>
      m = 45 \<or> m = 95 \<or> m = 46 \<or> m = 33 \<or> m = 126 \<or> m = 42 \<or> m = 39 \<or> m = 40 \<or> m = 41)"

definition hex_digit :: "nat \<Rightarrow> char" where
  "hex_digit d = char_of (if d < 10 then 48 + d else 55 + d)"

definition hex_value :: "char \<Rightarrow> nat option" where
  "hex_value c =
     (let m = of_char c :: nat in
      if 48 \<le> m \<and> m \<le> 57 then Some (m - 48)
      else if 65 \<le> m \<and> m \<le> 70 then Some (m - 55)
      else if 97 \<le> m \<and> m \<le> 102 then Some (m - 87)
      else None)"

definition percent :: "char \<Rightarrow> string" where
  "percent c = [CHR 0x25, hex_digit (of_char c div 16), hex_digit (of_char c mod 16)]"

text \<open>Every byte that is not to be kept is escaped.\<close>

definition percent_encode :: "(char \<Rightarrow> bool) \<Rightarrow> string \<Rightarrow> string" where
  "percent_encode kept s = concat (map (\<lambda>c. if kept c then [c] else percent c) s)"

definition encodeURIComponent :: "string \<Rightarrow> string" where
  "encodeURIComponent s = percent_encode unreserved s"

text \<open>
  Decoding: the bytes of the string, each marked with whether it was escaped.  Escaped bytes must
  form whole UTF-8 sequences, otherwise \<open>decodeURIComponent\<close> throws a \<open>URIError\<close> (\<open>None\<close>).
\<close>

fun unescape :: "string \<Rightarrow> (bool \<times> char) list option" where
  "unescape [] = Some []"
| "unescape (c # s) =
     (if c = CHR 0x25
      then (case s of
              a # b # r \<Rightarrow>
                (case (hex_value a, hex_value b) of
                   (Some x, Some y) \<Rightarrow> map_option (Cons (True, char_of (16 * x + y))) (unescape r)
                 | _ \<Rightarrow> None)
            | _ \<Rightarrow> None)
      else map_option (Cons (False, c)) (unescape s))"

text \<open>The ranges of the continuation bytes that a first byte asks for.\<close>

definition continuation :: "nat \<Rightarrow> (nat \<times> nat) list option" where
  "continuation m =
     (if m < 128 then Some []
      else if 194 \<le> m \<and> m \<le> 223 then Some [(128, 191)]
      else if m = 224 then Some [(160, 191), (128, 191)]
      else if m = 237 then Some [(128, 159), (128, 191)]
      else if 225 \<le> m \<and> m \<le> 239 then Some [(128, 191), (128, 191)]
      else if m = 240 then Some [(144, 191), (128, 191), (128, 191)]
      else if 241 \<le> m \<and> m \<le> 243 then Some [(128, 191), (128, 191), (128, 191)]
      else if m = 244 then Some [(128, 143), (128, 191), (128, 191)]
      else None)"

fun utf8_ok :: "(nat \<times> nat) list \<Rightarrow> (bool \<times> char) list \<Rightarrow> bool" where
  "utf8_ok rs [] = (rs = [])"
| "utf8_ok [] ((escaped, c) # cs) =
     (if escaped then (case continuation (of_char c) of None \<Rightarrow> False | Some rs \<Rightarrow> utf8_ok rs cs)
      else utf8_ok [] cs)"
| "utf8_ok ((lo, hi) # rs) ((escaped, c) # cs) =
     (escaped \<and> lo \<le> of_char c \<and> of_char c \<le> hi \<and> utf8_ok rs cs)"

definition decodeURIComponent :: "string \<Rightarrow> string option" where
  "decodeURIComponent s =
     (case unescape s of
        None \<Rightarrow> None
      | Some cs \<Rightarrow> if utf8_ok [] cs then Some (map snd cs) else None)"

text \<open>A byte string that is UTF-8.\<close>

definition is_utf8 :: "string \<Rightarrow> bool" where
  "is_utf8 s = utf8_ok [] (map (Pair True) s)"

section \<open>Percent encoding is undone by decoding\<close>

lemma unescape_plain: "c \<noteq> CHR 0x25 \<Longrightarrow> unescape (c # s) = map_option (Cons (False, c)) (unescape s)"
  by simp

lemma hex_value_digit: "d < 16 \<Longrightarrow> hex_value (hex_digit d) = Some d"
  by (auto simp: hex_value_def hex_digit_def Let_def)

lemma high_digit_less: "(of_char (c :: char) :: nat) div 16 < 16"
  using of_char_less [of c] by (simp add: less_mult_imp_div_less)

lemma unescape_percent: "unescape (percent c @ s) = map_option (Cons (True, c)) (unescape s)"
  using high_digit_less [of c] by (simp add: percent_def hex_value_digit)

lemma continuation_high: "continuation m = Some rs \<Longrightarrow> (lo, hi) \<in> set rs \<Longrightarrow> 128 \<le> lo"
  by (auto simp: continuation_def split: if_splits)

lemma utf8_ok_append: "utf8_ok rs a \<Longrightarrow> utf8_ok rs (a @ b) = utf8_ok [] b"
  by (induction rs a rule: utf8_ok.induct) (auto split: option.splits if_splits)

lemma decode_Nil [simp]: "decodeURIComponent [] = Some []"
  by (simp add: decodeURIComponent_def)

lemma decode_plain: "c \<noteq> CHR 0x25 \<Longrightarrow> decodeURIComponent (c # r) = map_option (Cons c) (decodeURIComponent r)"
  by (simp add: decodeURIComponent_def split: option.split)

text \<open>An encoder of this kind keeps only ASCII characters, the hexadecimal digits among them, and escapes the percent sign.\<close>

locale percent_encoding =
  fixes kept :: "char \<Rightarrow> bool"
  assumes kept_ascii: "kept c \<Longrightarrow> (of_char c :: nat) < 128"
    and percent_escaped: "\<not> kept (CHR 0x25)"
    and digits_kept: "d < 16 \<Longrightarrow> kept (hex_digit d)"
begin

lemma kept_not_percent: "kept c \<Longrightarrow> c \<noteq> CHR 0x25"
  using percent_escaped by auto

lemma utf8_ok_marks:
  "(\<And>lo hi. (lo, hi) \<in> set rs \<Longrightarrow> 128 \<le> lo) \<Longrightarrow>
   utf8_ok rs (map (\<lambda>c. (\<not> kept c, c)) s) = utf8_ok rs (map (Pair True) s)"
proof (induction s arbitrary: rs)
  case (Cons c s)
  show ?case
  proof (cases rs)
    case Nil
    have "kept c \<Longrightarrow> continuation (of_char c) = Some []"
      using kept_ascii by (simp add: continuation_def)
    then show ?thesis
      using Nil Cons.IH [OF continuation_high] Cons.IH [of "[]"]
      by (cases "kept c") (auto split: option.split)
  next
    case (Cons r rs')
    obtain lo hi where r: "r = (lo, hi)" by fastforce
    then have "128 \<le> lo" using Cons Cons.prems by auto
    then show ?thesis
      using Cons r Cons.prems Cons.IH [of rs'] kept_ascii [of c] by auto
  qed
qed simp

lemma unescape_encode_append:
  "unescape (percent_encode kept s @ r) = map_option (append (map (\<lambda>c. (\<not> kept c, c)) s)) (unescape r)"
proof (induction s)
  case Nil
  have "append [] = (\<lambda>xs :: (bool \<times> char) list. xs)" by (simp add: fun_eq_iff)
  then show ?case by (simp add: percent_encode_def option.map_ident)
next
  case (Cons c s)
  with kept_not_percent [of c] show ?case
    by (auto simp: percent_encode_def unescape_percent option.map_comp comp_def)
qed

lemma decode_append:
  assumes "is_utf8 s"
  shows "decodeURIComponent (percent_encode kept s @ r) = map_option (append s) (decodeURIComponent r)"
proof -
  have "utf8_ok [] (map (\<lambda>c. (\<not> kept c, c)) s)"
    using assms utf8_ok_marks [of "[]"] by (simp add: is_utf8_def)
  then show ?thesis
    by (simp add: decodeURIComponent_def unescape_encode_append utf8_ok_append comp_def split: option.split)
qed

lemma decode_encoded: "is_utf8 s \<Longrightarrow> decodeURIComponent (percent_encode kept s) = Some s"
  using decode_append [of s "[]"] by simp

lemma encoded_bytes: "c \<in> set (percent_encode kept s) \<Longrightarrow> kept c \<or> c = CHR 0x25"
proof (induction s)
  case (Cons x s)
  have "y \<in> set (percent x) \<Longrightarrow> kept y \<or> y = CHR 0x25" for y
    using high_digit_less [of x] by (auto simp: percent_def digits_kept)
  with Cons show ?case by (auto simp: percent_encode_def split: if_splits)
qed (simp add: percent_encode_def)

lemma encoded_avoids: "\<not> kept c \<Longrightarrow> c \<noteq> CHR 0x25 \<Longrightarrow> c \<notin> set (percent_encode kept s)"
  using encoded_bytes by blast

lemma encoded_eq_iff: "percent_encode kept s = percent_encode kept t \<longleftrightarrow> s = t"
proof
  assume "percent_encode kept s = percent_encode kept t"
  then have "map (\<lambda>c. (\<not> kept c, c)) s = map (\<lambda>c. (\<not> kept c, c)) t"
    using unescape_encode_append [of s "[]"] unescape_encode_append [of t "[]"] by simp
  then have "map snd (map (\<lambda>c. (\<not> kept c, c)) s) = map snd (map (\<lambda>c. (\<not> kept c, c)) t)" by simp
  then show "s = t" by (simp add: comp_def)
qed simp

lemma encoded_eq_Nil: "percent_encode kept s = [] \<longleftrightarrow> s = []"
  by (cases s) (auto simp: percent_encode_def percent_def)

end

interpretation uri: percent_encoding unreserved
  by unfold_locales (auto simp: unreserved_def hex_digit_def Let_def)

lemmas decode_encode_append = uri.decode_append [folded encodeURIComponent_def]
lemmas decode_encode = uri.decode_encoded [folded encodeURIComponent_def]
lemmas encode_bytes = uri.encoded_bytes [folded encodeURIComponent_def]
lemmas encode_avoids = uri.encoded_avoids [folded encodeURIComponent_def]
lemmas encode_eq_Nil [simp] = uri.encoded_eq_Nil [folded encodeURIComponent_def]

text \<open>Splitting at a single character.\<close>

lemma split_acc_last: "c \<notin> set x \<Longrightarrow> split_acc [c] acc x = [rev acc @ x]"
  by (induction x arbitrary: acc) (auto simp: starts_with_def)

lemma split_acc_piece: "c \<notin> set x \<Longrightarrow> split_acc [c] acc (x @ c # r) = (rev acc @ x) # split_acc [c] [] r"
  by (induction x arbitrary: acc) (auto simp: starts_with_def)

lemma split_last: "c \<notin> set x \<Longrightarrow> split x [c] = [x]"
  by (simp add: split_def split_acc_last)

lemma split_piece: "c \<notin> set x \<Longrightarrow> split (x @ c # r) [c] = x # split r [c]"
  by (simp add: split_def split_acc_piece)

lemma split_acc_avoids: "c \<notin> set acc \<Longrightarrow> p \<in> set (split_acc [c] acc s) \<Longrightarrow> c \<notin> set p"
proof (induction s arbitrary: acc)
  case (Cons a s)
  then show ?case using Cons.IH [of "[]"] Cons.IH [of "a # acc"] by (auto simp: starts_with_def split: if_splits)
qed simp

lemma split_avoids: "p \<in> set (split s [c]) \<Longrightarrow> c \<notin> set p"
  unfolding split_def by (rule split_acc_avoids [of c "[]"]) simp_all

lemma split_join:
  "xs \<noteq> [] \<Longrightarrow> (\<And>x. x \<in> set xs \<Longrightarrow> c \<notin> set x) \<Longrightarrow> split (join [c] xs) [c] = xs"
  by (induction "[c]" xs rule: join.induct) (simp_all add: split_last split_piece)

end
