(* ===== verification/Swagger_UI.thy ===== *)
theory Swagger_UI
  imports Percent
begin

text \<open>
  The deep links of Swagger UI, which the documentation page of the broker switches on
  (\<open>deepLinking: true\<close> in \<^verbatim>\<open>src/files/swagger/index.html\<close>), and the query string that configures the
  page: the plugin \<open>deep-linking\<close>, the part of the layout state it works on and the helper
  \<open>createDeepLinkPath\<close>, on the one line of \<^verbatim>\<open>src/files/swagger/swagger-ui.js\<close> (and of the bundles that
  contain the same modules), and the helpers \<open>serializeSearch\<close> and \<open>parseSearch\<close> of the top bar, in
  \<^verbatim>\<open>src/files/swagger/swagger-ui-standalone-preset.js\<close>.

  White space is ASCII white space.
\<close>

section \<open>Links\<close>

definition white :: "char \<Rightarrow> bool" where
  "white c = (c = CHR '' '' \<or> (9 \<le> (of_char c :: nat) \<and> (of_char c :: nat) \<le> 13))"

definition trim :: "string \<Rightarrow> string" where
  "trim s = rev (dropWhile white (rev (dropWhile white s)))"

definition createDeepLinkPath :: "string \<Rightarrow> string" where
  "createDeepLinkPath s = concat (map (\<lambda>c. if white c then ''%20'' else [c]) (trim s))"

text \<open>What is expanded on the page, what it is to scroll to, and the fragment of its address.\<close>

record page =
  shown :: "string list \<rightharpoonup> bool"
  scrollToKey :: "string list option"
  hash :: string

definition setHash :: "string \<Rightarrow> page \<Rightarrow> page" where
  "setHash v p = p\<lparr>hash := (if v \<noteq> [] then ''#'' @ v else [])\<rparr>"

definition isShown :: "page \<Rightarrow> string list \<Rightarrow> bool \<Rightarrow> bool" where
  "isShown p thing def = (case shown p thing of Some b \<Rightarrow> b | None \<Rightarrow> def)"

text \<open>The elements of a destructured array; a missing one is \<open>undefined\<close>.\<close>

definition element :: "'a list \<Rightarrow> nat \<Rightarrow> 'a option" where
  "element xs i = (if i < length xs then Some (xs ! i) else None)"

definition or_empty :: "string option \<Rightarrow> string" where
  "or_empty v = (case v of Some s \<Rightarrow> s | None \<Rightarrow> [])"

definition urlHashArrayFromIsShownKey :: "string list \<Rightarrow> string option list" where
  "urlHashArrayFromIsShownKey key =
     (if element key 0 = Some ''operations'' then [element key 1, element key 2]
      else if element key 0 = Some ''operations-tag'' then [element key 1]
      else [])"

definition isShownKeyFromUrlHashArray :: "string list \<Rightarrow> string list" where
  "isShownKeyFromUrlHashArray arr =
     (let tag = or_empty (element arr 0); operationId = or_empty (element arr 1) in
      if operationId \<noteq> [] then [''operations'', tag, operationId]
      else if tag \<noteq> [] then [''operations-tag'', tag]
      else [])"

definition encode_part :: "string option \<Rightarrow> string" where
  "encode_part v = encodeURIComponent (case v of Some s \<Rightarrow> s | None \<Rightarrow> ''undefined'')"

text \<open>The wrapped action \<open>show\<close>: the layout reducer, then the address.\<close>

definition show_action :: "bool \<Rightarrow> string list \<Rightarrow> bool \<Rightarrow> page \<Rightarrow> page" where
  "show_action deepLinking tokenArray isshown p =
     (let p1 = p\<lparr>shown := (shown p)(tokenArray \<mapsto> isshown)\<rparr>;
          urlHashArray = urlHashArrayFromIsShownKey tokenArray
      in if \<not> deepLinking \<or> urlHashArray = [] then p1
         else if \<not> isshown then setHash ''/'' p1
         else (case urlHashArray of
                 [type, assetName] \<Rightarrow>
                   setHash (createDeepLinkPath (''/'' @ encode_part type @ ''/'' @ encode_part assetName)) p1
               | [type] \<Rightarrow> setHash (createDeepLinkPath (''/'' @ encode_part type)) p1
               | _ \<Rightarrow> p1))"

definition strip_first :: "char \<Rightarrow> string \<Rightarrow> string" where
  "strip_first c s = (if s \<noteq> [] \<and> hd s = c then tl s else s)"

definition legacy_escape :: "string \<Rightarrow> string" where
  "legacy_escape s = map (\<lambda>c. if c = CHR ''_'' then CHR '' '' else c) s"

definition parseDeepLinkHash :: "bool \<Rightarrow> string \<Rightarrow> page \<Rightarrow> page" where
  "parseDeepLinkHash deepLinking rawHash p =
     (if \<not> deepLinking \<or> rawHash = [] then p
      else
        (let hash' = strip_first (CHR ''/'') (strip_first (CHR ''!'') (drop 1 rawHash));
             key = isShownKeyFromUrlHashArray (split hash' ''/'');
             tagId = or_empty (element key 1);
             maybeOperationId = or_empty (element key 2);
             p1 = (if element key 0 = Some ''operations''
                   then (let tagKey = isShownKeyFromUrlHashArray [tagId];
                             p0 = (if CHR ''_'' \<in> set tagId
                                   then show_action deepLinking (map legacy_escape tagKey) True p else p)
                         in show_action deepLinking tagKey True p0)
                   else p);
             p2 = (if CHR ''_'' \<in> set tagId \<or> CHR ''_'' \<in> set maybeOperationId
                   then show_action deepLinking (map legacy_escape key) True p1 else p1);
             p3 = show_action deepLinking key True p2
         in p3\<lparr>scrollToKey := Some key\<rparr>))"

text \<open>
  The wrapped action \<open>loaded\<close>, when the page starts.  An address that cannot be decoded throws,
  which the store catches and logs.
\<close>

definition loaded :: "bool \<Rightarrow> page \<Rightarrow> page" where
  "loaded deepLinking p =
     (case decodeURIComponent (hash p) of Some h \<Rightarrow> parseDeepLinkHash deepLinking h p | None \<Rightarrow> p)"

text \<open>\<open>readyToScroll\<close>: whether the element with this key is scrolled to now.\<close>

definition readyToScroll :: "string list \<Rightarrow> page \<Rightarrow> bool \<times> page" where
  "readyToScroll key p =
     (if scrollToKey p = Some key then (True, p\<lparr>scrollToKey := None\<rparr>) else (False, p))"

section \<open>The query string\<close>

definition serializeSearch :: "(string \<times> string) list \<Rightarrow> string" where
  "serializeSearch m = join ''&'' (map (\<lambda>(k, v). encodeURIComponent k @ ''='' @ encodeURIComponent v) m)"

text \<open>\<open>None\<close>: a part cannot be decoded, which throws.\<close>

fun parse_params :: "string list \<Rightarrow> (string \<times> string) list \<Rightarrow> (string \<times> string) list option" where
  "parse_params [] m = Some m"
| "parse_params (x # xs) m =
     (let i = split x ''=''; v = or_empty (element i 1) in
      case (decodeURIComponent (i ! 0), if v = [] then Some [] else decodeURIComponent v) of
        (Some k, Some w) \<Rightarrow> parse_params xs (assoc_set k w m)
      | _ \<Rightarrow> None)"

definition parseSearch :: "string \<Rightarrow> (string \<times> string) list option" where
  "parseSearch search = (if search = [] then Some [] else parse_params (split (drop 1 search) ''&'') [])"

lemma encode_no_white: "c \<in> set (encodeURIComponent s) \<Longrightarrow> \<not> white c"
  using encode_bytes [of c s] by (auto simp: white_def unreserved_def Let_def)

lemma slash_not_white [simp]: "\<not> white (CHR ''/'')"
  by (simp add: white_def)

lemma createDeepLinkPath_id: "(\<And>c. c \<in> set s \<Longrightarrow> \<not> white c) \<Longrightarrow> createDeepLinkPath s = s"
proof -
  assume w: "\<And>c. c \<in> set s \<Longrightarrow> \<not> white c"
  have keep: "dropWhile white t = t" if "set t \<subseteq> set s" for t
    using that w by (cases t) auto
  have "trim s = s" by (simp add: trim_def keep)
  moreover have "concat (map (\<lambda>c. if white c then ''%20'' else [c]) s) = s" using w by (induction s) auto
  ultimately show ?thesis by (simp add: createDeepLinkPath_def)
qed

section \<open>Deep links\<close>

lemma show_link:
  assumes "is_utf8 tag" "is_utf8 op"
  shows "hash (show_action True [''operations'', tag, op] True p) =
           ''#/'' @ encodeURIComponent tag @ ''/'' @ encodeURIComponent op"
    and "decodeURIComponent (''#/'' @ encodeURIComponent tag @ ''/'' @ encodeURIComponent op) =
           Some (''#/'' @ tag @ ''/'' @ op)"
proof -
  have "createDeepLinkPath (CHR ''/'' # encodeURIComponent tag @ CHR ''/'' # encodeURIComponent op) =
      CHR ''/'' # encodeURIComponent tag @ CHR ''/'' # encodeURIComponent op"
    by (rule createDeepLinkPath_id) (auto dest: encode_no_white)
  then show "hash (show_action True [''operations'', tag, op] True p) =
           ''#/'' @ encodeURIComponent tag @ ''/'' @ encodeURIComponent op"
    by (simp add: show_action_def urlHashArrayFromIsShownKey_def element_def encode_part_def setHash_def)
  show "decodeURIComponent (''#/'' @ encodeURIComponent tag @ ''/'' @ encodeURIComponent op) =
           Some (''#/'' @ tag @ ''/'' @ op)"
    using assms by (simp add: decode_plain decode_encode_append decode_encode)
qed

lemma shown_show: "shown (show_action dl key b p) = (shown p)(key \<mapsto> b)"
  by (simp add: show_action_def setHash_def Let_def split: list.split)

lemma hash_after_show: "hash (show_action True [''operations'', tag, op] True p) = hash (show_action True [''operations'', tag, op] True q)"
  by (simp add: show_action_def urlHashArrayFromIsShownKey_def element_def setHash_def)

lemma parse_operation:
  assumes "tag \<noteq> []" "op \<noteq> []" "CHR ''/'' \<notin> set tag" "CHR ''/'' \<notin> set op"
  shows "\<exists>q. parseDeepLinkHash True (''#/'' @ tag @ ''/'' @ op) p =
             (show_action True [''operations'', tag, op] True q)\<lparr>scrollToKey := Some [''operations'', tag, op]\<rparr> \<and>
             shown q [''operations-tag'', tag] = Some True"
proof -
  let ?key = "[''operations'', tag, op]"
  have "split (tag @ CHR ''/'' # op) ''/'' = [tag, op]"
    using assms by (simp add: split_piece split_last)
  then have key: "isShownKeyFromUrlHashArray (split (tag @ CHR ''/'' # op) ''/'') = ?key"
      "isShownKeyFromUrlHashArray [tag] = [''operations-tag'', tag]"
    using assms by (simp_all add: isShownKeyFromUrlHashArray_def element_def or_empty_def)
  show ?thesis
    by (simp add: parseDeepLinkHash_def strip_first_def key element_def or_empty_def Let_def)
       (auto simp: shown_show legacy_escape_def)
qed


text \<open>An empty page with an address.\<close>

definition page_at :: "string \<Rightarrow> page" where
  "page_at h = \<lparr>shown = Map.empty, scrollToKey = None, hash = h\<rparr>"


text \<open>
  A tag or an operation id with a slash cannot be linked to: the
  address is decoded before it is split at slashes, so the page that is loaded with it looks for
  another operation.
\<close>

theorem slash_breaks_deep_links:
  assumes "is_utf8 tag" "is_utf8 op" "CHR ''/'' \<in> set tag \<union> set op"
    and "hash q = hash (show_action True [''operations'', tag, op] True p)"
  shows "scrollToKey (loaded True q) \<noteq> Some [''operations'', tag, op]"
proof -
  let ?arr = "split (strip_first (CHR ''/'') (strip_first (CHR ''!'') (drop 1 (''#/'' @ tag @ ''/'' @ op)))) ''/''"
  have "loaded True q = parseDeepLinkHash True (''#/'' @ tag @ ''/'' @ op) q"
    using show_link [OF assms(1,2)] assms(4) by (simp add: loaded_def)
  then have "scrollToKey (loaded True q) = Some (isShownKeyFromUrlHashArray ?arr)"
    by (simp add: parseDeepLinkHash_def Let_def)
  moreover have "CHR ''/'' \<notin> set t \<union> set o'" if "isShownKeyFromUrlHashArray ?arr = [''operations'', t, o']" for t o'
  proof -
    have "CHR ''/'' \<notin> set (or_empty (element (split s ''/'') i))" for s i
      by (simp add: element_def or_empty_def) (meson nth_mem split_avoids)
    with that show ?thesis by (auto simp: isShownKeyFromUrlHashArray_def Let_def split: if_splits)
  qed
  from this [of tag op] assms(3) have "isShownKeyFromUrlHashArray ?arr \<noteq> [''operations'', tag, op]" by blast
  ultimately show ?thesis by simp
qed

theorem slash_breaks_deep_links_witness:
  "scrollToKey (loaded True (page_at (hash (show_action True [''operations'', ''a/b'', ''c''] True (page_at []))))) \<noteq>
     Some [''operations'', ''a/b'', ''c'']"
  by (rule slash_breaks_deep_links [of _ _ _ "page_at []"]) (simp_all add: page_at_def is_utf8_def continuation_def)

section \<open>The query string\<close>

lemma foldl_assoc_set:
  "distinct (map fst (acc @ m)) \<Longrightarrow> foldl (\<lambda>a (k, v). assoc_set k v a) acc m = acc @ m"
proof (induction m arbitrary: acc)
  case (Cons kv m)
  obtain k v where kv: "kv = (k, v)" by fastforce
  with Cons.prems have "assoc_set k v acc = acc @ [(k, v)]" by (auto intro!: assoc_set_fresh)
  with Cons.IH [of "acc @ [(k, v)]"] Cons.prems kv show ?case by simp
qed simp

text \<open>Whatever keeps neither the equals sign nor the ampersand can be read back.\<close>

context percent_encoding
begin

lemma parse_params_encoded:
  assumes "\<not> kept (CHR ''='')" "\<And>k v. (k, v) \<in> set m \<Longrightarrow> is_utf8 k \<and> is_utf8 v"
  shows "parse_params (map (\<lambda>(k, v). percent_encode kept k @ ''='' @ percent_encode kept v) m) acc =
           Some (foldl (\<lambda>a (k, v). assoc_set k v a) acc m)"
  using assms(2)
proof (induction m arbitrary: acc)
  case (Cons kv m)
  obtain k v where kv: "kv = (k, v)" by fastforce
  have "split (percent_encode kept k @ ''='' @ percent_encode kept v) ''='' = [percent_encode kept k, percent_encode kept v]"
    by (simp add: split_piece split_last encoded_avoids assms(1))
  moreover have "is_utf8 k" "is_utf8 v" using Cons.prems kv by auto
  ultimately show ?case
    using Cons by (auto simp: kv element_def or_empty_def decode_encoded encoded_eq_Nil)
qed simp

lemma parse_search_encoded:
  assumes "\<not> kept (CHR ''='')" "\<not> kept (CHR ''&'')"
    and "m \<noteq> []" "distinct (map fst m)" "\<And>k v. (k, v) \<in> set m \<Longrightarrow> is_utf8 k \<and> is_utf8 v"
  shows "parseSearch (''?'' @ join ''&'' (map (\<lambda>(k, v). percent_encode kept k @ ''='' @ percent_encode kept v) m)) = Some m"
proof -
  let ?part = "\<lambda>(k, v). percent_encode kept k @ ''='' @ percent_encode kept v"
  have "CHR ''&'' \<notin> set (?part kv)" for kv
    by (cases kv) (simp add: encoded_avoids assms(2))
  then have "split (join ''&'' (map ?part m)) ''&'' = map ?part m"
    using assms(3) by (intro split_join) auto
  then show ?thesis
    using assms(4) by (simp add: parseSearch_def parse_params_encoded [OF assms(1,5), simplified] foldl_assoc_set)
qed

end

text \<open>
  The query string of the page: parsing what \<open>serializeSearch\<close> writes gives
  the settings back, keys and values of any characters included, for at least one setting and
  keys without repetition.
\<close>

theorem search_round_trip:
  assumes "m \<noteq> []" "distinct (map fst m)" "\<And>k v. (k, v) \<in> set m \<Longrightarrow> is_utf8 k \<and> is_utf8 v"
  shows "parseSearch (''?'' @ serializeSearch m) = Some m"
  unfolding serializeSearch_def encodeURIComponent_def
  by (rule uri.parse_search_encoded [OF _ _ assms]) (simp_all add: unreserved_def)

theorem search_round_trip_witness:
  "parseSearch (''?'' @ serializeSearch [(''url'', ''/a?b=c&d''), (''x y'', [])]) = Some [(''url'', ''/a?b=c&d''), (''x y'', [])]"
  by (rule search_round_trip) (auto simp: is_utf8_def continuation_def)

end
