(* ===== verification/Swagger_Encode.thy ===== *)
theory Swagger_Encode
  imports Swagger_UI Json
begin

text \<open>
  How Swagger UI writes the values that a user types into the documentation page into a request: the
  modules \<open>style-serializer\<close> and \<open>http\<close> of swagger-client and \<open>stringify\<close> of qs, on the one line of
  \<^verbatim>\<open>src/files/swagger/swagger-ui-es-bundle.js\<close> (the page loads the same modules from
  \<^verbatim>\<open>swagger-ui-bundle.js\<close>).  The minified names are given with each definition.

  A value is a JSON value, so that no value is a file and none has methods of its own.  An object is its
  list of properties in the order of \<open>Object.keys\<close>.  What is thrown is the left of a sum.
\<close>

section \<open>Values\<close>

definition and_then :: "'e + 'a \<Rightarrow> ('a \<Rightarrow> 'e + 'b) \<Rightarrow> 'e + 'b" where
  "and_then r f = (case r of Inl e \<Rightarrow> Inl e | Inr x \<Rightarrow> f x)"

fun map_ok_or :: "('a \<Rightarrow> 'e + 'b) \<Rightarrow> 'a list \<Rightarrow> 'e + 'b list" where
  "map_ok_or f [] = Inr []"
| "map_ok_or f (x # xs) = and_then (f x) (\<lambda>y. and_then (map_ok_or f xs) (\<lambda>ys. Inr (y # ys)))"

definition is_object :: "js \<Rightarrow> bool" where
  "is_object v = (case v of Null \<Rightarrow> True | Arr _ \<Rightarrow> True | Obj _ \<Rightarrow> True | Err _ _ _ \<Rightarrow> True | _ \<Rightarrow> False)"

definition is_array :: "js \<Rightarrow> bool" where
  "is_array v = (case v of Arr _ \<Rightarrow> True | _ \<Rightarrow> False)"

definition no_keys :: js where
  "no_keys = TypeError ''Cannot convert undefined or null to object''"

text \<open>\<open>Object.entries(v)\<close>; the characters of a string are its own properties.\<close>

definition indexed :: "js list \<Rightarrow> (string \<times> js) list" where
  "indexed vs = zip (map show_nat [0..<length vs]) vs"

definition own_entries :: "js \<Rightarrow> js + (string \<times> js) list" where
  "own_entries v =
     (case v of
        Undef \<Rightarrow> Inl no_keys
      | Null \<Rightarrow> Inl no_keys
      | Arr vs \<Rightarrow> Inr (indexed vs)
      | Str s \<Rightarrow> Inr (indexed (map (\<lambda>c. Str [c]) s))
      | _ \<Rightarrow> Inr (entries v))"

text \<open>\<open>vs.join(sep)\<close>: the nullish values are written as nothing, and an undefined separator is a comma.\<close>

definition join_values :: "string \<Rightarrow> js list \<Rightarrow> string" where
  "join_values sep vs = join sep (map (\<lambda>v. if v = Undef \<or> v = Null then [] else to_str v) vs)"

definition separator :: "js \<Rightarrow> string" where
  "separator v = (if v = Undef then '','' else to_str v)"

section \<open>Escaping\<close>

text \<open>\<open>fe\<close> and \<open>he\<close>: the reserved and the unreserved characters of RFC 3986.\<close>

definition isRfc3986Reserved :: "char \<Rightarrow> bool" where
  "isRfc3986Reserved c = (c \<in> set ('':/?#[]@!$&'' @ [CHR 0x27] @ ''()*+,;=''))"

definition isRrc3986Unreserved :: "char \<Rightarrow> bool" where
  "isRrc3986Unreserved c =
     (let m = of_char c :: nat in
      48 \<le> m \<and> m \<le> 57 \<or> 65 \<le> m \<and> m \<le> 90 \<or> 97 \<le> m \<and> m \<le> 122 \<or> m = 45 \<or> m = 46 \<or> m = 95 \<or> m = 126)"

text \<open>
  \<open>de\<close>.  A character that is not ASCII is escaped whole, so it does not matter that the code goes through
  characters and not bytes.  The third parameter, which would parse the text as JSON, is passed by no call.
\<close>

definition encodeDisallowedCharacters :: "js \<Rightarrow> js \<Rightarrow> js" where
  "encodeDisallowedCharacters v escape =
     (let u = (case v of Num i \<Rightarrow> Str (show_int i) | Dec d \<Rightarrow> Str d | _ \<Rightarrow> v) in
      case u of
        Str s \<Rightarrow>
          if s \<noteq> [] \<and> truthy escape
          then Str (percent_encode (\<lambda>c. isRrc3986Unreserved c \<or> isRfc3986Reserved c \<and> escape = Str ''unsafe'') s)
          else u
      | _ \<Rightarrow> u)"

section \<open>Styles\<close>

text \<open>The three functions inside \<open>me\<close>; \<open>undefined\<close> for a style they do not know.\<close>

definition encodeArray :: "string \<Rightarrow> js list \<Rightarrow> string \<Rightarrow> bool \<Rightarrow> js \<Rightarrow> js" where
  "encodeArray key vs style explode escape =
     (let us = map (\<lambda>v. encodeDisallowedCharacters v escape) vs;
          again = (if explode then key @ ''='' else []) in
      if style = ''simple'' then Str (join_values '','' us)
      else if style = ''label'' then Str (''.'' @ join_values ''.'' us)
      else if style = ''matrix''
      then Str (foldl (\<lambda>acc u. if acc = [] \<or> explode then acc @ '';'' @ key @ ''='' @ to_str u else acc @ '','' @ to_str u) [] us)
      else if style = ''form'' then Str (join_values (if explode then ''&'' @ key @ ''='' else '','') us)
      else if style = ''spaceDelimited'' then Str (join_values ('' '' @ again) us)
      else if style = ''pipeDelimited'' then Str (join_values (''|'' @ again) us)
      else Undef)"

definition encodeObject :: "string \<Rightarrow> (string \<times> js) list \<Rightarrow> string \<Rightarrow> bool \<Rightarrow> js \<Rightarrow> js" where
  "encodeObject key ps style explode escape =
     (let val = (\<lambda>v. to_str (encodeDisallowedCharacters v escape));
          with = (\<lambda>start sep eq. Str (foldl (\<lambda>acc (k, v). (if acc \<noteq> [] then acc @ sep else start) @ k @ eq @ val v) [] ps)) in
      if style = ''simple'' then with [] '','' (if explode then ''='' else '','')
      else if style = ''label'' then with ''.'' ''.'' (if explode then ''='' else ''.'')
      else if style = ''matrix'' \<and> explode then with '';'' '';'' ''=''
      else if style = ''matrix'' then with ('';'' @ key @ ''='') '','' '',''
      else if style = ''form'' then with [] (if explode then ''&'' else '','') (if explode then ''='' else '','')
      else Undef)"

definition encodePrimitive :: "string \<Rightarrow> js \<Rightarrow> string \<Rightarrow> js \<Rightarrow> js" where
  "encodePrimitive key v style escape =
     (let u = encodeDisallowedCharacters v escape in
      if style = ''simple'' then u
      else if style = ''label'' then Str (''.'' @ to_str u)
      else if style = ''matrix'' then Str ('';'' @ key @ ''='' @ to_str u)
      else if style = ''form'' then u
      else if style = ''deepObject'' then u
      else Undef)"

text \<open>\<open>me\<close>: since \<open>typeof null\<close> is \<open>object\<close>, \<open>null\<close> throws.\<close>

definition stylize :: "string \<Rightarrow> js \<Rightarrow> string \<Rightarrow> bool \<Rightarrow> js \<Rightarrow> js + js" where
  "stylize key v style explode escape =
     (case v of
        Arr vs \<Rightarrow> Inr (encodeArray key vs style explode escape)
      | _ \<Rightarrow>
          if is_object v
          then and_then (own_entries v) (\<lambda>ps. Inr (encodeObject key ps style explode escape))
          else Inr (encodePrimitive key v style escape))"

section \<open>The query string\<close>

text \<open>\<open>Ae\<close> and \<open>ke\<close>: the separators of a style and of a collection format.\<close>

definition STYLE_SEPARATORS :: "string \<Rightarrow> js" where
  "STYLE_SEPARATORS style = lookup [(''form'', Str '',''), (''spaceDelimited'', Str ''%20''), (''pipeDelimited'', Str ''|'')] style"

definition SEPARATORS :: "string \<Rightarrow> js" where
  "SEPARATORS fmt = lookup [(''csv'', Str '',''), (''ssv'', Str ''%20''), (''tsv'', Str ''%09''), (''pipes'', Str ''|'')] fmt"

text \<open>\<open>je\<close>: pairs of a key and a value, which may be an array of values for the same key.\<close>

definition formatKeyValueBySerializationOption :: "string \<Rightarrow> js \<Rightarrow> bool \<Rightarrow> js \<Rightarrow> js + (string \<times> js) list" where
  "formatKeyValueBySerializationOption key v skipEncoding option =
     (let opt = lookup (entries option);
          style = to_str (js_or (opt ''style'') (Str ''form''));
          explode = (if opt ''explode'' = Undef then style = ''form'' else truthy (opt ''explode''));
          escape = (if skipEncoding then Bool False
                    else if truthy (opt ''allowReserved'') then Str ''unsafe'' else Str ''reserved'');
          encodeValue = (\<lambda>u. encodeDisallowedCharacters u escape);
          encodeKey = (\<lambda>k. if skipEncoding then k else to_str (encodeValue (Str k)))
      in if \<not> is_object v then Inr [(encodeKey key, encodeValue v)]
         else
           (case v of
              Arr vs \<Rightarrow>
                if explode then Inr [(encodeKey key, Arr (map encodeValue vs))]
                else Inr [(encodeKey key, Str (join_values (separator (STYLE_SEPARATORS style)) (map encodeValue vs)))]
            | _ \<Rightarrow>
                and_then (own_entries v) (\<lambda>ps.
                  if style = ''deepObject'' then Inr (map (\<lambda>(k, u). (encodeKey (key @ ''['' @ k @ '']''), encodeValue u)) ps)
                  else if explode then Inr (map (\<lambda>(k, u). (encodeKey k, encodeValue u)) ps)
                  else Inr [(encodeKey key, Str (join '','' (map (\<lambda>(k, u). encodeKey k @ '','' @ to_str (encodeValue u)) ps)))])))"

text \<open>\<open>Oe\<close>: an entry is an object with a value and how to write it, or the value itself.\<close>

definition formatKeyValue :: "string \<Rightarrow> js \<Rightarrow> bool \<Rightarrow> js + (string \<times> js) list" where
  "formatKeyValue key input skipEncoding =
     (if input = Undef \<or> input = Null then Inl (cannot_read (to_str input) ''collectionFormat'')
      else
        (let get = (\<lambda>k. if is_object input \<and> \<not> is_array input then lookup (entries input) k else Undef);
             v = (if is_object input \<and> \<not> is_array input then get ''value'' else input);
             encodeFn = (\<lambda>u. if skipEncoding then toString u else Inr (encodeURIComponent (to_str u)));
             k = (if skipEncoding then key else encodeURIComponent key);
             single = (\<lambda>u. and_then (encodeFn u) (\<lambda>w. Inr [(k, Str w)]));
             encoding = get ''encoding'';
             enc = lookup (entries encoding)
         in if v = Undef \<and> truthy (get ''allowEmptyValue'') then Inr [(k, Str [])]
            else if truthy (get ''serializationOption'')
            then formatKeyValueBySerializationOption key v skipEncoding (get ''serializationOption'')
            else if truthy encoding
            then
              (if enc ''style'' \<noteq> Undef \<or> enc ''explode'' \<noteq> Undef \<or> enc ''allowReserved'' \<noteq> Undef
               then formatKeyValueBySerializationOption key v skipEncoding encoding
               else if truthy (enc ''contentType'')
               then (if enc ''contentType'' = Str ''application/json''
                     then single (case v of Str s \<Rightarrow> v | _ \<Rightarrow> stringify [] v)
                     else and_then (toString v) (\<lambda>s. single (Str s)))
               else
                 (case v of
                    Arr vs \<Rightarrow>
                      if list_all (\<lambda>u. \<not> is_object u) vs
                      then and_then (map_ok_or encodeFn vs) (\<lambda>ws. Inr [(k, Str (join '','' ws))])
                      else single (stringify [] v)
                  | _ \<Rightarrow> if is_object v then single (stringify [] v) else single v))
            else
              (case v of
                 Arr vs \<Rightarrow>
                   and_then (map_ok_or encodeFn vs) (\<lambda>ws.
                     if get ''collectionFormat'' = Str ''multi'' then Inr [(k, Arr (map Str ws))]
                     else Inr [(k, Str (join (separator (SEPARATORS (to_str (js_or (get ''collectionFormat'') (Str ''csv''))))) ws))])
               | _ \<Rightarrow> if is_object v then Inr [(k, Str [])] else single v)))"

text \<open>The function \<open>stringify\<close> of qs with the options \<open>{encode: false, indices: false}\<close>.\<close>

fun qs_pairs :: "string \<Rightarrow> js \<Rightarrow> string list"
  and qs_elems :: "string \<Rightarrow> js list \<Rightarrow> string list"
  and qs_members :: "string \<Rightarrow> (string \<times> js) list \<Rightarrow> string list"
where
  "qs_pairs key Undef = []"
| "qs_pairs key Null = [key @ ''='']"
| "qs_pairs key (Arr vs) = qs_elems key vs"
| "qs_pairs key (Obj ps) = qs_members key ps"
| "qs_pairs key (Err e m ps) = qs_members key ps"
| "qs_pairs key (Bool b) = [key @ ''='' @ to_str (Bool b)]"
| "qs_pairs key (Num i) = [key @ ''='' @ to_str (Num i)]"
| "qs_pairs key (Dec d) = [key @ ''='' @ d]"
| "qs_pairs key (Str s) = [key @ ''='' @ s]"
| "qs_elems key [] = []"
| "qs_elems key (v # vs) = qs_pairs key v @ qs_elems key vs"
| "qs_members key [] = []"
| "qs_members key ((k, v) # ps) = qs_pairs (key @ ''['' @ k @ '']'') v @ qs_members key ps"

definition qs_stringify :: "(string \<times> js) list \<Rightarrow> string" where
  "qs_stringify ps = join ''&'' (concat (map (\<lambda>(k, v). qs_pairs k v) ps))"

text \<open>\<open>Ie\<close>: all pairs are collected in one object first.\<close>

definition format_all :: "(string \<times> js) list \<Rightarrow> bool \<Rightarrow> js + (string \<times> js) list" where
  "format_all ps skipEncoding =
     and_then (map_ok_or (\<lambda>(k, v). formatKeyValue k v skipEncoding) ps) (\<lambda>kvs. Inr (concat kvs))"

definition encodeFormOrQuery :: "(string \<times> js) list \<Rightarrow> js + string" where
  "encodeFormOrQuery ps =
     and_then (format_all ps False) (\<lambda>kvs. Inr (qs_stringify (foldl (\<lambda>m (k, v). assoc_set k v m) [] kvs)))"

text \<open>\<open>Te\<close>: the entries appended to a \<open>FormData\<close>, an array entry by entry.\<close>

definition buildFormData :: "(string \<times> js) list \<Rightarrow> js + (string \<times> js) list" where
  "buildFormData ps =
     and_then (format_all ps True) (\<lambda>kvs.
       Inr (concat (map (\<lambda>(k, v). case v of Arr vs \<Rightarrow> map (Pair k) vs | _ \<Rightarrow> [(k, v)]) kvs)))"

section \<open>Requests\<close>

datatype request_body = NoBody | Body js | FormData "(string \<times> js) list"

record sw_request =
  req_url :: string
  req_method :: string
  req_headers :: "(string \<times> js) list"
  req_cookies :: "(string \<times> js) list"
  req_query :: "(string \<times> js) list option"
  req_form :: "js option"
  req_body :: request_body
  req_credentials :: string

definition to_lower :: "string \<Rightarrow> string" where
  "to_lower s = map (\<lambda>c. let m = of_char c :: nat in if 65 \<le> m \<and> m \<le> 90 then char_of (m + 32) else c) s"

definition to_upper :: "string \<Rightarrow> string" where
  "to_upper s = map (\<lambda>c. let m = of_char c :: nat in if 97 \<le> m \<and> m \<le> 122 then char_of (m - 32) else c) s"

definition search_of :: "string list \<Rightarrow> string" where
  "search_of parts = (let s = join ''&'' (filter (\<lambda>p. p \<noteq> []) parts) in if s \<noteq> [] then ''?'' @ s else [])"

text \<open>
  \<open>Pe\<close>.  What becomes of a query that the address already has is a parameter, \<open>remaining\<close>: the functions \<open>parse\<close>
  and \<open>stringify\<close> of qs around the deletion of the names that are set anew.
\<close>

definition merge_form :: "sw_request \<Rightarrow> js + sw_request" where
  "merge_form r =
     (case req_form r of
        Some f \<Rightarrow>
          if truthy f
          then and_then (own_entries f) (\<lambda>ps.
                 case find (\<lambda>(k, v). v = Undef \<or> v = Null) ps of
                   Some (k, v) \<Rightarrow> Inl (cannot_read (to_str v) ''value'')
                 | None \<Rightarrow>
                   (let contentType = js_or (lookup (req_headers r) ''content-type'') (lookup (req_headers r) ''Content-Type'') in
                    if str_includes (to_lower (to_str contentType)) ''multipart/form-data''
                    then and_then (buildFormData ps) (\<lambda>d. Inr (r\<lparr>req_body := FormData d, req_form := None\<rparr>))
                    else and_then (encodeFormOrQuery ps) (\<lambda>s. Inr (r\<lparr>req_body := Body (Str s), req_form := None\<rparr>))))
          else Inr r
      | None \<Rightarrow> Inr r)"

definition merge_query :: "(string \<Rightarrow> string list \<Rightarrow> string) \<Rightarrow> sw_request \<Rightarrow> js + sw_request" where
  "merge_query remaining r =
     (case req_query r of
        Some q \<Rightarrow>
          (let parts = split (req_url r) ''?'';
               old = (if 1 < length parts \<and> parts ! 1 \<noteq> [] then remaining (parts ! 1) (map fst q) else []) in
           and_then (encodeFormOrQuery q) (\<lambda>s.
             Inr (r\<lparr>req_url := parts ! 0 @ search_of [old, s], req_query := None\<rparr>)))
      | None \<Rightarrow> Inr r)"

definition mergeInQueryOrForm :: "(string \<Rightarrow> string list \<Rightarrow> string) \<Rightarrow> sw_request \<Rightarrow> js + sw_request" where
  "mergeInQueryOrForm remaining r = and_then (merge_form r) (merge_query remaining)"

lemma and_then_simps [simp]: "and_then (Inl e) f = Inl e" "and_then (Inr x) f = f x" "and_then r Inr = r"
  by (simp_all add: and_then_def split: sum.split)

section \<open>Escaped text\<close>

interpretation rfc: percent_encoding isRrc3986Unreserved
  by unfold_locales (auto simp: isRrc3986Unreserved_def hex_digit_def Let_def)

interpretation loose: percent_encoding "\<lambda>c. isRrc3986Unreserved c \<or> isRfc3986Reserved c"
  by unfold_locales (auto simp: isRrc3986Unreserved_def isRfc3986Reserved_def hex_digit_def Let_def)

lemma encode_Str:
  "truthy escape \<Longrightarrow> escape \<noteq> Str ''unsafe'' \<Longrightarrow> encodeDisallowedCharacters (Str s) escape = Str (percent_encode isRrc3986Unreserved s)"
  by (simp add: encodeDisallowedCharacters_def percent_encode_def)

lemma encode_unsafe:
  "encodeDisallowedCharacters (Str s) (Str ''unsafe'') = Str (percent_encode (\<lambda>c. isRrc3986Unreserved c \<or> isRfc3986Reserved c) s)"
  by (simp add: encodeDisallowedCharacters_def percent_encode_def)

lemma join_values_Str [simp]: "join_values sep (map Str xs) = join sep xs"
  by (simp add: join_values_def comp_def)

lemma map_ok_or_Inr [simp]: "map_ok_or (\<lambda>x. Inr (f x)) xs = Inr (map f xs)"
  by (induction xs) simp_all

text \<open>
  Escaping loses nothing and lets no structure through: whatever the text,
  decoding the escaped text gives it back, both when reserved characters are escaped and when they are allowed; in the
  first case only unreserved characters and percent signs are left.
\<close>

theorem escaping_is_reversible:
  assumes "is_utf8 s" and "truthy escape"
  shows "\<exists>w. encodeDisallowedCharacters (Str s) escape = Str w \<and> decodeURIComponent w = Some s \<and>
           (escape \<noteq> Str ''unsafe'' \<longrightarrow> (\<forall>c \<in> set w. isRrc3986Unreserved c \<or> c = CHR 0x25))"
proof (cases "escape = Str ''unsafe''")
  case True
  then show ?thesis using loose.decode_encoded [OF assms(1)] by (simp add: encode_unsafe)
next
  case False
  then show ?thesis using rfc.decode_encoded [OF assms(1)] rfc.encoded_bytes [of _ s] assms(2) by (simp add: encode_Str)
qed

theorem escaping_is_reversible_witness:
  "\<exists>w. encodeDisallowedCharacters (Str ''a/b c%'') (Bool True) = Str w \<and> decodeURIComponent w = Some ''a/b c%'' \<and> CHR ''/'' \<notin> set w"
proof -
  have "\<not> isRrc3986Unreserved (CHR ''/'')" by (simp add: isRrc3986Unreserved_def)
  then show ?thesis
    using escaping_is_reversible [of "''a/b c%''" "Bool True"] by (auto simp: is_utf8_def continuation_def)
qed

text \<open>
  An array of texts is written so that it can be read back: split at the commas and decoded,
  the text of a path or header parameter (style \<open>simple\<close>) and of a query parameter that is not exploded (style \<open>form\<close>) is
  the array, commas inside of elements included.
\<close>

theorem array_round_trip:
  assumes "xs \<noteq> []" and "\<And>x. x \<in> set xs \<Longrightarrow> is_utf8 x"
    and "style = ''simple'' \<or> style = ''form'' \<and> \<not> explode"
  shows "\<exists>w. stylize key (Arr (map Str xs)) style explode (Bool True) = Inr (Str w) \<and>
           map decodeURIComponent (split w '','') = map Some xs"
proof -
  let ?ws = "map (percent_encode isRrc3986Unreserved) xs"
  have "map (\<lambda>v. encodeDisallowedCharacters v (Bool True)) (map Str xs) = map Str ?ws"
    by (simp add: encode_Str)
  then have "stylize key (Arr (map Str xs)) style explode (Bool True) = Inr (Str (join '','' ?ws))"
    using assms(3) unfolding stylize_def js.case encodeArray_def Let_def by (auto simp del: map_map simp: join_values_Str)
  moreover have "split (join '','' ?ws) '','' = ?ws"
    using assms(1) by (intro split_join) (auto dest!: rfc.encoded_bytes simp: isRrc3986Unreserved_def)
  ultimately show ?thesis using assms(2) by (auto simp: rfc.decode_encoded)
qed

theorem array_round_trip_witness:
  "\<exists>w. stylize ''p'' (Arr (map Str [''a,b'', ''c'', []])) ''simple'' False (Bool True) = Inr (Str w) \<and>
     map decodeURIComponent (split w '','') = [Some ''a,b'', Some ''c'', Some []]"
proof -
  have "x \<in> set [''a,b'', ''c'', []] \<Longrightarrow> is_utf8 x" for x by (auto simp: is_utf8_def continuation_def)
  from array_round_trip [where xs = "[''a,b'', ''c'', []]" and style = "''simple''" and explode = False and key = "''p''", OF _ this]
  show ?thesis by simp
qed

text \<open>
  Of an object only the values are escaped.  The name of its only property goes into
  the text of a path parameter as it is, slashes, question marks and all.
\<close>

theorem object_keys_are_not_escaped:
  "stylize key (Obj [(k, Str v)]) ''simple'' explode (Bool True) =
     Inr (Str (k @ (if explode then ''='' else '','') @ percent_encode isRrc3986Unreserved v))"
  by (simp add: stylize_def is_object_def own_entries_def encodeObject_def encode_Str)

end
