(* ===== verification/Swagger_Request.thy ===== *)
theory Swagger_Request
  imports Swagger_Encode Base64
begin

text \<open>
  How Swagger UI builds the request for an operation of the broker's API from the values on the documentation page:
  \<open>buildRequest\<close> of swagger-client with the parameter builders of OpenAPI 3 (the version of
  \<^verbatim>\<open>src/resources/keb/files/swagger.yaml\<close>), the application of credentials and the request body, all on the one
  line of \<^verbatim>\<open>src/files/swagger/swagger-ui-es-bundle.js\<close>.

  The address of the server (\<open>baseUrl\<close>) and what is kept of a query in it are parameters, since they rest on
  the library \<open>url\<close> and on the parser of qs.  Interceptors, which the page does not set, and warnings are left out.
\<close>

section \<open>Parameter builders\<close>

abbreviation get :: "js \<Rightarrow> string \<Rightarrow> js" where
  "get v k \<equiv> lookup (entries v) k"

text \<open>\<open>Xn\<close>: a value with a media type.\<close>

definition valueEncoder :: "js \<Rightarrow> string \<Rightarrow> js + js" where
  "valueEncoder v mediaType =
     (if str_includes mediaType ''application/json''
      then Inr (case v of Str s \<Rightarrow> v | _ \<Rightarrow> stringify [] v)
      else and_then (toString v) (\<lambda>s. Inr (Str s)))"

text \<open>The name of the first media type; without one it is \<open>undefined\<close>, which has no method \<open>includes\<close>.\<close>

definition encode_content :: "js \<Rightarrow> js \<Rightarrow> js + js" where
  "encode_content v content =
     and_then (own_entries content) (\<lambda>ps.
       case ps of [] \<Rightarrow> Inl (cannot_read ''undefined'' ''includes'') | (mediaType, _) # _ \<Rightarrow> valueEncoder v mediaType)"

definition placeholder :: "js \<Rightarrow> string" where
  "placeholder parameter = ''{'' @ to_str (get parameter ''name'') @ ''}''"

definition fill :: "js \<Rightarrow> js \<Rightarrow> sw_request \<Rightarrow> sw_request" where
  "fill parameter v r = r\<lparr>req_url := join (separator v) (split (req_url r) (placeholder parameter))\<rparr>"

text \<open>\<open>Qn\<close>\<close>

definition path_builder :: "js \<Rightarrow> js \<Rightarrow> sw_request \<Rightarrow> js + sw_request" where
  "path_builder parameter v r =
     (if truthy (get parameter ''content'')
      then and_then (encode_content v (get parameter ''content'')) (\<lambda>u.
             Inr (fill parameter (encodeDisallowedCharacters u (Bool True)) r))
      else and_then
             (stylize (to_str (get parameter ''name'')) v (to_str (js_or (get parameter ''style'') (Str ''simple'')))
                (truthy (get parameter ''explode'')) (Bool True))
             (\<lambda>u. Inr (fill parameter u r)))"

text \<open>\<open>er\<close>: the query is created when it is first needed; the options are those of the parameter that are present.\<close>

definition pick :: "string list \<Rightarrow> js \<Rightarrow> js" where
  "pick ks v = Obj (concat (map (\<lambda>k. case map_of (entries v) k of Some u \<Rightarrow> [(k, u)] | None \<Rightarrow> []) ks))"

definition some_query :: "sw_request \<Rightarrow> (string \<times> js) list" where
  "some_query r = (case req_query r of Some q \<Rightarrow> q | None \<Rightarrow> [])"

definition query_builder :: "js \<Rightarrow> js \<Rightarrow> sw_request \<Rightarrow> js + sw_request" where
  "query_builder parameter v0 r =
     (let q = some_query r; name = to_str (get parameter ''name'');
          v = (if v0 = Bool False then Str ''false'' else if v0 = Num 0 then Str ''0'' else v0)
      in if truthy (get parameter ''content'')
         then and_then (encode_content v0 (get parameter ''content'')) (\<lambda>u.
                Inr (r\<lparr>req_query := Some (assoc_set name u q)\<rparr>))
         else if truthy v
         then Inr (r\<lparr>req_query := Some (assoc_set name
                (Obj [(''value'', v), (''serializationOption'', pick [''style'', ''explode'', ''allowReserved''] parameter)]) q)\<rparr>)
         else if truthy (get parameter ''allowEmptyValue'') \<and> v \<noteq> Undef
         then Inr (r\<lparr>req_query := Some (assoc_set name
                (Obj (assoc_set ''allowEmptyValue'' (Bool True) (entries (js_or (lookup q name) (Obj []))))) q)\<rparr>)
         else Inr (r\<lparr>req_query := Some q\<rparr>))"

text \<open>\<open>nr\<close>: three headers are never set by a parameter.\<close>

definition PARAMETER_HEADER_BLACKLIST :: "string list" where
  "PARAMETER_HEADER_BLACKLIST = [''accept'', ''authorization'', ''content-type'']"

definition set_header :: "string \<Rightarrow> js \<Rightarrow> sw_request \<Rightarrow> sw_request" where
  "set_header k v r = r\<lparr>req_headers := assoc_set k v (req_headers r)\<rparr>"

definition header_builder :: "js \<Rightarrow> js \<Rightarrow> sw_request \<Rightarrow> js + sw_request" where
  "header_builder parameter v r =
     (let name = to_str (get parameter ''name'') in
      if to_lower name \<in> set PARAMETER_HEADER_BLACKLIST then Inr r
      else if truthy (get parameter ''content'')
      then and_then (encode_content v (get parameter ''content'')) (\<lambda>u. Inr (set_header name u r))
      else if v \<noteq> Undef
      then and_then
             (stylize name v (to_str (js_or (get parameter ''style'') (Str ''simple''))) (truthy (get parameter ''explode'')) (Bool False))
             (\<lambda>u. Inr (set_header name u r))
      else Inr r)"

text \<open>\<open>rr\<close>: the header is assigned, not extended.\<close>

definition cookie_builder :: "js \<Rightarrow> js \<Rightarrow> sw_request \<Rightarrow> js + sw_request" where
  "cookie_builder parameter v r =
     (let name = to_str (get parameter ''name'') in
      if truthy (get parameter ''content'')
      then and_then (encode_content v (get parameter ''content'')) (\<lambda>u.
             Inr (set_header ''Cookie'' (Str (name @ ''='' @ to_str u)) r))
      else if v \<noteq> Undef
      then and_then
             (stylize name v (to_str (js_or (get parameter ''style'') (Str ''form''))) (truthy (get parameter ''explode'')) (Bool False))
             (\<lambda>u. Inr (set_header ''Cookie''
                (Str ((if is_object v \<and> \<not> is_array v \<and> truthy (get parameter ''explode'') then [] else name @ ''='') @ to_str u)) r))
      else Inr r)"

text \<open>A parameter with any other place is not written at all.\<close>

definition parameter_builder :: "js \<Rightarrow> js \<Rightarrow> sw_request \<Rightarrow> js + sw_request" where
  "parameter_builder parameter v r =
     (let place = to_str (get parameter ''in'') in
      if place = ''path'' then path_builder parameter v r
      else if place = ''query'' then query_builder parameter v r
      else if place = ''header'' then header_builder parameter v r
      else if place = ''cookie'' then cookie_builder parameter v r
      else Inr r)"

section \<open>All parameters\<close>

text \<open>One parameter for each place and name, the last one given, at the position of the first.\<close>

fun group_parameters :: "js list \<Rightarrow> (string \<times> (string \<times> js) list) list \<Rightarrow> (string \<times> (string \<times> js) list) list" where
  "group_parameters [] acc = acc"
| "group_parameters (p # ps) acc =
     (let place = to_str (get p ''in''); inner = (case map_of acc place of Some m \<Rightarrow> m | None \<Rightarrow> []) in
      group_parameters ps (assoc_set place (assoc_set (to_str (get p ''name'')) p inner) acc))"

definition deduplicateParameters :: "js list \<Rightarrow> js list" where
  "deduplicateParameters ps = concat (map (\<lambda>(place, m). map snd m) (group_parameters ps []))"

definition arrayOrEmpty :: "js \<Rightarrow> js list" where
  "arrayOrEmpty v = (case v of Arr vs \<Rightarrow> vs | _ \<Rightarrow> [])"

text \<open>
  The value of a parameter: under its name, or under its place and name, or its default.  A parameter that is
  required and has no value throws.  \<open>None\<close>: the value is \<open>null\<close> and the parameter is skipped.
\<close>

definition parameter_value :: "(string \<times> js) list \<Rightarrow> js \<Rightarrow> js + js option" where
  "parameter_value vals parameter =
     (let name = get parameter ''name'';
          v0 = (if truthy name then lookup vals (to_str name) else name);
          v1 = (if v0 = Undef
                then (if truthy name then lookup vals (to_str (get parameter ''in'') @ ''.'' @ to_str name) else name)
                else v0)
      in if v1 = Null then Inr None
         else
           (let v2 = (if get parameter ''default'' \<noteq> Undef \<and> v1 = Undef then get parameter ''default'' else v1) in
            if v2 = Undef \<and> truthy (get parameter ''required'') \<and> \<not> truthy (get parameter ''allowEmptyValue'')
            then Inl (new_Error (''Required parameter '' @ to_str name @ '' is not provided''))
            else if get (get parameter ''schema'') ''type'' = Str ''object''
            then (case v2 of
                    Str s \<Rightarrow>
                      (case parse_text s of
                         Inl _ \<Rightarrow> Inl (new_Error ''Could not parse object parameter value string as JSON'')
                       | Inr u \<Rightarrow> Inr (Some u))
                  | _ \<Rightarrow> Inr (Some v2))
            else Inr (Some v2)))"

fun apply_parameters :: "(string \<times> js) list \<Rightarrow> js list \<Rightarrow> sw_request \<Rightarrow> js + sw_request" where
  "apply_parameters vals [] r = Inr r"
| "apply_parameters vals (p # ps) r =
     and_then (parameter_value vals p) (\<lambda>v.
       and_then (case v of None \<Rightarrow> Inr r | Some u \<Rightarrow> parameter_builder p u r) (apply_parameters vals ps))"

section \<open>Credentials\<close>

text \<open>
  The first function inside \<open>ur\<close>.  The base64 of user name and password is taken from the bytes, which is what
  \<open>btoa\<close> does with ASCII texts.
\<close>

definition authorize_one :: "js \<Rightarrow> js \<Rightarrow> sw_request \<Rightarrow> js + sw_request" where
  "authorize_one auth scheme r =
     (if \<not> truthy auth then Inr r
      else if scheme = Undef \<or> scheme = Null then Inl (cannot_read (to_str scheme) ''type'')
      else
        (let v = js_or (get auth ''value'') auth; name = to_str (get scheme ''name''); place = get scheme ''in'' in
         if get scheme ''type'' = Str ''apiKey''
         then Inr (if place = Str ''query'' then r\<lparr>req_query := Some (assoc_set name v (some_query r))\<rparr>
                   else if place = Str ''header'' then set_header name v r
                   else if place = Str ''cookie'' then r\<lparr>req_cookies := assoc_set name v (req_cookies r)\<rparr>
                   else r)
         else if get scheme ''type'' = Str ''http''
         then (let kind = to_lower (to_str (get scheme ''scheme'')) in
               Inr (if kind = ''basic''
                    then set_header ''Authorization''
                           (Str (''Basic '' @ base64_encode (to_str (js_or (get v ''username'') (Str [])) @ '':'' @
                                                              to_str (js_or (get v ''password'') (Str []))))) r
                    else if kind = ''bearer'' then set_header ''Authorization'' (Str (''Bearer '' @ to_str v)) r
                    else r))
         else if get scheme ''type'' = Str ''oauth2'' \<or> get scheme ''type'' = Str ''openIdConnect''
         then (let token = js_or (get auth ''token'') (Obj []);
                   access = get token (to_str (js_or (get scheme ''x-tokenName'') (Str ''access_token'')));
                   send = (\<lambda>kind. Inr (set_header ''Authorization'' (Str (kind @ '' '' @ to_str access)) r))
               in case get token ''token_type'' of
                    Str t \<Rightarrow> send (if t \<noteq> [] \<and> to_lower t \<noteq> ''bearer'' then t else ''Bearer'')
                  | v \<Rightarrow> if truthy v then Inl (TypeError ''v.toLowerCase is not a function'') else send ''Bearer'')
         else Inr r))"

fun authorize_all :: "(string \<times> js) list \<Rightarrow> js \<Rightarrow> string list \<Rightarrow> sw_request \<Rightarrow> js + sw_request" where
  "authorize_all authorized schemes [] r = Inr r"
| "authorize_all authorized schemes (k # ks) r =
     and_then (authorize_one (lookup authorized k) (get schemes k) r) (authorize_all authorized schemes ks)"

definition applySecurities :: "js \<Rightarrow> js \<Rightarrow> js \<Rightarrow> sw_request \<Rightarrow> js + sw_request" where
  "applySecurities spec operation securities r =
     (let authorized = entries (get securities ''authorized'');
          security = arrayOrEmpty (js_or (get operation ''security'') (js_or (get spec ''security'') (Arr [])));
          schemes = get (get spec ''components'') ''securitySchemes''
      in if entries securities = [] \<or> authorized = [] \<or> get operation ''security'' = Arr [] then Inr r
         else authorize_all authorized schemes (concat (map (\<lambda>s. map fst (entries s)) security))
                (r\<lparr>req_query := Some (some_query r)\<rparr>))"

section \<open>Body and accepted types\<close>

text \<open>The value of \<open>parseInt(s, 10)\<close> for a status such as \<open>200\<close>; others do not start with digits.\<close>

definition status_code :: "string \<Rightarrow> nat option" where
  "status_code s = (let ds = takeWhile is_digit s in if ds = [] then None else Some (read_nat ds))"

definition accepted_types :: "js \<Rightarrow> string list" where
  "accepted_types operation =
     concat (map (\<lambda>(status, response). map fst (entries (get response ''content'')))
       (filter (\<lambda>(status, response).
           (case status_code status of Some c \<Rightarrow> 200 \<le> c \<and> c < 300 | None \<Rightarrow> False) \<and>
           (case get response ''content'' of Obj _ \<Rightarrow> True | _ \<Rightarrow> False))
         (entries (get operation ''responses''))))"

definition set_content_type :: "js \<Rightarrow> bool \<Rightarrow> string list \<Rightarrow> js \<Rightarrow> sw_request \<Rightarrow> js \<times> sw_request" where
  "set_content_type requestBody attachForEmpty mediaTypes contentType r =
     (let offered = (case contentType of Str c \<Rightarrow> c \<noteq> [] \<and> c \<in> set mediaTypes | _ \<Rightarrow> False) in
      if truthy requestBody \<or> attachForEmpty
      then (if offered then (contentType, set_header ''Content-Type'' contentType r)
            else if \<not> truthy contentType \<and> mediaTypes \<noteq> [] \<and> hd mediaTypes \<noteq> []
            then (Str (hd mediaTypes), set_header ''Content-Type'' (Str (hd mediaTypes)) r)
            else (contentType, r))
      else if offered then (contentType, set_header ''Content-Type'' contentType r)
      else (contentType, r))"

definition set_body :: "js \<Rightarrow> js \<Rightarrow> string list \<Rightarrow> js \<Rightarrow> sw_request \<Rightarrow> js + sw_request" where
  "set_body requestBody content mediaTypes contentType r =
     (if \<not> truthy requestBody then Inr r
      else if \<not> truthy contentType then Inr (r\<lparr>req_body := Body requestBody\<rparr>)
      else if to_str contentType \<notin> set mediaTypes then Inr r
      else if contentType = Str ''application/x-www-form-urlencoded'' \<or> contentType = Str ''multipart/form-data''
      then (if is_object requestBody
            then and_then (own_entries requestBody) (\<lambda>ps.
                   (let encodings = get (get content (to_str contentType)) ''encoding'' in
                    Inr (r\<lparr>req_form := Some (Obj (map (\<lambda>(k, v).
                      (k, Obj [(''value'', v), (''encoding'', js_or (get encodings k) (Obj []))])) ps))\<rparr>)))
            else Inr (r\<lparr>req_form := Some requestBody\<rparr>))
      else Inr (r\<lparr>req_body := Body requestBody\<rparr>))"

text \<open>What the caller of \<open>buildRequest\<close> passes.\<close>

record request_options =
  operationId :: string
  parameters :: "(string \<times> js) list"
  securities :: js
  requestBody :: js
  requestContentType :: js
  responseContentType :: js
  attachContentTypeForEmptyPayload :: bool
  withCredentials :: bool

text \<open>\<open>ur\<close>\<close>

definition oas3_build_request :: "js \<Rightarrow> js \<Rightarrow> request_options \<Rightarrow> sw_request \<Rightarrow> js + sw_request" where
  "oas3_build_request spec operation opts r0 =
     and_then (applySecurities spec operation (securities opts) r0) (\<lambda>r1.
       (let content = get (js_or (get operation ''requestBody'') (Obj [])) ''content'';
            mediaTypes = map fst (entries content);
            (contentType, r2) = set_content_type (requestBody opts) (attachContentTypeForEmptyPayload opts) mediaTypes
                                  (requestContentType opts) r1;
            accepted = accepted_types operation;
            r3 = (if \<not> truthy (responseContentType opts) \<and> truthy (get operation ''responses'') \<and> accepted \<noteq> []
                  then set_header ''accept'' (Str (join '', '' accepted)) r2 else r2)
        in set_body (requestBody opts) content mediaTypes contentType r3))"

section \<open>The whole request\<close>

text \<open>The operation with an id, by its own id, by a normalized one or by method and path (\<open>Bn.a\<close>, for ASCII ids).\<close>

definition replaceSpecialCharsWithUnderscore :: "string \<Rightarrow> string" where
  "replaceSpecialCharsWithUnderscore s =
     map (\<lambda>c. let m = of_char c :: nat in
            if 48 \<le> m \<and> m \<le> 57 \<or> 65 \<le> m \<and> m \<le> 90 \<or> 97 \<le> m \<and> m \<le> 122 \<or> m = 95 then c else CHR ''_'') s"

definition opId :: "js \<Rightarrow> string \<Rightarrow> string \<Rightarrow> string" where
  "opId operation pathName httpMethod =
     (let i = to_str (js_or (get operation ''operationId'') (Str [])) in
      if filter (\<lambda>c. \<not> white c) i \<noteq> [] then replaceSpecialCharsWithUnderscore i
      else to_lower httpMethod @ replaceSpecialCharsWithUnderscore pathName)"

definition legacyIdFromPathMethod :: "string \<Rightarrow> string \<Rightarrow> string" where
  "legacyIdFromPathMethod pathName httpMethod = to_lower httpMethod @ ''-'' @ pathName"

definition operations_of :: "js \<Rightarrow> (string \<times> string \<times> js) list" where
  "operations_of spec =
     concat (map (\<lambda>(pathName, item).
         concat (map (\<lambda>(k, operation).
             if to_upper k \<noteq> ''PARAMETERS'' \<and> truthy operation \<and> is_object operation
             then [(pathName, to_upper k, operation)] else []) (entries item)))
       (entries (get spec ''paths'')))"

definition findOperation :: "js \<Rightarrow> string \<Rightarrow> (string \<times> string \<times> js) option" where
  "findOperation spec i =
     find (\<lambda>(pathName, httpMethod, operation).
         i \<noteq> [] \<and> (opId operation pathName httpMethod = i \<or> legacyIdFromPathMethod pathName httpMethod = i \<or>
                    get operation ''operationId'' = Str i)) (operations_of spec)"

text \<open>
  The function \<open>serialize\<close> of the package cookie: name and value must be printable or Latin-1, as UTF-8 bytes here; the
  value is encoded first and needs no further check.
\<close>

definition cookie_text :: "string \<Rightarrow> bool" where
  "cookie_text s =
     (s \<noteq> [] \<and> list_all (\<lambda>c. let m = of_char c :: nat in m = 9 \<or> 32 \<le> m \<and> m \<le> 126 \<or> 128 \<le> m \<and> m \<le> 195) s)"

definition cookie_serialize :: "string \<Rightarrow> js \<Rightarrow> js + string" where
  "cookie_serialize name v =
     (if \<not> cookie_text name then Inl (TypeError ''argument name is invalid'')
      else Inr (name @ ''='' @ encodeURIComponent (to_str v)))"

fun cookies_text :: "string \<Rightarrow> (string \<times> js) list \<Rightarrow> js + string" where
  "cookies_text acc [] = Inr acc"
| "cookies_text acc ((k, v) # cs) =
     and_then (cookie_serialize k v) (\<lambda>s. cookies_text (acc @ (if acc \<noteq> [] then ''&'' else []) @ s) cs)"

definition add_cookies :: "sw_request \<Rightarrow> js + sw_request" where
  "add_cookies r =
     (if req_cookies r = [] then Inr r
      else and_then (cookies_text [] (req_cookies r)) (\<lambda>s. Inr ((set_header ''Cookie'' (Str s) r)\<lparr>req_cookies := []\<rparr>)))"

definition start_request :: "string \<Rightarrow> string \<Rightarrow> request_options \<Rightarrow> sw_request" where
  "start_request address httpMethod opts =
     \<lparr>req_url = address, req_method = httpMethod,
      req_headers = (if truthy (responseContentType opts) then [(''accept'', responseContentType opts)] else []),
      req_cookies = [], req_query = None, req_form = None, req_body = NoBody,
      req_credentials = (if withCredentials opts then ''include'' else ''same-origin'')\<rparr>"

text \<open>\<open>dr\<close>, for a document of OpenAPI 3\<close>

definition all_parameters :: "js \<Rightarrow> string \<Rightarrow> js \<Rightarrow> js list" where
  "all_parameters spec pathName operation =
     deduplicateParameters
       (arrayOrEmpty (get operation ''parameters'') @ arrayOrEmpty (get (get (get spec ''paths'') pathName) ''parameters''))"

definition swagger_buildRequest ::
  "(js \<Rightarrow> string \<Rightarrow> string \<Rightarrow> string) \<Rightarrow> (string \<Rightarrow> string list \<Rightarrow> string) \<Rightarrow> js \<Rightarrow> request_options \<Rightarrow> js + sw_request" where
  "swagger_buildRequest baseUrl remaining spec opts =
     (case findOperation spec (operationId opts) of
        None \<Rightarrow> Inl (Err ''OperationNotFoundError'' (''Operation '' @ operationId opts @ '' not found'') [])
      | Some (pathName, httpMethod, operation) \<Rightarrow>
          and_then (apply_parameters (parameters opts) (all_parameters spec pathName operation)
                      (start_request (baseUrl spec pathName httpMethod @ pathName) httpMethod opts)) (\<lambda>r1.
          and_then (oas3_build_request spec operation opts r1) (\<lambda>r2.
          and_then (add_cookies r2) (mergeInQueryOrForm remaining))))"

text \<open>\<open>hr\<close>: an object or array as the body is sent as JSON.\<close>

definition execute_request ::
  "(js \<Rightarrow> string \<Rightarrow> string \<Rightarrow> string) \<Rightarrow> (string \<Rightarrow> string list \<Rightarrow> string) \<Rightarrow> js \<Rightarrow> request_options \<Rightarrow> js + sw_request" where
  "execute_request baseUrl remaining spec opts =
     and_then (swagger_buildRequest baseUrl remaining spec opts) (\<lambda>r.
       Inr (case req_body r of
              Body (Obj ps) \<Rightarrow> r\<lparr>req_body := Body (stringify [] (Obj ps))\<rparr>
            | Body (Arr vs) \<Rightarrow> r\<lparr>req_body := Body (stringify [] (Arr vs))\<rparr>
            | _ \<Rightarrow> r))"

section \<open>Path parameters\<close>

lemma starts_with_count: "starts_with p s \<Longrightarrow> count_list s c = count_list p c + count_list (drop (length p) s) c"
  unfolding starts_with_def by (metis append_take_drop_id count_list_append)

lemma count_join_Cons:
  "c \<notin> set w \<Longrightarrow> xs \<noteq> [] \<Longrightarrow> count_list (join w (x # xs)) c = count_list x c + count_list (join w xs) c"
  by (cases xs) (simp_all add: count_list_0_iff)

lemma split_acc_nonempty: "split_acc sep acc s \<noteq> []"
  by (induction sep acc s rule: split_acc.induct) auto

lemma count_join_split_acc:
  assumes "c \<notin> set w"
  shows "c \<notin> set sep \<Longrightarrow> count_list (join w (split_acc sep acc s)) c = count_list acc c + count_list s c"
proof (induction sep acc s rule: split_acc.induct)
  case (2 sep acc a s)
  show ?case
  proof (cases "sep \<noteq> [] \<and> starts_with sep (a # s)")
    case True
    have "count_list (a # s) c = count_list (drop (length sep) (a # s)) c"
      using True 2(3) starts_with_count [of sep "a # s" c] by (simp add: count_list_0_iff)
    with True 2 show ?thesis
      by (simp add: count_join_Cons [OF assms split_acc_nonempty] del: count_list.simps(2))
  next
    case False
    then have "split_acc sep acc (a # s) = split_acc sep (a # acc) s" by auto
    with 2(2) [OF False] 2(3) show ?thesis by simp
  qed
qed simp

text \<open>The text that takes the place of a name has no influence on characters that it does not have.\<close>

lemma count_join_split:
  "c \<notin> set w \<Longrightarrow> c \<notin> set sep \<Longrightarrow> count_list (join w (split s sep)) c = count_list s c"
  by (simp add: split_def count_join_split_acc)

text \<open>
  (C37) A path parameter cannot change the shape of an address.  Whatever text the user
  types, the placeholder is replaced by one text from which the typed one can be decoded, and the address has
  as many slashes, question marks, hashes and other reserved characters as its template.
\<close>

theorem path_parameter_stays_in_its_segment:
  assumes "is_utf8 s" and "get p ''content'' = Undef" and "get p ''style'' \<in> {Undef, Str ''simple''}"
  shows "\<exists>w. path_builder p (Str s) r = Inr (r\<lparr>req_url := join w (split (req_url r) (placeholder p))\<rparr>) \<and>
           decodeURIComponent w = Some s \<and>
           (\<forall>c. isRfc3986Reserved c \<and> c \<notin> set (placeholder p) \<longrightarrow>
              count_list (join w (split (req_url r) (placeholder p))) c = count_list (req_url r) c)"
proof -
  let ?w = "percent_encode isRrc3986Unreserved s"
  have "js_or (get p ''style'') (Str ''simple'') = Str ''simple''" using assms(3) by (auto simp: js_or_def)
  then have "path_builder p (Str s) r = Inr (r\<lparr>req_url := join ?w (split (req_url r) (placeholder p))\<rparr>)"
    using assms(2) by (simp add: path_builder_def stylize_def is_object_def encodePrimitive_def encode_Str fill_def separator_def)
  moreover have "c \<notin> set ?w" if "isRfc3986Reserved c" for c
    using that by (auto dest!: rfc.encoded_bytes simp: isRfc3986Reserved_def isRrc3986Unreserved_def)
  ultimately show ?thesis
    using rfc.decode_encoded [OF assms(1)] count_join_split by blast
qed

definition path_parameter :: "string \<Rightarrow> js" where
  "path_parameter name = Obj [(''name'', Str name), (''in'', Str ''path''), (''required'', Bool True)]"

definition some_options :: request_options where
  "some_options = \<lparr>operationId = ''getRuntime'', parameters = [], securities = Undef, requestBody = Undef,
     requestContentType = Undef, responseContentType = Undef, attachContentTypeForEmptyPayload = False, withCredentials = False\<rparr>"

theorem path_parameter_stays_in_its_segment_witness:
  "\<exists>r. path_builder (path_parameter ''id'') (Str ''../x?a#b'') (start_request ''/runtimes/{id}'' ''GET'' some_options) = Inr r \<and>
       count_list (req_url r) (CHR ''/'') = 2 \<and> count_list (req_url r) (CHR ''?'') = 0"
proof -
  let ?r = "start_request ''/runtimes/{id}'' ''GET'' some_options" and ?ph = "placeholder (path_parameter ''id'')"
  have u: "req_url ?r = ''/runtimes/{id}''" by (simp add: start_request_def)
  have ph: "?ph = ''{id}''" by (simp add: placeholder_def path_parameter_def lookup_def)
  obtain w where "path_builder (path_parameter ''id'') (Str ''../x?a#b'') ?r = Inr (?r\<lparr>req_url := join w (split (req_url ?r) ?ph)\<rparr>)"
      "\<forall>c. isRfc3986Reserved c \<and> c \<notin> set ?ph \<longrightarrow> count_list (join w (split (req_url ?r) ?ph)) c = count_list (req_url ?r) c"
    using path_parameter_stays_in_its_segment [of "''../x?a#b''" "path_parameter ''id''" ?r]
    by (auto simp: is_utf8_def continuation_def path_parameter_def lookup_def)
  moreover have "isRfc3986Reserved (CHR ''/'')" "isRfc3986Reserved (CHR ''?'')" by (simp_all add: isRfc3986Reserved_def)
  ultimately show ?thesis unfolding u ph by simp
qed

section \<open>Header and cookie parameters\<close>

lemma lookup_other: "k \<noteq> k' \<Longrightarrow> lookup (assoc_set k' v m) k = lookup m k"
  by (simp add: lookup_def map_of_assoc_set)

lemma builder_keeps_protected:
  assumes "parameter_builder p v r = Inr r'" and "to_lower k \<in> set PARAMETER_HEADER_BLACKLIST"
  shows "lookup (req_headers r') k = lookup (req_headers r) k"
proof -
  have "k \<noteq> ''Cookie''" using assms(2) by (auto simp: PARAMETER_HEADER_BLACKLIST_def to_lower_def)
  then show ?thesis
    using assms
    by (auto simp: parameter_builder_def path_builder_def fill_def query_builder_def header_builder_def cookie_builder_def
        set_header_def and_then_def Let_def split: if_splits sum.splits intro!: lookup_other)
qed

text \<open>
  Parameters never touch the headers \<open>Accept\<close>, \<open>Authorization\<close> and \<open>Content-Type\<close>, in whatever case
  they are written, whichever parameters the document declares and whatever values are given.
\<close>

theorem protected_headers:
  "apply_parameters vals ps r = Inr r' \<Longrightarrow> to_lower k \<in> set PARAMETER_HEADER_BLACKLIST \<Longrightarrow>
   lookup (req_headers r') k = lookup (req_headers r) k"
proof (induction ps arbitrary: r)
  case (Cons p ps)
  then show ?case
    by (auto simp: and_then_def split: sum.splits option.splits dest: builder_keeps_protected)
qed simp

theorem protected_headers_witness:
  "\<exists>r'. apply_parameters [(''Authorization'', Str ''x''), (''X-A'', Str ''y'')]
         [Obj [(''name'', Str ''Authorization''), (''in'', Str ''header'')], Obj [(''name'', Str ''X-A''), (''in'', Str ''header'')]]
         (start_request ''/'' ''GET'' some_options) = Inr r' \<and> lookup (req_headers r') ''Authorization'' = Undef"
proof -
  let ?r = "start_request ''/'' ''GET'' some_options"
  let ?ps = "[Obj [(''name'', Str ''Authorization''), (''in'', Str ''header'')], Obj [(''name'', Str ''X-A''), (''in'', Str ''header'')]]"
  have "to_lower ''Authorization'' = ''authorization''" "to_lower ''X-A'' = ''x-a''" by code_simp+
  then obtain r' where run: "apply_parameters [(''Authorization'', Str ''x''), (''X-A'', Str ''y'')] ?ps ?r = Inr r'"
    by (simp add: parameter_value_def parameter_builder_def header_builder_def lookup_def PARAMETER_HEADER_BLACKLIST_def
        stylize_def is_object_def Let_def)
  have "lookup (req_headers r') ''Authorization'' = lookup (req_headers ?r) ''Authorization''"
    by (rule protected_headers [OF run]) code_simp
  with run show ?thesis by (simp add: start_request_def some_options_def lookup_def)
qed

text \<open>
  Of several cookie parameters only the last one is sent: each assigns the header \<open>Cookie\<close> anew.
\<close>

theorem last_cookie_wins:
  assumes "\<And>p. p \<in> {p1, p2} \<Longrightarrow> get p ''content'' = Undef \<and> get p ''style'' = Undef"
    and "cookie_builder p1 (Str v1) r = Inr r1" and "cookie_builder p2 (Str v2) r1 = Inr r2"
  shows "lookup (req_headers r2) ''Cookie'' = Str (to_str (get p2 ''name'') @ ''='' @ v2) \<and>
         cookie_builder p2 (Str v2) r = Inr (r2\<lparr>req_headers := assoc_set ''Cookie'' (lookup (req_headers r2) ''Cookie'') (req_headers r)\<rparr>)"
  using assms
  by (auto simp: cookie_builder_def stylize_def is_object_def encodePrimitive_def encodeDisallowedCharacters_def js_or_def
      set_header_def lookup_def map_of_assoc_set)

definition cookie_parameter :: "string \<Rightarrow> js" where
  "cookie_parameter name = Obj [(''name'', Str name), (''in'', Str ''cookie'')]"

theorem last_cookie_wins_witness:
  "\<exists>r1 r2. cookie_builder (cookie_parameter ''a'') (Str ''1'') (start_request ''/'' ''GET'' some_options) = Inr r1 \<and>
     cookie_builder (cookie_parameter ''b'') (Str ''2'') r1 = Inr r2 \<and> lookup (req_headers r2) ''Cookie'' = Str ''b=2''"
proof -
  let ?r = "start_request ''/'' ''GET'' some_options"
  have run: "\<exists>r1. cookie_builder (cookie_parameter k) (Str v) r = Inr r1" for k v r
    by (simp add: cookie_builder_def cookie_parameter_def stylize_def is_object_def lookup_def)
  obtain r1 where 1: "cookie_builder (cookie_parameter ''a'') (Str ''1'') ?r = Inr r1" using run by blast
  obtain r2 where 2: "cookie_builder (cookie_parameter ''b'') (Str ''2'') r1 = Inr r2" using run by blast
  have "lookup (req_headers r2) ''Cookie'' = Str (to_str (get (cookie_parameter ''b'') ''name'') @ ''='' @ ''2'')"
    by (rule last_cookie_wins [OF _ 1 2, THEN conjunct1]) (auto simp: cookie_parameter_def lookup_def)
  with 1 2 show ?thesis by (auto simp: cookie_parameter_def lookup_def)
qed

section \<open>Query parameters\<close>

definition query_parameter :: "string \<Rightarrow> js" where
  "query_parameter name = Obj [(''name'', Str name), (''in'', Str ''query'')]"

lemma apply_query_parameter:
  assumes "k \<noteq> []" "v \<noteq> []" "lookup vals k = Str v"
  shows "apply_parameters vals (query_parameter k # ps) r =
           apply_parameters vals ps (r\<lparr>req_query := Some (assoc_set k
             (Obj [(''value'', Str v), (''serializationOption'', Obj [])]) (some_query r))\<rparr>)"
proof -
  have q: "get (query_parameter k) ''name'' = Str k" "get (query_parameter k) ''in'' = Str ''query''"
      "get (query_parameter k) ''default'' = Undef" "get (query_parameter k) ''schema'' = Undef"
      "get (query_parameter k) ''content'' = Undef" "pick [''style'', ''explode'', ''allowReserved''] (query_parameter k) = Obj []"
    by (simp_all add: query_parameter_def lookup_def pick_def)
  have "parameter_value vals (query_parameter k) = Inr (Some (Str v))"
    using assms by (simp add: parameter_value_def q) (simp add: lookup_def)
  moreover have "parameter_builder (query_parameter k) (Str v) r =
      Inr (r\<lparr>req_query := Some (assoc_set k (Obj [(''value'', Str v), (''serializationOption'', Obj [])]) (some_query r))\<rparr>)"
    using assms by (simp add: parameter_builder_def query_builder_def q)
  ultimately show ?thesis by simp
qed

definition query_entry :: "string \<times> string \<Rightarrow> string \<times> js" where
  "query_entry kv = (fst kv, Obj [(''value'', Str (snd kv)), (''serializationOption'', Obj [])])"

lemma apply_query_parameters:
  assumes "\<And>k v. (k, v) \<in> set m \<Longrightarrow> k \<noteq> [] \<and> v \<noteq> [] \<and> lookup vals k = Str v" "distinct (map fst (m0 @ m))"
    and "some_query r = map query_entry m0"
  shows "apply_parameters vals (map (\<lambda>kv. query_parameter (fst kv)) m) r =
           Inr (if m = [] then r else r\<lparr>req_query := Some (map query_entry (m0 @ m))\<rparr>)"
  using assms
proof (induction m arbitrary: m0 r)
  case (Cons kv m)
  obtain k v where kv: "kv = (k, v)" by fastforce
  let ?r = "r\<lparr>req_query := Some (map query_entry (m0 @ [kv]))\<rparr>"
  have "assoc_set k (Obj [(''value'', Str v), (''serializationOption'', Obj [])]) (some_query r) = map query_entry (m0 @ [kv])"
    using Cons.prems(2,3) kv by (subst assoc_set_fresh) (force simp: query_entry_def)+
  then have "apply_parameters vals (query_parameter k # map (\<lambda>kv. query_parameter (fst kv)) m) r =
      apply_parameters vals (map (\<lambda>kv. query_parameter (fst kv)) m) ?r"
    using Cons.prems(1) [of k v] kv by (subst apply_query_parameter) auto
  moreover have "apply_parameters vals (map (\<lambda>kv. query_parameter (fst kv)) m) ?r =
      Inr (if m = [] then ?r else ?r\<lparr>req_query := Some (map query_entry ((m0 @ [kv]) @ m))\<rparr>)"
    by (rule Cons.IH) (use Cons.prems kv in \<open>auto simp: some_query_def\<close>)
  ultimately show ?case by (cases "m = []") (simp_all add: kv del: apply_parameters.simps)
qed simp

abbreviation rfc_encode :: "string \<Rightarrow> string" where
  "rfc_encode \<equiv> percent_encode isRrc3986Unreserved"

lemma format_query_entry: "formatKeyValue (fst kv) (snd (query_entry kv)) False = Inr [(rfc_encode (fst kv), Str (rfc_encode (snd kv)))]"
  by (simp add: formatKeyValue_def query_entry_def is_object_def is_array_def lookup_def js_or_def
      formatKeyValueBySerializationOption_def encode_Str)

lemma format_query_entries:
  "format_all (map query_entry m) False = Inr (map (\<lambda>(k, v). (rfc_encode k, Str (rfc_encode v))) m)"
proof -
  have "map_ok_or (\<lambda>(k, v). formatKeyValue k v False) (map query_entry m) =
      Inr (map (\<lambda>(k, v). [(rfc_encode k, Str (rfc_encode v))]) m)"
  proof (induction m)
    case (Cons kv m)
    then show ?case using format_query_entry [of kv] by (simp add: case_prod_unfold query_entry_def)
  qed simp
  moreover have "concat (map (\<lambda>(k, v). [(rfc_encode k, Str (rfc_encode v))]) m) = map (\<lambda>(k, v). (rfc_encode k, Str (rfc_encode v))) m"
    by (induction m) auto
  ultimately show ?thesis by (simp add: format_all_def)
qed

lemma encode_query_entries:
  assumes "distinct (map fst m)"
  shows "encodeFormOrQuery (map query_entry m) = Inr (join ''&'' (map (\<lambda>(k, v). rfc_encode k @ ''='' @ rfc_encode v) m))"
proof -
  let ?kvs = "map (\<lambda>(k, v). (rfc_encode k, Str (rfc_encode v))) m"
  have "distinct (map fst ?kvs)"
    using assms by (simp add: comp_def case_prod_unfold distinct_map inj_on_def rfc.encoded_eq_iff)
  then have "foldl (\<lambda>a (k, v). assoc_set k v a) [] ?kvs = ?kvs" by (simp add: foldl_assoc_set)
  moreover have "concat (map (\<lambda>(k, v). qs_pairs k v) ?kvs) = map (\<lambda>(k, v). rfc_encode k @ ''='' @ rfc_encode v) m"
    by (induction m) auto
  ultimately show ?thesis by (simp add: encodeFormOrQuery_def format_query_entries qs_stringify_def)
qed



section \<open>Required parameters\<close>

definition missing :: "(string \<times> js) list \<Rightarrow> js \<Rightarrow> bool" where
  "missing vals p =
     (truthy (get p ''name'') \<and> lookup vals (to_str (get p ''name'')) = Undef \<and>
      lookup vals (to_str (get p ''in'') @ ''.'' @ to_str (get p ''name'')) = Undef \<and>
      get p ''default'' = Undef \<and> truthy (get p ''required'') \<and> \<not> truthy (get p ''allowEmptyValue''))"

lemma missing_throws:
  "missing vals p \<Longrightarrow> parameter_value vals p = Inl (new_Error (''Required parameter '' @ to_str (get p ''name'') @ '' is not provided''))"
  by (auto simp: missing_def parameter_value_def Let_def)

lemma missing_stops: "p \<in> set ps \<Longrightarrow> missing vals p \<Longrightarrow> \<exists>e. apply_parameters vals ps r = Inl e"
proof (induction ps arbitrary: r)
  case (Cons q ps)
  then show ?case
    by (auto simp: missing_throws and_then_def split: sum.split option.split)
qed simp

text \<open>
  No request is built while a required parameter of the operation has neither a value nor a default.
\<close>

theorem required_parameters_are_enforced:
  assumes "findOperation spec (operationId opts) = Some (pathName, httpMethod, operation)"
    and "p \<in> set (all_parameters spec pathName operation)" and "missing (parameters opts) p"
  shows "\<exists>e. execute_request baseUrl remaining spec opts = Inl e"
proof -
  obtain e where "apply_parameters (parameters opts) (all_parameters spec pathName operation)
      (start_request (baseUrl spec pathName httpMethod @ pathName) httpMethod opts) = Inl e"
    using missing_stops [OF assms(2,3)] by blast
  then show ?thesis using assms(1) by (simp add: execute_request_def swagger_buildRequest_def)
qed

text \<open>A document with one operation.\<close>

definition some_spec :: js where
  "some_spec = Obj [(''openapi'', Str ''3.0.0''), (''paths'', Obj [(''/runtimes/{id}'', Obj [(''get'',
     Obj [(''operationId'', Str ''getRuntime''), (''parameters'', Arr [path_parameter ''id''])])])])]"

lemma some_spec_operation:
  "findOperation some_spec ''getRuntime'' = Some (''/runtimes/{id}'', ''GET'',
     Obj [(''operationId'', Str ''getRuntime''), (''parameters'', Arr [path_parameter ''id''])])"
  by code_simp

theorem required_parameters_are_enforced_witness:
  "\<exists>e. execute_request (\<lambda>_ _ _. []) (\<lambda>_ _. []) some_spec some_options = Inl e"
proof (rule required_parameters_are_enforced)
  show "findOperation some_spec (operationId some_options) = Some (''/runtimes/{id}'', ''GET'',
     Obj [(''operationId'', Str ''getRuntime''), (''parameters'', Arr [path_parameter ''id''])])"
    using some_spec_operation by (simp add: some_options_def)
  show "path_parameter ''id'' \<in> set (all_parameters some_spec ''/runtimes/{id}''
     (Obj [(''operationId'', Str ''getRuntime''), (''parameters'', Arr [path_parameter ''id''])]))"
    by code_simp
  show "missing (parameters some_options) (path_parameter ''id'')" by code_simp
qed

section \<open>Which parameters count\<close>

definition position :: "js \<Rightarrow> string \<times> string" where
  "position p = (to_str (get p ''in''), to_str (get p ''name''))"

text \<open>The parameter that a table of parameters has for a place and a name.\<close>

definition entry :: "(string \<times> (string \<times> js) list) list \<Rightarrow> string \<times> string \<Rightarrow> js option" where
  "entry acc k = Option.bind (map_of acc (fst k)) (\<lambda>m. map_of m (snd k))"

definition table_ok :: "(string \<times> (string \<times> js) list) list \<Rightarrow> bool" where
  "table_ok acc = (distinct (map fst acc) \<and> (\<forall>(k, m) \<in> set acc. distinct (map fst m)))"

lemma table_ok_step: "table_ok acc \<Longrightarrow> (\<And>m. map_of acc k = Some m \<Longrightarrow> distinct (map fst m')) \<Longrightarrow> distinct (map fst m') \<Longrightarrow> table_ok (assoc_set k m' acc)"
  using set_assoc_set [of k m' acc] by (auto simp: table_ok_def distinct_assoc_set)

lemma group_parameters_entry:
  "table_ok acc \<Longrightarrow>
   table_ok (group_parameters ps acc) \<and>
   entry (group_parameters ps acc) = entry acc ++ map_of (rev (map (\<lambda>p. (position p, p)) ps))"
proof (induction ps arbitrary: acc)
  case (Cons p ps)
  let ?place = "to_str (get p ''in'')" and ?name = "to_str (get p ''name'')"
  let ?inner = "case map_of acc ?place of Some m \<Rightarrow> m | None \<Rightarrow> []"
  let ?acc = "assoc_set ?place (assoc_set ?name p ?inner) acc"
  have "distinct (map fst ?inner)"
    using Cons.prems by (auto simp: table_ok_def split: option.split dest: map_of_SomeD)
  then have ok: "table_ok ?acc" using Cons.prems by (intro table_ok_step distinct_assoc_set)
  have "entry ?acc = (entry acc)(position p \<mapsto> p)"
    by (rule ext) (auto simp: entry_def position_def map_of_assoc_set split: option.split)
  with Cons.IH [OF ok] show ?case
    by (simp add: Let_def) (simp add: map_add_def fun_eq_iff split: option.split)
qed simp

lemma deduplicated_entry:
  "p \<in> set (deduplicateParameters ps) \<longleftrightarrow> map_of (rev (map (\<lambda>p. (position p, p)) ps)) (position p) = Some p"
proof -
  let ?t = "group_parameters ps []" and ?last = "map_of (rev (map (\<lambda>p. (position p, p)) ps))"
  have t: "table_ok ?t" "entry ?t = ?last"
    using group_parameters_entry [of "[]" ps] by (auto simp: table_ok_def entry_def fun_eq_iff map_add_def split: option.split)
  have "p \<in> set (deduplicateParameters ps) \<longleftrightarrow> (\<exists>a m b. (a, m) \<in> set ?t \<and> (b, p) \<in> set m)"
    by (force simp: deduplicateParameters_def)
  also have "\<dots> \<longleftrightarrow> (\<exists>k. entry ?t k = Some p)"
    using t(1) by (force simp: entry_def table_ok_def bind_eq_Some_conv)
  also have "\<dots> \<longleftrightarrow> ?last (position p) = Some p"
  proof
    assume "\<exists>k. entry ?t k = Some p"
    then obtain k where "?last k = Some p" unfolding t(2) by blast
    moreover from map_of_SomeD [OF this] have "k = position p" by auto
    ultimately show "?last (position p) = Some p" by simp
  qed (simp only: t(2), blast)
  finally show ?thesis .
qed

text \<open>
  Of the parameters with the same place and name the last one counts, and every place and name
  is represented.  As the parameters of the path come after those of the operation, the ones of the path override the
  ones of the operation.
\<close>

theorem last_declaration_counts:
  "p \<in> set (deduplicateParameters ps) \<longleftrightarrow> (\<exists>before after. ps = before @ p # after \<and> position p \<notin> position ` set after)"
proof -
  have "map_of (rev (map (\<lambda>q. (position q, q)) ps)) (position p) = Some p \<longleftrightarrow>
      (\<exists>before after. ps = before @ p # after \<and> position p \<notin> position ` set after)"
  proof (induction ps)
    case (Cons q ps)
    let ?last = "map_of (rev (map (\<lambda>q. (position q, q)) ps))"
    have split: "(\<exists>before after. q # ps = before @ p # after \<and> position p \<notin> position ` set after) \<longleftrightarrow>
        q = p \<and> position p \<notin> position ` set ps \<or> ?last (position p) = Some p"
      unfolding Cons_eq_append_conv Cons.IH by blast
    have none: "?last (position p) = None \<longleftrightarrow> position p \<notin> position ` set ps"
      by (force simp: map_of_eq_None_iff)
    show ?case
      unfolding split none [symmetric] by (cases "?last (position p)") (auto simp: map_add_def)
  qed simp
  then show ?thesis by (simp add: deduplicated_entry)
qed

section \<open>Credentials\<close>

text \<open>
  With a scheme for basic authentication the user name and the password are sent in
  the header \<open>Authorization\<close>, from which the server decodes them.
\<close>

theorem basic_credentials_arrive:
  assumes "get scheme ''type'' = Str ''http''" and "get scheme ''scheme'' = Str s" and "to_lower s = ''basic''"
    and "auth = Obj [(''value'', Obj [(''username'', Str user), (''password'', Str pass)])]"
  shows "\<exists>w r'. authorize_one auth scheme r = Inr r' \<and> lookup (req_headers r') ''Authorization'' = Str (''Basic '' @ w) \<and>
           base64_decode w = user @ '':'' @ pass"
proof -
  have "scheme \<noteq> Undef" "scheme \<noteq> Null" using assms(1) by (auto simp: lookup_def)
  moreover have "to_str (js_or (Str x) (Str [])) = x" for x by (simp add: js_or_def)
  ultimately show ?thesis
    using assms
    by (simp add: authorize_one_def set_header_def Let_def)
       (simp add: lookup_def js_or_def map_of_assoc_set base64_roundtrip)
qed

theorem basic_credentials_arrive_witness:
  "\<exists>w r'. authorize_one (Obj [(''value'', Obj [(''username'', Str ''me''), (''password'', Str ''p:w'')])])
       (Obj [(''type'', Str ''http''), (''scheme'', Str ''Basic'')]) (start_request ''/'' ''GET'' some_options) = Inr r' \<and>
     lookup (req_headers r') ''Authorization'' = Str (''Basic '' @ w) \<and> base64_decode w = ''me:p:w''"
proof -
  have "to_lower ''Basic'' = ''basic''" by code_simp
  then show ?thesis
    using basic_credentials_arrive [of "Obj [(''type'', Str ''http''), (''scheme'', Str ''Basic'')]" "''Basic''" _ "''me''" "''p:w''"]
    by (simp add: lookup_def)
qed

end
