(* ===== verification/Swagger_Validate.thy ===== *)
theory Swagger_Validate
  imports Swagger_Encode "HOL-Library.List_Lexorder" "HOL-Library.Char_ord"
begin

text \<open>
  How Swagger UI checks the values of parameters before it sends a request: \<open>validateValueBySchema\<close>, \<open>validateParam\<close> and
  the reducer that calls them, on the one line of \<^verbatim>\<open>src/files/swagger/swagger-ui-es-bundle-core.js\<close>.  The minified names
  are given with each definition.

  The reducer hands over plain values (\<open>toJS\<close>).  A schema is an immutable structure: \<open>Obj\<close> is a map, \<open>Arr\<close> a list.
  Regular expressions that come from a schema, the parsing of dates, which values are files, and two things of
  the package \<open>immutable\<close> are parameters, the record \<open>page_env\<close>.  Numbers are exact: rounding to doubles is not modelled.
\<close>

section \<open>Comparing values\<close>

datatype js_number = NaN | Infinite bool | Finite int nat

text \<open>\<open>Finite m k\<close> is \<open>m\<close> divided by the \<open>k\<close>-th power of ten.\<close>

fun less_number :: "js_number \<Rightarrow> js_number \<Rightarrow> bool" where
  "less_number (Finite m k) (Finite m' k') = (m * 10 ^ k' < m' * 10 ^ k)"
| "less_number (Finite m k) (Infinite positive) = positive"
| "less_number (Infinite positive) (Finite m k) = (\<not> positive)"
| "less_number (Infinite p) (Infinite q) = (\<not> p \<and> q)"
| "less_number _ _ = False"

definition digits_of :: "string \<Rightarrow> string \<times> string" where
  "digits_of s = (takeWhile is_digit s, dropWhile is_digit s)"

definition exponent_of :: "string \<Rightarrow> int option" where
  "exponent_of s =
     (case s of
        [] \<Rightarrow> Some 0
      | c # r \<Rightarrow>
          if c = CHR ''e'' \<or> c = CHR ''E''
          then (let negative = starts_with ''-'' r;
                    ds = (if starts_with ''-'' r \<or> starts_with ''+'' r then tl r else r)
                in if ds \<noteq> [] \<and> list_all is_digit ds then Some ((if negative then -1 else 1) * int (read_nat ds)) else None)
          else None)"

definition unsigned_decimal :: "string \<Rightarrow> js_number" where
  "unsigned_decimal s =
     (let (whole, r) = digits_of s;
          (frac, r') = (case r of c # r1 \<Rightarrow> if c = CHR ''.'' then digits_of r1 else ([], r) | [] \<Rightarrow> ([], []))
      in if whole = [] \<and> frac = [] then NaN
         else
           (case exponent_of r' of
              None \<Rightarrow> NaN
            | Some x \<Rightarrow>
                (let m = int (read_nat (whole @ frac)); k = int (length frac) - x in
                 if k \<le> 0 then Finite (m * 10 ^ nat (- k)) 0 else Finite m (nat k))))"

fun negated :: "js_number \<Rightarrow> js_number" where
  "negated NaN = NaN"
| "negated (Infinite p) = Infinite (\<not> p)"
| "negated (Finite m k) = Finite (- m) k"

definition radix_number :: "nat \<Rightarrow> string \<Rightarrow> js_number" where
  "radix_number base ds =
     (let vs = map hex_value ds in
      if ds \<noteq> [] \<and> list_all (\<lambda>v. case v of Some d \<Rightarrow> d < base | None \<Rightarrow> False) vs
      then Finite (int (foldl (\<lambda>m v. m * base + the v) 0 vs)) 0 else NaN)"

text \<open>\<open>Number(s)\<close> of a string\<close>

definition string_number :: "string \<Rightarrow> js_number" where
  "string_number s =
     (let t = trim s; unsigned = (\<lambda>u. if u = ''Infinity'' then Infinite True else unsigned_decimal u) in
      if t = [] then Finite 0 0
      else if starts_with ''0x'' t \<or> starts_with ''0X'' t then radix_number 16 (drop 2 t)
      else if starts_with ''0o'' t \<or> starts_with ''0O'' t then radix_number 8 (drop 2 t)
      else if starts_with ''0b'' t \<or> starts_with ''0B'' t then radix_number 2 (drop 2 t)
      else if starts_with ''-'' t then negated (unsigned (tl t))
      else if starts_with ''+'' t then unsigned (tl t)
      else unsigned t)"

fun number_value :: "js \<Rightarrow> js_number" where
  "number_value Undef = NaN"
| "number_value Null = Finite 0 0"
| "number_value (Bool b) = Finite (if b then 1 else 0) 0"
| "number_value (Num i) = Finite i 0"
| "number_value (Dec d) = string_number d"
| "number_value v = string_number (to_str v)"

definition primitive :: "js \<Rightarrow> js" where
  "primitive v = (if is_object v \<and> v \<noteq> Null then Str (to_str v) else v)"

text \<open>\<open>a < b\<close> and \<open>a >= b\<close>: two strings are compared as strings, anything else as numbers, and nothing holds of \<open>NaN\<close>.\<close>

definition js_less :: "js \<Rightarrow> js \<Rightarrow> bool" where
  "js_less a b =
     (case (primitive a, primitive b) of
        (Str s, Str t) \<Rightarrow> s < t
      | (p, q) \<Rightarrow> less_number (number_value p) (number_value q))"

definition js_at_least :: "js \<Rightarrow> js \<Rightarrow> bool" where
  "js_at_least a b =
     (case (primitive a, primitive b) of
        (Str s, Str t) \<Rightarrow> \<not> s < t
      | (p, q) \<Rightarrow> number_value p \<noteq> NaN \<and> number_value q \<noteq> NaN \<and> \<not> less_number (number_value p) (number_value q))"

text \<open>\<open>v[k]\<close> for a name\<close>

definition prop_of :: "js \<Rightarrow> string \<Rightarrow> js + js" where
  "prop_of v k =
     (case v of
        Arr vs \<Rightarrow> Inr (lookup (indexed vs @ [(''length'', Num (int (length vs)))]) k)
      | Str s \<Rightarrow> Inr (lookup (indexed (map (\<lambda>c. Str [c]) s) @ [(''length'', Num (int (length s)))]) k)
      | _ \<Rightarrow> member v (K k))"

text \<open>The equality of values converted by \<open>fromJS\<close>: the order of properties does not matter.\<close>

fun canonical :: "js \<Rightarrow> js" where
  "canonical (Arr vs) = Arr (map canonical vs)"
| "canonical (Obj ps) = Obj (sort_key fst (map (\<lambda>(k, v). (k, canonical v)) ps))"
| "canonical v = v"

section \<open>Checks of one value\<close>

datatype verror = Msg string | NeedRemove string | AtIndex nat verror | AtProp string verror

record page_env =
  re_test :: "string \<Rightarrow> string \<Rightarrow> js + bool"
  date_ok :: "js \<Rightarrow> bool"
  is_file :: "js \<Rightarrow> bool"
  lists_have_isList :: bool
  hashCode :: "js \<Rightarrow> string"

abbreviation field :: "js \<Rightarrow> string \<Rightarrow> js" where
  "field t k \<equiv> lookup (entries t) k"

definition given :: "js \<Rightarrow> bool" where
  "given v = (truthy v \<or> v = Num 0)"

definition plural :: "js \<Rightarrow> string" where
  "plural t = (if t = Num 1 then [] else ''s'')"

definition validatePattern :: "page_env \<Rightarrow> js \<Rightarrow> js \<Rightarrow> js + verror list" where
  "validatePattern pg v rx =
     and_then (re_test pg (to_str rx) (to_str v)) (\<lambda>ok.
       Inr (if ok then [] else [Msg (''Value must follow pattern '' @ to_str rx)]))"

definition validateMinItems :: "js \<Rightarrow> js \<Rightarrow> js + verror list" where
  "validateMinItems v low =
     (let complaint = Inr [Msg (''Array must contain at least '' @ to_str low @ '' item'' @ plural low)] in
      if \<not> truthy v then (if js_at_least low (Num 1) then complaint else Inr [])
      else and_then (prop_of v ''length'') (\<lambda>len. if js_less len low then complaint else Inr []))"

definition validateMaxItems :: "js \<Rightarrow> js \<Rightarrow> js + verror list" where
  "validateMaxItems v high =
     (if \<not> truthy v then Inr []
      else and_then (prop_of v ''length'') (\<lambda>len.
             Inr (if js_less high len
                  then [NeedRemove (''Array must not contain more then '' @ to_str high @ '' item'' @ plural high)] else [])))"

text \<open>Only an array has the methods that are called when the items have to be unique.\<close>

definition duplicates :: "js list \<Rightarrow> nat list" where
  "duplicates vs =
     (let cs = map canonical vs in filter (\<lambda>i. 1 < length (filter (\<lambda>c. c = cs ! i) cs)) [0..<length vs])"

definition validateUniqueItems :: "js \<Rightarrow> js \<Rightarrow> js + verror list" where
  "validateUniqueItems v unique =
     (if truthy v \<and> (unique = Str ''true'' \<or> unique = Bool True)
      then (case v of
              Arr vs \<Rightarrow> Inr (map (\<lambda>i. AtIndex i (Msg ''No duplicates allowed.'')) (duplicates vs))
            | _ \<Rightarrow> Inl (TypeError ''n.toSet is not a function''))
      else Inr [])"

definition validateMaxLength :: "js \<Rightarrow> js \<Rightarrow> js + verror list" where
  "validateMaxLength v high =
     and_then (prop_of v ''length'') (\<lambda>len.
       Inr (if js_less high len then [Msg (''Value must be no longer than '' @ to_str high @ '' character'' @ plural high)] else []))"

definition validateMinLength :: "js \<Rightarrow> js \<Rightarrow> js + verror list" where
  "validateMinLength v low =
     and_then (prop_of v ''length'') (\<lambda>len.
       Inr (if js_less len low then [Msg (''Value must be at least '' @ to_str low @ '' character'' @ plural low)] else []))"

definition validateMaximum :: "js \<Rightarrow> js \<Rightarrow> verror list" where
  "validateMaximum v high = (if js_less high v then [Msg (''Value must be less than '' @ to_str high)] else [])"

definition validateMinimum :: "js \<Rightarrow> js \<Rightarrow> verror list" where
  "validateMinimum v low = (if js_less v low then [Msg (''Value must be greater than '' @ to_str low)] else [])"

fun in_order :: "('e + 'a list) list \<Rightarrow> 'e + 'a list" where
  "in_order [] = Inr []"
| "in_order (r # rs) = and_then r (\<lambda>xs. and_then (in_order rs) (\<lambda>ys. Inr (xs @ ys)))"

definition only_if :: "bool \<Rightarrow> 'e + 'a list \<Rightarrow> 'e + 'a list" where
  "only_if b r = (if b then r else Inr [])"

definition limit_checks :: "page_env \<Rightarrow> js \<Rightarrow> js \<Rightarrow> js + verror list" where
  "limit_checks pg v t =
     (let isArray = (field t ''type'' = Str ''array'') in
      in_order
        [only_if (truthy (field t ''pattern'')) (validatePattern pg v (field t ''pattern'')),
         only_if (truthy (field t ''minItems'') \<and> isArray) (validateMinItems v (field t ''minItems'')),
         only_if (truthy (field t ''maxItems'') \<and> isArray) (validateMaxItems v (field t ''maxItems'')),
         only_if (truthy (field t ''uniqueItems'') \<and> isArray) (validateUniqueItems v (field t ''uniqueItems'')),
         only_if (given (field t ''maxLength'')) (validateMaxLength v (field t ''maxLength'')),
         only_if (truthy (field t ''minLength'')) (validateMinLength v (field t ''minLength'')),
         only_if (given (field t ''maximum'')) (Inr (validateMaximum v (field t ''maximum''))),
         only_if (given (field t ''minimum'')) (Inr (validateMinimum v (field t ''minimum'')))])"

text \<open>The regular expressions written in the code: a Guid, an integer and a number.\<close>

definition all_hex :: "nat \<Rightarrow> string \<Rightarrow> bool" where
  "all_hex k s = (length s = k \<and> list_all (\<lambda>c. hex_value c \<noteq> None) s)"

definition guid_text :: "string \<Rightarrow> bool" where
  "guid_text s0 =
     (let s1 = (if starts_with ''{'' s0 \<or> starts_with ''('' s0 then tl s0 else s0);
          s = (if s1 \<noteq> [] \<and> (last s1 = CHR '')'' \<or> last s1 = CHR ''}'') then butlast s1 else s1)
      in case split s ''-'' of
           [a, b, c, d, e] \<Rightarrow> all_hex 8 a \<and> all_hex 4 b \<and> all_hex 4 c \<and> all_hex 4 d \<and> all_hex 12 e
         | _ \<Rightarrow> False)"

definition unsigned_part :: "string \<Rightarrow> string" where
  "unsigned_part s = (if starts_with ''-'' s then tl s else s)"

definition integer_text :: "string \<Rightarrow> bool" where
  "integer_text s = (unsigned_part s \<noteq> [] \<and> list_all is_digit (unsigned_part s))"

definition number_text :: "string \<Rightarrow> bool" where
  "number_text s =
     (let (whole, r) = digits_of (unsigned_part s) in
      whole \<noteq> [] \<and> (r = [] \<or> hd r = CHR ''.'' \<and> tl r \<noteq> [] \<and> list_all is_digit (tl r)))"

definition validateString :: "page_env \<Rightarrow> js \<Rightarrow> js \<Rightarrow> js + verror list" where
  "validateString pg v fmt =
     (if fmt = Str ''date-time'' then Inr (if date_ok pg v then [] else [Msg ''Value must be a DateTime''])
      else if fmt = Str ''uuid''
      then and_then (toString v) (\<lambda>s. Inr (if guid_text (to_lower s) then [] else [Msg ''Value must be a Guid'']))
      else Inr (if truthy v \<and> (case v of Str _ \<Rightarrow> False | _ \<Rightarrow> True) then [Msg ''Value must be a string''] else []))"

definition validateBoolean :: "js \<Rightarrow> verror list" where
  "validateBoolean v = (if v \<in> {Str ''true'', Str ''false'', Bool True, Bool False} then [] else [Msg ''Value must be a boolean''])"

definition validateNumber :: "js \<Rightarrow> verror list" where
  "validateNumber v = (if number_text (to_str v) then [] else [Msg ''Value must be a number''])"

definition validateInteger :: "js \<Rightarrow> verror list" where
  "validateInteger v = (if integer_text (to_str v) then [] else [Msg ''Value must be an integer''])"

definition validateFile :: "page_env \<Rightarrow> js \<Rightarrow> verror list" where
  "validateFile pg v = (if truthy v \<and> \<not> is_file pg v then [Msg ''Value must be a file''] else [])"

definition type_checks :: "page_env \<Rightarrow> js \<Rightarrow> js \<Rightarrow> js + verror list" where
  "type_checks pg v t =
     (let h = field t ''type'' in
      if h = Str ''string'' then validateString pg v (field t ''format'')
      else if h = Str ''boolean'' then Inr (validateBoolean v)
      else if h = Str ''number'' then Inr (validateNumber v)
      else if h = Str ''integer'' then Inr (validateInteger v)
      else if h = Str ''file'' then Inr (validateFile pg v)
      else Inr [])"

text \<open>Whether a value counts as provided.\<close>

definition provided :: "page_env \<Rightarrow> js \<Rightarrow> js \<Rightarrow> bool" where
  "provided pg v h =
     (h = Str ''string'' \<and> truthy v \<or>
      h = Str ''array'' \<and> (case v of Arr vs \<Rightarrow> vs \<noteq> [] | Str s \<Rightarrow> s \<noteq> [] | _ \<Rightarrow> False) \<or>
      h = Str ''file'' \<and> is_file pg v \<or>
      h = Str ''boolean'' \<and> (truthy v \<or> v = Bool False) \<or>
      (h = Str ''number'' \<or> h = Str ''integer'') \<and> (truthy v \<or> v = Num 0) \<or>
      h = Str ''object'' \<and> (is_object v \<and> v \<noteq> Null \<or> (case v of Str s \<Rightarrow> s \<noteq> [] | _ \<Rightarrow> False)))"

section \<open>Values and schemas\<close>

text \<open>All errors of a list of checks that may throw.\<close>

fun collect :: "('a \<Rightarrow> 'e + 'b list) \<Rightarrow> 'a list \<Rightarrow> 'e + 'b list" where
  "collect f [] = Inr []"
| "collect f (x # xs) = and_then (f x) (\<lambda>ys. and_then (collect f xs) (\<lambda>zs. Inr (ys @ zs)))"

lemma collect_cong [fundef_cong]: "xs = ys \<Longrightarrow> (\<And>x. x \<in> set ys \<Longrightarrow> f x = g x) \<Longrightarrow> collect f xs = collect g ys"
  by (induction xs arbitrary: ys) auto

lemma and_then_cong [fundef_cong]: "r = r' \<Longrightarrow> (\<And>x. r' = Inr x \<Longrightarrow> f x = g x) \<Longrightarrow> and_then r f = and_then r' g"
  by (cases r) (auto simp: and_then_def)

definition required_properties :: "page_env \<Rightarrow> js \<Rightarrow> js \<Rightarrow> js + verror list" where
  "required_properties pg v t =
     (case map_of (entries t) ''required'' of
        None \<Rightarrow> Inr []
      | Some u \<Rightarrow>
          if u = Undef \<or> u = Null then Inl (cannot_read (to_str u) ''isList'')
          else (case u of
                  Arr rs \<Rightarrow>
                    if lists_have_isList pg
                    then collect (\<lambda>k. and_then (prop_of v (to_str k)) (\<lambda>w.
                           Inr (if w = Undef then [AtProp (to_str k) (Msg ''Required property not found'')] else []))) rs
                    else Inr []
                | _ \<Rightarrow> Inr []))"

definition map_errors :: "(verror \<Rightarrow> verror) \<Rightarrow> js + verror list \<Rightarrow> js + verror list" where
  "map_errors f r = and_then r (\<lambda>es. Inr (map f es))"

lemma size_entry: "(k, v) \<in> set (entries t) \<Longrightarrow> size v < size t"
proof -
  have "(k, v) \<in> set ps \<Longrightarrow> size v < Suc (size_list (size_prod (\<lambda>x. 0) size) ps)" for ps :: "(string \<times> js) list"
    by (induction ps) auto
  then show "(k, v) \<in> set (entries t) \<Longrightarrow> size v < size t" by (cases t) auto
qed

lemma size_field: "size (field (Obj ps) k) < size (Obj ps)"
  using size_entry [of k _ "Obj ps"] by (cases "map_of ps k") (auto simp: lookup_def dest: map_of_SomeD)

text \<open>\<open>Ne\<close>.  The arguments are the value, the schema, whether the parameter is required, whether this check is bypassed, and the media type.\<close>

function validateValueBySchema :: "page_env \<Rightarrow> js \<Rightarrow> js \<Rightarrow> bool \<Rightarrow> bool \<Rightarrow> js \<Rightarrow> js + verror list" where
  "validateValueBySchema pg v t requiredByParam bypassRequiredCheck mediaType =
     (if \<not> truthy t then Inr []
      else
        (case t of
           Obj ps \<Rightarrow>
             (let h = field t ''type''; req = (requiredByParam \<or> truthy (field t ''required'')) in
              if truthy (field t ''nullable'') \<and> v = Null \<or> \<not> truthy h \<or> \<not> (req \<or> v \<noteq> Undef \<and> v \<noteq> Null) then Inr []
              else if req \<and> \<not> provided pg v h \<and> \<not> bypassRequiredCheck then Inr [Msg ''Required field is not provided'']
              else
                (let u = (if h = Str ''object'' \<and> (mediaType = Null \<or> mediaType = Str ''application/json'')
                          then (case v of Str s \<Rightarrow> map_option Some (case parse_text s of Inr w \<Rightarrow> Some w | Inl _ \<Rightarrow> None)
                                        | _ \<Rightarrow> Some (Some v))
                          else Some None)
                 in case u of
                      None \<Rightarrow> Inr [Msg ''Parameter string value must be valid JSON'']
                    | Some obj \<Rightarrow>
                        in_order
                          [(case obj of None \<Rightarrow> Inr [] | Some w \<Rightarrow> required_properties pg w t),
                           (case obj of None \<Rightarrow> Inr []
                            | Some w \<Rightarrow>
                                collect (\<lambda>(k, sub). and_then (prop_of w k) (\<lambda>x.
                                    map_errors (AtProp k) (validateValueBySchema pg x sub False bypassRequiredCheck mediaType)))
                                  (entries (field t ''properties''))),
                           limit_checks pg v t,
                           (if h = Str ''array''
                            then (case v of
                                    Arr vs \<Rightarrow>
                                      collect (\<lambda>(i, x). map_errors (AtIndex i)
                                          (validateValueBySchema pg x (field t ''items'') False bypassRequiredCheck mediaType))
                                        (zip [0..<length vs] vs)
                                  | _ \<Rightarrow> Inr [])
                            else type_checks pg v t)]))
         | _ \<Rightarrow> Inl (TypeError ''t.get is not a function'')))"
  by pat_completeness auto
termination
proof (relation "measure (\<lambda>(pg, v, t, a, b, m). size t)", goal_cases)
  case 1
  show ?case by simp
next
  case (2 pg v t a b m ps h req u obj w kv k sub x)
  then have "size sub < size (field t ''properties'')" by (auto intro: size_entry)
  moreover have "size (field t ''properties'') < size t" using 2 by (auto simp only: intro: size_field)
  ultimately show ?case by simp
next
  case (3 pg v t a b m ps)
  then show ?case by (auto simp only: in_measure prod.case intro: size_field)
qed

declare validateValueBySchema.simps [simp del]

section \<open>Parameters of an operation\<close>

text \<open>Module 115: the schema of a parameter and the media type of its content.\<close>

definition swagger2SchemaKeys :: "string list" where
  "swagger2SchemaKeys =
     [''type'', ''format'', ''items'', ''default'', ''maximum'', ''exclusiveMaximum'', ''minimum'', ''exclusiveMinimum'',
      ''maxLength'', ''minLength'', ''pattern'', ''maxItems'', ''minItems'', ''uniqueItems'', ''enum'', ''multipleOf'']"

definition field_or_empty :: "js \<Rightarrow> string \<Rightarrow> js" where
  "field_or_empty t k = (case map_of (entries t) k of Some v \<Rightarrow> v | None \<Rightarrow> Obj [])"

definition getParameterSchema :: "js \<Rightarrow> bool \<Rightarrow> js \<times> js" where
  "getParameterSchema parameter isOAS3 =
     (case parameter of
        Obj ps \<Rightarrow>
          if \<not> isOAS3
          then (if field parameter ''in'' = Str ''body'' then (field_or_empty parameter ''schema'', Null)
                else (Obj (filter (\<lambda>(k, v). k \<in> set swagger2SchemaKeys) ps), Null))
          else if truthy (field parameter ''content'')
          then (case entries (field parameter ''content'') of
                  [] \<Rightarrow> (Obj [], Undef)
                | (mediaType, c) # _ \<Rightarrow> (field_or_empty c ''schema'', Str mediaType))
          else (field_or_empty parameter ''schema'', Null)
      | _ \<Rightarrow> (Obj [], Null))"

text \<open>\<open>Me\<close>\<close>

definition validateParam :: "page_env \<Rightarrow> js \<Rightarrow> js \<Rightarrow> bool \<Rightarrow> bool \<Rightarrow> js + verror list" where
  "validateParam pg param v isOAS3 bypassRequiredCheck =
     (let (schema, mediaType) = getParameterSchema param isOAS3 in
      validateValueBySchema pg v schema (truthy (field param ''required'')) bypassRequiredCheck mediaType)"

text \<open>\<open>rt\<close> and \<open>at\<close>: the keys under which a parameter may be found, the most specific first, and its value.\<close>

definition paramIdentifiers :: "page_env \<Rightarrow> js \<Rightarrow> string list" where
  "paramIdentifiers pg param =
     (let name = field param ''name''; place = field param ''in'' in
      (if truthy place \<and> truthy name
       then [to_str place @ ''.'' @ to_str name @ ''.hash-'' @ hashCode pg param, to_str place @ ''.'' @ to_str name] else [])
      @ [to_str name])"

definition paramToIdentifier :: "page_env \<Rightarrow> js \<Rightarrow> string" where
  "paramToIdentifier pg param = (if truthy (field param ''name'') then hd (paramIdentifiers pg param) else [])"

definition paramToValue :: "page_env \<Rightarrow> js \<Rightarrow> (string \<times> js) list \<Rightarrow> js" where
  "paramToValue pg param paramValues =
     (case filter (\<lambda>v. v \<noteq> Undef) (map (lookup paramValues) (paramIdentifiers pg param)) of v # _ \<Rightarrow> v | [] \<Rightarrow> Undef)"

definition parameterInclusionSettingFor :: "(string \<times> js) list \<Rightarrow> js \<Rightarrow> bool" where
  "parameterInclusionSettingFor inclusions param =
     truthy (lookup inclusions (to_str (field param ''in'') @ ''.'' @ to_str (field param ''name'')))"

text \<open>
  The reducer of \<open>VALIDATE_PARAMS\<close>.  Of what is stored for a parameter only its errors matter here; the rest is not
  touched.  What a check throws leaves the reducer.
\<close>

type_synonym meta_errors = "(string \<times> verror list) list"

definition check_param :: "page_env \<Rightarrow> bool \<Rightarrow> (string \<times> js) list \<Rightarrow> (string \<times> js) list \<Rightarrow> js \<Rightarrow> js + verror list" where
  "check_param pg isOAS3 paramValues inclusions param =
     validateParam pg param (paramToValue pg param paramValues) isOAS3 (parameterInclusionSettingFor inclusions param)"

fun validate_params ::
  "page_env \<Rightarrow> bool \<Rightarrow> (string \<times> js) list \<Rightarrow> (string \<times> js) list \<Rightarrow> js list \<Rightarrow> meta_errors \<Rightarrow> js + meta_errors" where
  "validate_params pg isOAS3 paramValues inclusions [] meta = Inr meta"
| "validate_params pg isOAS3 paramValues inclusions (p # ps) meta =
     and_then (check_param pg isOAS3 paramValues inclusions p) (\<lambda>es.
       validate_params pg isOAS3 paramValues inclusions ps (assoc_set (paramToIdentifier pg p) es meta))"

text \<open>\<open>Re\<close>, and the handler of the button that asks both before it sends the request.\<close>

definition validateBeforeExecute :: "meta_errors \<Rightarrow> bool" where
  "validateBeforeExecute meta = (\<forall>(k, es) \<in> set meta. es = [])"

definition handleValidateParameters ::
  "page_env \<Rightarrow> bool \<Rightarrow> (string \<times> js) list \<Rightarrow> (string \<times> js) list \<Rightarrow> js list \<Rightarrow> meta_errors \<Rightarrow> js + bool \<times> meta_errors" where
  "handleValidateParameters pg isOAS3 paramValues inclusions params meta =
     and_then (validate_params pg isOAS3 paramValues inclusions params meta) (\<lambda>meta'.
       Inr (validateBeforeExecute meta', meta'))"

section \<open>What the checks guarantee\<close>

lemma validate_params_errors:
  assumes "validate_params pg isOAS3 vals inc ps meta = Inr meta'" "distinct (map (paramToIdentifier pg) ps)" "distinct (map fst meta)"
  shows "distinct (map fst meta') \<and> (\<forall>p \<in> set ps. check_param pg isOAS3 vals inc p = Inr (the (map_of meta' (paramToIdentifier pg p)))) \<and>
         (\<forall>k. k \<notin> paramToIdentifier pg ` set ps \<longrightarrow> map_of meta' k = map_of meta k) \<and>
         (\<forall>p \<in> set ps. map_of meta' (paramToIdentifier pg p) \<noteq> None)"
  using assms
proof (induction ps arbitrary: meta)
  case (Cons p ps)
  obtain es where es: "check_param pg isOAS3 vals inc p = Inr es"
      "validate_params pg isOAS3 vals inc ps (assoc_set (paramToIdentifier pg p) es meta) = Inr meta'"
    using Cons.prems(1) by (auto simp: and_then_def split: sum.splits)
  have IH: "distinct (map fst meta') \<and> (\<forall>p \<in> set ps. check_param pg isOAS3 vals inc p = Inr (the (map_of meta' (paramToIdentifier pg p)))) \<and>
      (\<forall>k. k \<notin> paramToIdentifier pg ` set ps \<longrightarrow> map_of meta' k = map_of (assoc_set (paramToIdentifier pg p) es meta) k) \<and>
      (\<forall>p \<in> set ps. map_of meta' (paramToIdentifier pg p) \<noteq> None)"
    using es(2) Cons.prems(2,3) by (intro Cons.IH) (auto simp: distinct_assoc_set)
  moreover have "map_of meta' (paramToIdentifier pg p) = Some es"
    using IH Cons.prems(2) by (simp add: map_of_assoc_set)
  ultimately show ?case using es(1) by (auto simp: map_of_assoc_set)
qed simp


text \<open>The parts of the page that matter for the examples.\<close>

definition plain_page :: page_env where
  "plain_page = \<lparr>re_test = (\<lambda>rx s. Inr True), date_ok = (\<lambda>_. True), is_file = (\<lambda>_. False), lists_have_isList = False, hashCode = (\<lambda>_. ''0'')\<rparr>"


section \<open>Integers\<close>

definition int_value :: "string \<Rightarrow> int" where
  "int_value s = (if starts_with ''-'' s then - int (read_nat (tl s)) else int (read_nat s))"

lemma starts_with_single [simp]: "starts_with [c] s \<longleftrightarrow> s \<noteq> [] \<and> hd s = c"
  by (cases s) (auto simp: starts_with_def)

lemma trim_id: "(\<And>c. c \<in> set s \<Longrightarrow> \<not> white c) \<Longrightarrow> trim s = s"
proof -
  assume w: "\<And>c. c \<in> set s \<Longrightarrow> \<not> white c"
  have "dropWhile white t = t" if "set t \<subseteq> set s" for t
    using that w by (cases t) auto
  then show "trim s = s" by (simp add: trim_def)
qed

lemma digit_not_white: "is_digit c \<Longrightarrow> \<not> white c"
  by (auto simp: is_digit_def white_def)

lemma digits_no_prefix: "list_all is_digit ds \<Longrightarrow> \<not> is_digit b \<Longrightarrow> \<not> starts_with [a, b] ds"
proof
  assume "list_all is_digit ds" "\<not> is_digit b" "starts_with [a, b] ds"
  then have "b \<in> set ds" by (metis in_set_takeD list.set_intros(1) list.set_intros(2) starts_with_def)
  with \<open>list_all is_digit ds\<close> \<open>\<not> is_digit b\<close> show False by (auto simp: list_all_iff)
qed

lemma unsigned_decimal_digits: "ds \<noteq> [] \<Longrightarrow> list_all is_digit ds \<Longrightarrow> unsigned_decimal ds = Finite (int (read_nat ds)) 0"
proof -
  assume ds: "ds \<noteq> []" "list_all is_digit ds"
  then have "takeWhile is_digit ds = ds" "dropWhile is_digit ds = []"
    by (simp_all add: list_all_iff takeWhile_eq_all_conv dropWhile_eq_Nil_conv)
  then have "digits_of ds = (ds, [])" by (simp add: digits_of_def)
  with ds(1) show ?thesis by (simp add: unsigned_decimal_def exponent_of_def)
qed

lemma string_number_digits:
  assumes "ds \<noteq> []" "list_all is_digit ds"
  shows "string_number ds = Finite (int (read_nat ds)) 0" "string_number (CHR ''-'' # ds) = Finite (- int (read_nat ds)) 0"
proof -
  have nd: "\<not> is_digit (CHR ''x'')" "\<not> is_digit (CHR ''X'')" "\<not> is_digit (CHR ''o'')" "\<not> is_digit (CHR ''O'')"
      "\<not> is_digit (CHR ''b'')" "\<not> is_digit (CHR ''B'')" "\<not> is_digit (CHR ''-'')" "\<not> is_digit (CHR ''+'')" "\<not> is_digit (CHR ''I'')"
    by (simp_all add: is_digit_def)
  have hd: "is_digit (hd ds)" using assms by (cases ds) auto
  have "\<forall>c \<in> set (CHR ''-'' # ds). \<not> white c"
    using assms(2) digit_not_white by (auto simp: list_all_iff white_def)
  then have trim: "trim ds = ds" "trim (CHR ''-'' # ds) = CHR ''-'' # ds"
    by (blast intro: trim_id list.set_intros)+
  have inf: "ds \<noteq> ''Infinity''" using hd nd by auto
  have p: "\<not> starts_with ''0x'' ds" "\<not> starts_with ''0X'' ds" "\<not> starts_with ''0o'' ds" "\<not> starts_with ''0O'' ds"
      "\<not> starts_with ''0b'' ds" "\<not> starts_with ''0B'' ds" "\<not> starts_with ''-'' ds" "\<not> starts_with ''+'' ds"
    using digits_no_prefix [OF assms(2) nd(1)] digits_no_prefix [OF assms(2) nd(2)] digits_no_prefix [OF assms(2) nd(3)]
      digits_no_prefix [OF assms(2) nd(4)] digits_no_prefix [OF assms(2) nd(5)] digits_no_prefix [OF assms(2) nd(6)] hd nd
    by auto
  show "string_number ds = Finite (int (read_nat ds)) 0"
    unfolding string_number_def trim Let_def using assms(1) inf p by (simp only: unsigned_decimal_digits [OF assms] if_False if_True simp_thms)
  have q: "\<not> starts_with [CHR ''0'', c] (CHR ''-'' # ds)" for c by (simp add: starts_with_def)
  show "string_number (CHR ''-'' # ds) = Finite (- int (read_nat ds)) 0"
    unfolding string_number_def trim Let_def using inf by (simp add: q unsigned_decimal_digits [OF assms])
qed

lemma integer_number: "integer_text s \<Longrightarrow> string_number s = Finite (int_value s) 0"
  by (cases s) (auto simp: integer_text_def unsigned_part_def int_value_def string_number_digits split: if_splits)

lemma validate_scalar:
  assumes "lookup ps ''type'' = Str ty" "ty \<noteq> []" "ty \<noteq> ''object''" "ty \<noteq> ''array''" "provided pg v (Str ty)" "v \<noteq> Undef" "v \<noteq> Null"
  shows "validateValueBySchema pg v (Obj ps) required bypass mediaType = in_order [limit_checks pg v (Obj ps), type_checks pg v (Obj ps)]"
  using assms by (subst validateValueBySchema.simps) (simp add: Let_def)

definition integer_schema :: "int \<Rightarrow> int \<Rightarrow> js" where
  "integer_schema low high = Obj [(''type'', Str ''integer''), (''maximum'', Num high), (''minimum'', Num low)]"

text \<open>
  A text passes the check for an integer between two bounds exactly when it is the decimal
  text of an integer between them; both bounds are allowed, although the messages say less than and greater than.
\<close>

theorem integers_in_range:
  assumes "s \<noteq> []"
  shows "validateValueBySchema pg (Str s) (integer_schema low high) required bypass mediaType = Inr [] \<longleftrightarrow>
           integer_text s \<and> low \<le> int_value s \<and> int_value s \<le> high"
proof -
  let ?t = "[(''type'', Str ''integer''), (''maximum'', Num high), (''minimum'', Num low)]"
  have "limit_checks pg (Str s) (Obj ?t) = Inr (validateMaximum (Str s) (Num high) @ validateMinimum (Str s) (Num low))"
    by (simp add: limit_checks_def only_if_def lookup_def given_def)
  moreover have "type_checks pg (Str s) (Obj ?t) = Inr (validateInteger (Str s))"
    by (simp add: type_checks_def lookup_def)
  moreover have "validateValueBySchema pg (Str s) (Obj ?t) required bypass mediaType =
      in_order [limit_checks pg (Str s) (Obj ?t), type_checks pg (Str s) (Obj ?t)]"
    using assms by (intro validate_scalar [where ty = "''integer''"]) (simp_all add: lookup_def provided_def)
  ultimately have "validateValueBySchema pg (Str s) (integer_schema low high) required bypass mediaType =
      Inr ((validateMaximum (Str s) (Num high) @ validateMinimum (Str s) (Num low)) @ validateInteger (Str s))"
    by (simp add: integer_schema_def)
  moreover have "integer_text s \<Longrightarrow> number_value (Str s) = Finite (int_value s) 0" by (simp add: integer_number)
  ultimately show ?thesis
    by (auto simp: validateMaximum_def validateMinimum_def validateInteger_def js_less_def primitive_def is_object_def)
qed

theorem integers_in_range_witness:
  "validateValueBySchema plain_page (Str ''-7'') (integer_schema (-7) 5) True False Null = Inr [] \<and>
   validateValueBySchema plain_page (Str ''7'') (integer_schema (-7) 5) True False Null \<noteq> Inr []"
proof -
  have "integer_text ''-7''" "int_value ''-7'' = -7" "int_value ''7'' = 7" by code_simp+
  then show ?thesis using integers_in_range [of "''-7''"] integers_in_range [of "''7''"] by simp
qed

section \<open>Arrays and objects\<close>

lemma in_collect:
  "collect f xs = Inr ys \<Longrightarrow> y \<in> set ys \<longleftrightarrow> (\<exists>x \<in> set xs. \<exists>zs. f x = Inr zs \<and> y \<in> set zs)"
proof (induction xs arbitrary: ys)
  case (Cons x xs)
  then obtain zs ws where "f x = Inr zs" "collect f xs = Inr ws" "ys = zs @ ws"
    by (auto simp: and_then_def split: sum.splits)
  with Cons.IH show ?case by auto
qed simp

lemma map_errors_eq_Inr: "map_errors f r = Inr zs \<longleftrightarrow> (\<exists>es. r = Inr es \<and> zs = map f es)"
  by (auto simp: map_errors_def and_then_def split: sum.splits)

text \<open>
  The errors of an array without limits of its own are exactly the errors of its elements under the schema
  of its items, each with the index of its element.
\<close>

theorem array_errors_are_located:
  assumes "validateValueBySchema pg (Arr vs) (Obj [(''type'', Str ''array''), (''items'', t)]) required bypass mediaType = Inr es"
    and "vs \<noteq> []"
  shows "e \<in> set es \<longleftrightarrow>
           (\<exists>i e' es'. e = AtIndex i e' \<and> i < length vs \<and> validateValueBySchema pg (vs ! i) t False bypass mediaType = Inr es' \<and> e' \<in> set es')"
proof -
  let ?ps = "[(''type'', Str ''array''), (''items'', t)]"
  let ?f = "\<lambda>(i, x). map_errors (AtIndex i) (validateValueBySchema pg x t False bypass mediaType)"
  have "limit_checks pg (Arr vs) (Obj ?ps) = Inr []"
    by (simp add: limit_checks_def only_if_def lookup_def given_def)
  then have "validateValueBySchema pg (Arr vs) (Obj ?ps) required bypass mediaType = collect ?f (zip [0..<length vs] vs)"
    using assms(2) by (subst validateValueBySchema.simps) (simp add: Let_def lookup_def provided_def)
  with assms(1) have "collect ?f (zip [0..<length vs] vs) = Inr es" by simp
  then have "e \<in> set es \<longleftrightarrow> (\<exists>p \<in> set (zip [0..<length vs] vs). \<exists>zs. ?f p = Inr zs \<and> e \<in> set zs)" by (rule in_collect)
  also have "\<dots> \<longleftrightarrow> (\<exists>i < length vs. \<exists>zs. ?f (i, vs ! i) = Inr zs \<and> e \<in> set zs)"
    by (force simp: set_zip)
  also have "\<dots> \<longleftrightarrow> (\<exists>i < length vs. \<exists>es'. validateValueBySchema pg (vs ! i) t False bypass mediaType = Inr es' \<and> e \<in> AtIndex i ` set es')"
    by (simp add: map_errors_eq_Inr) (metis list.set_map)
  finally show ?thesis by blast
qed

theorem array_errors_are_located_witness:
  "\<exists>es. validateValueBySchema plain_page (Arr [Str ''1'', Str ''x'']) (Obj [(''type'', Str ''array''), (''items'', Obj [(''type'', Str ''integer'')])])
     True False Null = Inr es \<and> AtIndex 1 (Msg ''Value must be an integer'') \<in> set es"
proof -
  let ?t = "Obj [(''type'', Str ''integer'')]"
  let ?run = "validateValueBySchema plain_page (Arr [Str ''1'', Str ''x'']) (Obj [(''type'', Str ''array''), (''items'', ?t)]) True False Null"
  have run: "?run = Inr [AtIndex 1 (Msg ''Value must be an integer'')]" by code_simp
  have "validateValueBySchema plain_page (Str ''x'') ?t False False Null = Inr [Msg ''Value must be an integer'']" by code_simp
  then have "AtIndex 1 (Msg ''Value must be an integer'') \<in> set [AtIndex 1 (Msg ''Value must be an integer'')]"
    using array_errors_are_located [OF run] by auto
  with run show ?thesis by auto
qed

text \<open>
  With a package \<open>immutable\<close> whose lists have no method \<open>isList\<close>, like the one in
  \<^verbatim>\<open>swagger-ui-bundle.js\<close>, the properties that a schema requires are never missed: an object passes whatever it has.
\<close>

theorem required_properties_are_not_checked:
  assumes "\<not> lists_have_isList pg"
  shows "validateValueBySchema pg (Obj ps) (Obj [(''type'', Str ''object''), (''required'', Arr ks)]) required bypass Null = Inr []"
proof -
  let ?t = "[(''type'', Str ''object''), (''required'', Arr ks)]"
  have "limit_checks pg (Obj ps) (Obj ?t) = Inr []" "type_checks pg (Obj ps) (Obj ?t) = Inr []"
    by (simp_all add: limit_checks_def only_if_def lookup_def given_def type_checks_def)
  moreover have "required_properties pg (Obj ps) (Obj ?t) = Inr []" using assms by (simp add: required_properties_def)
  ultimately show ?thesis
    by (subst validateValueBySchema.simps) (simp add: Let_def lookup_def provided_def is_object_def)
qed

theorem required_properties_are_not_checked_witness:
  "validateValueBySchema plain_page (Obj []) (Obj [(''type'', Str ''object''), (''required'', Arr [Str ''name''])]) True False Null = Inr []"
  by (rule required_properties_are_not_checked) (simp add: plain_page_def)

text \<open>
  A required text with a limit on its length, left empty and sent nevertheless, is not checked but makes the
  check throw: the length of a value that is not there is read.
\<close>

theorem bypassed_length_check_throws:
  assumes "lookup ps ''type'' = Str ''string''" and "lookup ps ''pattern'' = Undef" and "lookup ps ''maxLength'' = Num high"
    and "lookup ps ''nullable'' = Undef"
  shows "validateValueBySchema pg Undef (Obj ps) True True mediaType = Inl (cannot_read ''undefined'' ''length'')"
proof -
  have "limit_checks pg Undef (Obj ps) = Inl (cannot_read ''undefined'' ''length'')"
    using assms by (simp add: limit_checks_def only_if_def given_def validateMaxLength_def prop_of_def)
  then show ?thesis using assms by (subst validateValueBySchema.simps) (simp add: Let_def)
qed

theorem bypassed_length_check_throws_witness:
  "validateValueBySchema plain_page Undef (Obj [(''type'', Str ''string''), (''maxLength'', Num 10)]) True True Null =
     Inl (cannot_read ''undefined'' ''length'')"
  by (rule bypassed_length_check_throws [where high = 10]) (simp_all add: lookup_def)

end
