(* ===== verification/Broker_Data.thy ===== *)
theory Broker_Data
  imports Prelude
begin

text \<open>
  The data that requests to the broker carry (Go, \<^verbatim>\<open>src/internal/dto.go\<close>), with the checks and merges
  the endpoints apply to them, and the details of an instance (\<^verbatim>\<open>src/internal/model.go\<close>).

  A pointer is an option.  A slice is an option of a list, because \<open>reflect.DeepEqual\<close> tells a nil slice from
  an empty one.  An error is its message.  \<open>url.Parse\<close> is a parameter that gives the scheme and
  the host of a text that parses.
\<close>

section \<open>OIDC\<close>

type_synonym go_slice = "string list option"

definition slice_elems :: "go_slice \<Rightarrow> string list" where
  "slice_elems sl = (case sl of Some xs \<Rightarrow> xs | None \<Rightarrow> [])"

lemma slice_elems_simps [simp]: "slice_elems None = []" "slice_elems (Some xs) = xs"
  by (simp_all add: slice_elems_def)

record oidc_config =
  ClientID :: string
  GroupsClaim :: string
  IssuerURL :: string
  SigningAlgs :: go_slice
  UsernameClaim :: string
  UsernamePrefix :: string

definition oidc_IsProvided :: "oidc_config option \<Rightarrow> bool" where
  "oidc_IsProvided cfg =
     (case cfg of
        None \<Rightarrow> False
      | Some c \<Rightarrow> \<not> (ClientID c = [] \<and> IssuerURL c = [] \<and> GroupsClaim c = [] \<and> UsernamePrefix c = [] \<and>
                      UsernameClaim c = [] \<and> slice_elems (SigningAlgs c) = []))"

definition oidcValidSigningAlgs :: string where
  "oidcValidSigningAlgs = ''RS256,RS384,RS512,ES256,ES384,ES512,PS256,PS384,PS512''"

definition validSigningAlgsSet :: "string list" where
  "validSigningAlgsSet = split oidcValidSigningAlgs '',''"

definition oidc_errors :: "(string \<Rightarrow> (string \<times> string) option) \<Rightarrow> oidc_config \<Rightarrow> string list" where
  "oidc_errors url_parse c =
     (if ClientID c = [] then [''clientID must not be empty''] else []) @
     (if IssuerURL c = [] then [''issuerURL must not be empty'']
      else (case url_parse (IssuerURL c) of
              None \<Rightarrow> [''issuerURL must be a valid URL'']
            | Some (scheme, host) \<Rightarrow>
                (if host = [] then [''issuerURL must be a valid URL''] else []) @
                (if scheme \<noteq> ''https'' then [''issuerURL must have https scheme''] else []))) @
     (if list_all (\<lambda>alg. alg \<in> set validSigningAlgsSet) (slice_elems (SigningAlgs c)) then []
      else [''signingAlgs must contain valid signing algorithm(s)''])"

definition oidc_Validate :: "(string \<Rightarrow> (string \<times> string) option) \<Rightarrow> oidc_config \<Rightarrow> string option" where
  "oidc_Validate url_parse c =
     (let errs = oidc_errors url_parse c in if errs \<noteq> [] then Some (join '', '' errs) else None)"

section \<open>Autoscaling\<close>

record autoscaler =
  AutoScalerMin :: "int option"
  AutoScalerMax :: "int option"
  MaxSurge :: "int option"
  MaxUnavailable :: "int option"

definition pointer_text :: "int option \<Rightarrow> string" where
  "pointer_text p = (case p of Some i \<Rightarrow> show_int i | None \<Rightarrow> ''<nil>'')"

definition autoscaler_Validate :: "autoscaler \<Rightarrow> int \<Rightarrow> int \<Rightarrow> string option" where
  "autoscaler_Validate p planMin planMax =
     (let lo = (case AutoScalerMin p of Some i \<Rightarrow> i | None \<Rightarrow> planMin);
          hi = (case AutoScalerMax p of Some i \<Rightarrow> i | None \<Rightarrow> planMax)
      in if lo > hi
         then Some (''AutoScalerMax '' @ show_int hi @ '' should be larger than AutoScalerMin '' @ show_int lo @
                ''. User provided values min:'' @ pointer_text (AutoScalerMin p) @ '', max:'' @ pointer_text (AutoScalerMax p) @
                ''; plan defaults min:'' @ show_int planMin @ '', max:'' @ show_int planMax)
         else None)"

section \<open>The parameters of an instance\<close>

record networking_dto =
  NodesCidr :: string
  PodsCidr :: "string option"
  ServicesCidr :: "string option"

record module_dto =
  module_Name :: string
  Channel :: "string option"
  CustomResourcePolicy :: "string option"

record modules_dto =
  modules_Default :: "bool option"
  modules_List :: "module_dto list option"

record parameters_dto =
  AutoScaler :: autoscaler
  Name :: string
  TargetSecret :: "string option"
  VolumeSizeGb :: "int option"
  MachineType :: "string option"
  param_Region :: "string option"
  Purpose :: "string option"
  LicenceType :: "string option"
  Zones :: go_slice
  OptionalComponentsToInstall :: go_slice
  KymaVersion :: string
  OverridesVersion :: string
  RuntimeAdministrators :: go_slice
  param_Provider :: "string option"
  Kubeconfig :: string
  param_ShootName :: string
  param_ShootDomain :: string
  OIDC :: "oidc_config option"
  Networking :: "networking_dto option"
  Modules :: "modules_dto option"

record updating_parameters =
  upd_AutoScaler :: autoscaler
  upd_OIDC :: "oidc_config option"
  upd_RuntimeAdministrators :: go_slice
  upd_MachineType :: "string option"

definition no_update :: updating_parameters where
  "no_update = \<lparr>upd_AutoScaler = \<lparr>AutoScalerMin = None, AutoScalerMax = None, MaxSurge = None, MaxUnavailable = None\<rparr>,
     upd_OIDC = None, upd_RuntimeAdministrators = None, upd_MachineType = None\<rparr>"

text \<open>The new pointer when there is one, else the old; most merges below are made of this.\<close>

definition given_ptr :: "'a option \<Rightarrow> 'a option \<Rightarrow> 'a option" where
  "given_ptr p q = (case p of Some x \<Rightarrow> Some x | None \<Rightarrow> q)"

lemma given_ptr_simps [simp]: "given_ptr None q = q" "given_ptr (Some x) q = Some x" "given_ptr p None = p"
  by (simp_all add: given_ptr_def split: option.split)

lemma given_ptr_assoc: "given_ptr (given_ptr p q) r = given_ptr p (given_ptr q r)"
  by (simp add: given_ptr_def split: option.split)

lemma given_ptr_self [simp]: "given_ptr p p = p"
  by (simp add: given_ptr_def split: option.split)

definition UpdateAutoScaler :: "updating_parameters \<Rightarrow> parameters_dto \<Rightarrow> bool \<times> parameters_dto" where
  "UpdateAutoScaler u p =
     (let a = upd_AutoScaler u; b = AutoScaler p in
      (AutoScalerMin a \<noteq> None \<or> AutoScalerMax a \<noteq> None \<or> MaxSurge a \<noteq> None \<or> MaxUnavailable a \<noteq> None,
       p\<lparr>AutoScaler := \<lparr>AutoScalerMin = given_ptr (AutoScalerMin a) (AutoScalerMin b),
           AutoScalerMax = given_ptr (AutoScalerMax a) (AutoScalerMax b),
           MaxSurge = given_ptr (MaxSurge a) (MaxSurge b),
           MaxUnavailable = given_ptr (MaxUnavailable a) (MaxUnavailable b)\<rparr>\<rparr>))"

section \<open>The context of a request\<close>

record sm_credentials =
  sm_ClientID :: string
  sm_ClientSecret :: string
  ServiceManagerURL :: string
  sm_URL :: string
  XSAppName :: string

record ers_context =
  TenantID :: string
  SubAccountID :: string
  GlobalAccountID :: string
  SMOperatorCredentials :: "sm_credentials option"
  Active :: "bool option"
  UserID :: string
  CommercialModel :: "string option"
  LicenseType :: "string option"
  Origin :: "string option"
  Platform :: "string option"
  ers_Region :: "string option"

definition InheritMissingERSContext :: "ers_context \<Rightarrow> ers_context \<Rightarrow> ers_context" where
  "InheritMissingERSContext currentOperation previousOperation =
     currentOperation\<lparr>
       SMOperatorCredentials := given_ptr (SMOperatorCredentials currentOperation) (SMOperatorCredentials previousOperation),
       CommercialModel := given_ptr (CommercialModel currentOperation) (CommercialModel previousOperation),
       LicenseType := given_ptr (LicenseType currentOperation) (LicenseType previousOperation),
       Origin := given_ptr (Origin currentOperation) (Origin previousOperation),
       Platform := given_ptr (Platform currentOperation) (Platform previousOperation),
       ers_Region := given_ptr (ers_Region currentOperation) (ers_Region previousOperation)\<rparr>"

definition UpdateInstanceERSContext :: "ers_context \<Rightarrow> ers_context \<Rightarrow> ers_context" where
  "UpdateInstanceERSContext inst operation =
     inst\<lparr>
       SMOperatorCredentials := given_ptr (SMOperatorCredentials operation) (SMOperatorCredentials inst),
       CommercialModel := given_ptr (CommercialModel operation) (CommercialModel inst),
       LicenseType := given_ptr (LicenseType operation) (LicenseType inst),
       Origin := given_ptr (Origin operation) (Origin inst),
       Platform := given_ptr (Platform operation) (Platform inst),
       ers_Region := given_ptr (ers_Region operation) (ers_Region inst)\<rparr>"

definition DisableEnterprisePolicyFilter :: "ers_context \<Rightarrow> bool" where
  "DisableEnterprisePolicyFilter e =
     (case LicenseType e of None \<Rightarrow> False | Some t \<Rightarrow> t = ''CUSTOMER'' \<or> t = ''PARTNER'' \<or> t = ''TRIAL'')"

definition ERSUpdate :: "ers_context \<Rightarrow> bool" where
  "ERSUpdate e =
     (SMOperatorCredentials e \<noteq> None \<or> CommercialModel e \<noteq> None \<or> LicenseType e \<noteq> None \<or> Origin e \<noteq> None \<or>
      Platform e \<noteq> None \<or> ers_Region e \<noteq> None)"

section \<open>Provisioning parameters and their comparison\<close>

record provisioning_parameters =
  PlanID :: string
  ServiceID :: string
  ErsContext :: ers_context
  Parameters :: parameters_dto
  PlatformRegion :: string
  PlatformProvider :: string

text \<open>
  Only the receiver forgets its target secret; the licence type is forgotten on both sides.  The
  provider of the platform is not compared.
\<close>

definition IsEqual :: "provisioning_parameters \<Rightarrow> provisioning_parameters \<Rightarrow> bool" where
  "IsEqual p input =
     (PlanID p = PlanID input \<and> ServiceID p = ServiceID input \<and> PlatformRegion p = PlatformRegion input \<and>
      ErsContext p = ErsContext input \<and>
      (Parameters p)\<lparr>TargetSecret := None, LicenceType := None\<rparr> = (Parameters input)\<lparr>LicenceType := None\<rparr>)"

section \<open>Details of an instance\<close>

text \<open>
  The details that operations hand on.  The kubeconfig is the one field that is not
  written to JSON; \<open>other_details\<close> stands for those the endpoints only copy (monitoring, AVS, EDP, names of custom
  resources and so on).
\<close>

record instance_details =
  det_SubAccountID :: string
  RuntimeID :: string
  ShootName :: string
  ShootDomain :: string
  ShootDNSProviders :: string
  det_Kubeconfig :: string
  EuAccess :: bool
  other_details :: string

definition no_details :: instance_details where
  "no_details = \<lparr>det_SubAccountID = [], RuntimeID = [], ShootName = [], ShootDomain = [], ShootDNSProviders = [],
     det_Kubeconfig = [], EuAccess = False, other_details = []\<rparr>"

definition IsEURestrictedAccess :: "string \<Rightarrow> bool" where
  "IsEURestrictedAccess platformRegion = (platformRegion = ''cf-ch20'' \<or> platformRegion = ''cf-eu11'')"

section \<open>Properties of the merges\<close>

lemma join_eq_Nil: "[] \<notin> set xs \<Longrightarrow> join sep xs = [] \<longleftrightarrow> xs = []"
  by (induction xs rule: join.induct [of _ sep]) auto

lemma ers_context_eqI:
  assumes "TenantID a = TenantID b" "SubAccountID a = SubAccountID b" "GlobalAccountID a = GlobalAccountID b"
    "SMOperatorCredentials a = SMOperatorCredentials b" "Active a = Active b" "UserID a = UserID b"
    "CommercialModel a = CommercialModel b" "LicenseType a = LicenseType b" "Origin a = Origin b"
    "Platform a = Platform b" "ers_Region a = ers_Region b"
  shows "a = (b :: ers_context)"
  using assms by (cases a; cases b) simp

text \<open>An update of the context can be repeated, and one without any of the six values changes nothing.\<close>

lemma UpdateInstanceERSContext_idem:
  "UpdateInstanceERSContext (UpdateInstanceERSContext c e) e = UpdateInstanceERSContext c e"
  by (rule ers_context_eqI) (simp_all add: UpdateInstanceERSContext_def given_ptr_assoc [symmetric])

lemma UpdateInstanceERSContext_none: "\<not> ERSUpdate e \<Longrightarrow> UpdateInstanceERSContext c e = c"
  by (rule ers_context_eqI) (simp_all add: UpdateInstanceERSContext_def ERSUpdate_def)

lemma UpdateInstanceERSContext_fields [simp]:
  "Active (UpdateInstanceERSContext c e) = Active c"
  "GlobalAccountID (UpdateInstanceERSContext c e) = GlobalAccountID c"
  "SubAccountID (UpdateInstanceERSContext c e) = SubAccountID c"
  "UserID (UpdateInstanceERSContext c e) = UserID c"
  by (simp_all add: UpdateInstanceERSContext_def)

lemma InheritMissingERSContext_fields [simp]:
  "Active (InheritMissingERSContext c e) = Active c"
  "GlobalAccountID (InheritMissingERSContext c e) = GlobalAccountID c"
  "SubAccountID (InheritMissingERSContext c e) = SubAccountID c"
  "UserID (InheritMissingERSContext c e) = UserID c"
  by (simp_all add: InheritMissingERSContext_def)

lemma IsEqual_same: "IsEqual p p \<longleftrightarrow> TargetSecret (Parameters p) = None"
proof
  assume "IsEqual p p"
  then have "(Parameters p)\<lparr>TargetSecret := None, LicenceType := None\<rparr> = (Parameters p)\<lparr>LicenceType := None\<rparr>"
    by (simp add: IsEqual_def)
  from arg_cong [OF this, of TargetSecret] show "TargetSecret (Parameters p) = None" by simp
next
  assume "TargetSecret (Parameters p) = None"
  then have "(Parameters p)\<lparr>TargetSecret := None\<rparr> = Parameters p" by simp
  then show "IsEqual p p" by (simp add: IsEqual_def)
qed

end
