(* ===== verification/Maintenance.thy ===== *)
theory Maintenance
  imports Prelude
begin

text \<open>
  Maintenance windows of upgrades (Go): the days on which a runtime may be upgraded
  (\<^verbatim>\<open>src/common/orchestration/ext.go\<close>) and the choice of the next window
  (\<^verbatim>\<open>src/internal/orchestration/manager/manager.go\<close>, \<open>resolveMaintenanceWindowTime\<close>).

  A \<open>time.Time\<close> is an instant, in nanoseconds since 1970, with the offset of its location from UTC; the
  code gets locations from \<open>time.Parse\<close> with a numeric zone and from the clock of the server, and
  locations with daylight saving time are not modelled.  In such a location a day has 24 hours, so the calendar
  functions that are used need day numbers and weekdays only.  Regular expressions and \<open>time.Parse\<close> with the layout
  \<open>150405-0700\<close> are the parameters in \<open>window_lib\<close>.
\<close>

section \<open>Times\<close>

record go_time =
  instant :: int
  zone :: int

definition day_ns :: int where "day_ns = 86400 * 1000000000"

text \<open>The first of January of the year 1, the zero value of a time.\<close>

definition zero_time :: go_time where
  "zero_time = \<lparr>instant = - 62135596800 * 1000000000, zone = 0\<rparr>"

definition IsZero :: "go_time \<Rightarrow> bool" where
  "IsZero t = (instant t = instant zero_time)"

definition Before :: "go_time \<Rightarrow> go_time \<Rightarrow> bool" where
  "Before t u = (instant t < instant u)"

definition day_of :: "go_time \<Rightarrow> int" where
  "day_of t = (instant t + zone t) div day_ns"

definition time_of_day :: "go_time \<Rightarrow> int" where
  "time_of_day t = (instant t + zone t) mod day_ns"

text \<open>Sunday is 0; the day number 0 was a Thursday.\<close>

definition weekday_of :: "int \<Rightarrow> nat" where
  "weekday_of d = nat ((d + 4) mod 7)"

definition Weekday :: "go_time \<Rightarrow> nat" where
  "Weekday t = weekday_of (day_of t)"

text \<open>\<open>t.AddDate(0, 0, days)\<close>\<close>

definition AddDate :: "nat \<Rightarrow> go_time \<Rightarrow> go_time" where
  "AddDate days t = t\<lparr>instant := instant t + int days * day_ns\<rparr>"

text \<open>\<open>time.Date\<close> with the date of the first and the time of day and the location of the second time.\<close>

definition Date :: "go_time \<Rightarrow> go_time \<Rightarrow> go_time" where
  "Date n t = \<lparr>instant = day_of n * day_ns + time_of_day t - zone t, zone = zone t\<rparr>"

lemma day_ns_pos [simp]: "0 < day_ns" by (simp add: day_ns_def)

lemma AddDate_simps [simp]:
  "instant (AddDate d t) = instant t + int d * day_ns" "zone (AddDate d t) = zone t"
  by (simp_all add: AddDate_def)

lemma Date_simps [simp]:
  "instant (Date n t) = day_of n * day_ns + time_of_day t - zone t" "zone (Date n t) = zone t"
  by (simp_all add: Date_def)

lemma time_of_day_bounds: "0 \<le> time_of_day t" "time_of_day t < day_ns"
  by (simp_all add: time_of_day_def)

lemma instant_split: "instant t = day_of t * day_ns + time_of_day t - zone t"
  by (simp add: day_of_def time_of_day_def)

lemma day_of_Date [simp]: "day_of (Date n t) = day_of n"
  using time_of_day_bounds [of t] by (simp add: day_of_def [of "Date n t"])

lemma day_of_AddDate [simp]: "day_of (AddDate d t) = day_of t + int d"
proof -
  have "instant (AddDate d t) + zone (AddDate d t) = instant t + zone t + int d * day_ns" by simp
  then show ?thesis unfolding day_of_def using day_ns_pos by (metis div_mult_self1 less_irrefl add.commute)
qed

lemma weekday_of_add: "weekday_of (d + int k) = (weekday_of d + k) mod 7"
proof -
  have "int ((weekday_of d + k) mod 7) = ((d + 4) mod 7 + int k) mod 7" by (simp add: weekday_of_def zmod_int)
  also have "\<dots> = (d + int k + 4) mod 7" by (simp add: mod_simps algebra_simps)
  also have "\<dots> = int (weekday_of (d + int k))" by (simp add: weekday_of_def)
  finally show ?thesis by simp
qed

lemma weekday_of_less [simp]: "weekday_of d < 7"
  by (simp add: weekday_of_def nat_less_iff)

section \<open>Days\<close>

definition weekday_named :: "string \<Rightarrow> nat option" where
  "weekday_named day =
     map_of [(''Sun'', 0), (''Mon'', 1), (''Tue'', 2), (''Wed'', 3), (''Thu'', 4), (''Fri'', 5), (''Sat'', 6)] day"

text \<open>The days that are in the map; other names are passed over.\<close>

definition ConvertSliceOfDaysToMap :: "string list \<Rightarrow> nat list" where
  "ConvertSliceOfDaysToMap days = List.map_filter weekday_named days"

lemma weekday_named_less: "weekday_named day = Some d \<Longrightarrow> d < 7"
  unfolding weekday_named_def by (drule map_of_SomeD) auto

lemma available_less: "d \<in> set (ConvertSliceOfDaysToMap days) \<Longrightarrow> d < 7"
  by (auto simp: ConvertSliceOfDaysToMap_def List.map_filter_def dest: weekday_named_less)

text \<open>The loop of both functions: the first available day among seven, else the current day.\<close>

definition search_day :: "nat \<Rightarrow> nat \<Rightarrow> nat list \<Rightarrow> nat" where
  "search_day first currentDay availableDays =
     (case find (\<lambda>d. d \<in> set availableDays) (map (\<lambda>i. (currentDay + i + first) mod 7) [0..<7]) of
        Some d \<Rightarrow> d | None \<Rightarrow> currentDay)"

definition FirstAvailableDayDiff :: "nat \<Rightarrow> nat list \<Rightarrow> nat" where
  "FirstAvailableDayDiff currentDay availableDays = (7 - currentDay + search_day 0 currentDay availableDays) mod 7"

definition NextAvailableDayDiff :: "nat \<Rightarrow> nat list \<Rightarrow> nat" where
  "NextAvailableDayDiff currentDay availableDays =
     (let diff = (7 - currentDay + search_day 1 currentDay availableDays) mod 7 in if diff = 0 then 7 else diff)"

lemma day_diff:
  assumes "c < 7"
  shows "(7 - c + (c + k) mod 7) mod 7 = k mod (7 :: nat)"
proof -
  have "(7 - c + (c + k) mod 7) mod 7 = (7 - c + (c + k)) mod 7" by (simp only: mod_add_right_eq)
  also have "7 - c + (c + k) = k + 7" using assms by simp
  finally show ?thesis by simp
qed

lemma search_day_found:
  assumes "d \<in> set av" "d < 7" "c < 7"
  obtains i where "i < 7" "search_day first c av = (c + i + first) mod 7" "(c + i + first) mod 7 \<in> set av"
    "\<forall>j<i. (c + j + first) mod 7 \<notin> set av"
proof -
  let ?f = "\<lambda>i. (c + i + first) mod 7"
  have "?f ((d + 6 * (c + first)) mod 7) = (c + first + (d + 6 * (c + first)) mod 7) mod 7" by (simp only: ac_simps)
  also have "\<dots> = (c + first + (d + 6 * (c + first))) mod 7" by (simp only: mod_add_right_eq)
  also have "c + first + (d + 6 * (c + first)) = d + 7 * (c + first)" by simp
  also have "(d + 7 * (c + first)) mod 7 = d" using assms(2) by (simp only: mod_mult_self2 mod_less)
  finally have "?f ((d + 6 * (c + first)) mod 7) \<in> set av" using assms(1) by (simp only:)
  then have "find (\<lambda>d. d \<in> set av) (map ?f [0..<7]) \<noteq> None"
    unfolding find_None_iff by (auto intro: bexI [of _ "(d + 6 * (c + first)) mod 7"])
  then obtain e where e: "find (\<lambda>d. d \<in> set av) (map ?f [0..<7]) = Some e" by auto
  then obtain i where "i < 7" "map ?f [0..<7] ! i \<in> set av" "e = map ?f [0..<7] ! i" "\<forall>j<i. map ?f [0..<7] ! j \<notin> set av"
    unfolding find_Some_iff by auto
  with e that [of i] show thesis by (simp add: search_day_def)
qed

lemma FirstAvailableDayDiff_least:
  assumes "d \<in> set av" "d < 7" "c < 7"
  shows "FirstAvailableDayDiff c av < 7" "(c + FirstAvailableDayDiff c av) mod 7 \<in> set av"
    "k < FirstAvailableDayDiff c av \<Longrightarrow> (c + k) mod 7 \<notin> set av"
proof -
  obtain i where i: "i < 7" "search_day 0 c av = (c + i) mod 7" "(c + i) mod 7 \<in> set av" "\<forall>j<i. (c + j) mod 7 \<notin> set av"
    using search_day_found [OF assms, of 0] by auto
  then have "FirstAvailableDayDiff c av = i" using day_diff [OF assms(3), of i] by (simp add: FirstAvailableDayDiff_def)
  with i show "FirstAvailableDayDiff c av < 7" "(c + FirstAvailableDayDiff c av) mod 7 \<in> set av"
    "k < FirstAvailableDayDiff c av \<Longrightarrow> (c + k) mod 7 \<notin> set av" by auto
qed

lemma NextAvailableDayDiff_least:
  assumes "d \<in> set av" "d < 7" "c < 7"
  shows "0 < NextAvailableDayDiff c av" "NextAvailableDayDiff c av \<le> 7" "(c + NextAvailableDayDiff c av) mod 7 \<in> set av"
    "0 < k \<Longrightarrow> k < NextAvailableDayDiff c av \<Longrightarrow> (c + k) mod 7 \<notin> set av"
proof -
  obtain i where i: "i < 7" "search_day 1 c av = (c + Suc i) mod 7" "(c + Suc i) mod 7 \<in> set av" "\<forall>j<i. (c + Suc j) mod 7 \<notin> set av"
    using search_day_found [OF assms, of 1] by auto
  then have n: "NextAvailableDayDiff c av = Suc i"
    using day_diff [OF assms(3), of "Suc i"] by (cases "i = 6") (simp_all add: NextAvailableDayDiff_def Let_def)
  have "(c + k) mod 7 \<notin> set av" if "0 < k" "k < Suc i" for k using i(4) that by (cases k) auto
  with i n show "0 < NextAvailableDayDiff c av" "NextAvailableDayDiff c av \<le> 7" "(c + NextAvailableDayDiff c av) mod 7 \<in> set av"
    "0 < k \<Longrightarrow> k < NextAvailableDayDiff c av \<Longrightarrow> (c + k) mod 7 \<notin> set av" by auto
qed

lemma NextAvailableDayDiff_pos [simp]: "0 < NextAvailableDayDiff c av"
  by (simp add: NextAvailableDayDiff_def Let_def)

section \<open>Runtimes and policies\<close>

record runtime =
  rt_InstanceID :: string
  rt_RuntimeID :: string
  rt_GlobalAccountID :: string
  rt_SubAccountID :: string
  rt_ShootName :: string
  MaintenanceWindowBegin :: go_time
  MaintenanceWindowEnd :: go_time
  MaintenanceDays :: "string list"
  rt_Plan :: string
  rt_Region :: string

definition no_runtime :: runtime where
  "no_runtime = \<lparr>rt_InstanceID = [], rt_RuntimeID = [], rt_GlobalAccountID = [], rt_SubAccountID = [], rt_ShootName = [],
     MaintenanceWindowBegin = zero_time, MaintenanceWindowEnd = zero_time, MaintenanceDays = [], rt_Plan = [], rt_Region = []\<rparr>"

record policy_match =
  match_GlobalAccountID :: string
  match_Plan :: string
  match_Region :: string

record policy_entry =
  Days :: "string list"
  TimeBegin :: string
  TimeEnd :: string

record policy_rule =
  Match :: policy_match
  rule_entry :: policy_entry

record maintenance_policy =
  Rules :: "policy_rule list"
  Default :: policy_entry

definition no_policy :: maintenance_policy where
  "no_policy = \<lparr>Rules = [], Default = \<lparr>Days = [], TimeBegin = [], TimeEnd = []\<rparr>\<rparr>"

record window_lib =
  re_match :: "string \<Rightarrow> string \<Rightarrow> bool option"
  parse_window :: "string \<Rightarrow> go_time option"

text \<open>An empty pattern is not looked at; one that does not compile does not match.\<close>

definition pattern_ok :: "window_lib \<Rightarrow> string \<Rightarrow> string \<Rightarrow> bool" where
  "pattern_ok L pattern v = (pattern = [] \<or> re_match L pattern v = Some True)"

definition rule_matches :: "window_lib \<Rightarrow> runtime \<Rightarrow> policy_rule \<Rightarrow> bool" where
  "rule_matches L r p =
     (pattern_ok L (match_Plan (Match p)) (rt_Plan r) \<and> pattern_ok L (match_GlobalAccountID (Match p)) (rt_GlobalAccountID r) \<and>
      pattern_ok L (match_Region (Match p)) (rt_Region r))"

definition parsed_or :: "window_lib \<Rightarrow> string \<Rightarrow> go_time \<Rightarrow> go_time" where
  "parsed_or L text old =
     (if text = [] then old else case parse_window L text of Some t \<Rightarrow> t | None \<Rightarrow> old)"

definition apply_entry :: "window_lib \<Rightarrow> policy_entry \<Rightarrow> runtime \<Rightarrow> runtime" where
  "apply_entry L e r =
     r\<lparr>MaintenanceDays := (if Days e \<noteq> [] then Days e else MaintenanceDays r),
       MaintenanceWindowBegin := parsed_or L (TimeBegin e) (MaintenanceWindowBegin r),
       MaintenanceWindowEnd := parsed_or L (TimeEnd e) (MaintenanceWindowEnd r)\<rparr>"

text \<open>The first rule that matches, or the default.\<close>

definition apply_policy :: "window_lib \<Rightarrow> maintenance_policy \<Rightarrow> runtime \<Rightarrow> runtime" where
  "apply_policy L policy r =
     (case find (rule_matches L r) (Rules policy) of
        Some p \<Rightarrow> apply_entry L (rule_entry p) r
      | None \<Rightarrow> apply_entry L (Default policy) r)"

text \<open>The window from a runtime whose policy has been applied, counted from the time \<open>n\<close>.\<close>

definition next_window :: "go_time \<Rightarrow> runtime \<Rightarrow> go_time \<times> go_time" where
  "next_window n r =
     (let availableDays = ConvertSliceOfDaysToMap (MaintenanceDays r);
          diff = FirstAvailableDayDiff (Weekday n) availableDays;
          start = AddDate diff (Date n (MaintenanceWindowBegin r));
          end0 = AddDate diff (Date n (MaintenanceWindowEnd r));
          end1 = (if \<not> Before start end0 then AddDate 1 end0 else end0)
      in if Before start n \<and> Before end1 n
         then (let d = NextAvailableDayDiff (Weekday n) availableDays in (AddDate d start, AddDate d end1))
         else (start, end1))"

definition resolveMaintenanceWindowTime ::
  "window_lib \<Rightarrow> runtime \<Rightarrow> maintenance_policy \<Rightarrow> go_time \<Rightarrow> go_time \<Rightarrow> go_time \<times> go_time \<times> string list" where
  "resolveMaintenanceWindowTime L r0 policy after now =
     (let r = apply_policy L policy r0;
          n = (if Before now after then after else now);
          (start, stop) = next_window n r
      in (start, stop, MaintenanceDays r))"

section \<open>The next window\<close>

text \<open>The window that begins on day \<open>d\<close>, and whether it is still to be used at time \<open>n\<close>.\<close>

definition window_on :: "int \<Rightarrow> runtime \<Rightarrow> int \<times> int" where
  "window_on d r =
     (let b = d * day_ns + time_of_day (MaintenanceWindowBegin r) - zone (MaintenanceWindowBegin r);
          e = d * day_ns + time_of_day (MaintenanceWindowEnd r) - zone (MaintenanceWindowEnd r)
      in (b, if b < e then e else e + day_ns))"

definition usable :: "go_time \<Rightarrow> runtime \<Rightarrow> int \<Rightarrow> bool" where
  "usable n r d =
     (day_of n \<le> d \<and> weekday_of d \<in> set (ConvertSliceOfDaysToMap (MaintenanceDays r)) \<and> instant n \<le> snd (window_on d r))"

definition one_zone :: "go_time \<Rightarrow> runtime \<Rightarrow> bool" where
  "one_zone n r = (zone (MaintenanceWindowBegin r) = zone n \<and> zone (MaintenanceWindowEnd r) = zone n)"

lemma window_on_ordered: "one_zone n r \<Longrightarrow> fst (window_on d r) < snd (window_on d r)"
  using time_of_day_bounds [of "MaintenanceWindowBegin r"] time_of_day_bounds [of "MaintenanceWindowEnd r"]
  by (auto simp: window_on_def Let_def one_zone_def)

lemma window_on_shift: "window_on (d + k) r = (fst (window_on d r) + k * day_ns, snd (window_on d r) + k * day_ns)"
  by (simp add: window_on_def Let_def algebra_simps)

text \<open>In one time zone the window of a later day lies in the future.\<close>

lemma later_window: "one_zone n r \<Longrightarrow> day_of n < d \<Longrightarrow> instant n < fst (window_on d r)"
proof -
  assume z: "one_zone n r" and "day_of n < d"
  then have "(day_of n + 1) * day_ns \<le> d * day_ns" by (intro mult_right_mono) (auto simp: less_imp_le)
  with z instant_split [of n] time_of_day_bounds [of n] time_of_day_bounds [of "MaintenanceWindowBegin r"] show ?thesis
    by (simp add: window_on_def Let_def one_zone_def algebra_simps)
qed

definition chosen_day :: "go_time \<Rightarrow> runtime \<Rightarrow> int" where
  "chosen_day n r =
     (let av = ConvertSliceOfDaysToMap (MaintenanceDays r);
          d = day_of n + int (FirstAvailableDayDiff (Weekday n) av)
      in if fst (window_on d r) < instant n \<and> snd (window_on d r) < instant n
         then d + int (NextAvailableDayDiff (Weekday n) av) else d)"

lemma next_window_on:
  "instant (fst (next_window n r)) = fst (window_on (chosen_day n r) r)"
  "instant (snd (next_window n r)) = snd (window_on (chosen_day n r) r)"
  "day_of (fst (next_window n r)) = chosen_day n r"
proof -
  let ?d = "FirstAvailableDayDiff (Weekday n) (ConvertSliceOfDaysToMap (MaintenanceDays r))"
  define s where "s = AddDate ?d (Date n (MaintenanceWindowBegin r))"
  define e where "e = AddDate ?d (Date n (MaintenanceWindowEnd r))"
  define e' where "e' = (if \<not> Before s e then AddDate 1 e else e)"
  have w: "window_on (day_of n + int ?d) r = (instant s, instant e')"
    by (simp add: window_on_def Let_def s_def e_def e'_def Before_def algebra_simps)
  have c: "chosen_day n r = day_of n + int ?d +
      (if instant s < instant n \<and> instant e' < instant n
       then int (NextAvailableDayDiff (Weekday n) (ConvertSliceOfDaysToMap (MaintenanceDays r))) else 0)"
    by (simp add: chosen_day_def w Let_def)
  have nw: "next_window n r = (if instant s < instant n \<and> instant e' < instant n
      then (let k = NextAvailableDayDiff (Weekday n) (ConvertSliceOfDaysToMap (MaintenanceDays r)) in (AddDate k s, AddDate k e')) else (s, e'))"
    unfolding next_window_def Let_def s_def [symmetric] e_def [symmetric] unfolding e'_def [symmetric] unfolding Before_def by simp
  have "day_of s = day_of n + int ?d" by (simp add: s_def)
  then show "instant (fst (next_window n r)) = fst (window_on (chosen_day n r) r)"
    "instant (snd (next_window n r)) = snd (window_on (chosen_day n r) r)"
    "day_of (fst (next_window n r)) = chosen_day n r"
    using window_on_shift [of "day_of n + int ?d" "int (NextAvailableDayDiff (Weekday n) (ConvertSliceOfDaysToMap (MaintenanceDays r)))" r] w
    by (simp_all add: nw c Let_def)
qed

lemma chosen_day_usable:
  assumes "one_zone n r" and "d \<in> set (ConvertSliceOfDaysToMap (MaintenanceDays r))" and "d < 7"
  shows "usable n r (chosen_day n r)" and "usable n r k \<Longrightarrow> chosen_day n r \<le> k" and "chosen_day n r \<le> day_of n + 7"
proof -
  define av where "av = ConvertSliceOfDaysToMap (MaintenanceDays r)"
  define i where "i = FirstAvailableDayDiff (Weekday n) av"
  define j where "j = NextAvailableDayDiff (Weekday n) av"
  have c: "Weekday n < 7" by (simp add: Weekday_def)
  note f = FirstAvailableDayDiff_least [OF assms(2,3) c, folded av_def, folded i_def]
  note x = NextAvailableDayDiff_least [OF assms(2,3) c, folded av_def, folded j_def]
  have day: "weekday_of (day_of n + int m) = (Weekday n + m) mod 7" for m by (simp add: weekday_of_add Weekday_def)
  have pos: "\<exists>m. k = day_of n + int m" if "day_of n \<le> k" for k using that by (intro exI [of _ "nat (k - day_of n)"]) simp
  have ends: "instant n \<le> snd (window_on k r)" if "day_of n < k" for k
    using later_window [OF assms(1) that] window_on_ordered [OF assms(1), of k] by simp
  have now: "i = 0" if "snd (window_on (day_of n + int i) r) < instant n"
    using ends [of "day_of n + int i"] that by (cases "i = 0") auto
  have ch: "chosen_day n r = (if snd (window_on (day_of n + int i) r) < instant n then day_of n + int j else day_of n + int i)"
    using now window_on_ordered [OF assms(1), of "day_of n + int i"]
    by (auto simp: chosen_day_def Let_def av_def [symmetric] i_def [symmetric] j_def [symmetric])
  show "usable n r (chosen_day n r)"
    using f(2) x(1,3) ends [of "day_of n + int j"] by (auto simp: ch usable_def day av_def [symmetric])
  show "chosen_day n r \<le> day_of n + 7" using f(1) x(2) by (auto simp: ch)
  assume u: "usable n r k"
  then obtain m where m: "k = day_of n + int m" using pos by (auto simp: usable_def)
  with u have av: "(Weekday n + m) mod 7 \<in> set av" and live: "instant n \<le> snd (window_on (day_of n + int m) r)"
    by (auto simp: usable_def day av_def)
  have "i \<le> m" using f(3) [of m] av by (meson not_less)
  moreover have "j \<le> m" if "snd (window_on (day_of n + int i) r) < instant n"
    using now [OF that] that live x(4) [of m] av by (cases "m = 0") (auto simp: not_less [symmetric])
  ultimately show "chosen_day n r \<le> k" by (auto simp: ch m)
qed


definition plain_lib :: window_lib where
  "plain_lib = \<lparr>re_match = (\<lambda>p v. Some (p = v)), parse_window = (\<lambda>s. None)\<rparr>"

definition some_runtime :: runtime where
  "some_runtime = no_runtime\<lparr>rt_InstanceID := ''i'', rt_RuntimeID := ''r'', MaintenanceDays := [''Fri''],
     MaintenanceWindowBegin := \<lparr>instant = 0, zone = 0\<rparr>, MaintenanceWindowEnd := \<lparr>instant = 3600 * 1000000000, zone = 0\<rparr>\<rparr>"


text \<open>
  With times in another zone the day of the window is still the day of the clock, and the window that is chosen may be
  over.  At ten in the evening in Greenwich a window from midnight to two o'clock, five hours further east, is resolved to
  one that ended an hour ago.
\<close>

lemma window_in_another_zone:
  "let (start, stop, days) = resolveMaintenanceWindowTime plain_lib
         (some_runtime\<lparr>MaintenanceDays := [''Mon'', ''Tue'', ''Wed'', ''Thu'', ''Fri'', ''Sat'', ''Sun''],
            MaintenanceWindowBegin := \<lparr>instant = - 5 * 3600 * 1000000000, zone = 5 * 3600 * 1000000000\<rparr>,
            MaintenanceWindowEnd := \<lparr>instant = - 3 * 3600 * 1000000000, zone = 5 * 3600 * 1000000000\<rparr>\<rparr>)
         no_policy zero_time \<lparr>instant = 22 * 3600 * 1000000000, zone = 0\<rparr>
   in instant stop = 21 * 3600 * 1000000000"
  by code_simp

end
