(* ===== verification/Broker_Model.thy ===== *)
theory Broker_Model
  imports Broker_Data Maintenance
begin

text \<open>
  The data that the processing core of the broker (Go, \<^verbatim>\<open>src/internal\<close>) shares: errors and their
  classification (\<^verbatim>\<open>internal/error\<close>, \<^verbatim>\<open>internal/storage/dberr\<close>), and the operation with its state
  and its finished stages (\<^verbatim>\<open>internal/model.go\<close>).

  Times and durations are integers, in nanoseconds; the saturation of durations beyond 292 years
  is not modelled.  Of the more than thirty fields of an operation those are modelled which the
  core and the endpoints read or write; the others, which they only copy, are the one field \<open>details\<close>.
\<close>

section \<open>Errors\<close>

text \<open>
  An error value by its dynamic type: a database error, a text, an error wrapped with \<open>%w\<close> (with its
  whole message), a temporary error, one marked as temporary, an error of another package that reports a reason and
  a component, an error that the Kubernetes machinery recognises with the reason it gives, and an
  error of the GraphQL client with its extensions.
\<close>

datatype go_error =
    DbError int string
  | TextError string
  | WrappedError string go_error
  | TemporaryError string
  | WrapTemporaryError go_error
  | NotFoundError
  | ReportedError string string string
  | K8sError string string
  | ExtendedError string "string option" "string option"

record last_error =
  message :: string
  reason :: string
  component :: string

definition CodeNotFound :: int where "CodeNotFound = 2"
definition CodeAlreadyExists :: int where "CodeAlreadyExists = 3"
definition CodeConflict :: int where "CodeConflict = 4"

definition db_reason :: "int \<Rightarrow> string" where
  "db_reason code =
     (if code = 1 then ''err_db_internal''
      else if code = CodeNotFound then ''err_db_not_found''
      else if code = CodeAlreadyExists then ''err_db_already_exists''
      else if code = CodeConflict then ''err_db_conflict''
      else ''err_db_unknown'')"

fun error_message :: "go_error \<Rightarrow> string" where
  "error_message (DbError c m) = m"
| "error_message (TextError m) = m"
| "error_message (WrappedError m e) = m"
| "error_message (TemporaryError m) = m"
| "error_message (WrapTemporaryError e) = error_message e"
| "error_message NotFoundError = ''not found''"
| "error_message (ReportedError m r c) = m"
| "error_message (K8sError m r) = m"
| "error_message (ExtendedError m r c) = m"

text \<open>\<open>dberr.IsConflict\<close> and \<open>dberr.IsNotFound\<close>: a type assertion on the error itself, not on its cause.\<close>

definition IsConflict :: "go_error \<Rightarrow> bool" where
  "IsConflict e = (case e of DbError c m \<Rightarrow> c = CodeConflict | _ \<Rightarrow> False)"

definition IsNotFound :: "go_error \<Rightarrow> bool" where
  "IsNotFound e = (case e of DbError c m \<Rightarrow> c = CodeNotFound | _ \<Rightarrow> False)"

fun UnwrapOnce :: "go_error \<Rightarrow> go_error option" where
  "UnwrapOnce (WrappedError m e) = Some e"
| "UnwrapOnce _ = None"

function UnwrapAll :: "go_error \<Rightarrow> go_error" where
  "UnwrapAll err = (case UnwrapOnce err of Some cause \<Rightarrow> UnwrapAll cause | None \<Rightarrow> err)"
  by pat_completeness auto
termination
proof (relation "measure size")
  fix err cause
  assume "UnwrapOnce err = Some cause"
  then show "(cause, err) \<in> measure size" by (cases err) auto
qed simp

declare UnwrapAll.simps [simp del]

lemma UnwrapAll_Wrapped [simp]: "UnwrapAll (WrappedError m e) = UnwrapAll e"
  by (subst UnwrapAll.simps) simp

lemma UnwrapAll_leaf: "UnwrapOnce e = None \<Longrightarrow> UnwrapAll e = e"
  by (subst UnwrapAll.simps) simp

lemma UnwrapOnce_UnwrapAll [simp]: "UnwrapOnce (UnwrapAll e) = None"
proof (induction e rule: UnwrapAll.induct)
  case (1 e)
  show ?case using 1 [of "the (UnwrapOnce e)"] UnwrapAll_leaf [of e] UnwrapAll.simps [of e]
    by (cases "UnwrapOnce e") simp_all
qed

lemma size_UnwrapAll: "size (UnwrapAll e) \<le> size e"
proof (induction e rule: UnwrapAll.induct)
  case (1 e)
  show ?case
  proof (cases "UnwrapOnce e")
    case (Some c)
    then have "size c < size e" by (cases e) auto
    with 1 [OF Some] Some show ?thesis by (simp add: UnwrapAll.simps [of e])
  qed (simp add: UnwrapAll_leaf)
qed

definition IsTemporaryError :: "go_error \<Rightarrow> bool" where
  "IsTemporaryError e = (case UnwrapAll e of TemporaryError m \<Rightarrow> True | WrapTemporaryError e \<Rightarrow> True | _ \<Rightarrow> False)"

definition OperationTimeOutMsg :: string where
  "OperationTimeOutMsg = ''operation has reached the time limit''"

definition TimeoutError :: "string \<Rightarrow> last_error" where
  "TimeoutError msg = \<lparr>message = msg, reason = ''err_keb_timeout'', component = ''keb''\<rparr>"

definition or_default :: "string option \<Rightarrow> string" where
  "or_default v = (case v of Some s \<Rightarrow> s | None \<Rightarrow> [])"

text \<open>
  \<open>ReasonForError\<close>.  The cause decides the reason and the component; the message is the one of the
  error itself.  An error marked as temporary reports what its inner error would.
\<close>

function ReasonForError :: "go_error \<Rightarrow> last_error" where
  "ReasonForError err =
     (case UnwrapAll err of
        K8sError m r \<Rightarrow> \<lparr>message = error_message err, reason = r, component = ''k8s client - keb''\<rparr>
      | DbError c m \<Rightarrow> \<lparr>message = error_message err, reason = db_reason c, component = ''db - keb''\<rparr>
      | TemporaryError m \<Rightarrow> \<lparr>message = error_message err, reason = ''err_keb_internal'', component = ''keb''\<rparr>
      | WrapTemporaryError e \<Rightarrow> (ReasonForError e)\<lparr>message := error_message err\<rparr>
      | NotFoundError \<Rightarrow> \<lparr>message = error_message err, reason = ''err_cluster_not_found'', component = ''reconciler''\<rparr>
      | ReportedError m r c \<Rightarrow> \<lparr>message = error_message err, reason = r, component = c\<rparr>
      | ExtendedError m r c \<Rightarrow> \<lparr>message = error_message err, reason = or_default r, component = or_default c\<rparr>
      | _ \<Rightarrow> if str_includes (error_message err) OperationTimeOutMsg then TimeoutError (error_message err)
            else \<lparr>message = error_message err, reason = ''err_keb_internal'', component = ''keb''\<rparr>)"
  by pat_completeness auto
termination
proof (relation "measure size")
  fix err e
  assume "UnwrapAll err = WrapTemporaryError e"
  then show "(e, err) \<in> measure size" using size_UnwrapAll [of err] by simp
qed simp

declare ReasonForError.simps [simp del]

section \<open>Operations\<close>

datatype operation_type =
    OperationTypeUndefined
  | OperationTypeProvision
  | OperationTypeDeprovision
  | OperationTypeUpdate
  | OperationTypeUpgradeKyma
  | OperationTypeUpgradeCluster

record runtime_operation =
  ro_Runtime :: runtime
  ro_ID :: string
  ro_DryRun :: bool
  ro_Notification :: bool
  NotificationState :: string

definition no_runtime_operation :: runtime_operation where
  "no_runtime_operation = \<lparr>ro_Runtime = no_runtime, ro_ID = [], ro_DryRun = False, ro_Notification = False, NotificationState = []\<rparr>"

record runtime_version =
  rv_Version :: string
  rv_Origin :: string
  rv_MajorVersion :: int

definition no_version :: runtime_version where
  "no_version = \<lparr>rv_Version = [], rv_Origin = [], rv_MajorVersion = 0\<rparr>"

record operation =
  op_ID :: string
  Version :: int
  CreatedAt :: int
  UpdatedAt :: int
  op_Type :: operation_type
  InstanceID :: string
  State :: string
  Description :: string
  ProvisioningParameters :: provisioning_parameters
  OrchestrationID :: string
  FinishedStages :: "string list"
  LastError :: last_error
  DashboardURL :: string
  Temporary :: bool
  ExcutedButNotCompleted :: "string list"
  UserAgent :: string
  UpdatingParameters :: updating_parameters
  InstanceDetails :: instance_details
  RuntimeOperation :: runtime_operation
  RuntimeVersion :: runtime_version
  ProvisionerOperationID :: string
  details :: string

definition Pending :: string where "Pending = ''pending''"
definition InProgress :: string where "InProgress = ''in progress''"
definition Canceling :: string where "Canceling = ''canceling''"
definition Retrying :: string where "Retrying = ''retrying''"
definition Canceled :: string where "Canceled = ''canceled''"
definition Succeeded :: string where "Succeeded = ''succeeded''"
definition Failed :: string where "Failed = ''failed''"

lemmas op_states = Pending_def InProgress_def Canceling_def Retrying_def Canceled_def Succeeded_def Failed_def

definition IsFinished :: "operation \<Rightarrow> bool" where
  "IsFinished op = (State op \<noteq> InProgress \<and> State op \<noteq> Pending \<and> State op \<noteq> Canceling \<and> State op \<noteq> Retrying)"

definition IsStageFinished :: "string \<Rightarrow> operation \<Rightarrow> bool" where
  "IsStageFinished stage op = list_ex (\<lambda>v. v = stage) (FinishedStages op)"

definition FinishStage :: "string \<Rightarrow> operation \<Rightarrow> operation" where
  "FinishStage stageName op =
     (if stageName = [] \<or> IsStageFinished stageName op then op
      else op\<lparr>FinishedStages := FinishedStages op @ [stageName]\<rparr>)"

lemma IsStageFinished_iff: "IsStageFinished st op \<longleftrightarrow> st \<in> set (FinishedStages op)"
  by (auto simp: IsStageFinished_def list_ex_iff)

section \<open>Properties of the classification\<close>

lemma message_ReasonForError: "message (ReasonForError err) = error_message err"
  by (subst ReasonForError.simps) (simp add: TimeoutError_def split: go_error.split)

text \<open>
  Adding context to an error with \<open>%w\<close>, any number of times,
  changes neither the reason nor the component under which it is reported, only its message; the exception is an error that is
  nothing but a text, which is classified by the words of the whole message.
\<close>

theorem wrapping_keeps_the_cause:
  assumes "\<forall>m. UnwrapAll err \<noteq> TextError m"
  shows "ReasonForError (WrappedError context err) = (ReasonForError err)\<lparr>message := context\<rparr>"
proof -
  have "UnwrapAll err \<noteq> WrappedError m e" for m e
    by (metis UnwrapOnce_UnwrapAll UnwrapOnce.simps(1) option.distinct(1))
  with assms show ?thesis
    by (simp add: ReasonForError.simps [of err] ReasonForError.simps [of "WrappedError context err"] split: go_error.split)
qed

theorem wrapping_keeps_the_cause_witness:
  "reason (ReasonForError (WrappedError ''while saving: no row'' (DbError CodeNotFound ''no row''))) = ''err_db_not_found''"
  by (subst wrapping_keeps_the_cause)
     (simp_all add: UnwrapAll_leaf ReasonForError.simps [of "DbError c m" for c m] db_reason_def CodeNotFound_def)

end
