(* ===== verification/Memory_Storage.thy ===== *)
theory Memory_Storage
  imports Broker_Model "HOL-Library.Multiset"
begin

text \<open>
  The in-memory driver of the operation storage (\<^verbatim>\<open>src/internal/storage/driver/memory/operation.go\<close>),
  which the broker uses when it is configured without a database, and the pagination helper
  (\<^verbatim>\<open>src/common/pagination/pagination.go\<close>).

  A Go map is an association list with distinct keys.  The order in which \<open>range\<close> visits a map is
  unspecified and may differ each time: the functions that iterate take it as an argument, a function
  that gives for a map the order of this visit, and the theorems hold for every such order.  \<open>sort.Slice\<close>
  need not be stable; a stable sort after an arbitrary visiting order yields the same set of
  possible results.  Every method holds the mutex for its whole body, so it is one atomic step.
\<close>

section \<open>The store\<close>

type_synonym op_map = "(string \<times> operation) list"

record memory_operations =
  operations :: op_map
  upgradeClusterOperations :: op_map
  updateOperations :: op_map

definition NewOperation :: memory_operations where
  "NewOperation = \<lparr>operations = [], upgradeClusterOperations = [], updateOperations = []\<rparr>"

type_synonym visit = "op_map \<Rightarrow> op_map"

text \<open>What may be assumed of the order in which a map is visited.\<close>

definition visits_all :: "visit \<Rightarrow> bool" where
  "visits_all visit = (\<forall>m. mset (visit m) = mset m)"

text \<open>A panic of the called method, or the value and error it returns.\<close>

datatype 'a go_call = Returned 'a | Panicked string

definition nil_dereference :: string where
  "nil_dereference = ''invalid memory address or nil pointer dereference''"

definition db_not_found :: "string \<Rightarrow> string \<Rightarrow> go_error" where
  "db_not_found before oid = DbError CodeNotFound (before @ oid @ '' not found'')"

section \<open>Inserting, reading and updating one operation\<close>

definition insert_new :: "operation \<Rightarrow> op_map \<Rightarrow> go_error + op_map" where
  "insert_new op m =
     (case map_of m (op_ID op) of
        Some _ \<Rightarrow> Inl (DbError CodeAlreadyExists (''instance operation with id '' @ op_ID op @ '' already exist''))
      | None \<Rightarrow> Inr (assoc_set (op_ID op) op m))"

text \<open>The check of the version that every update method makes.\<close>

definition update_versioned :: "string \<Rightarrow> operation \<Rightarrow> op_map \<Rightarrow> go_error + (operation \<times> op_map)" where
  "update_versioned kind op m =
     (case map_of m (op_ID op) of
        None \<Rightarrow> Inl (db_not_found ''instance operation with id '' (op_ID op))
      | Some oldOp \<Rightarrow>
          if Version oldOp \<noteq> Version op
          then Inl (DbError CodeConflict (''unable to update '' @ kind @ ''operation with id '' @ op_ID op @
                      '' (for instance id '' @ InstanceID op @ '') - conflict''))
          else (let op' = op\<lparr>Version := Version op + 1\<rparr> in Inr (op', assoc_set (op_ID op) op' m)))"

definition InsertOperation :: "operation \<Rightarrow> memory_operations \<Rightarrow> (go_error + unit) \<times> memory_operations" where
  "InsertOperation op s =
     (case insert_new op (operations s) of Inl e \<Rightarrow> (Inl e, s) | Inr m \<Rightarrow> (Inr (), s\<lparr>operations := m\<rparr>))"

definition InsertProvisioningOperation :: "operation \<Rightarrow> memory_operations \<Rightarrow> (go_error + unit) \<times> memory_operations" where
  "InsertProvisioningOperation op s = InsertOperation op s"

definition InsertDeprovisioningOperation :: "operation \<Rightarrow> memory_operations \<Rightarrow> (go_error + unit) \<times> memory_operations" where
  "InsertDeprovisioningOperation op s = InsertOperation op s"

definition InsertUpgradeKymaOperation :: "operation \<Rightarrow> memory_operations \<Rightarrow> (go_error + unit) \<times> memory_operations" where
  "InsertUpgradeKymaOperation op s = InsertOperation op s"

definition InsertUpgradeClusterOperation :: "operation \<Rightarrow> memory_operations \<Rightarrow> (go_error + unit) \<times> memory_operations" where
  "InsertUpgradeClusterOperation op s =
     (case insert_new op (upgradeClusterOperations s) of
        Inl e \<Rightarrow> (Inl e, s) | Inr m \<Rightarrow> (Inr (), s\<lparr>upgradeClusterOperations := m\<rparr>))"

definition InsertUpdatingOperation :: "operation \<Rightarrow> memory_operations \<Rightarrow> (go_error + unit) \<times> memory_operations" where
  "InsertUpdatingOperation op s =
     (case insert_new op (updateOperations s) of
        Inl e \<Rightarrow> (Inl e, s) | Inr m \<Rightarrow> (Inr (), s\<lparr>updateOperations := m\<rparr>))"

definition update_operations :: "string \<Rightarrow> operation \<Rightarrow> memory_operations \<Rightarrow> (go_error + operation) \<times> memory_operations" where
  "update_operations kind op s =
     (case update_versioned kind op (operations s) of
        Inl e \<Rightarrow> (Inl e, s) | Inr (op', m) \<Rightarrow> (Inr op', s\<lparr>operations := m\<rparr>))"

definition UpdateOperation :: "operation \<Rightarrow> memory_operations \<Rightarrow> (go_error + operation) \<times> memory_operations" where
  "UpdateOperation op s = update_operations [] op s"

definition UpdateProvisioningOperation :: "operation \<Rightarrow> memory_operations \<Rightarrow> (go_error + operation) \<times> memory_operations" where
  "UpdateProvisioningOperation op s = update_operations ''provisioning '' op s"

definition UpdateDeprovisioningOperation :: "operation \<Rightarrow> memory_operations \<Rightarrow> (go_error + operation) \<times> memory_operations" where
  "UpdateDeprovisioningOperation op s = update_operations ''deprovisioning '' op s"

definition UpdateUpgradeKymaOperation :: "operation \<Rightarrow> memory_operations \<Rightarrow> (go_error + operation) \<times> memory_operations" where
  "UpdateUpgradeKymaOperation op s = update_operations ''upgradeKyma '' op s"

definition UpdateUpgradeClusterOperation :: "operation \<Rightarrow> memory_operations \<Rightarrow> (go_error + operation) \<times> memory_operations" where
  "UpdateUpgradeClusterOperation op s =
     (case update_versioned ''upgradeKyma '' op (upgradeClusterOperations s) of
        Inl e \<Rightarrow> (Inl e, s) | Inr (op', m) \<Rightarrow> (Inr op', s\<lparr>upgradeClusterOperations := m\<rparr>))"

definition UpdateUpdatingOperation :: "operation \<Rightarrow> memory_operations \<Rightarrow> (go_error + operation) \<times> memory_operations" where
  "UpdateUpdatingOperation op s =
     (case update_versioned ''updating '' op (updateOperations s) of
        Inl e \<Rightarrow> (Inl e, s) | Inr (op', m) \<Rightarrow> (Inr op', s\<lparr>updateOperations := m\<rparr>))"

text \<open>The last map that knows the id wins, and the map of all operations is asked last.\<close>

definition GetOperationByID :: "string \<Rightarrow> memory_operations \<Rightarrow> go_error + operation" where
  "GetOperationByID operationID s =
     (case map_of (operations s) operationID of
        Some op \<Rightarrow> Inr op
      | None \<Rightarrow>
          (case map_of (updateOperations s) operationID of
             Some op \<Rightarrow> Inr op
           | None \<Rightarrow>
               (case map_of (upgradeClusterOperations s) operationID of
                  Some op \<Rightarrow> Inr op
                | None \<Rightarrow> Inl (DbError CodeNotFound (''Operation with id '' @ operationID @ '' not exist'')))))"

definition get_typed :: "string \<Rightarrow> string \<Rightarrow> op_map \<Rightarrow> go_error + operation" where
  "get_typed kind operationID m =
     (case map_of m operationID of
        Some op \<Rightarrow> Inr op
      | None \<Rightarrow> Inl (db_not_found (''instance '' @ kind @ '' operation with id '') operationID))"

definition GetProvisioningOperationByID :: "string \<Rightarrow> memory_operations \<Rightarrow> go_error + operation" where
  "GetProvisioningOperationByID operationID s = get_typed ''provisioning'' operationID (operations s)"

definition GetDeprovisioningOperationByID :: "string \<Rightarrow> memory_operations \<Rightarrow> go_error + operation" where
  "GetDeprovisioningOperationByID operationID s = get_typed ''deprovisioning'' operationID (operations s)"

definition GetUpgradeKymaOperationByID :: "string \<Rightarrow> memory_operations \<Rightarrow> go_error + operation" where
  "GetUpgradeKymaOperationByID operationID s = get_typed ''upgradeKyma'' operationID (operations s)"

definition GetUpgradeClusterOperationByID :: "string \<Rightarrow> memory_operations \<Rightarrow> go_error + operation" where
  "GetUpgradeClusterOperationByID operationID s = get_typed ''upgradeCluster'' operationID (upgradeClusterOperations s)"

text \<open>This one searches the values instead of the keys.\<close>

definition GetUpdatingOperationByID :: "visit \<Rightarrow> string \<Rightarrow> memory_operations \<Rightarrow> go_error + operation" where
  "GetUpdatingOperationByID visit operationID s =
     (case find (\<lambda>op. op_ID op = operationID) (map snd (visit (updateOperations s))) of
        Some op \<Rightarrow> Inr op
      | None \<Rightarrow> Inl (db_not_found ''instance update operation with ID '' operationID))"

section \<open>Listing\<close>

definition newest_first :: "operation list \<Rightarrow> operation list" where
  "newest_first ops = sort_key (\<lambda>op. - CreatedAt op) ops"

definition oldest_first :: "operation list \<Rightarrow> operation list" where
  "oldest_first ops = sort_key CreatedAt ops"

definition of_instance :: "visit \<Rightarrow> (operation \<Rightarrow> bool) \<Rightarrow> string \<Rightarrow> op_map \<Rightarrow> operation list" where
  "of_instance visit p instanceID m = filter (\<lambda>op. InstanceID op = instanceID \<and> p op) (map snd (visit m))"

definition first_of :: "string \<Rightarrow> string \<Rightarrow> operation list \<Rightarrow> go_error + operation" where
  "first_of kind instanceID ops =
     (case ops of op # _ \<Rightarrow> Inr op | [] \<Rightarrow> Inl (db_not_found (''instance '' @ kind @ '' operation with instanceID '') instanceID))"

definition GetOperationByInstanceID :: "visit \<Rightarrow> string \<Rightarrow> memory_operations \<Rightarrow> go_error + operation" where
  "GetOperationByInstanceID visit instanceID s =
     first_of ''provisioning'' instanceID (newest_first (of_instance visit (\<lambda>_. True) instanceID (operations s)))"

definition GetProvisioningOperationByInstanceID :: "visit \<Rightarrow> string \<Rightarrow> memory_operations \<Rightarrow> go_error + operation" where
  "GetProvisioningOperationByInstanceID visit instanceID s =
     first_of ''provisioning'' instanceID
       (newest_first (of_instance visit (\<lambda>op. op_Type op = OperationTypeProvision) instanceID (operations s)))"

definition GetDeprovisioningOperationByInstanceID :: "visit \<Rightarrow> string \<Rightarrow> memory_operations \<Rightarrow> go_error + operation" where
  "GetDeprovisioningOperationByInstanceID visit instanceID s =
     first_of ''deprovisioning'' instanceID
       (newest_first (of_instance visit (\<lambda>op. op_Type op = OperationTypeDeprovision) instanceID (operations s)))"

text \<open>Not sorted: any upgrade of the instance.\<close>

definition GetUpgradeKymaOperationByInstanceID :: "visit \<Rightarrow> string \<Rightarrow> memory_operations \<Rightarrow> go_error + operation" where
  "GetUpgradeKymaOperationByInstanceID visit instanceID s =
     first_of ''upgradeKyma'' instanceID
       (of_instance visit (\<lambda>op. op_Type op = OperationTypeUpgradeKyma) instanceID (operations s))"

text \<open>The most recent operation of an instance that has left the state \<open>pending\<close>, over all three maps.\<close>

definition GetLastOperation :: "visit \<Rightarrow> string \<Rightarrow> memory_operations \<Rightarrow> go_error + operation" where
  "GetLastOperation visit instanceID s =
     (let started = (\<lambda>op. State op \<noteq> Pending);
          rows = of_instance visit started instanceID (operations s)
               @ of_instance visit started instanceID (upgradeClusterOperations s)
               @ of_instance visit started instanceID (updateOperations s)
      in case newest_first rows of
           op # _ \<Rightarrow> Inr op
         | [] \<Rightarrow> Inl (DbError CodeNotFound (''Operation with instance_id '' @ instanceID @ '' not exist'')))"

text \<open>The cases for provisioning and deprovisioning are the same: neither looks at the type.\<close>

definition GetNotFinishedOperationsByType :: "visit \<Rightarrow> operation_type \<Rightarrow> memory_operations \<Rightarrow> operation list" where
  "GetNotFinishedOperationsByType visit opType s =
     (if opType = OperationTypeProvision \<or> opType = OperationTypeDeprovision
      then filter (\<lambda>op. State op = InProgress) (map snd (visit (operations s)))
      else [])"

definition calFailedStatusForOrchestration :: "(string \<times> string list) list \<Rightarrow> nat" where
  "calFailedStatusForOrchestration opStatePerInstanceID =
     length (filter (\<lambda>(i, sts). Failed \<in> set sts \<and>
                        \<not> (Succeeded \<in> set sts \<or> Retrying \<in> set sts \<or> InProgress \<in> set sts)) opStatePerInstanceID)"

fun group_states :: "operation list \<Rightarrow> (string \<times> string list) list \<Rightarrow> (string \<times> string list) list" where
  "group_states [] acc = acc"
| "group_states (op # ops) acc =
     (let sts = (case map_of acc (InstanceID op) of Some xs \<Rightarrow> xs | None \<Rightarrow> []) in
      group_states ops (assoc_set (InstanceID op) (sts @ [State op]) acc))"

text \<open>The counters per state; \<open>failed\<close> counts instances, every other state counts operations.\<close>

definition GetOperationStatsForOrchestration :: "visit \<Rightarrow> string \<Rightarrow> memory_operations \<Rightarrow> string \<Rightarrow> nat" where
  "GetOperationStatsForOrchestration visit orchestrationID s st =
     (let ops = filter (\<lambda>op. OrchestrationID op = orchestrationID \<and> op_Type op = OperationTypeUpgradeKyma)
                  (map snd (visit (operations s)))
              @ filter (\<lambda>op. OrchestrationID op = orchestrationID) (map snd (visit (upgradeClusterOperations s)))
      in if st = Failed then calFailedStatusForOrchestration (group_states ops [])
         else length (filter (\<lambda>op. State op = st) ops))"

subsection \<open>Pages\<close>

definition ConvertPageAndPageSizeToOffset :: "int \<Rightarrow> int \<Rightarrow> int" where
  "ConvertPageAndPageSizeToOffset pageSize page = (if page < 2 then 0 else page * pageSize - 1)"

text \<open>
  The loop that copies one page: from \<open>i\<close> while the page is not full (a page size below 1 means no
  limit) and \<open>i\<close> is below the bound; an index outside the slice panics.
\<close>

function copy_page :: "'a list \<Rightarrow> int \<Rightarrow> int \<Rightarrow> int \<Rightarrow> int \<Rightarrow> 'a list go_call" where
  "copy_page xs pageSize offset bound i =
     (if (pageSize < 1 \<or> i < offset + pageSize) \<and> i < bound
      then (if 0 \<le> i \<and> i < int (length xs)
            then (case copy_page xs pageSize offset bound (i + 1) of
                    Returned ys \<Rightarrow> Returned (xs ! nat i # ys)
                  | Panicked e \<Rightarrow> Panicked e)
            else Panicked ''index out of range'')
      else Returned [])"
  by pat_completeness auto
termination
  by (relation "measure (\<lambda>(xs, pageSize, offset, bound, i). nat (bound - i))") auto

declare copy_page.simps [simp del]

definition matchFilter :: "string \<Rightarrow> string list \<Rightarrow> bool" where
  "matchFilter v filters = (filters = [] \<or> v \<in> set filters)"

record operation_filter =
  filter_States :: "string list"
  filter_Page :: int
  filter_PageSize :: int

text \<open>The page, the number of operations on it and the number of all that match.\<close>

definition page_result :: "'a list go_call \<Rightarrow> 'a list \<Rightarrow> ('a list \<times> nat \<times> nat) go_call" where
  "page_result page all =
     (case page of Returned xs \<Rightarrow> Returned (xs, length xs, length all) | Panicked e \<Rightarrow> Panicked e)"

definition filterOperations :: "visit \<Rightarrow> string \<Rightarrow> operation_filter \<Rightarrow> memory_operations \<Rightarrow> operation list" where
  "filterOperations visit orchestrationID flt s =
     filter (\<lambda>op. (orchestrationID = [] \<or> OrchestrationID op = orchestrationID) \<and> matchFilter (State op) (filter_States flt))
       (map snd (visit (operations s)))"

definition ListOperationsByOrchestrationID ::
  "visit \<Rightarrow> string \<Rightarrow> operation_filter \<Rightarrow> memory_operations \<Rightarrow> (operation list \<times> nat \<times> nat) go_call" where
  "ListOperationsByOrchestrationID visit orchestrationID flt s =
     (let offset = ConvertPageAndPageSizeToOffset (filter_PageSize flt) (filter_Page flt);
          ops = oldest_first (filterOperations visit orchestrationID flt s)
      in page_result (copy_page ops (filter_PageSize flt) offset (int (length ops)) offset) ops)"

text \<open>The condition on the orchestration and the type is a conjunction of three differences, as written.\<close>

definition filterUpgradeKyma :: "visit \<Rightarrow> string \<Rightarrow> operation_filter \<Rightarrow> memory_operations \<Rightarrow> operation list" where
  "filterUpgradeKyma visit orchestrationID flt s =
     filter (\<lambda>op. \<not> (orchestrationID \<noteq> [] \<and> orchestrationID \<noteq> OrchestrationID op \<and> op_Type op \<noteq> OperationTypeUpgradeKyma) \<and>
                  matchFilter (State op) (filter_States flt))
       (map snd (visit (operations s)))"

definition ListUpgradeKymaOperationsByOrchestrationID ::
  "visit \<Rightarrow> string \<Rightarrow> operation_filter \<Rightarrow> memory_operations \<Rightarrow> (operation list \<times> nat \<times> nat) go_call" where
  "ListUpgradeKymaOperationsByOrchestrationID visit orchestrationID flt s =
     (let offset = ConvertPageAndPageSizeToOffset (filter_PageSize flt) (filter_Page flt);
          ops = oldest_first (filterUpgradeKyma visit orchestrationID flt s)
      in page_result (copy_page ops (filter_PageSize flt) offset (int (length ops)) offset) ops)"

definition filterAll :: "visit \<Rightarrow> operation_filter \<Rightarrow> memory_operations \<Rightarrow> go_error + operation list" where
  "filterAll visit flt s =
     (let ops = map snd (visit (upgradeClusterOperations s)) @ map snd (visit (operations s)) in
      if ops = [] then Inl (DbError CodeNotFound ''operations not found'')
      else Inr (filter (\<lambda>op. matchFilter (State op) (filter_States flt)) ops))"

text \<open>Here the bound of the loop is the number of operations plus the offset.\<close>

definition ListOperations ::
  "visit \<Rightarrow> operation_filter \<Rightarrow> memory_operations \<Rightarrow> (go_error + operation list \<times> nat \<times> nat) go_call" where
  "ListOperations visit flt s =
     (let offset = ConvertPageAndPageSizeToOffset (filter_PageSize flt) (filter_Page flt) in
      case filterAll visit flt s of
        Inl e \<Rightarrow> Returned (Inl (WrappedError (''while listing operations: '' @ error_message e) e))
      | Inr matching \<Rightarrow>
          (let ops = oldest_first matching in
           case page_result (copy_page ops (filter_PageSize flt) offset (int (length ops) + offset) offset) ops of
             Returned r \<Rightarrow> Returned (Inr r)
           | Panicked e \<Rightarrow> Panicked e))"

section \<open>Well-formed stores\<close>

text \<open>Every operation is stored under its own id, once.\<close>

definition map_ok :: "op_map \<Rightarrow> bool" where
  "map_ok m = (distinct (map fst m) \<and> (\<forall>(k, op) \<in> set m. op_ID op = k))"

definition store_ok :: "memory_operations \<Rightarrow> bool" where
  "store_ok s = (map_ok (operations s) \<and> map_ok (upgradeClusterOperations s) \<and> map_ok (updateOperations s))"

declare map_of_assoc_set [simp]

lemma map_ok_assoc_set: "map_ok m \<Longrightarrow> op_ID op = k \<Longrightarrow> map_ok (assoc_set k op m)"
  using set_assoc_set [of k op m] by (auto simp: map_ok_def distinct_assoc_set)

lemma map_ok_insert: "map_ok m \<Longrightarrow> insert_new op m = Inr m' \<Longrightarrow> map_ok m'"
  by (auto simp: insert_new_def map_ok_assoc_set split: option.splits)

lemma map_ok_update: "map_ok m \<Longrightarrow> update_versioned kind op m = Inr (op', m') \<Longrightarrow> map_ok m'"
  by (auto simp: update_versioned_def Let_def map_ok_assoc_set split: option.splits if_splits)

lemma map_ok_ID: "map_ok m \<Longrightarrow> map_of m k = Some op \<Longrightarrow> op_ID op = k"
  by (auto simp: map_ok_def dest!: map_of_SomeD)

text \<open>The methods that change the store, as one family.\<close>

datatype storage_call =
    CallInsert operation
  | CallInsertUpgradeCluster operation
  | CallInsertUpdating operation
  | CallUpdate operation
  | CallUpdateUpgradeCluster operation
  | CallUpdateUpdating operation

fun perform :: "storage_call \<Rightarrow> memory_operations \<Rightarrow> memory_operations" where
  "perform (CallInsert op) s = snd (InsertOperation op s)"
| "perform (CallInsertUpgradeCluster op) s = snd (InsertUpgradeClusterOperation op s)"
| "perform (CallInsertUpdating op) s = snd (InsertUpdatingOperation op s)"
| "perform (CallUpdate op) s = snd (UpdateOperation op s)"
| "perform (CallUpdateUpgradeCluster op) s = snd (UpdateUpgradeClusterOperation op s)"
| "perform (CallUpdateUpdating op) s = snd (UpdateUpdatingOperation op s)"

lemmas storage_updates = InsertOperation_def InsertUpgradeClusterOperation_def InsertUpdatingOperation_def
  UpdateOperation_def update_operations_def UpdateUpgradeClusterOperation_def UpdateUpdatingOperation_def

lemma perform_ok: "store_ok s \<Longrightarrow> store_ok (perform c s)"
  by (cases c)
     (auto simp: store_ok_def storage_updates intro: map_ok_insert map_ok_update split: sum.split)

lemma update_versioned_Inr:
  "update_versioned kind op m = Inr (op', m') \<longleftrightarrow>
   (\<exists>old. map_of m (op_ID op) = Some old \<and> Version old = Version op) \<and>
   op' = op\<lparr>Version := Version op + 1\<rparr> \<and> m' = assoc_set (op_ID op) op' m"
  by (auto simp: update_versioned_def Let_def split: option.splits)

text \<open>The stored operations, whatever map they are in.\<close>

definition versions :: "memory_operations \<Rightarrow> string \<Rightarrow> int option list" where
  "versions s k = map (\<lambda>m. map_option Version (map_of m k)) [operations s, upgradeClusterOperations s, updateOperations s]"

text \<open>
  (C26) Whatever inserts and updates are made in whatever order, every
  operation stays under its own id, no id occurs twice, nothing disappears, and the version of a stored
  operation never decreases.
\<close>

theorem stores_stay_well_formed:
  "store_ok (fold perform calls NewOperation) \<and>
   list_all2 (\<lambda>before after. \<forall>v. before = Some v \<longrightarrow> (\<exists>v'. after = Some v' \<and> v \<le> v'))
     (versions s k) (versions (fold perform calls s) k)"
proof
  have "store_ok s \<Longrightarrow> store_ok (fold perform calls s)" for s
    by (induction calls arbitrary: s) (auto simp: perform_ok)
  moreover have "store_ok NewOperation" by (simp add: store_ok_def NewOperation_def map_ok_def)
  ultimately show "store_ok (fold perform calls NewOperation)" by blast
next
  let ?le = "\<lambda>before after :: int option. \<forall>v. before = Some v \<longrightarrow> (\<exists>v'. after = Some v' \<and> v \<le> v')"
  have step: "list_all2 ?le (versions s k) (versions (perform c s) k)" for c s
    by (cases c)
       (auto simp: versions_def storage_updates insert_new_def update_versioned_def Let_def
         split: sum.split option.split)
  show "list_all2 ?le (versions s k) (versions (fold perform calls s) k)"
  proof (induction calls arbitrary: s)
    case Nil
    show ?case by (auto simp: versions_def)
  next
    case (Cons c calls)
    have "list_all2 ?le (versions s k) (versions (fold perform calls (perform c s)) k)"
      by (rule list_all2_trans [OF _ step Cons.IH]) (metis order_trans)
    then show ?case by simp
  qed
qed

text \<open>An operation for the examples.\<close>

definition some_parameters :: provisioning_parameters where
  "some_parameters = \<lparr>PlanID = ''p'', ServiceID = ''s'',
     ErsContext = \<lparr>TenantID = [], SubAccountID = ''sub'', GlobalAccountID = ''ga'', SMOperatorCredentials = None,
       Active = None, UserID = ''user'', CommercialModel = None, LicenseType = None, Origin = None, Platform = None,
       ers_Region = None\<rparr>,
     Parameters = \<lparr>AutoScaler = upd_AutoScaler no_update, Name = ''skr'', TargetSecret = None, VolumeSizeGb = None,
       MachineType = None, param_Region = None, Purpose = None, LicenceType = None, Zones = None,
       OptionalComponentsToInstall = None, KymaVersion = [], OverridesVersion = [], RuntimeAdministrators = None,
       param_Provider = None, Kubeconfig = [], param_ShootName = [], param_ShootDomain = [], OIDC = None,
       Networking = None, Modules = None\<rparr>,
     PlatformRegion = ''cf-eu10'', PlatformProvider = ''Azure''\<rparr>"

definition some_operation :: operation where
  "some_operation = \<lparr>op_ID = ''op'', Version = 0, CreatedAt = 0, UpdatedAt = 0, op_Type = OperationTypeProvision,
     InstanceID = ''i'', State = InProgress, Description = [], ProvisioningParameters = some_parameters,
     OrchestrationID = [], FinishedStages = [], LastError = \<lparr>message = [], reason = [], component = []\<rparr>,
     DashboardURL = [], Temporary = False, ExcutedButNotCompleted = [], UserAgent = [], UpdatingParameters = no_update,
     InstanceDetails = no_details, RuntimeOperation = no_runtime_operation,
     RuntimeVersion = no_version, ProvisionerOperationID = [], details = []\<rparr>"

definition some_store :: memory_operations where
  "some_store = \<lparr>operations = [(''op'', some_operation)], upgradeClusterOperations = [], updateOperations = []\<rparr>"

theorem stores_stay_well_formed_witness:
  "store_ok (fold perform [CallInsert some_operation, CallUpdate some_operation] NewOperation) \<and>
   (\<exists>v. map_option Version (map_of (operations (fold perform [CallUpdate some_operation] some_store)) ''op'') = Some v \<and> 0 \<le> v)"
proof -
  have "map_option Version (map_of (operations some_store) ''op'') = Some 0"
    by (simp add: some_store_def some_operation_def)
  with stores_stay_well_formed [of "[CallInsert some_operation, CallUpdate some_operation]" some_store "''op''"]
    stores_stay_well_formed [of "[CallUpdate some_operation]" some_store "''op''"]
  show ?thesis by (simp add: versions_def)
qed

section \<open>The interface of the operation storage\<close>

text \<open>
  The two methods that the processing core calls, of any driver: reading by id and updating.  A
  call may change the state of the driver, and may fail.
\<close>

record 's op_storage =
  get_op :: "string \<Rightarrow> 's \<Rightarrow> (go_error + operation) \<times> 's"
  upd_op :: "operation \<Rightarrow> 's \<Rightarrow> (go_error + operation) \<times> 's"

text \<open>
  Optimistic locking, for any kind of stored value with a key and a version: an update succeeds only from
  the version that is stored, makes it one version newer and touches no other key; an update that fails changes
  nothing, and one from another version fails with a conflict.
\<close>

locale optimistic_lock =
  fixes upd :: "'v \<Rightarrow> 's \<Rightarrow> (go_error + 'v) \<times> 's"
    and stored :: "'s \<Rightarrow> string \<Rightarrow> 'v option"
    and key :: "'v \<Rightarrow> string"
    and ver :: "'v \<Rightarrow> int"
    and bump :: "'v \<Rightarrow> 'v"
  assumes ver_bump: "ver (bump v) = ver v + 1"
    and upd_done: "upd v s = (Inr v', s') \<Longrightarrow> v' = bump v \<and> stored s' = (stored s)(key v \<mapsto> bump v)"
    and upd_needs: "upd v s = (Inr v', s') \<Longrightarrow> \<exists>old. stored s (key v) = Some old \<and> ver old = ver v"
    and upd_failed: "upd v s = (Inl e, s') \<Longrightarrow> s' = s"
    and upd_current: "stored s (key v) = Some old \<Longrightarrow> ver old = ver v \<Longrightarrow> \<exists>v' s'. upd v s = (Inr v', s')"
    and upd_stale: "stored s (key v) = Some old \<Longrightarrow> ver old \<noteq> ver v \<Longrightarrow> \<exists>e. upd v s = (Inl e, s) \<and> IsConflict e"
begin

text \<open>Of two updates made from one reading, the second is refused.\<close>

lemma second_update_conflicts:
  assumes "upd v s = (Inr v1, s1)" "key v2 = key v" "ver v2 = ver v"
  shows "\<exists>e. upd v2 s1 = (Inl e, s1) \<and> IsConflict e"
proof -
  have "stored s1 (key v2) = Some (bump v)" "ver (bump v) \<noteq> ver v2"
    using upd_done [OF assms(1)] assms(2,3) by (simp_all add: ver_bump)
  then show ?thesis by (rule upd_stale)
qed

lemma stored_after_update:
  "stored (snd (upd v s)) i =
     (if i = key v \<and> isl (fst (upd v s)) = False then Some (bump v) else stored s i)"
  by (cases "upd v s"; cases "fst (upd v s)") (auto dest: upd_done upd_failed)

lemma update_stored:
  assumes "stored s (key v) = Some old" "ver old = ver v"
  obtains s' where "upd v s = (Inr (bump v), s')" and "stored s' = (stored s)(key v \<mapsto> bump v)"
  using upd_current [OF assms] upd_done by blast

end

text \<open>
  What a driver promises of the operations it stores: an update succeeds only from the version
  that is stored, makes it one version newer, and leaves every other operation alone; an update
  that fails changes nothing; reading gives what is stored.
\<close>

locale versioned_store =
  fixes S :: "'s op_storage"
    and stored :: "'s \<Rightarrow> string \<Rightarrow> operation option"
    and good :: "'s \<Rightarrow> bool"
  assumes stored_ID: "good s \<Longrightarrow> stored s i = Some op \<Longrightarrow> op_ID op = i"
    and get_stored: "stored s i = Some op \<Longrightarrow> get_op S i s = (Inr op, s)"
    and upd_done: "upd_op S op s = (Inr op', s') \<Longrightarrow>
          op' = op\<lparr>Version := Version op + 1\<rparr> \<and> stored s' = (stored s)(op_ID op \<mapsto> op')"
    and upd_needs: "upd_op S op s = (Inr op', s') \<Longrightarrow>
          \<exists>old. stored s (op_ID op) = Some old \<and> Version old = Version op"
    and upd_failed: "upd_op S op s = (Inl e, s') \<Longrightarrow> s' = s"
    and upd_current: "stored s (op_ID op) = Some old \<Longrightarrow> Version old = Version op \<Longrightarrow>
          \<exists>op' s'. upd_op S op s = (Inr op', s')"
    and upd_stale: "stored s (op_ID op) = Some old \<Longrightarrow> Version old \<noteq> Version op \<Longrightarrow>
          \<exists>e. upd_op S op s = (Inl e, s) \<and> IsConflict e"
    and upd_good: "good s \<Longrightarrow> good (snd (upd_op S op s))"
begin

lemma update_current:
  assumes "stored s (op_ID op) = Some old" "Version old = Version op"
  obtains s' where "upd_op S op s = (Inr (op\<lparr>Version := Version op + 1\<rparr>), s')"
    and "stored s' = (stored s)(op_ID op \<mapsto> op\<lparr>Version := Version op + 1\<rparr>)"
  using upd_current [OF assms] upd_done by blast

end

sublocale versioned_store \<subseteq> lock: optimistic_lock "upd_op S" stored op_ID Version "\<lambda>op. op\<lparr>Version := Version op + 1\<rparr>"
proof
  fix op op' old :: operation and s s' :: 's and e
  show "Version (op\<lparr>Version := Version op + 1\<rparr>) = Version op + 1" by simp
  show "upd_op S op s = (Inr op', s') \<Longrightarrow>
      op' = op\<lparr>Version := Version op + 1\<rparr> \<and> stored s' = (stored s)(op_ID op \<mapsto> op\<lparr>Version := Version op + 1\<rparr>)"
    by (auto dest: upd_done)
qed (fact upd_needs upd_failed upd_current upd_stale)+

text \<open>The memory driver as such a storage.\<close>

definition memory_storage :: "memory_operations op_storage" where
  "memory_storage = \<lparr>get_op = (\<lambda>i s. (GetOperationByID i s, s)), upd_op = UpdateOperation\<rparr>"

definition stored_operation :: "memory_operations \<Rightarrow> string \<Rightarrow> operation option" where
  "stored_operation s i = map_of (operations s) i"

lemma stored_operation_eq: "stored_operation s = map_of (operations s)"
  by (simp add: fun_eq_iff stored_operation_def)

lemma UpdateOperation_Inr:
  "UpdateOperation op s = (Inr op', s') \<longleftrightarrow>
   (\<exists>old. map_of (operations s) (op_ID op) = Some old \<and> Version old = Version op) \<and>
   op' = op\<lparr>Version := Version op + 1\<rparr> \<and> s' = s\<lparr>operations := assoc_set (op_ID op) op' (operations s)\<rparr>"
  by (auto simp: UpdateOperation_def update_operations_def update_versioned_def Let_def split: option.splits)

lemma UpdateOperation_stale:
  "map_of (operations s) (op_ID op) = Some old \<Longrightarrow> Version old \<noteq> Version op \<Longrightarrow>
   \<exists>e. UpdateOperation op s = (Inl e, s) \<and> IsConflict e"
  by (simp add: UpdateOperation_def update_operations_def update_versioned_def IsConflict_def)

interpretation memory: versioned_store memory_storage stored_operation store_ok
proof
  fix s :: memory_operations and i op op' old s' e
  show "store_ok s \<Longrightarrow> stored_operation s i = Some op \<Longrightarrow> op_ID op = i"
    by (auto simp: store_ok_def stored_operation_def dest: map_ok_ID)
  show "stored_operation s i = Some op \<Longrightarrow> get_op memory_storage i s = (Inr op, s)"
    by (simp add: stored_operation_def memory_storage_def GetOperationByID_def)
  show "upd_op memory_storage op s = (Inr op', s') \<Longrightarrow>
      op' = op\<lparr>Version := Version op + 1\<rparr> \<and> stored_operation s' = (stored_operation s)(op_ID op \<mapsto> op')"
    by (auto simp: memory_storage_def UpdateOperation_Inr stored_operation_def fun_eq_iff)
  show "upd_op memory_storage op s = (Inr op', s') \<Longrightarrow>
      \<exists>old. stored_operation s (op_ID op) = Some old \<and> Version old = Version op"
    by (auto simp: memory_storage_def UpdateOperation_Inr stored_operation_def)
  show "upd_op memory_storage op s = (Inl e, s') \<Longrightarrow> s' = s"
    by (auto simp: memory_storage_def UpdateOperation_def update_operations_def split: sum.splits)
  show "stored_operation s (op_ID op) = Some old \<Longrightarrow> Version old = Version op \<Longrightarrow>
      \<exists>op' s'. upd_op memory_storage op s = (Inr op', s')"
    by (auto simp: memory_storage_def UpdateOperation_Inr stored_operation_def)
  show "stored_operation s (op_ID op) = Some old \<Longrightarrow> Version old \<noteq> Version op \<Longrightarrow>
      \<exists>e. upd_op memory_storage op s = (Inl e, s) \<and> IsConflict e"
    by (simp add: memory_storage_def UpdateOperation_stale stored_operation_def)
  show "store_ok s \<Longrightarrow> store_ok (snd (upd_op memory_storage op s))"
    using perform_ok [of s "CallUpdate op"] by (simp add: memory_storage_def)
qed

text \<open>
  (C6) No update is lost: when two callers update an operation from the same
  version, the first one to come is stored and the second is refused with a conflict and changes
  nothing, whatever it wanted to write.
\<close>

theorem no_lost_update:
  assumes "UpdateOperation op s = (Inr op1, s1)" and "op_ID op2 = op_ID op" and "Version op2 = Version op"
  shows "GetOperationByID (op_ID op) s1 = Inr (op\<lparr>Version := Version op + 1\<rparr>) \<and>
         (\<exists>e. UpdateOperation op2 s1 = (Inl e, s1) \<and> IsConflict e)"
proof
  have u: "upd_op memory_storage op s = (Inr op1, s1)" using assms(1) by (simp add: memory_storage_def)
  have "stored_operation s1 (op_ID op) = Some (op\<lparr>Version := Version op + 1\<rparr>)"
    using memory.upd_done [OF u] by simp
  from memory.get_stored [OF this] show "GetOperationByID (op_ID op) s1 = Inr (op\<lparr>Version := Version op + 1\<rparr>)"
    by (simp add: memory_storage_def)
  from memory.lock.second_update_conflicts [OF u assms(2,3)] show "\<exists>e. UpdateOperation op2 s1 = (Inl e, s1) \<and> IsConflict e"
    by (simp add: memory_storage_def)
qed

theorem no_lost_update_witness:
  "\<exists>e. fst (UpdateOperation (some_operation\<lparr>State := Failed\<rparr>) (snd (UpdateOperation some_operation some_store))) = Inl e \<and> IsConflict e"
proof -
  have "UpdateOperation some_operation some_store = (Inr (some_operation\<lparr>Version := 1\<rparr>), snd (UpdateOperation some_operation some_store))"
    by (simp add: UpdateOperation_def update_operations_def update_versioned_def some_operation_def some_store_def Let_def)
  from no_lost_update [OF this, of "some_operation\<lparr>State := Failed\<rparr>"] show ?thesis by auto
qed

section \<open>Listing\<close>

lemma set_of_instance:
  "visits_all visit \<Longrightarrow> set (of_instance visit p i m) = {op \<in> snd ` set m. InstanceID op = i \<and> p op}"
proof -
  assume "visits_all visit"
  then have "set (visit m) = set m" unfolding visits_all_def by (metis set_mset_mset)
  then show ?thesis by (auto simp: of_instance_def)
qed

lemma newest_first_hd:
  assumes "newest_first ops = op # rest"
  shows "op \<in> set ops" and "\<And>other. other \<in> set ops \<Longrightarrow> CreatedAt other \<le> CreatedAt op"
proof -
  have s: "set ops = set (op # rest)" using assms by (metis newest_first_def set_sort)
  then show "op \<in> set ops" by simp
  have "sorted (map (\<lambda>op. - CreatedAt op) (op # rest))"
    using assms sorted_sort_key [of "\<lambda>op. - CreatedAt op" ops] by (simp only: newest_first_def)
  then show "CreatedAt other \<le> CreatedAt op" if "other \<in> set ops" for other
    using that s by auto
qed

text \<open>
  What the endpoints rely on when they look for the latest operation of an instance, whatever kind of operation
  they look for: it is stored, of that instance and kind, and none is newer; it is missing only when there is none.
\<close>

locale newest_lookup =
  fixes lookup :: "visit \<Rightarrow> string \<Rightarrow> 's \<Rightarrow> go_error + operation"
    and pool :: "'s \<Rightarrow> operation set"
    and sel :: "operation \<Rightarrow> bool"
  assumes lookup_found: "visits_all visit \<Longrightarrow> lookup visit i s = Inr op \<Longrightarrow>
          op \<in> pool s \<and> InstanceID op = i \<and> sel op \<and>
          (\<forall>other \<in> pool s. InstanceID other = i \<longrightarrow> sel other \<longrightarrow> CreatedAt other \<le> CreatedAt op)"
    and lookup_missing: "visits_all visit \<Longrightarrow> lookup visit i s = Inl e \<Longrightarrow>
          IsNotFound e \<and> (\<forall>op \<in> pool s. InstanceID op = i \<longrightarrow> \<not> sel op)"
begin

lemma lookup_newest:
  assumes "visits_all visit" "op \<in> pool s" "sel op"
    and "\<And>other. other \<in> pool s \<Longrightarrow> InstanceID other = InstanceID op \<Longrightarrow> sel other \<Longrightarrow> other \<noteq> op \<Longrightarrow> CreatedAt other < CreatedAt op"
  shows "lookup visit (InstanceID op) s = Inr op"
proof (cases "lookup visit (InstanceID op) s")
  case (Inl e)
  with lookup_missing [OF assms(1) Inl] assms(2,3) show ?thesis by blast
next
  case (Inr found)
  with lookup_found [OF assms(1) Inr] assms(2-4) show ?thesis by fastforce
qed

lemma lookup_none:
  assumes "visits_all visit" "\<And>op. op \<in> pool s \<Longrightarrow> InstanceID op = i \<Longrightarrow> \<not> sel op"
  obtains e where "lookup visit i s = Inl e" and "IsNotFound e"
  using lookup_found [OF assms(1)] lookup_missing [OF assms(1)] assms(2) by (cases "lookup visit i s") blast+

lemma lookup_inserted:
  assumes "visits_all visit" "pool s' = insert op (pool s)" "sel op"
    and "\<And>other. other \<in> pool s \<Longrightarrow> InstanceID other = InstanceID op \<Longrightarrow> CreatedAt other < CreatedAt op"
  shows "lookup visit (InstanceID op) s' = Inr op"
  using assms by (intro lookup_newest) auto

end

definition main_operations :: "memory_operations \<Rightarrow> operation set" where
  "main_operations s = snd ` set (operations s)"

definition all_operations :: "memory_operations \<Rightarrow> operation set" where
  "all_operations s = snd ` (set (operations s) \<union> set (upgradeClusterOperations s) \<union> set (updateOperations s))"

lemma newest_first_Nil: "newest_first ops = [] \<longleftrightarrow> ops = []"
  by (metis newest_first_def set_empty set_sort)

lemma newest_lookup_first_of:
  "newest_lookup (\<lambda>visit i s. first_of kind i (newest_first (of_instance visit p i (operations s)))) main_operations p"
proof
  fix visit i op e and s :: memory_operations
  assume v: "visits_all visit"
  let ?rows = "of_instance visit p i (operations s)"
  show "op \<in> main_operations s \<and> InstanceID op = i \<and> p op \<and>
      (\<forall>other \<in> main_operations s. InstanceID other = i \<longrightarrow> p other \<longrightarrow> CreatedAt other \<le> CreatedAt op)"
    if "first_of kind i (newest_first ?rows) = Inr op"
  proof -
    from that obtain rest where "newest_first ?rows = op # rest" by (auto simp: first_of_def split: list.splits)
    from newest_first_hd [OF this] show ?thesis by (auto simp: set_of_instance [OF v] main_operations_def)
  qed
  show "IsNotFound e \<and> (\<forall>op \<in> main_operations s. InstanceID op = i \<longrightarrow> \<not> p op)"
    if "first_of kind i (newest_first ?rows) = Inl e"
  proof -
    from that have "?rows = []" and "IsNotFound e"
      by (auto simp: first_of_def newest_first_Nil IsNotFound_def db_not_found_def split: list.splits)
    with set_of_instance [OF v, of p i "operations s"] show ?thesis by (auto simp: main_operations_def)
  qed
qed

interpretation prov: newest_lookup GetProvisioningOperationByInstanceID main_operations "\<lambda>op. op_Type op = OperationTypeProvision"
  using newest_lookup_first_of by (simp add: GetProvisioningOperationByInstanceID_def [abs_def])

interpretation dep: newest_lookup GetDeprovisioningOperationByInstanceID main_operations "\<lambda>op. op_Type op = OperationTypeDeprovision"
  using newest_lookup_first_of by (simp add: GetDeprovisioningOperationByInstanceID_def [abs_def])

interpretation last: newest_lookup GetLastOperation all_operations "\<lambda>op. State op \<noteq> Pending"
proof
  fix visit i op e and s :: memory_operations
  assume v: "visits_all visit"
  define rows where "rows = of_instance visit (\<lambda>op. State op \<noteq> Pending) i (operations s)
    @ of_instance visit (\<lambda>op. State op \<noteq> Pending) i (upgradeClusterOperations s)
    @ of_instance visit (\<lambda>op. State op \<noteq> Pending) i (updateOperations s)"
  have set_rows: "set rows = {op \<in> all_operations s. InstanceID op = i \<and> State op \<noteq> Pending}"
    by (auto simp: rows_def set_of_instance [OF v] all_operations_def)
  show "op \<in> all_operations s \<and> InstanceID op = i \<and> State op \<noteq> Pending \<and>
      (\<forall>other \<in> all_operations s. InstanceID other = i \<longrightarrow> State other \<noteq> Pending \<longrightarrow> CreatedAt other \<le> CreatedAt op)"
    if "GetLastOperation visit i s = Inr op"
  proof -
    from that obtain rest where "newest_first rows = op # rest"
      by (auto simp: GetLastOperation_def rows_def Let_def split: list.splits)
    from newest_first_hd [OF this] show ?thesis by (auto simp: set_rows)
  qed
  show "IsNotFound e \<and> (\<forall>op \<in> all_operations s. InstanceID op = i \<longrightarrow> \<not> State op \<noteq> Pending)"
    if "GetLastOperation visit i s = Inl e"
  proof -
    from that have "newest_first rows = []" and "IsNotFound e"
      by (auto simp: GetLastOperation_def rows_def IsNotFound_def Let_def split: list.splits)
    then have "rows = []" by (simp add: newest_first_Nil)
    with set_rows \<open>IsNotFound e\<close> show ?thesis by auto
  qed
qed

definition started_operations :: "string \<Rightarrow> memory_operations \<Rightarrow> operation set" where
  "started_operations i s =
     {op \<in> snd ` (set (operations s) \<union> set (upgradeClusterOperations s) \<union> set (updateOperations s)).
        InstanceID op = i \<and> State op \<noteq> Pending}"

text \<open>
  In whatever order the maps are visited, \<open>GetLastOperation\<close> returns an
  operation of the instance that is stored in one of the three maps, is not pending, and is at least as
  young as every other such operation; it reports \<open>not found\<close> exactly when there is none.
\<close>

theorem last_operation_is_the_newest:
  assumes "visits_all visit"
  shows "case GetLastOperation visit i s of
           Inr op \<Rightarrow> op \<in> started_operations i s \<and> (\<forall>other \<in> started_operations i s. CreatedAt other \<le> CreatedAt op)
         | Inl e \<Rightarrow> started_operations i s = {} \<and> IsNotFound e"
proof -
  define rows where "rows = of_instance visit (\<lambda>op. State op \<noteq> Pending) i (operations s)
               @ of_instance visit (\<lambda>op. State op \<noteq> Pending) i (upgradeClusterOperations s)
               @ of_instance visit (\<lambda>op. State op \<noteq> Pending) i (updateOperations s)"
  have rows: "set rows = started_operations i s"
    unfolding rows_def started_operations_def using set_of_instance [OF assms(1)] by auto
  show ?thesis
  proof (cases "newest_first rows")
    case Nil
    then have "rows = []" by (metis newest_first_def set_empty set_sort)
    with rows Nil show ?thesis
      by (simp add: GetLastOperation_def rows_def [symmetric] IsNotFound_def)
  next
    case (Cons op rest)
    with newest_first_hd [OF Cons] rows show ?thesis
      by (simp add: GetLastOperation_def rows_def [symmetric])
  qed
qed

theorem last_operation_is_the_newest_witness:
  "\<exists>op. GetLastOperation (\<lambda>m. m) ''i'' some_store = Inr op \<and> InstanceID op = ''i''"
proof -
  have "visits_all (\<lambda>m. m)" by (simp add: visits_all_def)
  moreover have "some_operation \<in> started_operations ''i'' some_store"
    by (simp add: started_operations_def some_store_def) (simp add: some_operation_def op_states)
  ultimately show ?thesis
    using last_operation_is_the_newest [of "\<lambda>m. m" "''i''" some_store]
    by (cases "GetLastOperation (\<lambda>m. m) ''i'' some_store") (auto simp: started_operations_def)
qed

subsection \<open>Pages\<close>

lemma copy_page_spec:
  assumes "0 \<le> i"
  shows "copy_page xs ps offset (int (length xs)) i =
           Returned (if ps < 1 then drop (nat i) xs else take (nat (offset + ps - i)) (drop (nat i) xs))"
  using assms
proof (induction xs ps offset "int (length xs)" i rule: copy_page.induct)
  case (1 xs ps offset i)
  show ?case
  proof (cases "(ps < 1 \<or> i < offset + ps) \<and> i < int (length xs)")
    case True
    have "copy_page xs ps offset (int (length xs)) (i + 1) =
        Returned (if ps < 1 then drop (nat (i + 1)) xs else take (nat (offset + ps - (i + 1))) (drop (nat (i + 1)) xs))"
      using 1 True by simp
    moreover have "drop (nat i) xs = xs ! nat i # drop (nat (i + 1)) xs"
      using True \<open>0 \<le> i\<close> by (metis Suc_nat_eq_nat_zadd1 add.commute Cons_nth_drop_Suc nat_less_iff)
    moreover have "nat (offset + ps - i) = Suc (nat (offset + ps - (i + 1)))" if "\<not> ps < 1"
      using that True by linarith
    ultimately show ?thesis
      using True \<open>0 \<le> i\<close> by (subst copy_page.simps) simp
  next
    case False
    then show ?thesis by (subst copy_page.simps) auto
  qed
qed

text \<open>
  The pages of a listing do not cover it.  A page \<open>p \<ge> 2\<close> of size \<open>n\<close> starts at
  position \<open>p * n - 1\<close> instead of \<open>(p - 1) * n\<close>: the operation right after the first page is on no page at
  all unless pages have size 1.
\<close>

theorem pages_leave_a_gap:
  assumes "2 \<le> n" and "1 \<le> p"
    and "filter_PageSize flt = n" and "filter_Page flt = p"
    and "ops = oldest_first (filterOperations visit orch flt s)" and "distinct ops" and "nat n < length ops"
  shows "\<exists>page. ListOperationsByOrchestrationID visit orch flt s = Returned (page, length page, length ops) \<and>
           ops ! nat n \<notin> set page"
proof -
  define off where "off = ConvertPageAndPageSizeToOffset n p"
  have off: "off = (if p < 2 then 0 else p * n - 1)" by (simp add: off_def ConvertPageAndPageSizeToOffset_def)
  have "2 * 2 \<le> p * n" if "\<not> p < 2" using that assms(1) by (intro mult_mono) auto
  then have "0 \<le> off" using off by (auto split: if_splits)
  have "n < p * n - 1" if "\<not> p < 2"
  proof -
    have "2 * n \<le> p * n" using that assms(1) by (intro mult_right_mono) auto
    then show ?thesis using assms(1) by linarith
  qed
  then have "off = 0 \<or> nat n < nat off" using off assms(1) by auto
  moreover have "ops ! nat n \<notin> set (take (nat n) (drop (nat off) ops))" if "off = 0 \<or> nat n < nat off"
    using that assms(6,7) by (auto simp: in_set_conv_nth nth_eq_iff_index_eq)
  moreover have "ListOperationsByOrchestrationID visit orch flt s =
      page_result (Returned (take (nat n) (drop (nat off) ops))) ops"
    using copy_page_spec [OF \<open>0 \<le> off\<close>, of ops n off] assms(1,3,4)
    by (simp add: ListOperationsByOrchestrationID_def Let_def off_def [symmetric] assms(5) [symmetric])
  ultimately show ?thesis by (auto simp: page_result_def)
qed

text \<open>Three operations of one orchestration, created one after the other.\<close>

definition three_operations :: memory_operations where
  "three_operations = \<lparr>operations = [(''a'', some_operation\<lparr>op_ID := ''a'', CreatedAt := 1\<rparr>),
     (''b'', some_operation\<lparr>op_ID := ''b'', CreatedAt := 2\<rparr>), (''c'', some_operation\<lparr>op_ID := ''c'', CreatedAt := 3\<rparr>)],
     upgradeClusterOperations = [], updateOperations = []\<rparr>"

definition page_filter :: "int \<Rightarrow> int \<Rightarrow> operation_filter" where
  "page_filter n p = \<lparr>filter_States = [], filter_Page = p, filter_PageSize = n\<rparr>"

theorem pages_leave_a_gap_witness:
  "\<exists>page. ListOperationsByOrchestrationID (\<lambda>m. m) [] (page_filter 2 2) three_operations = Returned (page, length page, 3) \<and>
     some_operation\<lparr>op_ID := ''c'', CreatedAt := 3\<rparr> \<notin> set page"
proof -
  have "oldest_first (filterOperations (\<lambda>m. m) [] (page_filter 2 2) three_operations) =
      [some_operation\<lparr>op_ID := ''a'', CreatedAt := 1\<rparr>, some_operation\<lparr>op_ID := ''b'', CreatedAt := 2\<rparr>,
       some_operation\<lparr>op_ID := ''c'', CreatedAt := 3\<rparr>]"
    by (simp add: oldest_first_def filterOperations_def page_filter_def three_operations_def matchFilter_def)
  from pages_leave_a_gap [OF _ _ _ _ this [symmetric], of 2 2] show ?thesis
    by (simp add: page_filter_def some_operation_def numeral_2_eq_2 numeral_3_eq_3)
qed

lemma copy_page_panics:
  assumes "0 \<le> i" and "i \<le> int (length xs)" and "int (length xs) < bound" and "int (length xs) < offset + ps"
  shows "copy_page xs ps offset bound i = Panicked ''index out of range''"
  using assms
proof (induction xs ps offset bound i rule: copy_page.induct)
  case (1 xs ps offset bound i)
  show ?case
  proof (cases "i = int (length xs)")
    case True
    with 1 show ?thesis by (subst copy_page.simps) auto
  next
    case False
    with 1 show ?thesis by (subst copy_page.simps) auto
  qed
qed

text \<open>
  \<open>ListOperations\<close> panics on every page after the first that is not full: its loop runs
  to the number of operations plus the offset, past the end of the slice.  Pages whose start lies
  beyond the end panic as well.
\<close>

theorem second_page_panics:
  assumes "2 \<le> filter_Page flt" and "1 \<le> filter_PageSize flt"
    and "filterAll visit flt s = Inr ops"
    and "int (length ops) < ConvertPageAndPageSizeToOffset (filter_PageSize flt) (filter_Page flt) + filter_PageSize flt"
    and "ops \<noteq> []"
  shows "ListOperations visit flt s = Panicked ''index out of range''"
proof -
  define off where "off = ConvertPageAndPageSizeToOffset (filter_PageSize flt) (filter_Page flt)"
  have "2 * 1 \<le> filter_Page flt * filter_PageSize flt" using assms(1,2) by (intro mult_mono) auto
  then have off: "1 \<le> off" using assms(1) by (simp add: off_def ConvertPageAndPageSizeToOffset_def)
  have len: "length (oldest_first ops) = length ops" by (simp add: oldest_first_def)
  have "copy_page (oldest_first ops) (filter_PageSize flt) off (int (length ops) + off) off = Panicked ''index out of range''"
  proof (cases "off \<le> int (length ops)")
    case True
    then show ?thesis using off assms(4) len by (intro copy_page_panics) (auto simp: off_def)
  next
    case False
    then show ?thesis using off assms(2,5) len by (subst copy_page.simps) auto
  qed
  then show ?thesis
    by (simp add: ListOperations_def off_def [symmetric] assms(3) len page_result_def)
qed

theorem second_page_panics_witness:
  "ListOperations (\<lambda>m. m) (page_filter 2 2) three_operations = Panicked ''index out of range''"
proof -
  have "filterAll (\<lambda>m. m) (page_filter 2 2) three_operations = Inr (map snd (operations three_operations))"
    by (simp add: filterAll_def page_filter_def three_operations_def matchFilter_def)
  from second_page_panics [OF _ _ this] show ?thesis
    by (simp add: page_filter_def three_operations_def ConvertPageAndPageSizeToOffset_def)
qed

end
