(* ===== verification/Operation_Manager.thy ===== *)
theory Operation_Manager
  imports Memory_Storage
begin

text \<open>
  \<^verbatim>\<open>src/internal/process/operation_manager.go\<close>: how the steps of an operation record success, failure
  and retries.  The storage is a parameter; what is proved rests on the contract
  \<open>versioned_store\<close> and is then stated for the memory driver.  A method returns the operation, the
  time after which it is to be repeated (0: not) and an error.  The current time is an argument;
  log lines and recorded events are left out.
\<close>

type_synonym step_return = "operation \<times> int \<times> go_error option"

definition one_second :: int where "one_second = 1000000000"

definition minute :: int where "minute = 60 * one_second"

text \<open>\<open>UpdateOperation\<close>: on a conflict the change is applied once more, to the stored operation.\<close>

definition om_UpdateOperation ::
  "'s op_storage \<Rightarrow> operation \<Rightarrow> (operation \<Rightarrow> operation) \<Rightarrow> 's \<Rightarrow> step_return \<times> 's" where
  "om_UpdateOperation S operation0 update s =
     (let operation = update operation0 in
      case upd_op S operation s of
        (Inr op, s1) \<Rightarrow> ((op, 0, None), s1)
      | (Inl err, s1) \<Rightarrow>
          if IsConflict err
          then (case get_op S (op_ID operation) s1 of
                  (Inl err, s2) \<Rightarrow> ((operation, minute, Some err), s2)
                | (Inr op, s2) \<Rightarrow>
                    (case upd_op S (update op) s2 of
                       (Inl err, s3) \<Rightarrow> ((operation, minute, Some err), s3)
                     | (Inr op', s3) \<Rightarrow> ((op', 0, None), s3)))
          else ((operation, minute, Some err), s1))"

definition om_update :: "'s op_storage \<Rightarrow> operation \<Rightarrow> string \<Rightarrow> string \<Rightarrow> 's \<Rightarrow> step_return \<times> 's" where
  "om_update S operation state description s =
     om_UpdateOperation S operation (\<lambda>op. op\<lparr>State := state, Description := description\<rparr>) s"

definition OperationSucceeded :: "'s op_storage \<Rightarrow> operation \<Rightarrow> string \<Rightarrow> 's \<Rightarrow> step_return \<times> 's" where
  "OperationSucceeded S operation description s = om_update S operation Succeeded description s"

definition OperationCanceled :: "'s op_storage \<Rightarrow> operation \<Rightarrow> string \<Rightarrow> 's \<Rightarrow> step_return \<times> 's" where
  "OperationCanceled S operation description s = om_update S operation Canceled description s"

definition failure :: "string \<Rightarrow> go_error option \<Rightarrow> go_error" where
  "failure description err =
     (case err of
        None \<Rightarrow> TextError description
      | Some e \<Rightarrow> WrappedError (description @ '': '' @ error_message e) e)"

definition OperationFailed ::
  "'s op_storage \<Rightarrow> operation \<Rightarrow> string \<Rightarrow> go_error option \<Rightarrow> 's \<Rightarrow> step_return \<times> 's" where
  "OperationFailed S operation description err s =
     (let ((op, t, e), s1) = om_update S operation Failed description s in
      if t \<noteq> 0 then ((op, t, None), s1) else ((op, 0, Some (failure description err)), s1))"

definition RetryOperation ::
  "'s op_storage \<Rightarrow> operation \<Rightarrow> string \<Rightarrow> go_error option \<Rightarrow> int \<Rightarrow> int \<Rightarrow> int \<Rightarrow> 's \<Rightarrow> step_return \<times> 's" where
  "RetryOperation S operation errorMessage err retryInterval maxTime now s =
     (if now - UpdatedAt operation < maxTime then ((operation, retryInterval, None), s)
      else
        (let ((op, retry, err'), s1) = OperationFailed S operation errorMessage err s;
             err'' = (case err' of
                        None \<Rightarrow> TextError ''Too many retries''
                      | Some e \<Rightarrow> TextError (''Failed to set status for operation after too many retries: '' @ error_message e))
         in ((op, retry, Some err''), s1)))"

definition RetryOperationOnce ::
  "'s op_storage \<Rightarrow> operation \<Rightarrow> string \<Rightarrow> go_error option \<Rightarrow> int \<Rightarrow> int \<Rightarrow> 's \<Rightarrow> step_return \<times> 's" where
  "RetryOperationOnce S operation errorMessage err wait now s =
     RetryOperation S operation errorMessage err wait (wait + 1) now s"

definition RetryOperationWithoutFail ::
  "'s op_storage \<Rightarrow> operation \<Rightarrow> string \<Rightarrow> string \<Rightarrow> int \<Rightarrow> int \<Rightarrow> int \<Rightarrow> 's \<Rightarrow> step_return \<times> 's" where
  "RetryOperationWithoutFail S operation stepName description retryInterval maxTime now s =
     (if now - UpdatedAt operation < maxTime then ((operation, retryInterval, None), s)
      else
        (let ((op, repeat, err), s1) =
               om_UpdateOperation S operation
                 (\<lambda>op. op\<lparr>State := InProgress, Description := description,
                          ExcutedButNotCompleted := ExcutedButNotCompleted op @ [stepName]\<rparr>) s
         in if repeat \<noteq> 0 then ((op, repeat, err), s1) else ((op, 0, None), s1)))"

definition MarkStepAsExcutedButNotCompleted ::
  "'s op_storage \<Rightarrow> operation \<Rightarrow> string \<Rightarrow> 's \<Rightarrow> step_return \<times> 's" where
  "MarkStepAsExcutedButNotCompleted S operation stepName s =
     (let ((op, repeat, err), s1) =
            om_UpdateOperation S operation (\<lambda>op. op\<lparr>ExcutedButNotCompleted := ExcutedButNotCompleted op @ [stepName]\<rparr>) s
      in if repeat \<noteq> 0 then ((op, repeat, err), s1) else ((op, 0, None), s1))"

section \<open>What an update achieves\<close>

text \<open>A change that leaves the id and the version alone.\<close>

definition benign :: "(operation \<Rightarrow> operation) \<Rightarrow> bool" where
  "benign f = (\<forall>op. op_ID (f op) = op_ID op \<and> Version (f op) = Version op)"

text \<open>The operation that a change is applied to: the given one while it is current, else the stored one.\<close>

definition base :: "operation \<Rightarrow> operation \<Rightarrow> operation" where
  "base op cur = (if Version cur = Version op then op else cur)"

definition bumped :: "operation \<Rightarrow> operation" where
  "bumped op = op\<lparr>Version := Version op + 1\<rparr>"

context versioned_store
begin

lemma manager_update:
  assumes "good s" "stored s (op_ID op) = Some cur" "benign f"
  shows "\<exists>s'. om_UpdateOperation S op f s = ((bumped (f (base op cur)), 0, None), s') \<and>
              stored s' = (stored s)(op_ID op \<mapsto> bumped (f (base op cur))) \<and> good s'"
proof -
  have f: "op_ID (f op) = op_ID op" "Version (f op) = Version op" "op_ID (f cur) = op_ID cur" "Version (f cur) = Version cur"
    using assms(3) by (auto simp: benign_def)
  have i: "op_ID cur = op_ID op" by (rule stored_ID [OF assms(1,2)])
  show ?thesis
  proof (cases "Version cur = Version op")
    case True
    then obtain s' where "upd_op S (f op) s = (Inr (bumped (f op)), s')" "stored s' = (stored s)(op_ID op \<mapsto> bumped (f op))"
      using update_current [of s "f op" cur] assms(2) f by (auto simp: bumped_def)
    with True upd_good [OF assms(1), of "f op"] show ?thesis
      by (simp add: om_UpdateOperation_def base_def)
  next
    case False
    then obtain e where e: "upd_op S (f op) s = (Inl e, s)" "IsConflict e"
      using upd_stale [of s "f op" cur] assms(2) f by auto
    obtain s' where "upd_op S (f cur) s = (Inr (bumped (f cur)), s')" "stored s' = (stored s)(op_ID op \<mapsto> bumped (f cur))"
      using update_current [of s "f cur" cur] assms(2) f i by (auto simp: bumped_def)
    with False e get_stored [OF assms(2)] upd_good [OF assms(1), of "f cur"] f show ?thesis
      by (simp add: om_UpdateOperation_def base_def)
  qed
qed

end

lemma benign_simps [simp]:
  "benign (\<lambda>op. op\<lparr>State := st, Description := d\<rparr>)"
  "benign (\<lambda>op. op\<lparr>State := st, Description := d, ExcutedButNotCompleted := ExcutedButNotCompleted op @ [n]\<rparr>)"
  "benign (\<lambda>op. op\<lparr>ExcutedButNotCompleted := ExcutedButNotCompleted op @ [n]\<rparr>)"
  by (simp_all add: benign_def)

text \<open>
  An update through the manager of an operation that is stored always
  succeeds, also when somebody else has updated it meanwhile: then the change is applied to what is
  stored, so the other's update is kept.  The result is what is stored afterwards, one version newer.
\<close>

theorem update_applies_to_the_newest:
  assumes "store_ok s" and "map_of (operations s) (op_ID op) = Some cur" and "benign f"
  shows "\<exists>s'. om_UpdateOperation memory_storage op f s = ((bumped (f (base op cur)), 0, None), s') \<and>
              map_of (operations s') = (map_of (operations s))(op_ID op \<mapsto> bumped (f (base op cur))) \<and> store_ok s'"
  using memory.manager_update [OF assms(1) _ assms(3), of op cur] assms(2)
  by (simp add: stored_operation_eq)

theorem update_applies_to_the_newest_witness:
  "\<exists>s'. om_UpdateOperation memory_storage (some_operation\<lparr>Version := 7\<rparr>) (\<lambda>op. op\<lparr>State := Failed, Description := ''d''\<rparr>) some_store
        = ((bumped (some_operation\<lparr>State := Failed, Description := ''d''\<rparr>), 0, None), s')"
proof -
  have "store_ok some_store" by (simp add: store_ok_def some_store_def map_ok_def some_operation_def)
  moreover have "map_of (operations some_store) (op_ID (some_operation\<lparr>Version := 7\<rparr>)) = Some some_operation"
    by (simp add: some_store_def) (simp add: some_operation_def)
  moreover have "base (some_operation\<lparr>Version := 7\<rparr>) some_operation = some_operation"
    by (simp add: base_def some_operation_def)
  ultimately show ?thesis
    using update_applies_to_the_newest [of some_store "some_operation\<lparr>Version := 7\<rparr>" some_operation
        "\<lambda>op. op\<lparr>State := Failed, Description := ''d''\<rparr>"] by auto
qed

text \<open>
  When the time for retries is over, \<open>RetryOperation\<close> marks the operation
  as failed, and its error tells the opposite of what happened: when the failed state was stored it says that setting the state
  failed, and when the operation could not be stored it says only that there were too many retries.
\<close>

theorem retry_reports_the_opposite:
  assumes "store_ok s" and "maxTime \<le> now - UpdatedAt op"
  shows "case map_of (operations s) (op_ID op) of
           Some cur \<Rightarrow>
             (\<exists>m op' s'. RetryOperation memory_storage op msg err interval maxTime now s =
                ((op', 0, Some (TextError (''Failed to set status for operation after too many retries: '' @ m))), s') \<and>
              map_of (operations s') (op_ID op) = Some op' \<and> State op' = Failed \<and> Description op' = msg)
         | None \<Rightarrow>
             (\<exists>op'. RetryOperation memory_storage op msg err interval maxTime now s =
                ((op', minute, Some (TextError ''Too many retries'')), s))"
proof (cases "map_of (operations s) (op_ID op)")
  case None
  then have "UpdateOperation (op\<lparr>State := st, Description := d\<rparr>) s = (Inl (db_not_found ''instance operation with id '' (op_ID op)), s)" for st d
    by (simp add: UpdateOperation_def update_operations_def update_versioned_def)
  then show ?thesis
    using None assms(2)
    by (simp add: RetryOperation_def OperationFailed_def om_update_def om_UpdateOperation_def memory_storage_def
        db_not_found_def IsConflict_def CodeNotFound_def CodeConflict_def minute_def one_second_def)
next
  case (Some cur)
  let ?new = "bumped (base op cur\<lparr>State := Failed, Description := msg\<rparr>)"
  obtain s' where "om_update memory_storage op Failed msg s = ((?new, 0, None), s')"
      "stored_operation s' = (stored_operation s)(op_ID op \<mapsto> ?new)"
    using memory.manager_update [OF assms(1), of op cur "\<lambda>op. op\<lparr>State := Failed, Description := msg\<rparr>"] Some
    by (auto simp: om_update_def stored_operation_def)
  then show ?thesis
    using Some assms(2) by (auto simp: RetryOperation_def OperationFailed_def stored_operation_def fun_eq_iff bumped_def)
qed

theorem retry_reports_the_opposite_witness:
  "\<exists>m op' s'. RetryOperation memory_storage some_operation ''timeout'' None 10 100 200 some_store =
     ((op', 0, Some (TextError (''Failed to set status for operation after too many retries: '' @ m))), s') \<and> State op' = Failed"
proof -
  have "store_ok some_store" "map_of (operations some_store) (op_ID some_operation) = Some some_operation"
      "100 \<le> 200 - UpdatedAt some_operation"
    by (simp_all add: store_ok_def some_store_def map_ok_def) (simp_all add: some_operation_def)
  with retry_reports_the_opposite [of some_store 100 200 some_operation "''timeout''" None 10] show ?thesis by auto
qed

end
