(* ===== verification/Staged_Manager.thy ===== *)
theory Staged_Manager
  imports Operation_Manager
begin

text \<open>
  \<^verbatim>\<open>src/internal/process/staged_manager.go\<close>: an operation is processed in stages, each a list of steps.  A
  step may ask to be repeated later; a finished stage is recorded in the stored operation and is
  never entered again.

  Steps, their conditions and the storage are parameters.  A step runs on the whole state, so it may
  use the storage, take time, and panic.  The clock is part of the state; sleeping moves it.
  Published messages are kept in order.  Log lines are left out.

  The repetition of a step within \<open>runStep\<close> is bounded by time, not by a count: its fuel is one more
  than the nanoseconds allowed, and it is proved never to be used up when every repetition sleeps.
\<close>

section \<open>Data\<close>

datatype event =
    OperationStepProcessed string int int "go_error option" operation operation
  | OperationSucceededEvent operation
  | UpgradeClusterStepProcessed string int int "go_error option" operation operation
  | UpgradeKymaStepProcessed string int int "go_error option" operation operation

record 's process_state =
  store :: 's
  clock :: int
  published :: "event list"

datatype step_result =
    StepReturns operation int "go_error option"
  | StepPanics string

record 's step =
  step_name :: string
  step_run :: "operation \<Rightarrow> 's process_state \<Rightarrow> step_result \<times> 's process_state"
  condition :: "(operation \<Rightarrow> bool) option"

record 's stage =
  stage_name :: string
  steps :: "'s step list"

record 's staged_manager =
  operationStorage :: "'s op_storage"
  stages :: "'s stage list"
  operationTimeout :: int
  speedFactor :: int
  MaxStepProcessingTime :: int

definition NewStagedManager :: "'s op_storage \<Rightarrow> int \<Rightarrow> int \<Rightarrow> 's staged_manager" where
  "NewStagedManager S timeout maxStep =
     \<lparr>operationStorage = S, stages = [], operationTimeout = timeout, speedFactor = 1, MaxStepProcessingTime = maxStep\<rparr>"

definition DefineStages :: "string list \<Rightarrow> 's staged_manager \<Rightarrow> 's staged_manager" where
  "DefineStages names m = m\<lparr>stages := map (\<lambda>n. \<lparr>stage_name = n, steps = []\<rparr>) names\<rparr>"

text \<open>The first stage of that name gets the step.\<close>

fun add_to_stage :: "string \<Rightarrow> 's step \<Rightarrow> 's stage list \<Rightarrow> 's stage list option" where
  "add_to_stage stageName st [] = None"
| "add_to_stage stageName st (sg # sgs) =
     (if stage_name sg = stageName then Some (sg\<lparr>steps := steps sg @ [st]\<rparr> # sgs)
      else map_option (Cons sg) (add_to_stage stageName st sgs))"

definition AddStep :: "string \<Rightarrow> 's step \<Rightarrow> 's staged_manager \<Rightarrow> go_error + 's staged_manager" where
  "AddStep stageName st m =
     (case add_to_stage stageName st (stages m) of
        Some sgs \<Rightarrow> Inr (m\<lparr>stages := sgs\<rparr>)
      | None \<Rightarrow> Inl (TextError (''stage '' @ stageName @ '' not defined'')))"

definition GetAllStages :: "'s staged_manager \<Rightarrow> string list" where
  "GetAllStages m = map stage_name (stages m)"

section \<open>One step\<close>

definition Publish :: "event \<Rightarrow> 's process_state \<Rightarrow> 's process_state" where
  "Publish e w = w\<lparr>published := published w @ [e]\<rparr>"

text \<open>Integer division of Go truncates towards zero.\<close>

definition go_quot :: "int \<Rightarrow> int \<Rightarrow> int" where
  "go_quot a b = (let q = \<bar>a\<bar> div \<bar>b\<bar> in if (a < 0) = (b < 0) then q else - q)"

definition sleep :: "int \<Rightarrow> 's process_state \<Rightarrow> 's process_state" where
  "sleep d w = w\<lparr>clock := clock w + (if 0 < d then d else 0)\<rparr>"

datatype step_outcome = Stepped operation int "go_error option" | OutOfFuel

text \<open>The deferred function of \<open>runStep\<close>: a panic fails the operation as it was when the step was started.\<close>

definition recovered :: "'s staged_manager \<Rightarrow> operation \<Rightarrow> string \<Rightarrow> int \<Rightarrow> 's process_state \<Rightarrow> step_outcome \<times> 's process_state" where
  "recovered m operation pErr backoff w =
     (let err = TextError pErr;
          ((op, t, e), s) = OperationFailed (operationStorage m) operation ''recovered from panic'' (Some err) (store w)
      in (Stepped op backoff (Some err), w\<lparr>store := s\<rparr>))"

text \<open>An error of the step is saved as the last error; what is kept is the error of saving.\<close>

definition save_last_error ::
  "'s staged_manager \<Rightarrow> operation \<Rightarrow> go_error option \<Rightarrow> 's process_state \<Rightarrow> operation \<times> go_error option \<times> 's process_state" where
  "save_last_error m op err w =
     (case err of
        None \<Rightarrow> (op, None, w)
      | Some e \<Rightarrow>
          (let op1 = op\<lparr>LastError := ReasonForError e\<rparr>;
               (r, s) = upd_op (operationStorage m) op1 (store w)
           in (op1, case r of Inl e1 \<Rightarrow> Some e1 | Inr _ \<Rightarrow> None, w\<lparr>store := s\<rparr>)))"

fun step_loop ::
  "'s staged_manager \<Rightarrow> 's step \<Rightarrow> operation \<Rightarrow> int \<Rightarrow> nat \<Rightarrow> operation \<Rightarrow> int \<Rightarrow> 's process_state \<Rightarrow>
     step_outcome \<times> 's process_state" where
  "step_loop m st operation begin_time 0 processed backoff w = (OutOfFuel, w)"
| "step_loop m st operation begin_time (Suc fuel) processed backoff w =
     (case step_run st processed w of
        (StepPanics v, w1) \<Rightarrow> recovered m operation v backoff w1
      | (StepReturns op1 backoff1 err1, w1) \<Rightarrow>
          (let (op2, err2, w2) = save_last_error m op1 err1 w1;
               w3 = Publish (OperationStepProcessed (step_name st) (clock w2 - clock w) backoff1 err2 op2 operation) w2
           in if backoff1 = 0 \<or> err2 \<noteq> None \<or> clock w3 - begin_time > MaxStepProcessingTime m
              then (Stepped op2 backoff1 err2, w3)
              else if speedFactor m = 0
              then recovered m operation ''runtime error: integer divide by zero'' backoff1 w3
              else step_loop m st operation begin_time fuel op2 backoff1 (sleep (go_quot backoff1 (speedFactor m)) w3)))"

definition runStep :: "'s staged_manager \<Rightarrow> 's step \<Rightarrow> operation \<Rightarrow> 's process_state \<Rightarrow> step_outcome \<times> 's process_state" where
  "runStep m st operation w =
     step_loop m st operation (clock w) (nat (MaxStepProcessingTime m) + 2) operation 0 w"

section \<open>All stages\<close>

text \<open>What is left to do after some steps or stages: to go on, or to return, or nothing (out of fuel).\<close>

datatype progress = Continue operation | Stop int "go_error option" | Endless

fun run_steps :: "'s staged_manager \<Rightarrow> 's step list \<Rightarrow> operation \<Rightarrow> 's process_state \<Rightarrow> progress \<times> 's process_state" where
  "run_steps m [] op w = (Continue op, w)"
| "run_steps m (st # sts) op w =
     (if (case condition st of Some c \<Rightarrow> \<not> c op | None \<Rightarrow> False) then run_steps m sts op w
      else
        (case runStep m st op w of
           (OutOfFuel, w1) \<Rightarrow> (Endless, w1)
         | (Stepped op1 when err, w1) \<Rightarrow>
             if err \<noteq> None then (Stop 0 err, w1)
             else if State op1 = Failed \<or> State op1 = Succeeded then (Stop 0 None, w1)
             else if when > 0 then (Stop when None, w1)
             else run_steps m sts op1 w1))"

definition saveFinishedStage ::
  "'s staged_manager \<Rightarrow> operation \<Rightarrow> 's stage \<Rightarrow> 's process_state \<Rightarrow> (go_error + operation) \<times> 's process_state" where
  "saveFinishedStage m operation sg w =
     (let (r, s) = upd_op (operationStorage m) (FinishStage (stage_name sg) operation) (store w) in (r, w\<lparr>store := s\<rparr>))"

fun run_stages :: "'s staged_manager \<Rightarrow> 's stage list \<Rightarrow> operation \<Rightarrow> 's process_state \<Rightarrow> progress \<times> 's process_state" where
  "run_stages m [] op w = (Continue op, w)"
| "run_stages m (sg # sgs) op w =
     (if IsStageFinished (stage_name sg) op then run_stages m sgs op w
      else
        (case run_steps m (steps sg) op w of
           (Continue op1, w1) \<Rightarrow>
             (case saveFinishedStage m op1 sg w1 of
                (Inl e, w2) \<Rightarrow> (Stop one_second None, w2)
              | (Inr op2, w2) \<Rightarrow> run_stages m sgs op2 w2)
         | (Stop t e, w1) \<Rightarrow> (Stop t e, w1)
         | (Endless, w1) \<Rightarrow> (Endless, w1)))"

definition as_error :: "last_error \<Rightarrow> go_error" where
  "as_error e = ReportedError (message e) (reason e) (component e)"

definition time_limit :: last_error where
  "time_limit = TimeoutError ''operation has reached the time limit''"

text \<open>The message published when an operation has timed out, with the operation as it is when \<open>Execute\<close> returns.\<close>

definition callPubSubOutsideSteps :: "operation \<Rightarrow> go_error \<Rightarrow> 's process_state \<Rightarrow> 's process_state" where
  "callPubSubOutsideSteps op err w =
     Publish (OperationStepProcessed [] (clock w - CreatedAt op) 0 (Some err) op op) w"

definition time_out :: "'s staged_manager \<Rightarrow> operation \<Rightarrow> 's process_state \<Rightarrow> (int \<times> go_error option) \<times> 's process_state" where
  "time_out m operation w =
     (let op1 = operation\<lparr>LastError := time_limit, State := Failed\<rparr>;
          (r, s) = upd_op (operationStorage m) op1 (store w);
          w1 = w\<lparr>store := s\<rparr>
      in case r of
           Inl e \<Rightarrow>
             (let timeoutErr = time_limit\<lparr>message := message time_limit @ '' and '' @ error_message e\<rparr>
              in ((one_second, Some (as_error timeoutErr)),
                  callPubSubOutsideSteps (op1\<lparr>LastError := timeoutErr\<rparr>) (as_error time_limit) w1))
         | Inr _ \<Rightarrow> ((0, Some (as_error time_limit)), callPubSubOutsideSteps op1 (as_error time_limit) w1))"

definition finish_operation :: "'s staged_manager \<Rightarrow> operation \<Rightarrow> 's process_state \<Rightarrow> (int \<times> go_error option) \<times> 's process_state" where
  "finish_operation m processed w =
     (let op1 = processed\<lparr>State := Succeeded, Description := ''Processing finished''\<rparr>;
          w1 = Publish (OperationSucceededEvent op1) w;
          (r, s) = upd_op (operationStorage m) op1 (store w1)
      in (case r of Inl e \<Rightarrow> (one_second, Some e) | Inr _ \<Rightarrow> (0, None), w1\<lparr>store := s\<rparr>))"

text \<open>\<open>None\<close>: a step is repeated for ever.\<close>

definition Execute :: "'s staged_manager \<Rightarrow> string \<Rightarrow> 's process_state \<Rightarrow> (int \<times> go_error option) option \<times> 's process_state" where
  "Execute m operationID w =
     (let (r, s) = get_op (operationStorage m) operationID (store w);
          w0 = w\<lparr>store := s\<rparr>
      in case r of
           Inl e \<Rightarrow> (Some (3 * one_second, None), w0)
         | Inr operation \<Rightarrow>
             if clock w0 - CreatedAt operation > operationTimeout m
             then (let (out, w1) = time_out m operation w0 in (Some out, w1))
             else
               (case run_stages m (stages m) operation w0 of
                  (Stop t e, w1) \<Rightarrow> (Some (t, e), w1)
                | (Endless, w1) \<Rightarrow> (None, w1)
                | (Continue processed, w1) \<Rightarrow>
                    (let (out, w2) = finish_operation m processed w1 in (Some out, w2))))"

section \<open>Processing ends\<close>

lemma save_last_error_clock [simp]: "save_last_error m op err w = (op', err', w') \<Longrightarrow> clock w' = clock w"
  by (auto simp: save_last_error_def Let_def split: option.splits prod.splits)

lemma recovered_stepped: "fst (recovered m operation v b w) \<noteq> OutOfFuel"
  by (simp add: recovered_def Let_def split: prod.split)

lemma go_quot_pos: "0 < f \<Longrightarrow> f \<le> b \<Longrightarrow> 1 \<le> go_quot b f"
  by (simp add: go_quot_def Let_def int_one_le_iff_zero_less pos_imp_zdiv_pos_iff)

text \<open>A step that does not turn back the clock and, when it asks to be repeated, asks for a time that is not rounded to nothing.\<close>

definition orderly :: "int \<Rightarrow> 's step \<Rightarrow> bool" where
  "orderly factor st =
     (\<forall>op w. clock w \<le> clock (snd (step_run st op w)) \<and>
        (case fst (step_run st op w) of StepReturns op' b e \<Rightarrow> b = 0 \<or> factor \<le> b | StepPanics v \<Rightarrow> True))"

lemma step_loop_ends:
  assumes "0 < speedFactor m" and "orderly (speedFactor m) st"
  shows "begin_time \<le> clock w \<Longrightarrow> 0 < fuel \<Longrightarrow>
         MaxStepProcessingTime m + 2 \<le> int fuel + (clock w - begin_time) \<Longrightarrow>
         fst (step_loop m st operation begin_time fuel processed backoff w) \<noteq> OutOfFuel"
proof (induction fuel arbitrary: processed backoff w)
  case 0
  from 0(2) show ?case by (rule less_irrefl [THEN notE])
next
  case (Suc fuel)
  obtain r w1 where run: "step_run st processed w = (r, w1)" by fastforce
  have o: "clock w \<le> clock w1 \<and> (case r of StepReturns op' b e \<Rightarrow> b = 0 \<or> speedFactor m \<le> b | StepPanics v \<Rightarrow> True)"
    using assms(2) [unfolded orderly_def, rule_format, of w processed] run by simp
  show ?case
  proof (cases r)
    case (StepPanics v)
    with run show ?thesis by (simp add: recovered_stepped)
  next
    case (StepReturns op1 b err)
    obtain op2 err2 w2 where save: "save_last_error m op1 err w1 = (op2, err2, w2)" by (metis prod_cases3)
    let ?w3 = "Publish (OperationStepProcessed (step_name st) (clock w2 - clock w) b err2 op2 operation) w2"
    have clk: "clock ?w3 = clock w1" using save by (simp add: Publish_def)
    show ?thesis
    proof (cases "b = 0 \<or> err2 \<noteq> None \<or> clock ?w3 - begin_time > MaxStepProcessingTime m")
      case True
      with run StepReturns save show ?thesis by (auto simp: Let_def)
    next
      case False
      have "speedFactor m \<le> b"
        using o StepReturns False by simp
      then have q: "1 \<le> go_quot b (speedFactor m)" using assms(1) by (intro go_quot_pos)
      let ?w4 = "sleep (go_quot b (speedFactor m)) ?w3"
      have "fst (step_loop m st operation begin_time fuel op2 b ?w4) \<noteq> OutOfFuel"
        using Suc.prems False o clk q by (intro Suc.IH) (auto simp: sleep_def)
      then show ?thesis using run StepReturns save False assms(1) by (auto simp: Let_def)
    qed
  qed
qed

lemma runStep_ends: "0 < speedFactor m \<Longrightarrow> orderly (speedFactor m) st \<Longrightarrow> fst (runStep m st op w) \<noteq> OutOfFuel"
  unfolding runStep_def by (rule step_loop_ends) auto

lemma run_steps_ends:
  "0 < speedFactor m \<Longrightarrow> (\<And>st. st \<in> set sts \<Longrightarrow> orderly (speedFactor m) st) \<Longrightarrow> fst (run_steps m sts op w) \<noteq> Endless"
proof (induction sts arbitrary: op w)
  case (Cons st sts)
  have "fst (runStep m st op w) \<noteq> OutOfFuel" using Cons.prems by (intro runStep_ends) auto
  moreover have "fst (run_steps m sts op' w') \<noteq> Endless" for op' w' using Cons by simp
  ultimately show ?case by (auto split: prod.split step_outcome.split)
qed simp

lemma run_stages_ends:
  "0 < speedFactor m \<Longrightarrow> (\<And>sg st. sg \<in> set sgs \<Longrightarrow> st \<in> set (steps sg) \<Longrightarrow> orderly (speedFactor m) st) \<Longrightarrow>
   fst (run_stages m sgs op w) \<noteq> Endless"
proof (induction sgs arbitrary: op w)
  case (Cons sg sgs)
  have "fst (run_steps m (steps sg) op w) \<noteq> Endless" using Cons.prems by (intro run_steps_ends) auto
  moreover have "fst (run_stages m sgs op' w') \<noteq> Endless" for op' w'
    by (rule Cons.IH) (use Cons.prems in auto)
  ultimately show ?case by (auto split: prod.split progress.split sum.split)
qed simp

lemma Execute_ends:
  assumes "0 < speedFactor m"
    and "\<And>sg st. sg \<in> set (stages m) \<Longrightarrow> st \<in> set (steps sg) \<Longrightarrow> orderly (speedFactor m) st"
  shows "fst (Execute m operationID w) \<noteq> None"
proof -
  have "fst (run_stages m (stages m) op w') \<noteq> Endless" for op w'
    by (rule run_stages_ends) (use assms in auto)
  then have "run_stages m (stages m) op w' \<noteq> (Endless, w'')" for op w' w'' by (metis fst_conv)
  then show ?thesis by (auto simp: Execute_def Let_def split: prod.split sum.split progress.split)
qed

text \<open>
  (C9) \<open>Execute\<close> returns, whatever the storage does: a step that keeps asking
  to be repeated gives the worker back once the time for one step is over.
\<close>

theorem execute_returns:
  assumes "0 < speedFactor m"
    and "\<And>sg st. sg \<in> set (stages m) \<Longrightarrow> st \<in> set (steps sg) \<Longrightarrow> orderly (speedFactor m) st"
  shows "fst (Execute m operationID w) \<noteq> None"
  by (rule Execute_ends) (use assms in auto)

text \<open>A manager with one stage of one step.\<close>

definition one_step :: "(operation \<Rightarrow> memory_operations process_state \<Rightarrow> step_result \<times> memory_operations process_state) \<Rightarrow>
    memory_operations staged_manager" where
  "one_step f = (NewStagedManager memory_storage 1000 60)
     \<lparr>stages := [\<lparr>stage_name = ''start'', steps = [\<lparr>step_name = ''step'', step_run = f, condition = None\<rparr>]\<rparr>]\<rparr>"

definition some_state :: "memory_operations process_state" where
  "some_state = \<lparr>store = some_store, clock = 5, published = []\<rparr>"

theorem execute_returns_witness:
  "\<exists>out. fst (Execute (one_step (\<lambda>op w. (StepReturns op 10 None, w))) ''op'' some_state) = Some out"
proof -
  have "fst (Execute (one_step (\<lambda>op w. (StepReturns op 10 None, w))) ''op'' some_state) \<noteq> None"
    by (rule execute_returns) (auto simp: one_step_def NewStagedManager_def orderly_def)
  then show ?thesis by simp
qed

section \<open>Stages are finished in order\<close>

text \<open>
  The specification: the stages that are done, and the only way to go on, which is to finish the
  first stage that is not done.
\<close>

definition next_stage :: "string list \<Rightarrow> string list \<Rightarrow> string option" where
  "next_stage names done = find (\<lambda>n. n \<notin> set done) names"

inductive stage_progress :: "string list \<Rightarrow> string list \<Rightarrow> string list \<Rightarrow> bool" for names where
  stay: "stage_progress names fin fin"
| finish: "stage_progress names fin fin' \<Longrightarrow> next_stage names fin' = Some n \<Longrightarrow> stage_progress names fin (fin' @ [n])"

inductive_cases stage_progressE: "stage_progress names fin fin'"

lemma stage_progress_trans:
  "stage_progress names b c \<Longrightarrow> stage_progress names a b \<Longrightarrow> stage_progress names a c"
  by (induction rule: stage_progress.induct) (auto intro: stage_progress.intros)

lemma next_stage_suffix:
  "set pre \<subseteq> set fin \<Longrightarrow> n \<notin> set fin \<Longrightarrow> next_stage (pre @ n # post) fin = Some n"
  by (induction pre) (auto simp: next_stage_def)

lemma next_stage_None: "next_stage names fin = None \<longleftrightarrow> set names \<subseteq> set fin"
  by (auto simp: next_stage_def find_None_iff)

definition successes :: "'s process_state \<Rightarrow> nat" where
  "successes w = length (filter (\<lambda>e. case e of OperationSucceededEvent op \<Rightarrow> True | _ \<Rightarrow> False) (published w))"

text \<open>The state in which operation \<open>i\<close> is stored with the finished stages \<open>fin\<close>.\<close>

definition at_stage ::
  "('s \<Rightarrow> string \<Rightarrow> operation option) \<Rightarrow> ('s \<Rightarrow> bool) \<Rightarrow> string \<Rightarrow> string list \<Rightarrow> nat \<Rightarrow> 's process_state \<Rightarrow> bool" where
  "at_stage stored good i fin k w =
     (good (store w) \<and> successes w = k \<and> (\<exists>cur. stored (store w) i = Some cur \<and> FinishedStages cur = fin))"

text \<open>
  A step that keeps to its task: it leaves the id and the finished stages of its operation alone, in what it
  returns and in the storage, keeps the storage well-formed, and does not announce the success of
  an operation.
\<close>

definition tame :: "('s \<Rightarrow> string \<Rightarrow> operation option) \<Rightarrow> ('s \<Rightarrow> bool) \<Rightarrow> 's step \<Rightarrow> bool" where
  "tame stored good st =
     (\<forall>op w k. at_stage stored good (op_ID op) (FinishedStages op) k w \<longrightarrow>
        at_stage stored good (op_ID op) (FinishedStages op) k (snd (step_run st op w)) \<and>
        (case fst (step_run st op w) of
           StepReturns op' b e \<Rightarrow> op_ID op' = op_ID op \<and> FinishedStages op' = FinishedStages op
         | StepPanics v \<Rightarrow> True))"

lemma tameD:
  assumes "tame stored good st" "at_stage stored good (op_ID op) (FinishedStages op) k w" "step_run st op w = (r, w')"
  shows "at_stage stored good (op_ID op) (FinishedStages op) k w'"
    and "r = StepReturns op' b e \<Longrightarrow> op_ID op' = op_ID op \<and> FinishedStages op' = FinishedStages op"
  using assms(1) [unfolded tame_def, rule_format, OF assms(2)] assms(3) by auto

lemma at_stage_Publish_step [simp]:
  "at_stage stored good i fin k (Publish (OperationStepProcessed a b c d e f) w) = at_stage stored good i fin k w"
  by (simp add: at_stage_def Publish_def successes_def)

lemma at_stage_sleep [simp]: "at_stage stored good i fin k (sleep d w) = at_stage stored good i fin k w"
  by (simp add: at_stage_def sleep_def successes_def)

lemma at_stage_store [simp]:
  "at_stage stored good i fin k (w\<lparr>store := s\<rparr>) =
     (good s \<and> successes w = k \<and> (\<exists>cur. stored s i = Some cur \<and> FinishedStages cur = fin))"
  by (simp add: at_stage_def successes_def)

context versioned_store
begin

abbreviation here :: "string \<Rightarrow> string list \<Rightarrow> nat \<Rightarrow> 's process_state \<Rightarrow> bool" where
  "here \<equiv> at_stage stored good"

lemma update_at_stage:
  assumes "here i fin k w" "op_ID op = i" "FinishedStages op = fin" "upd_op S op (store w) = (r, s)"
  shows "here i fin k (w\<lparr>store := s\<rparr>)"
proof (cases r)
  case (Inl e)
  then have "s = store w" using upd_failed assms(4) by blast
  then show ?thesis using assms(1) by simp
next
  case (Inr op')
  have "good s" using upd_good [of "store w" op] assms(1,4) by (simp add: at_stage_def)
  moreover have "stored s = (stored (store w))(i \<mapsto> op\<lparr>Version := Version op + 1\<rparr>)"
    using upd_done assms(2,4) Inr by blast
  ultimately show ?thesis using assms(1,3) unfolding at_stage_store by (simp add: at_stage_def)
qed

lemma save_last_error_at_stage:
  assumes "operationStorage m = S" "here i fin k w" "op_ID op = i" "FinishedStages op = fin"
    "save_last_error m op err w = (op', err', w')"
  shows "here i fin k w' \<and> op_ID op' = i \<and> FinishedStages op' = fin"
proof (cases err)
  case (Some e)
  then show ?thesis
    using assms update_at_stage [OF assms(2), of "op\<lparr>LastError := ReasonForError e\<rparr>"]
    by (auto simp: save_last_error_def Let_def split: prod.splits)
qed (use assms in \<open>simp add: save_last_error_def\<close>)

lemma recovered_at_stage:
  assumes "operationStorage m = S" "here (op_ID op) fin k w" "FinishedStages op = fin"
  shows "\<exists>op' w'. recovered m op v b w = (Stepped op' b (Some (TextError v)), w') \<and> here (op_ID op) fin k w' \<and>
           (\<exists>cur. stored (store w') (op_ID op) = Some cur \<and> State cur = Failed)"
proof -
  let ?f = "\<lambda>op. op\<lparr>State := Failed, Description := ''recovered from panic''\<rparr>"
  obtain cur where cur: "good (store w)" "stored (store w) (op_ID op) = Some cur" "FinishedStages cur = fin"
    using assms(2) by (auto simp: at_stage_def)
  obtain s where "om_UpdateOperation S op ?f (store w) = ((bumped (?f (base op cur)), 0, None), s)"
      "stored s = (stored (store w))(op_ID op \<mapsto> bumped (?f (base op cur)))" "good s"
    using manager_update [OF cur(1,2) benign_simps(1)] by blast
  then show ?thesis
    using assms cur
    by (simp add: recovered_def OperationFailed_def om_update_def bumped_def base_def) (simp add: at_stage_def)
qed

lemma step_loop_at_stage:
  assumes m: "operationStorage m = S" and t: "tame stored good st" and f: "FinishedStages operation = fin"
  shows "here (op_ID operation) fin k w \<Longrightarrow> op_ID processed = op_ID operation \<Longrightarrow> FinishedStages processed = fin \<Longrightarrow>
    step_loop m st operation begin_time fuel processed backoff w = (out, w') \<Longrightarrow>
    here (op_ID operation) fin k w' \<and>
    (\<forall>op' b. out = Stepped op' b None \<longrightarrow> op_ID op' = op_ID operation \<and> FinishedStages op' = fin)"
proof (induction fuel arbitrary: processed backoff w)
  case (Suc fuel)
  obtain r w1 where run: "step_run st processed w = (r, w1)" by fastforce
  have w1: "here (op_ID operation) fin k w1" using tameD(1) [OF t _ run] Suc.prems(1-3) by auto
  have rec: "here (op_ID operation) fin k w' \<and> (\<forall>op' b. out \<noteq> Stepped op' b None)"
    if "recovered m operation v b w2 = (out, w')" "here (op_ID operation) fin k w2" for v b w2
    using recovered_at_stage [OF m that(2) f, of v b] that(1) by auto
  show ?case
  proof (cases r)
    case (StepPanics v)
    then show ?thesis using Suc.prems(4) run rec [OF _ w1] by auto
  next
    case (StepReturns op1 b err)
    obtain op2 err2 w2 where save: "save_last_error m op1 err w1 = (op2, err2, w2)" by (metis prod_cases3)
    have o1: "op_ID op1 = op_ID operation" "FinishedStages op1 = fin"
      using tameD(2) [OF t _ run StepReturns] Suc.prems(1-3) by auto
    note o2 = save_last_error_at_stage [OF m w1 o1 save]
    let ?w3 = "Publish (OperationStepProcessed (step_name st) (clock w2 - clock w) b err2 op2 operation) w2"
    consider (stop) "b = 0 \<or> err2 \<noteq> None \<or> clock ?w3 - begin_time > MaxStepProcessingTime m" "out = Stepped op2 b err2" "w' = ?w3"
      | (div0) "recovered m operation ''runtime error: integer divide by zero'' b ?w3 = (out, w')"
      | (again) "step_loop m st operation begin_time fuel op2 b (sleep (go_quot b (speedFactor m)) ?w3) = (out, w')"
      using Suc.prems(4) run StepReturns save by (auto simp: Let_def split: if_splits)
    then show ?thesis
    proof cases
      case stop
      with o2 show ?thesis by auto
    next
      case div0
      then show ?thesis using rec [OF div0] o2 by auto
    next
      case again
      show ?thesis by (rule Suc.IH [OF _ _ _ again]) (use o2 in simp_all)
    qed
  qed
qed simp

lemma run_steps_at_stage:
  assumes m: "operationStorage m = S"
  shows "(\<And>st. st \<in> set sts \<Longrightarrow> tame stored good st) \<Longrightarrow> here (op_ID op) (FinishedStages op) k w \<Longrightarrow>
    run_steps m sts op w = (out, w') \<Longrightarrow>
    here (op_ID op) (FinishedStages op) k w' \<and>
    (\<forall>op'. out = Continue op' \<longrightarrow> op_ID op' = op_ID op \<and> FinishedStages op' = FinishedStages op)"
proof (induction sts arbitrary: op w)
  case Nil
  then have "out = Continue op" "w' = w" by simp_all
  with Nil(2) show ?case by blast
next
  case (Cons st sts)
  obtain r w1 where run: "runStep m st op w = (r, w1)" by fastforce
  have one: "here (op_ID op) (FinishedStages op) k w1 \<and>
      (\<forall>op' b. r = Stepped op' b None \<longrightarrow> op_ID op' = op_ID op \<and> FinishedStages op' = FinishedStages op)"
    by (rule step_loop_at_stage [OF m _ refl Cons.prems(2) refl refl run [unfolded runStep_def]])
       (simp add: Cons.prems(1))
  have tail: "tame stored good x" if "x \<in> set sts" for x using Cons.prems(1) that by simp
  have skip: ?case if "run_steps m sts op w = (out, w')" by (rule Cons.IH [OF tail Cons.prems(2) that])
  have go_on: ?case if "r = Stepped op1 b None" "run_steps m sts op1 w1 = (out, w')" for op1 b
  proof -
    have eq: "op_ID op1 = op_ID op" "FinishedStages op1 = FinishedStages op" using one that(1) by simp_all
    have h: "here (op_ID op1) (FinishedStages op1) k w1" using one unfolding eq by blast
    have "here (op_ID op1) (FinishedStages op1) k w' \<and>
        (\<forall>op'. out = Continue op' \<longrightarrow> op_ID op' = op_ID op1 \<and> FinishedStages op' = FinishedStages op1)"
      by (rule Cons.IH [OF tail h that(2)])
    then show ?thesis unfolding eq .
  qed
  consider (skipped) "run_steps m sts op w = (out, w')"
    | (stopped) "w' = w1" "\<forall>op'. out \<noteq> Continue op'"
    | (next_step) op1 b where "r = Stepped op1 b None" "run_steps m sts op1 w1 = (out, w')"
    using Cons.prems(3) run by (auto split: if_splits step_outcome.splits option.splits)
  then show ?case
  proof cases
    case stopped
    with one show ?thesis by simp
  qed (use skip go_on in blast)+
qed

lemma saveFinishedStage_at_stage:
  assumes "operationStorage m = S" "here (op_ID op) fin k w" "FinishedStages op = fin"
    "stage_name sg \<noteq> []" "stage_name sg \<notin> set fin" "saveFinishedStage m op sg w = (r, w')"
  shows "case r of Inl e \<Rightarrow> here (op_ID op) fin k w'
         | Inr op' \<Rightarrow> here (op_ID op) (fin @ [stage_name sg]) k w' \<and> op_ID op' = op_ID op \<and>
             FinishedStages op' = fin @ [stage_name sg]"
proof -
  let ?op = "op\<lparr>FinishedStages := fin @ [stage_name sg]\<rparr>"
  have eq: "FinishStage (stage_name sg) op = ?op"
    using assms(3-5) by (simp add: FinishStage_def IsStageFinished_iff)
  obtain s where u: "upd_op S ?op (store w) = (r, s)" "w' = w\<lparr>store := s\<rparr>"
    using assms(1,6) eq by (auto simp: saveFinishedStage_def Let_def split: prod.splits)
  show ?thesis
  proof (cases r)
    case (Inl e)
    then have "s = store w" using upd_failed u(1) by blast
    then show ?thesis using Inl assms(2) u(2) by simp
  next
    case (Inr op')
    have "good s" using upd_good [of "store w" ?op] assms(2) u(1) by (simp add: at_stage_def)
    moreover have "op' = ?op\<lparr>Version := Version ?op + 1\<rparr> \<and> stored s = (stored (store w))(op_ID ?op \<mapsto> op')"
      using upd_done u(1) Inr by blast
    ultimately show ?thesis
      using assms(2) Inr unfolding u(2) by (simp add: at_stage_def [of _ _ _ _ _ w])
  qed
qed

lemma run_stages_progress:
  assumes m: "operationStorage m = S" and names: "[] \<notin> set names"
    and tame: "\<And>sg st. sg \<in> set (stages m) \<Longrightarrow> st \<in> set (steps sg) \<Longrightarrow> tame stored good st"
  shows "set sgs \<subseteq> set (stages m) \<Longrightarrow> names = pre @ map stage_name sgs \<Longrightarrow> set pre \<subseteq> set (FinishedStages op) \<Longrightarrow>
    here (op_ID op) (FinishedStages op) k w \<Longrightarrow> run_stages m sgs op w = (out, w') \<Longrightarrow>
    \<exists>fin. stage_progress names (FinishedStages op) fin \<and> here (op_ID op) fin k w' \<and>
      (\<forall>op'. out = Continue op' \<longrightarrow> op_ID op' = op_ID op \<and> FinishedStages op' = fin \<and> next_stage names fin = None)"
proof (induction sgs arbitrary: pre op w)
  case Nil
  then show ?case by (auto simp: next_stage_None intro: stay)
next
  case (Cons sg sgs)
  let ?n = "stage_name sg" and ?pre' = "pre @ [stage_name sg]"
  have n: "?n \<noteq> []" using names Cons.prems(2) by auto
  have rest: "set sgs \<subseteq> set (stages m)" "names = ?pre' @ map stage_name sgs" using Cons.prems(1,2) by simp_all
  show ?case
  proof (cases "?n \<in> set (FinishedStages op)")
    case True
    have "run_stages m sgs op w = (out, w')" using Cons.prems(5) True by (simp add: IsStageFinished_iff)
    from Cons.IH [OF rest _ Cons.prems(4) this] True Cons.prems(3) show ?thesis by simp
  next
    case False
    obtain r1 w1 where steps: "run_steps m (steps sg) op w = (r1, w1)" by fastforce
    have one: "here (op_ID op) (FinishedStages op) k w1 \<and>
        (\<forall>op'. r1 = Continue op' \<longrightarrow> op_ID op' = op_ID op \<and> FinishedStages op' = FinishedStages op)"
      by (rule run_steps_at_stage [OF m _ Cons.prems(4) steps]) (use tame Cons.prems(1) in auto)
    have stopped: ?thesis if "w' = w2" "here (op_ID op) (FinishedStages op) k w2" "\<forall>op'. out \<noteq> Continue op'" for w2
      using that stay by blast
    show ?thesis
    proof (cases r1)
      case (Continue op1)
      obtain r2 w2 where save: "saveFinishedStage m op1 sg w1 = (r2, w2)" by fastforce
      have o1: "op_ID op1 = op_ID op" "FinishedStages op1 = FinishedStages op" using one Continue by simp_all
      have saved: "case r2 of Inl e \<Rightarrow> here (op_ID op) (FinishedStages op) k w2
         | Inr op' \<Rightarrow> here (op_ID op) (FinishedStages op @ [?n]) k w2 \<and> op_ID op' = op_ID op \<and>
             FinishedStages op' = FinishedStages op @ [?n]"
        using saveFinishedStage_at_stage [OF m _ o1(2) n False save, of k, unfolded o1(1)] one by blast
      show ?thesis
      proof (cases r2)
        case (Inl e)
        then have "out = Stop one_second None" "w' = w2"
          using Cons.prems(5) False steps Continue save by (simp_all add: IsStageFinished_iff)
        with saved Inl show ?thesis using stopped [of w2] by simp
      next
        case (Inr op2)
        have o2: "here (op_ID op) (FinishedStages op @ [?n]) k w2" "op_ID op2 = op_ID op" "FinishedStages op2 = FinishedStages op @ [?n]"
          using saved Inr by simp_all
        have run: "run_stages m sgs op2 w2 = (out, w')"
          using Cons.prems(5) False steps Continue save Inr by (simp add: IsStageFinished_iff)
        have "here (op_ID op2) (FinishedStages op2) k w2" "set ?pre' \<subseteq> set (FinishedStages op2)"
          using o2 Cons.prems(3) by auto
        from Cons.IH [OF rest this(2,1) run] obtain fin where
          fin: "stage_progress names (FinishedStages op @ [?n]) fin" "here (op_ID op) fin k w'"
            "\<forall>op'. out = Continue op' \<longrightarrow> op_ID op' = op_ID op \<and> FinishedStages op' = fin \<and> next_stage names fin = None"
          unfolding o2(2,3) by blast
        have "next_stage names (FinishedStages op) = Some ?n"
          using next_stage_suffix [OF Cons.prems(3) False] Cons.prems(2) by simp
        then have "stage_progress names (FinishedStages op) (FinishedStages op @ [?n])" by (intro finish stay)
        from stage_progress_trans [OF fin(1) this] fin show ?thesis by blast
      qed
    next
      case (Stop t e)
      then have "out = Stop t e" "w' = w1" using Cons.prems(5) False steps by (simp_all add: IsStageFinished_iff)
      with one show ?thesis using stopped [of w1] by blast
    next
      case Endless
      then have "out = Endless" "w' = w1" using Cons.prems(5) False steps by (simp_all add: IsStageFinished_iff)
      with one show ?thesis using stopped [of w1] by blast
    qed
  qed
qed

lemma execute_progress:
  assumes m: "operationStorage m = S" and names: "[] \<notin> set (GetAllStages m)"
    and tame: "\<And>sg st. sg \<in> set (stages m) \<Longrightarrow> st \<in> set (steps sg) \<Longrightarrow> tame stored good st"
    and start: "good (store w)" "stored (store w) i = Some cur"
    and run: "Execute m i w = (out, w')"
  shows "\<exists>cur'. stored (store w') i = Some cur' \<and>
           stage_progress (GetAllStages m) (FinishedStages cur) (FinishedStages cur') \<and>
           (successes w' = successes w \<or>
            successes w' = Suc (successes w) \<and> next_stage (GetAllStages m) (FinishedStages cur') = None)"
proof -
  let ?fin = "FinishedStages cur" and ?k = "successes w"
  have i: "op_ID cur = i" by (rule stored_ID [OF start])
  have here0: "here (op_ID cur) ?fin ?k w" using start i by (simp add: at_stage_def)
  have same: "\<exists>cur'. stored (store w') i = Some cur' \<and> stage_progress (GetAllStages m) ?fin (FinishedStages cur') \<and> successes w' = ?k"
    if "here i fin ?k w'" "stage_progress (GetAllStages m) ?fin fin" for fin
    using that by (auto simp: at_stage_def)
  show ?thesis
  proof (cases "clock w - CreatedAt cur > operationTimeout m")
    case True
    obtain r s where u: "upd_op S (cur\<lparr>LastError := time_limit, State := Failed\<rparr>) (store w) = (r, s)" by fastforce
    have "here i ?fin ?k (w\<lparr>store := s\<rparr>)" by (rule update_at_stage [OF here0 [unfolded i] _ _ u]) (simp_all add: i)
    then have "here i ?fin ?k w'"
      using run True u start m
      by (auto simp: Execute_def get_stored time_out_def callPubSubOutsideSteps_def Let_def split: sum.splits)
    from same [OF this stay] show ?thesis by blast
  next
    case False
    obtain r1 w1 where stages: "run_stages m (stages m) cur w = (r1, w1)" by fastforce
    obtain fin where fin: "stage_progress (GetAllStages m) ?fin fin" "here i fin ?k w1"
      "\<forall>op'. r1 = Continue op' \<longrightarrow> op_ID op' = i \<and> FinishedStages op' = fin \<and> next_stage (GetAllStages m) fin = None"
    proof -
      have "\<exists>fin. stage_progress (GetAllStages m) ?fin fin \<and> here (op_ID cur) fin ?k w1 \<and>
          (\<forall>op'. r1 = Continue op' \<longrightarrow> op_ID op' = op_ID cur \<and> FinishedStages op' = fin \<and> next_stage (GetAllStages m) fin = None)"
        by (rule run_stages_progress [OF m names _ subset_refl _ _ here0 stages, where pre = "[]"])
           (simp_all add: GetAllStages_def tame)
      then show thesis using that unfolding i by blast
    qed
    show ?thesis
    proof (cases r1)
      case (Continue op1)
      let ?op = "op1\<lparr>State := Succeeded, Description := ''Processing finished''\<rparr>"
      let ?w2 = "Publish (OperationSucceededEvent ?op) w1"
      obtain r s where u: "upd_op S ?op (store ?w2) = (r, s)" by fastforce
      have o: "op_ID op1 = i" "FinishedStages op1 = fin" "next_stage (GetAllStages m) fin = None"
        using fin(3) Continue by simp_all
      have "here i fin (Suc ?k) ?w2" using fin(2) by (simp add: at_stage_def Publish_def successes_def)
      then have "here i fin (Suc ?k) (?w2\<lparr>store := s\<rparr>)" by (rule update_at_stage [OF _ _ _ u]) (simp_all add: o)
      moreover have "w' = ?w2\<lparr>store := s\<rparr>"
        using run False stages Continue start m u by (simp add: Execute_def get_stored finish_operation_def Let_def)
      ultimately show ?thesis using fin(1) o(3) by (auto simp: at_stage_def)
    next
      case (Stop t e)
      then have "w' = w1" using run False stages start m by (simp add: Execute_def get_stored)
      with same fin show ?thesis by blast
    next
      case Endless
      then have "w' = w1" using run False stages start m by (simp add: Execute_def get_stored)
      with same fin show ?thesis by blast
    qed
  qed
qed

end

text \<open>
  (C1) One execution of an operation implements the specification of stages: the finished stages
  that are stored afterwards come from those before by finishing, one after the other, the first stage that is
  not finished; no stage is skipped, repeated or recorded out of order, whether the execution ends with
  success, an error, a panic, a retry or a time-out.  Success is announced at most once, and only when every stage is finished.
\<close>

theorem stages_refine_their_specification:
  assumes "operationStorage m = memory_storage" and "[] \<notin> set (GetAllStages m)"
    and "\<And>sg st. sg \<in> set (stages m) \<Longrightarrow> st \<in> set (steps sg) \<Longrightarrow> tame stored_operation store_ok st"
    and "store_ok (store w)" and "map_of (operations (store w)) i = Some cur"
    and "Execute m i w = (out, w')"
  shows "\<exists>cur'. map_of (operations (store w')) i = Some cur' \<and>
           stage_progress (GetAllStages m) (FinishedStages cur) (FinishedStages cur') \<and>
           (successes w' = successes w \<or>
            successes w' = Suc (successes w) \<and> next_stage (GetAllStages m) (FinishedStages cur') = None)"
  by (rule memory.execute_progress [unfolded stored_operation_eq, OF assms(1,2) _ assms(4-6)])
     (rule assms(3) [unfolded stored_operation_eq [abs_def]])

theorem stages_refine_their_specification_witness:
  "\<exists>cur'. map_of (operations (store (snd (Execute (one_step (\<lambda>op w. (StepReturns op 0 None, w))) ''op'' some_state)))) ''op'' = Some cur' \<and>
     stage_progress [''start''] [] (FinishedStages cur')"
proof -
  let ?m = "one_step (\<lambda>op w. (StepReturns op 0 None, w))"
  obtain out w' where run: "Execute ?m ''op'' some_state = (out, w')" by fastforce
  have "store_ok some_store" by (simp add: store_ok_def some_store_def map_ok_def) (simp add: some_operation_def)
  moreover have "tame stored_operation store_ok st" if "sg \<in> set (stages ?m)" "st \<in> set (steps sg)" for sg st
    using that by (auto simp: one_step_def NewStagedManager_def tame_def)
  moreover have "GetAllStages ?m = [''start'']" "operationStorage ?m = memory_storage"
    by (simp_all add: one_step_def NewStagedManager_def GetAllStages_def)
  moreover have "map_of (operations (store some_state)) ''op'' = Some some_operation" "FinishedStages some_operation = []"
    "store some_state = some_store"
    by (simp_all add: some_state_def some_store_def some_operation_def)
  ultimately show ?thesis
    using stages_refine_their_specification [OF _ _ _ _ _ run, where cur = some_operation] run by auto
qed

section \<open>Errors of steps\<close>

text \<open>
  (C28) An error that a step returns does not stop the operation.  When the step asks for no
  repetition and its last error can be saved, \<open>runStep\<close> reports success, the published message
  carries no error either, and the operation it hands on is one version behind the stored one.
\<close>

theorem step_errors_are_dropped:
  assumes "operationStorage m = memory_storage" and "step_run st op w = (StepReturns op1 0 (Some e), w1)"
    and "map_of (operations (store w1)) (op_ID op1) = Some cur" and "Version cur = Version op1"
  shows "\<exists>w'. runStep m st op w = (Stepped (op1\<lparr>LastError := ReasonForError e\<rparr>) 0 None, w') \<and>
           (\<exists>d. last (published w') =
              OperationStepProcessed (step_name st) d 0 None (op1\<lparr>LastError := ReasonForError e\<rparr>) op) \<and>
           map_of (operations (store w')) (op_ID op1) =
             Some (op1\<lparr>LastError := ReasonForError e, Version := Version op1 + 1\<rparr>)"
proof -
  let ?op = "op1\<lparr>LastError := ReasonForError e\<rparr>"
  obtain s where u: "UpdateOperation ?op (store w1) = (Inr (?op\<lparr>Version := Version op1 + 1\<rparr>), s)"
      "map_of (operations s) (op_ID op1) = Some (?op\<lparr>Version := Version op1 + 1\<rparr>)"
  proof (rule memory.update_current [of "store w1" ?op cur])
    show "stored_operation (store w1) (op_ID ?op) = Some cur" using assms(3) by (simp add: stored_operation_eq)
    show "Version cur = Version ?op" using assms(4) by simp
    fix s'
    assume "upd_op memory_storage ?op (store w1) = (Inr (?op\<lparr>Version := Version ?op + 1\<rparr>), s')"
      "stored_operation s' = (stored_operation (store w1))(op_ID ?op \<mapsto> ?op\<lparr>Version := Version ?op + 1\<rparr>)"
    then show thesis by (intro that [of s']) (simp_all add: memory_storage_def stored_operation_eq)
  qed
  have "save_last_error m op1 (Some e) w1 = (?op, None, w1\<lparr>store := s\<rparr>)"
    using assms(1) u(1) by (simp add: save_last_error_def memory_storage_def)
  then have "runStep m st op w = (Stepped ?op 0 None,
      Publish (OperationStepProcessed (step_name st) (clock w1 - clock w) 0 None ?op op) (w1\<lparr>store := s\<rparr>))"
    unfolding runStep_def add_2_eq_Suc' step_loop.simps(2) assms(2) by (simp add: Let_def)
  then show ?thesis using u(2) by (simp add: Publish_def)
qed

theorem step_errors_are_dropped_witness:
  "\<exists>op' w'. runStep (one_step undefined) \<lparr>step_name = ''step'', step_run = (\<lambda>op w. (StepReturns op 0 (Some (TextError ''bad'')), w)), condition = None\<rparr>
     some_operation some_state = (Stepped op' 0 None, w')"
proof -
  let ?st = "\<lparr>step_name = ''step'', step_run = (\<lambda>op w. (StepReturns op 0 (Some (TextError ''bad'')), w)), condition = None\<rparr>"
  have "operationStorage (one_step undefined) = memory_storage" by (simp add: one_step_def NewStagedManager_def)
  moreover have "step_run ?st some_operation some_state = (StepReturns some_operation 0 (Some (TextError ''bad'')), some_state)" by simp
  moreover have "map_of (operations (store some_state)) (op_ID some_operation) = Some some_operation"
    by (simp add: some_state_def some_store_def) (simp add: some_operation_def)
  ultimately show ?thesis
    using step_errors_are_dropped [of "one_step undefined" ?st some_operation some_state some_operation "TextError ''bad''" some_state some_operation]
    by blast
qed

text \<open>
  A panic in a step does not take the broker down: the operation is stored as failed, and \<open>Execute\<close>
  returns the panic as its error.
\<close>

theorem panic_fails_the_operation:
  assumes "operationStorage m = memory_storage" and "store_ok (store w)" and "map_of (operations (store w)) i = Some cur"
    and "clock w - CreatedAt cur \<le> operationTimeout m"
    and "stages m = sg # sgs" and "\<not> IsStageFinished (stage_name sg) cur" and "steps sg = st # sts" and "condition st = None"
    and "step_run st cur w = (StepPanics v, w1)" and "store w1 = store w"
  shows "\<exists>op' w'. Execute m i w = (Some (0, Some (TextError v)), w') \<and>
           map_of (operations (store w')) i = Some op' \<and> State op' = Failed \<and> Description op' = ''recovered from panic''"
proof -
  have i: "op_ID cur = i" using memory.stored_ID [OF assms(2)] assms(3) by (simp add: stored_operation_eq)
  let ?new = "bumped (cur\<lparr>State := Failed, Description := ''recovered from panic''\<rparr>)"
  obtain s where "om_UpdateOperation memory_storage cur (\<lambda>op. op\<lparr>State := Failed, Description := ''recovered from panic''\<rparr>) (store w) =
        ((?new, 0, None), s)" "stored_operation s = (stored_operation (store w))(i \<mapsto> ?new)"
    using memory.manager_update [OF assms(2), of cur cur "\<lambda>op. op\<lparr>State := Failed, Description := ''recovered from panic''\<rparr>"] assms(3) i
    by (auto simp: stored_operation_eq base_def)
  then have r: "recovered m cur v 0 w1 = (Stepped ?new 0 (Some (TextError v)), w1\<lparr>store := s\<rparr>)"
      "map_of (operations s) i = Some ?new"
    using assms(1,10) by (simp_all add: recovered_def OperationFailed_def om_update_def stored_operation_eq)
  have "runStep m st cur w = (Stepped ?new 0 (Some (TextError v)), w1\<lparr>store := s\<rparr>)"
    using assms(9) r(1) by (simp add: runStep_def)
  moreover have "get_op memory_storage i (store w) = (Inr cur, store w)"
    using memory.get_stored assms(3) by (simp add: stored_operation_eq)
  ultimately show ?thesis
    using assms(1,4-8) r(2) by (simp add: Execute_def bumped_def)
qed

theorem panic_fails_the_operation_witness:
  "\<exists>op' w'. Execute (one_step (\<lambda>op w. (StepPanics ''boom'', w))) ''op'' some_state = (Some (0, Some (TextError ''boom'')), w') \<and>
     map_of (operations (store w')) ''op'' = Some op' \<and> State op' = Failed \<and> Description op' = ''recovered from panic''"
proof (rule panic_fails_the_operation [where cur = some_operation])
  show "store_ok (store some_state)" by (simp add: some_state_def store_ok_def some_store_def map_ok_def) (simp add: some_operation_def)
  show "map_of (operations (store some_state)) ''op'' = Some some_operation" by (simp add: some_state_def some_store_def)
qed (auto simp: one_step_def NewStagedManager_def some_state_def some_operation_def IsStageFinished_def)

section \<open>Time-out\<close>

text \<open>
  An operation that is older than the time limit is not processed any further:
  no step runs, it is stored as failed with the time-out as its last error, one message with that error is published, and
  \<open>Execute\<close> returns the time-out without asking for a repetition.
\<close>

theorem overdue_operation_fails:
  assumes "operationStorage m = memory_storage" and "store_ok (store w)" and "map_of (operations (store w)) i = Some cur"
    and "operationTimeout m < clock w - CreatedAt cur"
  shows "\<exists>op' w'. Execute m i w = (Some (0, Some (as_error time_limit)), w') \<and> clock w' = clock w \<and>
           op' = cur\<lparr>LastError := time_limit, State := Failed\<rparr> \<and>
           map_of (operations (store w')) = (map_of (operations (store w)))(i \<mapsto> bumped op') \<and>
           published w' = published w @ [OperationStepProcessed [] (clock w - CreatedAt cur) 0 (Some (as_error time_limit)) op' op']"
proof -
  have i: "op_ID cur = i" using memory.stored_ID [OF assms(2)] assms(3) by (simp add: stored_operation_eq)
  let ?op = "cur\<lparr>LastError := time_limit, State := Failed\<rparr>"
  obtain s where "UpdateOperation ?op (store w) = (Inr (bumped ?op), s)"
      "map_of (operations s) = (map_of (operations (store w)))(i \<mapsto> bumped ?op)"
    using memory.update_current [of "store w" ?op cur] assms(3) i
    by (auto simp: memory_storage_def stored_operation_eq bumped_def)
  moreover have "GetOperationByID i (store w) = Inr cur"
    using memory.get_stored assms(3) by (simp add: stored_operation_eq memory_storage_def)
  ultimately show ?thesis
    using assms(1,4)
    by (simp add: Execute_def time_out_def memory_storage_def callPubSubOutsideSteps_def Publish_def Let_def)
qed

theorem overdue_operation_fails_witness:
  "\<exists>op' w'. Execute (one_step undefined) ''op'' (some_state\<lparr>clock := 2000\<rparr>) = (Some (0, Some (as_error time_limit)), w') \<and>
     op' = some_operation\<lparr>LastError := time_limit, State := Failed\<rparr> \<and> map_of (operations (store w')) ''op'' = Some (bumped op')"
proof -
  have "store_ok (store (some_state\<lparr>clock := 2000\<rparr>))"
    by (simp add: some_state_def store_ok_def some_store_def map_ok_def) (simp add: some_operation_def)
  moreover have "map_of (operations (store (some_state\<lparr>clock := 2000\<rparr>))) ''op'' = Some some_operation"
    by (simp add: some_state_def some_store_def)
  moreover have "operationStorage (one_step undefined) = memory_storage"
    "operationTimeout (one_step undefined) < clock (some_state\<lparr>clock := 2000\<rparr>) - CreatedAt some_operation"
    by (simp_all add: one_step_def NewStagedManager_def some_operation_def)
  ultimately show ?thesis
    using overdue_operation_fails [of "one_step undefined" "some_state\<lparr>clock := 2000\<rparr>" "''op''" some_operation] by auto
qed

end
