(* ===== verification/Work_Queue.thy ===== *)
theory Work_Queue
  imports Staged_Manager
begin

text \<open>
  \<^verbatim>\<open>src/internal/process/queue.go\<close>: the workers that take operation ids from a queue, have them
  executed and put them back when they are to be executed again.  The queue itself is the package
  \<open>workqueue\<close> of client-go and is not modelled: a worker is described by the keys it is handed and
  by the calls it makes.
\<close>

datatype process_result =
    ProcessReturns int "go_error option"
  | ProcessPanics string
  | ProcessHangs

datatype queue_call =
    AddAfter string int
  | Forget string
  | Done string

text \<open>
  One turn of a worker: \<open>process\<close>, then the queue calls, and the deferred \<open>Done\<close> in every case but
  one, that the execution never comes back.  A speed factor of 0 makes the division panic.
\<close>

definition worker_turn ::
  "int \<Rightarrow> (string \<Rightarrow> 'w \<Rightarrow> process_result \<times> 'w) \<Rightarrow> string \<Rightarrow> 'w \<Rightarrow> queue_call list \<times> bool \<times> 'w" where
  "worker_turn factor process key w =
     (case process key w of
        (ProcessHangs, w1) \<Rightarrow> ([], False, w1)
      | (ProcessPanics v, w1) \<Rightarrow> ([Done key], True, w1)
      | (ProcessReturns when err, w1) \<Rightarrow>
          if err = None \<and> when \<noteq> 0
          then (if factor = 0 then ([Done key], True, w1) else ([AddAfter key (go_quot when factor), Done key], True, w1))
          else ([Forget key, Done key], True, w1))"

text \<open>A worker with the keys that \<open>Get\<close> gives it until the queue is shut down.\<close>

fun worker ::
  "int \<Rightarrow> (string \<Rightarrow> 'w \<Rightarrow> process_result \<times> 'w) \<Rightarrow> string list \<Rightarrow> 'w \<Rightarrow> queue_call list \<times> 'w" where
  "worker factor process [] w = ([], w)"
| "worker factor process (key # keys) w =
     (let (calls, again, w1) = worker_turn factor process key w in
      if again then (let (more, w2) = worker factor process keys w1 in (calls @ more, w2)) else (calls, w1))"

text \<open>The staged manager as the executor of a queue.\<close>

definition executor :: "'s staged_manager \<Rightarrow> string \<Rightarrow> 's process_state \<Rightarrow> process_result \<times> 's process_state" where
  "executor m key w =
     (case Execute m key w of
        (Some (t, e), w1) \<Rightarrow> (ProcessReturns t e, w1)
      | (None, w1) \<Rightarrow> (ProcessHangs, w1))"

definition is_done :: "queue_call \<Rightarrow> bool" where
  "is_done c = (case c of Done k \<Rightarrow> True | _ \<Rightarrow> False)"

text \<open>
  (C27) A worker with the staged manager gives every key it takes back to the queue
  exactly once, in the order it took them, whatever the executions end with; and it asks for a key again
  only after an execution that returned no error.
\<close>

theorem every_key_is_given_back:
  assumes "0 < speedFactor m"
    and "\<And>sg st. sg \<in> set (stages m) \<Longrightarrow> st \<in> set (steps sg) \<Longrightarrow> orderly (speedFactor m) st"
  shows "filter is_done (fst (worker factor (executor m) keys w)) = map Done keys \<and>
         (\<forall>k d. AddAfter k d \<in> set (fst (worker factor (executor m) keys w)) \<longrightarrow>
            (\<exists>w1 w2 t. Execute m k w1 = (Some (t, None), w2) \<and> t \<noteq> 0 \<and> d = go_quot t factor))"
proof (induction keys arbitrary: w)
  case (Cons key keys)
  have "fst (Execute m key w) \<noteq> None" by (rule Execute_ends) (use assms in auto)
  then obtain t e w1 where x: "Execute m key w = (Some (t, e), w1)"
    by (metis option.exhaust prod.collapse surj_pair)
  show ?case
  proof (cases "e = None \<and> t \<noteq> 0")
    case True
    then show ?thesis
      using x Cons.IH [of w1]
      by (auto simp: worker_turn_def executor_def is_done_def Let_def split: prod.split)
  next
    case False
    then show ?thesis
      using x Cons.IH [of w1]
      by (auto simp: worker_turn_def executor_def is_done_def Let_def split: prod.split)
  qed
qed simp

theorem every_key_is_given_back_witness:
  "filter is_done (fst (worker 1 (executor (one_step (\<lambda>op w. (StepReturns op 10 None, w)))) [''op'', ''x''] some_state)) =
     [Done ''op'', Done ''x'']"
proof -
  have "filter is_done (fst (worker 1 (executor (one_step (\<lambda>op w. (StepReturns op 10 None, w)))) [''op'', ''x''] some_state)) =
     map Done [''op'', ''x'']"
    by (rule every_key_is_given_back [THEN conjunct1]) (auto simp: one_step_def NewStagedManager_def orderly_def)
  then show ?thesis by simp
qed

text \<open>
  When the last save of a finished operation fails, \<open>Execute\<close> asks to be
  called again after a second, but it also returns the error, and then the worker does not put the key
  back: success has been announced, the stored operation stays as it was, and nothing will try again.
\<close>

theorem unsaved_success_is_not_retried:
  assumes "get_op (operationStorage m) i (store w) = (Inr cur, s)"
    and "clock w - CreatedAt cur \<le> operationTimeout m"
    and "set (GetAllStages m) \<subseteq> set (FinishedStages cur)"
    and "\<And>op. upd_op (operationStorage m) op s = (Inl e, s)"
  shows "\<exists>w'. Execute m i w = (Some (one_second, Some e), w') \<and> store w' = s \<and> successes w' = Suc (successes w) \<and>
           worker_turn factor (executor m) i w = ([Forget i, Done i], True, w')"
proof -
  have "run_stages m sgs cur w' = (Continue cur, w')" if "stage_name ` set sgs \<subseteq> set (FinishedStages cur)" for sgs w'
    using that by (induction sgs) (auto simp: IsStageFinished_iff)
  then have "run_stages m (stages m) cur (w\<lparr>store := s\<rparr>) = (Continue cur, w\<lparr>store := s\<rparr>)"
    using assms(3) by (simp add: GetAllStages_def)
  then obtain w' where "Execute m i w = (Some (one_second, Some e), w')" "store w' = s" "successes w' = Suc (successes w)"
    using assms(1,2,4) by (simp add: Execute_def finish_operation_def Publish_def successes_def Let_def)
  then show ?thesis by (simp add: worker_turn_def executor_def)
qed

text \<open>The memory storage while it cannot be written.\<close>

definition read_only :: "memory_operations op_storage" where
  "read_only = memory_storage\<lparr>upd_op := (\<lambda>op s. (Inl (DbError 1 ''down''), s))\<rparr>"

theorem unsaved_success_is_not_retried_witness:
  "\<exists>w'. worker_turn 1 (executor (NewStagedManager read_only 1000 60)) ''op'' some_state = ([Forget ''op'', Done ''op''], True, w')"
proof -
  have "get_op (operationStorage (NewStagedManager read_only 1000 60)) ''op'' (store some_state) = (Inr some_operation, some_store)"
    by (simp add: NewStagedManager_def read_only_def memory_storage_def some_state_def GetOperationByID_def some_store_def)
  moreover have "upd_op (operationStorage (NewStagedManager read_only 1000 60)) op some_store = (Inl (DbError 1 ''down''), some_store)" for op
    by (simp add: NewStagedManager_def read_only_def)
  ultimately show ?thesis
    using unsaved_success_is_not_retried [of "NewStagedManager read_only 1000 60" "''op''" some_state some_operation some_store "DbError 1 ''down''" 1]
    by (auto simp: NewStagedManager_def GetAllStages_def some_state_def some_operation_def)
qed

end
