(* ===== verification/Instance_Storage.thy ===== *)
theory Instance_Storage
  imports Memory_Storage
begin

text \<open>
  Instances (\<^verbatim>\<open>src/internal/model.go\<close>), the constructors of operations that start from an
  instance, and the in-memory driver of the instance storage (\<^verbatim>\<open>src/internal/storage/driver/memory/instance.go\<close>).

  The zero time is 0.  Reading an instance writes it to JSON and back, which clears the
  kubeconfig in the details and turns an empty slice with \<open>omitempty\<close> into nil; texts are assumed to be valid
  UTF-8, for which nothing else changes.
\<close>

section \<open>Instances\<close>

record kyma_instance =
  inst_ID :: string
  inst_RuntimeID :: string
  inst_GlobalAccountID :: string
  SubscriptionGlobalAccountID :: string
  inst_SubAccountID :: string
  inst_ServiceID :: string
  ServiceName :: string
  ServicePlanID :: string
  ServicePlanName :: string
  inst_DashboardURL :: string
  inst_Parameters :: provisioning_parameters
  ProviderRegion :: string
  inst_Details :: instance_details
  inst_CreatedAt :: int
  inst_UpdatedAt :: int
  DeletedAt :: int
  ExpiredAt :: "int option"
  inst_Version :: int
  inst_Provider :: string
  Reconcilable :: bool

definition IsExpired :: "kyma_instance \<Rightarrow> bool" where
  "IsExpired i = (ExpiredAt i \<noteq> None)"

definition GetSubscriptionGlobalAccoundID :: "kyma_instance \<Rightarrow> string" where
  "GetSubscriptionGlobalAccoundID i =
     (if SubscriptionGlobalAccountID i \<noteq> [] then SubscriptionGlobalAccountID i else inst_GlobalAccountID i)"

definition GetInstanceDetails :: "kyma_instance \<Rightarrow> instance_details" where
  "GetInstanceDetails i = (inst_Details i)\<lparr>RuntimeID := inst_RuntimeID i\<rparr>"

section \<open>New operations\<close>

definition no_error :: last_error where
  "no_error = \<lparr>message = [], reason = [], component = []\<rparr>"

text \<open>The runtime that an operation is for, as far as a constructor fills it in.\<close>

definition for_runtime :: "runtime \<Rightarrow> runtime_operation" where
  "for_runtime r = no_runtime_operation\<lparr>ro_Runtime := r\<rparr>"

text \<open>What the constructors share: a new id, version 0, no stage finished.\<close>

definition fresh_operation ::
  "string \<Rightarrow> int \<Rightarrow> string \<Rightarrow> operation_type \<Rightarrow> string \<Rightarrow> provisioning_parameters \<Rightarrow> operation" where
  "fresh_operation operationID now instanceID opType state parameters =
     \<lparr>op_ID = operationID, Version = 0, CreatedAt = now, UpdatedAt = now, op_Type = opType, InstanceID = instanceID,
      State = state, Description = ''Operation created'', ProvisioningParameters = parameters, OrchestrationID = [],
      FinishedStages = [], LastError = no_error, DashboardURL = [], Temporary = False, ExcutedButNotCompleted = [],
      UserAgent = [], UpdatingParameters = no_update, InstanceDetails = no_details, RuntimeOperation = no_runtime_operation,
      RuntimeVersion = no_version, ProvisionerOperationID = [], details = []\<rparr>"

lemma fresh_operation_simps [simp]:
  "op_ID (fresh_operation i now inst ty st ps) = i"
  "Version (fresh_operation i now inst ty st ps) = 0"
  "CreatedAt (fresh_operation i now inst ty st ps) = now"
  "op_Type (fresh_operation i now inst ty st ps) = ty"
  "InstanceID (fresh_operation i now inst ty st ps) = inst"
  "State (fresh_operation i now inst ty st ps) = st"
  "Temporary (fresh_operation i now inst ty st ps) = False"
  "ProvisioningParameters (fresh_operation i now inst ty st ps) = ps"
  by (simp_all add: fresh_operation_def)

definition NewProvisioningOperationWithID :: "string \<Rightarrow> int \<Rightarrow> string \<Rightarrow> provisioning_parameters \<Rightarrow> operation" where
  "NewProvisioningOperationWithID operationID now instanceID parameters =
     (fresh_operation operationID now instanceID OperationTypeProvision InProgress parameters)\<lparr>
       RuntimeOperation := for_runtime (no_runtime\<lparr>rt_GlobalAccountID := GlobalAccountID (ErsContext parameters)\<rparr>),
       InstanceDetails := no_details\<lparr>det_SubAccountID := SubAccountID (ErsContext parameters),
         det_Kubeconfig := Kubeconfig (Parameters parameters),
         EuAccess := IsEURestrictedAccess (PlatformRegion parameters)\<rparr>\<rparr>"

definition NewDeprovisioningOperationWithID :: "string \<Rightarrow> int \<Rightarrow> kyma_instance \<Rightarrow> operation" where
  "NewDeprovisioningOperationWithID operationID now i =
     (fresh_operation operationID now (inst_ID i) OperationTypeDeprovision Pending (inst_Parameters i))\<lparr>
       RuntimeOperation := for_runtime (no_runtime\<lparr>rt_GlobalAccountID := inst_GlobalAccountID i,
         rt_RuntimeID := inst_RuntimeID i, rt_Region := ProviderRegion i\<rparr>),
       InstanceDetails := GetInstanceDetails i\<rparr>"

definition NewSuspensionOperationWithID :: "string \<Rightarrow> int \<Rightarrow> kyma_instance \<Rightarrow> operation" where
  "NewSuspensionOperationWithID operationID now i =
     (fresh_operation operationID now (inst_ID i) OperationTypeDeprovision Pending (inst_Parameters i))\<lparr>
       InstanceDetails := inst_Details i, Temporary := True,
       RuntimeOperation := for_runtime (no_runtime\<lparr>rt_Region := ProviderRegion i\<rparr>)\<rparr>"

text \<open>
  The parameters after an update.  An OIDC configuration is taken over when there is one, even an empty one;
  administrators and the machine type only when they are not empty.
\<close>

definition updated_parameters :: "updating_parameters \<Rightarrow> parameters_dto \<Rightarrow> parameters_dto" where
  "updated_parameters u p0 =
     (let p1 = (if upd_OIDC u \<noteq> None then p0\<lparr>OIDC := upd_OIDC u\<rparr> else p0);
          p2 = (if slice_elems (upd_RuntimeAdministrators u) \<noteq> []
                then p1\<lparr>RuntimeAdministrators := upd_RuntimeAdministrators u\<rparr> else p1);
          p3 = snd (UpdateAutoScaler u p2)
      in if upd_MachineType u \<noteq> None \<and> upd_MachineType u \<noteq> Some [] then p3\<lparr>MachineType := upd_MachineType u\<rparr> else p3)"

definition NewUpdateOperation :: "string \<Rightarrow> int \<Rightarrow> kyma_instance \<Rightarrow> updating_parameters \<Rightarrow> operation" where
  "NewUpdateOperation operationID now i u =
     (fresh_operation operationID now (inst_ID i) OperationTypeUpdate Pending
        ((inst_Parameters i)\<lparr>Parameters := updated_parameters u (Parameters (inst_Parameters i))\<rparr>))\<lparr>
       InstanceDetails := inst_Details i, UpdatingParameters := u,
       RuntimeOperation := for_runtime (no_runtime\<lparr>rt_Region := ProviderRegion i\<rparr>)\<rparr>"

lemma new_operation_simps [simp]:
  "op_ID (NewProvisioningOperationWithID k now inst ps) = k"
  "InstanceID (NewProvisioningOperationWithID k now inst ps) = inst"
  "op_Type (NewProvisioningOperationWithID k now inst ps) = OperationTypeProvision"
  "State (NewProvisioningOperationWithID k now inst ps) = InProgress"
  "CreatedAt (NewProvisioningOperationWithID k now inst ps) = now"
  "ProvisioningParameters (NewProvisioningOperationWithID k now inst ps) = ps"
  "op_ID (NewDeprovisioningOperationWithID k now i) = k"
  "InstanceID (NewDeprovisioningOperationWithID k now i) = inst_ID i"
  "op_Type (NewDeprovisioningOperationWithID k now i) = OperationTypeDeprovision"
  "State (NewDeprovisioningOperationWithID k now i) = Pending"
  "CreatedAt (NewDeprovisioningOperationWithID k now i) = now"
  "Temporary (NewDeprovisioningOperationWithID k now i) = False"
  "op_ID (NewSuspensionOperationWithID k now i) = k"
  "InstanceID (NewSuspensionOperationWithID k now i) = inst_ID i"
  "op_Type (NewSuspensionOperationWithID k now i) = OperationTypeDeprovision"
  "State (NewSuspensionOperationWithID k now i) = Pending"
  "CreatedAt (NewSuspensionOperationWithID k now i) = now"
  "Temporary (NewSuspensionOperationWithID k now i) = True"
  "op_ID (NewUpdateOperation k now i u) = k"
  "InstanceID (NewUpdateOperation k now i u) = inst_ID i"
  "op_Type (NewUpdateOperation k now i u) = OperationTypeUpdate"
  "State (NewUpdateOperation k now i u) = Pending"
  "CreatedAt (NewUpdateOperation k now i u) = now"
  by (simp_all add: NewProvisioningOperationWithID_def NewDeprovisioningOperationWithID_def
    NewSuspensionOperationWithID_def NewUpdateOperation_def)

section \<open>The memory driver\<close>

type_synonym inst_map = "(string \<times> kyma_instance) list"

definition omit_empty :: "go_slice \<Rightarrow> go_slice" where
  "omit_empty sl = (if slice_elems sl = [] then None else sl)"

definition json_details :: "instance_details \<Rightarrow> instance_details" where
  "json_details d = d\<lparr>det_Kubeconfig := []\<rparr>"

definition json_parameters :: "provisioning_parameters \<Rightarrow> provisioning_parameters" where
  "json_parameters pp =
     (let p = Parameters pp in
      pp\<lparr>Parameters := p\<lparr>Zones := omit_empty (Zones p),
        OptionalComponentsToInstall := omit_empty (OptionalComponentsToInstall p),
        RuntimeAdministrators := omit_empty (RuntimeAdministrators p)\<rparr>\<rparr>)"

text \<open>\<open>GetByID\<close>: without a started operation the stored value itself, else the copy with the details of that operation.\<close>

definition inst_GetByID :: "visit \<Rightarrow> string \<Rightarrow> inst_map \<Rightarrow> memory_operations \<Rightarrow> go_error + kyma_instance" where
  "inst_GetByID visit instanceID m s =
     (case map_of m instanceID of
        None \<Rightarrow> Inl (DbError CodeNotFound (''instance with id '' @ instanceID @ '' not exist''))
      | Some i \<Rightarrow>
          (case GetLastOperation visit instanceID s of
             Inl e \<Rightarrow> if IsNotFound e then Inr i else Inl e
           | Inr op \<Rightarrow> Inr (i\<lparr>inst_Parameters := json_parameters (inst_Parameters i),
               inst_Details := json_details (InstanceDetails op)\<rparr>)))"

definition inst_Delete :: "string \<Rightarrow> inst_map \<Rightarrow> inst_map" where
  "inst_Delete instanceID m = assoc_del instanceID m"

definition inst_Insert :: "kyma_instance \<Rightarrow> inst_map \<Rightarrow> inst_map" where
  "inst_Insert i m = assoc_set (inst_ID i) i m"

definition inst_Update :: "kyma_instance \<Rightarrow> inst_map \<Rightarrow> (go_error + kyma_instance) \<times> inst_map" where
  "inst_Update i m =
     (case map_of m (inst_ID i) of
        None \<Rightarrow> (Inl (DbError CodeNotFound (''instance '' @ inst_ID i @ '' not found'')), m)
      | Some oldInst \<Rightarrow>
          if inst_Version oldInst \<noteq> inst_Version i
          then (Inl (DbError CodeConflict (''unable to update instance '' @ inst_ID i @ '' - conflict'')), m)
          else (let i' = i\<lparr>inst_Version := inst_Version i + 1\<rparr> in (Inr i', assoc_set (inst_ID i) i' m)))"

definition GetNumberOfInstancesForGlobalAccountID :: "string \<Rightarrow> inst_map \<Rightarrow> nat" where
  "GetNumberOfInstancesForGlobalAccountID globalAccountID m =
     length (filter (\<lambda>i. inst_GlobalAccountID i = globalAccountID \<and> DeletedAt i = 0) (map snd m))"

definition FindAllInstancesForSubAccounts :: "(inst_map \<Rightarrow> inst_map) \<Rightarrow> string list \<Rightarrow> inst_map \<Rightarrow> kyma_instance list" where
  "FindAllInstancesForSubAccounts visit subAccountslist m =
     concat (map (\<lambda>sub. filter (\<lambda>i. inst_SubAccountID i = sub) (map snd (visit m))) subAccountslist)"

definition FindAllInstancesForRuntimes ::
  "(inst_map \<Rightarrow> inst_map) \<Rightarrow> (string list \<Rightarrow> string) \<Rightarrow> string list \<Rightarrow> inst_map \<Rightarrow> go_error + kyma_instance list" where
  "FindAllInstancesForRuntimes visit quoted_list runtimeIdList m =
     (let found = concat (map (\<lambda>r. filter (\<lambda>i. inst_RuntimeID i = r) (map snd (visit m))) runtimeIdList) in
      if found = []
      then Inl (DbError CodeNotFound (''instances with runtime id from list '' @ quoted_list runtimeIdList @ '' not exist''))
      else Inr found)"

subsection \<open>Listing\<close>

datatype instance_state =
    InstanceSucceeded
  | InstanceFailed
  | InstanceError
  | InstanceProvisioning
  | InstanceDeprovisioning
  | InstanceUpgrading
  | InstanceUpdating
  | InstanceDeprovisioned
  | InstanceNotDeprovisioned

text \<open>The fields of the filter that this driver reads; the others have no effect on it.\<close>

record instance_filter =
  flt_PageSize :: int
  flt_Page :: int
  flt_GlobalAccountIDs :: "string list"
  flt_SubscriptionGlobalAccountIDs :: "string list"
  flt_SubAccountIDs :: "string list"
  flt_InstanceIDs :: "string list"
  flt_RuntimeIDs :: "string list"
  flt_Regions :: "string list"
  flt_Plans :: "string list"
  flt_Shoots :: "string list"
  flt_States :: "instance_state list"

fun in_state :: "operation \<Rightarrow> instance_state \<Rightarrow> bool" where
  "in_state op InstanceSucceeded = (State op = Succeeded \<and> op_Type op \<noteq> OperationTypeDeprovision)"
| "in_state op InstanceFailed =
     (State op = Failed \<and> (op_Type op = OperationTypeProvision \<or> op_Type op = OperationTypeDeprovision))"
| "in_state op InstanceError =
     (State op = Failed \<and> op_Type op \<noteq> OperationTypeProvision \<and> op_Type op \<noteq> OperationTypeDeprovision)"
| "in_state op InstanceProvisioning = (op_Type op = OperationTypeProvision \<and> State op = InProgress)"
| "in_state op InstanceDeprovisioning = (op_Type op = OperationTypeDeprovision \<and> State op = InProgress)"
| "in_state op InstanceUpgrading =
     ((op_Type op = OperationTypeUpgradeKyma \<or> op_Type op = OperationTypeUpgradeCluster) \<and> State op = InProgress)"
| "in_state op InstanceUpdating = (op_Type op = OperationTypeUpdate \<and> State op = InProgress)"
| "in_state op InstanceDeprovisioned = (State op = Succeeded \<and> op_Type op = OperationTypeDeprovision)"
| "in_state op InstanceNotDeprovisioned = (\<not> (State op = Succeeded \<and> op_Type op = OperationTypeDeprovision))"

definition matchInstanceState :: "visit \<Rightarrow> memory_operations \<Rightarrow> string \<Rightarrow> instance_state list \<Rightarrow> bool" where
  "matchInstanceState visit s instanceID states =
     (states = [] \<or>
      (case GetLastOperation visit instanceID s of Inl e \<Rightarrow> True | Inr op \<Rightarrow> list_ex (in_state op) states))"

text \<open>
  Whether one instance passes.  A filter on shoots dereferences the last operation, also when there is none.
\<close>

definition passes :: "visit \<Rightarrow> memory_operations \<Rightarrow> instance_filter \<Rightarrow> kyma_instance \<Rightarrow> bool go_call" where
  "passes visit s flt v =
     (if \<not> matchFilter (inst_ID v) (flt_InstanceIDs flt) then Returned False
      else if \<not> matchFilter (inst_GlobalAccountID v) (flt_GlobalAccountIDs flt) then Returned False
      else if \<not> matchFilter (SubscriptionGlobalAccountID v) (flt_SubscriptionGlobalAccountIDs flt) then Returned False
      else if \<not> matchFilter (inst_SubAccountID v) (flt_SubAccountIDs flt) then Returned False
      else if \<not> matchFilter (inst_RuntimeID v) (flt_RuntimeIDs flt) then Returned False
      else if \<not> matchFilter (ServicePlanName v) (flt_Plans flt) then Returned False
      else if \<not> matchFilter (ProviderRegion v) (flt_Regions flt) then Returned False
      else
        (let by_state = Returned (matchInstanceState visit s (inst_ID v) (flt_States flt)) in
         if flt_Shoots flt = [] then by_state
         else (case GetLastOperation visit (inst_ID v) s of
                 Inl e \<Rightarrow> Panicked ''invalid memory address or nil pointer dereference''
               | Inr op \<Rightarrow> if matchFilter (ShootName (InstanceDetails op)) (flt_Shoots flt) then by_state else Returned False)))"

fun filter_call :: "('a \<Rightarrow> bool go_call) \<Rightarrow> 'a list \<Rightarrow> 'a list go_call" where
  "filter_call p [] = Returned []"
| "filter_call p (x # xs) =
     (case p x of
        Panicked e \<Rightarrow> Panicked e
      | Returned b \<Rightarrow>
          (case filter_call p xs of Panicked e \<Rightarrow> Panicked e | Returned ys \<Rightarrow> Returned (if b then x # ys else ys)))"

definition filterInstances ::
  "(inst_map \<Rightarrow> inst_map) \<Rightarrow> visit \<Rightarrow> instance_filter \<Rightarrow> inst_map \<Rightarrow> memory_operations \<Rightarrow> kyma_instance list go_call" where
  "filterInstances visit_i visit flt m s = filter_call (passes visit s flt) (map snd (visit_i m))"

definition sortInstancesByCreatedAt :: "kyma_instance list \<Rightarrow> kyma_instance list" where
  "sortInstancesByCreatedAt is = sort_key inst_CreatedAt is"

text \<open>The page holds what is stored under the ids of the instances found.\<close>

definition inst_List ::
  "(inst_map \<Rightarrow> inst_map) \<Rightarrow> visit \<Rightarrow> instance_filter \<Rightarrow> inst_map \<Rightarrow> memory_operations \<Rightarrow>
   (kyma_instance option list \<times> nat \<times> nat) go_call" where
  "inst_List visit_i visit flt m s =
     (let offset = ConvertPageAndPageSizeToOffset (flt_PageSize flt) (flt_Page flt) in
      case filterInstances visit_i visit flt m s of
        Panicked e \<Rightarrow> Panicked e
      | Returned matching \<Rightarrow>
          (let found = sortInstancesByCreatedAt matching in
           page_result (copy_page (map (\<lambda>i. map_of m (inst_ID i)) found) (flt_PageSize flt) offset (int (length found)) offset)
             (map (\<lambda>i. map_of m (inst_ID i)) found)))"

section \<open>Well-formed instance maps and the lock\<close>

definition insts_ok :: "inst_map \<Rightarrow> bool" where
  "insts_ok m = (distinct (map fst m) \<and> (\<forall>(k, i) \<in> set m. inst_ID i = k))"

lemma insts_ok_assoc_set: "insts_ok m \<Longrightarrow> inst_ID i = k \<Longrightarrow> insts_ok (assoc_set k i m)"
  using set_assoc_set [of k i m] by (auto simp: insts_ok_def distinct_assoc_set)

lemma insts_ok_Update: "insts_ok m \<Longrightarrow> insts_ok (snd (inst_Update i m))"
  by (auto simp: inst_Update_def Let_def insts_ok_assoc_set split: option.split)

lemma insts_ok_ID: "insts_ok m \<Longrightarrow> map_of m k = Some i \<Longrightarrow> inst_ID i = k"
  by (auto simp: insts_ok_def dest!: map_of_SomeD)

definition next_version :: "kyma_instance \<Rightarrow> kyma_instance" where
  "next_version i = i\<lparr>inst_Version := inst_Version i + 1\<rparr>"

interpretation insts: optimistic_lock inst_Update map_of inst_ID inst_Version next_version
  by unfold_locales (auto simp: inst_Update_def next_version_def Let_def IsConflict_def split: option.splits if_splits)

lemma inst_GetByID_unknown: "map_of m i = None \<Longrightarrow> \<exists>e. inst_GetByID visit i m s = Inl e \<and> IsNotFound e"
  by (simp add: inst_GetByID_def IsNotFound_def)

lemma GetLastOperation_IsNotFound: "GetLastOperation visit i s = Inl e \<Longrightarrow> IsNotFound e"
  by (auto simp: GetLastOperation_def Let_def IsNotFound_def split: list.splits)

text \<open>What reading an instance keeps: everything but the parameters, up to empty slices, and the details.\<close>

lemma inst_GetByID_known:
  assumes "map_of m i = Some inst"
  obtains ps ds where "inst_GetByID visit i m s = Inr (inst\<lparr>inst_Parameters := ps, inst_Details := ds\<rparr>)"
    and "ErsContext ps = ErsContext (inst_Parameters inst)" and "PlanID ps = PlanID (inst_Parameters inst)"
proof (cases "GetLastOperation visit i s")
  case (Inl e)
  with assms GetLastOperation_IsNotFound [OF Inl]
  have "inst_GetByID visit i m s = Inr (inst\<lparr>inst_Parameters := inst_Parameters inst, inst_Details := inst_Details inst\<rparr>)"
    by (simp add: inst_GetByID_def)
  then show thesis by (rule that) simp_all
next
  case (Inr op)
  with assms have "inst_GetByID visit i m s =
      Inr (inst\<lparr>inst_Parameters := json_parameters (inst_Parameters inst), inst_Details := json_details (InstanceDetails op)\<rparr>)"
    by (simp add: inst_GetByID_def)
  then show thesis by (rule that) (simp_all add: json_parameters_def Let_def)
qed

lemma inst_GetByID_Inr:
  assumes "inst_GetByID visit i m s = Inr j"
  obtains inst where "map_of m i = Some inst" and "inst_ID j = inst_ID inst" and "inst_Version j = inst_Version inst"
    and "ExpiredAt j = ExpiredAt inst" and "ServicePlanID j = ServicePlanID inst"
    and "ErsContext (inst_Parameters j) = ErsContext (inst_Parameters inst)" and "DeletedAt j = DeletedAt inst"
proof (cases "map_of m i")
  case None
  with assms show thesis by (simp add: inst_GetByID_def)
next
  case (Some inst)
  from inst_GetByID_known [OF Some, of visit s] obtain ps ds where
    r: "inst_GetByID visit i m s = Inr (inst\<lparr>inst_Parameters := ps, inst_Details := ds\<rparr>)"
      "ErsContext ps = ErsContext (inst_Parameters inst)" by metis
  with assms have "j = inst\<lparr>inst_Parameters := ps, inst_Details := ds\<rparr>" by simp
  with Some r(2) show thesis by (intro that [of inst]) simp_all
qed

lemma inst_GetByID_any: "inst_GetByID visit i m s = Inr j \<Longrightarrow> \<exists>j'. inst_GetByID visit' i m s' = Inr j'"
  by (metis inst_GetByID_Inr inst_GetByID_known)

text \<open>An instance for the examples.\<close>

definition some_instance :: kyma_instance where
  "some_instance = \<lparr>inst_ID = ''i'', inst_RuntimeID = ''r'', inst_GlobalAccountID = ''ga'', SubscriptionGlobalAccountID = [],
     inst_SubAccountID = ''sub'', inst_ServiceID = ''s'', ServiceName = ''kymaruntime'', ServicePlanID = ''p'', ServicePlanName = [],
     inst_DashboardURL = ''https://dashboard'', inst_Parameters = some_parameters, ProviderRegion = [], inst_Details = no_details,
     inst_CreatedAt = 0, inst_UpdatedAt = 0, DeletedAt = 0, ExpiredAt = None, inst_Version = 0, inst_Provider = ''Azure'',
     Reconcilable = False\<rparr>"

lemma some_instance_simps [simp]:
  "inst_ID some_instance = ''i''" "ExpiredAt some_instance = None" "inst_Version some_instance = 0"
  "ServicePlanID some_instance = ''p''" "inst_Parameters some_instance = some_parameters"
  by (simp_all add: some_instance_def)

lemma some_operation_simps [simp]:
  "op_ID some_operation = ''op''" "InstanceID some_operation = ''i''" "op_Type some_operation = OperationTypeProvision"
  "CreatedAt some_operation = 0" "State some_operation = InProgress" "ProvisioningParameters some_operation = some_parameters"
  "Version some_operation = 0"
  by (simp_all add: some_operation_def)

end
