(* ===== verification/Broker_Endpoints.thy ===== *)
theory Broker_Endpoints
  imports Instance_Storage
begin

text \<open>
  The endpoints of the broker that delete an instance and report on it
  (\<^verbatim>\<open>src/internal/broker/instance_deprovision.go\<close>, \<^verbatim>\<open>instance_last_operation.go\<close>, \<^verbatim>\<open>instance_get.go\<close>,
  \<^verbatim>\<open>response_labels.go\<close>), on the in-memory storage.

  An endpoint is a function of the state of the broker, which is the two storages and the ids that were
  added to the queues.  Arguments are the order in which maps are visited, the current time and the id
  that \<open>uuid.New\<close> yields.  Log lines are left out.
\<close>

section \<open>State and results\<close>

record broker =
  ops :: memory_operations
  insts :: inst_map
  provisioningQueue :: "string list"
  deprovisioningQueue :: "string list"
  updatingQueue :: "string list"

text \<open>
  The errors of the endpoints: a failure response with error, status code and action, a plain error, the fixed
  response that asynchronous calls are required, and an error of the storage handed on.
\<close>

datatype api_error =
    FailureResponse string int string
  | PlainError string
  | ErrAsyncRequired
  | StorageError go_error

text \<open>
  What the code assumes of ids and clocks: the new id is not in use, and the time is later than the
  creation of every operation of the instance.
\<close>

definition fresh_id :: "string \<Rightarrow> broker \<Rightarrow> bool" where
  "fresh_id k b = (map_of (operations (ops b)) k = None)"

definition later_than_all :: "int \<Rightarrow> string \<Rightarrow> broker \<Rightarrow> bool" where
  "later_than_all now instanceID b = (\<forall>op \<in> main_operations (ops b). InstanceID op = instanceID \<longrightarrow> CreatedAt op < now)"

section \<open>Plans\<close>

definition TrialPlanID :: string where "TrialPlanID = ''7d55d31d-35ae-4438-bf13-6ffdfa107d9f''"
definition OwnClusterPlanID :: string where "OwnClusterPlanID = ''03e3cb66-a4c6-4c6a-b4b0-5d42224debea''"
definition AzureLitePlanID :: string where "AzureLitePlanID = ''8cb22518-aa26-44c5-91a0-e669ec9bf443''"

definition IsTrialPlan :: "string \<Rightarrow> bool" where "IsTrialPlan planID = (planID = TrialPlanID)"

definition IsOwnClusterPlan :: "string \<Rightarrow> bool" where "IsOwnClusterPlan planID = (planID = OwnClusterPlanID)"

definition PlanNamesMapping :: "(string \<times> string) list" where
  "PlanNamesMapping =
     [(''ca6e5357-707f-4565-bbbd-b3ab732597c6'', ''gcp''), (''361c511f-f939-4621-b228-d0fb79a1fe15'', ''aws''),
      (''4deee563-e5ec-4731-b9b1-53b42d855f0c'', ''azure''), (AzureLitePlanID, ''azure_lite''), (TrialPlanID, ''trial''),
      (''03b812ac-c991-4528-b5bd-08b303523a63'', ''sap-converged-cloud''), (''b1a5764e-2ea1-4f95-94c0-2b4538b37b55'', ''free''),
      (OwnClusterPlanID, ''own_cluster''), (''5cb3d976-b85c-42ea-a636-79cadda109a9'', ''preview'')]"

definition plan_name :: "string \<Rightarrow> string" where
  "plan_name planID = (case map_of PlanNamesMapping planID of Some t \<Rightarrow> t | None \<Rightarrow> [])"

section \<open>Deprovisioning\<close>

record deprovision_spec =
  dep_IsAsync :: bool
  dep_OperationData :: string

text \<open>Save a new operation and queue it; both endpoints and the suspension do this.\<close>

definition enqueue_deprovisioning :: "operation \<Rightarrow> broker \<Rightarrow> (go_error + unit) \<times> broker" where
  "enqueue_deprovisioning op b =
     (case InsertDeprovisioningOperation op (ops b) of
        (Inl e, s) \<Rightarrow> (Inl e, b\<lparr>ops := s\<rparr>)
      | (Inr _, s) \<Rightarrow> (Inr (), b\<lparr>ops := s, deprovisioningQueue := deprovisioningQueue b @ [op_ID op]\<rparr>))"

definition create_deprovisioning ::
  "string option \<Rightarrow> string \<Rightarrow> int \<Rightarrow> kyma_instance \<Rightarrow> broker \<Rightarrow> (api_error + deprovision_spec) \<times> broker" where
  "create_deprovisioning userAgent operationID now i b =
     (let op0 = NewDeprovisioningOperationWithID operationID now i;
          op = (case userAgent of Some v \<Rightarrow> op0\<lparr>UserAgent := v\<rparr> | None \<Rightarrow> op0)
      in case enqueue_deprovisioning op b of
           (Inl e, b1) \<Rightarrow> (Inl (PlainError ''cannot save operation''), b1)
         | (Inr _, b1) \<Rightarrow> (Inr \<lparr>dep_IsAsync = True, dep_OperationData = operationID\<rparr>, b1))"

definition Deprovision ::
  "visit \<Rightarrow> string option \<Rightarrow> string \<Rightarrow> int \<Rightarrow> string \<Rightarrow> broker \<Rightarrow> (api_error + deprovision_spec) \<times> broker" where
  "Deprovision visit userAgent operationID now instanceID b =
     (case inst_GetByID visit instanceID (insts b) (ops b) of
        Inl err \<Rightarrow>
          if IsNotFound err then (Inr \<lparr>dep_IsAsync = False, dep_OperationData = []\<rparr>, b)
          else (Inl (FailureResponse ''unable to get instance from the storage'' 500
                 (''could not deprovision runtime, instanceID '' @ instanceID)), b)
      | Inr i \<Rightarrow>
          (case GetDeprovisioningOperationByInstanceID visit instanceID (ops b) of
             Inl errStorage \<Rightarrow>
               if \<not> IsNotFound errStorage then (Inl (PlainError ''cannot get existing operation from storage''), b)
               else create_deprovisioning userAgent operationID now i b
           | Inr existing \<Rightarrow>
               if \<not> Temporary existing \<and> State existing \<noteq> Failed \<and> State existing \<noteq> Succeeded
               then (Inr \<lparr>dep_IsAsync = True, dep_OperationData = op_ID existing\<rparr>, b)
               else if \<not> Temporary existing \<and> State existing = Succeeded \<and> ExcutedButNotCompleted existing = []
               then (Inr \<lparr>dep_IsAsync = True, dep_OperationData = op_ID existing\<rparr>, b)
               else create_deprovisioning userAgent operationID now i b))"

section \<open>The last operation\<close>

record last_operation =
  lo_State :: string
  lo_Description :: string

definition mapStateToOSBCompliantState :: "string \<Rightarrow> string" where
  "mapStateToOSBCompliantState opState =
     (if opState = Pending \<or> opState = Retrying then InProgress
      else if opState = Canceled \<or> opState = Canceling then Succeeded
      else opState)"

definition status_of :: "go_error \<Rightarrow> int" where
  "status_of e = (if IsNotFound e then 404 else 500)"

definition LastOperation :: "visit \<Rightarrow> string \<Rightarrow> string \<Rightarrow> broker \<Rightarrow> api_error + last_operation" where
  "LastOperation visit instanceID operationData b =
     (if operationData = []
      then (case GetLastOperation visit instanceID (ops b) of
              Inl e \<Rightarrow> Inl (FailureResponse (error_message e) (status_of e) ''while getting last operation from storage'')
            | Inr op \<Rightarrow> Inr \<lparr>lo_State = mapStateToOSBCompliantState (State op), lo_Description = Description op\<rparr>)
      else (case GetOperationByID operationData (ops b) of
              Inl e \<Rightarrow> Inl (FailureResponse (error_message e) (status_of e) ''while getting operation from storage'')
            | Inr op \<Rightarrow>
                if InstanceID op \<noteq> instanceID
                then Inl (FailureResponse ''operation exists, but instanceID is invalid'' 400 ''operation exists, but instanceID is invalid'')
                else Inr \<lparr>lo_State = mapStateToOSBCompliantState (State op), lo_Description = Description op\<rparr>))"

section \<open>Labels\<close>

text \<open>\<open>strings.TrimLeft\<close> drops leading characters as long as they are in the given set.\<close>

definition TrimLeft :: "string \<Rightarrow> string \<Rightarrow> string" where
  "TrimLeft s cutset = dropWhile (\<lambda>c. c \<in> set cutset) s"

definition ResponseLabels :: "operation \<Rightarrow> kyma_instance \<Rightarrow> string \<Rightarrow> bool \<Rightarrow> (string \<times> string) list" where
  "ResponseLabels op i brokerURL0 enableKubeconfigLabel =
     (let brokerURL = TrimLeft (TrimLeft brokerURL0 ''https://'') ''http://'' in
      [(''Name'', Name (Parameters (ProvisioningParameters op)))] @
      (if enableKubeconfigLabel \<and> \<not> IsOwnClusterPlan (ServicePlanID i)
       then [(''KubeconfigURL'', ''https://'' @ brokerURL @ ''/kubeconfig/'' @ inst_ID i)] else []))"

definition hour :: int where "hour = 3600 * 1000000000"

definition expireDuration :: int where "expireDuration = 14 * 24 * hour"

text \<open>\<open>Round\<close> on a duration and \<open>math.Round\<close> on a quotient: halves away from zero.\<close>

definition round_to :: "int \<Rightarrow> int \<Rightarrow> int" where
  "round_to d m = (if d \<ge> 0 then (2 * d + m) div (2 * m) else - ((2 * - d + m) div (2 * m)))"

definition calculateHoursLeft :: "int \<Rightarrow> int \<Rightarrow> int" where
  "calculateHoursLeft now expireTime = round_to (expireTime - now) hour"

text \<open>\<open>%2.f\<close>: no fraction, at least two characters.\<close>

definition two_wide :: "int \<Rightarrow> string" where
  "two_wide d = (let t = show_int d in replicate (2 - length t) CHR '' '' @ t)"

definition expiredInfo :: string where
  "expiredInfo = ''Your cluster has expired. It is not operational and the link to the Dashboard is no longer valid.'' @
     '' To continue using Kyma, you must create a new cluster. To learn how, follow the link to the trial documentation.''"

definition ResponseLabelsWithExpirationInfo ::
  "int \<Rightarrow> operation \<Rightarrow> kyma_instance \<Rightarrow> string \<Rightarrow> string \<Rightarrow> bool \<Rightarrow> (string \<times> string) list" where
  "ResponseLabelsWithExpirationInfo now op i brokerURL trialDocsURL enableKubeconfigLabel =
     (let labels = ResponseLabels op i brokerURL enableKubeconfigLabel;
          hoursLeft = calculateHoursLeft now (inst_CreatedAt i + expireDuration)
      in if IsExpired i
         then assoc_set ''Trial documentation'' trialDocsURL
                (assoc_set ''Trial expiration details'' expiredInfo (assoc_del ''KubeconfigURL'' labels))
         else
           (let daysLeft = round_to (max 0 hoursLeft) 24;
                notice = (if daysLeft = 0 then ''today'' else if daysLeft = 1 then ''tomorrow''
                          else ''in '' @ two_wide daysLeft @ '' days'')
            in assoc_set ''Trial expiration details'' (''Your cluster expires '' @ notice @ ''.'') labels))"

section \<open>Reading an instance\<close>

record endpoint_config =
  cfg_URL :: string
  EnableKubeconfigURLLabel :: bool
  ShowTrialExpirationInfo :: bool
  SubaccountsIdsToShowTrialExpirationInfo :: string
  TrialDocsURL :: string
  OnlySingleTrialPerGA :: bool

record get_spec =
  spec_ServiceID :: string
  spec_PlanID :: string
  spec_DashboardURL :: string
  spec_Parameters :: provisioning_parameters
  spec_Labels :: "(string \<times> string) list"

definition prepareParametersToReturn :: "provisioning_parameters \<Rightarrow> provisioning_parameters" where
  "prepareParametersToReturn p =
     p\<lparr>Parameters := (Parameters p)\<lparr>Kubeconfig := []\<rparr>, ErsContext := (ErsContext p)\<lparr>SMOperatorCredentials := None\<rparr>\<rparr>"

definition GetInstance :: "endpoint_config \<Rightarrow> visit \<Rightarrow> int \<Rightarrow> string \<Rightarrow> broker \<Rightarrow> api_error + get_spec" where
  "GetInstance cfg visit now instanceID b =
     (let gone = ''instance with instanceID '' @ instanceID @ '' does not exist'';
          failed = ''failed to get instanceID '' @ instanceID;
          no_op = ''failed to get operation for instanceID '' @ instanceID
      in case inst_GetByID visit instanceID (insts b) (ops b) of
           Inl err \<Rightarrow>
             if \<not> IsNotFound err then Inl (FailureResponse failed 500 failed) else Inl (FailureResponse gone 404 gone)
         | Inr i \<Rightarrow>
             (case GetProvisioningOperationByInstanceID visit instanceID (ops b) of
                Inl err \<Rightarrow> Inl (FailureResponse no_op 404 no_op)
              | Inr op \<Rightarrow>
                  if State op = InProgress \<or> State op = Failed
                  then (let err = ''provisioning of instanceID '' @ instanceID @ '' '' @ State op in Inl (FailureResponse err 404 err))
                  else if DeletedAt i \<noteq> 0 then Inl (FailureResponse gone 404 gone)
                  else
                    (let labels =
                       (if ShowTrialExpirationInfo cfg \<and> ServicePlanID i = TrialPlanID \<and>
                           (SubaccountsIdsToShowTrialExpirationInfo cfg = ''all'' \<or>
                            str_includes (SubaccountsIdsToShowTrialExpirationInfo cfg) (inst_SubAccountID i))
                        then ResponseLabelsWithExpirationInfo now op i (cfg_URL cfg) (TrialDocsURL cfg) (EnableKubeconfigURLLabel cfg)
                        else ResponseLabels op i (cfg_URL cfg) (EnableKubeconfigURLLabel cfg))
                     in Inr \<lparr>spec_ServiceID = inst_ServiceID i, spec_PlanID = ServicePlanID i,
                          spec_DashboardURL = inst_DashboardURL i,
                          spec_Parameters = prepareParametersToReturn (inst_Parameters i), spec_Labels = labels\<rparr>)))"

section \<open>New deprovisionings\<close>

lemma main_operations_insert:
  assumes "InsertOperation op s = (Inr u, s')"
  shows "main_operations s' = insert op (main_operations s)"
  using assms
  by (auto simp: InsertOperation_def insert_new_def main_operations_def map_of_eq_None_iff assoc_set_fresh
    split: sum.splits option.splits)

lemma enqueue_deprovisioning_fresh:
  assumes "fresh_id (op_ID op) b"
  obtains s where "enqueue_deprovisioning op b = (Inr (), b\<lparr>ops := s, deprovisioningQueue := deprovisioningQueue b @ [op_ID op]\<rparr>)"
    and "InsertOperation op (ops b) = (Inr (), s)"
    and "main_operations s = insert op (main_operations (ops b))"
proof -
  obtain s where s: "InsertOperation op (ops b) = (Inr (), s)"
    using assms by (auto simp: fresh_id_def InsertOperation_def insert_new_def)
  then have "enqueue_deprovisioning op b = (Inr (), b\<lparr>ops := s, deprovisioningQueue := deprovisioningQueue b @ [op_ID op]\<rparr>)"
    by (simp add: enqueue_deprovisioning_def InsertDeprovisioningOperation_def)
  with s show thesis using main_operations_insert [OF s] that by blast
qed

definition distinct_times :: "string \<Rightarrow> broker \<Rightarrow> bool" where
  "distinct_times instanceID b = inj_on CreatedAt {op \<in> main_operations (ops b). InstanceID op = instanceID}"

text \<open>Without ties the latest deprovisioning does not depend on the order of the visit.\<close>

lemma deprovisioning_lookup_unique:
  assumes "visits_all v" "visits_all v'" "distinct_times i b"
    and "GetDeprovisioningOperationByInstanceID v i (ops b) = Inr op"
  shows "GetDeprovisioningOperationByInstanceID v' i (ops b) = Inr op"
proof -
  note found = dep.lookup_found [OF assms(1,4)]
  have "GetDeprovisioningOperationByInstanceID v' (InstanceID op) (ops b) = Inr op"
  proof (rule dep.lookup_newest [OF assms(2)])
    fix other
    assume "other \<in> main_operations (ops b)" "InstanceID other = InstanceID op" "op_Type other = OperationTypeDeprovision" "other \<noteq> op"
    with found have "CreatedAt other \<le> CreatedAt op" "CreatedAt other \<noteq> CreatedAt op"
      using assms(3) by (auto simp: distinct_times_def inj_on_def)
    then show "CreatedAt other < CreatedAt op" by simp
  qed (use found in auto)
  with found show ?thesis by simp
qed

lemma created_deprovisioning:
  assumes "fresh_id k b" "inst_ID i = iid" "later_than_all now iid b" "create_deprovisioning ua k now i b = (Inr spec, b1)"
  obtains op where "spec = \<lparr>dep_IsAsync = True, dep_OperationData = k\<rparr>" "insts b1 = insts b" "op_ID op = k"
    "State op = Pending" "\<not> Temporary op" "deprovisioningQueue b1 = deprovisioningQueue b @ [k]"
    "\<And>v. visits_all v \<Longrightarrow> GetDeprovisioningOperationByInstanceID v iid (ops b1) = Inr op"
proof -
  define op where "op = (case ua of Some v \<Rightarrow> (NewDeprovisioningOperationWithID k now i)\<lparr>UserAgent := v\<rparr>
    | None \<Rightarrow> NewDeprovisioningOperationWithID k now i)"
  have op: "op_ID op = k" "State op = Pending" "\<not> Temporary op" "InstanceID op = iid" "CreatedAt op = now"
      "op_Type op = OperationTypeDeprovision"
    using assms(2) by (simp_all add: op_def split: option.split)
  obtain s where s: "enqueue_deprovisioning op b = (Inr (), b\<lparr>ops := s, deprovisioningQueue := deprovisioningQueue b @ [op_ID op]\<rparr>)"
      "main_operations s = insert op (main_operations (ops b))"
    using enqueue_deprovisioning_fresh [of op b] assms(1) op(1) by metis
  from assms(4) s(1) have b1: "b1 = b\<lparr>ops := s, deprovisioningQueue := deprovisioningQueue b @ [op_ID op]\<rparr>"
    and "spec = \<lparr>dep_IsAsync = True, dep_OperationData = k\<rparr>"
    by (simp_all add: create_deprovisioning_def op_def [symmetric])
  moreover have "GetDeprovisioningOperationByInstanceID v iid (ops b1) = Inr op" if "visits_all v" for v
    using dep.lookup_inserted [OF that s(2) op(6)] op assms(3) by (simp add: b1 later_than_all_def)
  ultimately show thesis using op by (intro that [of op]) simp_all
qed

lemma Deprovision_cases:
  assumes "Deprovision visit ua k now iid b = (Inr spec, b1)"
  obtains (unknown) "map_of (insts b) iid = None" "b1 = b" "spec = \<lparr>dep_IsAsync = False, dep_OperationData = []\<rparr>"
    | (ongoing) i existing where "b1 = b" "inst_GetByID visit iid (insts b) (ops b) = Inr i"
        "spec = \<lparr>dep_IsAsync = True, dep_OperationData = op_ID existing\<rparr>"
        "GetDeprovisioningOperationByInstanceID visit iid (ops b) = Inr existing" "\<not> Temporary existing"
        "State existing \<noteq> Failed" "State existing = Succeeded \<Longrightarrow> ExcutedButNotCompleted existing = []"
    | (created) i where "inst_GetByID visit iid (insts b) (ops b) = Inr i"
        "create_deprovisioning ua k now i b = (Inr spec, b1)"
proof (cases "inst_GetByID visit iid (insts b) (ops b)")
  case (Inl e)
  have none: "map_of (insts b) iid = None"
  proof (rule ccontr)
    assume "map_of (insts b) iid \<noteq> None"
    then obtain i where "map_of (insts b) iid = Some i" by blast
    from inst_GetByID_known [OF this, of visit "ops b"] Inl show False by simp
  qed
  with Inl inst_GetByID_unknown [OF none, of visit "ops b"] have "IsNotFound e" by simp
  with Inl assms have "b1 = b" "spec = \<lparr>dep_IsAsync = False, dep_OperationData = []\<rparr>" by (simp_all add: Deprovision_def)
  with none show thesis by (rule unknown)
next
  case (Inr i)
  show thesis
  proof (cases "GetDeprovisioningOperationByInstanceID visit iid (ops b)")
    case (Inl e)
    with Inr assms have "create_deprovisioning ua k now i b = (Inr spec, b1)"
      by (simp add: Deprovision_def split: if_splits)
    with Inr show thesis by (rule created)
  next
    case (Inr existing)
    note i = \<open>inst_GetByID visit iid (insts b) (ops b) = Inr i\<close>
    show thesis
    proof (cases "\<not> Temporary existing \<and> State existing \<noteq> Failed \<and> (State existing = Succeeded \<longrightarrow> ExcutedButNotCompleted existing = [])")
      case True
      with i Inr assms have "b1 = b" "spec = \<lparr>dep_IsAsync = True, dep_OperationData = op_ID existing\<rparr>"
        by (simp_all add: Deprovision_def split: if_splits)
      from ongoing [OF this(1) i this(2) Inr] True show thesis by blast
    next
      case False
      with i Inr assms have "create_deprovisioning ua k now i b = (Inr spec, b1)"
        by (simp add: Deprovision_def op_states split: if_splits)
      with i show thesis by (rule created)
    qed
  qed
qed

lemma Deprovision_ongoing:
  assumes "inst_GetByID visit iid (insts b) (ops b) = Inr i"
    and "GetDeprovisioningOperationByInstanceID visit iid (ops b) = Inr existing" "\<not> Temporary existing"
    and "State existing \<noteq> Failed" "State existing = Succeeded \<Longrightarrow> ExcutedButNotCompleted existing = []"
  shows "Deprovision visit ua k now iid b = (Inr \<lparr>dep_IsAsync = True, dep_OperationData = op_ID existing\<rparr>, b)"
  using assms by (auto simp: Deprovision_def)

text \<open>
  Deprovisioning is idempotent: once a request has been accepted, the same
  request made again, at any time and with any new id, is answered with the same operation and changes nothing,
  as long as that operation is not finished.
\<close>

theorem deprovisioning_is_idempotent:
  assumes "visits_all visit" "visits_all visit'" and "insts_ok (insts b)" and "distinct_times iid b"
    and "fresh_id k b" and "later_than_all now iid b"
    and "Deprovision visit ua k now iid b = (Inr spec, b1)"
  shows "Deprovision visit' ua' k' now' iid b1 = (Inr spec, b1)"
  using assms(7)
proof (cases rule: Deprovision_cases)
  case unknown
  with inst_GetByID_unknown [of "insts b" iid visit' "ops b"] show ?thesis by (auto simp: Deprovision_def)
next
  case (ongoing i existing)
  obtain j where "inst_GetByID visit' iid (insts b) (ops b) = Inr j" using inst_GetByID_any [OF ongoing(2)] by blast
  with ongoing deprovisioning_lookup_unique [OF assms(1,2,4) ongoing(4)] show ?thesis
    by (simp add: Deprovision_ongoing)
next
  case (created i)
  have "inst_ID i = iid" using created(1) assms(3) by (metis inst_GetByID_Inr insts_ok_ID)
  from created_deprovisioning [OF assms(5) this assms(6) created(2)] obtain op where
    op: "spec = \<lparr>dep_IsAsync = True, dep_OperationData = k\<rparr>" "insts b1 = insts b" "op_ID op = k" "State op = Pending" "\<not> Temporary op"
      "GetDeprovisioningOperationByInstanceID visit' iid (ops b1) = Inr op"
    using assms(2) by metis
  obtain j where "inst_GetByID visit' iid (insts b1) (ops b1) = Inr j"
    using inst_GetByID_any [OF created(1), of visit' "ops b1"] op(2) by auto
  from Deprovision_ongoing [OF this op(6)] op show ?thesis by (simp add: op_states)
qed

definition some_broker :: broker where
  "some_broker = \<lparr>ops = some_store, insts = [(''i'', some_instance)], provisioningQueue = [], deprovisioningQueue = [],
     updatingQueue = []\<rparr>"

lemma some_broker_simps [simp]:
  "main_operations (ops some_broker) = {some_operation}" "all_operations (ops some_broker) = {some_operation}"
  "insts some_broker = [(''i'', some_instance)]" "insts_ok (insts some_broker)" "store_ok (ops some_broker)"
  "operations (ops some_broker) = [(''op'', some_operation)]"
  by (simp_all add: some_broker_def some_store_def main_operations_def all_operations_def insts_ok_def store_ok_def map_ok_def)

lemma visits_all_id [simp]: "visits_all (\<lambda>m. m)"
  by (simp add: visits_all_def)

theorem deprovisioning_is_idempotent_witness:
  "Deprovision (\<lambda>m. m) None ''d2'' 9 ''i'' (snd (Deprovision (\<lambda>m. m) None ''d'' 5 ''i'' some_broker)) =
   (Inr \<lparr>dep_IsAsync = True, dep_OperationData = ''d''\<rparr>, snd (Deprovision (\<lambda>m. m) None ''d'' 5 ''i'' some_broker))"
proof (rule deprovisioning_is_idempotent [where visit = "\<lambda>m. m" and ua = None and k = "''d''" and now = 5 and b = some_broker])
  obtain j where "inst_GetByID (\<lambda>m. m) ''i'' (insts some_broker) (ops some_broker) = Inr j"
    by (metis inst_GetByID_known map_of_Cons_code(2) some_broker_simps(3))
  moreover obtain e where "GetDeprovisioningOperationByInstanceID (\<lambda>m. m) ''i'' (ops some_broker) = Inl e" "IsNotFound e"
    by (rule dep.lookup_none [of "\<lambda>m. m" "ops some_broker" "''i''"]) auto
  ultimately show "Deprovision (\<lambda>m. m) None ''d'' 5 ''i'' some_broker =
      (Inr \<lparr>dep_IsAsync = True, dep_OperationData = ''d''\<rparr>, snd (Deprovision (\<lambda>m. m) None ''d'' 5 ''i'' some_broker))"
    by (simp add: Deprovision_def create_deprovisioning_def enqueue_deprovisioning_def InsertDeprovisioningOperation_def
      InsertOperation_def insert_new_def)
qed (auto simp: distinct_times_def fresh_id_def later_than_all_def inj_on_def insts_ok_def)

section \<open>What the other endpoints report\<close>

definition known_states :: "string set" where
  "known_states = {Pending, InProgress, Canceling, Retrying, Canceled, Succeeded, Failed}"

text \<open>
  The endpoint for the last operation reports only the three states that the
  Open Service Broker API knows, about an operation of the instance asked for, and about the named one if
  one is named; it says failed exactly for a failed operation and in progress exactly for one that is waiting,
  running or retried.  An operation that is being canceled is therefore reported as succeeded.
\<close>

theorem last_operation_reports_osb_states:
  assumes "visits_all visit" "store_ok (ops b)"
    and "\<forall>op \<in> all_operations (ops b). State op \<in> known_states"
    and "LastOperation visit instanceID operationData b = Inr lo"
  shows "lo_State lo \<in> {InProgress, Succeeded, Failed} \<and>
         (\<exists>op \<in> all_operations (ops b). InstanceID op = instanceID \<and> (operationData \<noteq> [] \<longrightarrow> op_ID op = operationData) \<and>
            (lo_State lo = Failed \<longleftrightarrow> State op = Failed) \<and>
            (lo_State lo = InProgress \<longleftrightarrow> State op \<in> {Pending, InProgress, Retrying}))"
proof -
  obtain op where op: "op \<in> all_operations (ops b)" "InstanceID op = instanceID" "operationData \<noteq> [] \<longrightarrow> op_ID op = operationData"
      "lo_State lo = mapStateToOSBCompliantState (State op)"
  proof (cases "operationData = []")
    case True
    with assms(4) obtain op where "GetLastOperation visit instanceID (ops b) = Inr op"
        "lo_State lo = mapStateToOSBCompliantState (State op)"
      by (auto simp: LastOperation_def split: sum.splits)
    with last.lookup_found [OF assms(1)] True show thesis by (intro that [of op]) auto
  next
    case False
    with assms(4) obtain op where o: "GetOperationByID operationData (ops b) = Inr op" "InstanceID op = instanceID"
        "lo_State lo = mapStateToOSBCompliantState (State op)"
      by (auto simp: LastOperation_def split: sum.splits if_splits)
    then have "(operationData, op) \<in> set (operations (ops b)) \<union> set (upgradeClusterOperations (ops b)) \<union> set (updateOperations (ops b))"
      by (auto simp: GetOperationByID_def dest: map_of_SomeD split: option.splits)
    then have "op \<in> all_operations (ops b)" "op_ID op = operationData"
      using assms(2) by (force simp: all_operations_def, auto simp: store_ok_def map_ok_def)
    with o show thesis by (intro that [of op]) simp_all
  qed
  with assms(3) show ?thesis
    by (intro conjI bexI [of _ op]) (auto simp: known_states_def mapStateToOSBCompliantState_def op_states)
qed

theorem last_operation_reports_osb_states_witness:
  "\<exists>op \<in> all_operations (ops some_broker). InstanceID op = ''i'' \<and> State op \<in> {Pending, InProgress, Retrying}"
proof -
  have "LastOperation (\<lambda>m. m) ''i'' ''op'' some_broker = Inr \<lparr>lo_State = InProgress, lo_Description = Description some_operation\<rparr>"
    by (simp add: LastOperation_def GetOperationByID_def mapStateToOSBCompliantState_def op_states)
  from last_operation_reports_osb_states [OF visits_all_id _ _ this] show ?thesis by (simp add: known_states_def)
qed

text \<open>
  What the broker tells about an instance never contains its kubeconfig or the credentials of
  the service manager, and it tells something only of a stored instance that is not deleted and whose latest
  provisioning neither runs nor failed.
\<close>

theorem reading_hides_secrets:
  assumes "visits_all visit" "GetInstance cfg visit now instanceID b = Inr spec"
  shows "Kubeconfig (Parameters (spec_Parameters spec)) = [] \<and>
         SMOperatorCredentials (ErsContext (spec_Parameters spec)) = None \<and>
         (\<exists>i. map_of (insts b) instanceID = Some i \<and> DeletedAt i = 0 \<and> spec_PlanID spec = ServicePlanID i) \<and>
         (\<exists>op \<in> main_operations (ops b). InstanceID op = instanceID \<and> op_Type op = OperationTypeProvision \<and>
            State op \<notin> {InProgress, Failed})"
proof -
  from assms(2) obtain j op where j: "inst_GetByID visit instanceID (insts b) (ops b) = Inr j"
      and op: "GetProvisioningOperationByInstanceID visit instanceID (ops b) = Inr op" "State op \<notin> {InProgress, Failed}"
      and spec: "DeletedAt j = 0" "spec_PlanID spec = ServicePlanID j" "spec_Parameters spec = prepareParametersToReturn (inst_Parameters j)"
    by (auto simp: GetInstance_def Let_def split: sum.splits if_splits)
  from j obtain i where "map_of (insts b) instanceID = Some i" "DeletedAt j = DeletedAt i" "ServicePlanID j = ServicePlanID i"
    by (rule inst_GetByID_Inr)
  with spec prov.lookup_found [OF assms(1) op(1)] op(2) show ?thesis by (auto simp: prepareParametersToReturn_def)
qed

theorem reading_hides_secrets_witness:
  "\<exists>spec. GetInstance \<lparr>cfg_URL = ''https://keb'', EnableKubeconfigURLLabel = True, ShowTrialExpirationInfo = False,
       SubaccountsIdsToShowTrialExpirationInfo = [], TrialDocsURL = [], OnlySingleTrialPerGA = True\<rparr> (\<lambda>m. m) 7 ''i''
       (some_broker\<lparr>ops := some_store\<lparr>operations := [(''op'', some_operation\<lparr>State := Succeeded\<rparr>)]\<rparr>\<rparr>) = Inr spec \<and>
     Kubeconfig (Parameters (spec_Parameters spec)) = []"
proof -
  let ?cfg = "\<lparr>cfg_URL = ''https://keb'', EnableKubeconfigURLLabel = True, ShowTrialExpirationInfo = False,
       SubaccountsIdsToShowTrialExpirationInfo = [], TrialDocsURL = [], OnlySingleTrialPerGA = True\<rparr>"
  let ?b = "some_broker\<lparr>ops := some_store\<lparr>operations := [(''op'', some_operation\<lparr>State := Succeeded\<rparr>)]\<rparr>\<rparr>"
  obtain spec where "GetInstance ?cfg (\<lambda>m. m) 7 ''i'' ?b = Inr spec"
    by (simp add: GetInstance_def inst_GetByID_def GetLastOperation_def GetProvisioningOperationByInstanceID_def first_of_def
      of_instance_def newest_first_def some_store_def some_broker_def op_states some_instance_def)
  with reading_hides_secrets [OF visits_all_id this] show ?thesis by blast
qed

lemma TrimLeft_https: "TrimLeft (TrimLeft (''https://'' @ host) ''https://'') ''http://'' = dropWhile (\<lambda>c. c \<in> set ''https:/'') host"
proof -
  have "TrimLeft (''https://'' @ host) ''https://'' = dropWhile (\<lambda>c. c \<in> set ''https:/'') host"
    by (simp add: TrimLeft_def insert_commute)
  moreover have "TrimLeft (dropWhile (\<lambda>c. c \<in> set ''https:/'') host) ''http://'' = dropWhile (\<lambda>c. c \<in> set ''https:/'') host"
    unfolding TrimLeft_def by (induction host) auto
  ultimately show ?thesis by simp
qed

text \<open>
  The link to the kubeconfig in the labels names the host of the broker only when that host does not
  begin with one of the characters h, t, p, s, colon and slash: the code removes leading characters of that set, not the
  scheme, so a broker at \<open>https://skr.example\<close> hands out links to another host.
\<close>

theorem kubeconfig_link_host:
  "map_of (ResponseLabels op i (''https://'' @ host) True) ''KubeconfigURL'' =
     (if IsOwnClusterPlan (ServicePlanID i) then None
      else Some (''https://'' @ dropWhile (\<lambda>c. c \<in> set ''https:/'') host @ ''/kubeconfig/'' @ inst_ID i)) \<and>
   (dropWhile (\<lambda>c. c \<in> set ''https:/'') host = host \<longleftrightarrow> host = [] \<or> hd host \<notin> set ''https:/'')"
proof
  show "dropWhile (\<lambda>c. c \<in> set ''https:/'') host = host \<longleftrightarrow> host = [] \<or> hd host \<notin> set ''https:/''"
    by (rule dropWhile_eq_self_iff)
qed (use TrimLeft_https [of host] in \<open>simp add: ResponseLabels_def del: set_simps\<close>)

end
