(* ===== verification/Suspension.thy ===== *)
theory Suspension
  imports Broker_Endpoints
begin

text \<open>
  Suspending and resuming trial instances when the flag \<open>Active\<close> of the context changes
  (\<^verbatim>\<open>src/internal/suspension/handler.go\<close>), and their expiration (\<^verbatim>\<open>src/internal/expiration/handler.go\<close>).
  A suspension is a deprovisioning marked as temporary.
\<close>

section \<open>Changing the flag\<close>

definition start_suspension :: "string \<Rightarrow> int \<Rightarrow> kyma_instance \<Rightarrow> broker \<Rightarrow> go_error option \<times> broker" where
  "start_suspension operationID now i b =
     (case enqueue_deprovisioning (NewSuspensionOperationWithID operationID now i) b of
        (Inl e, b1) \<Rightarrow> (Some e, b1)
      | (Inr _, b1) \<Rightarrow> (None, b1))"

definition suspend :: "visit \<Rightarrow> string \<Rightarrow> int \<Rightarrow> kyma_instance \<Rightarrow> broker \<Rightarrow> go_error option \<times> broker" where
  "suspend visit operationID now i b =
     (case GetDeprovisioningOperationByInstanceID visit (inst_ID i) (ops b) of
        Inl err \<Rightarrow> if \<not> IsNotFound err then (Some err, b) else start_suspension operationID now i b
      | Inr lastDeprovisioning \<Rightarrow>
          if State lastDeprovisioning = InProgress \<or> State lastDeprovisioning = Pending then (None, b)
          else start_suspension operationID now i b)"

definition unsuspension :: "string \<Rightarrow> int \<Rightarrow> kyma_instance \<Rightarrow> operation" where
  "unsuspension operationID now i =
     (NewProvisioningOperationWithID operationID now (inst_ID i) (inst_Parameters i))\<lparr>
       InstanceDetails := (GetInstanceDetails i)\<lparr>RuntimeID := []\<rparr>, State := Pending, DashboardURL := inst_DashboardURL i\<rparr>"

definition unsuspend :: "string \<Rightarrow> int \<Rightarrow> kyma_instance \<Rightarrow> broker \<Rightarrow> go_error option \<times> broker" where
  "unsuspend operationID now i b =
     (if IsExpired i then (None, b)
      else (case InsertProvisioningOperation (unsuspension operationID now i) (ops b) of
              (Inl e, s) \<Rightarrow> (Some e, b\<lparr>ops := s\<rparr>)
            | (Inr _, s) \<Rightarrow> (None, b\<lparr>ops := s, provisioningQueue := provisioningQueue b @ [operationID]\<rparr>)))"

text \<open>
  Whether something was triggered, and the error.  The latest deprovisioning is read first; it is
  dereferenced without a check when an inactive instance is to be suspended again.
\<close>

definition triggered :: "go_error option \<times> broker \<Rightarrow> (bool \<times> api_error option) go_call \<times> broker" where
  "triggered r = (Returned (True, map_option StorageError (fst r)), snd r)"

definition handleContextChange ::
  "visit \<Rightarrow> string \<Rightarrow> int \<Rightarrow> ers_context \<Rightarrow> kyma_instance \<Rightarrow> broker \<Rightarrow> (bool \<times> api_error option) go_call \<times> broker" where
  "handleContextChange visit operationID now newCtx i b =
     (let isActivated = (case Active (ErsContext (inst_Parameters i)) of Some a \<Rightarrow> a | None \<Rightarrow> True);
          lookup = GetDeprovisioningOperationByInstanceID visit (inst_ID i) (ops b)
      in case lookup of
           Inl err \<Rightarrow>
             if \<not> IsNotFound err then (Returned (False, Some (StorageError err)), b)
             else if Active newCtx = None \<or> Active newCtx = Some isActivated
             then (if isActivated then (Returned (False, None), b) else (Panicked nil_dereference, b))
             else if Active newCtx = Some True
             then (if IsExpired i then (Returned (False, None), b) else triggered (unsuspend operationID now i b))
             else triggered (suspend visit operationID now i b)
         | Inr lastDeprovisioning \<Rightarrow>
             if Active newCtx = None \<or> Active newCtx = Some isActivated
             then (if isActivated then (Returned (False, None), b)
                   else if State lastDeprovisioning = Failed then triggered (suspend visit operationID now i b)
                   else (Returned (False, None), b))
             else if Active newCtx = Some True
             then (if IsExpired i then (Returned (False, None), b)
                   else if \<not> Temporary lastDeprovisioning then (Returned (False, None), b)
                   else if State lastDeprovisioning = Failed
                   then (Returned (False, Some (FailureResponse ''Preceding suspension has failed, unable to reliably unsuspend'' 500 ''provisioning'')), b)
                   else triggered (unsuspend operationID now i b))
             else triggered (suspend visit operationID now i b))"

definition Handle ::
  "visit \<Rightarrow> string \<Rightarrow> int \<Rightarrow> kyma_instance \<Rightarrow> ers_context \<Rightarrow> broker \<Rightarrow> (bool \<times> api_error option) go_call \<times> broker" where
  "Handle visit operationID now i newCtx b =
     (if \<not> IsTrialPlan (ServicePlanID i) then (Returned (False, None), b)
      else handleContextChange visit operationID now newCtx i b)"

section \<open>Expiration\<close>

datatype expiration_response = ErrorResponse int string | Accepted string

definition setInstanceExpirationTime :: "int \<Rightarrow> kyma_instance \<Rightarrow> broker \<Rightarrow> (go_error + kyma_instance) \<times> broker" where
  "setInstanceExpirationTime now i b =
     (if IsExpired i then (Inr i, b)
      else (let (r, m) = inst_Update (i\<lparr>ExpiredAt := Some now\<rparr>) (insts b) in (r, b\<lparr>insts := m\<rparr>)))"

definition suspendInstance :: "visit \<Rightarrow> string \<Rightarrow> int \<Rightarrow> kyma_instance \<Rightarrow> broker \<Rightarrow> (go_error + string) \<times> broker" where
  "suspendInstance visit operationID now i b =
     (let trigger = (case enqueue_deprovisioning (NewSuspensionOperationWithID operationID now i) b of
                       (Inl e, b1) \<Rightarrow> (Inl e, b1) | (Inr _, b1) \<Rightarrow> (Inr operationID, b1))
      in case GetDeprovisioningOperationByInstanceID visit (inst_ID i) (ops b) of
           Inl err \<Rightarrow> if \<not> IsNotFound err then (Inl err, b) else trigger
         | Inr lastDeprovisioningOp \<Rightarrow>
             if State lastDeprovisioningOp = Pending \<or> State lastDeprovisioningOp = InProgress
             then (Inr (op_ID lastDeprovisioningOp), b) else trigger)"

definition deactivateInstance :: "kyma_instance \<Rightarrow> broker \<Rightarrow> (go_error + kyma_instance) \<times> broker" where
  "deactivateInstance i b =
     (if Active (ErsContext (inst_Parameters i)) = Some False then (Inr i, b)
      else (let ps = inst_Parameters i;
                (r, m) = inst_Update (i\<lparr>inst_Parameters := ps\<lparr>ErsContext := (ErsContext ps)\<lparr>Active := Some False\<rparr>\<rparr>\<rparr>) (insts b)
            in (r, b\<lparr>insts := m\<rparr>)))"

definition expireInstance :: "visit \<Rightarrow> string \<Rightarrow> int \<Rightarrow> string \<Rightarrow> broker \<Rightarrow> expiration_response \<times> broker" where
  "expireInstance visit operationID now instanceID b =
     (case inst_GetByID visit instanceID (insts b) (ops b) of
        Inl err \<Rightarrow> (ErrorResponse (status_of err) (error_message err), b)
      | Inr i \<Rightarrow>
          if ServicePlanID i \<noteq> TrialPlanID
          then (ErrorResponse 400 (''unsupported plan: '' @ plan_name (ServicePlanID i)), b)
          else
            (case setInstanceExpirationTime now i b of
               (Inl err, b1) \<Rightarrow> (ErrorResponse 500 (error_message err), b1)
             | (Inr i1, b1) \<Rightarrow>
                 (case suspendInstance visit operationID now i1 b1 of
                    (Inl err, b2) \<Rightarrow> (ErrorResponse 500 (error_message err), b2)
                  | (Inr suspensionOpID, b2) \<Rightarrow>
                      (case deactivateInstance i1 b2 of
                         (Inl err, b3) \<Rightarrow> (ErrorResponse 500 (error_message err), b3)
                       | (Inr i2, b3) \<Rightarrow> (Accepted suspensionOpID, b3)))))"

section \<open>The effect of one suspension\<close>

lemma start_suspension_fresh:
  assumes "fresh_id k b"
  obtains s where "start_suspension k now i b = (None, b\<lparr>ops := s, deprovisioningQueue := deprovisioningQueue b @ [k]\<rparr>)"
    and "main_operations s = insert (NewSuspensionOperationWithID k now i) (main_operations (ops b))"
proof -
  let ?op = "NewSuspensionOperationWithID k now i"
  obtain s where "enqueue_deprovisioning ?op b = (Inr (), b\<lparr>ops := s, deprovisioningQueue := deprovisioningQueue b @ [op_ID ?op]\<rparr>)"
      "main_operations s = insert ?op (main_operations (ops b))"
    using enqueue_deprovisioning_fresh [of ?op b] assms by (metis new_operation_simps(13))
  then show thesis by (intro that [of s]) (simp_all add: start_suspension_def)
qed

definition unfinished_deprovisioning :: "visit \<Rightarrow> string \<Rightarrow> broker \<Rightarrow> bool" where
  "unfinished_deprovisioning visit instanceID b =
     (case GetDeprovisioningOperationByInstanceID visit instanceID (ops b) of
        Inr op \<Rightarrow> State op = Pending \<or> State op = InProgress | Inl e \<Rightarrow> False)"

text \<open>Marking an instance changes nothing but the stored instance.\<close>

definition same_operations :: "broker \<Rightarrow> broker \<Rightarrow> bool" where
  "same_operations b b' = (ops b' = ops b \<and> deprovisioningQueue b' = deprovisioningQueue b \<and>
     provisioningQueue b' = provisioningQueue b \<and> updatingQueue b' = updatingQueue b)"

lemma same_operations_refl [simp]: "same_operations b b"
  by (simp add: same_operations_def)

lemma same_operations_trans: "same_operations b b' \<Longrightarrow> same_operations b' b'' \<Longrightarrow> same_operations b b''"
  by (simp add: same_operations_def)

lemma setInstanceExpirationTime_ops: "setInstanceExpirationTime now i b = (r, b') \<Longrightarrow> same_operations b b'"
  by (auto simp: setInstanceExpirationTime_def same_operations_def Let_def split: prod.splits if_splits)

lemma deactivateInstance_ops: "deactivateInstance i b = (r, b') \<Longrightarrow> same_operations b b'"
  by (auto simp: deactivateInstance_def same_operations_def Let_def split: prod.splits if_splits)

lemma suspendInstance_unfinished:
  "unfinished_deprovisioning visit (inst_ID i) b \<Longrightarrow> \<exists>k'. suspendInstance visit k now i b = (Inr k', b)"
  by (auto simp: unfinished_deprovisioning_def suspendInstance_def Let_def split: sum.splits)

lemma suspend_unfinished: "unfinished_deprovisioning visit (inst_ID i) b \<Longrightarrow> suspend visit k now i b = (None, b)"
  by (auto simp: unfinished_deprovisioning_def suspend_def split: sum.splits)

text \<open>An instance in hand that agrees with the stored one in what these endpoints look at.\<close>

definition current :: "kyma_instance \<Rightarrow> broker \<Rightarrow> bool" where
  "current i b = (\<exists>j. map_of (insts b) (inst_ID i) = Some j \<and> inst_Version j = inst_Version i \<and> ExpiredAt j = ExpiredAt i \<and>
     ServicePlanID j = ServicePlanID i \<and> ErsContext (inst_Parameters j) = ErsContext (inst_Parameters i))"

lemma current_GetByID:
  assumes "insts_ok (insts b)" "inst_GetByID visit iid (insts b) (ops b) = Inr i"
  shows "current i b \<and> inst_ID i = iid"
  using assms(2) by (rule inst_GetByID_Inr) (use assms(1) in \<open>auto simp: current_def insts_ok_ID\<close>)

lemma current_Update:
  assumes "current i b" "inst_ID i' = inst_ID i" "inst_Version i' = inst_Version i"
  shows "\<exists>m. inst_Update i' (insts b) = (Inr (next_version i'), m) \<and> current (next_version i') (b\<lparr>insts := m\<rparr>)"
proof -
  from assms obtain j where "map_of (insts b) (inst_ID i') = Some j" "inst_Version j = inst_Version i'"
    by (auto simp: current_def)
  then obtain m where "inst_Update i' (insts b) = (Inr (next_version i'), m)" "map_of m = (map_of (insts b))(inst_ID i' \<mapsto> next_version i')"
    by (rule insts.update_stored)
  then show ?thesis by (auto simp: current_def next_version_def)
qed

lemma expiration_set:
  assumes "current i b" "insts_ok (insts b)"
  obtains i1 b1 where "setInstanceExpirationTime now i b = (Inr i1, b1)" "current i1 b1" "IsExpired i1" "inst_ID i1 = inst_ID i"
    "ServicePlanID i1 = ServicePlanID i" "IsExpired i \<Longrightarrow> ExpiredAt i1 = ExpiredAt i" "insts_ok (insts b1)"
proof (cases "IsExpired i")
  case True
  with assms show thesis by (intro that [of i b]) (simp_all add: setInstanceExpirationTime_def)
next
  case False
  let ?i = "i\<lparr>ExpiredAt := Some now\<rparr>"
  obtain m where m: "inst_Update ?i (insts b) = (Inr (next_version ?i), m)" "current (next_version ?i) (b\<lparr>insts := m\<rparr>)"
    using current_Update [OF assms(1), of ?i] by auto
  with False insts_ok_Update [OF assms(2), of ?i] show thesis
    by (intro that [of "next_version ?i" "b\<lparr>insts := m\<rparr>"])
       (simp_all add: setInstanceExpirationTime_def next_version_def IsExpired_def)
qed

lemma deactivated:
  assumes "current i b" "insts_ok (insts b)"
  obtains i1 b1 where "deactivateInstance i b = (Inr i1, b1)" "current i1 b1" "Active (ErsContext (inst_Parameters i1)) = Some False"
    "ExpiredAt i1 = ExpiredAt i" "inst_ID i1 = inst_ID i" "ServicePlanID i1 = ServicePlanID i" "insts_ok (insts b1)"
proof (cases "Active (ErsContext (inst_Parameters i)) = Some False")
  case True
  with assms show thesis by (intro that [of i b]) (simp_all add: deactivateInstance_def)
next
  case False
  let ?i = "i\<lparr>inst_Parameters := (inst_Parameters i)\<lparr>ErsContext := (ErsContext (inst_Parameters i))\<lparr>Active := Some False\<rparr>\<rparr>\<rparr>"
  obtain m where m: "inst_Update ?i (insts b) = (Inr (next_version ?i), m)" "current (next_version ?i) (b\<lparr>insts := m\<rparr>)"
    using current_Update [OF assms(1), of ?i] by auto
  with False insts_ok_Update [OF assms(2), of ?i] show thesis
    by (intro that [of "next_version ?i" "b\<lparr>insts := m\<rparr>"])
       (simp_all add: deactivateInstance_def next_version_def Let_def)
qed

lemma suspended:
  assumes "visits_all visit" "fresh_id k b" "later_than_all now (inst_ID i) b" "distinct_times (inst_ID i) b"
  obtains kk b1 op where "suspendInstance visit k now i b = (Inr kk, b1)" "insts b1 = insts b" "op_ID op = kk"
    "\<And>v. visits_all v \<Longrightarrow> GetDeprovisioningOperationByInstanceID v (inst_ID i) (ops b1) = Inr op"
    "State op = Pending \<or> State op = InProgress"
proof (cases "unfinished_deprovisioning visit (inst_ID i) b")
  case True
  then obtain op where "GetDeprovisioningOperationByInstanceID visit (inst_ID i) (ops b) = Inr op" "State op = Pending \<or> State op = InProgress"
    by (auto simp: unfinished_deprovisioning_def split: sum.splits)
  with deprovisioning_lookup_unique [OF assms(1) _ assms(4)] show thesis
    by (intro that [of "op_ID op" b op]) (auto simp: suspendInstance_def)
next
  case False
  let ?op = "NewSuspensionOperationWithID k now i"
  obtain s where s: "enqueue_deprovisioning ?op b = (Inr (), b\<lparr>ops := s, deprovisioningQueue := deprovisioningQueue b @ [op_ID ?op]\<rparr>)"
      "main_operations s = insert ?op (main_operations (ops b))"
    using enqueue_deprovisioning_fresh [of ?op b] assms(2) by (metis new_operation_simps(13))
  moreover have "GetDeprovisioningOperationByInstanceID v (inst_ID i) s = Inr ?op" if "visits_all v" for v
    using dep.lookup_inserted [OF that s(2)] assms(3) by (simp add: later_than_all_def)
  ultimately show thesis
    using False dep.lookup_missing [OF assms(1), of "inst_ID i" "ops b"]
    by (intro that [of k "b\<lparr>ops := s, deprovisioningQueue := deprovisioningQueue b @ [k]\<rparr>" ?op])
       (auto simp: suspendInstance_def unfinished_deprovisioning_def split: sum.splits)
qed

section \<open>Properties\<close>

lemma expireInstance_steps:
  assumes "inst_GetByID visit iid (insts b) (ops b) = Inr i" "ServicePlanID i = TrialPlanID"
    and "setInstanceExpirationTime now i b = (Inr i1, b1)" "suspendInstance visit k now i1 b1 = (Inr kk, b2)"
    and "deactivateInstance i1 b2 = (Inr i2, b3)"
  shows "expireInstance visit k now iid b = (Accepted kk, b3)"
  using assms by (simp add: expireInstance_def)

lemma current_ops: "insts b' = insts b \<Longrightarrow> current i b' = current i b"
  by (simp add: current_def)

text \<open>Another request finds everything done.\<close>

lemma expire_again:
  assumes "insts_ok (insts b)" "current i b" "inst_ID i = iid" "ServicePlanID i = TrialPlanID" "IsExpired i"
    and "Active (ErsContext (inst_Parameters i)) = Some False"
    and "GetDeprovisioningOperationByInstanceID visit iid (ops b) = Inr op" "State op = Pending \<or> State op = InProgress"
  shows "expireInstance visit k now iid b = (Accepted (op_ID op), b)"
proof -
  from assms(2,3) obtain j where j: "map_of (insts b) iid = Some j" by (auto simp: current_def)
  then obtain i' where i': "inst_GetByID visit iid (insts b) (ops b) = Inr i'" by (metis inst_GetByID_known)
  from i' have same: "inst_ID i' = iid" "ServicePlanID i' = TrialPlanID" "IsExpired i'"
      "Active (ErsContext (inst_Parameters i')) = Some False"
    by (rule inst_GetByID_Inr; use assms j current_GetByID [OF assms(1) i'] in \<open>auto simp: current_def IsExpired_def\<close>)+
  show ?thesis
    by (rule expireInstance_steps [OF i' same(2)])
       (use same assms(7,8) in \<open>auto simp: setInstanceExpirationTime_def suspendInstance_def deactivateInstance_def\<close>)
qed

definition trial_broker :: broker where
  "trial_broker = some_broker\<lparr>insts := [(''i'', some_instance\<lparr>ServicePlanID := TrialPlanID\<rparr>)]\<rparr>"

lemma trial_broker_simps [simp]:
  "ops trial_broker = ops some_broker" "insts trial_broker = [(''i'', some_instance\<lparr>ServicePlanID := TrialPlanID\<rparr>)]"
  "insts_ok (insts trial_broker)" "distinct_times i trial_broker" "later_than_all 5 i trial_broker" "fresh_id ''d'' trial_broker"
  by (simp_all add: trial_broker_def insts_ok_def distinct_times_def later_than_all_def fresh_id_def inj_on_def)

text \<open>
  (C18) Expiring a stored trial instance succeeds.  Afterwards the instance is marked as expired, keeping an older
  mark, and inactive, and the id that the response names is the one of its latest deprovisioning, which is waiting or
  running; repeating the request, at any time, gives the same response and changes nothing.
\<close>

theorem expiration:
  assumes "visits_all visit" and "insts_ok (insts b)" and "distinct_times iid b" and "fresh_id k b"
    and "later_than_all now iid b" and "map_of (insts b) iid = Some i0" and "ServicePlanID i0 = TrialPlanID"
  shows "\<exists>kk b' i op. expireInstance visit k now iid b = (Accepted kk, b') \<and>
           map_of (insts b') iid = Some i \<and> IsExpired i \<and> (IsExpired i0 \<longrightarrow> ExpiredAt i = ExpiredAt i0) \<and>
           Active (ErsContext (inst_Parameters i)) = Some False \<and>
           GetDeprovisioningOperationByInstanceID visit iid (ops b') = Inr op \<and> op_ID op = kk \<and>
           (State op = Pending \<or> State op = InProgress) \<and>
           (\<forall>visit' k' now'. visits_all visit' \<longrightarrow> expireInstance visit' k' now' iid b' = (Accepted kk, b'))"
proof -
  obtain i where i: "inst_GetByID visit iid (insts b) (ops b) = Inr i" by (metis inst_GetByID_known assms(6))
  with current_GetByID [OF assms(2) i] assms(6,7) have c: "current i b" "inst_ID i = iid" "ServicePlanID i = TrialPlanID"
      "ExpiredAt i = ExpiredAt i0" by (auto simp: current_def)
  obtain i1 b1 where 1: "setInstanceExpirationTime now i b = (Inr i1, b1)" "current i1 b1" "IsExpired i1" "inst_ID i1 = iid"
      "ServicePlanID i1 = TrialPlanID" "IsExpired i \<Longrightarrow> ExpiredAt i1 = ExpiredAt i" "insts_ok (insts b1)"
    using expiration_set [OF c(1) assms(2), of now] c(2,3) by metis
  have ops1: "ops b1 = ops b" using setInstanceExpirationTime_ops [OF 1(1)] by (simp add: same_operations_def)
  obtain kk b2 op where 2: "suspendInstance visit k now i1 b1 = (Inr kk, b2)" "insts b2 = insts b1" "op_ID op = kk"
      "\<And>v. visits_all v \<Longrightarrow> GetDeprovisioningOperationByInstanceID v iid (ops b2) = Inr op"
      "State op = Pending \<or> State op = InProgress"
    using suspended [OF assms(1), of k b1 now i1] assms(3-5)
    by (simp add: 1(4) ops1 fresh_id_def later_than_all_def distinct_times_def) blast
  have "current i1 b2" "insts_ok (insts b2)" using 1(2,7) 2(2) by (simp_all add: current_ops [OF 2(2)])
  then obtain i2 b3 where 3: "deactivateInstance i1 b2 = (Inr i2, b3)" "current i2 b3" "Active (ErsContext (inst_Parameters i2)) = Some False"
      "ExpiredAt i2 = ExpiredAt i1" "inst_ID i2 = iid" "ServicePlanID i2 = TrialPlanID" "insts_ok (insts b3)"
    using 1(4,5) by (metis deactivated)
  have ops3: "ops b3 = ops b2" using deactivateInstance_ops [OF 3(1)] by (simp add: same_operations_def)
  have "expireInstance visit k now iid b = (Accepted kk, b3)" by (rule expireInstance_steps [OF i c(3) 1(1) 2(1) 3(1)])
  moreover have "expireInstance visit' k' now' iid b3 = (Accepted kk, b3)" if "visits_all visit'" for visit' k' now'
    using expire_again [OF 3(7,2,5,6) _ 3(3)] 2(3,5) 2(4) [OF that] 1(3) 3(4) by (simp add: ops3 IsExpired_def)
  moreover obtain j where "map_of (insts b3) iid = Some j" "ExpiredAt j = ExpiredAt i2" "ErsContext (inst_Parameters j) = ErsContext (inst_Parameters i2)"
    using 3(2,5) by (auto simp: current_def)
  ultimately show ?thesis
    using 1(3,6) 2(3,5) 2(4) [OF assms(1)] 3(3,4) c(4) ops3 by (intro exI [of _ kk] exI [of _ b3] exI [of _ j] exI [of _ op]) (auto simp: IsExpired_def)
qed

theorem expiration_witness:
  "\<exists>kk b'. expireInstance (\<lambda>m. m) ''d'' 5 ''i'' trial_broker = (Accepted kk, b') \<and>
     expireInstance (\<lambda>m. m) ''e'' 6 ''i'' b' = (Accepted kk, b')"
  using expiration [of "\<lambda>m. m" trial_broker "''i''" "''d''" 5 "some_instance\<lparr>ServicePlanID := TrialPlanID\<rparr>"]
  by (auto simp: insts_ok_def)

text \<open>
  While the latest deprovisioning of an instance waits or runs, neither an expiration nor a change of
  the flag to inactive creates or queues another one: the stored operations and all queues stay as they are.
\<close>

theorem no_second_suspension:
  assumes "insts_ok (insts b)" and "unfinished_deprovisioning visit iid b"
  shows "same_operations b (snd (expireInstance visit k now iid b)) \<and>
         (inst_ID i = iid \<and> Active ctx \<noteq> Some True \<longrightarrow> snd (Handle visit k now i ctx b) = b)"
proof (rule conjI)
  show "same_operations b (snd (expireInstance visit k now iid b))"
  proof (cases "inst_GetByID visit iid (insts b) (ops b)")
    case j: (Inr j)
    obtain r b1 where 1: "setInstanceExpirationTime now j b = (r, b1)" by fastforce
    note b1 = setInstanceExpirationTime_ops [OF 1]
    show ?thesis
    proof (cases r)
      case (Inr i1)
      have "inst_ID i1 = iid"
        using 1 Inr current_GetByID [OF assms(1) j]
        by (auto simp: setInstanceExpirationTime_def inst_Update_def Let_def split: if_splits option.splits)
      with assms(2) b1 have "unfinished_deprovisioning visit (inst_ID i1) b1"
        by (simp add: unfinished_deprovisioning_def same_operations_def)
      then obtain kk where 2: "suspendInstance visit k now i1 b1 = (Inr kk, b1)" using suspendInstance_unfinished by blast
      obtain r3 b3 where 3: "deactivateInstance i1 b1 = (r3, b3)" by fastforce
      have "snd (expireInstance visit k now iid b) \<in> {b, b3}"
        using j 1 Inr 2 3 by (cases r3) (simp_all add: expireInstance_def)
      with same_operations_trans [OF b1 deactivateInstance_ops [OF 3]] show ?thesis by auto
    qed (use 1 j b1 in \<open>simp add: expireInstance_def\<close>)
  qed (simp add: expireInstance_def)
  show "inst_ID i = iid \<and> Active ctx \<noteq> Some True \<longrightarrow> snd (Handle visit k now i ctx b) = b"
  proof
    assume i: "inst_ID i = iid \<and> Active ctx \<noteq> Some True"
    then have "suspend visit k now i b = (None, b)" using assms(2) by (simp add: suspend_unfinished)
    moreover obtain op where "GetDeprovisioningOperationByInstanceID visit (inst_ID i) (ops b) = Inr op"
      using assms(2) i by (auto simp: unfinished_deprovisioning_def split: sum.splits)
    ultimately show "snd (Handle visit k now i ctx b) = b"
      using i by (simp add: Handle_def handleContextChange_def Let_def triggered_def)
  qed
qed

theorem no_second_suspension_witness:
  "same_operations
     (trial_broker\<lparr>ops := some_store\<lparr>operations := [(''d'', NewSuspensionOperationWithID ''d'' 5 some_instance)]\<rparr>\<rparr>)
     (snd (expireInstance (\<lambda>m. m) ''e'' 6 ''i''
       (trial_broker\<lparr>ops := some_store\<lparr>operations := [(''d'', NewSuspensionOperationWithID ''d'' 5 some_instance)]\<rparr>\<rparr>)))"
proof -
  let ?b = "trial_broker\<lparr>ops := some_store\<lparr>operations := [(''d'', NewSuspensionOperationWithID ''d'' 5 some_instance)]\<rparr>\<rparr>"
  have "unfinished_deprovisioning (\<lambda>m. m) ''i'' ?b"
    by (simp add: unfinished_deprovisioning_def GetDeprovisioningOperationByInstanceID_def first_of_def of_instance_def newest_first_def)
  moreover have "insts_ok (insts ?b)" by (simp add: insts_ok_def)
  ultimately show ?thesis using no_second_suspension [of ?b "\<lambda>m. m" "''i''" "''e''" 6] by blast
qed

text \<open>
  The handler panics in exactly one situation: a trial instance that is held to be inactive although it has never had
  a deprovisioning, and a context that does not activate it.  The endpoint for updates never gets there.
\<close>

lemma handle_panics_iff:
  assumes "visits_all visit"
  shows "(\<exists>v. fst (Handle visit k now i ctx b) = Panicked v) \<longleftrightarrow>
         IsTrialPlan (ServicePlanID i) \<and> Active (ErsContext (inst_Parameters i)) = Some False \<and> Active ctx \<noteq> Some True \<and>
         (\<forall>op \<in> main_operations (ops b). InstanceID op = inst_ID i \<longrightarrow> op_Type op \<noteq> OperationTypeDeprovision)"
proof (cases "GetDeprovisioningOperationByInstanceID visit (inst_ID i) (ops b)")
  case (Inl e)
  with dep.lookup_missing [OF assms Inl] show ?thesis
    by (auto simp: Handle_def handleContextChange_def Let_def triggered_def split: option.splits)
next
  case (Inr op)
  with dep.lookup_found [OF assms Inr] show ?thesis
    by (auto simp: Handle_def handleContextChange_def Let_def triggered_def split: option.splits)
qed

end
