(* ===== verification/Instance_Update.thy ===== *)
theory Instance_Update
  imports Suspension
begin

text \<open>
  The endpoint that updates an instance (\<^verbatim>\<open>src/internal/broker/instance_update.go\<close>).

  Parameters, collected in \<open>update_env\<close>: the configuration, decoding of the JSON texts of the request
  (none: it does not decode), the JSON schema of the plan (a message when it refuses), the defaults of a plan and
  \<open>url.Parse\<close>.  What other requests do to the state between storing the operation and storing
  the instance is the argument \<open>meanwhile\<close>; everywhere else the endpoint runs by itself.
\<close>

record update_env =
  processingEnabled :: bool
  subAccountMovementEnabled :: bool
  LandscapeURL :: string
  env_cfg :: endpoint_config
  decode_context :: "string \<Rightarrow> ers_context option"
  decode_update :: "string \<Rightarrow> updating_parameters option"
  schema_check :: "string \<Rightarrow> string \<Rightarrow> string \<Rightarrow> string \<Rightarrow> string option"
  planDefaults :: "string \<Rightarrow> string \<Rightarrow> string + (int \<times> int) option"
  url_parse :: "string \<Rightarrow> (string \<times> string) option"

record update_details =
  upd_PlanID :: string
  RawContext :: string
  RawParameters :: string

record update_spec =
  upd_IsAsync :: bool
  upd_DashboardURL :: string
  upd_OperationData :: string
  upd_Labels :: "(string \<times> string) list"

type_synonym update_result = "(api_error + update_spec) go_call \<times> broker"

section \<open>The context\<close>

definition extractActiveValue :: "visit \<Rightarrow> string \<Rightarrow> operation \<Rightarrow> broker \<Rightarrow> go_error + bool" where
  "extractActiveValue visit instanceID provisioning b =
     (case GetDeprovisioningOperationByInstanceID visit instanceID (ops b) of
        Inl dErr \<Rightarrow> if \<not> IsNotFound dErr then Inl dErr else Inr True
      | Inr deprovisioning \<Rightarrow> Inr (CreatedAt deprovisioning < CreatedAt provisioning))"

text \<open>The context that an instance has before the request is looked at, and the move to another global account.\<close>

definition merged_context :: "kyma_instance \<Rightarrow> operation \<Rightarrow> operation \<Rightarrow> bool \<Rightarrow> ers_context \<Rightarrow> ers_context" where
  "merged_context i lastProvisioning lastOp active ersContext =
     (let c = (ErsContext (ProvisioningParameters lastProvisioning))\<lparr>
                SMOperatorCredentials := SMOperatorCredentials (ErsContext (inst_Parameters i)), Active := Some active\<rparr>
      in UpdateInstanceERSContext (InheritMissingERSContext c (ErsContext (ProvisioningParameters lastOp))) ersContext)"

definition set_context :: "ers_context \<Rightarrow> kyma_instance \<Rightarrow> kyma_instance" where
  "set_context c i = i\<lparr>inst_Parameters := (inst_Parameters i)\<lparr>ErsContext := c\<rparr>\<rparr>"

definition moved :: "ers_context \<Rightarrow> kyma_instance \<Rightarrow> kyma_instance" where
  "moved ersContext i =
     (if inst_GlobalAccountID i \<noteq> GlobalAccountID ersContext \<and> GlobalAccountID ersContext \<noteq> []
      then i\<lparr>SubscriptionGlobalAccountID :=
               (if SubscriptionGlobalAccountID i = [] then inst_GlobalAccountID i else SubscriptionGlobalAccountID i),
             inst_GlobalAccountID := GlobalAccountID ersContext\<rparr>
      else i)"

definition finish_context ::
  "update_env \<Rightarrow> ers_context \<Rightarrow> bool \<Rightarrow> kyma_instance \<Rightarrow> broker \<Rightarrow> (api_error + kyma_instance \<times> bool) \<times> broker" where
  "finish_context E ersContext changed i1 b1 =
     (let c = ErsContext (inst_Parameters i1);
          i2 = (if Active ersContext \<noteq> None then set_context (c\<lparr>Active := Active ersContext\<rparr>) i1 else i1);
          i3 = (if subAccountMovementEnabled E then moved ersContext i2 else i2)
      in case inst_Update i3 (insts b1) of
           (Inl err, m) \<Rightarrow> (Inl (PlainError ''unable to process the update''), b1\<lparr>insts := m\<rparr>)
         | (Inr newInstance, m) \<Rightarrow> (Inr (newInstance, changed), b1\<lparr>insts := m\<rparr>))"

definition processContext ::
  "update_env \<Rightarrow> visit \<Rightarrow> string \<Rightarrow> int \<Rightarrow> kyma_instance \<Rightarrow> update_details \<Rightarrow> operation \<Rightarrow> broker \<Rightarrow>
   (api_error + kyma_instance \<times> bool) go_call \<times> broker" where
  "processContext E visit operationID now i0 d lastProvisioning b =
     (case decode_context E (RawContext d) of
        None \<Rightarrow> (Returned (Inl (PlainError ''unable to unmarshal context'')), b)
      | Some ersContext \<Rightarrow>
          (case GetLastOperation visit (inst_ID i0) (ops b) of
             Inl err \<Rightarrow> (Returned (Inl (PlainError ''failed to process ERS context'')), b)
           | Inr lastOp \<Rightarrow>
               (case extractActiveValue visit (inst_ID i0) lastProvisioning b of
                  Inl err \<Rightarrow> (Returned (Inl (PlainError ''unable to process the update'')), b)
                | Inr active \<Rightarrow>
                    (let i1 = set_context (merged_context i0 lastProvisioning lastOp active ersContext) i0 in
                     case Handle visit operationID now i1 ersContext b of
                       (Panicked v, b1) \<Rightarrow> (Panicked v, b1)
                     | (Returned (changed, Some err), b1) \<Rightarrow> (Returned (Inl (PlainError ''unable to process the update'')), b1)
                     | (Returned (changed, None), b1) \<Rightarrow>
                         (let (r, b2) = finish_context E ersContext changed i1 b1 in (Returned r, b2))))))"

section \<open>The parameters\<close>

definition shouldUpdate :: "update_details \<Rightarrow> ers_context \<Rightarrow> bool" where
  "shouldUpdate d ersContext = (RawParameters d \<noteq> [] \<or> ERSUpdate ersContext)"

text \<open>
  What is saved with the instance, and whether it is saved at all: a new machine type is put into
  the instance but is not among the reasons to save it.
\<close>

definition instance_changes :: "updating_parameters \<Rightarrow> parameters_dto \<Rightarrow> string list \<times> parameters_dto" where
  "instance_changes u p0 =
     (let (n1, p1) = (if oidc_IsProvided (upd_OIDC u) then ([''OIDC''], p0\<lparr>OIDC := upd_OIDC u\<rparr>) else ([], p0));
          (n2, p2) = (if slice_elems (upd_RuntimeAdministrators u) \<noteq> []
                      then ([''Runtime Administrators''], p1\<lparr>RuntimeAdministrators := Some (slice_elems (upd_RuntimeAdministrators u))\<rparr>)
                      else ([], p1));
          (updated, p3) = UpdateAutoScaler u p2;
          n3 = (if updated then [''Auto Scaler parameters''] else []);
          p4 = (if upd_MachineType u \<noteq> None \<and> upd_MachineType u \<noteq> Some [] then p3\<lparr>MachineType := upd_MachineType u\<rparr> else p3)
      in (n1 @ n2 @ n3, p4))"

text \<open>
  The loop around the update of the instance polls every half second for two seconds.  A failed attempt overwrites the
  variable with the nil pointer that the storage returns, which the next attempt dereferences.
\<close>

definition save_instance :: "kyma_instance \<Rightarrow> broker \<Rightarrow> kyma_instance go_call \<times> broker" where
  "save_instance i b =
     (case inst_Update i (insts b) of
        (Inr i', m) \<Rightarrow> (Returned i', b\<lparr>insts := m\<rparr>)
      | (Inl err, m) \<Rightarrow> (Panicked nil_dereference, b\<lparr>insts := m\<rparr>))"

definition update_answer :: "update_env \<Rightarrow> bool \<Rightarrow> string \<Rightarrow> string \<Rightarrow> operation \<Rightarrow> kyma_instance \<Rightarrow> update_spec" where
  "update_answer E isAsync dashboardURL operationData lastProvisioning i =
     \<lparr>upd_IsAsync = isAsync, upd_DashboardURL = dashboardURL, upd_OperationData = operationData,
      upd_Labels = ResponseLabels lastProvisioning i (cfg_URL (env_cfg E)) (EnableKubeconfigURLLabel (env_cfg E))\<rparr>"

definition queue_update :: "string \<Rightarrow> broker \<Rightarrow> broker" where
  "queue_update operationID b = b\<lparr>updatingQueue := updatingQueue b @ [operationID]\<rparr>"

definition store_update ::
  "update_env \<Rightarrow> (broker \<Rightarrow> broker) \<Rightarrow> operation \<Rightarrow> updating_parameters \<Rightarrow> kyma_instance \<Rightarrow> operation \<Rightarrow> broker \<Rightarrow> update_result" where
  "store_update E meanwhile operation params i lastProvisioning b =
     (case InsertOperation operation (ops b) of
        (Inl err, s) \<Rightarrow> (Returned (Inl (StorageError err)), b\<lparr>ops := s\<rparr>)
      | (Inr _, s) \<Rightarrow>
          (let (names, p) = instance_changes params (Parameters (inst_Parameters i));
               i1 = i\<lparr>inst_Parameters := (inst_Parameters i)\<lparr>Parameters := p\<rparr>\<rparr>;
               b1 = meanwhile (b\<lparr>ops := s\<rparr>)
           in if names = []
              then (Returned (Inr (update_answer E True (inst_DashboardURL i1) (op_ID operation) lastProvisioning i1)),
                    queue_update (op_ID operation) b1)
              else (case save_instance i1 b1 of
                      (Panicked v, b2) \<Rightarrow> (Panicked v, b2)
                    | (Returned i2, b2) \<Rightarrow>
                        (Returned (Inr (update_answer E True (inst_DashboardURL i2) (op_ID operation) lastProvisioning i2)),
                         queue_update (op_ID operation) b2))))"

definition processUpdateParameters ::
  "update_env \<Rightarrow> (broker \<Rightarrow> broker) \<Rightarrow> string \<Rightarrow> int \<Rightarrow> kyma_instance \<Rightarrow> update_details \<Rightarrow> operation \<Rightarrow> bool \<Rightarrow> ers_context \<Rightarrow>
   broker \<Rightarrow> update_result" where
  "processUpdateParameters E meanwhile operationID now i d lastProvisioning asyncAllowed ersContext b =
     (if \<not> shouldUpdate d ersContext
      then (Returned (Inr (update_answer E False (inst_DashboardURL i) [] lastProvisioning i)), b)
      else if \<not> asyncAllowed then (Returned (Inl ErrAsyncRequired), b)
      else
        (case (if RawParameters d \<noteq> [] then decode_update E (RawParameters d) else Some no_update) of
           None \<Rightarrow> (Returned (Inl (PlainError ''unable to unmarshal parameters'')), b)
         | Some params \<Rightarrow>
             (case (case upd_OIDC params of
                      Some c \<Rightarrow> if oidc_IsProvided (Some c) then oidc_Validate (url_parse E) c else None | None \<Rightarrow> None) of
                Some err \<Rightarrow> (Returned (Inl (FailureResponse err 422 err)), b)
              | None \<Rightarrow>
                  (let operation = NewUpdateOperation operationID now i params;
                       planID = (if upd_PlanID d \<noteq> [] then upd_PlanID d else PlanID (inst_Parameters i))
                   in case planDefaults E planID (inst_Provider i) of
                        Inl err \<Rightarrow> (Returned (Inl (PlainError ''unable to obtain plan defaults'')), b)
                      | Inr defaults \<Rightarrow>
                          (let (lo, hi) = (case defaults of Some r \<Rightarrow> r | None \<Rightarrow> (0, 0)) in
                           case autoscaler_Validate (AutoScaler (Parameters (ProvisioningParameters operation))) lo hi of
                             Some err \<Rightarrow> (Returned (Inl (FailureResponse err 400 err)), b)
                           | None \<Rightarrow> store_update E meanwhile operation params i lastProvisioning b)))))"

section \<open>The endpoint\<close>

definition validateWithJsonSchemaValidator :: "update_env \<Rightarrow> update_details \<Rightarrow> kyma_instance \<Rightarrow> string option" where
  "validateWithJsonSchemaValidator E d i =
     (if RawParameters d \<noteq> [] then schema_check E (inst_Provider i) (ServicePlanID i) (ProviderRegion i) (RawParameters d) else None)"

text \<open>The checks before anything is changed; each of them ends the request with an error.\<close>

definition update_guards ::
  "update_env \<Rightarrow> visit \<Rightarrow> string \<Rightarrow> update_details \<Rightarrow> broker \<Rightarrow> api_error + kyma_instance \<times> ers_context \<times> operation" where
  "update_guards E visit instanceID d b =
     (case inst_GetByID visit instanceID (insts b) (ops b) of
        Inl err \<Rightarrow>
          if IsNotFound err
          then Inl (FailureResponse (error_message err) 404 (''could not execute update for instanceID '' @ instanceID))
          else Inl (PlainError ''unable to get instance'')
      | Inr i \<Rightarrow>
     (case decode_context E (RawContext d) of
        None \<Rightarrow> Inl (PlainError ''unable to unmarshal context'')
      | Some ersContext \<Rightarrow>
     (case validateWithJsonSchemaValidator E d i of
        Some err \<Rightarrow> Inl (FailureResponse err 400 ''validation failed'')
      | None \<Rightarrow>
     if IsExpired i then Inl (FailureResponse ''cannot update an expired instance'' 400 [])
     else
     (case GetProvisioningOperationByInstanceID visit (inst_ID i) (ops b) of
        Inl err \<Rightarrow> Inl (PlainError ''unable to process the update'')
      | Inr lastProvisioning \<Rightarrow>
     if State lastProvisioning = Failed
     then Inl (FailureResponse ''Unable to process an update of a failed instance'' 422 [])
     else
     (case GetDeprovisioningOperationByInstanceID visit (inst_ID i) (ops b) of
        Inl err \<Rightarrow>
          if \<not> IsNotFound err then Inl (PlainError ''unable to process the update'') else Inr (i, ersContext, lastProvisioning)
      | Inr lastDeprovisioning \<Rightarrow>
          if \<not> Temporary lastDeprovisioning
          then Inl (FailureResponse ''Unable to process an update of a deprovisioned instance'' 422 [])
          else Inr (i, ersContext, lastProvisioning))))))"

definition with_dashboard :: "update_env \<Rightarrow> string \<Rightarrow> kyma_instance \<Rightarrow> kyma_instance" where
  "with_dashboard E instanceID i =
     (if LandscapeURL E \<noteq> [] then i\<lparr>inst_DashboardURL := LandscapeURL E @ ''/?kubeconfigID='' @ instanceID\<rparr> else i)"

definition Update ::
  "update_env \<Rightarrow> visit \<Rightarrow> (broker \<Rightarrow> broker) \<Rightarrow> string \<Rightarrow> int \<Rightarrow> string \<Rightarrow> update_details \<Rightarrow> bool \<Rightarrow> broker \<Rightarrow> update_result" where
  "Update E visit meanwhile operationID now instanceID d asyncAllowed b =
     (case update_guards E visit instanceID d b of
        Inl err \<Rightarrow> (Returned (Inl err), b)
      | Inr (i0, ersContext, lastProvisioning) \<Rightarrow>
          (let i = with_dashboard E instanceID i0;
               plain = Inr (update_answer E False (inst_DashboardURL i) [] lastProvisioning i)
           in if \<not> processingEnabled E then (Returned plain, b)
              else (case processContext E visit operationID now i d lastProvisioning b of
                      (Panicked v, b1) \<Rightarrow> (Panicked v, b1)
                    | (Returned (Inl err), b1) \<Rightarrow> (Returned (Inl err), b1)
                    | (Returned (Inr (i1, suspendStatusChange)), b1) \<Rightarrow>
                        if \<not> suspendStatusChange \<and> \<not> IsExpired i1
                        then processUpdateParameters E meanwhile operationID now i1 d lastProvisioning asyncAllowed ersContext b1
                        else (Returned plain, b1))))"

section \<open>The steps of the endpoint\<close>

lemma enqueue_deprovisioning_insts:
  "enqueue_deprovisioning op b = (r, b') \<Longrightarrow> insts b' = insts b \<and> updatingQueue b' = updatingQueue b"
  by (auto simp: enqueue_deprovisioning_def split: prod.splits sum.splits)

lemma suspend_insts: "suspend visit k now i b = (r, b') \<Longrightarrow> insts b' = insts b \<and> updatingQueue b' = updatingQueue b"
  by (auto simp: suspend_def start_suspension_def dest: enqueue_deprovisioning_insts split: sum.splits prod.splits if_splits)

lemma unsuspend_insts: "unsuspend k now i b = (r, b') \<Longrightarrow> insts b' = insts b \<and> updatingQueue b' = updatingQueue b"
  by (auto simp: unsuspend_def split: sum.splits prod.splits if_splits)

lemma triggered_eq: "triggered p = (Returned (c, e), b') \<longleftrightarrow> c \<and> e = map_option StorageError (fst p) \<and> b' = snd p"
  by (auto simp: triggered_def)

text \<open>The handler never touches instances, and nothing at all when it reports that nothing was triggered.\<close>

lemma Handle_effect:
  assumes "Handle visit k now i ctx b = (r, b')"
  shows "insts b' = insts b" "updatingQueue b' = updatingQueue b" "r = Returned (False, e) \<Longrightarrow> b' = b"
proof -
  have "b' = b \<or> ((\<exists>x. r = Returned (True, x)) \<and> (b' = snd (suspend visit k now i b) \<or> b' = snd (unsuspend k now i b)))"
    using assms by (auto simp: Handle_def handleContextChange_def Let_def triggered_def split: sum.splits if_splits)
  then show "insts b' = insts b" "updatingQueue b' = updatingQueue b" "r = Returned (False, e) \<Longrightarrow> b' = b"
    using suspend_insts [of visit k now i b] unsuspend_insts [of k now i b]
    by (cases "suspend visit k now i b"; cases "unsuspend k now i b"; auto)+
qed

lemma inst_ID_set_context [simp]: "inst_ID (set_context c i) = inst_ID i" "inst_Version (set_context c i) = inst_Version i"
    "ServicePlanID (set_context c i) = ServicePlanID i" "ErsContext (inst_Parameters (set_context c i)) = c"
    "ExpiredAt (set_context c i) = ExpiredAt i"
  by (simp_all add: set_context_def)

lemma inst_ID_moved [simp]: "inst_ID (moved c i) = inst_ID i" "inst_Version (moved c i) = inst_Version i" "ExpiredAt (moved c i) = ExpiredAt i"
  by (simp_all add: moved_def)

text \<open>Processing the context cannot panic: an instance is taken for inactive only because of a deprovisioning.\<close>

lemma processContext_no_panic:
  assumes "visits_all visit"
  shows "fst (processContext E visit k now i d lastP b) \<noteq> Panicked v"
proof (cases "extractActiveValue visit (inst_ID i) lastP b")
  case (Inr active)
  have "fst (Handle visit k now (set_context (merged_context i lastP lastOp active ctx) i) ctx b) \<noteq> Panicked v" for lastOp ctx v
  proof
    assume p: "fst (Handle visit k now (set_context (merged_context i lastP lastOp active ctx) i) ctx b) = Panicked v"
    let ?i = "set_context (merged_context i lastP lastOp active ctx) i"
    from p have "active = False" and none: "\<forall>op \<in> main_operations (ops b). InstanceID op = inst_ID i \<longrightarrow> op_Type op \<noteq> OperationTypeDeprovision"
      using handle_panics_iff [OF assms, of k now ?i ctx b] by (auto simp: merged_context_def Let_def)
    with Inr show False
      using dep.lookup_none [OF assms, of "ops b" "inst_ID i"]
      by (auto simp: extractActiveValue_def split: sum.splits if_splits dest: dep.lookup_found [OF assms])
  qed
  with Inr show ?thesis
    by (simp add: processContext_def Let_def split: option.split sum.split prod.split go_call.split) (metis fst_conv)
qed (simp add: processContext_def split: option.split sum.split)

lemma with_dashboard_simps [simp]:
  "inst_ID (with_dashboard E x i) = inst_ID i" "inst_Version (with_dashboard E x i) = inst_Version i"
  "ExpiredAt (with_dashboard E x i) = ExpiredAt i" "ServicePlanID (with_dashboard E x i) = ServicePlanID i"
  "inst_Parameters (with_dashboard E x i) = inst_Parameters i"
  by (simp_all add: with_dashboard_def)

lemma update_guards_Inr:
  assumes "update_guards E visit iid d b = Inr (i, ctx, lastP)"
  shows "inst_GetByID visit iid (insts b) (ops b) = Inr i" "decode_context E (RawContext d) = Some ctx" "\<not> IsExpired i"
    "GetProvisioningOperationByInstanceID visit (inst_ID i) (ops b) = Inr lastP" "State lastP \<noteq> Failed"
    "GetDeprovisioningOperationByInstanceID visit (inst_ID i) (ops b) = Inr op \<Longrightarrow> Temporary op"
  using assms by (auto simp: update_guards_def split: sum.splits option.splits if_splits)

text \<open>A processed context leaves the instance stored as it is handed on.\<close>

lemma finish_context_Inr:
  assumes "finish_context E ctx changed i b = (Inr (i1, changed'), b1)"
  shows "map_of (insts b1) (inst_ID i) = Some i1" "inst_ID i1 = inst_ID i" "changed' = changed" "\<exists>m. b1 = b\<lparr>insts := m\<rparr>"
proof -
  define i3 where "i3 = (let i2 = (if Active ctx \<noteq> None then set_context ((ErsContext (inst_Parameters i))\<lparr>Active := Active ctx\<rparr>) i else i)
    in if subAccountMovementEnabled E then moved ctx i2 else i2)"
  have ID: "inst_ID i3 = inst_ID i" by (simp add: i3_def Let_def)
  obtain r m where r: "inst_Update i3 (insts b) = (r, m)" by fastforce
  with assms have u: "inst_Update i3 (insts b) = (Inr i1, m)" and b1: "b1 = b\<lparr>insts := m\<rparr>" and "changed' = changed"
    by (cases r; simp add: finish_context_def i3_def Let_def)+
  then show "changed' = changed" "\<exists>m. b1 = b\<lparr>insts := m\<rparr>" by blast+
  from insts.upd_done [OF u] ID show "map_of (insts b1) (inst_ID i) = Some i1" "inst_ID i1 = inst_ID i"
    by (simp_all add: b1 next_version_def)
qed

lemma processContext_Inr:
  assumes "processContext E visit k now i d lastP b = (Returned (Inr r), b1)"
  obtains c ctx changed b0 where "Handle visit k now (set_context c i) ctx b = (Returned (changed, None), b0)"
    and "finish_context E ctx changed (set_context c i) b0 = (Inr r, b1)"
  using assms unfolding processContext_def Let_def
  by (auto split: option.splits sum.splits prod.splits go_call.splits)

lemma processContext_stored:
  assumes "processContext E visit k now i d lastP b = (Returned (Inr (i1, changed)), b1)"
  shows "map_of (insts b1) (inst_ID i) = Some i1" "inst_ID i1 = inst_ID i" "updatingQueue b1 = updatingQueue b"
    "\<not> changed \<Longrightarrow> ops b1 = ops b \<and> deprovisioningQueue b1 = deprovisioningQueue b \<and> provisioningQueue b1 = provisioningQueue b"
proof -
  from assms obtain c ctx ch b0 where h: "Handle visit k now (set_context c i) ctx b = (Returned (ch, None), b0)"
      and f: "finish_context E ctx ch (set_context c i) b0 = (Inr (i1, changed), b1)" by (rule processContext_Inr)
  note fin = finish_context_Inr [OF f]
  from fin(4) obtain m where b1: "b1 = b0\<lparr>insts := m\<rparr>" by blast
  show "map_of (insts b1) (inst_ID i) = Some i1" "inst_ID i1 = inst_ID i" using fin(1,2) by (simp_all only: inst_ID_set_context)
  show "updatingQueue b1 = updatingQueue b" using Handle_effect(2) [OF h] by (simp add: b1)
  show "ops b1 = ops b \<and> deprovisioningQueue b1 = deprovisioningQueue b \<and> provisioningQueue b1 = provisioningQueue b" if "\<not> changed"
  proof -
    have "b0 = b" by (rule Handle_effect(3) [OF h, of None]) (use that fin(3) in simp)
    then show ?thesis by (simp add: b1)
  qed
qed

lemma save_stored:
  assumes "map_of (insts b) (inst_ID i) = Some j" "inst_Version j = inst_Version i"
  shows "\<exists>m. save_instance i b = (Returned (next_version i), b\<lparr>insts := m\<rparr>)"
proof -
  from assms obtain m where "inst_Update i (insts b) = (Inr (next_version i), m)" by (rule insts.update_stored)
  then show ?thesis by (auto simp: save_instance_def)
qed

text \<open>Storing an update of an instance that nobody else changes.\<close>

lemma store_update_alone:
  assumes "map_of (insts b) (inst_ID i) = Some j" "inst_Version j = inst_Version i" "\<And>b'. meanwhile b' = b'"
  shows "(\<exists>e b'. store_update E meanwhile operation u i lastP b = (Returned (Inl e), b')) \<or>
         (\<exists>spec b' s. store_update E meanwhile operation u i lastP b = (Returned (Inr spec), b') \<and> upd_OperationData spec = op_ID operation \<and>
            InsertOperation operation (ops b) = (Inr (), s) \<and> ops b' = s \<and> updatingQueue b' = updatingQueue b @ [op_ID operation] \<and>
            provisioningQueue b' = provisioningQueue b \<and> deprovisioningQueue b' = deprovisioningQueue b)"
proof (cases "InsertOperation operation (ops b)")
  case (Pair r s)
  obtain names p where ch: "instance_changes u (Parameters (inst_Parameters i)) = (names, p)" by fastforce
  let ?i = "i\<lparr>inst_Parameters := (inst_Parameters i)\<lparr>Parameters := p\<rparr>\<rparr>"
  obtain m where "save_instance ?i (b\<lparr>ops := s\<rparr>) = (Returned (next_version ?i), b\<lparr>ops := s, insts := m\<rparr>)"
    using save_stored [of "b\<lparr>ops := s\<rparr>" ?i j] assms(1,2) by auto
  with Pair ch assms(3) show ?thesis
    by (cases r; cases "names = []") (auto simp: store_update_def update_answer_def queue_update_def)
qed

definition requested :: "update_env \<Rightarrow> update_details \<Rightarrow> updating_parameters option" where
  "requested E d = (if RawParameters d \<noteq> [] then decode_update E (RawParameters d) else Some no_update)"

lemma processUpdateParameters_cases:
  obtains (settled) x where "processUpdateParameters E mw k now i d lastP async ctx b = (Returned x, b)"
      "\<And>spec. x = Inr spec \<Longrightarrow> \<not> upd_IsAsync spec"
    | (stored) params where "requested E d = Some params" "async"
      "processUpdateParameters E mw k now i d lastP async ctx b = store_update E mw (NewUpdateOperation k now i params) params i lastP b"
proof -
  let ?r = "processUpdateParameters E mw k now i d lastP async ctx b"
  have "(\<exists>x. ?r = (Returned x, b) \<and> (\<forall>spec. x = Inr spec \<longrightarrow> \<not> upd_IsAsync spec)) \<or>
      (\<exists>params. requested E d = Some params \<and> async \<and> ?r = store_update E mw (NewUpdateOperation k now i params) params i lastP b)"
  proof (cases "shouldUpdate d ctx \<and> async")
    case False
    then show ?thesis by (auto simp: processUpdateParameters_def update_answer_def)
  next
    case True
    show ?thesis
    proof (cases "requested E d")
      case None
      with True show ?thesis by (simp add: processUpdateParameters_def requested_def)
    next
      case (Some params)
      with True show ?thesis
        by (simp add: processUpdateParameters_def requested_def [symmetric] Let_def split: option.split sum.split prod.split)
    qed
  qed
  with settled stored show thesis by blast
qed

section \<open>Properties\<close>

text \<open>An environment and a request for the examples: a new machine type.\<close>

definition some_env :: update_env where
  "some_env = \<lparr>processingEnabled = True, subAccountMovementEnabled = False, LandscapeURL = [],
     env_cfg = \<lparr>cfg_URL = ''https://keb'', EnableKubeconfigURLLabel = True, ShowTrialExpirationInfo = False,
       SubaccountsIdsToShowTrialExpirationInfo = [], TrialDocsURL = [], OnlySingleTrialPerGA = True\<rparr>,
     decode_context = (\<lambda>t. Some (ErsContext some_parameters)),
     decode_update = (\<lambda>t. Some (no_update\<lparr>upd_MachineType := Some t\<rparr>)),
     schema_check = (\<lambda>provider plan region t. None), planDefaults = (\<lambda>plan provider. Inr (Some (3, 20))), url_parse = (\<lambda>t. None)\<rparr>"

definition some_update :: update_details where
  "some_update = \<lparr>upd_PlanID = [], RawContext = ''{}'', RawParameters = ''m5.xlarge''\<rparr>"

lemma some_env_simps [simp]:
  "processingEnabled some_env" "\<not> subAccountMovementEnabled some_env" "LandscapeURL some_env = []"
  "decode_context some_env t = Some (ErsContext some_parameters)"
  "decode_update some_env t = Some (no_update\<lparr>upd_MachineType := Some t\<rparr>)" "schema_check some_env pr pl r t = None"
  "planDefaults some_env pl pr = Inr (Some (3, 20))" "RawParameters some_update = ''m5.xlarge''"
  by (simp_all add: some_env_def some_update_def)

text \<open>
  An update of an unknown or expired instance, of one whose latest provisioning failed, or of one whose
  latest deprovisioning was not a suspension, ends with an error and changes nothing.
\<close>

theorem hopeless_updates_are_refused:
  assumes "insts_ok (insts b)"
    and "map_of (insts b) iid = None \<or> (\<exists>i. map_of (insts b) iid = Some i \<and> IsExpired i) \<or>
         (\<exists>op. GetProvisioningOperationByInstanceID visit iid (ops b) = Inr op \<and> State op = Failed) \<or>
         (\<exists>op. GetDeprovisioningOperationByInstanceID visit iid (ops b) = Inr op \<and> \<not> Temporary op)"
  shows "\<exists>e. Update E visit meanwhile k now iid d async b = (Returned (Inl e), b)"
proof (cases "update_guards E visit iid d b")
  case (Inl e)
  then show ?thesis by (simp add: Update_def)
next
  case (Inr r)
  then obtain i ctx lastP where g: "update_guards E visit iid d b = Inr (i, ctx, lastP)" by (cases r) auto
  note guards = update_guards_Inr [OF g]
  have "current i b" "inst_ID i = iid" using current_GetByID [OF assms(1) guards(1)] by simp_all
  with assms(2) guards show ?thesis by (auto simp: current_def IsExpired_def)
qed

theorem hopeless_updates_are_refused_witness:
  "\<exists>e. Update some_env (\<lambda>m. m) (\<lambda>b. b) ''u'' 5 ''i'' some_update True (some_broker\<lparr>insts := [(''i'', some_instance\<lparr>ExpiredAt := Some 3\<rparr>)]\<rparr>) =
     (Returned (Inl e), some_broker\<lparr>insts := [(''i'', some_instance\<lparr>ExpiredAt := Some 3\<rparr>)]\<rparr>)"
  by (rule hopeless_updates_are_refused) (simp_all add: insts_ok_def IsExpired_def)

text \<open>
  (C19) Left to itself the endpoint never panics, for any request and any stored state, although the
  handler it calls dereferences a pointer that may be nil: the flag it passes on is computed from the stored operations and
  rules that case out.
\<close>

theorem updates_do_not_panic:
  assumes "visits_all visit"
  shows "fst (Update E visit (\<lambda>b. b) k now iid d async b) \<noteq> Panicked v"
proof (cases "update_guards E visit iid d b")
  case (Inr r)
  obtain i ctx lastP where r: "r = (i, ctx, lastP)" by (cases r)
  let ?i = "with_dashboard E iid i"
  obtain res b1 where pc: "processContext E visit k now ?i d lastP b = (res, b1)" by fastforce
  with processContext_no_panic [OF assms, of E k now ?i d lastP b] obtain x where x: "res = Returned x" by (cases res) auto
  have "fst (processUpdateParameters E (\<lambda>b. b) k now i1 d lastP async ctx b1) \<noteq> Panicked v" if "x = Inr (i1, changed)" for i1 changed
  proof (cases rule: processUpdateParameters_cases [of E "\<lambda>b. b" k now i1 d lastP async ctx b1])
    case (stored params)
    have "map_of (insts b1) (inst_ID i1) = Some i1"
      using processContext_stored(1,2) [of E visit k now ?i d lastP b i1 changed b1] pc x that by simp
    from store_update_alone [OF this refl, of "\<lambda>b. b" E "NewUpdateOperation k now i1 params" params lastP] stored(3)
    show ?thesis by auto
  qed simp
  with Inr r pc x show ?thesis by (cases x) (auto simp: Update_def Let_def split: if_splits)
qed (simp add: Update_def)

theorem updates_do_not_panic_witness:
  "fst (Update some_env (\<lambda>m. m) (\<lambda>b. b) ''u'' 5 ''i'' some_update True trial_broker) \<noteq> Panicked nil_dereference"
  by (rule updates_do_not_panic) simp

text \<open>
  When the endpoint announces an asynchronous update, an operation with the announced id has been stored,
  waiting, for this instance and with the requested parameters, and exactly this id has been added to the queue of
  updates; no other operation was created or queued.
\<close>

theorem accepted_updates_are_queued:
  assumes "visits_all visit" and "insts_ok (insts b)"
    and "Update E visit (\<lambda>b. b) k now iid d async b = (Returned (Inr spec), b')" and "upd_IsAsync spec"
  shows "upd_OperationData spec = k \<and> updatingQueue b' = updatingQueue b @ [k] \<and>
         provisioningQueue b' = provisioningQueue b \<and> deprovisioningQueue b' = deprovisioningQueue b \<and>
         (\<exists>op. main_operations (ops b') = insert op (main_operations (ops b)) \<and> op_ID op = k \<and> InstanceID op = iid \<and>
            op_Type op = OperationTypeUpdate \<and> State op = Pending \<and> requested E d = Some (UpdatingParameters op))"
proof -
  from assms(3,4) obtain i ctx lastP where g: "update_guards E visit iid d b = Inr (i, ctx, lastP)"
    by (auto simp: Update_def split: sum.splits)
  note guards = update_guards_Inr [OF g]
  let ?i = "with_dashboard E iid i"
  from assms(3,4) g obtain i1 b1 where pc: "processContext E visit k now ?i d lastP b = (Returned (Inr (i1, False)), b1)"
      and up: "processUpdateParameters E (\<lambda>b. b) k now i1 d lastP async ctx b1 = (Returned (Inr spec), b')"
    by (auto simp: Update_def Let_def update_answer_def split: if_splits prod.splits go_call.splits sum.splits)
  note st = processContext_stored [OF pc]
  have ID: "inst_ID i1 = iid" using st(2) current_GetByID [OF assms(2) guards(1)] by simp
  show ?thesis
  proof (cases rule: processUpdateParameters_cases [of E "\<lambda>b. b" k now i1 d lastP async ctx b1])
    case (settled x)
    with up assms(4) show ?thesis by simp
  next
    case (stored params)
    have "map_of (insts b1) (inst_ID i1) = Some i1" using st(1,2) by simp
    from store_update_alone [OF this refl, of "\<lambda>b. b" E "NewUpdateOperation k now i1 params" params lastP] stored(3) up
    obtain s where s: "upd_OperationData spec = k" "InsertOperation (NewUpdateOperation k now i1 params) (ops b1) = (Inr (), s)" "ops b' = s"
        "updatingQueue b' = updatingQueue b1 @ [k]" "provisioningQueue b' = provisioningQueue b1" "deprovisioningQueue b' = deprovisioningQueue b1"
      by auto
    have "UpdatingParameters (NewUpdateOperation k now i1 params) = params" by (simp add: NewUpdateOperation_def)
    with s st(3,4) main_operations_insert [OF s(2)] stored(1) ID show ?thesis by auto
  qed
qed

lemma some_update_accepted:
  "\<exists>spec b'. Update some_env (\<lambda>m. m) (\<lambda>b. b) ''u'' 5 ''i'' some_update True some_broker = (Returned (Inr spec), b') \<and> upd_IsAsync spec"
proof -
  have last: "GetLastOperation (\<lambda>m. m) ''i'' (ops some_broker) = Inr some_operation"
    using last.lookup_newest [of "\<lambda>m. m" some_operation "ops some_broker"] by (simp add: op_states)
  have prov: "GetProvisioningOperationByInstanceID (\<lambda>m. m) ''i'' (ops some_broker) = Inr some_operation"
    using prov.lookup_newest [of "\<lambda>m. m" some_operation "ops some_broker"] by simp
  obtain e where dep: "GetDeprovisioningOperationByInstanceID (\<lambda>m. m) ''i'' (ops some_broker) = Inl e" "IsNotFound e"
    by (rule dep.lookup_none [of "\<lambda>m. m" "ops some_broker" "''i''"]) auto
  note eval = last prov dep op_states TrialPlanID_def
  have guards: "update_guards some_env (\<lambda>m. m) ''i'' some_update some_broker =
      Inr (some_instance\<lparr>inst_Parameters := json_parameters some_parameters, inst_Details := json_details (InstanceDetails some_operation)\<rparr>,
           ErsContext some_parameters, some_operation)"
    by (simp add: update_guards_def inst_GetByID_def validateWithJsonSchemaValidator_def IsExpired_def eval)
  show ?thesis
    by (simp add: Update_def guards with_dashboard_def processContext_def extractActiveValue_def Handle_def IsTrialPlan_def
      finish_context_def set_context_def inst_Update_def processUpdateParameters_def shouldUpdate_def store_update_def
      InsertOperation_def insert_new_def instance_changes_def UpdateAutoScaler_def oidc_IsProvided_def autoscaler_Validate_def
      NewUpdateOperation_def updated_parameters_def no_update_def json_parameters_def IsExpired_def update_answer_def
      some_parameters_def Let_def eval)
qed

theorem accepted_updates_are_queued_witness:
  "\<exists>b' spec. Update some_env (\<lambda>m. m) (\<lambda>b. b) ''u'' 5 ''i'' some_update True some_broker = (Returned (Inr spec), b') \<and>
     updatingQueue b' = [''u''] \<and> upd_OperationData spec = ''u''"
proof -
  obtain spec b' where u: "Update some_env (\<lambda>m. m) (\<lambda>b. b) ''u'' 5 ''i'' some_update True some_broker = (Returned (Inr spec), b')" "upd_IsAsync spec"
    using some_update_accepted by blast
  moreover have "updatingQueue some_broker = []" by (simp add: some_broker_def)
  ultimately show ?thesis
    using accepted_updates_are_queued [OF visits_all_id _ u] by (auto simp: insts_ok_def)
qed



text \<open>
  An update of nothing but the machine type reaches the operation but not the stored
  instance, which keeps the old one.
\<close>

theorem machine_type_is_not_saved:
  assumes "t \<noteq> []" and "fresh_id k b" and "u = no_update\<lparr>upd_MachineType := Some t\<rparr>"
  shows "MachineType (Parameters (ProvisioningParameters (NewUpdateOperation k now i u))) = Some t \<and>
         (\<exists>spec b'. store_update E (\<lambda>b. b) (NewUpdateOperation k now i u) u i lastP b = (Returned (Inr spec), b') \<and>
            upd_IsAsync spec \<and> insts b' = insts b)"
proof
  show "MachineType (Parameters (ProvisioningParameters (NewUpdateOperation k now i u))) = Some t"
    using assms(1) by (simp add: assms(3) NewUpdateOperation_def updated_parameters_def no_update_def)
  from assms(2) obtain s where "InsertOperation (NewUpdateOperation k now i u) (ops b) = (Inr (), s)"
    by (auto simp: fresh_id_def InsertOperation_def insert_new_def)
  moreover have "fst (instance_changes u p) = []" for p
    by (simp add: assms(3) instance_changes_def no_update_def oidc_IsProvided_def UpdateAutoScaler_def Let_def)
  then obtain p where "instance_changes u (Parameters (inst_Parameters i)) = ([], p)" by (metis prod.collapse)
  ultimately show "\<exists>spec b'. store_update E (\<lambda>b. b) (NewUpdateOperation k now i u) u i lastP b = (Returned (Inr spec), b') \<and>
      upd_IsAsync spec \<and> insts b' = insts b"
    by (simp add: store_update_def update_answer_def queue_update_def)
qed

theorem machine_type_is_not_saved_witness:
  "\<exists>spec b'. store_update some_env (\<lambda>b. b) (NewUpdateOperation ''u'' 5 some_instance (no_update\<lparr>upd_MachineType := Some ''m5''\<rparr>))
     (no_update\<lparr>upd_MachineType := Some ''m5''\<rparr>) some_instance some_operation some_broker = (Returned (Inr spec), b') \<and> insts b' = insts some_broker"
  using machine_type_is_not_saved [of "''m5''" "''u''" some_broker _ 5 some_instance some_env some_operation, OF _ _ refl]
  by (auto simp: fresh_id_def)

end
