(* ===== verification/Networking.thy ===== *)
theory Networking
  imports Broker_Data "HOL-Library.Word"
begin

text \<open>
  The check of the network that a provisioning request asks for (\<^verbatim>\<open>src/internal/broker/instance_create.go\<close>,
  \<open>validateNetworking\<close>), on the address types of the package \<open>net\<close>: an address is a slice of 4 or
  16 bytes, and a 16-byte address that is an IPv4 address in disguise is treated as its last four bytes.

  The textual syntax of IPv6 and the second parser, \<open>netip.ParsePrefix\<close>, of which the code uses only the
  length it reports, are parameters.
\<close>

unbundle bit_operations_syntax

section \<open>Addresses and networks of the package net\<close>

datatype ip = IP4 "32 word" | IP16 "128 word"

record ipnet =
  net_IP :: ip
  net_Mask :: ip

record net_lib =
  parse6 :: "string \<Rightarrow> 128 word option"
  show6 :: "128 word \<Rightarrow> string"
  prefix_bits :: "string \<Rightarrow> int"

text \<open>\<open>To4\<close>, falling back to the address itself.\<close>

fun unmapped :: "ip \<Rightarrow> ip" where
  "unmapped (IP4 w) = IP4 w"
| "unmapped (IP16 w) = (if drop_bit 32 w = 0xFFFF then IP4 (ucast w) else IP16 w)"

definition CIDRMask :: "nat \<Rightarrow> 'a::len word" where
  "CIDRMask ones = NOT (mask (LENGTH('a) - ones))"

definition networkNumberAndMask :: "ipnet \<Rightarrow> (ip \<times> ip) option" where
  "networkNumberAndMask n =
     (case (unmapped (net_IP n), net_Mask n) of
        (IP4 w, IP4 m) \<Rightarrow> Some (IP4 w, IP4 m)
      | (IP4 w, IP16 m) \<Rightarrow> Some (IP4 w, IP4 (ucast m))
      | (IP16 w, IP16 m) \<Rightarrow> Some (IP16 w, IP16 m)
      | (IP16 w, IP4 m) \<Rightarrow> None)"

definition Contains :: "ipnet \<Rightarrow> ip \<Rightarrow> bool" where
  "Contains n a =
     (case (networkNumberAndMask n, unmapped a) of
        (Some (IP4 w, IP4 m), IP4 v) \<Rightarrow> w AND m = v AND m
      | (Some (IP16 w, IP16 m), IP16 v) \<Rightarrow> w AND m = v AND m
      | _ \<Rightarrow> False)"

section \<open>Parsing\<close>

definition is_digit :: "char \<Rightarrow> bool" where
  "is_digit c = (48 \<le> (of_char c :: nat) \<and> (of_char c :: nat) \<le> 57)"

fun digits_value :: "nat \<Rightarrow> string \<Rightarrow> nat" where
  "digits_value acc [] = acc"
| "digits_value acc (c # cs) = digits_value (10 * acc + (of_char c - 48)) cs"

text \<open>One field of an IPv4 address: digits without a leading zero, at most 255.\<close>

definition parse_octet :: "string \<Rightarrow> nat option" where
  "parse_octet t =
     (if t \<noteq> [] \<and> list_all is_digit t \<and> (length t = 1 \<or> hd t \<noteq> CHR ''0'') \<and> digits_value 0 t \<le> 255
      then Some (digits_value 0 t) else None)"

definition parseIPv4 :: "string \<Rightarrow> 32 word option" where
  "parseIPv4 t =
     (case map parse_octet (split t ''.'') of
        [Some a, Some b, Some c, Some d] \<Rightarrow> Some (of_nat (((a * 256 + b) * 256 + c) * 256 + d))
      | _ \<Rightarrow> None)"

text \<open>The first dot or colon decides between the families; a percent sign must not come before it.\<close>

definition ParseAddr :: "net_lib \<Rightarrow> string \<Rightarrow> ip option" where
  "ParseAddr L t =
     (case find (\<lambda>c. c \<in> {CHR ''.'', CHR '':'', CHR ''%''}) t of
        Some c \<Rightarrow>
          if c = CHR ''.'' then map_option IP4 (parseIPv4 t)
          else if c = CHR '':'' then map_option IP16 (parse6 L t)
          else None
      | None \<Rightarrow> None)"

definition dtoi :: "string \<Rightarrow> nat option" where
  "dtoi t = (if t \<noteq> [] \<and> list_all is_digit t \<and> digits_value 0 t < 0xFFFFFF then Some (digits_value 0 t) else None)"

definition ip_net :: "ip \<Rightarrow> nat \<Rightarrow> ipnet option" where
  "ip_net a ones =
     (case a of
        IP4 w \<Rightarrow> if ones \<le> 32 then Some \<lparr>net_IP = IP4 (w AND CIDRMask ones), net_Mask = IP4 (CIDRMask ones)\<rparr> else None
      | IP16 w \<Rightarrow> if ones \<le> 128 then Some \<lparr>net_IP = IP16 (w AND CIDRMask ones), net_Mask = IP16 (CIDRMask ones)\<rparr> else None)"

text \<open>The address, and the network it lies in.\<close>

definition ParseCIDR :: "net_lib \<Rightarrow> string \<Rightarrow> (ip \<times> ipnet) option" where
  "ParseCIDR L t =
     (let addr = takeWhile (\<lambda>c. c \<noteq> CHR ''/'') t; rest = dropWhile (\<lambda>c. c \<noteq> CHR ''/'') t in
      if rest = [] then None
      else (case (ParseAddr L addr, dtoi (tl rest)) of
              (Some a, Some ones) \<Rightarrow> map_option (\<lambda>n. (a, n)) (ip_net a ones)
            | _ \<Rightarrow> None))"

definition octet :: "nat \<Rightarrow> 32 word \<Rightarrow> string" where
  "octet i w = show_nat (unat (drop_bit (8 * i) w AND 0xFF))"

fun ip_text :: "net_lib \<Rightarrow> ip \<Rightarrow> string" where
  "ip_text L (IP4 w) = octet 3 w @ ''.'' @ octet 2 w @ ''.'' @ octet 1 w @ ''.'' @ octet 0 w"
| "ip_text L (IP16 w) =
     (if drop_bit 32 w = 0xFFFF
      then octet 3 (ucast w) @ ''.'' @ octet 2 (ucast w) @ ''.'' @ octet 1 (ucast w) @ ''.'' @ octet 0 (ucast w)
      else show6 L w)"

section \<open>The check of the endpoint\<close>

text \<open>\<open>IP.Equal\<close> compares 4-byte and 16-byte forms of an IPv4 address as equal.\<close>

definition validateCidr :: "net_lib \<Rightarrow> string \<Rightarrow> string + ipnet" where
  "validateCidr L cidr =
     (case ParseCIDR L cidr of
        None \<Rightarrow> Inl (''invalid CIDR address: '' @ cidr)
      | Some (a, n) \<Rightarrow>
          if unmapped (net_IP n) \<noteq> unmapped a then Inl (ip_text L a @ '' must be valid canonical CIDR'') else Inr n)"

definition validateOverlapping :: "ipnet \<Rightarrow> ipnet \<Rightarrow> bool" where
  "validateOverlapping n1 n2 = (\<not> (Contains n1 (net_IP n2) \<or> Contains n2 (net_IP n1)))"

definition DefaultPodsCIDR :: string where "DefaultPodsCIDR = ''10.96.0.0/13''"
definition DefaultServicesCIDR :: string where "DefaultServicesCIDR = ''10.104.0.0/13''"

definition GardenerSeedCIDRs :: "string list" where
  "GardenerSeedCIDRs = [''10.243.128.0/17'', ''10.242.0.0/16'', ''10.243.0.0/17'', ''10.64.0.0/11'', ''10.254.0.0/16'', ''10.243.0.0/16'']"

text \<open>A network from a constant of the program, whose parse error the code ignores.\<close>

definition known_net :: "net_lib \<Rightarrow> string \<Rightarrow> ipnet" where
  "known_net L t = (case ParseCIDR L t of Some (a, n) \<Rightarrow> n | None \<Rightarrow> \<lparr>net_IP = IP4 0, net_Mask = IP4 0\<rparr>)"

text \<open>
  The messages of the errors collected; none means that the parameters are accepted.  After the two early
  returns the pods and the services have no range of their own, so the defaults are used.
\<close>

definition validateNetworking :: "net_lib \<Rightarrow> parameters_dto \<Rightarrow> string list" where
  "validateNetworking L parameters =
     (let zones_err = (if length (slice_elems (Zones parameters)) > 4 then [''number of zones must not be greater than 4''] else []) in
      case Networking parameters of
        None \<Rightarrow> []
      | Some nw \<Rightarrow>
          if PodsCidr nw \<noteq> None then [''pod network's CIDR is not supported in the request'']
          else if ServicesCidr nw \<noteq> None then [''service network's CIDR is not supported in the request'']
          else
            (let bits_err = (if prefix_bits L (NodesCidr nw) > 23
                             then [''the suffix of the node CIDR must not be greater than 26''] else []) in
             case validateCidr L (NodesCidr nw) of
               Inl e \<Rightarrow> zones_err @ [''while parsing nodes CIDR: '' @ e] @ bits_err
             | Inr nodes \<Rightarrow>
                 if zones_err @ bits_err \<noteq> [] then zones_err @ bits_err
                 else
                   (let seed_errs = map (\<lambda>seed. ''nodes CIDR must not overlap '' @ seed)
                          (filter (\<lambda>seed. \<not> validateOverlapping nodes (known_net L seed)) GardenerSeedCIDRs);
                        pods = known_net L DefaultPodsCIDR;
                        services = known_net L DefaultServicesCIDR
                    in if seed_errs \<noteq> [] then seed_errs
                       else
                         (if validateOverlapping nodes pods then [] else [''nodes CIDR must not overlap '' @ DefaultPodsCIDR]) @
                         (if validateOverlapping nodes services then [] else [''nodes CIDR must not overlap '' @ DefaultServicesCIDR]) @
                         (if validateOverlapping services pods then [] else [''services CIDR must not overlap pods CIDR'']))))"

section \<open>Prefix masks are nested\<close>

lemma bit_CIDRMask: "bit (CIDRMask k :: 'a::len word) i \<longleftrightarrow> i < LENGTH('a) \<and> LENGTH('a) - k \<le> i"
  by (auto simp: CIDRMask_def bit_not_iff bit_mask_iff)

lemma CIDRMask_nested: "j \<le> k \<Longrightarrow> CIDRMask j AND CIDRMask k = (CIDRMask j :: 'a::len word)"
  by (rule bit_word_eqI) (auto simp: bit_and_iff bit_CIDRMask)

lemma shared_address:
  fixes a w1 w2 :: "'a::len word"
  assumes "w1 AND CIDRMask j = a AND CIDRMask j" "w2 AND CIDRMask k = a AND CIDRMask k" "j \<le> k"
  shows "w1 AND CIDRMask j = w2 AND CIDRMask j"
proof -
  have "w2 AND CIDRMask j = (w2 AND CIDRMask k) AND CIDRMask j"
    by (metis CIDRMask_nested [OF assms(3)] and.assoc and.commute)
  also have "\<dots> = (a AND CIDRMask k) AND CIDRMask j" by (simp add: assms(2))
  also have "\<dots> = a AND CIDRMask j" by (metis CIDRMask_nested [OF assms(3)] and.assoc and.commute)
  finally show ?thesis by (simp add: assms(1))
qed

lemma ucast_CIDRMask: "96 \<le> k \<Longrightarrow> k \<le> 128 \<Longrightarrow> ucast (CIDRMask k :: 128 word) = (CIDRMask (k - 96) :: 32 word)"
  by (rule bit_word_eqI) (auto simp: bit_ucast_iff bit_CIDRMask)

text \<open>After \<open>networkNumberAndMask\<close> a parsed network has a prefix mask of its own width.\<close>

definition prefix_net :: "ipnet \<Rightarrow> bool" where
  "prefix_net n =
     ((\<exists>w k. networkNumberAndMask n = Some (IP4 w, IP4 (CIDRMask k)) \<and> unmapped (net_IP n) = IP4 w) \<or>
      (\<exists>w k. networkNumberAndMask n = Some (IP16 w, IP16 (CIDRMask k)) \<and> unmapped (net_IP n) = IP16 w))"

lemma mapped_needs_96:
  fixes w :: "128 word"
  assumes "drop_bit 32 (w AND CIDRMask k) = 0xFFFF"
  shows "96 \<le> k"
proof (rule ccontr)
  assume "\<not> 96 \<le> k"
  then have "\<not> bit (CIDRMask k :: 128 word) 32" by (simp add: bit_CIDRMask)
  then have "\<not> bit (drop_bit 32 (w AND CIDRMask k)) 0" by (simp add: bit_drop_bit_eq bit_and_iff)
  moreover have "bit (0xFFFF :: 128 word) 0" by simp
  ultimately show False using assms by metis
qed

lemma ip_net_prefix: "ip_net a k = Some n \<Longrightarrow> prefix_net n"
proof (cases a)
  case (IP4 w)
  assume "ip_net a k = Some n"
  with IP4 show ?thesis
    by (auto simp: ip_net_def prefix_net_def networkNumberAndMask_def split: if_splits)
next
  case (IP16 w)
  assume n: "ip_net a k = Some n"
  let ?w = "w AND CIDRMask k"
  from n IP16 have k: "k \<le> 128" and n': "n = \<lparr>net_IP = IP16 ?w, net_Mask = IP16 (CIDRMask k)\<rparr>"
    by (auto simp: ip_net_def split: if_splits)
  show ?thesis
  proof (cases "drop_bit 32 ?w = 0xFFFF")
    case True
    with mapped_needs_96 [OF True] k show ?thesis
      by (auto simp: n' prefix_net_def networkNumberAndMask_def ucast_CIDRMask)
  next
    case False
    then show ?thesis by (auto simp: n' prefix_net_def networkNumberAndMask_def)
  qed
qed

lemma ParseCIDR_prefix: "ParseCIDR L t = Some (a, n) \<Longrightarrow> prefix_net n"
  by (auto simp: ParseCIDR_def Let_def split: if_splits option.splits intro: ip_net_prefix)

lemma Contains_self: "prefix_net n \<Longrightarrow> Contains n (net_IP n)"
  by (auto simp: prefix_net_def Contains_def)

lemma Contains_shared:
  assumes "prefix_net n1" "prefix_net n2" "Contains n1 a" "Contains n2 a"
  shows "Contains n1 (net_IP n2) \<or> Contains n2 (net_IP n1)"
proof (cases "unmapped a")
  case (IP4 v)
  with assms obtain w1 w2 j k where
      "networkNumberAndMask n1 = Some (IP4 w1, IP4 (CIDRMask j))" "unmapped (net_IP n1) = IP4 w1"
      "networkNumberAndMask n2 = Some (IP4 w2, IP4 (CIDRMask k))" "unmapped (net_IP n2) = IP4 w2"
      "w1 AND CIDRMask j = v AND CIDRMask j" "w2 AND CIDRMask k = v AND CIDRMask k"
    by (auto simp: prefix_net_def Contains_def)
  then show ?thesis
    using shared_address [of w1 j v w2 k] shared_address [of w2 k v w1 j]
    by (cases "j \<le> k") (simp_all add: Contains_def)
next
  case (IP16 v)
  with assms obtain w1 w2 j k where
      "networkNumberAndMask n1 = Some (IP16 w1, IP16 (CIDRMask j))" "unmapped (net_IP n1) = IP16 w1"
      "networkNumberAndMask n2 = Some (IP16 w2, IP16 (CIDRMask k))" "unmapped (net_IP n2) = IP16 w2"
      "w1 AND CIDRMask j = v AND CIDRMask j" "w2 AND CIDRMask k = v AND CIDRMask k"
    by (auto simp: prefix_net_def Contains_def)
  then show ?thesis
    using shared_address [of w1 j v w2 k] shared_address [of w2 k v w1 j]
    by (cases "j \<le> k") (simp_all add: Contains_def)
qed

definition share_an_address :: "ipnet \<Rightarrow> ipnet \<Rightarrow> bool" where
  "share_an_address n1 n2 = (\<exists>a. Contains n1 a \<and> Contains n2 a)"

lemma validateOverlapping_iff:
  assumes "prefix_net n1" "prefix_net n2"
  shows "validateOverlapping n1 n2 \<longleftrightarrow> \<not> share_an_address n1 n2"
  using Contains_shared [OF assms] Contains_self [OF assms(1)] Contains_self [OF assms(2)]
  by (auto simp: validateOverlapping_def share_an_address_def)

section \<open>Which ranges are accepted\<close>

text \<open>The constants of the program parse, and the two defaults lie apart.\<close>

definition reserved :: "string list" where
  "reserved = GardenerSeedCIDRs @ [DefaultPodsCIDR, DefaultServicesCIDR]"

lemmas parse_v4 = ParseCIDR_def ParseAddr_def ip_net_def parseIPv4_def split_def starts_with_def parse_octet_def
  is_digit_def dtoi_def CIDRMask_def mask_eq_exp_minus_1

lemma reserved_nets:
  "known_net L ''10.243.128.0/17'' = \<lparr>net_IP = IP4 0x0AF38000, net_Mask = IP4 0xFFFF8000\<rparr>"
  "known_net L ''10.242.0.0/16'' = \<lparr>net_IP = IP4 0x0AF20000, net_Mask = IP4 0xFFFF0000\<rparr>"
  "known_net L ''10.243.0.0/17'' = \<lparr>net_IP = IP4 0x0AF30000, net_Mask = IP4 0xFFFF8000\<rparr>"
  "known_net L ''10.64.0.0/11'' = \<lparr>net_IP = IP4 0x0A400000, net_Mask = IP4 0xFFE00000\<rparr>"
  "known_net L ''10.254.0.0/16'' = \<lparr>net_IP = IP4 0x0AFE0000, net_Mask = IP4 0xFFFF0000\<rparr>"
  "known_net L ''10.243.0.0/16'' = \<lparr>net_IP = IP4 0x0AF30000, net_Mask = IP4 0xFFFF0000\<rparr>"
  "known_net L ''10.96.0.0/13'' = \<lparr>net_IP = IP4 0x0A600000, net_Mask = IP4 0xFFF80000\<rparr>"
  "known_net L ''10.104.0.0/13'' = \<lparr>net_IP = IP4 0x0A680000, net_Mask = IP4 0xFFF80000\<rparr>"
  by (simp_all add: known_net_def parse_v4)

lemma known_net_prefix: "ParseCIDR L t \<noteq> None \<Longrightarrow> prefix_net (known_net L t)"
  by (auto simp: known_net_def ParseCIDR_prefix)

lemma reserved_parse: "t \<in> set reserved \<Longrightarrow> ParseCIDR L t \<noteq> None"
  by (auto simp: reserved_def GardenerSeedCIDRs_def DefaultPodsCIDR_def DefaultServicesCIDR_def parse_v4)

lemma defaults_apart: "validateOverlapping (known_net L DefaultServicesCIDR) (known_net L DefaultPodsCIDR)"
  by (simp add: DefaultPodsCIDR_def DefaultServicesCIDR_def reserved_nets validateOverlapping_def Contains_def networkNumberAndMask_def)

definition keeps_clear :: "net_lib \<Rightarrow> ipnet \<Rightarrow> bool" where
  "keeps_clear L n = list_all (\<lambda>t. \<not> share_an_address n (known_net L t)) reserved"

lemma keeps_clear_iff:
  assumes "prefix_net n"
  shows "keeps_clear L n \<longleftrightarrow> list_all (\<lambda>t. validateOverlapping n (known_net L t)) reserved"
  using validateOverlapping_iff [OF assms known_net_prefix [OF reserved_parse]]
  by (simp add: keeps_clear_def list_all_iff)

lemma validateCidr_Inr:
  "validateCidr L t = Inr n \<longleftrightarrow> (\<exists>a. ParseCIDR L t = Some (a, n) \<and> unmapped (net_IP n) = unmapped a)"
  by (auto simp: validateCidr_def split: option.split prod.split)


text \<open>Parameters for the examples.\<close>

definition plain_lib :: net_lib where
  "plain_lib = \<lparr>parse6 = (\<lambda>t. if t = ''2001:800::'' then Some 0x20010800000000000000000000000000 else None), show6 = (\<lambda>w. []),
     prefix_bits = (\<lambda>t. case dtoi (tl (dropWhile (\<lambda>c. c \<noteq> CHR ''/'') t)) of Some k \<Rightarrow> int k | None \<Rightarrow> -1)\<rparr>"

definition with_nodes :: "string \<Rightarrow> string list \<Rightarrow> parameters_dto" where
  "with_nodes cidr zones = \<lparr>AutoScaler = upd_AutoScaler no_update, Name = ''skr'', TargetSecret = None,
     VolumeSizeGb = None, MachineType = None, param_Region = None, Purpose = None, LicenceType = None, Zones = Some zones,
     OptionalComponentsToInstall = None, KymaVersion = [], OverridesVersion = [], RuntimeAdministrators = None,
     param_Provider = None, Kubeconfig = [], param_ShootName = [], param_ShootDomain = [], OIDC = None,
     Networking = Some \<lparr>NodesCidr = cidr, PodsCidr = None, ServicesCidr = None\<rparr>, Modules = None\<rparr>"

lemmas check_nodes = validateNetworking_def validateCidr_def with_nodes_def plain_lib_def GardenerSeedCIDRs_def
  DefaultPodsCIDR_def DefaultServicesCIDR_def reserved_nets validateOverlapping_def Contains_def networkNumberAndMask_def


text \<open>
  The limit of four zones, which the comment in the code explains by the way the
  zone networks are computed, is enforced only together with a networking section: without one, any number of
  zones is accepted.
\<close>

theorem zones_are_unchecked:
  "validateNetworking L (p\<lparr>Networking := None, Zones := Some zones\<rparr>) = [] \<and>
   (4 < length zones \<longrightarrow> validateNetworking L (p\<lparr>Networking := Some nw, Zones := Some zones\<rparr>) \<noteq> [])"
  by (auto simp: validateNetworking_def Let_def split: sum.split)

theorem zones_are_unchecked_witness:
  "validateNetworking plain_lib ((with_nodes ''10.250.0.0/22'' [])\<lparr>Networking := None, Zones := Some (replicate 5 ''1'')\<rparr>) = [] \<and>
   validateNetworking plain_lib ((with_nodes ''10.250.0.0/22'' [])\<lparr>Networking := Networking (with_nodes ''10.250.0.0/22'' []),
     Zones := Some (replicate 5 ''1'')\<rparr>) \<noteq> []"
  using zones_are_unchecked [where L = plain_lib and p = "with_nodes ''10.250.0.0/22'' []" and zones = "replicate 5 ''1''" and
      nw = "\<lparr>NodesCidr = ''10.250.0.0/22'', PodsCidr = None, ServicesCidr = None\<rparr>"]
  by (simp add: with_nodes_def)

text \<open>
  @CID:Networking.ipv6_nodes_pass@ The overlap test cannot fail across address families, so every canonical IPv6
  range with a prefix of at most 23 bits is accepted as a range of nodes.
\<close>

theorem ipv6_nodes_pass:
  assumes "ParseCIDR L cidr = Some (IP16 w, n)" and "net_IP n = IP16 w" and "drop_bit 32 w \<noteq> 0xFFFF"
    and "prefix_bits L cidr \<le> 23" and "length zones \<le> 4"
  shows "validateNetworking L (with_nodes cidr zones) = []"
proof -
  have "net_Mask n = IP4 m \<Longrightarrow> False" for m
    using assms(1) by (auto simp: ParseCIDR_def Let_def ip_net_def split: if_splits option.splits)
  then obtain m where m: "net_Mask n = IP16 m" by (cases "net_Mask n") auto
  have "validateOverlapping n \<lparr>net_IP = IP4 u, net_Mask = IP4 v\<rparr>" for u v
    using assms(2,3) m by (simp add: validateOverlapping_def Contains_def networkNumberAndMask_def)
  then have "list_all (\<lambda>t. validateOverlapping n (known_net L t)) reserved"
    by (simp add: reserved_def GardenerSeedCIDRs_def DefaultPodsCIDR_def DefaultServicesCIDR_def reserved_nets)
  then have "keeps_clear L n" by (simp add: keeps_clear_iff ParseCIDR_prefix [OF assms(1)])
  moreover have "validateCidr L cidr = Inr n" using assms(1,2) by (simp add: validateCidr_def)
  ultimately show ?thesis
    using assms(4,5) defaults_apart [of L] keeps_clear_iff [OF ParseCIDR_prefix [OF assms(1)], of L]
    by (simp add: validateNetworking_def with_nodes_def reserved_def filter_empty_conv list_all_iff)
qed

theorem ipv6_nodes_pass_witness: "validateNetworking plain_lib (with_nodes ''2001:800::/21'' []) = []"
  by (rule ipv6_nodes_pass [where w = "0x20010800000000000000000000000000" and
        n = "\<lparr>net_IP = IP16 0x20010800000000000000000000000000, net_Mask = IP16 (CIDRMask 21)\<rparr>"])
     (simp_all add: plain_lib_def ParseCIDR_def ParseAddr_def dtoi_def is_digit_def ip_net_def CIDRMask_def mask_eq_exp_minus_1)

end
