(* ===== verification/Instance_Create.thy ===== *)
theory Instance_Create
  imports Broker_Endpoints Networking
begin

text \<open>
  The endpoint that creates an instance (\<^verbatim>\<open>src/internal/broker/instance_create.go\<close>).

  Parameters, collected in \<open>provision_env\<close>: the configuration, decoding of the JSON texts (an error text or the value),
  lower case of a text, quoting for \<open>%q\<close>, the text of the error for the messages of the networking check, plan
  defaults, JSON schema, decoding and checking of a kubeconfig (each giving an error text when it refuses), and
  the packages behind \<open>Networking\<close> and \<open>url.Parse\<close>.  The random name of the cluster is an argument.
\<close>

record provision_env =
  pe_cfg :: endpoint_config
  pe_LandscapeURL :: string
  enabledPlanIDs :: "string list"
  kymaVerOnDemand :: bool
  shootDomain :: string
  shootDnsProviders :: string
  euAccessWhitelist :: "string list"
  euAccessRejectionMessage :: string
  IsPlanSupport :: "string \<Rightarrow> bool"
  ctx_of :: "string \<Rightarrow> string + ers_context"
  params_of :: "string \<Rightarrow> string + parameters_dto"
  ToLower :: "string \<Rightarrow> string"
  quote_text :: "string \<Rightarrow> string"
  network_text :: "string list \<Rightarrow> string"
  pe_planDefaults :: "string \<Rightarrow> string \<Rightarrow> string option \<Rightarrow> string + (int \<times> int) option"
  create_schema :: "string \<Rightarrow> string \<Rightarrow> string \<Rightarrow> string \<Rightarrow> string option"
  decode_kubeconfig :: "string \<Rightarrow> string + string"
  check_kubeconfig :: "string \<Rightarrow> string option"
  pe_net :: net_lib
  pe_url_parse :: "string \<Rightarrow> (string \<times> string) option"

record provision_details =
  req_ServiceID :: string
  req_PlanID :: string
  req_RawContext :: string
  req_RawParameters :: string

record provision_spec =
  prov_IsAsync :: bool
  prov_OperationData :: string
  prov_DashboardURL :: string
  prov_Labels :: "(string \<times> string) list"

definition KymaServiceID :: string where "KymaServiceID = ''47c9dcbf-ff30-448e-ab36-d3bad66ba281''"
definition KymaServiceName :: string where "KymaServiceName = ''kymaruntime''"
definition LicenceTypeLite :: string where "LicenceTypeLite = ''TestDevelopmentAndDemo''"

definition validRegionsForTrial :: "string list" where "validRegionsForTrial = [''europe'', ''us'', ''asia'']"

section \<open>Validation\<close>

definition extractERSContext :: "provision_env \<Rightarrow> provision_details \<Rightarrow> string + ers_context" where
  "extractERSContext E d =
     (case ctx_of E (req_RawContext d) of
        Inl err \<Rightarrow> Inl (''while decoding context: '' @ err)
      | Inr c \<Rightarrow>
          if GlobalAccountID c = [] then Inl ''global accountID parameter cannot be empty''
          else if SubAccountID c = [] then Inl ''subAccountID parameter cannot be empty''
          else if UserID c = [] then Inl ''UserID parameter cannot be empty''
          else Inr (c\<lparr>UserID := ToLower E (UserID c)\<rparr>))"

definition extractInputParameters :: "provision_env \<Rightarrow> provision_details \<Rightarrow> string + parameters_dto" where
  "extractInputParameters E d =
     (case params_of E (req_RawParameters d) of
        Inl err \<Rightarrow> Inl (''while unmarshaling raw parameters: '' @ err)
      | Inr p \<Rightarrow> Inr p)"

definition determineLicenceType :: "string \<Rightarrow> string option" where
  "determineLicenceType planId = (if planId = AzureLitePlanID \<or> IsTrialPlan planId then Some LicenceTypeLite else None)"

text \<open>The first of several checks that fails; a check is no message or the message of its error.\<close>

fun first_failure :: "string option list \<Rightarrow> string option" where
  "first_failure [] = None"
| "first_failure (c # cs) = (case c of Some m \<Rightarrow> Some m | None \<Rightarrow> first_failure cs)"

lemma first_failure_None: "first_failure cs = None \<longleftrightarrow> list_all (\<lambda>c. c = None) cs"
  by (induction cs) (auto split: option.split)

text \<open>The checks between decoding the parameters and fixing the licence type, in the order of the code.\<close>

definition parameter_checks ::
  "provision_env \<Rightarrow> provision_details \<Rightarrow> string \<Rightarrow> string \<Rightarrow> ers_context \<Rightarrow> parameters_dto \<Rightarrow> (int \<times> int) option \<Rightarrow> string option list" where
  "parameter_checks E d provider region c p defaults =
     (let (lo, hi) = (case defaults of Some r \<Rightarrow> r | None \<Rightarrow> (0, 0)) in
      [case validateNetworking (pe_net E) p of [] \<Rightarrow> None | es \<Rightarrow> Some (network_text E es),
       autoscaler_Validate (AutoScaler p) lo hi,
       case OIDC p of Some oc \<Rightarrow> if oidc_IsProvided (Some oc) then oidc_Validate (pe_url_parse E) oc else None | None \<Rightarrow> None,
       create_schema E provider (req_PlanID d) region (req_RawParameters d),
       if IsEURestrictedAccess region \<and> GlobalAccountID c \<notin> set (euAccessWhitelist E) then Some (euAccessRejectionMessage E) else None])"

definition own_cluster_kubeconfig :: "provision_env \<Rightarrow> string \<Rightarrow> string \<Rightarrow> string + string" where
  "own_cluster_kubeconfig E planID kubeconfig =
     (if \<not> IsOwnClusterPlan planID then Inr kubeconfig
      else (case decode_kubeconfig E kubeconfig of
              Inl err \<Rightarrow> Inl (''while decoding kubeconfig: '' @ err)
            | Inr t \<Rightarrow>
                (case check_kubeconfig E t of Some err \<Rightarrow> Inl (''while validating kubeconfig: '' @ err) | None \<Rightarrow> Inr t)))"

definition trial_checks :: "provision_env \<Rightarrow> string \<Rightarrow> ers_context \<Rightarrow> parameters_dto \<Rightarrow> broker \<Rightarrow> string option list" where
  "trial_checks E planID c p b =
     [if IsTrialPlan planID \<and> param_Region p \<noteq> None \<and> param_Region p \<noteq> Some [] \<and> the (param_Region p) \<notin> set validRegionsForTrial
      then Some ''invalid region specified in request for trial'' else None,
      if IsTrialPlan planID \<and> OnlySingleTrialPerGA (pe_cfg E) \<and> GetNumberOfInstancesForGlobalAccountID (GlobalAccountID c) (insts b) > 0
      then Some ''trial Kyma was created for the global account, but there is only one allowed'' else None]"

definition validateAndExtract ::
  "provision_env \<Rightarrow> provision_details \<Rightarrow> string \<Rightarrow> string \<Rightarrow> broker \<Rightarrow> string + ers_context \<times> parameters_dto" where
  "validateAndExtract E d provider region b =
     (if req_ServiceID d \<noteq> KymaServiceID then Inl ''service_id not recognized''
      else if req_PlanID d \<notin> set (enabledPlanIDs E) then Inl (''plan ID '' @ quote_text E (req_PlanID d) @ '' is not recognized'')
      else
     (case extractERSContext E d of
        Inl err \<Rightarrow> Inl (''while extracting ers context: '' @ err)
      | Inr c \<Rightarrow>
     (case extractInputParameters E d of
        Inl err \<Rightarrow> Inl (''while extracting input parameters: '' @ err)
      | Inr p0 \<Rightarrow>
     (case pe_planDefaults E (req_PlanID d) provider (param_Provider p0) of
        Inl err \<Rightarrow> Inl (''while obtaining plan defaults: '' @ err)
      | Inr defaults \<Rightarrow>
     (case first_failure (parameter_checks E d provider region c p0 defaults) of
        Some err \<Rightarrow> Inl err
      | None \<Rightarrow>
     (let p1 = (if kymaVerOnDemand E then p0 else p0\<lparr>KymaVersion := [], OverridesVersion := []\<rparr>);
          p2 = p1\<lparr>LicenceType := determineLicenceType (req_PlanID d)\<rparr>
      in if \<not> IsPlanSupport E (req_PlanID d) then Inl (''the plan ID not known, planID: '' @ req_PlanID d)
         else (case own_cluster_kubeconfig E (req_PlanID d) (Kubeconfig p2) of
                 Inl err \<Rightarrow> Inl err
               | Inr kubeconfig \<Rightarrow>
                   (let p3 = p2\<lparr>Kubeconfig := kubeconfig\<rparr> in
                    case first_failure (trial_checks E (req_PlanID d) c p3 b) of
                      Some err \<Rightarrow> Inl err
                    | None \<Rightarrow> Inr (c, p3)))))))))"

section \<open>The endpoint\<close>

definition createDashboardURL :: "provision_env \<Rightarrow> string \<Rightarrow> string \<Rightarrow> string" where
  "createDashboardURL E planID instanceID =
     (if IsOwnClusterPlan planID then pe_LandscapeURL E else pe_LandscapeURL E @ ''/?kubeconfigID='' @ instanceID)"

definition provision_labels :: "provision_env \<Rightarrow> operation \<Rightarrow> kyma_instance \<Rightarrow> (string \<times> string) list" where
  "provision_labels E op i = ResponseLabels op i (cfg_URL (pe_cfg E)) (EnableKubeconfigURLLabel (pe_cfg E))"

definition handleExistingOperation ::
  "provision_env \<Rightarrow> visit \<Rightarrow> operation \<Rightarrow> provisioning_parameters \<Rightarrow> broker \<Rightarrow> api_error + provision_spec" where
  "handleExistingOperation E visit op input b =
     (if \<not> IsEqual (ProvisioningParameters op) input
      then Inl (FailureResponse ''provisioning operation already exist'' 409
             (''provisioning operation with InstanceID '' @ InstanceID op @ '' already exist''))
      else (case inst_GetByID visit (InstanceID op) (insts b) (ops b) of
              Inl err \<Rightarrow> Inl (FailureResponse ''cannot fetch instance for operation'' 409
                (''cannot fetch instance with ID: '' @ InstanceID op @ '' for operation woth ID: '' @ op_ID op))
            | Inr i \<Rightarrow> Inr \<lparr>prov_IsAsync = True, prov_OperationData = op_ID op, prov_DashboardURL = DashboardURL op,
                prov_Labels = provision_labels E op i\<rparr>))"

definition Trim :: "char \<Rightarrow> string \<Rightarrow> string" where
  "Trim c s = rev (dropWhile (\<lambda>x. x = c) (rev (dropWhile (\<lambda>x. x = c) s)))"

definition provisioning_operation ::
  "provision_env \<Rightarrow> string \<Rightarrow> string \<Rightarrow> int \<Rightarrow> string \<Rightarrow> provisioning_parameters \<Rightarrow> operation" where
  "provisioning_operation E shootName operationID now instanceID pp =
     (let op = NewProvisioningOperationWithID operationID now instanceID pp;
          own = IsOwnClusterPlan (PlanID pp)
      in op\<lparr>DashboardURL := createDashboardURL E (PlanID pp) instanceID,
           InstanceDetails := (InstanceDetails op)\<lparr>
             ShootName := (if own then param_ShootName (Parameters pp) else shootName),
             ShootDomain := (if own then param_ShootDomain (Parameters pp) else shootName @ ''.'' @ Trim CHR ''.'' (shootDomain E)),
             ShootDNSProviders := shootDnsProviders E\<rparr>\<rparr>)"

definition new_instance :: "provision_env \<Rightarrow> string \<Rightarrow> provisioning_parameters \<Rightarrow> kyma_instance" where
  "new_instance E instanceID pp =
     \<lparr>inst_ID = instanceID, inst_RuntimeID = [], inst_GlobalAccountID = GlobalAccountID (ErsContext pp),
      SubscriptionGlobalAccountID = [], inst_SubAccountID = SubAccountID (ErsContext pp), inst_ServiceID = ServiceID pp,
      ServiceName = KymaServiceName, ServicePlanID = PlanID pp, ServicePlanName = plan_name (PlanID pp),
      inst_DashboardURL = createDashboardURL E (PlanID pp) instanceID, inst_Parameters = pp, ProviderRegion = [],
      inst_Details = no_details, inst_CreatedAt = 0, inst_UpdatedAt = 0, DeletedAt = 0, ExpiredAt = None, inst_Version = 0,
      inst_Provider = [], Reconcilable = False\<rparr>"

definition request_parameters :: "provision_details \<Rightarrow> string \<Rightarrow> string \<Rightarrow> ers_context \<Rightarrow> parameters_dto \<Rightarrow> provisioning_parameters" where
  "request_parameters d region provider c p =
     \<lparr>PlanID = req_PlanID d, ServiceID = req_ServiceID d, ErsContext = c, Parameters = p, PlatformRegion = region,
      PlatformProvider = provider\<rparr>"

definition create_instance ::
  "provision_env \<Rightarrow> string \<Rightarrow> string \<Rightarrow> int \<Rightarrow> string \<Rightarrow> provisioning_parameters \<Rightarrow> broker \<Rightarrow> (api_error + provision_spec) \<times> broker" where
  "create_instance E shootName operationID now instanceID pp b =
     (let op = provisioning_operation E shootName operationID now instanceID pp;
          i = new_instance E instanceID pp
      in case InsertOperation op (ops b) of
           (Inl err, s) \<Rightarrow> (Inl (PlainError ''cannot save operation''), b\<lparr>ops := s\<rparr>)
         | (Inr _, s) \<Rightarrow>
             (Inr \<lparr>prov_IsAsync = True, prov_OperationData = operationID, prov_DashboardURL = DashboardURL op,
                prov_Labels = provision_labels E op i\<rparr>,
              b\<lparr>ops := s, insts := inst_Insert i (insts b), provisioningQueue := provisioningQueue b @ [operationID]\<rparr>))"

definition Provision ::
  "provision_env \<Rightarrow> visit \<Rightarrow> string \<Rightarrow> string \<Rightarrow> int \<Rightarrow> string option \<Rightarrow> string option \<Rightarrow> string \<Rightarrow> provision_details \<Rightarrow> broker \<Rightarrow>
   (api_error + provision_spec) \<times> broker" where
  "Provision E visit shootName operationID now ctx_region ctx_provider instanceID d b =
     (case ctx_region of
        None \<Rightarrow> (Inl (FailureResponse ''No region specified in request.'' 500 ''provisioning''), b)
      | Some region \<Rightarrow>
     (case ctx_provider of
        None \<Rightarrow> (Inl (FailureResponse ''No provider specified in request.'' 500 ''provisioning''), b)
      | Some provider \<Rightarrow>
     (case validateAndExtract E d provider region b of
        Inl err \<Rightarrow> (Inl (FailureResponse err 400 (''[instanceID: '' @ instanceID @ ''] '' @ err)), b)
      | Inr (c, p) \<Rightarrow>
          (let pp = request_parameters d region provider c p in
           case GetProvisioningOperationByInstanceID visit instanceID (ops b) of
             Inl errStorage \<Rightarrow>
               if \<not> IsNotFound errStorage then (Inl (PlainError ''cannot get existing operation from storage''), b)
               else create_instance E shootName operationID now instanceID pp b
           | Inr existing \<Rightarrow> (handleExistingOperation E visit existing pp b, b)))))"

section \<open>The first request\<close>

lemma provisioning_operation_simps [simp]:
  "op_ID (provisioning_operation E sn k now iid pp) = k" "InstanceID (provisioning_operation E sn k now iid pp) = iid"
  "op_Type (provisioning_operation E sn k now iid pp) = OperationTypeProvision"
  "State (provisioning_operation E sn k now iid pp) = InProgress"
  "ProvisioningParameters (provisioning_operation E sn k now iid pp) = pp"
  "DashboardURL (provisioning_operation E sn k now iid pp) = createDashboardURL E (PlanID pp) iid"
  by (simp_all add: provisioning_operation_def Let_def)

lemma request_parameters_simps [simp]:
  "PlanID (request_parameters d r pr c p) = req_PlanID d" "ErsContext (request_parameters d r pr c p) = c"
  "Parameters (request_parameters d r pr c p) = p"
  by (simp_all add: request_parameters_def)

lemma new_instance_simps [simp]:
  "inst_ID (new_instance E iid pp) = iid" "ServicePlanID (new_instance E iid pp) = PlanID pp"
  "inst_GlobalAccountID (new_instance E iid pp) = GlobalAccountID (ErsContext pp)" "DeletedAt (new_instance E iid pp) = 0"
  by (simp_all add: new_instance_def)

definition unknown_instance :: "string \<Rightarrow> broker \<Rightarrow> bool" where
  "unknown_instance iid b = (\<forall>op \<in> main_operations (ops b). InstanceID op \<noteq> iid)"

text \<open>What the broker holds after a request for an instance it did not know.\<close>

lemma Provision_created:
  assumes "visits_all visit" "unknown_instance iid b"
    and "Provision E visit sn k now (Some region) (Some provider) iid d b = (Inr spec, b1)"
  obtains c p pp s where "validateAndExtract E d provider region b = Inr (c, p)" "pp = request_parameters d region provider c p"
    "main_operations s = insert (provisioning_operation E sn k now iid pp) (main_operations (ops b))"
    "b1 = b\<lparr>ops := s, insts := inst_Insert (new_instance E iid pp) (insts b), provisioningQueue := provisioningQueue b @ [k]\<rparr>"
    "spec = \<lparr>prov_IsAsync = True, prov_OperationData = k, prov_DashboardURL = createDashboardURL E (req_PlanID d) iid,
       prov_Labels = provision_labels E (provisioning_operation E sn k now iid pp) (new_instance E iid pp)\<rparr>"
proof -
  obtain e where e: "GetProvisioningOperationByInstanceID visit iid (ops b) = Inl e" "IsNotFound e"
    by (rule prov.lookup_none [OF assms(1), of "ops b" iid]) (use assms(2) in \<open>auto simp: unknown_instance_def\<close>)
  from assms(3) obtain c p where v: "validateAndExtract E d provider region b = Inr (c, p)"
    by (auto simp: Provision_def split: sum.splits)
  define pp where "pp = request_parameters d region provider c p"
  have "create_instance E sn k now iid pp b = (Inr spec, b1)"
    using assms(3) e v by (simp add: Provision_def pp_def)
  then obtain s where s: "InsertOperation (provisioning_operation E sn k now iid pp) (ops b) = (Inr (), s)"
      "b1 = b\<lparr>ops := s, insts := inst_Insert (new_instance E iid pp) (insts b), provisioningQueue := provisioningQueue b @ [k]\<rparr>"
      "spec = \<lparr>prov_IsAsync = True, prov_OperationData = k, prov_DashboardURL = createDashboardURL E (req_PlanID d) iid,
       prov_Labels = provision_labels E (provisioning_operation E sn k now iid pp) (new_instance E iid pp)\<rparr>"
    by (auto simp: create_instance_def pp_def Let_def split: sum.splits prod.splits)
  from that [OF v pp_def main_operations_insert [OF s(1)] s(2,3)] show thesis .
qed

lemma provisioned_lookup:
  assumes "visits_all visit" "unknown_instance iid b" "main_operations s = insert op (main_operations (ops b))"
    and "InstanceID op = iid" "op_Type op = OperationTypeProvision"
  shows "GetProvisioningOperationByInstanceID visit iid s = Inr op"
  using prov.lookup_inserted [OF assms(1,3,5)] assms(2,4) by (auto simp: unknown_instance_def)

section \<open>Properties\<close>

lemma validateAndExtract_state:
  assumes "\<not> (IsTrialPlan (req_PlanID d) \<and> OnlySingleTrialPerGA (pe_cfg E))"
  shows "validateAndExtract E d provider region b' = validateAndExtract E d provider region b"
proof -
  have same: "trial_checks E (req_PlanID d) c p b' = trial_checks E (req_PlanID d) c p b" for c p
    using assms by (auto simp: trial_checks_def)
  show ?thesis unfolding validateAndExtract_def same ..
qed

lemma validateAndExtract_TargetSecret:
  assumes "validateAndExtract E d provider region b = Inr (c, p)" "params_of E (req_RawParameters d) = Inr p0"
  shows "TargetSecret p = TargetSecret p0"
  using assms
  by (auto simp: validateAndExtract_def extractInputParameters_def Let_def split: if_splits sum.splits option.splits)

lemma validateAndExtract_again:
  assumes "validateAndExtract E d provider region b = Inr (c, p)" "IsTrialPlan (req_PlanID d)" "OnlySingleTrialPerGA (pe_cfg E)"
    and "GetNumberOfInstancesForGlobalAccountID (GlobalAccountID c) (insts b') > 0"
  shows "validateAndExtract E d provider region b' =
           Inl ''trial Kyma was created for the global account, but there is only one allowed''"
proof -
  have region: "first_failure (trial_checks E (req_PlanID d) c q b') = Some ''trial Kyma was created for the global account, but there is only one allowed''"
    if "first_failure (trial_checks E (req_PlanID d) c q b) = None" for q
    using that assms(2-4) by (auto simp: trial_checks_def split: if_splits)
  from assms(1) show ?thesis
    by (auto simp: validateAndExtract_def Let_def region split: if_splits sum.splits option.splits)
qed

lemma labels_same: "inst_ID i = inst_ID j \<Longrightarrow> ServicePlanID i = ServicePlanID j \<Longrightarrow> provision_labels E op i = provision_labels E op j"
  by (simp add: provision_labels_def ResponseLabels_def)

text \<open>An environment, an empty broker and a request for the examples.\<close>

definition some_penv :: provision_env where
  "some_penv = \<lparr>pe_cfg = \<lparr>cfg_URL = ''https://keb'', EnableKubeconfigURLLabel = True, ShowTrialExpirationInfo = False,
       SubaccountsIdsToShowTrialExpirationInfo = [], TrialDocsURL = [], OnlySingleTrialPerGA = True\<rparr>,
     pe_LandscapeURL = ''https://dashboard'', enabledPlanIDs = [TrialPlanID, AzureLitePlanID], kymaVerOnDemand = False,
     shootDomain = ''kyma.local'', shootDnsProviders = [], euAccessWhitelist = [], euAccessRejectionMessage = [],
     IsPlanSupport = (\<lambda>_. True), ctx_of = (\<lambda>_. Inr (ErsContext some_parameters)), params_of = (\<lambda>_. Inr (Parameters some_parameters)),
     ToLower = (\<lambda>t. t), quote_text = (\<lambda>t. t), network_text = concat, pe_planDefaults = (\<lambda>_ _ _. Inr (Some (3, 20))),
     create_schema = (\<lambda>_ _ _ _. None), decode_kubeconfig = Inr, check_kubeconfig = (\<lambda>_. None), pe_net = plain_lib,
     pe_url_parse = (\<lambda>_. None)\<rparr>"

lemma some_penv_simps [simp]:
  "enabledPlanIDs some_penv = [TrialPlanID, AzureLitePlanID]" "IsPlanSupport some_penv x"
  "ctx_of some_penv t = Inr (ErsContext some_parameters)" "params_of some_penv t = Inr (Parameters some_parameters)"
  "ToLower some_penv t = t" "pe_planDefaults some_penv x y z = Inr (Some (3, 20))" "create_schema some_penv x y u t = None"
  "\<not> kymaVerOnDemand some_penv" "OnlySingleTrialPerGA (pe_cfg some_penv)"
  by (simp_all add: some_penv_def)

definition empty_broker :: broker where
  "empty_broker = \<lparr>ops = NewOperation, insts = [], provisioningQueue = [], deprovisioningQueue = [], updatingQueue = []\<rparr>"

definition some_request :: "string \<Rightarrow> provision_details" where
  "some_request plan = \<lparr>req_ServiceID = KymaServiceID, req_PlanID = plan, req_RawContext = ''{}'', req_RawParameters = ''{}''\<rparr>"

lemma empty_broker_simps [simp]:
  "main_operations (ops empty_broker) = {}" "insts empty_broker = []" "provisioningQueue empty_broker = []" "unknown_instance i empty_broker"
  "operations (ops empty_broker) = []"
  by (simp_all add: empty_broker_def NewOperation_def main_operations_def unknown_instance_def)

lemma some_request_accepted:
  assumes "plan \<in> {TrialPlanID, AzureLitePlanID}"
  shows "\<exists>spec b1. Provision some_penv (\<lambda>m. m) ''abc'' ''k'' 1 (Some ''cf-eu10'') (Some ''Azure'') ''i'' (some_request plan) empty_broker = (Inr spec, b1)"
proof -
  have own: "\<not> IsOwnClusterPlan plan"
    using assms by (auto simp: IsOwnClusterPlan_def OwnClusterPlanID_def TrialPlanID_def AzureLitePlanID_def)
  obtain c p where "validateAndExtract some_penv (some_request plan) ''Azure'' ''cf-eu10'' empty_broker = Inr (c, p)"
    using assms own
    by (auto simp: validateAndExtract_def extractERSContext_def extractInputParameters_def parameter_checks_def trial_checks_def
      own_cluster_kubeconfig_def validateNetworking_def autoscaler_Validate_def IsEURestrictedAccess_def no_update_def
      GetNumberOfInstancesForGlobalAccountID_def some_request_def some_parameters_def Let_def)
  moreover obtain e where "GetProvisioningOperationByInstanceID (\<lambda>m. m) ''i'' (ops empty_broker) = Inl e" "IsNotFound e"
    by (rule prov.lookup_none [of "\<lambda>m. m" "ops empty_broker" "''i''"]) auto
  ultimately show ?thesis by (simp add: Provision_def create_instance_def InsertOperation_def insert_new_def Let_def)
qed

text \<open>
  (C7) Repeating an accepted provisioning request, at any time, is answered with the same operation, the same
  links and no change, provided that the plan is not limited to one trial per account and that the request names
  no target secret.
\<close>

theorem provisioning_is_idempotent:
  assumes "visits_all visit" "visits_all visit'" and "unknown_instance iid b"
    and "\<not> (IsTrialPlan (req_PlanID d) \<and> OnlySingleTrialPerGA (pe_cfg E))"
    and "params_of E (req_RawParameters d) = Inr p0" "TargetSecret p0 = None"
    and "Provision E visit sn k now (Some region) (Some provider) iid d b = (Inr spec, b1)"
  shows "Provision E visit' sn' k' now' (Some region) (Some provider) iid d b1 = (Inr spec, b1)"
proof -
  from assms(1,3,7) obtain c p pp s where v: "validateAndExtract E d provider region b = Inr (c, p)"
      and pp: "pp = request_parameters d region provider c p"
      and s: "main_operations s = insert (provisioning_operation E sn k now iid pp) (main_operations (ops b))"
      and b1: "b1 = b\<lparr>ops := s, insts := inst_Insert (new_instance E iid pp) (insts b), provisioningQueue := provisioningQueue b @ [k]\<rparr>"
      and spec: "spec = \<lparr>prov_IsAsync = True, prov_OperationData = k, prov_DashboardURL = createDashboardURL E (req_PlanID d) iid,
        prov_Labels = provision_labels E (provisioning_operation E sn k now iid pp) (new_instance E iid pp)\<rparr>"
    by (rule Provision_created)
  let ?op = "provisioning_operation E sn k now iid pp"
  have "GetProvisioningOperationByInstanceID visit' iid (ops b1) = Inr ?op"
    using provisioned_lookup [OF assms(2,3) s] by (simp add: b1)
  moreover have "validateAndExtract E d provider region b1 = Inr (c, p)"
    using v validateAndExtract_state [OF assms(4), of provider region b1 b] by simp
  moreover have "handleExistingOperation E visit' ?op pp b1 = Inr spec"
  proof -
    have "map_of (insts b1) iid = Some (new_instance E iid pp)" by (simp add: b1 inst_Insert_def)
    from inst_GetByID_known [OF this, of visit' "ops b1"] obtain ps ds where
      i: "inst_GetByID visit' iid (insts b1) (ops b1) = Inr ((new_instance E iid pp)\<lparr>inst_Parameters := ps, inst_Details := ds\<rparr>)" by metis
    have "IsEqual pp pp" using validateAndExtract_TargetSecret [OF v assms(5)] assms(6) by (simp add: IsEqual_same pp)
    with i show ?thesis
      using labels_same [of "(new_instance E iid pp)\<lparr>inst_Parameters := ps, inst_Details := ds\<rparr>" "new_instance E iid pp" E ?op]
      by (simp add: handleExistingOperation_def spec pp)
  qed
  ultimately show ?thesis by (simp add: Provision_def pp)
qed

theorem provisioning_is_idempotent_witness:
  "\<exists>spec b1. Provision some_penv (\<lambda>m. m) ''abc'' ''k'' 1 (Some ''cf-eu10'') (Some ''Azure'') ''i'' (some_request AzureLitePlanID) empty_broker = (Inr spec, b1) \<and>
     Provision some_penv (\<lambda>m. m) ''xyz'' ''k2'' 2 (Some ''cf-eu10'') (Some ''Azure'') ''i'' (some_request AzureLitePlanID) b1 = (Inr spec, b1)"
proof -
  obtain spec b1 where r: "Provision some_penv (\<lambda>m. m) ''abc'' ''k'' 1 (Some ''cf-eu10'') (Some ''Azure'') ''i'' (some_request AzureLitePlanID) empty_broker = (Inr spec, b1)"
    using some_request_accepted by blast
  moreover have "Provision some_penv (\<lambda>m. m) ''xyz'' ''k2'' 2 (Some ''cf-eu10'') (Some ''Azure'') ''i'' (some_request AzureLitePlanID) b1 = (Inr spec, b1)"
    by (rule provisioning_is_idempotent [OF visits_all_id visits_all_id _ _ some_penv_simps(4) _ r])
       (simp_all add: some_request_def IsTrialPlan_def TrialPlanID_def AzureLitePlanID_def some_parameters_def)
  ultimately show ?thesis by blast
qed

text \<open>
  With the limit of one trial per global account, which is the default, the repetition of an accepted
  request for a trial is rejected, because the limit is checked before the broker looks for an
  operation it already has.
\<close>

theorem repeated_trial_request_is_rejected:
  assumes "visits_all visit" and "unknown_instance iid b"
    and "IsTrialPlan (req_PlanID d)" "OnlySingleTrialPerGA (pe_cfg E)"
    and "Provision E visit sn k now (Some region) (Some provider) iid d b = (Inr spec, b1)"
  shows "\<exists>action. Provision E visit' sn' k' now' (Some region) (Some provider) iid d b1 =
           (Inl (FailureResponse ''trial Kyma was created for the global account, but there is only one allowed'' 400 action), b1)"
proof -
  from assms(1,2,5) obtain c p pp s where v: "validateAndExtract E d provider region b = Inr (c, p)"
      and pp: "pp = request_parameters d region provider c p"
      and b1: "b1 = b\<lparr>ops := s, insts := inst_Insert (new_instance E iid pp) (insts b), provisioningQueue := provisioningQueue b @ [k]\<rparr>"
    by (rule Provision_created)
  have "map_of (insts b1) iid = Some (new_instance E iid pp)" by (simp add: b1 inst_Insert_def)
  then have "(iid, new_instance E iid pp) \<in> set (insts b1)" by (rule map_of_SomeD)
  then have "GetNumberOfInstancesForGlobalAccountID (GlobalAccountID c) (insts b1) > 0"
    by (auto simp: GetNumberOfInstancesForGlobalAccountID_def filter_empty_conv pp intro!: bexI [of _ "(iid, new_instance E iid pp)"])
  from validateAndExtract_again [OF v assms(3,4) this] show ?thesis by (simp add: Provision_def)
qed

theorem repeated_trial_request_is_rejected_witness:
  "\<exists>spec b1 e. Provision some_penv (\<lambda>m. m) ''abc'' ''k'' 1 (Some ''cf-eu10'') (Some ''Azure'') ''i'' (some_request TrialPlanID) empty_broker = (Inr spec, b1) \<and>
     Provision some_penv (\<lambda>m. m) ''xyz'' ''k2'' 2 (Some ''cf-eu10'') (Some ''Azure'') ''i'' (some_request TrialPlanID) b1 = (Inl e, b1)"
proof -
  obtain spec b1 where r: "Provision some_penv (\<lambda>m. m) ''abc'' ''k'' 1 (Some ''cf-eu10'') (Some ''Azure'') ''i'' (some_request TrialPlanID) empty_broker = (Inr spec, b1)"
    using some_request_accepted by blast
  with repeated_trial_request_is_rejected [OF visits_all_id _ _ _ r, of "\<lambda>m. m" "''xyz''" "''k2''" 2] show ?thesis
    by (auto simp: some_request_def IsTrialPlan_def)
qed

text \<open>
  (C21) An accepted request for an instance the broker did not know stores one operation, running, for that instance and with the plan,
  service and region of the request, stores the instance with the same parameters, and adds the id of the operation
  to the queue of provisionings; other operations, other instances and the other queues stay as they are.
\<close>

theorem provisioning_creates_one_instance:
  assumes "visits_all visit" and "unknown_instance iid b"
    and "Provision E visit sn k now (Some region) (Some provider) iid d b = (Inr spec, b1)"
  shows "prov_OperationData spec = k \<and> provisioningQueue b1 = provisioningQueue b @ [k] \<and>
         deprovisioningQueue b1 = deprovisioningQueue b \<and> updatingQueue b1 = updatingQueue b \<and>
         (\<exists>op i. main_operations (ops b1) = insert op (main_operations (ops b)) \<and> map_of (insts b1) = (map_of (insts b))(iid \<mapsto> i) \<and>
            op_ID op = k \<and> InstanceID op = iid \<and> State op = InProgress \<and> op_Type op = OperationTypeProvision \<and>
            inst_Parameters i = ProvisioningParameters op \<and> PlanID (ProvisioningParameters op) = req_PlanID d \<and>
            req_PlanID d \<in> set (enabledPlanIDs E) \<and> inst_GlobalAccountID i \<noteq> [] \<and> inst_DashboardURL i = DashboardURL op)"
proof -
  from assms(1-3) obtain c p pp s where v: "validateAndExtract E d provider region b = Inr (c, p)"
      and pp: "pp = request_parameters d region provider c p"
      and s: "main_operations s = insert (provisioning_operation E sn k now iid pp) (main_operations (ops b))"
      and b1: "b1 = b\<lparr>ops := s, insts := inst_Insert (new_instance E iid pp) (insts b), provisioningQueue := provisioningQueue b @ [k]\<rparr>"
      and spec: "spec = \<lparr>prov_IsAsync = True, prov_OperationData = k, prov_DashboardURL = createDashboardURL E (req_PlanID d) iid,
        prov_Labels = provision_labels E (provisioning_operation E sn k now iid pp) (new_instance E iid pp)\<rparr>"
    by (rule Provision_created)
  from v have "req_PlanID d \<in> set (enabledPlanIDs E)" "GlobalAccountID c \<noteq> []"
    by (auto simp: validateAndExtract_def extractERSContext_def Let_def split: if_splits sum.splits option.splits)
  moreover have "inst_DashboardURL (new_instance E iid pp) = createDashboardURL E (PlanID pp) iid" "inst_Parameters (new_instance E iid pp) = pp"
    by (simp_all add: new_instance_def)
  ultimately show ?thesis
    by (intro conjI exI [of _ "provisioning_operation E sn k now iid pp"] exI [of _ "new_instance E iid pp"])
       (simp_all add: b1 s spec inst_Insert_def, simp_all add: pp)
qed

theorem provisioning_creates_one_instance_witness:
  "\<exists>spec b1. Provision some_penv (\<lambda>m. m) ''abc'' ''k'' 1 (Some ''cf-eu10'') (Some ''Azure'') ''i'' (some_request TrialPlanID) empty_broker = (Inr spec, b1) \<and>
     provisioningQueue b1 = [''k'']"
proof -
  obtain spec b1 where r: "Provision some_penv (\<lambda>m. m) ''abc'' ''k'' 1 (Some ''cf-eu10'') (Some ''Azure'') ''i'' (some_request TrialPlanID) empty_broker = (Inr spec, b1)"
    using some_request_accepted by blast
  with provisioning_creates_one_instance [OF visits_all_id _ r] show ?thesis by simp
qed

end
