(* ===== verification/Broker_Machine.thy ===== *)
theory Broker_Machine
  imports Instance_Update Instance_Create
begin

text \<open>
  The broker as a machine: requests to any of its endpoints, in any order and interleaved with workers that
  take ids from the queues, change operations and instances and finally delete instances.

  Below the endpoints lies the relation \<open>action\<close>, the specification of what a request may do to the state at
  all: store a new operation, queue a stored operation in the queue of its type, store the first provisioning of an
  instance together with the instance, or store a changed instance without withdrawing its expiration.  Every endpoint is proved to
  refine it, and the invariants are proved once, for the actions.
\<close>

section \<open>Preserved properties\<close>

text \<open>A property that every step keeps, and with it every sequence of steps.\<close>

locale preserved =
  fixes step :: "'s \<Rightarrow> 's \<Rightarrow> bool"
    and good :: "'s \<Rightarrow> bool"
  assumes step_keeps: "step s s' \<Longrightarrow> good s \<Longrightarrow> good s'"
begin

lemma steps_keep: "step\<^sup>*\<^sup>* s s' \<Longrightarrow> good s \<Longrightarrow> good s'"
  by (induction rule: rtranclp_induct) (auto intro: step_keeps)

lemma reachable_good: "step\<^sup>*\<^sup>* s0 s \<Longrightarrow> step\<^sup>*\<^sup>* s s' \<Longrightarrow> good s0 \<Longrightarrow> good s \<and> good s'"
  using steps_keep by blast

end

section \<open>Actions\<close>

definition stored_as :: "operation_type \<Rightarrow> string \<Rightarrow> broker \<Rightarrow> bool" where
  "stored_as ty k b = (\<exists>op. map_of (operations (ops b)) k = Some op \<and> op_Type op = ty)"

definition has_provisioning :: "string \<Rightarrow> broker \<Rightarrow> bool" where
  "has_provisioning iid b = (\<exists>op \<in> main_operations (ops b). InstanceID op = iid \<and> op_Type op = OperationTypeProvision)"

definition keeps_expiration :: "kyma_instance \<Rightarrow> kyma_instance \<Rightarrow> bool" where
  "keeps_expiration old new = (IsExpired old \<longrightarrow> ExpiredAt new = ExpiredAt old)"

inductive action :: "broker \<Rightarrow> broker \<Rightarrow> bool" where
  store_operation: "InsertOperation op (ops b) = (Inr (), s) \<Longrightarrow> action b (b\<lparr>ops := s\<rparr>)"
| queue_provisioning: "stored_as OperationTypeProvision k b \<Longrightarrow> action b (b\<lparr>provisioningQueue := provisioningQueue b @ [k]\<rparr>)"
| queue_deprovisioning: "stored_as OperationTypeDeprovision k b \<Longrightarrow> action b (b\<lparr>deprovisioningQueue := deprovisioningQueue b @ [k]\<rparr>)"
| queue_updating: "stored_as OperationTypeUpdate k b \<Longrightarrow> action b (b\<lparr>updatingQueue := updatingQueue b @ [k]\<rparr>)"
| change_instance: "inst_Update i (insts b) = (Inr i', m) \<Longrightarrow> map_of (insts b) (inst_ID i) = Some old \<Longrightarrow> keeps_expiration old i \<Longrightarrow>
    action b (b\<lparr>insts := m\<rparr>)"
| create: "InsertOperation op (ops b) = (Inr (), s) \<Longrightarrow> op_Type op = OperationTypeProvision \<Longrightarrow> inst_ID i = InstanceID op \<Longrightarrow>
    \<not> has_provisioning (inst_ID i) b \<Longrightarrow> action b (b\<lparr>ops := s, insts := inst_Insert i (insts b)\<rparr>)"

lemmas action_steps =
  r_into_rtranclp [where r = action, OF action.store_operation]
  r_into_rtranclp [where r = action, OF action.queue_provisioning]
  r_into_rtranclp [where r = action, OF action.queue_deprovisioning]
  r_into_rtranclp [where r = action, OF action.queue_updating]
  r_into_rtranclp [where r = action, OF action.change_instance]
  r_into_rtranclp [where r = action, OF action.create]

section \<open>The endpoints refine the actions\<close>

lemma InsertOperation_cases:
  obtains (failed) e where "InsertOperation op s = (Inl e, s)"
    | (saved) s' where "InsertOperation op s = (Inr (), s')" "map_of (operations s') = (map_of (operations s))(op_ID op \<mapsto> op)"
        "main_operations s' = insert op (main_operations s)"
proof (cases "InsertOperation op s")
  case (Pair r s')
  show thesis
  proof (cases r)
    case (Inl e)
    with Pair have "s' = s" by (auto simp: InsertOperation_def insert_new_def split: sum.splits option.splits)
    with Pair Inl show thesis by (intro failed) simp
  next
    case (Inr u)
    with Pair have "map_of (operations s') = (map_of (operations s))(op_ID op \<mapsto> op)"
      by (auto simp: InsertOperation_def insert_new_def split: sum.splits option.splits)
    with Pair Inr main_operations_insert [of op s u s'] show thesis by (intro saved) simp_all
  qed
qed

lemma enqueue_deprovisioning_acts:
  assumes "op_Type op = OperationTypeDeprovision"
  shows "action\<^sup>*\<^sup>* b (snd (enqueue_deprovisioning op b))"
proof (cases rule: InsertOperation_cases [of op "ops b"])
  case (failed e)
  then show ?thesis by (simp add: enqueue_deprovisioning_def InsertDeprovisioningOperation_def)
next
  case (saved s)
  let ?b = "b\<lparr>ops := s\<rparr>"
  have "stored_as OperationTypeDeprovision (op_ID op) ?b" using saved(2) assms by (simp add: stored_as_def)
  with saved(1) have "action\<^sup>*\<^sup>* b (?b\<lparr>deprovisioningQueue := deprovisioningQueue ?b @ [op_ID op]\<rparr>)"
    by (intro rtranclp_trans [OF action_steps(1) action_steps(3)])
  with saved(1) show ?thesis by (simp add: enqueue_deprovisioning_def InsertDeprovisioningOperation_def)
qed

lemma Deprovision_acts: "action\<^sup>*\<^sup>* b (snd (Deprovision visit ua k now iid b))"
proof -
  have "action\<^sup>*\<^sup>* b (snd (create_deprovisioning ua k now i b))" for i
    using enqueue_deprovisioning_acts [of "case ua of Some v \<Rightarrow> (NewDeprovisioningOperationWithID k now i)\<lparr>UserAgent := v\<rparr>
        | None \<Rightarrow> NewDeprovisioningOperationWithID k now i" b]
    by (auto simp: create_deprovisioning_def Let_def split: option.splits prod.splits sum.splits)
  then show ?thesis by (simp add: Deprovision_def split: sum.split)
qed

lemma start_suspension_acts: "action\<^sup>*\<^sup>* b (snd (start_suspension k now i b))"
  using enqueue_deprovisioning_acts [of "NewSuspensionOperationWithID k now i" b]
  by (auto simp: start_suspension_def split: prod.splits sum.splits)

lemma suspend_acts: "action\<^sup>*\<^sup>* b (snd (suspend visit k now i b))"
  by (simp add: suspend_def start_suspension_acts split: sum.split)

lemma unsuspend_acts: "action\<^sup>*\<^sup>* b (snd (unsuspend k now i b))"
proof (cases rule: InsertOperation_cases [of "unsuspension k now i" "ops b"])
  case (failed e)
  then show ?thesis by (simp add: unsuspend_def InsertProvisioningOperation_def)
next
  case (saved s)
  let ?b = "b\<lparr>ops := s\<rparr>"
  have "stored_as OperationTypeProvision k ?b" using saved(2) by (simp add: stored_as_def unsuspension_def)
  with saved(1) have "action\<^sup>*\<^sup>* b (?b\<lparr>provisioningQueue := provisioningQueue ?b @ [k]\<rparr>)"
    by (intro rtranclp_trans [OF action_steps(1) action_steps(2)])
  with saved(1) show ?thesis by (simp add: unsuspend_def InsertProvisioningOperation_def)
qed

lemma Handle_acts: "action\<^sup>*\<^sup>* b (snd (Handle visit k now i ctx b))"
  by (simp add: Handle_def handleContextChange_def triggered_def suspend_acts unsuspend_acts Let_def split: sum.split)

lemma change_instance_acts:
  assumes "map_of (insts b) (inst_ID i) = Some old" "keeps_expiration old i"
  shows "action\<^sup>*\<^sup>* b (b\<lparr>insts := snd (inst_Update i (insts b))\<rparr>)"
proof (cases "inst_Update i (insts b)")
  case (Pair r m)
  show ?thesis
  proof (cases r)
    case (Inl e)
    with Pair insts.upd_failed [of i "insts b"] show ?thesis by auto
  next
    case (Inr i')
    with Pair action_steps(5) [of i b i' m old] assms show ?thesis by simp
  qed
qed

lemma setInstanceExpirationTime_acts:
  assumes "current i b"
  shows "action\<^sup>*\<^sup>* b (snd (setInstanceExpirationTime now i b))"
proof (cases "IsExpired i")
  case False
  from assms obtain j where j: "map_of (insts b) (inst_ID i) = Some j" "ExpiredAt j = ExpiredAt i" by (auto simp: current_def)
  have "action\<^sup>*\<^sup>* b (b\<lparr>insts := snd (inst_Update (i\<lparr>ExpiredAt := Some now\<rparr>) (insts b))\<rparr>)"
    by (rule change_instance_acts [where old = j]) (use j False in \<open>simp_all add: keeps_expiration_def IsExpired_def\<close>)
  with False show ?thesis by (simp add: setInstanceExpirationTime_def case_prod_unfold Let_def)
qed (simp add: setInstanceExpirationTime_def)

lemma deactivateInstance_acts:
  assumes "current i b"
  shows "action\<^sup>*\<^sup>* b (snd (deactivateInstance i b))"
proof -
  let ?i = "i\<lparr>inst_Parameters := (inst_Parameters i)\<lparr>ErsContext := (ErsContext (inst_Parameters i))\<lparr>Active := Some False\<rparr>\<rparr>\<rparr>"
  from assms obtain j where j: "map_of (insts b) (inst_ID i) = Some j" "ExpiredAt j = ExpiredAt i" by (auto simp: current_def)
  have "action\<^sup>*\<^sup>* b (b\<lparr>insts := snd (inst_Update ?i (insts b))\<rparr>)"
    by (rule change_instance_acts [where old = j]) (use j in \<open>simp_all add: keeps_expiration_def\<close>)
  then show ?thesis by (simp add: deactivateInstance_def case_prod_unfold Let_def)
qed

lemma suspendInstance_acts: "action\<^sup>*\<^sup>* b (snd (suspendInstance visit k now i b))"
  using enqueue_deprovisioning_acts [of "NewSuspensionOperationWithID k now i" b]
  by (auto simp: suspendInstance_def Let_def split: prod.splits sum.splits)

lemma suspendInstance_insts: "insts (snd (suspendInstance visit k now i b)) = insts b"
proof -
  obtain r b1 where e: "enqueue_deprovisioning (NewSuspensionOperationWithID k now i) b = (r, b1)" by fastforce
  have "insts b1 = insts b" using enqueue_deprovisioning_insts [OF e] by simp
  then show ?thesis by (cases r) (simp_all add: suspendInstance_def e Let_def split: sum.split)
qed

lemma expireInstance_acts:
  assumes "insts_ok (insts b)"
  shows "action\<^sup>*\<^sup>* b (snd (expireInstance visit k now iid b))"
proof (cases "inst_GetByID visit iid (insts b) (ops b)")
  case (Inr i)
  have c: "current i b" using current_GetByID [OF assms Inr] by simp
  obtain i1 b1 where 1: "setInstanceExpirationTime now i b = (Inr i1, b1)" "current i1 b1"
    using expiration_set [OF c assms, of now] by metis
  obtain r b2 where 2: "suspendInstance visit k now i1 b1 = (r, b2)" by fastforce
  obtain r3 b3 where 3: "deactivateInstance i1 b2 = (r3, b3)" by fastforce
  have "insts b2 = insts b1" using suspendInstance_insts [of visit k now i1 b1] 2 by simp
  then have "action\<^sup>*\<^sup>* b2 b3" using deactivateInstance_acts [of i1 b2] 1(2) 3 current_ops [of b2 b1 i1] by simp
  moreover have "action\<^sup>*\<^sup>* b b1" "action\<^sup>*\<^sup>* b1 b2"
    using setInstanceExpirationTime_acts [OF c, of now] suspendInstance_acts [of b1 visit k now i1] 1(1) 2 by simp_all
  ultimately have "action\<^sup>*\<^sup>* b b2" "action\<^sup>*\<^sup>* b b3" by (meson rtranclp_trans)+
  with Inr 1(1) 2 3 show ?thesis by (auto simp: expireInstance_def split: sum.splits)
qed (simp add: expireInstance_def)

lemma expireInstance_expires:
  assumes "insts_ok (insts b)" "map_of (insts b) iid = Some i0" "ServicePlanID i0 = TrialPlanID"
  shows "\<exists>i t. map_of (insts (snd (expireInstance visit k now iid b))) iid = Some i \<and> ExpiredAt i = Some t"
proof -
  obtain i where i: "inst_GetByID visit iid (insts b) (ops b) = Inr i" by (metis inst_GetByID_known assms(2))
  with current_GetByID [OF assms(1) i] assms(2,3) have c: "current i b" "inst_ID i = iid" "ServicePlanID i = TrialPlanID"
    by (auto simp: current_def)
  obtain i1 b1 where 1: "setInstanceExpirationTime now i b = (Inr i1, b1)" "current i1 b1" "IsExpired i1" "inst_ID i1 = iid" "insts_ok (insts b1)"
    using expiration_set [OF c(1) assms(1), of now] c(2) by metis
  obtain r b2 where 2: "suspendInstance visit k now i1 b1 = (r, b2)" by fastforce
  then have b2: "insts b2 = insts b1" using suspendInstance_insts [of visit k now i1 b1] by simp
  with 1 have "current i1 b2" "insts_ok (insts b2)" by (simp_all add: current_ops [OF b2])
  then obtain i2 b3 where 3: "deactivateInstance i1 b2 = (Inr i2, b3)" "current i2 b3" "ExpiredAt i2 = ExpiredAt i1" "inst_ID i2 = iid"
    using 1(4) by (metis deactivated)
  have "snd (expireInstance visit k now iid b) \<in> {b2, b3}" using i c(3) 1(1) 2 3(1) by (cases r) (simp_all add: expireInstance_def)
  with \<open>current i1 b2\<close> 1(3,4) 3(2-4) show ?thesis by (auto simp: current_def IsExpired_def)
qed

lemma finish_context_acts:
  assumes "map_of (insts b) (inst_ID i) = Some j" "ExpiredAt j = ExpiredAt i"
  shows "action\<^sup>*\<^sup>* b (snd (finish_context E ctx changed i b))"
proof -
  define i3 where "i3 = (let i2 = (if Active ctx \<noteq> None then set_context ((ErsContext (inst_Parameters i))\<lparr>Active := Active ctx\<rparr>) i else i)
    in if subAccountMovementEnabled E then moved ctx i2 else i2)"
  have "inst_ID i3 = inst_ID i" "ExpiredAt i3 = ExpiredAt i" by (simp_all add: i3_def Let_def)
  with assms have "action\<^sup>*\<^sup>* b (b\<lparr>insts := snd (inst_Update i3 (insts b))\<rparr>)"
    by (intro change_instance_acts [where old = j]) (simp_all add: keeps_expiration_def)
  moreover obtain r m where r: "inst_Update i3 (insts b) = (r, m)" by fastforce
  ultimately show ?thesis by (cases r) (simp_all add: finish_context_def i3_def Let_def)
qed

lemma processContext_acts:
  assumes "map_of (insts b) (inst_ID i) = Some j" "ExpiredAt j = ExpiredAt i"
  shows "action\<^sup>*\<^sup>* b (snd (processContext E visit k now i d lastP b))"
proof -
  have finish: "action\<^sup>*\<^sup>* b b2"
    if "finish_context E ctx changed (set_context c i) b0 = (x, b2)" "Handle visit k now (set_context c i) ctx b = (r, b0)" for c ctx changed r b0 x b2
    using Handle_acts [of b visit k now "set_context c i" ctx] Handle_effect(1) [OF that(2)] that assms
      finish_context_acts [of b0 "set_context c i" j E ctx changed]
    by (auto intro: rtranclp_trans)
  have handle: "action\<^sup>*\<^sup>* b b0" if "Handle visit k now (set_context c i) ctx b = (r, b0)" for c ctx r b0
    using Handle_acts [of b visit k now "set_context c i" ctx] that by simp
  show ?thesis
    unfolding processContext_def Let_def
    by (auto split: option.split sum.split prod.split go_call.split intro: finish handle)
qed

lemma store_update_acts:
  assumes "map_of (insts b) (inst_ID i) = Some i" "op_Type op = OperationTypeUpdate"
  shows "action\<^sup>*\<^sup>* b (snd (store_update E (\<lambda>b. b) op u i lastP b))"
proof (cases rule: InsertOperation_cases [of op "ops b"])
  case (failed e)
  then show ?thesis by (simp add: store_update_def)
next
  case (saved s)
  obtain names p where ch: "instance_changes u (Parameters (inst_Parameters i)) = (names, p)" by fastforce
  let ?i = "i\<lparr>inst_Parameters := (inst_Parameters i)\<lparr>Parameters := p\<rparr>\<rparr>"
  let ?b = "b\<lparr>ops := s\<rparr>"
  have 1: "action\<^sup>*\<^sup>* b ?b" using saved(1) by (rule action_steps)
  have st: "stored_as OperationTypeUpdate (op_ID op) (?b\<lparr>insts := m\<rparr>)" for m using saved(2) assms(2) by (simp add: stored_as_def)
  have q: "action\<^sup>*\<^sup>* (?b\<lparr>insts := m\<rparr>) (queue_update (op_ID op) (?b\<lparr>insts := m\<rparr>))" for m
    unfolding queue_update_def by (rule action_steps) (rule st)
  have "map_of (insts b) (inst_ID ?i) = Some i" "inst_Version i = inst_Version ?i" using assms(1) by simp_all
  then obtain m where u: "inst_Update ?i (insts b) = (Inr (next_version ?i), m)" by (rule insts.update_stored)
  then have m: "save_instance ?i ?b = (Returned (next_version ?i), ?b\<lparr>insts := m\<rparr>)" by (simp add: save_instance_def)
  have "action\<^sup>*\<^sup>* ?b (?b\<lparr>insts := m\<rparr>)"
    by (rule action_steps(5) [where i = ?i and old = i]) (use u assms(1) in \<open>simp_all add: keeps_expiration_def\<close>)
  with 1 q [of m] q [of "insts b"] saved(1) ch m show ?thesis
    by (cases "names = []") (auto simp: store_update_def intro: rtranclp_trans)
qed

lemma Update_acts:
  assumes "insts_ok (insts b)"
  shows "action\<^sup>*\<^sup>* b (snd (Update E visit (\<lambda>b. b) k now iid d async b))"
proof (cases "update_guards E visit iid d b")
  case (Inr r)
  obtain i ctx lastP where r: "r = (i, ctx, lastP)" by (cases r)
  let ?i = "with_dashboard E iid i"
  obtain res b1 where pc: "processContext E visit k now ?i d lastP b = (res, b1)" by fastforce
  have "current i b" using current_GetByID [OF assms update_guards_Inr(1)] Inr r by simp
  then have 1: "action\<^sup>*\<^sup>* b b1"
    using processContext_acts [of b ?i _ E visit k now d lastP] pc by (auto simp: current_def)
  have "action\<^sup>*\<^sup>* b1 (snd (processUpdateParameters E (\<lambda>b. b) k now i1 d lastP async ctx b1))"
    if "res = Returned (Inr (i1, changed))" for i1 changed
  proof (cases rule: processUpdateParameters_cases [of E "\<lambda>b. b" k now i1 d lastP async ctx b1])
    case (stored params)
    have "map_of (insts b1) (inst_ID i1) = Some i1" using processContext_stored(1,2) [of E visit k now ?i d lastP b i1 changed b1] pc that by simp
    then show ?thesis using store_update_acts stored(3) by simp
  qed simp
  with 1 Inr r pc show ?thesis
    by (auto simp: Update_def Let_def split: go_call.split sum.split intro: rtranclp_trans)
qed (simp add: Update_def)

lemma Provision_acts:
  assumes "visits_all visit"
  shows "action\<^sup>*\<^sup>* b (snd (Provision P visit sn k now region provider iid d b))"
proof -
  have "action\<^sup>*\<^sup>* b (snd (create_instance P sn k now iid pp b))"
    if "GetProvisioningOperationByInstanceID visit iid (ops b) = Inl e" for pp e
  proof (cases rule: InsertOperation_cases [of "provisioning_operation P sn k now iid pp" "ops b"])
    case (failed e)
    then show ?thesis by (simp add: create_instance_def)
  next
    case (saved s)
    let ?b = "b\<lparr>ops := s, insts := inst_Insert (new_instance P iid pp) (insts b)\<rparr>"
    have "\<not> has_provisioning (inst_ID (new_instance P iid pp)) b"
      using prov.lookup_missing [OF assms that] by (auto simp: has_provisioning_def)
    then have "action\<^sup>*\<^sup>* b ?b" by (intro action_steps(6) [OF saved(1)]) simp_all
    moreover have "stored_as OperationTypeProvision k ?b" using saved(2) by (simp add: stored_as_def)
    then have "action\<^sup>*\<^sup>* ?b (?b\<lparr>provisioningQueue := provisioningQueue ?b @ [k]\<rparr>)" by (rule action_steps(2))
    ultimately have "action\<^sup>*\<^sup>* b (?b\<lparr>provisioningQueue := provisioningQueue ?b @ [k]\<rparr>)" by (rule rtranclp_trans)
    with saved(1) show ?thesis by (simp add: create_instance_def Let_def)
  qed
  then show ?thesis by (auto simp: Provision_def Let_def split: option.split sum.split)
qed

section \<open>The machine\<close>

text \<open>
  Workers may change a stored operation in everything but its instance and type, and a stored instance in everything
  but an expiration; this is what the code of the process steps is assumed to do.
\<close>

inductive broker_step :: "update_env \<Rightarrow> provision_env \<Rightarrow> broker \<Rightarrow> broker \<Rightarrow> bool" for E P where
  provision: "visits_all visit \<Longrightarrow> broker_step E P b (snd (Provision P visit sn k now region provider iid d b))"
| update: "visits_all visit \<Longrightarrow> broker_step E P b (snd (Update E visit (\<lambda>b. b) k now iid d' async b))"
| deprovision: "visits_all visit \<Longrightarrow> broker_step E P b (snd (Deprovision visit ua k now iid b))"
| expire: "visits_all visit \<Longrightarrow> broker_step E P b (snd (expireInstance visit k now iid b))"
| take_provisioning: "provisioningQueue b = k # ks \<Longrightarrow> broker_step E P b (b\<lparr>provisioningQueue := ks\<rparr>)"
| take_deprovisioning: "deprovisioningQueue b = k # ks \<Longrightarrow> broker_step E P b (b\<lparr>deprovisioningQueue := ks\<rparr>)"
| take_updating: "updatingQueue b = k # ks \<Longrightarrow> broker_step E P b (b\<lparr>updatingQueue := ks\<rparr>)"
| work: "map_of (operations (ops b)) (op_ID op) = Some old \<Longrightarrow> InstanceID op = InstanceID old \<Longrightarrow> op_Type op = op_Type old \<Longrightarrow>
    broker_step E P b (b\<lparr>ops := snd (UpdateOperation op (ops b))\<rparr>)"
| work_instance: "map_of (insts b) (inst_ID i) = Some old \<Longrightarrow> keeps_expiration old i \<Longrightarrow>
    broker_step E P b (b\<lparr>insts := snd (inst_Update i (insts b))\<rparr>)"
| delete_instance: "broker_step E P b (b\<lparr>insts := inst_Delete iid (insts b)\<rparr>)"

definition broker_ok :: "broker \<Rightarrow> bool" where
  "broker_ok b =
     (store_ok (ops b) \<and> insts_ok (insts b) \<and>
      list_all (\<lambda>k. stored_as OperationTypeProvision k b) (provisioningQueue b) \<and>
      list_all (\<lambda>k. stored_as OperationTypeDeprovision k b) (deprovisioningQueue b) \<and>
      list_all (\<lambda>k. stored_as OperationTypeUpdate k b) (updatingQueue b) \<and>
      list_all (\<lambda>iid. has_provisioning iid b) (map fst (insts b)))"

lemma broker_ok_mono:
  assumes "broker_ok b" "store_ok (ops b')" "insts_ok (insts b')"
    and "\<And>ty k. stored_as ty k b \<Longrightarrow> stored_as ty k b'" "\<And>iid. has_provisioning iid b \<Longrightarrow> has_provisioning iid b'"
    and "\<And>k. k \<in> set (provisioningQueue b') \<Longrightarrow> k \<in> set (provisioningQueue b) \<or> stored_as OperationTypeProvision k b'"
    and "\<And>k. k \<in> set (deprovisioningQueue b') \<Longrightarrow> k \<in> set (deprovisioningQueue b) \<or> stored_as OperationTypeDeprovision k b'"
    and "\<And>k. k \<in> set (updatingQueue b') \<Longrightarrow> k \<in> set (updatingQueue b) \<or> stored_as OperationTypeUpdate k b'"
    and "\<And>iid. iid \<in> fst ` set (insts b') \<Longrightarrow> iid \<in> fst ` set (insts b) \<or> has_provisioning iid b'"
  shows "broker_ok b'"
  using assms unfolding broker_ok_def list_all_iff by (metis (no_types, opaque_lifting) set_map)

lemma InsertOperation_keeps:
  assumes "InsertOperation op (ops b) = (Inr (), s)" "ops b' = s"
  shows "stored_as ty k b \<Longrightarrow> stored_as ty k b'" "has_provisioning iid b \<Longrightarrow> has_provisioning iid b'"
    "store_ok (ops b) \<Longrightarrow> store_ok (ops b')"
proof -
  have "map_of (operations s) = (map_of (operations (ops b)))(op_ID op \<mapsto> op)" "map_of (operations (ops b)) (op_ID op) = None"
    using assms(1) by (auto simp: InsertOperation_def insert_new_def split: sum.splits option.splits)
  then show "stored_as ty k b \<Longrightarrow> stored_as ty k b'" using assms(2) by (auto simp: stored_as_def)
  show "has_provisioning iid b \<Longrightarrow> has_provisioning iid b'"
    using main_operations_insert [OF assms(1)] assms(2) by (auto simp: has_provisioning_def)
  show "store_ok (ops b) \<Longrightarrow> store_ok (ops b')"
    using perform_ok [of "ops b" "CallInsert op"] assms by simp
qed

lemma keys_inst_Update: "fst ` set (snd (inst_Update i m)) = fst ` set m"
  by (auto simp: inst_Update_def Let_def keys_assoc_set dest: map_of_SomeD split: option.split intro: rev_image_eqI)

lemma stored_as_ops: "ops b' = ops b \<Longrightarrow> stored_as ty k b' = stored_as ty k b"
  by (simp add: stored_as_def)

lemma has_provisioning_ops: "ops b' = ops b \<Longrightarrow> has_provisioning iid b' = has_provisioning iid b"
  by (simp add: has_provisioning_def)

lemma action_ok:
  assumes "action b b'" "broker_ok b"
  shows "broker_ok b'"
  using assms
proof (cases rule: action.cases)
  case (store_operation op s)
  note keeps = InsertOperation_keeps [OF store_operation(2), of b']
  show ?thesis by (rule broker_ok_mono [OF assms(2)]) (use keeps store_operation(1) assms(2) in \<open>auto simp: broker_ok_def\<close>)
next
  case (change_instance i i' m old)
  have "insts_ok m" "fst ` set m = fst ` set (insts b)"
    using insts_ok_Update [of "insts b" i] keys_inst_Update [of i "insts b"] change_instance(2) assms(2) by (simp_all add: broker_ok_def)
  with change_instance(1) show ?thesis
    by (intro broker_ok_mono [OF assms(2)]) (use assms(2) in \<open>auto simp: broker_ok_def stored_as_def has_provisioning_def\<close>)
next
  case (create op s i)
  note keeps = InsertOperation_keeps [OF create(2), of b']
  have "has_provisioning (inst_ID i) b'"
    using main_operations_insert [OF create(2)] create(1,3,4) by (auto simp: has_provisioning_def)
  with keeps create(1) show ?thesis
    by (intro broker_ok_mono [OF assms(2)])
       (use assms(2) insts_ok_assoc_set [of "insts b" i] in \<open>auto simp: broker_ok_def inst_Insert_def keys_assoc_set\<close>)
qed (auto simp: broker_ok_def stored_as_def has_provisioning_def)

interpretation acts: preserved action broker_ok
  by unfold_locales (rule action_ok)

lemma map_of_assoc_del: "map_of (assoc_del k m) = (map_of m)(k := None)"
  unfolding assoc_del_def by (induction m) (auto simp: fun_eq_iff)

lemma UpdateOperation_keeps:
  assumes "map_of (operations (ops b)) (op_ID op) = Some old" "InstanceID op = InstanceID old" "op_Type op = op_Type old"
    and "b' = b\<lparr>ops := snd (UpdateOperation op (ops b))\<rparr>" "store_ok (ops b)"
  shows "stored_as ty k b \<Longrightarrow> stored_as ty k b'" "has_provisioning iid b \<Longrightarrow> has_provisioning iid b'" "store_ok (ops b')"
proof -
  obtain r s where u: "UpdateOperation op (ops b) = (r, s)" by fastforce
  show ok: "store_ok (ops b')" using perform_ok [OF assms(5), of "CallUpdate op"] by (simp add: assms(4))
  have m: "map_of (operations s) = map_of (operations (ops b)) \<or>
      map_of (operations s) = (map_of (operations (ops b)))(op_ID op \<mapsto> op\<lparr>Version := Version op + 1\<rparr>)"
    using u assms(1) by (auto simp: UpdateOperation_def update_operations_def update_versioned_def Let_def split: if_splits)
  then show "stored_as ty k b \<Longrightarrow> stored_as ty k b'"
    using assms(1,3) u by (auto simp: stored_as_def assms(4))
  show "has_provisioning iid b'" if has: "has_provisioning iid b"
  proof -
    from has obtain k x where x: "(k, x) \<in> set (operations (ops b))" "InstanceID x = iid" "op_Type x = OperationTypeProvision"
      by (auto simp: has_provisioning_def main_operations_def)
    then have "map_of (operations (ops b)) k = Some x" using assms(5) by (auto simp: store_ok_def map_ok_def)
    with m x(2,3) assms(1-3) obtain y where "map_of (operations s) k = Some y" "InstanceID y = iid" "op_Type y = OperationTypeProvision"
      by (cases "k = op_ID op") auto
    then show ?thesis using u by (force simp: has_provisioning_def main_operations_def assms(4) dest: map_of_SomeD)
  qed
qed

lemma insts_ok_Delete: "insts_ok m \<Longrightarrow> insts_ok (inst_Delete iid m)"
  by (auto simp: insts_ok_def inst_Delete_def assoc_del_def distinct_map_filter)

lemma broker_step_ok:
  assumes "broker_step E P b b'" "broker_ok b"
  shows "broker_ok b'"
  using assms(1)
proof (cases rule: broker_step.cases)
  case (work op old)
  note keeps = UpdateOperation_keeps [OF work(2-4,1)]
  show ?thesis
    by (rule broker_ok_mono [OF assms(2)]) (use keeps work(1) assms(2) in \<open>auto simp: broker_ok_def\<close>)
next
  case (work_instance i old)
  with change_instance_acts [of b i old] acts.steps_keep [OF _ assms(2)] show ?thesis by simp
next
  case (delete_instance iid)
  with assms(2) insts_ok_Delete [of "insts b" iid] show ?thesis
    by (auto simp: broker_ok_def list_all_iff inst_Delete_def assoc_del_def stored_as_def has_provisioning_def)
next
  case (provision visit sn k now region provider iid d)
  with acts.steps_keep [OF Provision_acts assms(2)] show ?thesis by simp
next
  case (update visit k now iid d' async)
  with acts.steps_keep [OF Update_acts assms(2)] assms(2) show ?thesis by (simp add: broker_ok_def)
next
  case (deprovision visit ua k now iid)
  with acts.steps_keep [OF Deprovision_acts assms(2)] show ?thesis by simp
next
  case (expire visit k now iid)
  with acts.steps_keep [OF expireInstance_acts assms(2)] assms(2) show ?thesis by (simp add: broker_ok_def)
qed (use assms(2) in \<open>simp_all add: broker_ok_def stored_as_def has_provisioning_def\<close>)

interpretation broker: preserved "broker_step E P" broker_ok for E P
  by unfold_locales (rule broker_step_ok)

lemma empty_broker_ok: "broker_ok empty_broker"
  by (simp add: broker_ok_def empty_broker_def NewOperation_def store_ok_def map_ok_def insts_ok_def)

text \<open>
  (C2) Whatever requests are made and however they interleave with the workers, starting from an empty
  broker: every id in a queue belongs to a stored operation of the type of that queue, every stored instance has a
  provisioning, and all maps hold each value once and under its own id.
\<close>

theorem queued_operations_are_stored:
  assumes "(broker_step E P)\<^sup>*\<^sup>* empty_broker b"
  shows "list_all (\<lambda>k. stored_as OperationTypeProvision k b) (provisioningQueue b) \<and>
         list_all (\<lambda>k. stored_as OperationTypeDeprovision k b) (deprovisioningQueue b) \<and>
         list_all (\<lambda>k. stored_as OperationTypeUpdate k b) (updatingQueue b) \<and>
         list_all (\<lambda>iid. has_provisioning iid b) (map fst (insts b)) \<and> store_ok (ops b) \<and> insts_ok (insts b)"
  using broker.steps_keep [OF assms empty_broker_ok] by (simp add: broker_ok_def)

theorem queued_operations_are_stored_witness:
  "list_all (\<lambda>k. stored_as OperationTypeProvision k
       (snd (Provision some_penv (\<lambda>m. m) ''abc'' ''k'' 1 (Some ''cf-eu10'') (Some ''Azure'') ''i'' (some_request TrialPlanID) empty_broker)))
     (provisioningQueue
       (snd (Provision some_penv (\<lambda>m. m) ''abc'' ''k'' 1 (Some ''cf-eu10'') (Some ''Azure'') ''i'' (some_request TrialPlanID) empty_broker)))"
proof -
  let ?b = "snd (Provision some_penv (\<lambda>m. m) ''abc'' ''k'' 1 (Some ''cf-eu10'') (Some ''Azure'') ''i'' (some_request TrialPlanID) empty_broker)"
  have "broker_step some_env some_penv empty_broker ?b" by (rule broker_step.provision) simp
  then have "(broker_step some_env some_penv)\<^sup>*\<^sup>* empty_broker ?b" by (rule r_into_rtranclp)
  from queued_operations_are_stored [OF this] show ?thesis by blast
qed

section \<open>Expiration is final\<close>

text \<open>What stays true of an instance once it is expired: it keeps its expiration as long as it is stored, and it cannot be created again.\<close>

definition expired_since :: "string \<Rightarrow> int \<Rightarrow> broker \<Rightarrow> bool" where
  "expired_since iid t b = (has_provisioning iid b \<and>
     (case map_of (insts b) iid of Some i \<Rightarrow> ExpiredAt i = Some t | None \<Rightarrow> True))"

lemma action_expired:
  assumes "action b b'" "expired_since iid t b"
  shows "expired_since iid t b'"
  using assms(1)
proof (cases rule: action.cases)
  case (store_operation op s)
  with InsertOperation_keeps(2) [OF store_operation(2), of b'] assms(2) show ?thesis by (simp add: expired_since_def)
next
  case (change_instance i i' m old)
  have "map_of m = (map_of (insts b))(inst_ID i \<mapsto> next_version i)" using insts.upd_done [OF change_instance(2)] by simp
  with change_instance assms(2) show ?thesis
    by (auto simp: expired_since_def has_provisioning_def keeps_expiration_def IsExpired_def next_version_def split: option.splits)
next
  case (create op s i)
  from create(5) assms(2) have "inst_ID i \<noteq> iid" by (auto simp: expired_since_def)
  with create(1) InsertOperation_keeps(2) [OF create(2), of b'] assms(2) show ?thesis
    by (simp add: expired_since_def inst_Insert_def)
qed (use assms(2) in \<open>simp_all add: expired_since_def has_provisioning_def\<close>)

interpretation acts_expired: preserved action "expired_since iid t" for iid t
  by unfold_locales (rule action_expired)

lemma broker_step_expired:
  assumes "broker_step E P b b'" "broker_ok b" "expired_since iid t b"
  shows "expired_since iid t b'"
  using assms(1)
proof (cases rule: broker_step.cases)
  case (work op old)
  have "store_ok (ops b)" using assms(2) by (simp add: broker_ok_def)
  with UpdateOperation_keeps(2) [OF work(2-4,1)] work(1) assms(3) show ?thesis by (simp add: expired_since_def)
next
  case (work_instance i old)
  with change_instance_acts [of b i old] acts_expired.steps_keep [OF _ assms(3)] show ?thesis by simp
next
  case (delete_instance iid')
  with assms(3) show ?thesis by (auto simp: expired_since_def inst_Delete_def map_of_assoc_del has_provisioning_def)
next
  case (provision visit sn k now region provider iid d)
  with acts_expired.steps_keep [OF Provision_acts assms(3)] show ?thesis by simp
next
  case (update visit k now iid d' async)
  with acts_expired.steps_keep [OF Update_acts assms(3)] assms(2) show ?thesis by (simp add: broker_ok_def)
next
  case (deprovision visit ua k now iid)
  with acts_expired.steps_keep [OF Deprovision_acts assms(3)] show ?thesis by simp
next
  case (expire visit k now iid)
  with acts_expired.steps_keep [OF expireInstance_acts assms(3)] assms(2) show ?thesis by (simp add: broker_ok_def)
qed (use assms(3) in \<open>simp_all add: expired_since_def has_provisioning_def\<close>)

interpretation broker_expired: preserved "broker_step E P" "\<lambda>b. broker_ok b \<and> expired_since iid t b" for E P iid t
  by unfold_locales (auto intro: broker_step_ok broker_step_expired)

text \<open>
  (C5) Expiration is final: once an instance of a reachable broker is expired, in every later state it is
  either gone or still expired, with the same time; no request and no later provisioning under its id undoes it.
\<close>

theorem expiration_is_final:
  assumes "(broker_step E P)\<^sup>*\<^sup>* empty_broker b" "(broker_step E P)\<^sup>*\<^sup>* b b'"
    and "map_of (insts b) iid = Some i" "ExpiredAt i = Some t"
  shows "map_of (insts b') iid = None \<or> (\<exists>i'. map_of (insts b') iid = Some i' \<and> ExpiredAt i' = Some t)"
proof -
  have ok: "broker_ok b" using broker.steps_keep [OF assms(1) empty_broker_ok] .
  have "iid \<in> set (map fst (insts b))" using map_of_SomeD [OF assms(3)] by force
  with ok assms(3,4) have "expired_since iid t b" by (auto simp: expired_since_def broker_ok_def list_all_iff)
  with ok broker_expired.steps_keep [OF assms(2)] have "expired_since iid t b'" by blast
  then show ?thesis by (auto simp: expired_since_def split: option.splits)
qed

theorem expiration_is_final_witness:
  "\<exists>b i t. (broker_step some_env some_penv)\<^sup>*\<^sup>* empty_broker b \<and> map_of (insts b) ''i'' = Some i \<and> ExpiredAt i = Some t \<and>
     (map_of (insts (snd (Deprovision (\<lambda>m. m) None ''x'' 9 ''i'' b))) ''i'' = None \<or>
      (\<exists>i'. map_of (insts (snd (Deprovision (\<lambda>m. m) None ''x'' 9 ''i'' b))) ''i'' = Some i' \<and> ExpiredAt i' = Some t))"
proof -
  obtain spec b1 where p: "Provision some_penv (\<lambda>m. m) ''abc'' ''k'' 1 (Some ''cf-eu10'') (Some ''Azure'') ''i'' (some_request TrialPlanID) empty_broker = (Inr spec, b1)"
    using some_request_accepted by blast
  have s1: "broker_step some_env some_penv empty_broker b1" using broker_step.provision [OF visits_all_id] p by (metis snd_conv)
  have ok: "insts_ok (insts b1)" using broker_step_ok [OF s1 empty_broker_ok] by (simp add: broker_ok_def)
  from p obtain i0 where "map_of (insts b1) ''i'' = Some i0" "ServicePlanID i0 = TrialPlanID"
    by (rule Provision_created [OF visits_all_id empty_broker_simps(4)]) (auto simp: inst_Insert_def some_request_def)
  from expireInstance_expires [OF ok this, of "\<lambda>m. m" "''d''" 5] obtain i t where
    i: "map_of (insts (snd (expireInstance (\<lambda>m. m) ''d'' 5 ''i'' b1))) ''i'' = Some i" "ExpiredAt i = Some t" by blast
  let ?b2 = "snd (expireInstance (\<lambda>m. m) ''d'' 5 ''i'' b1)"
  have s2: "broker_step some_env some_penv b1 ?b2" by (rule broker_step.expire) simp
  have r: "(broker_step some_env some_penv)\<^sup>*\<^sup>* empty_broker ?b2" using s1 s2 by (meson r_into_rtranclp rtranclp_trans)
  have s3: "broker_step some_env some_penv ?b2 (snd (Deprovision (\<lambda>m. m) None ''x'' 9 ''i'' ?b2))" by (rule broker_step.deprovision) simp
  from expiration_is_final [OF r r_into_rtranclp [where r = "broker_step some_env some_penv", OF s3] i] r i show ?thesis by blast
qed

end
