(* ===== verification/Operation_Lists.thy ===== *)
theory Operation_Lists
  imports Memory_Storage
begin

text \<open>
  The listing methods of the in-memory operation storage
  (\<^verbatim>\<open>src/internal/storage/driver/memory/operation.go\<close>) that orchestrations, the runtime listing and
  the statistics use.  As in \<open>Memory_Storage\<close>, the order of a visit is an argument.
\<close>

section \<open>Lists for an instance\<close>

text \<open>The newest first, or an error when there is none.\<close>

definition newest_or_error :: "string \<Rightarrow> string \<Rightarrow> operation list \<Rightarrow> go_error + operation list" where
  "newest_or_error kind instanceID ops =
     (if ops \<noteq> [] then Inr (newest_first ops)
      else Inl (db_not_found (''instance '' @ kind @ '' operations with instanceID '') instanceID))"

definition ListProvisioningOperationsByInstanceID :: "visit \<Rightarrow> string \<Rightarrow> memory_operations \<Rightarrow> go_error + operation list" where
  "ListProvisioningOperationsByInstanceID visit instanceID s =
     newest_or_error ''provisioning'' instanceID
       (of_instance visit (\<lambda>op. op_Type op = OperationTypeProvision) instanceID (operations s))"

definition ListOperationsByInstanceID :: "visit \<Rightarrow> string \<Rightarrow> memory_operations \<Rightarrow> go_error + operation list" where
  "ListOperationsByInstanceID visit instanceID s =
     newest_or_error ''provisioning'' instanceID (of_instance visit (\<lambda>_. True) instanceID (operations s))"

definition ListDeprovisioningOperationsByInstanceID :: "visit \<Rightarrow> string \<Rightarrow> memory_operations \<Rightarrow> go_error + operation list" where
  "ListDeprovisioningOperationsByInstanceID visit instanceID s =
     newest_or_error ''deprovisioning'' instanceID
       (of_instance visit (\<lambda>op. op_Type op = OperationTypeDeprovision) instanceID (operations s))"

definition ListDeprovisioningOperations :: "visit \<Rightarrow> memory_operations \<Rightarrow> operation list" where
  "ListDeprovisioningOperations visit s =
     newest_first (filter (\<lambda>op. op_Type op = OperationTypeDeprovision) (map snd (visit (operations s))))"

definition ListUpdatingOperationsByInstanceID :: "visit \<Rightarrow> string \<Rightarrow> memory_operations \<Rightarrow> operation list" where
  "ListUpdatingOperationsByInstanceID visit instanceID s =
     oldest_first (filter (\<lambda>op. InstanceID op = instanceID) (map snd (visit (updateOperations s))))"

definition filterUpgradeKymaByInstanceID :: "visit \<Rightarrow> string \<Rightarrow> operation_filter \<Rightarrow> memory_operations \<Rightarrow> operation list" where
  "filterUpgradeKymaByInstanceID visit instanceID flt s =
     filter (\<lambda>op. (instanceID = [] \<or> instanceID = InstanceID op) \<and> op_Type op = OperationTypeUpgradeKyma \<and>
                  matchFilter (State op) (filter_States flt))
       (map snd (visit (operations s)))"

definition filterUpgradeClusterByInstanceID :: "visit \<Rightarrow> string \<Rightarrow> operation_filter \<Rightarrow> memory_operations \<Rightarrow> operation list" where
  "filterUpgradeClusterByInstanceID visit instanceID flt s =
     filter (\<lambda>op. (instanceID = [] \<or> instanceID = InstanceID op) \<and> matchFilter (State op) (filter_States flt))
       (map snd (visit (upgradeClusterOperations s)))"

text \<open>A filter for states, without pages.\<close>

definition with_states :: "string list \<Rightarrow> operation_filter" where
  "with_states sts = \<lparr>filter_States = sts, filter_Page = 0, filter_PageSize = 0\<rparr>"

definition ListUpgradeKymaOperationsByInstanceID :: "visit \<Rightarrow> string \<Rightarrow> memory_operations \<Rightarrow> go_error + operation list" where
  "ListUpgradeKymaOperationsByInstanceID visit instanceID s =
     newest_or_error ''upgrade'' instanceID (filterUpgradeKymaByInstanceID visit instanceID (with_states []) s)"

definition ListUpgradeClusterOperationsByInstanceID :: "visit \<Rightarrow> string \<Rightarrow> memory_operations \<Rightarrow> go_error + operation list" where
  "ListUpgradeClusterOperationsByInstanceID visit instanceID s =
     newest_or_error ''upgrade'' instanceID (filterUpgradeClusterByInstanceID visit instanceID (with_states []) s)"

section \<open>Lists for an orchestration\<close>

definition ListUpgradeKymaOperations :: "visit \<Rightarrow> memory_operations \<Rightarrow> operation list" where
  "ListUpgradeKymaOperations visit s = oldest_first (filterUpgradeKyma visit [] (with_states []) s)"

definition filterUpgradeCluster :: "visit \<Rightarrow> string \<Rightarrow> operation_filter \<Rightarrow> memory_operations \<Rightarrow> operation list" where
  "filterUpgradeCluster visit orchestrationID flt s =
     filter (\<lambda>op. (orchestrationID = [] \<or> orchestrationID = OrchestrationID op) \<and> matchFilter (State op) (filter_States flt))
       (map snd (visit (upgradeClusterOperations s)))"

definition ListUpgradeClusterOperationsByOrchestrationID ::
  "visit \<Rightarrow> string \<Rightarrow> operation_filter \<Rightarrow> memory_operations \<Rightarrow> (operation list \<times> nat \<times> nat) go_call" where
  "ListUpgradeClusterOperationsByOrchestrationID visit orchestrationID flt s =
     (let offset = ConvertPageAndPageSizeToOffset (filter_PageSize flt) (filter_Page flt);
          ops = oldest_first (filterUpgradeCluster visit orchestrationID flt s)
      in page_result (copy_page ops (filter_PageSize flt) offset (int (length ops)) offset) ops)"

section \<open>Lists by id and statistics\<close>

text \<open>For each id of the list in turn, the operations of one map after the other.  The message of the error is without the list of ids.\<close>

definition with_ids :: "string list \<Rightarrow> op_map \<Rightarrow> operation list" where
  "with_ids ids m = concat (map (\<lambda>k. filter (\<lambda>op. op_ID op = k) (map snd m)) ids)"

definition GetOperationsForIDs :: "visit \<Rightarrow> string list \<Rightarrow> memory_operations \<Rightarrow> go_error + operation list" where
  "GetOperationsForIDs visit opIdList s =
     (let ops = with_ids opIdList (visit (updateOperations s)) @ with_ids opIdList (visit (upgradeClusterOperations s)) @
                with_ids opIdList (visit (operations s))
      in if ops = [] then Inl (DbError CodeNotFound ''operations with ids from list not exist'') else Inr ops)"

text \<open>The counters of a plan: none when the plan has no operation, else a number per type and state.\<close>

definition GetOperationStatsByPlan :: "visit \<Rightarrow> memory_operations \<Rightarrow> string \<Rightarrow> (operation_type \<Rightarrow> string \<Rightarrow> nat) option" where
  "GetOperationStatsByPlan visit s planID =
     (let ops = filter (\<lambda>op. PlanID (ProvisioningParameters op) = planID) (map snd (visit (operations s))) in
      if planID = [] \<or> ops = [] then None
      else Some (\<lambda>ty st. if ty = OperationTypeProvision \<or> ty = OperationTypeDeprovision
                         then length (filter (\<lambda>op. op_Type op = ty \<and> State op = st) ops) else 0))"

section \<open>What a list contains\<close>

lemma set_visit: "visits_all visit \<Longrightarrow> set (visit m) = set m"
  by (metis visits_all_def set_mset_mset)

lemma set_oldest_first [simp]: "set (oldest_first ops) = set ops"
  by (simp add: oldest_first_def)

text \<open>Without pages the list is complete.\<close>

lemma whole_list:
  "page_result (copy_page ops (filter_PageSize (with_states sts)) (ConvertPageAndPageSizeToOffset (filter_PageSize (with_states sts))
     (filter_Page (with_states sts))) (int (length ops)) (ConvertPageAndPageSizeToOffset (filter_PageSize (with_states sts))
     (filter_Page (with_states sts)))) ops = Returned (ops, length ops, length ops)"
  by (simp add: with_states_def ConvertPageAndPageSizeToOffset_def copy_page_spec page_result_def)

definition cluster_upgrades :: "string \<Rightarrow> string list \<Rightarrow> memory_operations \<Rightarrow> operation set" where
  "cluster_upgrades orchestrationID sts s =
     {op \<in> snd ` set (upgradeClusterOperations s). OrchestrationID op = orchestrationID \<and> matchFilter (State op) sts}"

text \<open>What the list for Kyma contains: the operations of the orchestration and every upgrade of Kyma.\<close>

definition kyma_upgrades :: "string \<Rightarrow> string list \<Rightarrow> memory_operations \<Rightarrow> operation set" where
  "kyma_upgrades orchestrationID sts s =
     {op \<in> snd ` set (operations s). (OrchestrationID op = orchestrationID \<or> op_Type op = OperationTypeUpgradeKyma) \<and>
        matchFilter (State op) sts}"

lemma list_cluster:
  assumes "visits_all visit" "orchestrationID \<noteq> []"
  obtains ops where "ListUpgradeClusterOperationsByOrchestrationID visit orchestrationID (with_states sts) s =
      Returned (ops, length ops, length ops)" "set ops = cluster_upgrades orchestrationID sts s"
proof
  let ?ops = "oldest_first (filterUpgradeCluster visit orchestrationID (with_states sts) s)"
  show "ListUpgradeClusterOperationsByOrchestrationID visit orchestrationID (with_states sts) s = Returned (?ops, length ?ops, length ?ops)"
    by (simp add: ListUpgradeClusterOperationsByOrchestrationID_def Let_def whole_list)
  show "set ?ops = cluster_upgrades orchestrationID sts s"
    using assms(2) by (auto simp: filterUpgradeCluster_def cluster_upgrades_def set_visit [OF assms(1)] with_states_def)
qed

lemma list_kyma:
  assumes "visits_all visit" "orchestrationID \<noteq> []"
  obtains ops where "ListUpgradeKymaOperationsByOrchestrationID visit orchestrationID (with_states sts) s =
      Returned (ops, length ops, length ops)" "set ops = kyma_upgrades orchestrationID sts s"
proof
  let ?ops = "oldest_first (filterUpgradeKyma visit orchestrationID (with_states sts) s)"
  show "ListUpgradeKymaOperationsByOrchestrationID visit orchestrationID (with_states sts) s = Returned (?ops, length ?ops, length ?ops)"
    by (simp add: ListUpgradeKymaOperationsByOrchestrationID_def Let_def whole_list)
  show "set ?ops = kyma_upgrades orchestrationID sts s"
    using assms(2) by (auto simp: filterUpgradeKyma_def kyma_upgrades_def set_visit [OF assms(1)] with_states_def)
qed

lemma newest_or_error_Inr: "newest_or_error kind i ops = Inr ops' \<longleftrightarrow> ops \<noteq> [] \<and> ops' = newest_first ops"
  by (auto simp: newest_or_error_def)

end
