(* ===== verification/Orchestration_Storage.thy ===== *)
theory Orchestration_Storage
  imports Operation_Lists Instance_Storage
begin

text \<open>
  Orchestrations: upgrades of many runtimes at once (\<^verbatim>\<open>src/internal/model.go\<close>,
  \<^verbatim>\<open>src/common/orchestration/dto.go\<close>) and their in-memory storage
  (\<^verbatim>\<open>src/internal/storage/driver/memory/orchestration.go\<close>).  Unlike operations and instances, orchestrations
  have no version: an update replaces whatever is stored.
\<close>

section \<open>Data\<close>

record runtime_target =
  Target :: string
  target_GlobalAccount :: string
  target_SubAccount :: string
  target_Region :: string
  target_RuntimeID :: string
  target_PlanName :: string
  target_Shoot :: string
  target_InstanceID :: string

record target_spec =
  Include :: "runtime_target list"
  Exclude :: "runtime_target list"

record strategy_spec =
  strategy_Type :: string
  Schedule :: string
  ScheduleTime :: go_time
  MaintenanceWindow :: bool
  Workers :: int

record kubernetes_parameters =
  KubernetesVersion :: string
  MachineImage :: string
  MachineImageVersion :: string

record retry_parameters =
  RetryOperations :: "string list"
  Immediate :: bool

record orchestration_parameters =
  Targets :: target_spec
  Strategy :: strategy_spec
  DryRun :: bool
  Kubernetes :: "kubernetes_parameters option"
  Kyma :: "string option"
  param_Retry :: retry_parameters
  Notification :: bool

record orchestration =
  orch_ID :: string
  orch_Type :: string
  orch_State :: string
  orch_Description :: string
  orch_CreatedAt :: int
  orch_UpdatedAt :: int
  orch_Parameters :: orchestration_parameters

definition UpgradeKymaOrchestration :: string where "UpgradeKymaOrchestration = ''upgradeKyma''"
definition UpgradeClusterOrchestration :: string where "UpgradeClusterOrchestration = ''upgradeCluster''"
definition ParallelStrategy :: string where "ParallelStrategy = ''parallel''"
definition TargetAll :: string where "TargetAll = ''all''"

definition orch_IsFinished :: "orchestration \<Rightarrow> bool" where
  "orch_IsFinished o' = (orch_State o' = Succeeded \<or> orch_State o' = Failed \<or> orch_State o' = Canceled)"

definition IsCanceled :: "orchestration \<Rightarrow> bool" where
  "IsCanceled o' = (orch_State o' = Canceling \<or> orch_State o' = Canceled)"

section \<open>The store\<close>

type_synonym orch_map = "(string \<times> orchestration) list"

definition NewOrchestrations :: orch_map where "NewOrchestrations = []"

definition orch_Insert :: "orchestration \<Rightarrow> orch_map \<Rightarrow> orch_map" where
  "orch_Insert o' m = assoc_set (orch_ID o') o' m"

definition orch_not_found :: "string \<Rightarrow> go_error" where
  "orch_not_found k = DbError CodeNotFound (''orchestration with id '' @ k @ '' not exist'')"

definition orch_GetByID :: "string \<Rightarrow> orch_map \<Rightarrow> go_error + orchestration" where
  "orch_GetByID k m = (case map_of m k of Some o' \<Rightarrow> Inr o' | None \<Rightarrow> Inl (orch_not_found k))"

definition orch_Update :: "orchestration \<Rightarrow> orch_map \<Rightarrow> (go_error + unit) \<times> orch_map" where
  "orch_Update o' m =
     (case map_of m (orch_ID o') of
        None \<Rightarrow> (Inl (orch_not_found (orch_ID o')), m)
      | Some _ \<Rightarrow> (Inr (), assoc_set (orch_ID o') o' m))"

record orchestration_filter =
  filter_Types :: "string list"
  orch_filter_States :: "string list"
  orch_filter_Page :: int
  orch_filter_PageSize :: int

definition orch_filter :: "(orch_map \<Rightarrow> orch_map) \<Rightarrow> orchestration_filter \<Rightarrow> orch_map \<Rightarrow> orchestration list" where
  "orch_filter visit flt m =
     filter (\<lambda>o'. matchFilter (orch_Type o') (filter_Types flt) \<and> matchFilter (orch_State o') (orch_filter_States flt))
       (map snd (visit m))"

definition orch_List ::
  "(orch_map \<Rightarrow> orch_map) \<Rightarrow> orchestration_filter \<Rightarrow> orch_map \<Rightarrow> (orchestration list \<times> nat \<times> nat) go_call" where
  "orch_List visit flt m =
     (let offset = ConvertPageAndPageSizeToOffset (orch_filter_PageSize flt) (orch_filter_Page flt);
          os = sort_key orch_CreatedAt (orch_filter visit flt m)
      in page_result (copy_page os (orch_filter_PageSize flt) offset (int (length os)) offset) os)"

lemma orch_Update_map:
  "orch_Update o' m = (r, m') \<Longrightarrow>
   map_of m' = (if map_of m (orch_ID o') = None then map_of m else (map_of m)(orch_ID o' \<mapsto> o'))"
  by (auto simp: orch_Update_def split: option.splits)

lemma orch_Update_known: "map_of m (orch_ID o') \<noteq> None \<Longrightarrow> orch_Update o' m = (Inr (), assoc_set (orch_ID o') o' m)"
  by (auto simp: orch_Update_def)

lemma orch_GetByID_Inr [simp]: "orch_GetByID k m = Inr o' \<longleftrightarrow> map_of m k = Some o'"
  by (auto simp: orch_GetByID_def split: option.splits)

lemma orch_GetByID_Inl: "orch_GetByID k m = Inl e \<longleftrightarrow> map_of m k = None \<and> e = orch_not_found k"
  by (auto simp: orch_GetByID_def split: option.splits)

lemma IsNotFound_orch [simp]: "IsNotFound (orch_not_found k)"
  by (simp add: orch_not_found_def IsNotFound_def)

text \<open>Orchestrations are stored under their own id.\<close>

definition orchs_ok :: "orch_map \<Rightarrow> bool" where
  "orchs_ok m = (\<forall>k o'. map_of m k = Some o' \<longrightarrow> orch_ID o' = k)"

lemma orchs_ok_Update: "orchs_ok m \<Longrightarrow> orch_Update o' m = (r, m') \<Longrightarrow> orchs_ok m'"
  by (auto simp: orchs_ok_def orch_Update_map split: if_splits)

lemma orchs_ok_Insert: "orchs_ok m \<Longrightarrow> orchs_ok (orch_Insert o' m)"
  by (auto simp: orchs_ok_def orch_Insert_def)

end
