(* ===== verification/Upgrade_Factory.thy ===== *)
theory Upgrade_Factory
  imports Orchestration_Storage
begin

text \<open>
  The two factories that create, resume, cancel and look up the operations of an orchestration
  (\<^verbatim>\<open>src/internal/orchestration/manager/upgrade_cluster.go\<close> and \<^verbatim>\<open>upgrade_kyma.go\<close>), for upgrades of clusters
  and of Kyma.  They have the same text except for the storage methods they call, which are the fields of
  \<open>upgrade_kind\<close>, and for \<open>NewOperation\<close> and \<open>RetryOperations\<close>, which are given twice.  The record
  \<open>factory\<close> is the interface \<open>OperationFactory\<close> that the manager calls.

  The new id and the time are arguments of the functions that need them.
\<close>

section \<open>Calls that may fail or panic\<close>

type_synonym ('a, 'w) go_step = "'w \<Rightarrow> (go_error + 'a) go_call \<times> 'w"

definition and_go :: "(go_error + 'a) go_call \<times> 'w \<Rightarrow> ('a \<Rightarrow> ('b, 'w) go_step) \<Rightarrow> (go_error + 'b) go_call \<times> 'w" where
  "and_go m f =
     (case m of
        (Returned (Inr a), w) \<Rightarrow> f a w
      | (Returned (Inl e), w) \<Rightarrow> (Returned (Inl e), w)
      | (Panicked v, w) \<Rightarrow> (Panicked v, w))"

lemma and_go_simps [simp]:
  "and_go (Returned (Inr a), w) f = f a w"
  "and_go (Returned (Inl e), w) f = (Returned (Inl e), w)"
  "and_go (Panicked v, w) f = (Panicked v, w)"
  by (simp_all add: and_go_def)

lemma and_go_Inr:
  "and_go m f = (Returned (Inr b), w') \<longleftrightarrow> (\<exists>a w. m = (Returned (Inr a), w) \<and> f a w = (Returned (Inr b), w'))"
  by (auto simp: and_go_def split: prod.splits go_call.splits sum.splits)

text \<open>\<open>fmt.Errorf("context: %w", err)\<close>\<close>

definition wrap :: "string \<Rightarrow> go_error \<Rightarrow> go_error" where
  "wrap context err = WrappedError (context @ '': '' @ error_message err) err"

definition wrapping :: "string \<Rightarrow> (go_error + 'a) go_call \<times> 'w \<Rightarrow> (go_error + 'a) go_call \<times> 'w" where
  "wrapping context m =
     (case m of (Returned (Inl e), w) \<Rightarrow> (Returned (Inl (wrap context e)), w) | _ \<Rightarrow> m)"

lemma wrapping_simps [simp]:
  "wrapping c (Returned (Inr a), w) = (Returned (Inr a), w)"
  "wrapping c (Returned (Inl e), w) = (Returned (Inl (wrap c e)), w)"
  "wrapping c (Panicked v, w) = (Panicked v, w)"
  by (simp_all add: wrapping_def)

lemma wrapping_Inr [simp]: "wrapping c m = (Returned (Inr a), w) \<longleftrightarrow> m = (Returned (Inr a), w)"
  by (auto simp: wrapping_def split: prod.splits go_call.splits sum.splits)

section \<open>Kinds of upgrades\<close>

record upgrade_kind =
  k_name :: string
  k_list :: "visit \<Rightarrow> string \<Rightarrow> operation_filter \<Rightarrow> memory_operations \<Rightarrow> (operation list \<times> nat \<times> nat) go_call"
  k_update :: "operation \<Rightarrow> memory_operations \<Rightarrow> (go_error + operation) \<times> memory_operations"

definition cluster_kind :: upgrade_kind where
  "cluster_kind = \<lparr>k_name = ''cluster'', k_list = ListUpgradeClusterOperationsByOrchestrationID, k_update = UpdateUpgradeClusterOperation\<rparr>"

definition kyma_kind :: upgrade_kind where
  "kyma_kind = \<lparr>k_name = ''kyma'', k_list = ListUpgradeKymaOperationsByOrchestrationID, k_update = UpdateUpgradeKymaOperation\<rparr>"

text \<open>The operations in some states; this driver never reports an error here.\<close>

definition in_states :: "upgrade_kind \<Rightarrow> visit \<Rightarrow> string \<Rightarrow> string list \<Rightarrow> (operation list, memory_operations) go_step" where
  "in_states kd visit orchestrationID sts s =
     (case k_list kd visit orchestrationID (with_states sts) s of
        Returned (ops, _, _) \<Rightarrow> (Returned (Inr ops), s)
      | Panicked v \<Rightarrow> (Panicked v, s))"

text \<open>The loops that change and store one operation after the other, up to the first error.\<close>

fun update_each ::
  "('v \<Rightarrow> 's \<Rightarrow> (go_error + 'v) \<times> 's) \<Rightarrow> ('v \<Rightarrow> 'v) \<Rightarrow> ('v \<Rightarrow> string) \<Rightarrow> 'v list \<Rightarrow> (unit, 's) go_step" where
  "update_each upd change context [] s = (Returned (Inr ()), s)"
| "update_each upd change context (v # vs) s =
     (case upd (change v) s of
        (Inl e, s1) \<Rightarrow> (Returned (Inl (wrap (context v) e)), s1)
      | (Inr _, s1) \<Rightarrow> update_each upd change context vs s1)"

definition cancel_operation :: "operation \<Rightarrow> operation" where
  "cancel_operation op = op\<lparr>State := Canceled, Description := ''Operation was canceled''\<rparr>"

definition CancelOperation :: "upgrade_kind \<Rightarrow> visit \<Rightarrow> string \<Rightarrow> string \<Rightarrow> (unit, memory_operations) go_step" where
  "CancelOperation kd visit orchestrationID runtimeID s =
     and_go (wrapping (''while listing upgrade '' @ k_name kd @ '' operations'') (in_states kd visit orchestrationID [Pending] s)) (\<lambda>ops.
       update_each (k_update kd) cancel_operation (\<lambda>op. ''while updating upgrade '' @ k_name kd @ '' operation'')
         (filter (\<lambda>op. RuntimeID (InstanceDetails op) = runtimeID) ops))"

definition CancelOperations :: "upgrade_kind \<Rightarrow> visit \<Rightarrow> string \<Rightarrow> (unit, memory_operations) go_step" where
  "CancelOperations kd visit orchestrationID s =
     and_go (wrapping (''while listing upgrade '' @ k_name kd @ '' operations'') (in_states kd visit orchestrationID [Pending] s)) (\<lambda>ops.
       update_each (k_update kd) cancel_operation (\<lambda>op. ''while updating upgrade '' @ k_name kd @ '' operation'') ops)"

definition updateRetryingOperation :: "upgrade_kind \<Rightarrow> int \<Rightarrow> operation \<Rightarrow> (runtime_operation, memory_operations) go_step" where
  "updateRetryingOperation kd now op s =
     (case k_update kd (op\<lparr>UpdatedAt := now, State := Pending, Description := ''Operation retry triggered'',
             ProvisionerOperationID := []\<rparr>) s of
        (Inl e, s1) \<Rightarrow>
          (Returned (Inl (wrap (''while updating (retrying) upgrade '' @ k_name kd @ '' operation '' @ op_ID op @ '' in storage'') e)), s1)
      | (Inr opUpdated, s1) \<Rightarrow> (Returned (Inr (RuntimeOperation opUpdated)), s1))"

text \<open>The three lists of \<open>ResumeOperations\<close>: in progress, retrying, pending.\<close>

fun resume_each ::
  "upgrade_kind \<Rightarrow> int \<Rightarrow> operation list \<Rightarrow>
     (runtime_operation list \<times> runtime_operation list \<times> runtime_operation list, memory_operations) go_step" where
  "resume_each kd now [] s = (Returned (Inr ([], [], [])), s)"
| "resume_each kd now (op # ops) s =
     (if State op = Retrying
      then and_go (updateRetryingOperation kd now op s) (\<lambda>ro s1.
             and_go (resume_each kd now ops s1) (\<lambda>(xs, rs, ps) s2. (Returned (Inr (xs, ro # rs, ps)), s2)))
      else and_go (resume_each kd now ops s) (\<lambda>(xs, rs, ps) s2.
             (Returned (Inr (if State op = InProgress then RuntimeOperation op # xs else xs, rs,
                 if State op = Pending then RuntimeOperation op # ps else ps)), s2)))"

definition ResumeOperations :: "upgrade_kind \<Rightarrow> visit \<Rightarrow> int \<Rightarrow> string \<Rightarrow> (runtime_operation list, memory_operations) go_step" where
  "ResumeOperations kd visit now orchestrationID s =
     and_go (in_states kd visit orchestrationID [InProgress, Retrying, Pending] s) (\<lambda>ops s1.
       and_go (resume_each kd now ops s1) (\<lambda>(xs, rs, ps) s2. (Returned (Inr (xs @ rs @ ps)), s2)))"

definition QueryOperation :: "upgrade_kind \<Rightarrow> visit \<Rightarrow> string \<Rightarrow> runtime \<Rightarrow> (runtime_operation option, memory_operations) go_step" where
  "QueryOperation kd visit orchestrationID r s =
     and_go (wrapping (''while listing upgrade '' @ k_name kd @ '' operations'') (in_states kd visit orchestrationID [Pending] s)) (\<lambda>ops s1.
       (Returned (Inr (map_option RuntimeOperation (find (\<lambda>op. RuntimeID (InstanceDetails op) = rt_RuntimeID r) ops))), s1))"

definition QueryOperations :: "upgrade_kind \<Rightarrow> visit \<Rightarrow> string \<Rightarrow> (runtime_operation list, memory_operations) go_step" where
  "QueryOperations kd visit orchestrationID s =
     and_go (wrapping (''while listing upgrade '' @ k_name kd @ '' operations'') (in_states kd visit orchestrationID [Pending] s)) (\<lambda>ops s1.
       (Returned (Inr (map RuntimeOperation ops)), s1))"

definition notify_operation :: "string \<Rightarrow> operation \<Rightarrow> operation" where
  "notify_operation notifyState op = op\<lparr>RuntimeOperation := (RuntimeOperation op)\<lparr>NotificationState := notifyState\<rparr>\<rparr>"

definition NotifyOperation :: "upgrade_kind \<Rightarrow> visit \<Rightarrow> string \<Rightarrow> string \<Rightarrow> string \<Rightarrow> string \<Rightarrow> (unit, memory_operations) go_step" where
  "NotifyOperation kd visit orchestrationID runtimeID oState notifyState s =
     and_go (wrapping (''while listing upgrade '' @ k_name kd @ '' operations'') (in_states kd visit orchestrationID [oState] s)) (\<lambda>ops.
       update_each (k_update kd) (notify_operation notifyState)
         (\<lambda>op. ''while updating pending upgrade '' @ k_name kd @ '' operation '' @ op_ID op @ '' in storage'')
         (filter (\<lambda>op. RuntimeID (InstanceDetails op) = runtimeID) ops))"

section \<open>New operations\<close>

text \<open>The operation for one runtime, as both factories build it.\<close>

definition upgrade_operation ::
  "operation_type \<Rightarrow> orchestration \<Rightarrow> runtime \<Rightarrow> kyma_instance \<Rightarrow> instance_details \<Rightarrow> string \<Rightarrow> string \<Rightarrow> int \<Rightarrow> operation" where
  "upgrade_operation ty o' r i det state k now =
     (fresh_operation k now (rt_InstanceID r) ty state (inst_Parameters i))\<lparr>
       OrchestrationID := orch_ID o', InstanceDetails := det,
       RuntimeOperation := \<lparr>ro_Runtime = r\<lparr>rt_Region := ProviderRegion i\<rparr>, ro_ID = k, ro_DryRun = DryRun (orch_Parameters o'),
         ro_Notification = Notification (orch_Parameters o'), NotificationState = []\<rparr>\<rparr>"

definition cluster_NewOperation ::
  "orchestration \<Rightarrow> runtime \<Rightarrow> kyma_instance \<Rightarrow> string \<Rightarrow> string \<Rightarrow> int \<Rightarrow> (runtime_operation, memory_operations) go_step" where
  "cluster_NewOperation o' r i state k now s =
     (let op = upgrade_operation OperationTypeUpgradeCluster o' r i (inst_Details i) state k now in
      case InsertUpgradeClusterOperation op s of
        (Inl e, s1) \<Rightarrow> (Returned (Inl e), s1)
      | (Inr _, s1) \<Rightarrow> (Returned (Inr (RuntimeOperation op)), s1))"

definition isCustomVersion :: "string \<Rightarrow> bool" where
  "isCustomVersion version = (starts_with ''PR-'' version \<or> starts_with ''main-'' version)"

text \<open>\<open>strconv.Atoi\<close>: a sign, digits, and a value in 64 bits.\<close>

definition decimal :: "string \<Rightarrow> int option" where
  "decimal t =
     (if t \<noteq> [] \<and> list_all (\<lambda>c. 48 \<le> (of_char c :: nat) \<and> (of_char c :: nat) \<le> 57) t
      then Some (foldl (\<lambda>v c. 10 * v + (of_char c - 48)) 0 t) else None)"

definition signed_decimal :: "string \<Rightarrow> int option" where
  "signed_decimal t =
     (if starts_with ''-'' t then map_option uminus (decimal (tl t))
      else if starts_with ''+'' t then decimal (tl t) else decimal t)"

definition Atoi :: "string \<Rightarrow> int option" where
  "Atoi t =
     (case signed_decimal t of
        Some v \<Rightarrow> if - (2 ^ 63) \<le> v \<and> v < 2 ^ 63 then Some v else None
      | None \<Rightarrow> None)"

definition extractMajorVersionNumberFromVersionString :: "string \<Rightarrow> go_error + int" where
  "extractMajorVersionNumberFromVersionString version =
     (case Atoi (takeWhile (\<lambda>c. c \<noteq> CHR ''.'') version) of
        Some v \<Rightarrow> Inr v | None \<Rightarrow> Inl (TextError ''cannot convert major version to int''))"

definition determineMajorVersion :: "string \<Rightarrow> string \<Rightarrow> go_error + int" where
  "determineMajorVersion version defaultVersion =
     extractMajorVersionNumberFromVersionString (if isCustomVersion version then defaultVersion else version)"

text \<open>The version of the request is read through a pointer that may be nil.\<close>

definition kyma_NewOperation ::
  "string \<Rightarrow> orchestration \<Rightarrow> runtime \<Rightarrow> kyma_instance \<Rightarrow> string \<Rightarrow> string \<Rightarrow> int \<Rightarrow> (runtime_operation, memory_operations) go_step" where
  "kyma_NewOperation defaultKymaVersion o' r i state k now s =
     (let op = upgrade_operation OperationTypeUpgradeKyma o' r i (GetInstanceDetails i) state k now;
          insert = (\<lambda>op. case InsertUpgradeKymaOperation op s of
                       (Inl e, s1) \<Rightarrow> (Returned (Inl e), s1)
                     | (Inr _, s1) \<Rightarrow> (Returned (Inr (RuntimeOperation op)), s1))
      in case Kyma (orch_Parameters o') of
           None \<Rightarrow> (Panicked nil_dereference, s)
         | Some version \<Rightarrow>
             if version = [] then insert op
             else (case determineMajorVersion version defaultKymaVersion of
                     Inl e \<Rightarrow> (Returned (Inl (wrap ''while determining Kyma's major version'' e)), s)
                   | Inr major \<Rightarrow>
                       insert (op\<lparr>RuntimeVersion := \<lparr>rv_Version = version, rv_Origin = ''parameters'', rv_MajorVersion = major\<rparr>\<rparr>)))"

section \<open>Operations to be retried\<close>

fun cluster_RetryOperations :: "string list \<Rightarrow> (runtime_operation list, memory_operations) go_step" where
  "cluster_RetryOperations [] s = (Returned (Inr []), s)"
| "cluster_RetryOperations (k # ks) s =
     (case GetUpgradeClusterOperationByID k s of
        Inl e \<Rightarrow> (Returned (Inl (wrap (''while geting (retrying) upgrade cluster operation '' @ k @ '' in storage'') e)), s)
      | Inr op \<Rightarrow> and_go (cluster_RetryOperations ks s) (\<lambda>ros s1. (Returned (Inr (RuntimeOperation op # ros)), s1)))"

text \<open>The error is built but not returned; the operation that is nil is read.\<close>

fun kyma_RetryOperations :: "string list \<Rightarrow> (runtime_operation list, memory_operations) go_step" where
  "kyma_RetryOperations [] s = (Returned (Inr []), s)"
| "kyma_RetryOperations (k # ks) s =
     (case GetUpgradeKymaOperationByID k s of
        Inl e \<Rightarrow> (Panicked nil_dereference, s)
      | Inr op \<Rightarrow> and_go (kyma_RetryOperations ks s) (\<lambda>ros s1. (Returned (Inr (RuntimeOperation op # ros)), s1)))"

section \<open>The interface\<close>

record factory =
  f_kind :: upgrade_kind
  f_NewOperation :: "orchestration \<Rightarrow> runtime \<Rightarrow> kyma_instance \<Rightarrow> string \<Rightarrow> string \<Rightarrow> int \<Rightarrow> (runtime_operation, memory_operations) go_step"
  f_RetryOperations :: "string list \<Rightarrow> (runtime_operation list, memory_operations) go_step"

definition upgradeClusterFactory :: factory where
  "upgradeClusterFactory = \<lparr>f_kind = cluster_kind, f_NewOperation = cluster_NewOperation, f_RetryOperations = cluster_RetryOperations\<rparr>"

definition upgradeKymaFactory :: "string \<Rightarrow> factory" where
  "upgradeKymaFactory defaultKymaVersion =
     \<lparr>f_kind = kyma_kind, f_NewOperation = kyma_NewOperation defaultKymaVersion, f_RetryOperations = kyma_RetryOperations\<rparr>"

section \<open>Storing a list of changes\<close>

context optimistic_lock
begin

text \<open>Changes of distinct, current values all succeed, and together change exactly these values.\<close>

lemma update_each_all:
  assumes "distinct (map key vs)" "\<forall>v\<in>set vs. stored s (key v) = Some v"
    and "\<And>v. key (change v) = key v" "\<And>v. ver (change v) = ver v"
  shows "\<exists>s'. update_each upd change context vs s = (Returned (Inr ()), s') \<and>
           stored s' = (\<lambda>k. if k \<in> key ` set vs then map_option (\<lambda>v. bump (change v)) (stored s k) else stored s k)"
  using assms(1,2)
proof (induction vs arbitrary: s)
  case Nil
  then show ?case by simp
next
  case (Cons v vs)
  have "stored s (key (change v)) = Some v" "ver v = ver (change v)" using Cons.prems by (simp_all add: assms(3,4))
  from update_stored [OF this] obtain s1
    where s1: "upd (change v) s = (Inr (bump (change v)), s1)" "stored s1 = (stored s)(key v \<mapsto> bump (change v))"
    by (auto simp: assms(3))
  have other: "\<forall>w\<in>set vs. stored s1 (key w) = Some w"
  proof
    fix w
    assume "w \<in> set vs"
    moreover from this have "key w \<noteq> key v" using Cons.prems(1) by (force simp: image_iff)
    ultimately show "stored s1 (key w) = Some w" using Cons.prems(2) by (simp add: s1(2))
  qed
  have "distinct (map key vs)" using Cons.prems(1) by simp
  from Cons.IH [OF this other] obtain s' where s': "update_each upd change context vs s1 = (Returned (Inr ()), s')"
    "stored s' = (\<lambda>k. if k \<in> key ` set vs then map_option (\<lambda>v. bump (change v)) (stored s1 k) else stored s1 k)"
    by blast
  have "stored s' = (\<lambda>k. if k \<in> key ` set (v # vs) then map_option (\<lambda>v. bump (change v)) (stored s k) else stored s k)"
    unfolding s'(2) s1(2) using Cons.prems by (intro ext) auto
  with s'(1) s1(1) show ?case by simp
qed

end

definition newer :: "operation \<Rightarrow> operation" where
  "newer op = op\<lparr>Version := Version op + 1\<rparr>"

lemma versioned_map_lock:
  assumes "\<And>op s. upd op s = (case update_versioned kind op (sel s) of Inl e \<Rightarrow> (Inl e, s) | Inr (op', m) \<Rightarrow> (Inr op', put m s))"
    and "\<And>m s. sel (put m s) = m"
  shows "optimistic_lock upd (\<lambda>s. map_of (sel s)) op_ID Version newer"
proof
  fix v old v' :: operation and s s' e
  show "Version (newer v) = Version v + 1" by (simp add: newer_def)
  show "upd v s = (Inr v', s') \<Longrightarrow> v' = newer v \<and> map_of (sel s') = (map_of (sel s))(op_ID v \<mapsto> newer v)"
    by (auto simp: assms(1,2) update_versioned_Inr newer_def split: sum.splits)
  show "upd v s = (Inr v', s') \<Longrightarrow> \<exists>old. map_of (sel s) (op_ID v) = Some old \<and> Version old = Version v"
    by (auto simp: assms(1) update_versioned_Inr split: sum.splits)
  show "upd v s = (Inl e, s') \<Longrightarrow> s' = s"
    by (auto simp: assms(1) split: sum.splits)
  assume "map_of (sel s) (op_ID v) = Some old"
  then show "Version old = Version v \<Longrightarrow> \<exists>v' s'. upd v s = (Inr v', s')"
    and "Version old \<noteq> Version v \<Longrightarrow> \<exists>e. upd v s = (Inl e, s) \<and> IsConflict e"
    by (simp_all add: assms(1) update_versioned_def Let_def IsConflict_def)
qed

interpretation cluster_lock: optimistic_lock UpdateUpgradeClusterOperation "\<lambda>s. map_of (upgradeClusterOperations s)" op_ID Version newer
  by (rule versioned_map_lock [where put = "\<lambda>m s. s\<lparr>upgradeClusterOperations := m\<rparr>" and kind = "''upgradeKyma ''"])
     (simp_all add: UpdateUpgradeClusterOperation_def split: sum.split)

interpretation kyma_lock: optimistic_lock UpdateUpgradeKymaOperation "\<lambda>s. map_of (operations s)" op_ID Version newer
  by (rule versioned_map_lock [where put = "\<lambda>m s. s\<lparr>operations := m\<rparr>" and kind = "''upgradeKyma ''"])
     (simp_all add: UpdateUpgradeKymaOperation_def update_operations_def split: sum.split)

lemma update_each_keeps:
  assumes "\<And>v s. P s \<Longrightarrow> P (snd (upd v s))" "P s"
  shows "P (snd (update_each upd change context vs s))"
  using assms(2)
proof (induction vs arbitrary: s)
  case (Cons v vs)
  obtain r s1 where u: "upd (change v) s = (r, s1)" by fastforce
  with assms(1) [OF Cons.prems, of "change v"] have "P s1" by simp
  with Cons.IH [of s1] u show ?case by (cases r) simp_all
qed simp

section \<open>What the manager may rely on\<close>

text \<open>
  The contract of a kind of upgrades: its operations are locked optimistically, and a list contains, once each, the stored
  operations that \<open>mine\<close> ascribes to the orchestration.
\<close>

locale operation_factory =
  fixes kd :: upgrade_kind
    and stored :: "memory_operations \<Rightarrow> string \<Rightarrow> operation option"
    and mine :: "string \<Rightarrow> operation \<Rightarrow> bool"
  assumes lock: "optimistic_lock (k_update kd) stored op_ID Version newer"
    and listed: "visits_all visit \<Longrightarrow> orchestrationID \<noteq> [] \<Longrightarrow> store_ok s \<Longrightarrow>
          \<exists>ops. in_states kd visit orchestrationID sts s = (Returned (Inr ops), s) \<and> distinct (map op_ID ops) \<and>
            set ops = {op. stored s (op_ID op) = Some op \<and> mine orchestrationID op \<and> matchFilter (State op) sts}"
    and mine_cong: "OrchestrationID op' = OrchestrationID op \<Longrightarrow> op_Type op' = op_Type op \<Longrightarrow> mine orchestrationID op' = mine orchestrationID op"
    and stored_ID: "store_ok s \<Longrightarrow> stored s k = Some op \<Longrightarrow> op_ID op = k"
    and update_ok: "store_ok s \<Longrightarrow> store_ok (snd (k_update kd op s))"
begin

text \<open>Cancelling succeeds, and changes the pending operations and nothing else.\<close>

lemma CancelOperations_done:
  assumes "visits_all visit" "orchestrationID \<noteq> []" "store_ok s"
  shows "\<exists>s'. CancelOperations kd visit orchestrationID s = (Returned (Inr ()), s') \<and> store_ok s' \<and>
           stored s' = (\<lambda>k. map_option (\<lambda>op. if mine orchestrationID op \<and> State op = Pending then newer (cancel_operation op) else op) (stored s k))"
proof -
  from listed [OF assms, of "[Pending]"] obtain ops where ops: "in_states kd visit orchestrationID [Pending] s = (Returned (Inr ops), s)"
    "distinct (map op_ID ops)" "set ops = {op. stored s (op_ID op) = Some op \<and> mine orchestrationID op \<and> State op = Pending}"
    by (auto simp: matchFilter_def)
  have current: "\<forall>op\<in>set ops. stored s (op_ID op) = Some op" by (simp add: ops(3))
  define msg where "msg = (\<lambda>op :: operation. ''while updating upgrade '' @ k_name kd @ '' operation'')"
  have "op_ID (cancel_operation op) = op_ID op" "Version (cancel_operation op) = Version op" for op
    by (simp_all add: cancel_operation_def)
  from optimistic_lock.update_each_all [OF lock ops(2) current this, of msg] obtain s'
    where s': "update_each (k_update kd) cancel_operation msg ops s = (Returned (Inr ()), s')"
      "stored s' = (\<lambda>k. if k \<in> op_ID ` set ops then map_option (\<lambda>op. newer (cancel_operation op)) (stored s k) else stored s k)"
    by blast
  have "store_ok s'"
    using update_each_keeps [of store_ok "k_update kd", OF update_ok assms(3), of cancel_operation msg ops] s'(1) by simp
  moreover have "stored s' k = map_option (\<lambda>op. if mine orchestrationID op \<and> State op = Pending then newer (cancel_operation op) else op) (stored s k)"
    for k
  proof (cases "stored s k")
    case (Some op)
    note id = stored_ID [OF assms(3) Some]
    with current Some have "k \<in> op_ID ` set ops \<longleftrightarrow> op \<in> set ops" by (metis (no_types, lifting) imageE imageI option.inject)
    with id Some have "k \<in> op_ID ` set ops \<longleftrightarrow> mine orchestrationID op \<and> State op = Pending" by (simp add: ops(3))
    with Some show ?thesis by (simp add: s'(2))
  qed (auto simp: s'(2))
  ultimately show ?thesis
    using s'(1) by (auto simp: CancelOperations_def ops(1) msg_def)
qed

lemma QueryOperations_pending:
  assumes "visits_all visit" "orchestrationID \<noteq> []" "store_ok s"
  shows "\<exists>ros. QueryOperations kd visit orchestrationID s = (Returned (Inr ros), s) \<and>
           set ros = RuntimeOperation ` {op. stored s (op_ID op) = Some op \<and> mine orchestrationID op \<and> State op = Pending}"
  using listed [OF assms, of "[Pending]"] by (auto simp: QueryOperations_def matchFilter_def)

text \<open>After cancelling no operation is found.\<close>

lemma nothing_pending:
  assumes "visits_all visit" "orchestrationID \<noteq> []" "store_ok s"
  obtains s' where "CancelOperations kd visit orchestrationID s = (Returned (Inr ()), s')" "store_ok s'"
    "QueryOperations kd visit orchestrationID s' = (Returned (Inr []), s')"
proof -
  from CancelOperations_done [OF assms] obtain s'
    where s': "CancelOperations kd visit orchestrationID s = (Returned (Inr ()), s')" "store_ok s'"
      "stored s' = (\<lambda>k. map_option (\<lambda>op. if mine orchestrationID op \<and> State op = Pending then newer (cancel_operation op) else op) (stored s k))"
    by blast
  have "mine orchestrationID (newer (cancel_operation op)) = mine orchestrationID op" for op
    by (rule mine_cong) (simp_all add: newer_def cancel_operation_def)
  moreover have "State (newer (cancel_operation op)) \<noteq> Pending" for op
    by (simp add: newer_def cancel_operation_def op_states)
  ultimately have "{op. stored s' (op_ID op) = Some op \<and> mine orchestrationID op \<and> State op = Pending} = {}"
    by (auto simp: s'(3) split: if_splits)
  with QueryOperations_pending [OF assms(1,2) s'(2)] s'(1,2) that show thesis by auto
qed

text \<open>Resuming returns every operation that is not finished and makes those that were to be retried pending.\<close>

lemma resume_each_all:
  assumes "store_ok s" "distinct (map op_ID ops)" "\<forall>op\<in>set ops. stored s (op_ID op) = Some op"
  shows "\<exists>xs rs ps s'. resume_each kd now ops s = (Returned (Inr (xs, rs, ps)), s') \<and> store_ok s' \<and>
           xs = map RuntimeOperation (filter (\<lambda>op. State op = InProgress) ops) \<and>
           rs = map RuntimeOperation (filter (\<lambda>op. State op = Retrying) ops) \<and>
           ps = map RuntimeOperation (filter (\<lambda>op. State op = Pending) ops) \<and>
           (\<forall>op\<in>set ops. State op = Retrying \<longrightarrow> map_option State (stored s' (op_ID op)) = Some Pending) \<and>
           (\<forall>k. k \<notin> op_ID ` set ops \<longrightarrow> stored s' k = stored s k)"
  using assms
proof (induction ops arbitrary: s)
  case (Cons op ops)
  show ?case
  proof (cases "State op = Retrying")
    case True
    define op1 where "op1 = op\<lparr>UpdatedAt := now, State := Pending, Description := ''Operation retry triggered'', ProvisionerOperationID := []\<rparr>"
    have op1: "op_ID op1 = op_ID op" "Version op1 = Version op" "RuntimeOperation (newer op1) = RuntimeOperation op" "State (newer op1) = Pending"
      by (simp_all add: op1_def newer_def)
    have "stored s (op_ID op1) = Some op" "Version op = Version op1" using Cons.prems(3) by (simp_all add: op1)
    then obtain s1 where u: "k_update kd op1 s = (Inr (newer op1), s1)" "stored s1 = (stored s)(op_ID op \<mapsto> newer op1)"
      by (rule optimistic_lock.update_stored [OF lock]) (simp add: op1)
    have "store_ok s1" using update_ok [OF Cons.prems(1), of op1] by (simp add: u(1))
    moreover have "\<forall>op'\<in>set ops. stored s1 (op_ID op') = Some op'"
    proof
      fix op'
      assume "op' \<in> set ops"
      moreover from this have "op_ID op' \<noteq> op_ID op" using Cons.prems(2) by (force simp: image_iff)
      ultimately show "stored s1 (op_ID op') = Some op'" using Cons.prems(3) by (simp add: u(2))
    qed
    ultimately obtain xs rs ps s' where ih: "resume_each kd now ops s1 = (Returned (Inr (xs, rs, ps)), s')" "store_ok s'"
      "xs = map RuntimeOperation (filter (\<lambda>op. State op = InProgress) ops)"
      "rs = map RuntimeOperation (filter (\<lambda>op. State op = Retrying) ops)"
      "ps = map RuntimeOperation (filter (\<lambda>op. State op = Pending) ops)"
      "\<forall>op\<in>set ops. State op = Retrying \<longrightarrow> map_option State (stored s' (op_ID op)) = Some Pending"
      "\<forall>k. k \<notin> op_ID ` set ops \<longrightarrow> stored s' k = stored s1 k"
      using Cons.IH [of s1] Cons.prems(2) by auto
    have "stored s' (op_ID op) = Some (newer op1)" using ih(7) Cons.prems(2) by (simp add: u(2))
    moreover have "updateRetryingOperation kd now op s = (Returned (Inr (RuntimeOperation op)), s1)"
      by (simp add: updateRetryingOperation_def op1_def [symmetric] u op1)
    moreover have "Retrying \<noteq> InProgress" "Retrying \<noteq> Pending" by (simp_all add: op_states)
    ultimately show ?thesis using ih True op1 by (simp add: u(2))
  next
    case False
    from Cons.prems obtain xs rs ps s' where ih: "resume_each kd now ops s = (Returned (Inr (xs, rs, ps)), s')" "store_ok s'"
      "xs = map RuntimeOperation (filter (\<lambda>op. State op = InProgress) ops)"
      "rs = map RuntimeOperation (filter (\<lambda>op. State op = Retrying) ops)"
      "ps = map RuntimeOperation (filter (\<lambda>op. State op = Pending) ops)"
      "\<forall>op\<in>set ops. State op = Retrying \<longrightarrow> map_option State (stored s' (op_ID op)) = Some Pending"
      "\<forall>k. k \<notin> op_ID ` set ops \<longrightarrow> stored s' k = stored s k"
      using Cons.IH [of s] by auto
    with False show ?thesis by simp
  qed
qed simp

lemma ResumeOperations_all:
  assumes "visits_all visit" "orchestrationID \<noteq> []" "store_ok s"
  shows "\<exists>ros s'. ResumeOperations kd visit now orchestrationID s = (Returned (Inr ros), s') \<and> store_ok s' \<and>
           set ros = RuntimeOperation ` {op. stored s (op_ID op) = Some op \<and> mine orchestrationID op \<and>
             State op \<in> {InProgress, Retrying, Pending}} \<and>
           (\<forall>k op. stored s k = Some op \<and> mine orchestrationID op \<and> State op = Retrying \<longrightarrow>
              map_option State (stored s' k) = Some Pending)"
proof -
  from listed [OF assms, of "[InProgress, Retrying, Pending]"] obtain ops
    where ops: "in_states kd visit orchestrationID [InProgress, Retrying, Pending] s = (Returned (Inr ops), s)" "distinct (map op_ID ops)"
      "set ops = {op. stored s (op_ID op) = Some op \<and> mine orchestrationID op \<and> State op \<in> {InProgress, Retrying, Pending}}"
    by (auto simp: matchFilter_def)
  have "\<forall>op\<in>set ops. stored s (op_ID op) = Some op" by (simp add: ops(3))
  from resume_each_all [OF assms(3) ops(2) this, of now] obtain xs rs ps s'
    where r: "resume_each kd now ops s = (Returned (Inr (xs, rs, ps)), s')" "store_ok s'"
      "xs = map RuntimeOperation (filter (\<lambda>op. State op = InProgress) ops)"
      "rs = map RuntimeOperation (filter (\<lambda>op. State op = Retrying) ops)"
      "ps = map RuntimeOperation (filter (\<lambda>op. State op = Pending) ops)"
      "\<forall>op\<in>set ops. State op = Retrying \<longrightarrow> map_option State (stored s' (op_ID op)) = Some Pending" by blast
  have "set (xs @ rs @ ps) = RuntimeOperation ` set ops" using ops(3) by (auto simp: r(3-5))
  moreover have "map_option State (stored s' k) = Some Pending"
    if "stored s k = Some op" "mine orchestrationID op" "State op = Retrying" for k op
    using that r(6) stored_ID [OF assms(3) that(1)] by (auto simp: ops(3))
  ultimately show ?thesis using r(1,2) by (auto simp: ResumeOperations_def ops(1) ops(3))
qed

end

definition cluster_of :: "string \<Rightarrow> operation \<Rightarrow> bool" where
  "cluster_of orchestrationID op = (OrchestrationID op = orchestrationID)"

definition kyma_of :: "string \<Rightarrow> operation \<Rightarrow> bool" where
  "kyma_of orchestrationID op = (OrchestrationID op = orchestrationID \<or> op_Type op = OperationTypeUpgradeKyma)"

text \<open>A list that is a selection from a well-formed map.\<close>

lemma selection_distinct:
  assumes "visits_all visit" "map_ok m"
  shows "distinct (map op_ID (oldest_first (filter P (map snd (visit m)))))"
    and "set (oldest_first (filter P (map snd (visit m)))) = {op. map_of m (op_ID op) = Some op \<and> P op}"
proof -
  have m: "mset (visit m) = mset m" using assms(1) by (simp add: visits_all_def)
  have "map op_ID (map snd m) = map fst m" using assms(2) by (auto simp: map_ok_def)
  then have "mset (map op_ID (map snd (visit m))) = mset (map fst m)" using m by (metis mset_map)
  then have d: "distinct (map op_ID (map snd (visit m)))" using assms(2) by (metis map_ok_def mset_eq_imp_distinct_iff)
  then have "distinct (map op_ID (filter P (map snd (visit m))))" by (rule distinct_map_filter)
  then show "distinct (map op_ID (oldest_first (filter P (map snd (visit m)))))"
    by (metis oldest_first_def mset_map mset_sort mset_eq_imp_distinct_iff)
  have "op \<in> snd ` set m \<longleftrightarrow> map_of m (op_ID op) = Some op" for op
    using assms(2) by (force simp: map_ok_def dest: map_of_SomeD)
  then show "set (oldest_first (filter P (map snd (visit m)))) = {op. map_of m (op_ID op) = Some op \<and> P op}"
    using set_visit [OF assms(1), of m] by auto
qed

interpretation cluster_upgrade: operation_factory cluster_kind "\<lambda>s. map_of (upgradeClusterOperations s)" cluster_of
proof (rule operation_factory.intro)
  show "optimistic_lock (k_update cluster_kind) (\<lambda>s. map_of (upgradeClusterOperations s)) op_ID Version newer"
    using cluster_lock.optimistic_lock_axioms by (simp add: cluster_kind_def)
next
  fix visit :: visit and orchestrationID :: string and sts s
  assume v: "visits_all visit" "orchestrationID \<noteq> []" and "store_ok s"
  then have m: "map_ok (upgradeClusterOperations s)" by (simp add: store_ok_def)
  let ?P = "\<lambda>op. (orchestrationID = [] \<or> orchestrationID = OrchestrationID op) \<and> matchFilter (State op) (filter_States (with_states sts))"
  let ?ops = "oldest_first (filter ?P (map snd (visit (upgradeClusterOperations s))))"
  have "in_states cluster_kind visit orchestrationID sts s = (Returned (Inr ?ops), s)"
    by (simp add: in_states_def cluster_kind_def ListUpgradeClusterOperationsByOrchestrationID_def Let_def whole_list filterUpgradeCluster_def)
  with selection_distinct [OF v(1) m, of ?P] v(2) show "\<exists>ops. in_states cluster_kind visit orchestrationID sts s = (Returned (Inr ops), s) \<and>
      distinct (map op_ID ops) \<and>
      set ops = {op. map_of (upgradeClusterOperations s) (op_ID op) = Some op \<and> cluster_of orchestrationID op \<and> matchFilter (State op) sts}"
    by (auto simp: cluster_of_def with_states_def)
next
  fix s op and k :: string
  assume ok: "store_ok s"
  show "map_of (upgradeClusterOperations s) k = Some op \<Longrightarrow> op_ID op = k"
    using ok by (auto simp: store_ok_def dest: map_ok_ID)
  show "store_ok (snd (k_update cluster_kind op s))"
    using perform_ok [OF ok, of "CallUpdateUpgradeCluster op"] by (simp add: cluster_kind_def)
qed (simp add: cluster_of_def)

interpretation kyma_upgrade: operation_factory kyma_kind "\<lambda>s. map_of (operations s)" kyma_of
proof (rule operation_factory.intro)
  show "optimistic_lock (k_update kyma_kind) (\<lambda>s. map_of (operations s)) op_ID Version newer"
    using kyma_lock.optimistic_lock_axioms by (simp add: kyma_kind_def)
next
  fix visit :: visit and orchestrationID :: string and sts s
  assume v: "visits_all visit" "orchestrationID \<noteq> []" and "store_ok s"
  then have m: "map_ok (operations s)" by (simp add: store_ok_def)
  let ?P = "\<lambda>op. \<not> (orchestrationID \<noteq> [] \<and> orchestrationID \<noteq> OrchestrationID op \<and> op_Type op \<noteq> OperationTypeUpgradeKyma) \<and>
    matchFilter (State op) (filter_States (with_states sts))"
  let ?ops = "oldest_first (filter ?P (map snd (visit (operations s))))"
  have "in_states kyma_kind visit orchestrationID sts s = (Returned (Inr ?ops), s)"
    by (simp add: in_states_def kyma_kind_def ListUpgradeKymaOperationsByOrchestrationID_def Let_def whole_list filterUpgradeKyma_def)
  with selection_distinct [OF v(1) m, of ?P] v(2) show "\<exists>ops. in_states kyma_kind visit orchestrationID sts s = (Returned (Inr ops), s) \<and>
      distinct (map op_ID ops) \<and>
      set ops = {op. map_of (operations s) (op_ID op) = Some op \<and> kyma_of orchestrationID op \<and> matchFilter (State op) sts}"
    by (auto simp: kyma_of_def with_states_def)
next
  fix s op and k :: string
  assume ok: "store_ok s"
  show "map_of (operations s) k = Some op \<Longrightarrow> op_ID op = k"
    using ok by (auto simp: store_ok_def dest: map_ok_ID)
  show "store_ok (snd (k_update kyma_kind op s))"
    using ok by (auto simp: kyma_kind_def UpdateUpgradeKymaOperation_def UpdateOperation_def update_operations_def store_ok_def
        intro: map_ok_update split: sum.split)
qed (simp add: kyma_of_def)

section \<open>Properties of the factories\<close>

lemma newer_cancel:
  "newer (cancel_operation op) = op\<lparr>State := Canceled, Description := ''Operation was canceled'', Version := Version op + 1\<rparr>"
  by (simp add: newer_def cancel_operation_def)

lemma cluster_update_keeps:
  "operations (snd (k_update cluster_kind op s)) = operations s"
  "updateOperations (snd (k_update cluster_kind op s)) = updateOperations s"
  by (simp_all add: cluster_kind_def UpdateUpgradeClusterOperation_def split: sum.split prod.split)

text \<open>
  Cancelling the operations of a cluster orchestration succeeds in every
  well-formed storage.  Exactly the pending operations of that orchestration become canceled, one version up; every other
  operation of any kind is as before, and a query for pending operations finds nothing any more.
\<close>

theorem cluster_cancel_is_exact:
  assumes "visits_all visit" and "orchestrationID \<noteq> []" and "store_ok s"
  shows "\<exists>s'. CancelOperations cluster_kind visit orchestrationID s = (Returned (Inr ()), s') \<and> store_ok s' \<and>
    operations s' = operations s \<and> updateOperations s' = updateOperations s \<and>
    (\<forall>k. map_of (upgradeClusterOperations s') k = map_option (\<lambda>op. if OrchestrationID op = orchestrationID \<and> State op = Pending
       then op\<lparr>State := Canceled, Description := ''Operation was canceled'', Version := Version op + 1\<rparr> else op)
       (map_of (upgradeClusterOperations s) k)) \<and>
    QueryOperations cluster_kind visit orchestrationID s' = (Returned (Inr []), s')"
proof -
  from cluster_upgrade.CancelOperations_done [OF assms] obtain s'
    where s': "CancelOperations cluster_kind visit orchestrationID s = (Returned (Inr ()), s')" "store_ok s'"
      "map_of (upgradeClusterOperations s') = (\<lambda>k. map_option (\<lambda>op. if cluster_of orchestrationID op \<and> State op = Pending
         then newer (cancel_operation op) else op) (map_of (upgradeClusterOperations s) k))" by blast
  from cluster_upgrade.nothing_pending [OF assms] s'(1)
  have q: "QueryOperations cluster_kind visit orchestrationID s' = (Returned (Inr []), s')" by auto
  from cluster_upgrade.listed [OF assms, of "[Pending]"] obtain ops
    where "in_states cluster_kind visit orchestrationID [Pending] s = (Returned (Inr ops), s)" by blast
  then have "s' = snd (update_each (k_update cluster_kind) cancel_operation (\<lambda>op. ''while updating upgrade cluster operation'') ops s)"
    using s'(1) by (simp add: CancelOperations_def cluster_kind_def)
  moreover have "operations (snd (update_each (k_update cluster_kind) f c ops s)) = operations s \<and>
      updateOperations (snd (update_each (k_update cluster_kind) f c ops s)) = updateOperations s" for f c
    by (rule update_each_keeps) (simp_all add: cluster_update_keeps)
  ultimately have keep: "operations s' = operations s" "updateOperations s' = updateOperations s" by simp_all
  have "map_of (upgradeClusterOperations s') k = map_option (\<lambda>op. if OrchestrationID op = orchestrationID \<and> State op = Pending
      then op\<lparr>State := Canceled, Description := ''Operation was canceled'', Version := Version op + 1\<rparr> else op)
      (map_of (upgradeClusterOperations s) k)" for k
    unfolding s'(3) cluster_of_def newer_cancel ..
  with s'(1,2) keep q show ?thesis by blast
qed

definition upgrade_example :: "operation_type \<Rightarrow> string \<Rightarrow> string \<Rightarrow> string \<Rightarrow> operation" where
  "upgrade_example ty k orchestrationID state = some_operation\<lparr>op_ID := k, op_Type := ty, OrchestrationID := orchestrationID, State := state\<rparr>"

definition two_clusters :: memory_operations where
  "two_clusters = \<lparr>operations = [], upgradeClusterOperations =
     [(''a'', upgrade_example OperationTypeUpgradeCluster ''a'' ''orch1'' Pending),
      (''b'', upgrade_example OperationTypeUpgradeCluster ''b'' ''orch2'' Pending)], updateOperations = []\<rparr>"

lemma upgrade_example_simps [simp]:
  "op_ID (upgrade_example ty k o' st) = k" "OrchestrationID (upgrade_example ty k o' st) = o'" "State (upgrade_example ty k o' st) = st"
  "op_Type (upgrade_example ty k o' st) = ty" "Version (upgrade_example ty k o' st) = 0"
  by (simp_all add: upgrade_example_def)

lemma visits_all_same [simp]: "visits_all (\<lambda>m. m)"
  by (simp add: visits_all_def)

theorem cluster_cancel_is_exact_witness:
  "\<exists>s'. CancelOperations cluster_kind (\<lambda>m. m) ''orch1'' two_clusters = (Returned (Inr ()), s') \<and>
     map_option State (map_of (upgradeClusterOperations s') ''a'') = Some Canceled \<and>
     map_option State (map_of (upgradeClusterOperations s') ''b'') = Some Pending"
proof -
  have "store_ok two_clusters" by (simp add: two_clusters_def store_ok_def map_ok_def)
  from cluster_cancel_is_exact [OF visits_all_same _ this, of "''orch1''"] show ?thesis by (auto simp: two_clusters_def)
qed

text \<open>
  The list of Kyma upgrades of an orchestration contains the upgrades of all orchestrations, since
  the driver leaves an operation out only if both its orchestration and its type differ.  Cancelling one orchestration
  cancels the pending upgrades of every other.
\<close>

theorem kyma_cancel_reaches_further:
  assumes "visits_all visit" and "orchestrationID \<noteq> []" and "store_ok s"
    and "map_of (operations s) k = Some op" and "op_Type op = OperationTypeUpgradeKyma" and "State op = Pending"
    and "OrchestrationID op \<noteq> orchestrationID"
  shows "\<exists>s'. CancelOperations kyma_kind visit orchestrationID s = (Returned (Inr ()), s') \<and>
           map_of (operations s') k = Some (op\<lparr>State := Canceled, Description := ''Operation was canceled'', Version := Version op + 1\<rparr>)"
proof -
  from kyma_upgrade.CancelOperations_done [OF assms(1-3)] obtain s'
    where s': "CancelOperations kyma_kind visit orchestrationID s = (Returned (Inr ()), s')"
      "map_of (operations s') = (\<lambda>k. map_option (\<lambda>op. if kyma_of orchestrationID op \<and> State op = Pending
         then newer (cancel_operation op) else op) (map_of (operations s) k))" by blast
  from assms(4-6) have "map_of (operations s') k = Some (newer (cancel_operation op))" by (simp add: s'(2) kyma_of_def)
  with s'(1) show ?thesis by (auto simp: newer_def cancel_operation_def)
qed

definition two_kymas :: memory_operations where
  "two_kymas = \<lparr>operations = [(''a'', upgrade_example OperationTypeUpgradeKyma ''a'' ''orch1'' Pending),
      (''b'', upgrade_example OperationTypeUpgradeKyma ''b'' ''orch2'' Pending)], upgradeClusterOperations = [], updateOperations = []\<rparr>"

theorem kyma_cancel_reaches_further_witness:
  "\<exists>s'. CancelOperations kyma_kind (\<lambda>m. m) ''orch1'' two_kymas = (Returned (Inr ()), s') \<and>
     map_option State (map_of (operations s') ''b'') = Some Canceled"
proof -
  have "store_ok two_kymas" by (simp add: two_kymas_def store_ok_def map_ok_def)
  from kyma_cancel_reaches_further [OF visits_all_same _ this, of "''orch1''" "''b''" "upgrade_example OperationTypeUpgradeKyma ''b'' ''orch2'' Pending"]
  show ?thesis by (auto simp: two_kymas_def)
qed

text \<open>An operation that is to be retried and is not in the storage: an error for clusters, a panic for Kyma.\<close>

lemma missing_retry:
  assumes "k \<in> set ks"
  shows "map_of (upgradeClusterOperations s) k = None \<Longrightarrow> \<exists>e. cluster_RetryOperations ks s = (Returned (Inl e), s)"
    and "map_of (operations s) k = None \<Longrightarrow> kyma_RetryOperations ks s = (Panicked nil_dereference, s)"
  using assms
  by (induction ks)
     (auto simp: GetUpgradeClusterOperationByID_def GetUpgradeKymaOperationByID_def get_typed_def split: option.splits)

lemma retried_operations:
  "\<forall>k\<in>set ks. map_of (upgradeClusterOperations s) k \<noteq> None \<Longrightarrow>
   cluster_RetryOperations ks s = (Returned (Inr (map (\<lambda>k. RuntimeOperation (the (map_of (upgradeClusterOperations s) k))) ks)), s)"
  by (induction ks) (auto simp: GetUpgradeClusterOperationByID_def get_typed_def)

text \<open>A new operation is pending, belongs to the orchestration and to the runtime, and nothing else changes.\<close>

lemma cluster_NewOperation_done:
  assumes "map_of (upgradeClusterOperations s) k = None"
  shows "cluster_NewOperation o' r i state k now s =
     (let op = upgrade_operation OperationTypeUpgradeCluster o' r i (inst_Details i) state k now in
      (Returned (Inr (RuntimeOperation op)), s\<lparr>upgradeClusterOperations := assoc_set k op (upgradeClusterOperations s)\<rparr>))"
  using assms by (simp add: cluster_NewOperation_def InsertUpgradeClusterOperation_def insert_new_def upgrade_operation_def Let_def)

lemma upgrade_operation_simps [simp]:
  "op_ID (upgrade_operation ty o' r i det st k now) = k" "State (upgrade_operation ty o' r i det st k now) = st"
  "OrchestrationID (upgrade_operation ty o' r i det st k now) = orch_ID o'"
  "InstanceID (upgrade_operation ty o' r i det st k now) = rt_InstanceID r"
  "op_Type (upgrade_operation ty o' r i det st k now) = ty"
  "InstanceDetails (upgrade_operation ty o' r i det st k now) = det"
  by (simp_all add: upgrade_operation_def)

end
