(* ===== verification/Parallel_Strategy.thy ===== *)
theory Parallel_Strategy
  imports Upgrade_Factory Work_Queue
begin

text \<open>
  The parallel strategy of orchestrations (\<^verbatim>\<open>src/common/orchestration/strategies/parallel.go\<close>) with
  \<open>Reschedule\<close> of the two upgrade managers (\<^verbatim>\<open>src/internal/process/upgrade_cluster/manager.go\<close>,
  \<^verbatim>\<open>upgrade_kyma/manager.go\<close>).

  An execution has two queues of the package \<open>workqueue\<close> of client-go, one for scheduling and one for processing.  The package
  is not part of the sources: a queue is the list of the calls made on it, and what \<open>Get\<close> hands to a worker is an
  argument.  The state of everything around an orchestration is the record \<open>orch_world\<close>; one call sees one time.
\<close>

section \<open>State\<close>

datatype queue_event =
    QueueAdd runtime_operation
  | QueueAddAfter runtime_operation int
  | QueueDone runtime_operation
  | QueueShutDown

record execution =
  dq :: "queue_event list"
  pq :: "queue_event list"
  scheduleNum :: int
  workers :: nat

record tenant =
  tenant_InstanceID :: string
  StartDate :: "go_time option"
  EndDate :: "go_time option"

datatype notification_event =
    CreateEvent string string "tenant list"
  | CancelEvent string

record orch_world =
  w_orchs :: orch_map
  w_ops :: memory_operations
  w_insts :: inst_map
  w_now :: go_time
  w_ids :: nat
  w_execs :: "(string \<times> execution) list"
  w_events :: "notification_event list"
  w_kymaQueue :: "string list"
  w_clusterQueue :: "string list"

record op_executor =
  x_Execute :: "string \<Rightarrow> orch_world \<Rightarrow> process_result \<times> orch_world"
  x_Reschedule :: "string \<Rightarrow> go_time \<Rightarrow> go_time \<Rightarrow> memory_operations \<Rightarrow> (go_error + unit) \<times> memory_operations"

definition ShuttingDown :: "queue_event list \<Rightarrow> bool" where
  "ShuttingDown q = (QueueShutDown \<in> set q)"

section \<open>Rescheduling\<close>

definition set_window :: "go_time \<Rightarrow> go_time \<Rightarrow> runtime_operation \<Rightarrow> runtime_operation" where
  "set_window b e ro = ro\<lparr>ro_Runtime := (ro_Runtime ro)\<lparr>MaintenanceWindowBegin := b, MaintenanceWindowEnd := e\<rparr>\<rparr>"

definition store_window ::
  "(go_error + operation) \<Rightarrow> (operation \<Rightarrow> memory_operations \<Rightarrow> (go_error + operation) \<times> memory_operations) \<Rightarrow>
   go_time \<Rightarrow> go_time \<Rightarrow> memory_operations \<Rightarrow> (go_error + unit) \<times> memory_operations" where
  "store_window found upd b e s =
     (case found of
        Inl err \<Rightarrow> (Inl err, s)
      | Inr op \<Rightarrow> (case upd (op\<lparr>RuntimeOperation := set_window b e (RuntimeOperation op)\<rparr>) s of
                     (Inl err, s1) \<Rightarrow> (Inl err, s1) | (Inr _, s1) \<Rightarrow> (Inr (), s1)))"

definition cluster_Reschedule :: "string \<Rightarrow> go_time \<Rightarrow> go_time \<Rightarrow> memory_operations \<Rightarrow> (go_error + unit) \<times> memory_operations" where
  "cluster_Reschedule k b e s = store_window (GetUpgradeClusterOperationByID k s) UpdateUpgradeClusterOperation b e s"

definition kyma_Reschedule :: "string \<Rightarrow> go_time \<Rightarrow> go_time \<Rightarrow> memory_operations \<Rightarrow> (go_error + unit) \<times> memory_operations" where
  "kyma_Reschedule k b e s = store_window (GetUpgradeKymaOperationByID k s) UpdateUpgradeKymaOperation b e s"

text \<open>The window after the one that is over: a fixed delay, or the same time on the next available day.\<close>

definition shift_window :: "int \<Rightarrow> runtime_operation \<Rightarrow> runtime_operation" where
  "shift_window rescheduleDelay ro =
     (let r = ro_Runtime ro; b = MaintenanceWindowBegin r; e = MaintenanceWindowEnd r in
      if 0 < rescheduleDelay
      then set_window (b\<lparr>instant := instant b + rescheduleDelay\<rparr>) (e\<lparr>instant := instant e + rescheduleDelay\<rparr>) ro
      else (let diff = NextAvailableDayDiff (Weekday b) (ConvertSliceOfDaysToMap (MaintenanceDays r)) in
            set_window (AddDate diff b) (AddDate diff e) ro))"

definition window_over :: "go_time \<Rightarrow> runtime_operation \<Rightarrow> bool" where
  "window_over now ro =
     (let e = MaintenanceWindowEnd (ro_Runtime ro) in \<not> IsZero e \<and> Before e now)"

text \<open>The time to wait, the operation with its window and the storage.\<close>

definition updateMaintenanceWindow ::
  "op_executor \<Rightarrow> int \<Rightarrow> strategy_spec \<Rightarrow> go_time \<Rightarrow> runtime_operation \<Rightarrow> memory_operations \<Rightarrow>
   (go_error + int) \<times> runtime_operation \<times> memory_operations" where
  "updateMaintenanceWindow X rescheduleDelay spec now ro s =
     (let wait = (\<lambda>ro. instant (MaintenanceWindowBegin (ro_Runtime ro)) - instant now) in
      if MaintenanceWindow spec
      then (if window_over now ro
            then (let ro1 = shift_window rescheduleDelay ro in
                  case x_Reschedule X (ro_ID ro) (MaintenanceWindowBegin (ro_Runtime ro1)) (MaintenanceWindowEnd (ro_Runtime ro1)) s of
                    (Inl e, s1) \<Rightarrow>
                      (Inl (wrap ''while rescheduling operation by executor (still continuing with new schedule)'' e), ro1, s1)
                  | (Inr _, s1) \<Rightarrow> (Inr (wait ro1), ro1, s1))
            else (Inr (wait ro), ro, s))
      else (let s1 = snd (x_Reschedule X (ro_ID ro) (ScheduleTime spec) (ScheduleTime spec) s) in
            (Inr (instant (ScheduleTime spec) - instant now), ro, s1)))"

section \<open>Executions\<close>

definition change_exec :: "string \<Rightarrow> (execution \<Rightarrow> execution) \<Rightarrow> orch_world \<Rightarrow> orch_world" where
  "change_exec k f w =
     (case map_of (w_execs w) k of
        Some x \<Rightarrow> w\<lparr>w_execs := assoc_set k (f x) (w_execs w)\<rparr> | None \<Rightarrow> w)"

definition schedule :: "queue_event \<Rightarrow> execution \<Rightarrow> execution" where
  "schedule ev x = x\<lparr>dq := dq x @ [ev], scheduleNum := scheduleNum x + 1\<rparr>"

text \<open>
  The queue is asked whether it is shutting down before it is checked that there is one; an unknown execution has no queue,
  and calling a method of nil panics.
\<close>

fun strategy_Insert ::
  "op_executor \<Rightarrow> int \<Rightarrow> string \<Rightarrow> runtime_operation list \<Rightarrow> strategy_spec \<Rightarrow> (unit, orch_world) go_step" where
  "strategy_Insert X delay execID [] spec w = (Returned (Inr ()), w)"
| "strategy_Insert X delay execID (ro # ros) spec w =
     (let (r, ro1, s1) = updateMaintenanceWindow X delay spec (w_now w) ro (w_ops w);
          w1 = w\<lparr>w_ops := s1\<rparr>
      in case map_of (w_execs w) execID of
           None \<Rightarrow> (Panicked nil_dereference, w1)
         | Some x \<Rightarrow>
             (case r of
                Inl e \<Rightarrow> strategy_Insert X delay execID ros spec
                  (change_exec execID (schedule (QueueAddAfter ro1 day_ns)) w1)
              | Inr duration \<Rightarrow>
                  if ShuttingDown (dq x)
                  then (Returned (Inl (TextError (''the execution ID '' @ execID @ '' is shutdown''))), w1)
                  else strategy_Insert X delay execID ros spec
                    (change_exec execID (schedule (QueueAddAfter ro1 duration)) w1)))"

definition new_execution :: execution where
  "new_execution = \<lparr>dq = [], pq = [], scheduleNum = 0, workers = 0\<rparr>"

definition strategy_Execute ::
  "(nat \<Rightarrow> string) \<Rightarrow> op_executor \<Rightarrow> int \<Rightarrow> runtime_operation list \<Rightarrow> strategy_spec \<Rightarrow> (string, orch_world) go_step" where
  "strategy_Execute uuid X delay ros spec w =
     (if ros = [] then (Returned (Inr []), w)
      else (let execID = uuid (w_ids w);
                w1 = w\<lparr>w_ids := w_ids w + 1, w_execs := assoc_set execID new_execution (w_execs w)\<rparr>
            in and_go (wrapping ''while inserting operations to queue'' (strategy_Insert X delay execID ros spec w1)) (\<lambda>_ w2.
                 (Returned (Inr execID), change_exec execID (\<lambda>x. x\<lparr>workers := nat (Workers spec)\<rparr>) w2))))"

definition strategy_Cancel :: "string \<Rightarrow> orch_world \<Rightarrow> orch_world" where
  "strategy_Cancel execID w =
     (if execID = [] then w
      else change_exec execID (\<lambda>x. x\<lparr>dq := dq x @ [QueueShutDown], pq := pq x @ [QueueShutDown]\<rparr>) w)"

section \<open>Workers\<close>

datatype process_end = ProcessedOne | QueueClosed | StillWaiting

text \<open>
  \<open>processOperation\<close> with what \<open>pq.Get\<close> hands out, none being the end of the queue: the calls on the processing queue, those on
  the scheduling queue, and how it ends.  A panic is recovered from inside the loop, which then goes on
  to wait for the next operation.
\<close>

fun processOperation ::
  "op_executor \<Rightarrow> int \<Rightarrow> runtime_operation option list \<Rightarrow> orch_world \<Rightarrow>
   queue_event list \<times> queue_event list \<times> process_end \<times> orch_world" where
  "processOperation X factor [] w = ([], [], StillWaiting, w)"
| "processOperation X factor (None # gets) w = ([], [], QueueClosed, w)"
| "processOperation X factor (Some ro # gets) w =
     (case x_Execute X (ro_ID ro) w of
        (ProcessHangs, w1) \<Rightarrow> ([], [], StillWaiting, w1)
      | (ProcessPanics v, w1) \<Rightarrow>
          (let (ps, ds, e, w2) = processOperation X factor gets w1 in (QueueDone ro # ps, ds, e, w2))
      | (ProcessReturns when err, w1) \<Rightarrow>
          if err = None \<and> when \<noteq> 0
          then (let (ps, ds, e, w2) = processOperation X factor gets w1 in
                ((if factor = 0 then [QueueDone ro] else [QueueAddAfter ro (go_quot when factor), QueueDone ro]) @ ps, ds, e, w2))
          else ([QueueDone ro], [QueueDone ro], ProcessedOne, w1))"

text \<open>One turn of \<open>scheduleOperationsLoop\<close> with the operation that \<open>dq.Get\<close> handed out, and whether the worker goes on.\<close>

definition schedule_turn ::
  "op_executor \<Rightarrow> int \<Rightarrow> int \<Rightarrow> strategy_spec \<Rightarrow> string \<Rightarrow> runtime_operation \<Rightarrow> runtime_operation option list \<Rightarrow> orch_world \<Rightarrow>
   bool \<times> orch_world" where
  "schedule_turn X delay factor spec execID ro gets w =
     (let (r, ro1, s1) = updateMaintenanceWindow X delay spec (w_now w) ro (w_ops w);
          w1 = w\<lparr>w_ops := s1\<rparr>
      in case r of
           Inl e \<Rightarrow> (True, change_exec execID (\<lambda>x. x\<lparr>dq := dq x @ [QueueAddAfter ro1 day_ns, QueueDone ro1]\<rparr>) w1)
         | Inr duration \<Rightarrow>
             if duration \<le> 0
             then (let w2 = change_exec execID (\<lambda>x. x\<lparr>pq := pq x @ [QueueAdd ro1]\<rparr>) w1;
                       (ps, ds, e, w3) = processOperation X factor gets w2;
                       w4 = change_exec execID (\<lambda>x. x\<lparr>pq := pq x @ ps, dq := dq x @ ds\<rparr>) w3
                   in if e = StillWaiting then (False, w4)
                      else (True, change_exec execID (\<lambda>x. x\<lparr>scheduleNum := scheduleNum x - 1\<rparr>) w4))
             else (True, change_exec execID (\<lambda>x. x\<lparr>dq := dq x @ [QueueAddAfter ro1 duration, QueueDone ro1]\<rparr>) w1))"

text \<open>The check at the head of the loop.\<close>

definition shut_when_empty :: "string \<Rightarrow> orch_world \<Rightarrow> orch_world" where
  "shut_when_empty execID w =
     change_exec execID (\<lambda>x. if scheduleNum x \<le> 0 then x\<lparr>dq := dq x @ [QueueShutDown], pq := pq x @ [QueueShutDown]\<rparr> else x) w"

section \<open>Properties\<close>

lemma change_exec_simps [simp]:
  "w_ops (change_exec k f w) = w_ops w" "w_now (change_exec k f w) = w_now w" "w_orchs (change_exec k f w) = w_orchs w"
  "w_insts (change_exec k f w) = w_insts w" "w_events (change_exec k f w) = w_events w" "w_ids (change_exec k f w) = w_ids w"
  "w_kymaQueue (change_exec k f w) = w_kymaQueue w" "w_clusterQueue (change_exec k f w) = w_clusterQueue w"
  by (simp_all add: change_exec_def split: option.split)

lemma map_of_change_exec [simp]:
  "map_of (w_execs (change_exec k f w)) j = (if j = k then map_option f (map_of (w_execs w) k) else map_of (w_execs w) j)"
  by (auto simp: change_exec_def split: option.splits)

lemma set_window_simps [simp]:
  "MaintenanceWindowBegin (ro_Runtime (set_window b e ro)) = b" "MaintenanceWindowEnd (ro_Runtime (set_window b e ro)) = e"
  "ro_ID (set_window b e ro) = ro_ID ro" "MaintenanceDays (ro_Runtime (set_window b e ro)) = MaintenanceDays (ro_Runtime ro)"
  by (simp_all add: set_window_def)

lemma updateMaintenanceWindow_ID: "updateMaintenanceWindow X d spec now ro s = (r, ro1, s1) \<Longrightarrow> ro_ID ro1 = ro_ID ro"
  by (auto simp: updateMaintenanceWindow_def shift_window_def Let_def split: if_splits prod.splits sum.splits)

text \<open>The operations that an execution was given to schedule.\<close>

definition added :: "queue_event list \<Rightarrow> string list" where
  "added q = concat (map (\<lambda>ev. case ev of QueueAddAfter ro d \<Rightarrow> [ro_ID ro] | _ \<Rightarrow> []) q)"

lemma added_simps [simp]:
  "added [] = []" "added (q @ q') = added q @ added q'" "added [QueueAddAfter ro d] = [ro_ID ro]"
  by (simp_all add: added_def)

lemma strategy_Insert_frame:
  "strategy_Insert X d execID ros spec w = (r, w') \<Longrightarrow>
   w_orchs w' = w_orchs w \<and> w_insts w' = w_insts w \<and> w_now w' = w_now w \<and> w_events w' = w_events w \<and> w_ids w' = w_ids w"
proof (induction ros arbitrary: w r w')
  case (Cons ro ros)
  obtain q ro1 s1 where u: "updateMaintenanceWindow X d spec (w_now w) ro (w_ops w) = (q, ro1, s1)" by (metis prod_cases3)
  define ev where "ev = QueueAddAfter ro1 (case q of Inl e \<Rightarrow> day_ns | Inr duration \<Rightarrow> duration)"
  let ?w = "change_exec execID (schedule ev) (w\<lparr>w_ops := s1\<rparr>)"
  from Cons.prems u have "w' = w\<lparr>w_ops := s1\<rparr> \<or> strategy_Insert X d execID ros spec ?w = (r, w')"
    by (cases q) (auto simp: ev_def Let_def split: option.splits if_splits)
  then show ?case
  proof
    assume "strategy_Insert X d execID ros spec ?w = (r, w')"
    from Cons.IH [OF this] show ?thesis by simp
  qed simp
qed simp

lemma strategy_Insert_known:
  assumes "map_of (w_execs w) execID = Some x" "\<not> ShuttingDown (dq x)"
  shows "\<exists>w' x'. strategy_Insert X d execID ros spec w = (Returned (Inr ()), w') \<and> map_of (w_execs w') execID = Some x' \<and>
           added (dq x') = added (dq x) @ map ro_ID ros \<and> scheduleNum x' = scheduleNum x + int (length ros) \<and>
           \<not> ShuttingDown (dq x') \<and> workers x' = workers x"
  using assms
proof (induction ros arbitrary: w x)
  case (Cons ro ros)
  obtain q ro1 s1 where u: "updateMaintenanceWindow X d spec (w_now w) ro (w_ops w) = (q, ro1, s1)" by (metis prod_cases3)
  note id = updateMaintenanceWindow_ID [OF u]
  define ev where "ev = QueueAddAfter ro1 (case q of Inl e \<Rightarrow> day_ns | Inr duration \<Rightarrow> duration)"
  let ?w = "change_exec execID (schedule ev) (w\<lparr>w_ops := s1\<rparr>)"
  have x1: "map_of (w_execs ?w) execID = Some (schedule ev x)" using Cons.prems(1) by simp
  have "\<not> ShuttingDown (dq (schedule ev x))" using Cons.prems(2) by (simp add: schedule_def ev_def ShuttingDown_def)
  from Cons.IH [OF x1 this] obtain w' x' where ih: "strategy_Insert X d execID ros spec ?w = (Returned (Inr ()), w')"
    "map_of (w_execs w') execID = Some x'" "added (dq x') = added (dq (schedule ev x)) @ map ro_ID ros"
    "scheduleNum x' = scheduleNum (schedule ev x) + int (length ros)" "\<not> ShuttingDown (dq x')" "workers x' = workers (schedule ev x)" by blast
  have "strategy_Insert X d execID (ro # ros) spec w = strategy_Insert X d execID ros spec ?w"
    using Cons.prems u by (cases q) (simp_all add: ev_def)
  with ih show ?case by (auto simp: schedule_def ev_def id)
qed simp

text \<open>
  (C15) The strategy schedules every operation it is given exactly once, in the order given, whether or
  not its window could be stored, counts all of them, and starts the requested number of workers.  With no operation
  nothing is started and the id of the execution is empty.
\<close>

theorem every_operation_is_scheduled_once:
  "if ros = [] then strategy_Execute uuid X delay ros spec w = (Returned (Inr []), w)
   else \<exists>w' x. strategy_Execute uuid X delay ros spec w = (Returned (Inr (uuid (w_ids w))), w') \<and>
          map_of (w_execs w') (uuid (w_ids w)) = Some x \<and> added (dq x) = map ro_ID ros \<and>
          scheduleNum x = int (length ros) \<and> workers x = nat (Workers spec) \<and> \<not> ShuttingDown (dq x)"
proof (cases "ros = []")
  case False
  let ?w = "w\<lparr>w_ids := w_ids w + 1, w_execs := assoc_set (uuid (w_ids w)) new_execution (w_execs w)\<rparr>"
  have "map_of (w_execs ?w) (uuid (w_ids w)) = Some new_execution" "\<not> ShuttingDown (dq new_execution)"
    by (simp_all add: new_execution_def ShuttingDown_def)
  from strategy_Insert_known [OF this, of X delay ros spec] obtain w' x'
    where "strategy_Insert X delay (uuid (w_ids w)) ros spec ?w = (Returned (Inr ()), w')"
      "map_of (w_execs w') (uuid (w_ids w)) = Some x'" "added (dq x') = map ro_ID ros" "scheduleNum x' = int (length ros)"
      "\<not> ShuttingDown (dq x')"
    by (auto simp: new_execution_def)
  with False show ?thesis by (auto simp: strategy_Execute_def Let_def)
qed (simp add: strategy_Execute_def)

text \<open>
  Inserting operations into an execution that does not exist panics, although the code means
  to return an error: it asks the missing queue whether it is shutting down first.  The empty id, which an execution without
  operations has, is such an execution as long as no generated id is empty.
\<close>

theorem unknown_execution_panics:
  assumes "map_of (w_execs w) execID = None" and "ros \<noteq> []"
  shows "fst (strategy_Insert X delay execID ros spec w) = Panicked nil_dereference"
  using assms by (cases ros) (simp_all split: prod.split)

definition reschedule_nothing :: op_executor where
  "reschedule_nothing = \<lparr>x_Execute = (\<lambda>k w. (ProcessReturns 0 None, w)), x_Reschedule = (\<lambda>k b e s. (Inr (), s))\<rparr>"

definition some_spec :: strategy_spec where
  "some_spec = \<lparr>strategy_Type = ParallelStrategy, Schedule = ''now'', ScheduleTime = \<lparr>instant = 0, zone = 0\<rparr>, MaintenanceWindow = True, Workers = 1\<rparr>"

definition some_world :: orch_world where
  "some_world = \<lparr>w_orchs = [], w_ops = NewOperation, w_insts = [], w_now = \<lparr>instant = 5, zone = 0\<rparr>, w_ids = 0, w_execs = [], w_events = [],
     w_kymaQueue = [], w_clusterQueue = []\<rparr>"

definition some_ro :: runtime_operation where
  "some_ro = no_runtime_operation\<lparr>ro_Runtime := some_runtime, ro_ID := ''op''\<rparr>"

theorem unknown_execution_panics_witness:
  "fst (strategy_Insert reschedule_nothing 0 [] [some_ro] some_spec some_world) = Panicked nil_dereference"
  by (rule unknown_execution_panics) (simp_all add: some_world_def)

text \<open>
  (C24) With maintenance windows an operation whose window is not over is scheduled for the
  beginning of the window; one whose window is over gets a later window on one of its days,
  which is stored; and one that is handed to a worker before its time is put back for the rest of it instead of being
  processed.
\<close>

theorem windows_are_respected:
  assumes "MaintenanceWindow spec"
    and "updateMaintenanceWindow X 0 spec now ro s = (Inr duration, ro1, s1)"
  shows "(if window_over now ro
          then instant (MaintenanceWindowBegin (ro_Runtime ro)) < instant (MaintenanceWindowBegin (ro_Runtime ro1)) \<and>
            s1 = snd (x_Reschedule X (ro_ID ro) (MaintenanceWindowBegin (ro_Runtime ro1)) (MaintenanceWindowEnd (ro_Runtime ro1)) s) \<and>
            (ConvertSliceOfDaysToMap (MaintenanceDays (ro_Runtime ro)) \<noteq> [] \<longrightarrow>
             Weekday (MaintenanceWindowBegin (ro_Runtime ro1)) \<in> set (ConvertSliceOfDaysToMap (MaintenanceDays (ro_Runtime ro))))
          else ro1 = ro \<and> s1 = s) \<and>
    duration = instant (MaintenanceWindowBegin (ro_Runtime ro1)) - instant now \<and>
    (w_now w = now \<and> w_ops w = s \<and> instant now < instant (MaintenanceWindowBegin (ro_Runtime ro1)) \<longrightarrow>
     schedule_turn X 0 factor spec execID ro gets w =
       (True, change_exec execID (\<lambda>x. x\<lparr>dq := dq x @ [QueueAddAfter ro1 duration, QueueDone ro1]\<rparr>) (w\<lparr>w_ops := s1\<rparr>)))"
proof -
  let ?b = "MaintenanceWindowBegin (ro_Runtime ro)" and ?av = "ConvertSliceOfDaysToMap (MaintenanceDays (ro_Runtime ro))"
  have d: "duration = instant (MaintenanceWindowBegin (ro_Runtime ro1)) - instant now"
    using assms by (auto simp: updateMaintenanceWindow_def Let_def split: if_splits sum.splits prod.splits)
  have over: "ro1 = shift_window 0 ro \<and>
      s1 = snd (x_Reschedule X (ro_ID ro) (MaintenanceWindowBegin (ro_Runtime ro1)) (MaintenanceWindowEnd (ro_Runtime ro1)) s)"
    if "window_over now ro"
    using assms that by (auto simp: updateMaintenanceWindow_def Let_def split: sum.splits prod.splits)
  have b1: "MaintenanceWindowBegin (ro_Runtime (shift_window 0 ro)) = AddDate (NextAvailableDayDiff (Weekday ?b) ?av) ?b"
    by (simp add: shift_window_def Let_def)
  have day: "Weekday (AddDate (NextAvailableDayDiff (Weekday ?b) ?av) ?b) \<in> set ?av" if av: "?av \<noteq> []"
  proof -
    obtain d where "d \<in> set ?av" using av by (cases ?av) auto
    from NextAvailableDayDiff_least(3) [OF this available_less [OF this], of "Weekday ?b"]
    show ?thesis by (simp add: Weekday_def weekday_of_add)
  qed
  have "\<not> window_over now ro \<Longrightarrow> ro1 = ro \<and> s1 = s"
    using assms by (auto simp: updateMaintenanceWindow_def Let_def)
  moreover have "schedule_turn X 0 factor spec execID ro gets w =
      (True, change_exec execID (\<lambda>x. x\<lparr>dq := dq x @ [QueueAddAfter ro1 duration, QueueDone ro1]\<rparr>) (w\<lparr>w_ops := s1\<rparr>))"
    if "w_now w = now" "w_ops w = s" "instant now < instant (MaintenanceWindowBegin (ro_Runtime ro1))"
    using that d by (simp add: schedule_turn_def Let_def assms(2))
  ultimately show ?thesis using over b1 day d by simp
qed

theorem windows_are_respected_witness:
  "schedule_turn reschedule_nothing 0 1 some_spec ''e''
     (some_ro\<lparr>ro_Runtime := some_runtime\<lparr>MaintenanceWindowBegin := \<lparr>instant = 7, zone = 0\<rparr>\<rparr>\<rparr>) [] some_world =
     (True, some_world)"
proof -
  let ?ro = "some_ro\<lparr>ro_Runtime := some_runtime\<lparr>MaintenanceWindowBegin := \<lparr>instant = 7, zone = 0\<rparr>\<rparr>\<rparr>"
  have m: "MaintenanceWindow some_spec" by (simp add: some_spec_def)
  have u: "updateMaintenanceWindow reschedule_nothing 0 some_spec \<lparr>instant = 5, zone = 0\<rparr> ?ro NewOperation = (Inr 2, ?ro, NewOperation)"
    by code_simp
  from windows_are_respected [OF m u, of some_world 1 "''e''" "[]"] show ?thesis
    by (simp add: some_world_def change_exec_def)
qed

text \<open>
  Shifting happens once: a window that lies more than a week back, as the one of an operation that carries the bare time of
  the day of its cluster, is still in the past afterwards, and the operation is processed at once.
\<close>

lemma stale_window_is_processed_at_once:
  assumes "MaintenanceWindow spec" "updateMaintenanceWindow X 0 spec now ro s = (Inr duration, ro1, s1)"
    and "instant (MaintenanceWindowBegin (ro_Runtime ro)) + 7 * day_ns \<le> instant now"
  shows "duration \<le> 0"
proof -
  let ?b = "MaintenanceWindowBegin (ro_Runtime ro)" and ?av = "ConvertSliceOfDaysToMap (MaintenanceDays (ro_Runtime ro))"
  have "NextAvailableDayDiff c av \<le> 7" for c av
    by (simp add: NextAvailableDayDiff_def Let_def)
  then have k: "int (NextAvailableDayDiff (Weekday ?b) ?av) * day_ns \<le> 7 * day_ns" by (intro mult_right_mono) (simp_all add: less_imp_le)
  have d: "duration = instant ?b + (if window_over now ro then int (NextAvailableDayDiff (Weekday ?b) ?av) * day_ns else 0) - instant now"
    using assms(1,2) by (auto simp: updateMaintenanceWindow_def shift_window_def Let_def split: if_splits sum.splits prod.splits)
  show ?thesis
  proof (cases "window_over now ro")
    case True
    have "duration = instant ?b + int (NextAvailableDayDiff (Weekday ?b) ?av) * day_ns - instant now" unfolding d using True by simp
    with k assms(3) show ?thesis by linarith
  next
    case False
    have "duration = instant ?b - instant now" unfolding d using False by simp
    with assms(3) day_ns_pos show ?thesis by linarith
  qed
qed

section \<open>Accounting\<close>

text \<open>An operation leaves \<open>processOperation\<close> for good at most once, and exactly once when the loop ends with it.\<close>

lemma processOperation_done:
  "processOperation X factor gets w = (ps, ds, e, w') \<Longrightarrow>
   length ds = (if e = ProcessedOne then 1 else 0) \<and> (\<forall>ev\<in>set ds. \<exists>ro. Some ro \<in> set gets \<and> ev = QueueDone ro)"
proof (induction gets arbitrary: w ps ds e w')
  case (Cons g gets)
  show ?case
  proof (cases g)
    case (Some ro)
    obtain r w1 where x: "x_Execute X (ro_ID ro) w = (r, w1)" by fastforce
    obtain ps' ds' e' w2 where p: "processOperation X factor gets w1 = (ps', ds', e', w2)" by (metis prod_cases4)
    from Cons.prems x p Some have "ds = ds' \<and> e = e' \<or> ds = [] \<and> e = StillWaiting \<or> ds = [QueueDone ro] \<and> e = ProcessedOne"
      by (cases r) (auto split: if_splits)
    then show ?thesis using Cons.IH [OF p] Some by auto
  qed (use Cons.prems in auto)
qed simp

text \<open>
  An execution of an operation that panics is not counted as finished: the worker stays in \<open>processOperation\<close>, and when
  no other operation is in process it waits there.
\<close>

lemma panic_blocks_the_worker:
  assumes "x_Execute X (ro_ID ro) w = (ProcessPanics v, w1)"
  shows "processOperation X factor [Some ro] w = ([QueueDone ro], [], StillWaiting, w1)"
  using assms by simp

end
