(* ===== verification/Orchestration_Manager.thy ===== *)
theory Orchestration_Manager
  imports Parallel_Strategy
begin

text \<open>
  The orchestration manager (\<^verbatim>\<open>src/internal/orchestration/manager/manager.go\<close>): it waits for the start of an
  orchestration, creates the operations, has the strategy execute them and waits until they are finished or the
  orchestration is canceled.

  Parameters, collected in \<open>orch_env\<close>: the factory of the kind of upgrade, the executor, the resolver of runtimes, generated ids,
  the config map with the maintenance policy and its decoding, the notification service (an error, or none), and what
  everybody else does to the state between two polls, the clock included.  Both loops poll until they are told to stop; they have
  fuel, and running out of it is the result \<open>None\<close>.
\<close>

record orch_env =
  e_factory :: factory
  e_executor :: op_executor
  e_resolve :: "target_spec \<Rightarrow> orch_world \<Rightarrow> go_error + runtime list"
  e_visit :: visit
  e_uuid :: "nat \<Rightarrow> string"
  e_lib :: window_lib
  e_config :: "(string \<times> string) list option"
  e_unmarshal :: "string \<Rightarrow> maintenance_policy \<times> bool"
  e_bundle :: "notification_event \<Rightarrow> orch_world \<Rightarrow> go_error option"
  pollingInterval :: int
  e_kymaVersion :: string
  e_kubernetesVersion :: string
  e_meanwhile :: "orch_world \<Rightarrow> orch_world"

definition on_ops :: "('a, memory_operations) go_step \<Rightarrow> ('a, orch_world) go_step" where
  "on_ops f w = (let (r, s) = f (w_ops w) in (r, w\<lparr>w_ops := s\<rparr>))"

abbreviation kind_of :: "orch_env \<Rightarrow> upgrade_kind" where
  "kind_of E \<equiv> f_kind (e_factory E)"

abbreviation strategy_of :: "orchestration \<Rightarrow> strategy_spec" where
  "strategy_of o' \<equiv> Strategy (orch_Parameters o')"

abbreviation retry_of :: "orchestration \<Rightarrow> retry_parameters" where
  "retry_of o' \<equiv> param_Retry (orch_Parameters o')"

section \<open>The maintenance policy\<close>

text \<open>The policy is used even when there was an error; decoding may have filled in a part of it.\<close>

definition getMaintenancePolicy :: "orch_env \<Rightarrow> maintenance_policy \<times> go_error option" where
  "getMaintenancePolicy E =
     (case e_config E of
        None \<Rightarrow> (no_policy, Some (TextError ''orchestration config is absent''))
      | Some dat \<Rightarrow>
          (let text = (case map_of dat ''maintenancePolicy'' of Some t \<Rightarrow> t | None \<Rightarrow> []) in
           if text = [] then (no_policy, Some (TextError ''maintenance policy is absent from orchestration config''))
           else (case e_unmarshal E text of
                   (p, True) \<Rightarrow> (p, None)
                 | (p, False) \<Rightarrow> (p, Some (TextError ''failed to unmarshal the policy config'')))))"

section \<open>Creating operations\<close>

definition extractRuntimes :: "orchestration \<Rightarrow> runtime list \<Rightarrow> runtime_operation list \<Rightarrow> runtime list" where
  "extractRuntimes o' runtimes result =
     (if orch_State o' = Pending then runtimes
      else concat (map (\<lambda>retryOp. case find (\<lambda>r. rt_InstanceID (ro_Runtime retryOp) = rt_InstanceID r) runtimes of
                                    Some r \<Rightarrow> [r] | None \<Rightarrow> []) result))"

text \<open>The window that the operation for a runtime gets.\<close>

definition planned_runtime :: "orch_env \<Rightarrow> orchestration \<Rightarrow> maintenance_policy \<Rightarrow> bool \<Rightarrow> go_time \<Rightarrow> runtime \<Rightarrow> runtime" where
  "planned_runtime E o' policy updateWindow now r =
     (let windows = MaintenanceWindow (strategy_of o');
          at_once = r\<lparr>MaintenanceWindowBegin := zero_time, MaintenanceWindowEnd := zero_time, MaintenanceDays := []\<rparr>
      in if updateWindow
         then (if orch_State o' = Pending \<and> windows \<or> orch_State o' = Retrying \<and> Immediate (retry_of o') \<and> windows
               then (let (b, e, days) = resolveMaintenanceWindowTime (e_lib E) r policy (ScheduleTime (strategy_of o')) now in
                     r\<lparr>MaintenanceWindowBegin := b, MaintenanceWindowEnd := e, MaintenanceDays := days\<rparr>)
               else at_once)
         else if Immediate (retry_of o') then at_once else r)"

definition go_quoted :: "string \<Rightarrow> string" where
  "go_quoted t = [CHR 0x22] @ t @ [CHR 0x22]"

definition create_operation ::
  "orch_env \<Rightarrow> orchestration \<Rightarrow> maintenance_policy \<Rightarrow> bool \<Rightarrow> runtime \<Rightarrow> (runtime_operation, orch_world) go_step" where
  "create_operation E o' policy updateWindow r w =
     (let r1 = planned_runtime E o' policy updateWindow (w_now w) r in
      case inst_GetByID (e_visit E) (rt_InstanceID r1) (w_insts w) (w_ops w) of
        Inl e \<Rightarrow> (Returned (Inl (wrap (''while getting instance '' @ rt_InstanceID r1) e)), w)
      | Inr i \<Rightarrow>
          wrapping (''while creating new operation for runtime id '' @ go_quoted (rt_RuntimeID r1))
            (on_ops (f_NewOperation (e_factory E) o' r1 i Pending (e_uuid E (w_ids w)) (instant (w_now w)))
               (w\<lparr>w_ids := w_ids w + 1\<rparr>)))"

fun new_operations ::
  "orch_env \<Rightarrow> orchestration \<Rightarrow> maintenance_policy \<Rightarrow> bool \<Rightarrow> runtime list \<Rightarrow> (runtime_operation list, orch_world) go_step" where
  "new_operations E o' policy updateWindow [] w = (Returned (Inr []), w)"
| "new_operations E o' policy updateWindow (r # rs) w =
     and_go
       (if orch_State o' = Pending
        then and_go (wrapping (''while quering operation for runtime id '' @ go_quoted (rt_RuntimeID r))
                       (on_ops (QueryOperation (kind_of E) (e_visit E) (orch_ID o') r) w)) (\<lambda>found w1.
               case found of
                 Some ro \<Rightarrow> (Returned (Inr ro), w1)
               | None \<Rightarrow> create_operation E o' policy updateWindow r w1)
        else create_operation E o' policy updateWindow r w)
       (\<lambda>ro w1. and_go (new_operations E o' policy updateWindow rs w1) (\<lambda>ros w2. (Returned (Inr (ro # ros)), w2)))"

text \<open>The operations and the runtimes that were selected.\<close>

definition NewOperationForPendingRetrying ::
  "orch_env \<Rightarrow> orchestration \<Rightarrow> maintenance_policy \<Rightarrow> runtime_operation list \<Rightarrow> bool \<Rightarrow>
   (runtime_operation list \<times> runtime list, orch_world) go_step" where
  "NewOperationForPendingRetrying E o' policy retryRT updateWindow w =
     (case e_resolve E (Targets (orch_Parameters o')) w of
        Inl e \<Rightarrow> (Returned (Inl (wrap ''while resolving targets'' e)), w)
      | Inr runtimes \<Rightarrow>
          (let selected = extractRuntimes o' runtimes retryRT in
           and_go (new_operations E o' policy updateWindow selected w) (\<lambda>ros w1. (Returned (Inr (ros, selected)), w1))))"

fun cancel_each :: "orch_env \<Rightarrow> string \<Rightarrow> string list \<Rightarrow> (unit, orch_world) go_step" where
  "cancel_each E orchestrationID [] w = (Returned (Inr ()), w)"
| "cancel_each E orchestrationID (k # ks) w =
     and_go (wrapping (''while resolving canceled operations for runtime id '' @ go_quoted k)
               (on_ops (CancelOperation (kind_of E) (e_visit E) orchestrationID k) w))
       (\<lambda>_. cancel_each E orchestrationID ks)"

definition cancelOperationForNonExistent :: "orch_env \<Rightarrow> orchestration \<Rightarrow> runtime_operation list \<Rightarrow> (unit, orch_world) go_step" where
  "cancelOperationForNonExistent E o' resolved w =
     and_go (wrapping (''while quering operations for orchestration '' @ orch_ID o')
               (on_ops (QueryOperations (kind_of E) (e_visit E) (orch_ID o')) w)) (\<lambda>stored w1.
       (let resolvedIDs = map (\<lambda>ro. rt_RuntimeID (ro_Runtime ro)) resolved;
            storedIDs = map (\<lambda>ro. rt_RuntimeID (ro_Runtime ro)) stored
        in cancel_each E (orch_ID o') (filter (\<lambda>k. k \<notin> set resolvedIDs) storedIDs) w1))"

text \<open>\<open>strings.Replace\<close> puts the new text between the pieces around the old one.\<close>

definition updateRetryingDescription :: "string \<Rightarrow> string \<Rightarrow> string" where
  "updateRetryingDescription desc newDesc =
     (if str_includes desc ''retrying'' then join newDesc (split desc ''retrying'') else desc @ '', '' @ newDesc)"

definition clear_retry :: "nat \<Rightarrow> orchestration \<Rightarrow> orchestration" where
  "clear_retry count' o' =
     o'\<lparr>orch_Description := updateRetryingDescription (orch_Description o') (''retried '' @ show_nat count' @ '' operations''),
        orch_Parameters := (orch_Parameters o')\<lparr>param_Retry := \<lparr>RetryOperations = [], Immediate = False\<rparr>\<rparr>\<rparr>"

text \<open>The operations to execute, the orchestration as it was changed, and the number of runtimes.\<close>

definition resolveOperations ::
  "orch_env \<Rightarrow> orchestration \<Rightarrow> maintenance_policy \<Rightarrow> (runtime_operation list \<times> orchestration \<times> nat, orch_world) go_step" where
  "resolveOperations E o' policy w =
     (if orch_State o' = Pending
      then and_go (wrapping ''while creating new operation for pending'' (NewOperationForPendingRetrying E o' policy [] True w)) (\<lambda>(ros, rts) w1.
           and_go (wrapping ''while canceling non existent operation for pending'' (cancelOperationForNonExistent E o' ros w1)) (\<lambda>_ w2.
             (Returned (Inr (ros, o'\<lparr>orch_Description := ''Scheduled '' @ show_nat (length rts) @ '' operations''\<rparr>, length rts)), w2)))
      else if orch_State o' = Retrying
      then (if RetryOperations (retry_of o') = []
            then (Returned (Inl (wrap ''while retrying operations'' (TextError ''o.Parameters.RetryOperation.RetryOperations is empty''))), w)
            else and_go (wrapping ''while resolving retrying orchestration'' (on_ops (f_RetryOperations (e_factory E) (RetryOperations (retry_of o'))) w)) (\<lambda>retried w1.
                 and_go (wrapping ''while NewOperationForPendingRetrying'' (NewOperationForPendingRetrying E o' policy retried True w1)) (\<lambda>(ros, rts) w2.
                   (Returned (Inr (ros, clear_retry (length rts) o', length rts)), w2))))
      else and_go (wrapping ''while resuming operation''
                     (on_ops (ResumeOperations (kind_of E) (e_visit E) (instant (w_now w)) (orch_ID o')) w)) (\<lambda>ros w1.
             (Returned (Inr (ros, o', 0)), w1)))"

section \<open>Notifications\<close>

definition NotificationCreated :: string where "NotificationCreated = ''created''"
definition NotificationCancelled :: string where "NotificationCancelled = ''cancelled''"

definition event_type :: "orchestration \<Rightarrow> string" where
  "event_type o' =
     (if orch_Type o' = UpgradeKymaOrchestration then ''1'' else if orch_Type o' = UpgradeClusterOrchestration then ''0'' else [])"

definition send :: "orch_env \<Rightarrow> notification_event \<Rightarrow> (unit, orch_world) go_step" where
  "send E ev w =
     (case e_bundle E ev w of
        None \<Rightarrow> (Returned (Inr ()), w\<lparr>w_events := w_events w @ [ev]\<rparr>) | Some e \<Rightarrow> (Returned (Inl e), w))"

definition sendNotificationCreate :: "orch_env \<Rightarrow> orchestration \<Rightarrow> runtime_operation list \<Rightarrow> (unit, orch_world) go_step" where
  "sendNotificationCreate E o' ros w =
     send E (CreateEvent (orch_ID o') (event_type o') (map (\<lambda>ro. \<lparr>tenant_InstanceID = rt_InstanceID (ro_Runtime ro),
         StartDate = Some (if MaintenanceWindow (strategy_of o') then MaintenanceWindowBegin (ro_Runtime ro) else w_now w),
         EndDate = (if MaintenanceWindow (strategy_of o') then Some (MaintenanceWindowEnd (ro_Runtime ro)) else None)\<rparr>) ros)) w"

text \<open>The request that cancels an event names the orchestration only.\<close>

definition sendNotificationCancel :: "orch_env \<Rightarrow> orchestration \<Rightarrow> (unit, orch_world) go_step" where
  "sendNotificationCancel E o' w = send E (CancelEvent (orch_ID o')) w"

text \<open>An error that is not temporary is passed over.\<close>

definition only_temporary :: "(go_error + unit) go_call \<times> 'w \<Rightarrow> (go_error + unit) go_call \<times> 'w" where
  "only_temporary m =
     (case m of (Returned (Inl e), w) \<Rightarrow> if IsTemporaryError e then m else (Returned (Inr ()), w) | _ \<Rightarrow> m)"

fun notify_each :: "orch_env \<Rightarrow> string \<Rightarrow> string \<Rightarrow> string \<Rightarrow> runtime_operation list \<Rightarrow> (unit, orch_world) go_step" where
  "notify_each E orchestrationID oState notifyState [] w = (Returned (Inr ()), w)"
| "notify_each E orchestrationID oState notifyState (ro # ros) w =
     and_go (wrapping (''while updaring operation for runtime id '' @ go_quoted (rt_RuntimeID (ro_Runtime ro)))
               (on_ops (NotifyOperation (kind_of E) (e_visit E) orchestrationID (rt_RuntimeID (ro_Runtime ro)) oState notifyState) w))
       (\<lambda>_. notify_each E orchestrationID oState notifyState ros)"

section \<open>Waiting for the start\<close>

text \<open>
  One poll: the operations, the orchestration, the number of runtimes and the operations to be notified, which are
  kept from poll to poll.
\<close>

definition start_poll ::
  "orch_env \<Rightarrow> maintenance_policy \<Rightarrow> orchestration \<Rightarrow> runtime_operation list \<Rightarrow>
   (runtime_operation list \<times> orchestration \<times> nat \<times> runtime_operation list, orch_world) go_step" where
  "start_poll E policy o' unnotified w =
     and_go (resolveOperations E o' policy w) (\<lambda>(ros, o1, count') w1.
       if Notification (orch_Parameters o1) \<and> orch_State o1 = Pending
       then (let un = unnotified @ filter (\<lambda>ro. NotificationState ro = []) ros in
             and_go (only_temporary (sendNotificationCreate E o1 un w1)) (\<lambda>_ w2.
             and_go (notify_each E (orch_ID o1) Pending NotificationCreated un w2) (\<lambda>_ w3.
               (Returned (Inr (ros, o1, count', un)), w3))))
       else (Returned (Inr (ros, o1, count', unnotified)), w1))"

fun wait_start ::
  "orch_env \<Rightarrow> nat \<Rightarrow> maintenance_policy \<Rightarrow> orchestration \<Rightarrow> runtime_operation list \<Rightarrow> orch_world \<Rightarrow>
   ((go_error + runtime_operation list \<times> nat) go_call \<times> orchestration) option \<times> orch_world" where
  "wait_start E 0 policy o' unnotified w = (None, w)"
| "wait_start E (Suc fuel) policy o' unnotified w =
     (case start_poll E policy o' unnotified w of
        (Panicked v, w1) \<Rightarrow> (Some (Panicked v, o'), w1)
      | (Returned (Inl e), w1) \<Rightarrow> (Some (Returned (Inl (wrap ''while waiting for orchestration start'' e)), o'), w1)
      | (Returned (Inr (ros, o1, count', un)), w1) \<Rightarrow>
          if Before (ScheduleTime (strategy_of o1)) (w_now w1)
          then (Some (Returned (Inr (ros, count')), o1), w1)
          else wait_start E fuel policy o1 un (e_meanwhile E w1))"

definition waitForStart ::
  "orch_env \<Rightarrow> nat \<Rightarrow> orchestration \<Rightarrow> orch_world \<Rightarrow>
   ((go_error + runtime_operation list \<times> nat) go_call \<times> orchestration) option \<times> orch_world" where
  "waitForStart E fuel o' w = wait_start E fuel (fst (getMaintenancePolicy E)) o' [] w"

section \<open>The end of an orchestration\<close>

definition notify_cancellation :: "orch_env \<Rightarrow> orchestration \<Rightarrow> (unit, orch_world) go_step" where
  "notify_cancellation E o' w =
     and_go (wrapping (''while quering operations for orchestration '' @ orch_ID o')
               (on_ops (QueryOperations (kind_of E) (e_visit E) (orch_ID o')) w)) (\<lambda>ros w1.
       and_go (only_temporary (sendNotificationCancel E o' w1)) (\<lambda>_.
         notify_each E (orch_ID o') Canceling NotificationCancelled ros))"

definition resolveOrchestration ::
  "orch_env \<Rightarrow> orchestration \<Rightarrow> string list \<Rightarrow> (string \<Rightarrow> nat) \<Rightarrow> (orchestration, orch_world) go_step" where
  "resolveOrchestration E o' execIDs stats w =
     (if orch_State o' = Canceling
      then and_go (wrapping ''while resolving canceled operations'' (on_ops (CancelOperations (kind_of E) (e_visit E) (orch_ID o')) w)) (\<lambda>_ w1.
           (let w2 = fold strategy_Cancel execIDs w1 in
            and_go (if Notification (orch_Parameters o') then notify_cancellation E o' w2 else (Returned (Inr ()), w2)) (\<lambda>_ w3.
              (Returned (Inr (o'\<lparr>orch_State := Canceled\<rparr>)), w3))))
      else (Returned (Inr (o'\<lparr>orch_State := (if 0 < stats Failed then Failed else Succeeded)\<rparr>)), w))"

section \<open>Waiting for the end\<close>

text \<open>An error that is only logged: the call counts as having returned \<open>d\<close>.\<close>

definition or_else :: "'a \<Rightarrow> (go_error + 'a) go_call \<times> 'w \<Rightarrow> (go_error + 'a) go_call \<times> 'w" where
  "or_else d m = (case m of (Returned (Inl e), w) \<Rightarrow> (Returned (Inr d), w) | _ \<Rightarrow> m)"

text \<open>The operations go into the execution, or into a new one if that fails: the id of the execution and the ids of all.\<close>

definition schedule_retried ::
  "orch_env \<Rightarrow> orchestration \<Rightarrow> string \<Rightarrow> string list \<Rightarrow> runtime_operation list \<Rightarrow> (string \<times> string list, orch_world) go_step" where
  "schedule_retried E o' execID execIDs ros w =
     (case strategy_Insert (e_executor E) 0 execID ros (strategy_of o') w of
        (Panicked v, w1) \<Rightarrow> (Panicked v, w1)
      | (Returned (Inr _), w1) \<Rightarrow> (Returned (Inr (execID, execIDs)), w1)
      | (Returned (Inl e), w1) \<Rightarrow>
          and_go (wrapping ''while executing upgrade strategy during retrying''
                    (strategy_Execute (e_uuid E) (e_executor E) 0 ros (strategy_of o') w1)) (\<lambda>k w2.
            (Returned (Inr (k, execIDs @ [k])), w2)))"

text \<open>The orchestration, and whether the poll goes on.\<close>

definition store_retried :: "orchestration \<Rightarrow> (orchestration \<times> bool, orch_world) go_step" where
  "store_retried o' w =
     (let o1 = clear_retry (length (RetryOperations (retry_of o'))) o' in
      case orch_Update o1 (w_orchs w) of
        (Inl e, m) \<Rightarrow> (Returned (Inr (o1, False)), w\<lparr>w_orchs := m\<rparr>)
      | (Inr _, m) \<Rightarrow> (Returned (Inr (o1, True)), w\<lparr>w_orchs := m\<rparr>))"

text \<open>
  The part of a poll that handles a retry: the id of the execution, the ids of all executions, the
  orchestration, and whether the poll goes on.
\<close>

definition handle_retry ::
  "orch_env \<Rightarrow> orchestration \<Rightarrow> string \<Rightarrow> string list \<Rightarrow> (string \<times> string list \<times> orchestration \<times> bool, orch_world) go_step" where
  "handle_retry E o' execID execIDs w =
     and_go (or_else [] (on_ops (f_RetryOperations (e_factory E) (RetryOperations (retry_of o'))) w)) (\<lambda>retried w1.
     and_go (or_else ([], []) (NewOperationForPendingRetrying E o' no_policy retried False w1)) (\<lambda>(ros, rts) w2.
     and_go (schedule_retried E o' execID execIDs ros w2) (\<lambda>(k, ks) w3.
     and_go (store_retried o' w3) (\<lambda>(o1, go_on) w4. (Returned (Inr (k, ks, o1, go_on)), w4)))))"

definition not_finished :: "(string \<Rightarrow> nat) \<Rightarrow> nat" where
  "not_finished stats = stats InProgress + stats Pending + stats Retrying"

text \<open>
  One poll: the execution, all executions, whether the orchestration was ever seen canceled, and, when the wait is over, the
  orchestration with the counters.  The counters are read before a retry is handled, and decide after it.
\<close>

definition completion_poll ::
  "orch_env \<Rightarrow> string \<Rightarrow> string \<Rightarrow> string list \<Rightarrow> bool \<Rightarrow>
   (string \<times> string list \<times> bool \<times> (orchestration \<times> (string \<Rightarrow> nat)) option, orch_world) go_step" where
  "completion_poll E orchestrationID execID execIDs canceled w =
     (case orch_GetByID orchestrationID (w_orchs w) of
        Inl e \<Rightarrow> if IsNotFound e then (Returned (Inl e), w) else (Returned (Inr (execID, execIDs, canceled, None)), w)
      | Inr o' \<Rightarrow>
          (let canceled1 = (canceled \<or> orch_State o' = Canceling);
               stats = GetOperationStatsForOrchestration (e_visit E) (orch_ID o') (w_ops w);
               finished = (if canceled1 then stats InProgress = 0 else not_finished stats = 0)
           in and_go (if RetryOperations (retry_of o') \<noteq> [] then handle_retry E o' execID execIDs w
                      else (Returned (Inr (execID, execIDs, o', True)), w)) (\<lambda>(k, ks, o1, go_on) w1.
                (Returned (Inr (k, ks, canceled1, if go_on \<and> finished then Some (o1, stats) else None)), w1))))"

fun wait_completion ::
  "orch_env \<Rightarrow> nat \<Rightarrow> string \<Rightarrow> string \<Rightarrow> string list \<Rightarrow> bool \<Rightarrow> orch_world \<Rightarrow>
   (go_error + orchestration) go_call option \<times> orch_world" where
  "wait_completion E 0 orchestrationID execID execIDs canceled w = (None, w)"
| "wait_completion E (Suc fuel) orchestrationID execID execIDs canceled w =
     (case completion_poll E orchestrationID execID execIDs canceled w of
        (Panicked v, w1) \<Rightarrow> (Some (Panicked v), w1)
      | (Returned (Inl e), w1) \<Rightarrow> (Some (Returned (Inl (wrap ''while waiting for scheduled operations to finish'' e))), w1)
      | (Returned (Inr (k, ks, c, Some (o1, stats))), w1) \<Rightarrow> (let (r, w2) = resolveOrchestration E o1 ks stats w1 in (Some r, w2))
      | (Returned (Inr (k, ks, c, None)), w1) \<Rightarrow> wait_completion E fuel orchestrationID k ks c (e_meanwhile E w1))"

definition waitForCompletion ::
  "orch_env \<Rightarrow> nat \<Rightarrow> orchestration \<Rightarrow> string \<Rightarrow> orch_world \<Rightarrow> (go_error + orchestration) go_call option \<times> orch_world" where
  "waitForCompletion E fuel o' execID w = wait_completion E fuel (orch_ID o') execID [execID] False w"

section \<open>Execution\<close>

definition updateOrchestration :: "orchestration \<Rightarrow> string \<Rightarrow> string \<Rightarrow> orch_world \<Rightarrow> int \<times> orchestration \<times> orch_world" where
  "updateOrchestration o' state description w =
     (let o1 = o'\<lparr>orch_UpdatedAt := instant (w_now w), orch_State := state, orch_Description := description\<rparr> in
      case orch_Update o1 (w_orchs w) of
        (Inl e, m) \<Rightarrow> (if IsNotFound e then 0 else 60 * 1000000000, o1, w\<lparr>w_orchs := m\<rparr>)
      | (Inr _, m) \<Rightarrow> (0, o1, w\<lparr>w_orchs := m\<rparr>))"

definition failOrchestration :: "orchestration \<Rightarrow> go_error \<Rightarrow> orch_world \<Rightarrow> int \<times> orchestration \<times> orch_world" where
  "failOrchestration o' err w = updateOrchestration o' Failed (error_message err) w"

definition with_versions :: "orch_env \<Rightarrow> orchestration \<Rightarrow> orchestration" where
  "with_versions E o' =
     (let p = orch_Parameters o';
          p1 = (if Kyma p = None \<or> Kyma p = Some [] then p\<lparr>Kyma := Some (e_kymaVersion E)\<rparr> else p);
          p2 = (if (case Kubernetes p1 of None \<Rightarrow> True | Some k \<Rightarrow> KubernetesVersion k = [])
                then p1\<lparr>Kubernetes := Some \<lparr>KubernetesVersion = e_kubernetesVersion E, MachineImage = [], MachineImageVersion = []\<rparr>\<rparr> else p1)
      in o'\<lparr>orch_Parameters := p2\<rparr>)"

definition started :: "orch_env \<Rightarrow> nat \<Rightarrow> orchestration \<Rightarrow> orchestration" where
  "started E runtimeNums o' =
     (let o1 = with_versions E o' in
      if orch_State o1 = Pending \<or> orch_State o1 = Retrying
      then o1\<lparr>orch_State := (if runtimeNums \<noteq> 0 then InProgress else Succeeded)\<rparr> else o1)"

text \<open>From the first update of the orchestration on; the result is the time until the next try and an error.\<close>

definition run_strategy ::
  "orch_env \<Rightarrow> nat \<Rightarrow> orchestration \<Rightarrow> runtime_operation list \<Rightarrow> orch_world \<Rightarrow> (int \<times> go_error option) go_call option \<times> orch_world" where
  "run_strategy E fuel o' ros w =
     (case orch_Update o' (w_orchs w) of
        (Inl e, m) \<Rightarrow> (Some (Returned (pollingInterval E, None)), w\<lparr>w_orchs := m\<rparr>)
      | (Inr _, m) \<Rightarrow>
          (let w1 = w\<lparr>w_orchs := m\<rparr> in
           if orch_IsFinished o' then (Some (Returned (0, None)), w1)
           else if strategy_Type (strategy_of o') \<noteq> ParallelStrategy then (Some (Panicked nil_dereference), w1)
           else (case strategy_Execute (e_uuid E) (e_executor E) 0 ros (strategy_of o') w1 of
                   (Panicked v, w2) \<Rightarrow> (Some (Panicked v), w2)
                 | (Returned (Inl e), w2) \<Rightarrow> (Some (Returned (0, Some (wrap ''failed to execute strategy'' e))), w2)
                 | (Returned (Inr execID), w2) \<Rightarrow>
                     (case waitForCompletion E fuel o' execID w2 of
                        (None, w3) \<Rightarrow> (None, w3)
                      | (Some (Panicked v), w3) \<Rightarrow> (Some (Panicked v), w3)
                      | (Some (Returned (Inl e)), w3) \<Rightarrow>
                          if IsTemporaryError e then (Some (Returned (5 * 1000000000, None)), w3)
                          else (Some (Returned (0, Some (wrap ''while waiting for orchestration to finish'' e))), w3)
                      | (Some (Returned (Inr o2)), w3) \<Rightarrow>
                          (case orch_Update (o2\<lparr>orch_UpdatedAt := instant (w_now w3)\<rparr>) (w_orchs w3) of
                             (Inl e, m) \<Rightarrow> (Some (Returned (pollingInterval E, None)), w3\<lparr>w_orchs := m\<rparr>)
                           | (Inr _, m) \<Rightarrow> (Some (Returned (0, None)), w3\<lparr>w_orchs := m\<rparr>))))))"

definition orch_Execute ::
  "orch_env \<Rightarrow> nat \<Rightarrow> string \<Rightarrow> orch_world \<Rightarrow> (int \<times> go_error option) go_call option \<times> orch_world" where
  "orch_Execute E fuel orchestrationID w =
     (case orch_GetByID orchestrationID (w_orchs w) of
        Inl e \<Rightarrow> (Some (Returned (60 * 1000000000, None)), w)
      | Inr o' \<Rightarrow>
          (case waitForStart E fuel o' w of
             (None, w1) \<Rightarrow> (None, w1)
           | (Some (Panicked v, o1), w1) \<Rightarrow> (Some (Panicked v), w1)
           | (Some (Returned (Inl e), o1), w1) \<Rightarrow>
               (let (t, o2, w2) = failOrchestration o1 (wrap ''failed while waiting start for operations'' e) w1 in
                run_strategy E fuel (started E 0 o2) [] w2)
           | (Some (Returned (Inr (ros, runtimeNums)), o1), w1) \<Rightarrow> run_strategy E fuel (started E runtimeNums o1) ros w1))"

end
