(* ===== verification/Orchestration_Handlers.thy ===== *)
theory Orchestration_Handlers
  imports Parallel_Strategy
begin

text \<open>
  The HTTP handlers that create, cancel and retry orchestrations
  (\<^verbatim>\<open>src/internal/orchestration/handlers\<close>: \<^verbatim>\<open>handlers.go\<close>, \<^verbatim>\<open>cluster_handler.go\<close>, \<^verbatim>\<open>kyma_handler.go\<close>,
  \<^verbatim>\<open>cancel.go\<close>, \<^verbatim>\<open>kyma_retry.go\<close>, \<^verbatim>\<open>cluster_retry.go\<close> and the retrying part of \<^verbatim>\<open>orchestration_handler.go\<close>).

  An answer is a status code with an error or a body.  Decoding of the request, \<open>time.Parse\<close> with the format RFC 3339, the check of semantic
  versions and the client of GitHub are parameters.
\<close>

section \<open>Creating\<close>

definition validateTarget :: "target_spec \<Rightarrow> go_error option" where
  "validateTarget spec =
     (if Include spec = [] then Some (TextError ''targets.include array must be not empty'') else None)"

definition ValidateDeprecatedParameters :: "orchestration_parameters \<Rightarrow> go_error option" where
  "ValidateDeprecatedParameters p =
     (if Schedule (Strategy p) = ''maintenanceWindow''
      then Some (TextError ''schedule maintenanceWindow is deprecated'') else None)"

definition ValidateScheduleParameter ::
  "(string \<Rightarrow> go_error + go_time) \<Rightarrow> go_time \<Rightarrow> orchestration_parameters \<Rightarrow> go_error + orchestration_parameters" where
  "ValidateScheduleParameter parse now p =
     (let set_time = (\<lambda>t. p\<lparr>Strategy := (Strategy p)\<lparr>ScheduleTime := t\<rparr>\<rparr>) in
      if Schedule (Strategy p) = ''immediate'' then Inr p
      else if Schedule (Strategy p) = ''now'' then Inr (set_time now)
      else (case parse (Schedule (Strategy p)) of
              Inr t \<Rightarrow> Inr (set_time t)
            | Inl e \<Rightarrow> Inl (wrap (''the schedule filed does not contain 'imediate'/'now' nor is a date'') e)))"

definition new_orchestration :: "string \<Rightarrow> string \<Rightarrow> int \<Rightarrow> orchestration_parameters \<Rightarrow> orchestration" where
  "new_orchestration k ty now p =
     \<lparr>orch_ID = k, orch_Type = ty, orch_State = Pending, orch_Description = ''queued for processing'', orch_CreatedAt = now,
      orch_UpdatedAt = now, orch_Parameters = p\<rparr>"

type_synonym answer = "int \<times> (go_error + string)"

text \<open>The checks that follow the first one, and the new orchestration; \<open>enqueue\<close> adds to the queue of the kind.\<close>

definition accept_orchestration ::
  "(nat \<Rightarrow> string) \<Rightarrow> (string \<Rightarrow> go_error + go_time) \<Rightarrow> string \<Rightarrow> (string \<Rightarrow> orch_world \<Rightarrow> orch_world) \<Rightarrow> orchestration_parameters \<Rightarrow>
   orch_world \<Rightarrow> answer \<times> orch_world" where
  "accept_orchestration uuid parse ty enqueue p w =
     (case ValidateDeprecatedParameters p of
        Some e \<Rightarrow> ((400, Inl (wrap ''found deprecated value'' e)), w)
      | None \<Rightarrow>
          (case ValidateScheduleParameter parse (w_now w) p of
             Inl e \<Rightarrow> ((400, Inl (wrap ''found deprecated value'' e)), w)
           | Inr p1 \<Rightarrow>
               (let k = uuid (w_ids w);
                    o' = new_orchestration k ty (instant (w_now w)) p1
                in ((202, Inr k), enqueue k (w\<lparr>w_ids := w_ids w + 1, w_orchs := orch_Insert o' (w_orchs w)\<rparr>)))))"

definition cluster_enqueue :: "string \<Rightarrow> orch_world \<Rightarrow> orch_world" where
  "cluster_enqueue k w = w\<lparr>w_clusterQueue := w_clusterQueue w @ [k]\<rparr>"

definition kyma_enqueue :: "string \<Rightarrow> orch_world \<Rightarrow> orch_world" where
  "kyma_enqueue k w = w\<lparr>w_kymaQueue := w_kymaQueue w @ [k]\<rparr>"

definition cluster_createOrchestration ::
  "(nat \<Rightarrow> string) \<Rightarrow> (string \<Rightarrow> go_error + go_time) \<Rightarrow> go_error + orchestration_parameters \<Rightarrow> orch_world \<Rightarrow> answer \<times> orch_world" where
  "cluster_createOrchestration uuid parse request w =
     (case request of
        Inl e \<Rightarrow> ((400, Inl (wrap ''while decoding request body'' e)), w)
      | Inr p \<Rightarrow>
          (case validateTarget (Targets p) of
             Some e \<Rightarrow> ((400, Inl (wrap ''while validating target'' e)), w)
           | None \<Rightarrow> accept_orchestration uuid parse UpgradeClusterOrchestration cluster_enqueue p w))"

text \<open>
  The client of GitHub: the status of the response, if there is one, and the error for a release and a pull request; for a
  comparison of commits the number of commits and the status.
\<close>

record git_client =
  semver_valid :: "string \<Rightarrow> bool"
  GetReleaseByTag :: "string \<Rightarrow> int option \<times> go_error option"
  PullRequest :: "int \<Rightarrow> int option \<times> go_error option"
  CompareCommits :: "string \<Rightarrow> string \<Rightarrow> nat option \<times> int option"

definition shouldHandle :: "int option \<Rightarrow> bool" where
  "shouldHandle resp = (case resp of Some c \<Rightarrow> 400 \<le> c \<and> c < 500 \<and> c \<noteq> 403 | None \<Rightarrow> False)"

definition version_not_found :: "string \<Rightarrow> go_error option \<Rightarrow> go_error" where
  "version_not_found version err =
     (let text = ''invalid Kyma version, version '' @ version @ '' not found'' in
      case err of Some e \<Rightarrow> wrap text e | None \<Rightarrow> TextError (text @ '': %!w(<nil>)''))"

text \<open>What \<open>strconv.Atoi\<close> returns beside the error: the nearest value in 64 bits, or 0.\<close>

definition Atoi_value :: "string \<Rightarrow> int" where
  "Atoi_value t =
     (case signed_decimal t of Some v \<Rightarrow> max (- (2 ^ 63)) (min (2 ^ 63 - 1) v) | None \<Rightarrow> 0)"

definition ValidateKymaVersion :: "git_client \<Rightarrow> string \<Rightarrow> go_error option" where
  "ValidateKymaVersion G version =
     (if semver_valid G (''v'' @ version)
      then (let (resp, err) = GetReleaseByTag G version in if shouldHandle resp then Some (version_not_found version err) else None)
      else if starts_with ''PR-'' version
      then (let prID = Atoi_value (drop 3 version);
                (resp, err) = PullRequest G prID
            in if shouldHandle resp then Some (version_not_found version err) else None)
      else if str_includes version ''-''
      then (let chunks = split version ''-'';
                branch = join ''-'' (butlast chunks);
                commit = last chunks;
                (diff, resp) = CompareCommits G branch commit
            in if (case diff of Some n \<Rightarrow> 0 < n | None \<Rightarrow> False) \<or> shouldHandle resp
               then Some (TextError (''invalid Kyma version, commit '' @ commit @ '' not present on branch '' @ branch)) else None)
      else None)"

text \<open>The version is read through a pointer; a request without the field \<open>kyma\<close> leaves it nil.\<close>

definition kyma_createOrchestration ::
  "git_client \<Rightarrow> (nat \<Rightarrow> string) \<Rightarrow> (string \<Rightarrow> go_error + go_time) \<Rightarrow> go_error + orchestration_parameters \<Rightarrow> orch_world \<Rightarrow>
   answer go_call \<times> orch_world" where
  "kyma_createOrchestration G uuid parse request w =
     (case request of
        Inl e \<Rightarrow> (Returned (400, Inl (wrap ''while decoding request body'' e)), w)
      | Inr p \<Rightarrow>
          (case validateTarget (Targets p) of
             Some e \<Rightarrow> (Returned (400, Inl (wrap ''while validating target'' e)), w)
           | None \<Rightarrow>
               (case Kyma p of
                  None \<Rightarrow> (Panicked nil_dereference, w)
                | Some version \<Rightarrow>
                    (case ValidateKymaVersion G version of
                       Some e \<Rightarrow> (Returned (400, Inl (wrap ''while validating kyma version'' e)), w)
                     | None \<Rightarrow> (let (a, w1) = accept_orchestration uuid parse UpgradeKymaOrchestration kyma_enqueue p w in (Returned a, w1))))))"

section \<open>Canceling\<close>

definition resolveErrorStatus :: "go_error \<Rightarrow> int" where
  "resolveErrorStatus err =
     (let cause = UnwrapAll err in
      if IsNotFound cause then 404
      else case cause of K8sError m r \<Rightarrow> if r = ''BadRequest'' then 400 else 500 | _ \<Rightarrow> 500)"

definition CancelForID :: "string \<Rightarrow> orch_world \<Rightarrow> (go_error + unit) \<times> orch_world" where
  "CancelForID k w =
     (case orch_GetByID k (w_orchs w) of
        Inl e \<Rightarrow> (Inl (wrap ''while getting orchestration'' e), w)
      | Inr o' \<Rightarrow>
          if orch_IsFinished o' \<or> orch_State o' = Canceling then (Inr (), w)
          else (case orch_Update (o'\<lparr>orch_UpdatedAt := instant (w_now w), orch_Description := ''Orchestration was canceled'',
                                     orch_State := Canceling\<rparr>) (w_orchs w) of
                  (Inl e, m) \<Rightarrow> (Inl (wrap ''while updating orchestration'' e), w\<lparr>w_orchs := m\<rparr>)
                | (Inr _, m) \<Rightarrow> (Inr (), w\<lparr>w_orchs := m\<rparr>)))"

definition cancelOrchestrationByID :: "string \<Rightarrow> orch_world \<Rightarrow> answer \<times> orch_world" where
  "cancelOrchestrationByID k w =
     (case CancelForID k w of
        (Inl e, w1) \<Rightarrow> ((resolveErrorStatus e, Inl (wrap (''while canceling orchestration '' @ k) e)), w1)
      | (Inr _, w1) \<Rightarrow> ((200, Inr k), w1))"

section \<open>Retrying\<close>

record retry_response =
  resp_OrchestrationID :: string
  RetryShoots :: "string list"
  OldOperations :: "string list"
  InvalidOperations :: "string list"
  Msg :: string

definition orchestrationOperationsFilter :: "operation list \<Rightarrow> string list \<Rightarrow> operation list \<times> string list" where
  "orchestrationOperationsFilter opsByOrch opsIDs =
     (if opsIDs = [] then (opsByOrch, [])
      else (concat (map (\<lambda>k. case find (\<lambda>op. k = op_ID op) opsByOrch of Some op \<Rightarrow> [op] | None \<Rightarrow> []) opsIDs),
            filter (\<lambda>k. find (\<lambda>op. k = op_ID op) opsByOrch = None) opsIDs))"

datatype latest = Latest | Superseded | Inconsistent

text \<open>The scan of the upgrades of an instance, the newest first.\<close>

fun scan_newer :: "bool \<Rightarrow> operation \<Rightarrow> operation list \<Rightarrow> latest" where
  "scan_newer single op [] = Latest"
| "scan_newer single op (x # xs) =
     (if CreatedAt op < CreatedAt x
      then (if single then Inconsistent
            else if State x = Canceled \<or> State x = Canceling then scan_newer single op xs else Superseded)
      else Latest)"

text \<open>The operations to retry and the ids of those that are superseded.  The list of an instance is never empty.\<close>

fun latestOperationValidate ::
  "(string \<Rightarrow> go_error + operation list) \<Rightarrow> operation list \<Rightarrow> go_error + operation list \<times> string list" where
  "latestOperationValidate list_of [] = Inr ([], [])"
| "latestOperationValidate list_of (op # ops) =
     (case list_of (InstanceID op) of
        Inl e \<Rightarrow> Inl (wrap (''while getting operations by instanceID '' @ InstanceID op) e)
      | Inr xs \<Rightarrow>
          (let r = scan_newer (length xs = 1) op xs in
           if xs = [] \<or> r = Inconsistent
           then Inl (TextError (''while getting operations by instanceID '' @ InstanceID op @ '': %!w(<nil>)''))
           else (case latestOperationValidate list_of ops of
                   Inl e \<Rightarrow> Inl e
                 | Inr (retryOps, oldIDs) \<Rightarrow>
                     Inr (if r = Superseded then (retryOps, op_ID op # oldIDs) else (op # retryOps, oldIDs)))))"

definition orchestrationStateUpdate :: "orchestration \<Rightarrow> orch_world \<Rightarrow> (go_error + string) \<times> orch_world" where
  "orchestrationStateUpdate orch w =
     (case orch_GetByID (orch_ID orch) (w_orchs w) of
        Inl e \<Rightarrow> (Inl (wrap (''while getting orchestration '' @ orch_ID orch) e), w)
      | Inr o' \<Rightarrow>
          (let state = orch_State o' in
           if state = Canceling \<or> state = Canceled
           then (Inl (TextError (''orchestration '' @ orch_ID orch @ '' was canceled right before retrying'')), w)
           else (let o1 = o'\<lparr>orch_UpdatedAt := instant (w_now w),
                            orch_Parameters := (orch_Parameters o')\<lparr>param_Retry := param_Retry (orch_Parameters orch)\<rparr>\<rparr>;
                     o2 = (if state = Failed then o1\<lparr>orch_Description := orch_Description o1 @ '', retrying'', orch_State := Retrying\<rparr> else o1)
                 in case orch_Update o2 (w_orchs w) of
                      (Inl e, m) \<Rightarrow> (Inl (wrap (''while updating orchestration '' @ orch_ID orch) e), w\<lparr>w_orchs := m\<rparr>)
                    | (Inr _, m) \<Rightarrow> (Inr state, w\<lparr>w_orchs := m\<rparr>))))"

definition zeroValidOperationInfo :: "retry_response \<Rightarrow> retry_response" where
  "zeroValidOperationInfo resp = resp\<lparr>Msg := ''No valid operations to retry for orchestration '' @ resp_OrchestrationID resp\<rparr>"

text \<open>Both retryers; the one for Kyma also takes over whether to retry immediately.\<close>

definition queue_retry ::
  "bool option \<Rightarrow> (string \<Rightarrow> orch_world \<Rightarrow> orch_world) \<Rightarrow> orchestration \<Rightarrow> operation list \<Rightarrow> retry_response \<Rightarrow> orch_world \<Rightarrow>
   (go_error + retry_response) \<times> orch_world" where
  "queue_retry immediate enqueue o' ops resp w =
     (let resp1 = resp\<lparr>RetryShoots := map (\<lambda>op. ShootName (InstanceDetails op)) ops, Msg := ''retry operations are queued for processing''\<rparr>;
          q = param_Retry (orch_Parameters o');
          q1 = q\<lparr>RetryOperations := RetryOperations q @ map op_ID ops\<rparr>;
          q2 = (case immediate of Some b \<Rightarrow> q1\<lparr>Immediate := b\<rparr> | None \<Rightarrow> q1)
      in case orchestrationStateUpdate (o'\<lparr>orch_Parameters := (orch_Parameters o')\<lparr>param_Retry := q2\<rparr>\<rparr>) w of
           (Inl e, w1) \<Rightarrow> (Inl e, w1)
         | (Inr lastState, w1) \<Rightarrow> (Inr resp1, if lastState = Failed then enqueue (orch_ID o') w1 else w1))"

definition orchestrationRetry ::
  "bool option \<Rightarrow> (string \<Rightarrow> orch_world \<Rightarrow> orch_world) \<Rightarrow> (string \<Rightarrow> go_error + operation list) \<Rightarrow> orchestration \<Rightarrow> operation list \<Rightarrow>
   string list \<Rightarrow> orch_world \<Rightarrow> (go_error + retry_response) \<times> orch_world" where
  "orchestrationRetry immediate enqueue list_of o' opsByOrch operationIDs w =
     (let (ops, invalidIDs) = orchestrationOperationsFilter opsByOrch operationIDs;
          resp = \<lparr>resp_OrchestrationID = orch_ID o', RetryShoots = [], OldOperations = [], InvalidOperations = invalidIDs, Msg = []\<rparr>
      in if ops = [] then (Inr (zeroValidOperationInfo resp), w)
         else if orch_State o' = Failed
         then (case latestOperationValidate list_of ops of
                 Inl e \<Rightarrow> (Inl e, w)
               | Inr (ops1, oldIDs) \<Rightarrow>
                   (let resp1 = resp\<lparr>OldOperations := oldIDs\<rparr> in
                    if ops1 = [] then (Inr (zeroValidOperationInfo resp1), w) else queue_retry immediate enqueue o' ops1 resp1 w))
         else queue_retry immediate enqueue o' ops resp w)"

text \<open>The handler from the parsed form on: the ids of operations and the text of \<open>immediate\<close>.\<close>

definition retryOrchestrationByID ::
  "visit \<Rightarrow> string \<Rightarrow> string \<Rightarrow> string list \<Rightarrow> string \<Rightarrow> orch_world \<Rightarrow> (int \<times> (go_error + retry_response)) go_call \<times> orch_world" where
  "retryOrchestrationByID visit contentType k operationIDs immediate w =
     (let answer = (\<lambda>(r, w1). case r of Inl e \<Rightarrow> (Returned (500, Inl e), w1) | Inr resp \<Rightarrow> (Returned (202, Inr resp), w1));
          listed = (\<lambda>call retry. case call of
                      Panicked v \<Rightarrow> (Panicked v, w) | Returned (ops, _, _) \<Rightarrow> answer (retry ops))
      in if contentType \<noteq> ''application/x-www-form-urlencoded''
         then (Returned (415, Inl (TextError (''invalide content type '' @ contentType @ '' for retrying orchestration''))), w)
         else (case orch_GetByID k (w_orchs w) of
                 Inl e \<Rightarrow> (Returned (resolveErrorStatus e, Inl (wrap (''while retrying orchestration '' @ k) e)), w)
               | Inr o' \<Rightarrow>
                   if orch_Type o' = UpgradeKymaOrchestration
                   then listed (ListUpgradeKymaOperationsByOrchestrationID visit (orch_ID o') (with_states [Failed]) (w_ops w)) (\<lambda>ops.
                          orchestrationRetry (Some (immediate = ''true'')) kyma_enqueue
                            (\<lambda>i. ListUpgradeKymaOperationsByInstanceID visit i (w_ops w)) o' ops operationIDs w)
                   else if orch_Type o' = UpgradeClusterOrchestration
                   then listed (ListUpgradeClusterOperationsByOrchestrationID visit (orch_ID o') (with_states [Failed]) (w_ops w)) (\<lambda>ops.
                          orchestrationRetry None cluster_enqueue
                            (\<lambda>i. ListUpgradeClusterOperationsByInstanceID visit i (w_ops w)) o' ops operationIDs w)
                   else (Returned (500, Inl (TextError (''unsupported orchestration type: '' @ orch_Type o'))), w)))"

section \<open>Properties\<close>

lemma new_orchestration_simps [simp]:
  "orch_ID (new_orchestration k ty now p) = k" "orch_State (new_orchestration k ty now p) = Pending"
  "orch_Type (new_orchestration k ty now p) = ty" "orch_Parameters (new_orchestration k ty now p) = p"
  by (simp_all add: new_orchestration_def)

text \<open>
  A request for a cluster upgrade is accepted exactly when it decodes, names a target, does not use
  the deprecated schedule and has a schedule that is known or a date.  Then one pending orchestration is stored under the new
  id and the id is queued; a request that is refused is a bad request and changes nothing.
\<close>

theorem accepted_orchestrations_are_queued:
  assumes "cluster_createOrchestration uuid parse request w = ((status, r), w')"
  shows "(\<exists>p p1. request = Inr p \<and> Include (Targets p) \<noteq> [] \<and> Schedule (Strategy p) \<noteq> ''maintenanceWindow'' \<and>
            ValidateScheduleParameter parse (w_now w) p = Inr p1 \<and> status = 202 \<and> r = Inr (uuid (w_ids w)) \<and>
            map_of (w_orchs w') = (map_of (w_orchs w))(uuid (w_ids w) \<mapsto>
              new_orchestration (uuid (w_ids w)) UpgradeClusterOrchestration (instant (w_now w)) p1) \<and>
            w_clusterQueue w' = w_clusterQueue w @ [uuid (w_ids w)] \<and> w_ops w' = w_ops w)
         \<or> (\<exists>e. status = 400 \<and> r = Inl e \<and> w' = w)"
proof (cases request)
  case (Inr p)
  show ?thesis
  proof (cases "validateTarget (Targets p) = None \<and> ValidateDeprecatedParameters p = None")
    case True
    then have g: "Include (Targets p) \<noteq> []" "Schedule (Strategy p) \<noteq> ''maintenanceWindow''"
      by (auto simp: validateTarget_def ValidateDeprecatedParameters_def split: if_splits)
    show ?thesis
    proof (cases "ValidateScheduleParameter parse (w_now w) p")
      case (Inl e)
      with assms Inr True show ?thesis by (auto simp: cluster_createOrchestration_def accept_orchestration_def)
    next
      case (Inr p1)
      with assms \<open>request = Inr p\<close> True g show ?thesis
        by (auto simp: cluster_createOrchestration_def accept_orchestration_def cluster_enqueue_def orch_Insert_def Let_def)
    qed
  next
    case False
    with assms Inr show ?thesis
      by (auto simp: cluster_createOrchestration_def accept_orchestration_def split: option.splits)
  qed
qed (use assms in \<open>auto simp: cluster_createOrchestration_def\<close>)

definition no_target :: runtime_target where
  "no_target = \<lparr>Target = [], target_GlobalAccount = [], target_SubAccount = [], target_Region = [], target_RuntimeID = [],
     target_PlanName = [], target_Shoot = [], target_InstanceID = []\<rparr>"

definition some_parameters_orch :: orchestration_parameters where
  "some_parameters_orch = \<lparr>Targets = \<lparr>Include = [no_target\<lparr>Target := TargetAll\<rparr>], Exclude = []\<rparr>, Strategy = some_spec, DryRun = False,
     Kubernetes = None, Kyma = None, param_Retry = \<lparr>RetryOperations = [], Immediate = False\<rparr>, Notification = False\<rparr>"

theorem accepted_orchestrations_are_queued_witness:
  "\<exists>w'. cluster_createOrchestration (\<lambda>n. ''orch'') (\<lambda>t. Inl (TextError ''no date'')) (Inr some_parameters_orch) some_world =
     ((202, Inr ''orch''), w') \<and> w_clusterQueue w' = [''orch'']"
proof -
  obtain status r w' where run: "cluster_createOrchestration (\<lambda>n. ''orch'') (\<lambda>t. Inl (TextError ''no date'')) (Inr some_parameters_orch)
      some_world = ((status, r), w')" by (metis surj_pair)
  moreover from run have "status \<noteq> 400"
    by (auto simp: cluster_createOrchestration_def accept_orchestration_def validateTarget_def ValidateDeprecatedParameters_def
        ValidateScheduleParameter_def some_parameters_orch_def some_spec_def Let_def)
  ultimately show ?thesis using accepted_orchestrations_are_queued [OF run] by (auto simp: some_world_def)
qed

lemma kyma_request_without_version:
  "validateTarget (Targets p) = None \<Longrightarrow> Kyma p = None \<Longrightarrow>
   kyma_createOrchestration G uuid parse (Inr p) w = (Panicked nil_dereference, w)"
  by (simp add: kyma_createOrchestration_def)

text \<open>
  Canceling never fails for a known orchestration: one that is finished or already being canceled is
  left alone, any other is marked as being canceled, and nothing else changes.  An unknown one is not found.
\<close>

theorem cancel_marks_unfinished:
  assumes "orchs_ok (w_orchs w)"
  shows "case map_of (w_orchs w) k of
      None \<Rightarrow> \<exists>e. cancelOrchestrationByID k w = ((404, Inl e), w)
    | Some o' \<Rightarrow> \<exists>w'. cancelOrchestrationByID k w = ((200, Inr k), w') \<and> w' = w\<lparr>w_orchs := w_orchs w'\<rparr> \<and>
        map_of (w_orchs w') = (if orch_IsFinished o' \<or> orch_State o' = Canceling then map_of (w_orchs w)
          else (map_of (w_orchs w))(k \<mapsto> o'\<lparr>orch_UpdatedAt := instant (w_now w),
            orch_Description := ''Orchestration was canceled'', orch_State := Canceling\<rparr>))"
proof (cases "map_of (w_orchs w) k")
  case None
  then have "orch_GetByID k (w_orchs w) = Inl (orch_not_found k)" by (simp add: orch_GetByID_def)
  moreover have "resolveErrorStatus (wrap c (orch_not_found k)) = 404" for c
    by (simp add: resolveErrorStatus_def wrap_def orch_not_found_def UnwrapAll_leaf IsNotFound_def)
  ultimately show ?thesis using None by (simp add: cancelOrchestrationByID_def CancelForID_def)
next
  case (Some o')
  with assms have k: "orch_ID o' = k" by (simp add: orchs_ok_def)
  show ?thesis
  proof (cases "orch_IsFinished o' \<or> orch_State o' = Canceling")
    case True
    with Some show ?thesis by (simp add: cancelOrchestrationByID_def CancelForID_def orch_GetByID_def)
  next
    case False
    with Some k show ?thesis
      by (simp add: cancelOrchestrationByID_def CancelForID_def orch_GetByID_def orch_Update_def)
  qed
qed

definition some_orchestration :: orchestration where
  "some_orchestration = new_orchestration ''orch'' UpgradeClusterOrchestration 0 some_parameters_orch"

theorem cancel_marks_unfinished_witness:
  "\<exists>w'. cancelOrchestrationByID ''orch'' (some_world\<lparr>w_orchs := [(''orch'', some_orchestration)]\<rparr>) = ((200, Inr ''orch''), w') \<and>
     map_option orch_State (map_of (w_orchs w') ''orch'') = Some Canceling"
proof -
  have "orchs_ok [(''orch'', some_orchestration)]" by (simp add: orchs_ok_def some_orchestration_def)
  with cancel_marks_unfinished [of "some_world\<lparr>w_orchs := [(''orch'', some_orchestration)]\<rparr>" "''orch''"] show ?thesis
    by (auto simp: some_orchestration_def orch_IsFinished_def op_states)
qed

subsection \<open>Retrying\<close>

text \<open>The scan finds a newer upgrade that was not canceled, if the list is sorted.\<close>

lemma scan_newer_iff:
  assumes "sorted (map (\<lambda>op. - CreatedAt op) xs)"
  shows "scan_newer False op xs = Superseded \<longleftrightarrow>
           (\<exists>x\<in>set xs. CreatedAt op < CreatedAt x \<and> State x \<noteq> Canceled \<and> State x \<noteq> Canceling)"
    and "scan_newer False op xs \<noteq> Inconsistent"
  using assms
proof (induction xs)
  case (Cons x xs)
  {
    case 1
    show ?case
    proof (cases "CreatedAt op < CreatedAt x")
      case False
      then have "\<forall>y\<in>set xs. \<not> CreatedAt op < CreatedAt y" using 1 by auto
      with False show ?thesis by auto
    qed (use 1 Cons.IH in auto)
  }
  {
    case 2
    then show ?case using Cons.IH by auto
  }
qed simp_all

text \<open>A list with one element has no newer one when it has the operation itself.\<close>

lemma scan_newer_single: "op \<in> set xs \<Longrightarrow> length xs = 1 \<Longrightarrow> scan_newer s op xs = Latest"
  by (cases xs) auto

text \<open>There is a newer upgrade of the same instance that was not canceled.\<close>

definition superseded :: "operation list \<Rightarrow> operation \<Rightarrow> bool" where
  "superseded all op = list_ex (\<lambda>x. InstanceID x = InstanceID op \<and> CreatedAt op < CreatedAt x \<and> State x \<noteq> Canceled \<and> State x \<noteq> Canceling) all"

text \<open>
  (C25) For an orchestration that has failed, of the operations asked for those are retried for
  whose instance there is no newer upgrade, where canceled upgrades do not count; the others are reported as old.
\<close>

theorem only_the_latest_is_retried:
  assumes "\<And>i. list_of i = newest_or_error ''upgrade'' i (filter (\<lambda>x. InstanceID x = i) all)"
    and "set ops \<subseteq> set all"
  shows "latestOperationValidate list_of ops =
     Inr (filter (\<lambda>op. \<not> superseded all op) ops, map op_ID (filter (superseded all) ops))"
  using assms(2)
proof (induction ops)
  case (Cons op ops)
  let ?xs = "newest_first (filter (\<lambda>x. InstanceID x = InstanceID op) all)"
  have set_xs: "set ?xs = {x \<in> set all. InstanceID x = InstanceID op}" by (simp add: newest_first_def)
  then have "op \<in> set ?xs" using Cons.prems by simp
  then have "?xs \<noteq> []" by (metis empty_iff empty_set)
  moreover from this have "filter (\<lambda>x. InstanceID x = InstanceID op) all \<noteq> []" by (simp add: newest_first_Nil)
  ultimately have l: "list_of (InstanceID op) = Inr ?xs" "?xs \<noteq> []" by (simp_all add: assms(1) newest_or_error_def)
  have sorted: "sorted (map (\<lambda>op. - CreatedAt op) ?xs)" by (simp add: newest_first_def)
  have scan: "scan_newer (length ?xs = 1) op ?xs \<noteq> Inconsistent" "scan_newer (length ?xs = 1) op ?xs = Superseded \<longleftrightarrow> superseded all op"
  proof -
    have "(scan_newer (length ?xs = 1) op ?xs = Superseded \<longleftrightarrow> superseded all op) \<and> scan_newer (length ?xs = 1) op ?xs \<noteq> Inconsistent"
    proof (cases "length ?xs = 1")
      case True
      then have "?xs = [op]" using \<open>op \<in> set ?xs\<close> by (cases ?xs) auto
      then have "{x \<in> set all. InstanceID x = InstanceID op} = {op}" using set_xs by simp
      then have "\<not> superseded all op" by (auto simp: superseded_def list_ex_iff)
      with True scan_newer_single [OF \<open>op \<in> set ?xs\<close> True] show ?thesis by simp
    next
      case False
      with scan_newer_iff [OF sorted, of op] show ?thesis by (auto simp: set_xs superseded_def list_ex_iff)
    qed
    then show "scan_newer (length ?xs = 1) op ?xs \<noteq> Inconsistent" "scan_newer (length ?xs = 1) op ?xs = Superseded \<longleftrightarrow> superseded all op" by blast+
  qed
  have "latestOperationValidate list_of ops = Inr (filter (\<lambda>op. \<not> superseded all op) ops, map op_ID (filter (superseded all) ops))"
    using Cons by simp
  then show ?case using scan l by (cases "scan_newer (length ?xs = 1) op ?xs") auto
qed simp

definition failed_twice :: "operation list" where
  "failed_twice = [upgrade_example OperationTypeUpgradeCluster ''a'' ''orch'' Failed,
     (upgrade_example OperationTypeUpgradeCluster ''b'' ''other'' Failed)\<lparr>CreatedAt := 7\<rparr>]"

theorem only_the_latest_is_retried_witness:
  "latestOperationValidate (\<lambda>i. newest_or_error ''upgrade'' i (filter (\<lambda>x. InstanceID x = i) failed_twice)) [hd failed_twice] = Inr ([], [''a''])"
  using only_the_latest_is_retried [of "\<lambda>i. newest_or_error ''upgrade'' i (filter (\<lambda>x. InstanceID x = i) failed_twice)" failed_twice "[hd failed_twice]"]
  by (simp add: failed_twice_def upgrade_example_def op_states superseded_def)

text \<open>
  A retry of an orchestration that has meanwhile succeeded is answered as if it was queued, but it only leaves
  the ids in the stored parameters: the orchestration stays finished and enters no queue.
\<close>

theorem late_retry_is_forgotten:
  assumes "map_of (w_orchs w) (orch_ID o') = Some o'" and "orch_State o' = Succeeded" and "ops \<noteq> []"
  shows "\<exists>resp w' o1. orchestrationRetry immediate enqueue list_of o' ops [] w = (Inr resp, w') \<and>
    Msg resp = ''retry operations are queued for processing'' \<and> w_kymaQueue w' = w_kymaQueue w \<and> w_clusterQueue w' = w_clusterQueue w \<and>
    map_of (w_orchs w') (orch_ID o') = Some o1 \<and> orch_State o1 = Succeeded \<and>
    RetryOperations (param_Retry (orch_Parameters o1)) = RetryOperations (param_Retry (orch_Parameters o')) @ map op_ID ops"
proof -
  have "Succeeded \<noteq> Failed" "Succeeded \<noteq> Canceling" "Succeeded \<noteq> Canceled" by (simp_all add: op_states)
  with assms show ?thesis
    by (cases immediate)
       (auto simp: orchestrationRetry_def orchestrationOperationsFilter_def queue_retry_def orchestrationStateUpdate_def orch_GetByID_def
         orch_Update_def Let_def)
qed

theorem late_retry_is_forgotten_witness:
  "\<exists>resp w'. orchestrationRetry None cluster_enqueue (\<lambda>i. Inr []) (some_orchestration\<lparr>orch_State := Succeeded\<rparr>)
       [upgrade_example OperationTypeUpgradeCluster ''a'' ''orch'' Failed] []
       (some_world\<lparr>w_orchs := [(''orch'', some_orchestration\<lparr>orch_State := Succeeded\<rparr>)]\<rparr>) = (Inr resp, w') \<and>
     Msg resp = ''retry operations are queued for processing'' \<and> w_clusterQueue w' = []"
  using late_retry_is_forgotten [of "some_world\<lparr>w_orchs := [(''orch'', some_orchestration\<lparr>orch_State := Succeeded\<rparr>)]\<rparr>"
    "some_orchestration\<lparr>orch_State := Succeeded\<rparr>" "[upgrade_example OperationTypeUpgradeCluster ''a'' ''orch'' Failed]"]
  by (force simp: some_orchestration_def some_world_def)

end
