(* ===== verification/Orchestration_Run.thy ===== *)
theory Orchestration_Run
  imports Orchestration_Manager Orchestration_Handlers
begin

text \<open>
  What the orchestration manager achieves: what a step leaves alone, how the two loops end, what is stored in the end, and
  how the loops and the handlers interfere.
\<close>

section \<open>What a step leaves alone\<close>

text \<open>Everything but the operations, the notifications and the supply of ids.\<close>

definition frame :: "orch_world \<Rightarrow> orch_world \<Rightarrow> bool" where
  "frame w w' = (w_orchs w' = w_orchs w \<and> w_insts w' = w_insts w \<and> w_now w' = w_now w \<and> w_execs w' = w_execs w \<and>
     w_kymaQueue w' = w_kymaQueue w \<and> w_clusterQueue w' = w_clusterQueue w)"

abbreviation framed :: "orch_world \<Rightarrow> 'a \<times> orch_world \<Rightarrow> bool" where
  "framed w m \<equiv> frame w (snd m)"

lemma frame_refl [simp]: "frame w w"
  by (simp add: frame_def)

lemma frame_trans [trans]: "frame w w1 \<Longrightarrow> frame w1 w2 \<Longrightarrow> frame w w2"
  by (simp add: frame_def)

lemma frame_updates [simp]:
  "frame w (w1\<lparr>w_ops := s\<rparr>) = frame w w1" "frame w (w1\<lparr>w_ids := n\<rparr>) = frame w w1" "frame w (w1\<lparr>w_events := evs\<rparr>) = frame w w1"
  "frame (w\<lparr>w_ids := n\<rparr>) w1 = frame w w1"
  by (simp_all add: frame_def)

lemma and_go_keeps:
  assumes "P (snd m)" "\<And>a w1. m = (Returned (Inr a), w1) \<Longrightarrow> P w1 \<Longrightarrow> P (snd (f a w1))"
  shows "P (snd (and_go m f))"
proof (cases m)
  case (Pair r w1)
  with assms show ?thesis by (cases r) (auto simp: and_go_def split: sum.split)
qed

lemma framed_and_go:
  assumes "framed w m" "\<And>a w1. m = (Returned (Inr a), w1) \<Longrightarrow> framed w1 (f a w1)"
  shows "framed w (and_go m f)"
  using assms by (auto intro!: and_go_keeps [of "frame w"] intro: frame_trans)

lemma wrapping_state [simp]: "snd (wrapping c m) = snd m"
  by (auto simp: wrapping_def split: prod.splits go_call.splits sum.splits)

lemma framed_on_ops [simp]: "framed w (on_ops f w)" "framed w (on_ops f (w\<lparr>w_ids := n\<rparr>))"
  by (simp_all add: on_ops_def split: prod.split)

lemma framed_create_operation [simp]: "framed w (create_operation E o' policy uw r w)"
  by (simp add: create_operation_def Let_def split: sum.split)

lemma framed_new_operations [simp]: "framed w (new_operations E o' policy uw rs w)"
proof (induction rs arbitrary: w)
  case (Cons r rs)
  have later: "framed w1 (and_go (new_operations E o' policy uw rs w1) (\<lambda>ros w2. (Returned (Inr (ro # ros)), w2)))" for ro w1
    by (rule framed_and_go) (simp_all add: Cons)
  show ?case
    unfolding new_operations.simps
    by (rule framed_and_go) (auto intro!: framed_and_go later split: option.split)
qed simp

lemma framed_pending_retrying [simp]: "framed w (NewOperationForPendingRetrying E o' policy ros uw w)"
  by (auto simp: NewOperationForPendingRetrying_def Let_def intro!: framed_and_go split: sum.split)

lemma framed_cancel_each [simp]: "framed w (cancel_each E k ks w)"
  by (induction ks arbitrary: w) (auto intro!: framed_and_go)

lemma framed_notify_each [simp]: "framed w (notify_each E k st nst ros w)"
  by (induction ros arbitrary: w) (auto intro!: framed_and_go)

lemma framed_nonexistent [simp]: "framed w (cancelOperationForNonExistent E o' ros w)"
  by (auto simp: cancelOperationForNonExistent_def Let_def intro!: framed_and_go)

lemma framed_resolveOperations [simp]: "framed w (resolveOperations E o' policy w)"
  by (auto simp: resolveOperations_def intro!: framed_and_go split: prod.split)

lemma framed_send [simp]: "framed w (send E ev w)"
  by (simp add: send_def split: option.split)

lemma framed_only_temporary [simp]: "framed w (only_temporary m) = framed w m"
  by (auto simp: only_temporary_def split: prod.splits go_call.splits sum.splits)

lemma framed_start_poll: "framed w (start_poll E policy o' un w)"
  by (auto simp: start_poll_def Let_def sendNotificationCreate_def intro!: framed_and_go split: prod.split)

section \<open>Waiting for the start\<close>

text \<open>Resolving the operations changes the description and the retry request at most.\<close>

lemma resolveOperations_orch:
  "resolveOperations E o' policy w = (Returned (Inr (ros, o1, count')), w') \<Longrightarrow>
   orch_ID o1 = orch_ID o' \<and> orch_State o1 = orch_State o' \<and> strategy_of o1 = strategy_of o'"
  by (auto simp: resolveOperations_def and_go_Inr clear_retry_def split: if_splits)

lemma start_poll_orch:
  "start_poll E policy o' un w = (Returned (Inr (ros, o1, count', un')), w') \<Longrightarrow>
   orch_ID o1 = orch_ID o' \<and> orch_State o1 = orch_State o' \<and> strategy_of o1 = strategy_of o'"
  by (auto simp: start_poll_def and_go_Inr Let_def dest: resolveOperations_orch split: if_splits)

lemma wait_start_orch:
  "wait_start E fuel policy o' un w = (Some (r, o1), w') \<Longrightarrow>
   orch_ID o1 = orch_ID o' \<and> orch_State o1 = orch_State o' \<and> strategy_of o1 = strategy_of o' \<and>
   ((\<exists>x. r = Returned (Inr x)) \<longrightarrow> Before (ScheduleTime (strategy_of o')) (w_now w'))"
proof (induction fuel arbitrary: o' un w)
  case (Suc fuel)
  obtain c w1 where p: "start_poll E policy o' un w = (c, w1)" by fastforce
  show ?case
  proof (cases "\<exists>x. c = Returned (Inr x)")
    case True
    then obtain ros o2 count' un' where c: "c = Returned (Inr (ros, o2, count', un'))" by (metis prod_cases4)
    note same = start_poll_orch [OF p [unfolded c]]
    show ?thesis
    proof (cases "Before (ScheduleTime (strategy_of o2)) (w_now w1)")
      case False
      with Suc.prems p c have "wait_start E fuel policy o2 un' (e_meanwhile E w1) = (Some (r, o1), w')" by simp
      from Suc.IH [OF this] same show ?thesis by simp
    qed (use Suc.prems p c same in auto)
  next
    case False
    with Suc.prems p show ?thesis by (cases c) (auto split: sum.splits)
  qed
qed simp

text \<open>Polls until the scheduled time has passed, when time does pass between two polls.\<close>

lemma wait_start_ends:
  assumes "\<And>w. instant (w_now w) < instant (w_now (e_meanwhile E w))"
    and "nat (instant (ScheduleTime (strategy_of o')) - instant (w_now w) + 1) < fuel"
  shows "\<exists>x w'. wait_start E fuel policy o' un w = (Some x, w')"
  using assms(2)
proof (induction fuel arbitrary: o' un w)
  case (Suc fuel)
  obtain c w1 where p: "start_poll E policy o' un w = (c, w1)" by fastforce
  with framed_start_poll [of w E policy o' un] have now: "w_now w1 = w_now w" by (simp add: frame_def)
  show ?case
  proof (cases "\<exists>x. c = Returned (Inr x)")
    case True
    then obtain ros o2 count' un' where c: "c = Returned (Inr (ros, o2, count', un'))" by (metis prod_cases4)
    note same = start_poll_orch [OF p [unfolded c]]
    show ?thesis
    proof (cases "Before (ScheduleTime (strategy_of o2)) (w_now w1)")
      case False
      with assms(1) [of w1] same now Suc.prems
      have "nat (instant (ScheduleTime (strategy_of o2)) - instant (w_now (e_meanwhile E w1)) + 1) < fuel" by (simp add: Before_def)
      from Suc.IH [OF this] False p c show ?thesis by simp
    qed (use p c in auto)
  next
    case False
    with p show ?thesis by (cases c) (auto split: sum.splits)
  qed
qed simp

text \<open>Reading off the result of a run that has been evaluated.\<close>

lemma case_started:
  assumes "case m of (Some (Returned (Inr (ros, count')), o1), w1) \<Rightarrow> P ros count' o1 w1 | _ \<Rightarrow> False"
  obtains ros count' o1 w1 where "m = (Some (Returned (Inr (ros, count')), o1), w1)" "P ros count' o1 w1"
proof -
  obtain r o1 w1 where m: "m = (Some (r, o1), w1)" using assms by (cases m; cases "fst m") auto
  with assms that show thesis by (cases r) (auto split: sum.split_asm)
qed

lemma case_not_started:
  assumes "case m of (Some (Returned (Inl e), o1), w1) \<Rightarrow> P e o1 w1 | _ \<Rightarrow> False"
  obtains e o1 w1 where "m = (Some (Returned (Inl e), o1), w1)" "P e o1 w1"
proof -
  obtain r o1 w1 where m: "m = (Some (r, o1), w1)" using assms by (cases m; cases "fst m") auto
  with assms that show thesis by (cases r) (auto split: sum.split_asm)
qed

definition some_env :: orch_env where
  "some_env = \<lparr>e_factory = upgradeClusterFactory, e_executor = reschedule_nothing, e_resolve = (\<lambda>targets w. Inr []), e_visit = (\<lambda>m. m),
     e_uuid = (\<lambda>n. ''id'' @ replicate n (CHR ''x'')), e_lib = plain_lib, e_config = None, e_unmarshal = (\<lambda>t. (no_policy, False)),
     e_bundle = (\<lambda>ev w. None), pollingInterval = 1, e_kymaVersion = ''2.1'', e_kubernetesVersion = ''1.25'',
     e_meanwhile = (\<lambda>w. w\<lparr>w_now := (w_now w)\<lparr>instant := instant (w_now w) + 1\<rparr>\<rparr>)\<rparr>"

text \<open>
  (C11) When time passes between two polls, the wait for the start of an orchestration ends: with one unit of fuel per unit
  of time until the schedule, and two more, there is a result, an error or a panic of a poll included.  The orchestration is
  not started before the time it is scheduled for.
\<close>

theorem the_wait_for_the_start_ends:
  assumes "\<And>w. instant (w_now w) < instant (w_now (e_meanwhile E w))"
    and "nat (instant (ScheduleTime (strategy_of o')) - instant (w_now w) + 1) < fuel"
  shows "\<exists>r o1 w'. waitForStart E fuel o' w = (Some (r, o1), w') \<and>
           ((\<exists>x. r = Returned (Inr x)) \<longrightarrow> instant (ScheduleTime (strategy_of o')) < instant (w_now w'))"
proof -
  from wait_start_ends [OF assms] obtain r o1 w'
    where "wait_start E fuel (fst (getMaintenancePolicy E)) o' [] w = (Some (r, o1), w')" by (metis surj_pair)
  with wait_start_orch [OF this] show ?thesis by (auto simp: waitForStart_def Before_def)
qed

theorem the_wait_for_the_start_ends_witness:
  "\<exists>x o1 w'. waitForStart some_env 3 some_orchestration some_world = (Some (Returned (Inr x), o1), w') \<and> 0 < instant (w_now w')"
proof -
  have "fst (the (fst (waitForStart some_env 3 some_orchestration some_world))) = Returned (Inr ([], 0))" by code_simp
  with the_wait_for_the_start_ends [of some_env some_orchestration some_world 3] show ?thesis
    by (fastforce simp: some_env_def some_orchestration_def some_parameters_orch_def some_spec_def some_world_def)
qed

section \<open>The start\<close>

lemma started_simps [simp]:
  "orch_ID (started E n o') = orch_ID o'"
  "orch_State (started E n o') =
     (if orch_State o' = Pending \<or> orch_State o' = Retrying then (if n \<noteq> 0 then InProgress else Succeeded) else orch_State o')"
  by (simp_all add: started_def with_versions_def Let_def)

text \<open>
  (C29) While it waits for the start, the manager does not look at the stored orchestration.
  Whatever was stored there meanwhile, the request to cancel it included, is replaced when the wait is over: the
  orchestration is in progress, or has succeeded if it has no runtimes, and its operations are executed.
\<close>

theorem cancel_before_the_start_is_lost:
  assumes "map_of (w_orchs w) k = Some o'" and "orch_ID o' = k" and "orch_State o' = Pending"
    and "waitForStart E fuel o' w = (Some (Returned (Inr (ros, count')), o1), w1)"
    and "map_of (w_orchs w1) k = Some c" and "orch_State c = Canceling"
  shows "\<exists>o2. orch_Execute E fuel k w = run_strategy E fuel o2 ros w1 \<and>
           orch_State o2 = (if count' \<noteq> 0 then InProgress else Succeeded) \<and>
           orch_Update o2 (w_orchs w1) = (Inr (), assoc_set k o2 (w_orchs w1))"
proof (intro exI conjI)
  have same: "orch_ID o1 = k" "orch_State o1 = Pending"
    using wait_start_orch [of E fuel _ o' "[]" w] assms(2-4) by (auto simp: waitForStart_def)
  show "orch_Execute E fuel k w = run_strategy E fuel (started E count' o1) ros w1"
    using assms(1,4) by (simp add: orch_Execute_def orch_GetByID_def)
  show "orch_State (started E count' o1) = (if count' \<noteq> 0 then InProgress else Succeeded)" using same by simp
  show "orch_Update (started E count' o1) (w_orchs w1) = (Inr (), assoc_set k (started E count' o1) (w_orchs w1))"
    using orch_Update_known [of "w_orchs w1" "started E count' o1"] same assms(5) by simp
qed

text \<open>An orchestration that is canceled between two polls of its wait ends as one that has succeeded.\<close>

definition canceled_meanwhile :: orch_env where
  "canceled_meanwhile = some_env\<lparr>e_meanwhile := (\<lambda>w. let w1 = snd (cancelOrchestrationByID ''orch'' w) in
     w1\<lparr>w_now := (w_now w1)\<lparr>instant := instant (w_now w1) + 10\<rparr>\<rparr>)\<rparr>"

definition later_orchestration :: orchestration where
  "later_orchestration = some_orchestration\<lparr>orch_Parameters :=
     some_parameters_orch\<lparr>Strategy := some_spec\<lparr>ScheduleTime := \<lparr>instant = 9, zone = 0\<rparr>\<rparr>\<rparr>\<rparr>"

definition later_world :: orch_world where
  "later_world = some_world\<lparr>w_orchs := [(''orch'', later_orchestration)]\<rparr>"

theorem cancel_before_the_start_is_lost_witness:
  "\<exists>w'. orch_Execute canceled_meanwhile 2 ''orch'' later_world = (Some (Returned (0, None)), w') \<and>
     map_option orch_State (map_of (w_orchs w') ''orch'') = Some Succeeded"
proof -
  have "case waitForStart canceled_meanwhile 2 later_orchestration later_world of
      (Some (Returned (Inr (ros, count')), o1), w1) \<Rightarrow>
        ros = [] \<and> count' = 0 \<and> map_option orch_State (map_of (w_orchs w1) ''orch'') = Some Canceling
    | _ \<Rightarrow> False"
    by code_simp
  then obtain o1 w1 c where r: "waitForStart canceled_meanwhile 2 later_orchestration later_world = (Some (Returned (Inr ([], 0)), o1), w1)"
    "map_of (w_orchs w1) ''orch'' = Some c" "orch_State c = Canceling"
    by (auto elim!: case_started)
  have "map_of (w_orchs later_world) ''orch'' = Some later_orchestration" "orch_ID later_orchestration = ''orch''"
    "orch_State later_orchestration = Pending"
    by (simp_all add: later_world_def later_orchestration_def some_orchestration_def)
  from cancel_before_the_start_is_lost [OF this r] obtain o2
    where o2: "orch_Execute canceled_meanwhile 2 ''orch'' later_world = run_strategy canceled_meanwhile 2 o2 [] w1"
      "orch_State o2 = Succeeded" "orch_Update o2 (w_orchs w1) = (Inr (), assoc_set ''orch'' o2 (w_orchs w1))" by auto
  then show ?thesis by (simp add: run_strategy_def orch_IsFinished_def)
qed

text \<open>
  When the wait for the start ends with an error, the orchestration is stored as failed with the error as its
  description; no operation is scheduled, nothing else changes, and the orchestration is not tried again.
\<close>

theorem failed_start_is_recorded:
  assumes "map_of (w_orchs w) k = Some o'" and "orch_ID o' = k"
    and "waitForStart E fuel o' w = (Some (Returned (Inl e), o1), w1)" and "map_of (w_orchs w1) k \<noteq> None"
  shows "\<exists>o2 w'. orch_Execute E fuel k w = (Some (Returned (0, None)), w') \<and>
           map_of (w_orchs w') = (map_of (w_orchs w1))(k \<mapsto> o2) \<and> orch_State o2 = Failed \<and>
           orch_Description o2 = error_message (wrap ''failed while waiting start for operations'' e) \<and>
           w_ops w' = w_ops w1 \<and> w_execs w' = w_execs w1 \<and> w_events w' = w_events w1"
proof -
  have id: "orch_ID o1 = k"
    using wait_start_orch [of E fuel _ o' "[]" w] assms(2,3) by (auto simp: waitForStart_def)
  define o2 where "o2 = o1\<lparr>orch_UpdatedAt := instant (w_now w1), orch_State := Failed,
    orch_Description := error_message (wrap ''failed while waiting start for operations'' e)\<rparr>"
  have fail: "failOrchestration o1 (wrap ''failed while waiting start for operations'' e) w1 =
      (0, o2, w1\<lparr>w_orchs := assoc_set k o2 (w_orchs w1)\<rparr>)"
    using assms(4) id by (auto simp: failOrchestration_def updateOrchestration_def orch_Update_def o2_def Let_def)
  have "Failed \<noteq> Pending" "Failed \<noteq> Retrying" by (simp_all add: op_states)
  then have st: "orch_State (started E 0 o2) = Failed" "orch_ID (started E 0 o2) = k"
      "orch_Description (started E 0 o2) = orch_Description o2"
    using id by (simp_all add: o2_def started_def with_versions_def Let_def)
  then have "orch_Execute E fuel k w = (Some (Returned (0, None)), w1\<lparr>w_orchs := assoc_set k (started E 0 o2) (assoc_set k o2 (w_orchs w1))\<rparr>)"
    using assms(1,3) fail by (simp add: orch_Execute_def orch_GetByID_def run_strategy_def orch_Update_def orch_IsFinished_def)
  moreover have "orch_Description o2 = error_message (wrap ''failed while waiting start for operations'' e)" by (simp add: o2_def)
  ultimately show ?thesis using st by (intro exI [of _ "started E 0 o2"]) auto
qed

theorem failed_start_is_recorded_witness:
  "\<exists>w'. orch_Execute (some_env\<lparr>e_resolve := (\<lambda>targets w. Inl (TextError ''no gardener''))\<rparr>) 2 ''orch'' later_world = (Some (Returned (0, None)), w') \<and>
     map_option orch_State (map_of (w_orchs w') ''orch'') = Some Failed \<and> w_execs w' = []"
proof -
  let ?E = "some_env\<lparr>e_resolve := (\<lambda>targets w. Inl (TextError ''no gardener''))\<rparr>"
  have "case waitForStart ?E 2 later_orchestration later_world of
      (Some (Returned (Inl e), o1), w1) \<Rightarrow> map_of (w_orchs w1) ''orch'' = Some later_orchestration \<and> w_execs w1 = []
    | _ \<Rightarrow> False"
    by code_simp
  then obtain e o1 w1 where r: "waitForStart ?E 2 later_orchestration later_world = (Some (Returned (Inl e), o1), w1)"
    "map_of (w_orchs w1) ''orch'' \<noteq> None" "w_execs w1 = []"
    by (rule case_not_started) auto
  have k: "map_of (w_orchs later_world) ''orch'' = Some later_orchestration" "orch_ID later_orchestration = ''orch''"
    by (simp_all add: later_world_def later_orchestration_def some_orchestration_def)
  from failed_start_is_recorded [OF k r(1,2)] r(3) show ?thesis by auto
qed

section \<open>The end\<close>

lemma framed_notify_cancellation: "framed w (notify_cancellation E o' w)"
  by (auto simp: notify_cancellation_def sendNotificationCancel_def intro!: framed_and_go)

lemma fold_Cancel [simp]:
  "w_orchs (fold strategy_Cancel ks w) = w_orchs w" "w_ops (fold strategy_Cancel ks w) = w_ops w"
  "w_events (fold strategy_Cancel ks w) = w_events w"
  by (induction ks arbitrary: w) (simp_all add: strategy_Cancel_def)

lemma resolve_keeps: "w_orchs (snd (resolveOrchestration E o' ks stats w)) = w_orchs w"
proof (cases "orch_State o' = Canceling")
  case True
  have ops: "w_orchs (snd (on_ops f w)) = w_orchs w" for f :: "('a, memory_operations) go_step"
    by (simp add: on_ops_def split: prod.split)
  have "w_orchs (snd (notify_cancellation E o' w1)) = w_orchs w1" for w1
    using framed_notify_cancellation by (simp add: frame_def)
  then show ?thesis
    unfolding resolveOrchestration_def using True
    by (auto simp: ops Let_def intro!: and_go_keeps [of "\<lambda>w1. w_orchs w1 = w_orchs w"])
qed (simp add: resolveOrchestration_def)

lemma resolveOrchestration_state:
  "resolveOrchestration E o' ks stats w = (Returned (Inr o2), w') \<Longrightarrow>
   orch_ID o2 = orch_ID o' \<and>
   (if orch_State o' = Canceling then orch_State o2 = Canceled
    else orch_State o2 = (if 0 < stats Failed then Failed else Succeeded) \<and> w' = w)"
  by (auto simp: resolveOrchestration_def and_go_Inr Let_def split: if_splits)

lemma strategy_Insert_orchs [simp]: "w_orchs (snd (strategy_Insert X d execID ros spec w)) = w_orchs w"
  using strategy_Insert_frame [of X d execID ros spec w] by (metis prod.collapse)

lemma strategy_Execute_orchs [simp]: "w_orchs (snd (strategy_Execute uuid X d ros spec w)) = w_orchs w"
  by (auto simp: strategy_Execute_def Let_def intro!: and_go_keeps [of "\<lambda>w1. w_orchs w1 = w_orchs w"])

lemma or_else_state [simp]: "snd (or_else d m) = snd m"
  by (auto simp: or_else_def split: prod.splits go_call.splits sum.splits)

lemma schedule_retried_orchs: "w_orchs (snd (schedule_retried E o' x xs ros w)) = w_orchs w"
proof -
  obtain r w1 where i: "strategy_Insert (e_executor E) 0 x ros (strategy_of o') w = (r, w1)" by fastforce
  then have w1: "w_orchs w1 = w_orchs w" by (metis strategy_Insert_orchs snd_conv)
  then have "w_orchs (snd (and_go (wrapping c (strategy_Execute (e_uuid E) (e_executor E) 0 ros (strategy_of o') w1)) (\<lambda>k. Pair (h k)))) = w_orchs w"
    for c and h :: "string \<Rightarrow> (go_error + 'a) go_call"
    by (auto intro!: and_go_keeps [of "\<lambda>w1. w_orchs w1 = w_orchs w"])
  with i w1 show ?thesis by (cases r) (auto simp: schedule_retried_def split: sum.split)
qed

lemma on_ops_orchs [simp]: "w_orchs (snd (on_ops f w)) = w_orchs w"
  by (simp add: on_ops_def split: prod.split)

lemma pending_retrying_orchs [simp]: "w_orchs (snd (NewOperationForPendingRetrying E o' policy ros uw w)) = w_orchs w"
  using framed_pending_retrying by (simp add: frame_def)

declare schedule_retried_orchs [simp]

lemma store_retried_ok: "orchs_ok (w_orchs w) \<Longrightarrow> orchs_ok (w_orchs (snd (store_retried o' w)))"
  by (auto simp: store_retried_def Let_def split: prod.split sum.split intro: orchs_ok_Update)

lemma handle_retry_ok: "orchs_ok (w_orchs w) \<Longrightarrow> orchs_ok (w_orchs (snd (handle_retry E o' x xs w)))"
  unfolding handle_retry_def
  by (rule and_go_keeps [of "\<lambda>w. orchs_ok (w_orchs w)"] | simp add: store_retried_ok split_beta)+

text \<open>If the poll goes on, the orchestration that a retry returns is the one that is stored.\<close>

lemma handle_retry_Inr:
  assumes "handle_retry E o' x xs w = (Returned (Inr (k, ks, o1, go_on)), w')"
  shows "orch_ID o1 = orch_ID o' \<and> orch_State o1 = orch_State o' \<and> (go_on \<longrightarrow> map_of (w_orchs w') (orch_ID o') = Some o1)"
proof -
  from assms obtain w3 where "store_retried o' w3 = (Returned (Inr (o1, go_on)), w')"
    by (auto simp: handle_retry_def and_go_Inr split: prod.splits)
  then show ?thesis
    by (auto simp: store_retried_def orch_Update_def clear_retry_def Let_def split: option.splits)
qed

lemma completion_poll_ok: "orchs_ok (w_orchs w) \<Longrightarrow> orchs_ok (w_orchs (snd (completion_poll E k x xs c w)))"
  by (auto simp: completion_poll_def Let_def handle_retry_ok split_beta split: sum.split
      intro!: and_go_keeps [of "\<lambda>w. orchs_ok (w_orchs w)"])

text \<open>A poll that ends the wait: what is stored, and what the counters were.\<close>

lemma completion_poll_end:
  assumes "completion_poll E k x xs c w = (Returned (Inr (x1, xs1, c1, Some (o1, stats))), w1)"
  obtains o' where "map_of (w_orchs w) k = Some o'" "orch_ID o1 = orch_ID o'" "orch_State o1 = orch_State o'"
    "map_of (w_orchs w1) (orch_ID o') = Some o1 \<or> w1 = w \<and> o1 = o'"
    "stats = GetOperationStatsForOrchestration (e_visit E) (orch_ID o') (w_ops w)"
    "if c \<or> orch_State o' = Canceling then stats InProgress = 0 else not_finished stats = 0"
    "RetryOperations (retry_of o') = [] \<longrightarrow> w1 = w"
proof -
  from assms obtain o' where o': "map_of (w_orchs w) k = Some o'" by (auto simp: completion_poll_def orch_GetByID_def split: option.splits)
  have poll: "(if RetryOperations (retry_of o') \<noteq> [] then handle_retry E o' x xs w else (Returned (Inr (x, xs, o', True)), w)) =
      (Returned (Inr (x1, xs1, o1, True)), w1)"
    and rest: "stats = GetOperationStatsForOrchestration (e_visit E) (orch_ID o') (w_ops w)"
      "if c \<or> orch_State o' = Canceling then stats InProgress = 0 else not_finished stats = 0"
    using assms o' by (auto simp: completion_poll_def orch_GetByID_def Let_def and_go_Inr split: if_splits)
  show thesis
  proof (cases "RetryOperations (retry_of o') = []")
    case True
    with poll o' rest that show thesis by auto
  next
    case False
    with poll have "handle_retry E o' x xs w = (Returned (Inr (x1, xs1, o1, True)), w1)" by simp
    from handle_retry_Inr [OF this] o' rest that False show thesis by auto
  qed
qed

lemma wait_completion_cases:
  assumes "wait_completion E (Suc fuel) k x xs c w = (Some (Returned (Inr o2)), w')"
  obtains x1 xs1 c1 o1 stats w1 where "completion_poll E k x xs c w = (Returned (Inr (x1, xs1, c1, Some (o1, stats))), w1)"
      "resolveOrchestration E o1 xs1 stats w1 = (Returned (Inr o2), w')"
  | x1 xs1 c1 w1 where "completion_poll E k x xs c w = (Returned (Inr (x1, xs1, c1, None)), w1)"
      "wait_completion E fuel k x1 xs1 c1 (e_meanwhile E w1) = (Some (Returned (Inr o2)), w')"
proof -
  obtain r w1 where p: "completion_poll E k x xs c w = (r, w1)" by fastforce
  with assms obtain x1 xs1 c1 q where r: "r = Returned (Inr (x1, xs1, c1, q))" by (cases r) (auto split: sum.split_asm)
  show thesis
  proof (cases q)
    case None
    with p r assms that(2) show thesis by simp
  next
    case (Some y)
    with p r assms that(1) show thesis by (cases y) (auto split: prod.split_asm)
  qed
qed

text \<open>A result of the wait is a finished orchestration, and it is still stored.\<close>

lemma wait_completion_finished:
  assumes "\<And>w. orchs_ok (w_orchs w) \<Longrightarrow> orchs_ok (w_orchs (e_meanwhile E w))"
    and "orchs_ok (w_orchs w)" and "wait_completion E fuel k x xs c w = (Some (Returned (Inr o2)), w')"
  shows "orch_ID o2 = k \<and> orch_IsFinished o2 \<and> map_of (w_orchs w') k \<noteq> None"
  using assms(2,3)
proof (induction fuel arbitrary: x xs c w)
  case (Suc fuel)
  from Suc.prems(2) show ?case
  proof (cases rule: wait_completion_cases)
    case (1 x1 xs1 c1 o1 stats w1)
    from 1(1) obtain o' where o': "map_of (w_orchs w) k = Some o'" "orch_ID o1 = orch_ID o'" "orch_State o1 = orch_State o'"
      "map_of (w_orchs w1) (orch_ID o') = Some o1 \<or> w1 = w \<and> o1 = o'" by (rule completion_poll_end)
    then have "orch_ID o' = k" using Suc.prems(1) by (simp add: orchs_ok_def)
    moreover from 1(2) have "w_orchs w' = w_orchs w1" by (metis resolve_keeps snd_conv)
    ultimately show ?thesis
      using resolveOrchestration_state [OF 1(2)] o' by (auto simp: orch_IsFinished_def split: if_splits)
  next
    case (2 x1 xs1 c1 w1)
    have "orchs_ok (w_orchs w1)" using completion_poll_ok [OF Suc.prems(1), of E k x xs c] 2(1) by simp
    from Suc.IH [OF assms(1) [OF this] 2(2)] show ?thesis .
  qed
qed simp

text \<open>The orchestration that is stored under an id.\<close>

abbreviation stored_orch :: "string \<Rightarrow> orch_world \<Rightarrow> orchestration option" where
  "stored_orch k w \<equiv> map_of (w_orchs w) k"

lemma run_strategy_finished:
  assumes "\<And>w. orchs_ok (w_orchs w) \<Longrightarrow> orchs_ok (w_orchs (e_meanwhile E w))" and "pollingInterval E \<noteq> 0"
    and "orchs_ok (w_orchs w)" "orch_ID o' = k"
    and "run_strategy E fuel o' ros w = (Some (Returned (0, None)), w')"
  shows "\<exists>o2. stored_orch k w' = Some o2 \<and> orch_IsFinished o2"
proof (cases "stored_orch k w")
  case None
  with assms show ?thesis by (simp add: run_strategy_def orch_Update_def)
next
  case (Some old)
  let ?w1 = "w\<lparr>w_orchs := assoc_set k o' (w_orchs w)\<rparr>"
  have upd: "orch_Update o' (w_orchs w) = (Inr (), assoc_set k o' (w_orchs w))"
    using orch_Update_known [of "w_orchs w" o'] Some assms(4) by simp
  have ok1: "orchs_ok (w_orchs ?w1)" using assms(3,4) by (simp add: orchs_ok_def)
  show ?thesis
  proof (cases "orch_IsFinished o'")
    case True
    with assms(5) upd show ?thesis by (auto simp: run_strategy_def Let_def)
  next
    case False
    obtain r w2 where x: "strategy_Execute (e_uuid E) (e_executor E) 0 ros (strategy_of o') ?w1 = (r, w2)" by fastforce
    then have w2: "orchs_ok (w_orchs w2)" using ok1 by (metis strategy_Execute_orchs snd_conv)
    from assms(5) upd False x obtain execID where r: "r = Returned (Inr execID)"
      by (cases r) (auto simp: run_strategy_def Let_def split: if_splits sum.split_asm)
    obtain c w3 where c: "waitForCompletion E fuel o' execID w2 = (c, w3)" by fastforce
    with assms(5) upd False x r obtain o2 where o2: "c = Some (Returned (Inr o2))"
      by (auto simp: run_strategy_def Let_def split: if_splits option.split_asm go_call.split_asm sum.split_asm)
    from wait_completion_finished [OF assms(1) w2, of fuel k execID "[execID]" False o2 w3] c o2 assms(4)
    have fin: "orch_ID o2 = k" "orch_IsFinished o2" "stored_orch k w3 \<noteq> None" by (auto simp: waitForCompletion_def)
    let ?o3 = "o2\<lparr>orch_UpdatedAt := instant (w_now w3)\<rparr>"
    have "orch_Update ?o3 (w_orchs w3) = (Inr (), assoc_set k ?o3 (w_orchs w3))"
      using orch_Update_known [of "w_orchs w3" ?o3] fin by simp
    with assms(5) upd False x r c o2 have "w' = w3\<lparr>w_orchs := assoc_set k ?o3 (w_orchs w3)\<rparr>"
      by (auto simp: run_strategy_def Let_def split: if_splits)
    with fin(2) show ?thesis by (simp add: orch_IsFinished_def)
  qed
qed

lemma wait_start_ok:
  assumes "\<And>w. orchs_ok (w_orchs w) \<Longrightarrow> orchs_ok (w_orchs (e_meanwhile E w))"
    and "orchs_ok (w_orchs w)" "wait_start E fuel policy o' un w = (r, w')"
  shows "orchs_ok (w_orchs w')"
  using assms(2,3)
proof (induction fuel arbitrary: o' un w)
  case (Suc fuel)
  obtain c w1 where p: "start_poll E policy o' un w = (c, w1)" by fastforce
  with framed_start_poll [of w E policy o' un] Suc.prems(1) have ok: "orchs_ok (w_orchs w1)" by (simp add: frame_def)
  from p Suc.prems(2) have "w' = w1 \<or> (\<exists>o2 un2. wait_start E fuel policy o2 un2 (e_meanwhile E w1) = (r, w'))"
    by (cases c) (auto split: sum.split_asm prod.split_asm if_splits)
  with ok Suc.IH [OF assms(1) [OF ok]] show ?case by blast
qed simp

text \<open>
  (C3) When the manager tells the queue that it is done with an orchestration, with no error and nothing to
  repeat, the orchestration is stored and is finished: it has succeeded, failed or been canceled.  This holds whatever happens between two polls
  as long as orchestrations stay stored under their own ids.
\<close>

theorem done_means_finished:
  assumes "\<And>w. orchs_ok (w_orchs w) \<Longrightarrow> orchs_ok (w_orchs (e_meanwhile E w))" and "pollingInterval E \<noteq> 0"
    and "orchs_ok (w_orchs w)" and "orch_Execute E fuel k w = (Some (Returned (0, None)), w')"
  shows "\<exists>o'. map_of (w_orchs w') k = Some o' \<and> orch_IsFinished o'"
proof (cases "stored_orch k w")
  case None
  with assms(4) show ?thesis by (simp add: orch_Execute_def orch_GetByID_def)
next
  case (Some o')
  then have id: "orch_ID o' = k" using assms(3) by (simp add: orchs_ok_def)
  obtain q w1 where q: "waitForStart E fuel o' w = (q, w1)" by fastforce
  then have ok: "orchs_ok (w_orchs w1)" using wait_start_ok [OF assms(1,3)] by (auto simp: waitForStart_def)
  from q assms(4) Some obtain r o1 where r: "q = Some (r, o1)" by (cases q) (auto simp: orch_Execute_def orch_GetByID_def)
  then have id1: "orch_ID o1 = k" using wait_start_orch [of E fuel _ o' "[]" w] q id by (auto simp: waitForStart_def)
  show ?thesis
  proof (cases "\<exists>ros n. r = Returned (Inr (ros, n))")
    case True
    then obtain ros n where "r = Returned (Inr (ros, n))" by blast
    with q r assms(4) Some have "run_strategy E fuel (started E n o1) ros w1 = (Some (Returned (0, None)), w')"
      by (simp add: orch_Execute_def orch_GetByID_def)
    from run_strategy_finished [OF assms(1,2) ok _ this] id1 show ?thesis by simp
  next
    case False
    with q r assms(4) Some obtain e where e: "r = Returned (Inl e)"
      by (cases r) (auto simp: orch_Execute_def orch_GetByID_def split: sum.split_asm)
    obtain t o2 w2 where f: "failOrchestration o1 (wrap ''failed while waiting start for operations'' e) w1 = (t, o2, w2)"
      by (metis prod_cases3)
    then have o2: "orch_ID o2 = k" "orchs_ok (w_orchs w2)"
      using id1 ok orchs_ok_Update [OF ok]
      by (auto simp: failOrchestration_def updateOrchestration_def Let_def split: prod.split_asm sum.split_asm)
    from f e q r assms(4) Some have "run_strategy E fuel (started E 0 o2) [] w2 = (Some (Returned (0, None)), w')"
      by (simp add: orch_Execute_def orch_GetByID_def)
    from run_strategy_finished [OF assms(1,2) o2(2) _ this] o2(1) show ?thesis by simp
  qed
qed

theorem done_means_finished_witness:
  "\<exists>w' o'. orch_Execute some_env 9 ''orch'' later_world = (Some (Returned (0, None)), w') \<and>
     map_of (w_orchs w') ''orch'' = Some o' \<and> orch_IsFinished o'"
proof -
  have "fst (orch_Execute some_env 9 ''orch'' later_world) = Some (Returned (0, None))" by code_simp
  then obtain w' where run: "orch_Execute some_env 9 ''orch'' later_world = (Some (Returned (0, None)), w')" by (metis prod.collapse)
  have "orchs_ok (w_orchs later_world)" by (simp add: orchs_ok_def later_world_def later_orchestration_def some_orchestration_def)
  from done_means_finished [OF _ _ this run] run show ?thesis by (simp add: some_env_def)
qed


text \<open>An orchestration in progress whose only upgrade has failed.\<close>

definition failed_world :: orch_world where
  "failed_world = some_world\<lparr>w_orchs := [(''orch'', some_orchestration\<lparr>orch_State := InProgress\<rparr>)],
     w_ops := \<lparr>operations = [], upgradeClusterOperations = [(''a'', upgrade_example OperationTypeUpgradeCluster ''a'' ''orch'' Failed)],
       updateOperations = []\<rparr>\<rparr>"


text \<open>
  (C10) The wait for the end of an orchestration ends.  If the orchestration stays stored and nobody asks for a retry, and after some polls its
  operations are all finished, then there is a result as soon as that many polls have been made, whether or not the orchestration
  was canceled meanwhile.
\<close>

theorem the_wait_for_the_end_ends:
  assumes "\<And>i. i \<le> n \<Longrightarrow> \<exists>o1. map_of (w_orchs ((e_meanwhile E ^^ i) w)) (orch_ID o') = Some o1 \<and> orch_ID o1 = orch_ID o' \<and>
             RetryOperations (retry_of o1) = []"
    and "not_finished (GetOperationStatsForOrchestration (e_visit E) (orch_ID o') (w_ops ((e_meanwhile E ^^ n) w))) = 0"
    and "n < fuel"
  shows "\<exists>r w'. waitForCompletion E fuel o' execID w = (Some r, w')"
proof -
  have "\<exists>r w'. wait_completion E fuel (orch_ID o') x xs c w = (Some r, w')" for x xs c
    using assms
  proof (induction fuel arbitrary: n x xs c w)
    case (Suc fuel)
    from Suc.prems(1) [of 0] obtain o1 where o1: "stored_orch (orch_ID o') w = Some o1" "orch_ID o1 = orch_ID o'"
      "RetryOperations (retry_of o1) = []" by auto
    define stats where "stats = GetOperationStatsForOrchestration (e_visit E) (orch_ID o') (w_ops w)"
    define q where "q = (if (if c \<or> orch_State o1 = Canceling then stats InProgress = 0 else not_finished stats = 0) then Some (o1, stats) else None)"
    have q: "completion_poll E (orch_ID o') x xs c w = (Returned (Inr (x, xs, c \<or> orch_State o1 = Canceling, q)), w)"
      using o1 by (simp add: completion_poll_def orch_GetByID_def q_def stats_def)
    have none: "n = 0 \<Longrightarrow> q \<noteq> None" using Suc.prems(2) by (auto simp: q_def stats_def not_finished_def)
    show ?case
    proof (cases q)
      case (Some y)
      with q show ?thesis by (cases y) (auto split: prod.split)
    next
      case None
      then obtain j where j: "n = Suc j" using none by (cases n) auto
      have "\<exists>r w'. wait_completion E fuel (orch_ID o') x xs (c \<or> orch_State o1 = Canceling) (e_meanwhile E w) = (Some r, w')"
        by (rule Suc.IH [of j]) (use Suc.prems j in \<open>force simp: funpow_swap1\<close>)+
      with q None show ?thesis by simp
    qed
  qed simp
  then show ?thesis by (simp add: waitForCompletion_def)
qed

theorem the_wait_for_the_end_ends_witness:
  "\<exists>r w'. waitForCompletion some_env 1 some_orchestration [] failed_world = (Some r, w')"
proof (rule the_wait_for_the_end_ends [of 0])
  show "not_finished (GetOperationStatsForOrchestration (e_visit some_env) (orch_ID some_orchestration) (w_ops ((e_meanwhile some_env ^^ 0) failed_world))) = 0"
    by code_simp
qed (simp_all add: failed_world_def some_orchestration_def some_parameters_orch_def)

section \<open>Cancellation\<close>

definition shut :: "string \<Rightarrow> orch_world \<Rightarrow> bool" where
  "shut x w = (case map_of (w_execs w) x of Some ex \<Rightarrow> ShuttingDown (dq ex) \<and> ShuttingDown (pq ex) | None \<Rightarrow> True)"

lemma shut_Cancel: "x \<noteq> [] \<Longrightarrow> shut x (strategy_Cancel x w)" "shut x w \<Longrightarrow> shut x (strategy_Cancel y w)"
  by (auto simp: shut_def strategy_Cancel_def ShuttingDown_def split: option.splits)

lemma shut_fold: "shut x w \<or> x \<in> set xs \<and> x \<noteq> [] \<Longrightarrow> shut x (fold strategy_Cancel xs w)"
proof (induction xs arbitrary: w)
  case (Cons y xs)
  then have "shut x (strategy_Cancel y w) \<or> x \<in> set xs \<and> x \<noteq> []" by (auto simp: shut_Cancel)
  from Cons.IH [OF this] show ?case by simp
qed simp

text \<open>
  (C13) The end of a cluster orchestration that was canceled: its pending operations, and no others,
  become canceled, every execution it had is shut down, and the orchestration is canceled.  With notifications the event is
  canceled, but no operation records that: the operations to be marked are looked up among the pending ones, and by then there is none.
\<close>

theorem cancellation_leaves_nothing_behind:
  assumes "kind_of E = cluster_kind" and "visits_all (e_visit E)" and "orch_ID o' \<noteq> []" and "store_ok (w_ops w)"
    and "orch_State o' = Canceling" and "\<And>ev w. e_bundle E ev w = None"
  shows "\<exists>w'. resolveOrchestration E o' execIDs stats w = (Returned (Inr (o'\<lparr>orch_State := Canceled\<rparr>)), w') \<and>
    (\<forall>k. map_of (upgradeClusterOperations (w_ops w')) k =
       map_option (\<lambda>op. if OrchestrationID op = orch_ID o' \<and> State op = Pending
         then op\<lparr>State := Canceled, Description := ''Operation was canceled'', Version := Version op + 1\<rparr> else op)
       (map_of (upgradeClusterOperations (w_ops w)) k)) \<and>
    list_all (\<lambda>x. x = [] \<or> shut x w') execIDs \<and>
    w_events w' = (if Notification (orch_Parameters o') then w_events w @ [CancelEvent (orch_ID o')] else w_events w)"
proof -
  from cluster_upgrade.CancelOperations_done [OF assms(2-4)] obtain s'
    where s': "CancelOperations cluster_kind (e_visit E) (orch_ID o') (w_ops w) = (Returned (Inr ()), s')"
      "map_of (upgradeClusterOperations s') = (\<lambda>k. map_option (\<lambda>op. if cluster_of (orch_ID o') op \<and> State op = Pending
         then newer (cancel_operation op) else op) (map_of (upgradeClusterOperations (w_ops w)) k))" by blast
  note canceled = s'(2) [unfolded cluster_of_def newer_cancel]
  from cluster_upgrade.nothing_pending [OF assms(2-4)] s'(1)
  have q: "QueryOperations cluster_kind (e_visit E) (orch_ID o') s' = (Returned (Inr []), s')" by auto
  define w2 where "w2 = fold strategy_Cancel execIDs (w\<lparr>w_ops := s'\<rparr>)"
  have w2: "w_ops w2 = s'" "w_events w2 = w_events w" by (simp_all add: w2_def)
  let ?w' = "if Notification (orch_Parameters o') then w2\<lparr>w_events := w_events w @ [CancelEvent (orch_ID o')]\<rparr> else w2"
  have "notify_cancellation E o' w2 = (Returned (Inr ()), w2\<lparr>w_events := w_events w @ [CancelEvent (orch_ID o')]\<rparr>)"
    using assms(1,6) q w2
    by (simp add: notify_cancellation_def on_ops_def sendNotificationCancel_def send_def only_temporary_def)
  then have "resolveOrchestration E o' execIDs stats w = (Returned (Inr (o'\<lparr>orch_State := Canceled\<rparr>)), ?w')"
    using assms(1,5) s'(1) by (simp add: resolveOrchestration_def on_ops_def w2_def)
  moreover have "list_all (\<lambda>x. x = [] \<or> shut x ?w') execIDs"
    using shut_fold [of _ "w\<lparr>w_ops := s'\<rparr>" execIDs] by (auto simp: list_all_iff w2_def shut_def)
  ultimately show ?thesis using w2 by (auto simp: canceled)
qed

theorem cancellation_leaves_nothing_behind_witness:
  "\<exists>w'. resolveOrchestration some_env (some_orchestration\<lparr>orch_State := Canceling\<rparr>) [] (\<lambda>st. 0)
       (some_world\<lparr>w_ops := two_clusters\<lparr>upgradeClusterOperations := [(''a'', upgrade_example OperationTypeUpgradeCluster ''a'' ''orch'' Pending)]\<rparr>\<rparr>) =
       (Returned (Inr (some_orchestration\<lparr>orch_State := Canceled\<rparr>)), w') \<and>
     map_option State (map_of (upgradeClusterOperations (w_ops w')) ''a'') = Some Canceled"
proof -
  let ?w = "some_world\<lparr>w_ops := two_clusters\<lparr>upgradeClusterOperations := [(''a'', upgrade_example OperationTypeUpgradeCluster ''a'' ''orch'' Pending)]\<rparr>\<rparr>"
  have "store_ok (w_ops ?w)" by (simp add: store_ok_def map_ok_def two_clusters_def)
  with cancellation_leaves_nothing_behind [of some_env "some_orchestration\<lparr>orch_State := Canceling\<rparr>" ?w "[]" "\<lambda>st. 0"]
  show ?thesis by (auto simp: some_env_def upgradeClusterFactory_def some_orchestration_def)
qed

section \<open>Retries while the orchestration runs\<close>

text \<open>
  (C30) A retry that is asked for after the last operation has finished is carried out, but not waited for: the counters were
  read before the new operations were created.  The wait ends at once, the outcome is that of the old operations, and the new
  ones are left pending.
\<close>

theorem late_retry_is_not_awaited:
  assumes "map_of (w_orchs w) k = Some o'" and "orch_State o' = InProgress"
    and "not_finished (GetOperationStatsForOrchestration (e_visit E) (orch_ID o') (w_ops w)) = 0"
    and "RetryOperations (retry_of o') \<noteq> []" and "handle_retry E o' x xs w = (Returned (Inr (x1, xs1, o1, True)), w1)"
  shows "wait_completion E (Suc fuel) k x xs False w =
     (Some (Returned (Inr (o1\<lparr>orch_State :=
        (if 0 < GetOperationStatsForOrchestration (e_visit E) (orch_ID o') (w_ops w) Failed then Failed else Succeeded)\<rparr>))), w1)"
proof -
  have st: "orch_State o1 \<noteq> Canceling" "orch_State o' \<noteq> Canceling"
    using handle_retry_Inr [OF assms(5)] assms(2) by (simp_all add: op_states)
  then have "completion_poll E k x xs False w =
      (Returned (Inr (x1, xs1, False, Some (o1, GetOperationStatsForOrchestration (e_visit E) (orch_ID o') (w_ops w)))), w1)"
    using assms by (simp add: completion_poll_def orch_GetByID_def)
  with st show ?thesis by (simp add: resolveOrchestration_def)
qed

text \<open>The only upgrade has failed, and is to be retried.\<close>

definition retried_orchestration :: orchestration where
  "retried_orchestration = some_orchestration\<lparr>orch_State := InProgress,
     orch_Parameters := some_parameters_orch\<lparr>param_Retry := \<lparr>RetryOperations = [''a''], Immediate = False\<rparr>\<rparr>\<rparr>"

definition retried_world :: orch_world where
  "retried_world = some_world\<lparr>w_orchs := [(''orch'', retried_orchestration)],
     w_ops := \<lparr>operations = [], upgradeClusterOperations =
         [(''a'', (upgrade_example OperationTypeUpgradeCluster ''a'' ''orch'' Failed)\<lparr>RuntimeOperation := some_ro\<rparr>)], updateOperations = []\<rparr>,
     w_insts := [(''i'', some_instance)], w_execs := [(''e'', new_execution)]\<rparr>"

definition retried_env :: orch_env where
  "retried_env = some_env\<lparr>e_resolve := \<lambda>targets w. Inr [some_runtime]\<rparr>"

theorem late_retry_is_not_awaited_witness:
  "\<exists>o2 w'. wait_completion retried_env 1 ''orch'' ''e'' [''e''] False retried_world = (Some (Returned (Inr o2)), w') \<and>
     orch_State o2 = Failed \<and> GetOperationStatsForOrchestration (\<lambda>m. m) ''orch'' (w_ops w') Pending = 1"
proof -
  have "case handle_retry retried_env retried_orchestration ''e'' [''e''] retried_world of
      (Returned (Inr (x1, xs1, o1, go_on)), w1) \<Rightarrow> go_on \<and> GetOperationStatsForOrchestration (\<lambda>m. m) ''orch'' (w_ops w1) Pending = 1
    | _ \<Rightarrow> False"
    by code_simp
  then obtain x1 xs1 o1 w1 where r: "handle_retry retried_env retried_orchestration ''e'' [''e''] retried_world =
      (Returned (Inr (x1, xs1, o1, True)), w1)" "GetOperationStatsForOrchestration (\<lambda>m. m) ''orch'' (w_ops w1) Pending = 1"
    by (auto split: prod.split_asm go_call.split_asm sum.split_asm)
  have s: "not_finished (GetOperationStatsForOrchestration (e_visit retried_env) (orch_ID retried_orchestration) (w_ops retried_world)) = 0"
    "0 < GetOperationStatsForOrchestration (e_visit retried_env) (orch_ID retried_orchestration) (w_ops retried_world) Failed"
    by code_simp+
  have o': "map_of (w_orchs retried_world) ''orch'' = Some retried_orchestration" "orch_State retried_orchestration = InProgress"
    "RetryOperations (retry_of retried_orchestration) \<noteq> []"
    by (simp_all add: retried_world_def retried_orchestration_def some_orchestration_def some_parameters_orch_def)
  from late_retry_is_not_awaited [OF o'(1,2) s(1) o'(3) r(1), of 0] s(2) r(2) show ?thesis by simp
qed

section \<open>Repeated polls\<close>

text \<open>
  The flag that asks for an immediate retry of a failed orchestration works the other way round: without it the operations get no window
  and are processed at once, and with it they get the next maintenance window.
\<close>

lemma immediate_retry_is_inverted:
  assumes "orch_State o' = Retrying" "MaintenanceWindow (strategy_of o')" "ro_Runtime ro = planned_runtime E o' policy True now r"
  shows "\<not> Immediate (retry_of o') \<Longrightarrow> instant zero_time \<le> instant now' \<Longrightarrow>
      \<exists>d. updateMaintenanceWindow X delay (strategy_of o') now' ro s = (Inr d, ro, s) \<and> d \<le> 0"
    and "Immediate (retry_of o') \<Longrightarrow> (MaintenanceWindowBegin (ro_Runtime ro), MaintenanceWindowEnd (ro_Runtime ro), MaintenanceDays (ro_Runtime ro)) =
      resolveMaintenanceWindowTime (e_lib E) r policy (ScheduleTime (strategy_of o')) now"
proof -
  have "Retrying \<noteq> Pending" by (simp add: op_states)
  with assms show "\<not> Immediate (retry_of o') \<Longrightarrow> instant zero_time \<le> instant now' \<Longrightarrow>
      \<exists>d. updateMaintenanceWindow X delay (strategy_of o') now' ro s = (Inr d, ro, s) \<and> d \<le> 0"
    and "Immediate (retry_of o') \<Longrightarrow> (MaintenanceWindowBegin (ro_Runtime ro), MaintenanceWindowEnd (ro_Runtime ro), MaintenanceDays (ro_Runtime ro)) =
      resolveMaintenanceWindowTime (e_lib E) r policy (ScheduleTime (strategy_of o')) now"
    by (simp_all add: planned_runtime_def updateMaintenanceWindow_def window_over_def IsZero_def Let_def split: prod.split)
qed

text \<open>
  The operations that were notified in one poll are in the list of the next one, and the event that is sent then has them again.
\<close>

lemma notified_again:
  assumes "start_poll E policy o' un w = (Returned (Inr (ros, o1, count', un')), w')"
  shows "\<exists>more. un' = un @ more"
  using assms by (auto simp: start_poll_def and_go_Inr Let_def split: if_splits)

text \<open>All operations of an instance, and the instance itself, agree with the runtime on its id.\<close>

definition agree :: "runtime \<Rightarrow> orch_world \<Rightarrow> bool" where
  "agree r w =
     (list_all (\<lambda>op. InstanceID op = rt_InstanceID r \<longrightarrow> RuntimeID (InstanceDetails op) = rt_RuntimeID r)
        (map snd (operations (w_ops w) @ upgradeClusterOperations (w_ops w) @ updateOperations (w_ops w))) \<and>
      (case map_of (w_insts w) (rt_InstanceID r) of Some i \<Rightarrow> RuntimeID (inst_Details i) = rt_RuntimeID r | None \<Rightarrow> True))"

lemma agree_instance:
  assumes "visits_all visit" "agree r w" "inst_GetByID visit (rt_InstanceID r) (w_insts w) (w_ops w) = Inr i"
  shows "RuntimeID (inst_Details i) = rt_RuntimeID r"
proof (cases "GetLastOperation visit (rt_InstanceID r) (w_ops w)")
  case (Inl e)
  with assms(2,3) show ?thesis by (auto simp: inst_GetByID_def agree_def split: option.splits if_splits)
next
  case (Inr op)
  then obtain rest where "newest_first (of_instance visit (\<lambda>op. State op \<noteq> Pending) (rt_InstanceID r) (operations (w_ops w))
      @ of_instance visit (\<lambda>op. State op \<noteq> Pending) (rt_InstanceID r) (upgradeClusterOperations (w_ops w))
      @ of_instance visit (\<lambda>op. State op \<noteq> Pending) (rt_InstanceID r) (updateOperations (w_ops w))) = op # rest"
    by (auto simp: GetLastOperation_def Let_def split: list.splits)
  from newest_first_hd(1) [OF this] have "InstanceID op = rt_InstanceID r"
    "op \<in> snd ` (set (operations (w_ops w)) \<union> set (upgradeClusterOperations (w_ops w)) \<union> set (updateOperations (w_ops w)))"
    using set_visit [OF assms(1)] by (auto simp: of_instance_def)
  then have "RuntimeID (InstanceDetails op) = rt_RuntimeID r" using assms(2) by (auto simp: agree_def list_all_iff)
  with assms(3) Inr show ?thesis by (auto simp: inst_GetByID_def json_details_def split: option.splits)
qed

definition has_pending :: "string \<Rightarrow> runtime \<Rightarrow> memory_operations \<Rightarrow> bool" where
  "has_pending k r s = (\<exists>op. map_of (upgradeClusterOperations s) (op_ID op) = Some op \<and> OrchestrationID op = k \<and> State op = Pending \<and>
     RuntimeID (InstanceDetails op) = rt_RuntimeID r)"

lemma QueryOperation_pending:
  assumes "visits_all visit" "k \<noteq> []" "store_ok s"
  shows "\<exists>found. QueryOperation cluster_kind visit k r s = (Returned (Inr found), s) \<and> (found \<noteq> None \<longleftrightarrow> has_pending k r s)"
proof -
  from cluster_upgrade.listed [OF assms, of "[Pending]"] obtain ops where "in_states cluster_kind visit k [Pending] s = (Returned (Inr ops), s)"
    "set ops = {op. map_of (upgradeClusterOperations s) (op_ID op) = Some op \<and> OrchestrationID op = k \<and> State op = Pending}"
    by (auto simp: matchFilter_def cluster_of_def)
  then show ?thesis
    by (cases "find (\<lambda>op. RuntimeID (InstanceDetails op) = rt_RuntimeID r) ops")
       (auto simp: QueryOperation_def has_pending_def find_None_iff find_Some_iff intro: nth_mem)
qed

lemma planned_runtime_ids [simp]:
  "rt_InstanceID (planned_runtime E o' policy uw now r) = rt_InstanceID r"
  "rt_RuntimeID (planned_runtime E o' policy uw now r) = rt_RuntimeID r"
  by (simp_all add: planned_runtime_def Let_def split: prod.split)

text \<open>What stays true while operations are created for the runtimes \<open>all\<close>.\<close>

definition creating :: "runtime list \<Rightarrow> orch_world \<Rightarrow> bool" where
  "creating all w = (store_ok (w_ops w) \<and> list_all (\<lambda>r. agree r w) all)"

lemma create_operation_pending:
  assumes E: "e_factory E = upgradeClusterFactory" "visits_all (e_visit E)" and "creating all w" "r \<in> set all"
    and run: "create_operation E o' policy uw r w = (Returned (Inr ro), w1)"
  shows "creating all w1 \<and> has_pending (orch_ID o') r (w_ops w1) \<and> (\<forall>r'. has_pending k r' (w_ops w) \<longrightarrow> has_pending k r' (w_ops w1))"
proof -
  let ?r = "planned_runtime E o' policy uw (w_now w) r" and ?id = "e_uuid E (w_ids w)"
  from run obtain i where i: "inst_GetByID (e_visit E) (rt_InstanceID r) (w_insts w) (w_ops w) = Inr i"
    by (auto simp: create_operation_def Let_def split: sum.splits)
  define op where "op = upgrade_operation OperationTypeUpgradeCluster o' ?r i (inst_Details i) Pending ?id (instant (w_now w))"
  define m where "m = assoc_set ?id op (upgradeClusterOperations (w_ops w))"
  from run i E(1) have new: "map_of (upgradeClusterOperations (w_ops w)) ?id = None"
    and w1: "w1 = w\<lparr>w_ids := w_ids w + 1, w_ops := (w_ops w)\<lparr>upgradeClusterOperations := m\<rparr>\<rparr>"
    by (auto simp: create_operation_def Let_def upgradeClusterFactory_def on_ops_def cluster_NewOperation_def InsertUpgradeClusterOperation_def
        insert_new_def op_def m_def split: option.splits)
  have same: "RuntimeID (InstanceDetails op) = rt_RuntimeID r'" if "InstanceID op = rt_InstanceID r'" "r' \<in> set all" for r'
    using that agree_instance [OF E(2), of r' w i] i assms(3) by (auto simp: op_def creating_def list_all_iff)
  have "store_ok (w_ops w1)" using assms(3) by (simp add: creating_def w1 store_ok_def m_def map_ok_assoc_set op_def)
  moreover have "agree r' w1" if "r' \<in> set all" for r'
  proof -
    define P where "P = (\<lambda>op' :: operation. InstanceID op' = rt_InstanceID r' \<longrightarrow> RuntimeID (InstanceDetails op') = rt_RuntimeID r')"
    have old: "agree r' w" using that assms(3) by (simp add: creating_def list_all_iff)
    then have "list_all P (map snd (upgradeClusterOperations (w_ops w)))" by (simp add: agree_def P_def)
    then have before: "P x" if "(j, x) \<in> set (upgradeClusterOperations (w_ops w))" for j x using that by (force simp: list_all_iff)
    have new_op: "P op" using same [OF _ that] by (simp add: P_def)
    have "P x" if "(j, x) \<in> set m" for j x
      using set_assoc_set [of ?id op "upgradeClusterOperations (w_ops w)"] that before new_op unfolding m_def by (metis insertE prod.inject subsetD)
    then have "list_all P (map snd m)" by (auto simp: list_all_iff)
    with old show ?thesis by (simp add: agree_def P_def w1)
  qed
  moreover have "has_pending (orch_ID o') r (w_ops w1)"
    using same [OF _ assms(4)] by (auto simp: has_pending_def w1 m_def op_def intro!: exI [of _ op])
  moreover have "has_pending k r' (w_ops w1)" if "has_pending k r' (w_ops w)" for r'
  proof -
    from that obtain op' where "map_of (upgradeClusterOperations (w_ops w)) (op_ID op') = Some op'" "OrchestrationID op' = k"
      "State op' = Pending" "RuntimeID (InstanceDetails op') = rt_RuntimeID r'" by (auto simp: has_pending_def)
    moreover from this new have "op_ID op' \<noteq> ?id" by auto
    ultimately show ?thesis by (auto simp: has_pending_def w1 m_def intro!: exI [of _ op'])
  qed
  ultimately show ?thesis by (simp add: creating_def list_all_iff)
qed

lemma new_operations_pending:
  assumes E: "e_factory E = upgradeClusterFactory" "visits_all (e_visit E)" and o': "orch_ID o' \<noteq> []" "orch_State o' = Pending"
  shows "creating all w \<Longrightarrow> set rs \<subseteq> set all \<Longrightarrow> new_operations E o' policy uw rs w = (Returned (Inr ros), w1) \<Longrightarrow>
    creating all w1 \<and> list_all (\<lambda>r. has_pending (orch_ID o') r (w_ops w1)) rs \<and>
    (\<forall>r'. has_pending (orch_ID o') r' (w_ops w) \<longrightarrow> has_pending (orch_ID o') r' (w_ops w1))"
proof (induction rs arbitrary: w ros)
  case (Cons r rs)
  have "store_ok (w_ops w)" using Cons.prems(1) by (simp add: creating_def)
  from QueryOperation_pending [OF E(2) o'(1) this, of r] obtain found
    where found: "QueryOperation cluster_kind (e_visit E) (orch_ID o') r (w_ops w) = (Returned (Inr found), w_ops w)"
      "found \<noteq> None \<longleftrightarrow> has_pending (orch_ID o') r (w_ops w)" by blast
  then have q: "on_ops (QueryOperation (kind_of E) (e_visit E) (orch_ID o') r) w = (Returned (Inr found), w)"
    by (simp add: on_ops_def E(1) upgradeClusterFactory_def)
  from Cons.prems(3) q o'(2) obtain ro w2 ros'
    where step: "case found of Some ro' \<Rightarrow> w2 = w | None \<Rightarrow> create_operation E o' policy uw r w = (Returned (Inr ro), w2)"
      and rest: "new_operations E o' policy uw rs w2 = (Returned (Inr ros'), w1)"
    by (auto simp: and_go_Inr split: option.splits)
  have r: "r \<in> set all" and rs: "set rs \<subseteq> set all" using Cons.prems(2) by auto
  have now: "creating all w2 \<and> has_pending (orch_ID o') r (w_ops w2) \<and>
      (\<forall>r'. has_pending (orch_ID o') r' (w_ops w) \<longrightarrow> has_pending (orch_ID o') r' (w_ops w2))"
  proof (cases found)
    case None
    with step have "create_operation E o' policy uw r w = (Returned (Inr ro), w2)" by simp
    from create_operation_pending [OF E Cons.prems(1) r this] show ?thesis by blast
  qed (use step found(2) Cons.prems(1) in auto)
  from Cons.IH [OF conjunct1 [OF now] rs rest] now show ?case by auto
qed simp

lemma new_operations_idle:
  assumes E: "e_factory E = upgradeClusterFactory" "visits_all (e_visit E)" and o': "orch_ID o' \<noteq> []" "orch_State o' = Pending"
    and "store_ok (w_ops w)" "list_all (\<lambda>r. has_pending (orch_ID o') r (w_ops w)) rs"
  shows "\<exists>ros. new_operations E o' policy uw rs w = (Returned (Inr ros), w) \<and> length ros = length rs"
  using assms(6)
proof (induction rs)
  case (Cons r rs)
  from QueryOperation_pending [OF E(2) o'(1) assms(5), of r] Cons.prems obtain ro
    where "QueryOperation cluster_kind (e_visit E) (orch_ID o') r (w_ops w) = (Returned (Inr (Some ro)), w_ops w)" by auto
  then have "on_ops (QueryOperation (kind_of E) (e_visit E) (orch_ID o') r) w = (Returned (Inr (Some ro)), w)"
    by (simp add: on_ops_def E(1) upgradeClusterFactory_def)
  with Cons o'(2) show ?case by auto
qed simp

lemma new_operations_length: "new_operations E o' policy uw rs w = (Returned (Inr ros), w1) \<Longrightarrow> length ros = length rs"
  by (induction rs arbitrary: w ros) (auto simp: and_go_Inr)


definition one_runtime_world :: orch_world where
  "one_runtime_world = some_world\<lparr>w_insts := [(''i'', some_instance\<lparr>inst_Details := no_details\<lparr>RuntimeID := ''r''\<rparr>\<rparr>)]\<rparr>"


end
