(* ===== verification/Runtime_State.thy ===== *)
theory Runtime_State
  imports Operation_Lists Instance_Storage
begin

text \<open>
  The state of a runtime as it is shown to clients (\<^verbatim>\<open>src/common/runtime/model.go\<close>), its computation from the
  operations of an instance (\<^verbatim>\<open>src/internal/runtime/converter.go\<close>) and the list of all runtimes that
  orchestrations start from (\<^verbatim>\<open>src/internal/orchestration/runtime_lister.go\<close>).

  Times of operations are integers as in the storage, and the zero value is 0.  The configurations of Kyma, of the cluster
  and of Gardener are not fields of the model; no function here reads or writes them.
\<close>

section \<open>Data\<close>

datatype runtime_op_type = RtNone | RtProvision | RtDeprovision | RtUpgradeKyma | RtUpgradeCluster | RtUpdate | RtSuspension | RtUnsuspension

datatype runtime_state =
    StateNone | StateSucceeded | StateFailed | StateError | StateProvisioning | StateDeprovisioning | StateDeprovisioned
  | StateDeprovisionIncomplete | StateUpgrading | StateUpdating | StateSuspended

record dto_operation =
  dop_State :: string
  dop_Type :: runtime_op_type
  dop_Description :: string
  dop_CreatedAt :: int
  dop_UpdatedAt :: int
  dop_OperationID :: string
  dop_OrchestrationID :: string
  dop_FinishedStages :: "string list"
  dop_ExecutedButNotCompletedSteps :: "string list"
  dop_RuntimeVersion :: string

record operations_data =
  od_Data :: "dto_operation list"
  od_TotalCount :: int
  od_Count :: int

record runtime_status =
  status_CreatedAt :: int
  status_ModifiedAt :: int
  status_ExpiredAt :: "int option"
  status_DeletedAt :: "int option"
  status_State :: runtime_state
  Provisioning :: "dto_operation option"
  Deprovisioning :: "dto_operation option"
  UpgradingKyma :: "operations_data option"
  UpgradingCluster :: "operations_data option"
  Updating :: "operations_data option"
  Suspension :: "operations_data option"
  Unsuspension :: "operations_data option"

record runtime_dto =
  dto_InstanceID :: string
  dto_RuntimeID :: string
  dto_GlobalAccountID :: string
  dto_SubscriptionGlobalAccountID :: string
  dto_SubAccountID :: string
  dto_ProviderRegion :: string
  dto_SubAccountRegion :: string
  dto_ShootName :: string
  dto_ServiceClassID :: string
  dto_ServiceClassName :: string
  dto_ServicePlanID :: string
  dto_ServicePlanName :: string
  dto_Provider :: string
  dto_Status :: runtime_status
  dto_UserID :: string

definition no_dto_operation :: dto_operation where
  "no_dto_operation = \<lparr>dop_State = [], dop_Type = RtNone, dop_Description = [], dop_CreatedAt = 0, dop_UpdatedAt = 0, dop_OperationID = [],
     dop_OrchestrationID = [], dop_FinishedStages = [], dop_ExecutedButNotCompletedSteps = [], dop_RuntimeVersion = []\<rparr>"

section \<open>The last operation\<close>

definition and_call :: "'a go_call \<Rightarrow> ('a \<Rightarrow> 'b go_call) \<Rightarrow> 'b go_call" where
  "and_call m f = (case m of Returned a \<Rightarrow> f a | Panicked v \<Rightarrow> Panicked v)"

lemma and_call_simps [simp]: "and_call (Returned a) f = f a" "and_call (Panicked v) f = Panicked v"
  by (simp_all add: and_call_def)

lemma and_call_Returned: "and_call m f = Returned b \<longleftrightarrow> (\<exists>a. m = Returned a \<and> f a = Returned b)"
  by (cases m) auto

text \<open>The first element of a list of operations with a positive counter, if it is newer than \<open>op\<close>, or in any case.\<close>

definition first_if_newer :: "bool \<Rightarrow> runtime_op_type \<Rightarrow> operations_data option \<Rightarrow> dto_operation \<Rightarrow> dto_operation go_call" where
  "first_if_newer always ty data op =
     (case data of
        None \<Rightarrow> Returned op
      | Some d \<Rightarrow>
          if 0 < od_Count d
          then (case od_Data d of
                  [] \<Rightarrow> Panicked ''index out of range''
                | x # _ \<Rightarrow> Returned (if always \<or> dop_CreatedAt op < dop_CreatedAt x then x\<lparr>dop_Type := ty\<rparr> else op))
          else Returned op)"

definition dto_LastOperation :: "runtime_dto \<Rightarrow> dto_operation go_call" where
  "dto_LastOperation rt =
     (let st = dto_Status rt;
          op = (case Provisioning st of Some p \<Rightarrow> p\<lparr>dop_Type := RtProvision\<rparr> | None \<Rightarrow> no_dto_operation)
      in and_call (first_if_newer True RtUpgradeCluster (UpgradingCluster st) op) (\<lambda>op.
         and_call (first_if_newer False RtUpgradeKyma (UpgradingKyma st) op) (\<lambda>op.
         and_call (first_if_newer False RtUnsuspension (Unsuspension st) op) (\<lambda>op.
         and_call (first_if_newer False RtSuspension (Suspension st) op) (\<lambda>op.
         (let op = (case Deprovisioning st of
                      Some d \<Rightarrow> if dop_CreatedAt op < dop_CreatedAt d then d\<lparr>dop_Type := RtDeprovision\<rparr> else op
                    | None \<Rightarrow> op)
          in first_if_newer False RtUpdate (Updating st) op))))))"

section \<open>The converter\<close>

definition applyOperation :: "operation \<Rightarrow> dto_operation \<Rightarrow> dto_operation" where
  "applyOperation source target =
     target\<lparr>dop_OperationID := op_ID source, dop_CreatedAt := CreatedAt source, dop_UpdatedAt := UpdatedAt source, dop_State := State source,
       dop_Description := Description source, dop_OrchestrationID := OrchestrationID source,
       dop_RuntimeVersion := rv_Version (RuntimeVersion source), dop_FinishedStages := FinishedStages source,
       dop_ExecutedButNotCompletedSteps := ExcutedButNotCompleted source\<rparr>"

text \<open>An operation in progress of no type leaves the state as it was.\<close>

definition state_of_last :: "dto_operation \<Rightarrow> runtime_state \<Rightarrow> runtime_state" where
  "state_of_last lastOp old =
     (if dop_State lastOp = Succeeded
      then (case dop_Type lastOp of
              RtSuspension \<Rightarrow> StateSuspended
            | RtDeprovision \<Rightarrow> if dop_ExecutedButNotCompletedSteps lastOp = [] then StateDeprovisioned else StateDeprovisionIncomplete
            | _ \<Rightarrow> StateSucceeded)
      else if dop_State lastOp = Failed
      then (case dop_Type lastOp of RtUpgradeKyma \<Rightarrow> StateError | RtUpgradeCluster \<Rightarrow> StateError | RtUpdate \<Rightarrow> StateError | _ \<Rightarrow> StateFailed)
      else if dop_State lastOp = InProgress
      then (case dop_Type lastOp of
              RtProvision \<Rightarrow> StateProvisioning | RtUnsuspension \<Rightarrow> StateProvisioning
            | RtDeprovision \<Rightarrow> StateDeprovisioning | RtSuspension \<Rightarrow> StateDeprovisioning
            | RtUpgradeKyma \<Rightarrow> StateUpgrading | RtUpgradeCluster \<Rightarrow> StateUpgrading
            | RtUpdate \<Rightarrow> StateUpdating
            | RtNone \<Rightarrow> old)
      else StateSucceeded)"

definition first_of_data :: "operations_data \<Rightarrow> dto_operation go_call" where
  "first_of_data d = (case od_Data d of [] \<Rightarrow> Panicked ''index out of range'' | x # _ \<Rightarrow> Returned x)"

text \<open>A suspension that was not followed by an unsuspension decides in the end.\<close>

definition suspended_state :: "runtime_status \<Rightarrow> runtime_state \<Rightarrow> runtime_state go_call" where
  "suspended_state st old =
     (let by_suspension = (\<lambda>x. Returned (if dop_State x = InProgress then StateDeprovisioning
                                         else if dop_State x = Failed then StateFailed else StateSuspended))
      in case Suspension st of
           None \<Rightarrow> Returned old
         | Some s \<Rightarrow>
             if 0 < od_Count s
             then (case Unsuspension st of
                     None \<Rightarrow> and_call (first_of_data s) by_suspension
                   | Some u \<Rightarrow>
                       if 0 < od_Count u
                       then and_call (first_of_data u) (\<lambda>y. and_call (first_of_data s) (\<lambda>x.
                              if dop_CreatedAt y < dop_CreatedAt x then by_suspension x else Returned old))
                       else Returned old)
             else Returned old)"

definition adjustRuntimeState :: "runtime_dto \<Rightarrow> runtime_dto go_call" where
  "adjustRuntimeState dto =
     and_call (dto_LastOperation dto) (\<lambda>lastOp.
     and_call (suspended_state (dto_Status dto) (state_of_last lastOp (status_State (dto_Status dto)))) (\<lambda>st.
       Returned (dto\<lparr>dto_Status := (dto_Status dto)\<lparr>status_State := st\<rparr>\<rparr>)))"

definition on_status :: "(runtime_status \<Rightarrow> runtime_status) \<Rightarrow> runtime_dto \<Rightarrow> runtime_dto" where
  "on_status f dto = dto\<lparr>dto_Status := f (dto_Status dto)\<rparr>"

definition ApplyProvisioningOperation :: "operation \<Rightarrow> runtime_dto \<Rightarrow> runtime_dto go_call" where
  "ApplyProvisioningOperation op dto =
     adjustRuntimeState (on_status (\<lambda>st. st\<lparr>Provisioning := Some (applyOperation op no_dto_operation)\<rparr>) dto)"

definition ApplyDeprovisioningOperation :: "operation \<Rightarrow> runtime_dto \<Rightarrow> runtime_dto go_call" where
  "ApplyDeprovisioningOperation op dto =
     (if State op = Pending then Returned dto
      else adjustRuntimeState (on_status (\<lambda>st. st\<lparr>Deprovisioning := Some (applyOperation op no_dto_operation)\<rparr>) dto))"

definition data_of :: "operation list \<Rightarrow> int \<Rightarrow> operations_data" where
  "data_of ops totalCount =
     \<lparr>od_Data = map (\<lambda>op. applyOperation op no_dto_operation) ops, od_TotalCount = totalCount, od_Count = int (length ops)\<rparr>"

definition ApplyUpgradingKymaOperations :: "operation list \<Rightarrow> int \<Rightarrow> runtime_dto \<Rightarrow> runtime_dto go_call" where
  "ApplyUpgradingKymaOperations ops totalCount dto =
     (if ops = [] then Returned dto
      else adjustRuntimeState (on_status (\<lambda>st. st\<lparr>UpgradingKyma := Some (data_of ops totalCount)\<rparr>) dto))"

definition ApplyUpgradingClusterOperations :: "operation list \<Rightarrow> int \<Rightarrow> runtime_dto \<Rightarrow> runtime_dto go_call" where
  "ApplyUpgradingClusterOperations ops totalCount dto =
     (if ops = [] then Returned dto
      else adjustRuntimeState (on_status (\<lambda>st. st\<lparr>UpgradingCluster := Some (data_of ops totalCount)\<rparr>) dto))"

definition ApplyUpdateOperations :: "operation list \<Rightarrow> int \<Rightarrow> runtime_dto \<Rightarrow> runtime_dto go_call" where
  "ApplyUpdateOperations ops totalCount dto =
     (if ops = [] then Returned dto
      else adjustRuntimeState (on_status (\<lambda>st. st\<lparr>Updating := Some (data_of ops totalCount)\<rparr>) dto))"

definition ApplySuspensionOperations :: "operation list \<Rightarrow> runtime_dto \<Rightarrow> runtime_dto go_call" where
  "ApplySuspensionOperations ops dto =
     (if ops = [] then Returned dto
      else (let suspensions = filter (\<lambda>op. Temporary op \<and> State op \<noteq> Pending) ops in
            adjustRuntimeState
              (if suspensions = [] then dto
               else on_status (\<lambda>st. st\<lparr>Suspension := Some (data_of suspensions (int (length suspensions)))\<rparr>) dto)))"

definition ApplyUnsuspensionOperations :: "operation list \<Rightarrow> runtime_dto \<Rightarrow> runtime_dto go_call" where
  "ApplyUnsuspensionOperations ops dto =
     (if ops = [] then Returned dto
      else adjustRuntimeState (on_status (\<lambda>st. st\<lparr>Unsuspension := Some (data_of ops (int (length ops)))\<rparr>) dto))"

definition NewDTO :: "string \<Rightarrow> kyma_instance \<Rightarrow> runtime_dto" where
  "NewDTO defaultSubaccountRegion i =
     \<lparr>dto_InstanceID = inst_ID i, dto_RuntimeID = inst_RuntimeID i, dto_GlobalAccountID = inst_GlobalAccountID i,
      dto_SubscriptionGlobalAccountID = SubscriptionGlobalAccountID i, dto_SubAccountID = inst_SubAccountID i,
      dto_ProviderRegion = ProviderRegion i,
      dto_SubAccountRegion = (if PlatformRegion (inst_Parameters i) = [] then defaultSubaccountRegion else PlatformRegion (inst_Parameters i)),
      dto_ShootName = ShootName (inst_Details i), dto_ServiceClassID = inst_ServiceID i, dto_ServiceClassName = ServiceName i,
      dto_ServicePlanID = ServicePlanID i, dto_ServicePlanName = ServicePlanName i, dto_Provider = inst_Provider i,
      dto_Status = \<lparr>status_CreatedAt = inst_CreatedAt i, status_ModifiedAt = inst_UpdatedAt i, status_ExpiredAt = ExpiredAt i,
        status_DeletedAt = (if DeletedAt i = 0 then None else Some (DeletedAt i)), status_State = StateNone, Provisioning = None,
        Deprovisioning = None, UpgradingKyma = None, UpgradingCluster = None, Updating = None, Suspension = None, Unsuspension = None\<rparr>,
      dto_UserID = UserID (ErsContext (inst_Parameters i))\<rparr>"

section \<open>All runtimes\<close>

definition all_instances :: instance_filter where
  "all_instances = \<lparr>flt_PageSize = 0, flt_Page = 0, flt_GlobalAccountIDs = [], flt_SubscriptionGlobalAccountIDs = [], flt_SubAccountIDs = [],
     flt_InstanceIDs = [], flt_RuntimeIDs = [], flt_Regions = [], flt_Plans = [], flt_Shoots = [], flt_States = []\<rparr>"

text \<open>
  The runtime for one instance; none if its operations could not be listed.  The provisioning is the oldest one, the others
  are unsuspensions.
\<close>

definition runtime_for :: "visit \<Rightarrow> string \<Rightarrow> memory_operations \<Rightarrow> kyma_instance \<Rightarrow> runtime_dto option go_call" where
  "runtime_for visit region s i =
     (case ListProvisioningOperationsByInstanceID visit (inst_ID i) s of
        Inl e \<Rightarrow> Returned None
      | Inr pOprs \<Rightarrow>
          and_call (if pOprs \<noteq> [] then ApplyProvisioningOperation (last pOprs) (NewDTO region i) else Returned (NewDTO region i)) (\<lambda>dto.
          and_call (if 1 < length pOprs then ApplyUnsuspensionOperations (butlast pOprs) dto else Returned dto) (\<lambda>dto.
            case ListDeprovisioningOperationsByInstanceID visit (inst_ID i) s of
              Inl e \<Rightarrow> if IsNotFound e then Returned (Some dto) else Returned None
            | Inr dOprs \<Rightarrow>
                and_call (if dOprs \<noteq> [] then ApplyDeprovisioningOperation (hd dOprs) dto else Returned dto) (\<lambda>dto.
                and_call (ApplySuspensionOperations dOprs dto) (\<lambda>dto. Returned (Some dto))))))"

fun runtimes_for :: "visit \<Rightarrow> string \<Rightarrow> memory_operations \<Rightarrow> kyma_instance option list \<Rightarrow> runtime_dto list go_call" where
  "runtimes_for visit region s [] = Returned []"
| "runtimes_for visit region s (x # xs) =
     and_call (case x of Some i \<Rightarrow> runtime_for visit region s i | None \<Rightarrow> Returned None) (\<lambda>r.
     and_call (runtimes_for visit region s xs) (\<lambda>rs. Returned ((case r of Some dto \<Rightarrow> [dto] | None \<Rightarrow> []) @ rs)))"

text \<open>Instances that are stored under another id than their own, which the storage reads as the zero value, are left out.\<close>

definition ListAllRuntimes :: "(inst_map \<Rightarrow> inst_map) \<Rightarrow> visit \<Rightarrow> string \<Rightarrow> inst_map \<Rightarrow> memory_operations \<Rightarrow> runtime_dto list go_call" where
  "ListAllRuntimes visit_i visit region m s =
     and_call (inst_List visit_i visit all_instances m s) (\<lambda>(instances, _, _). runtimes_for visit region s instances)"

section \<open>Properties\<close>

lemma NewDTO_id: "dto_RuntimeID (NewDTO region i) = inst_RuntimeID i"
  by (simp add: NewDTO_def)

text \<open>The counters of all lists are their lengths, as the converter sets them.\<close>

definition data_ok :: "operations_data option \<Rightarrow> bool" where
  "data_ok data = (case data of Some d \<Rightarrow> od_Count d = int (length (od_Data d)) | None \<Rightarrow> True)"

definition counted :: "runtime_dto \<Rightarrow> bool" where
  "counted dto =
     (let st = dto_Status dto in
      data_ok (UpgradingKyma st) \<and> data_ok (UpgradingCluster st) \<and> data_ok (Updating st) \<and> data_ok (Suspension st) \<and> data_ok (Unsuspension st))"

text \<open>Then the last operation is a plain choice.\<close>

definition head_of :: "operations_data option \<Rightarrow> dto_operation option" where
  "head_of data = (case data of Some d \<Rightarrow> (case od_Data d of x # _ \<Rightarrow> Some x | [] \<Rightarrow> None) | None \<Rightarrow> None)"

definition later_of :: "bool \<Rightarrow> runtime_op_type \<Rightarrow> dto_operation option \<Rightarrow> dto_operation \<Rightarrow> dto_operation" where
  "later_of always ty h op =
     (case h of Some x \<Rightarrow> if always \<or> dop_CreatedAt op < dop_CreatedAt x then x\<lparr>dop_Type := ty\<rparr> else op | None \<Rightarrow> op)"

lemma first_if_newer_later: "data_ok data \<Longrightarrow> first_if_newer always ty data op = Returned (later_of always ty (head_of data) op)"
  by (auto simp: data_ok_def first_if_newer_def later_of_def head_of_def split: option.split list.split)

lemma LastOperation_later:
  assumes "counted dto"
  shows "dto_LastOperation dto =
     Returned (let st = dto_Status dto in
       later_of False RtUpdate (head_of (Updating st)) (later_of False RtDeprovision (Deprovisioning st)
         (later_of False RtSuspension (head_of (Suspension st)) (later_of False RtUnsuspension (head_of (Unsuspension st))
         (later_of False RtUpgradeKyma (head_of (UpgradingKyma st)) (later_of True RtUpgradeCluster (head_of (UpgradingCluster st))
         (later_of True RtProvision (Provisioning st) no_dto_operation)))))))"
proof -
  have prov: "(case Provisioning st of Some p \<Rightarrow> p\<lparr>dop_Type := RtProvision\<rparr> | None \<Rightarrow> no_dto_operation) =
      later_of True RtProvision (Provisioning st) no_dto_operation" for st :: runtime_status
    by (simp add: later_of_def split: option.split)
  have deprov: "(case Deprovisioning st of Some d \<Rightarrow> if dop_CreatedAt op < dop_CreatedAt d then d\<lparr>dop_Type := RtDeprovision\<rparr> else op | None \<Rightarrow> op) =
      later_of False RtDeprovision (Deprovisioning st) op" for st :: runtime_status and op
    by (simp add: later_of_def split: option.split)
  show ?thesis
    unfolding dto_LastOperation_def Let_def prov deprov
    using assms by (simp add: counted_def Let_def first_if_newer_later)
qed

lemma suspended_state_Returned:
  assumes "data_ok (Suspension st)" "data_ok (Unsuspension st)"
  shows "\<exists>st'. suspended_state st old = Returned st'"
proof -
  have "\<exists>x. first_of_data d = Returned x" if "data_ok (Some d)" "0 < od_Count d" for d
    using that by (cases "od_Data d") (auto simp: data_ok_def first_of_data_def)
  then have "\<exists>x. first_of_data d = Returned x" if "Suspension st = Some d \<or> Unsuspension st = Some d" "0 < od_Count d" for d
    using that assms by metis
  then show ?thesis
    by (cases "Suspension st"; cases "Unsuspension st") (fastforce simp: suspended_state_def Let_def)+
qed

text \<open>Adjusting the state changes the state only.\<close>

lemma adjustRuntimeState_done:
  assumes "counted dto"
  obtains st where "adjustRuntimeState dto = Returned (on_status (\<lambda>x. x\<lparr>status_State := st\<rparr>) dto)"
proof -
  from LastOperation_later [OF assms] obtain op where op: "dto_LastOperation dto = Returned op" by blast
  from suspended_state_Returned [of "dto_Status dto"] assms obtain st
    where "suspended_state (dto_Status dto) (state_of_last op (status_State (dto_Status dto))) = Returned st"
    by (auto simp: counted_def Let_def)
  with op that show thesis by (simp add: adjustRuntimeState_def on_status_def)
qed

lemma on_status_simps [simp]:
  "dto_Status (on_status f dto) = f (dto_Status dto)" "on_status f (on_status g dto) = on_status (\<lambda>st. f (g st)) dto"
  "dto_InstanceID (on_status f dto) = dto_InstanceID dto" "dto_RuntimeID (on_status f dto) = dto_RuntimeID dto"
  by (simp_all add: on_status_def)

lemma data_ok_simps [simp]: "data_ok (Some (data_of ops n))" "data_ok None"
  by (simp_all add: data_ok_def data_of_def)

lemma head_of_data [simp]:
  "head_of None = None" "head_of (Some (data_of ops n)) = (case ops of op # _ \<Rightarrow> Some (applyOperation op no_dto_operation) | [] \<Rightarrow> None)"
  by (simp_all add: head_of_def data_of_def split: list.split)

text \<open>The runtime of an instance with provisionings \<open>p\<close> and deprovisionings \<open>d\<close>, but for its state.\<close>

definition status_for :: "operation list \<Rightarrow> operation list \<Rightarrow> runtime_status \<Rightarrow> runtime_status" where
  "status_for p d st =
     (let suspensions = filter (\<lambda>op. Temporary op \<and> State op \<noteq> Pending) d in
      st\<lparr>Provisioning := Some (applyOperation (last p) no_dto_operation),
        Unsuspension := (if 1 < length p then Some (data_of (butlast p) (int (length (butlast p)))) else None),
        Deprovisioning := (if d \<noteq> [] \<and> State (hd d) \<noteq> Pending then Some (applyOperation (hd d) no_dto_operation) else None),
        Suspension := (if suspensions \<noteq> [] then Some (data_of suspensions (int (length suspensions))) else None)\<rparr>)"

text \<open>A runtime without its state; the last operation does not depend on it.\<close>

definition erase :: "runtime_dto \<Rightarrow> runtime_dto" where
  "erase dto = on_status (\<lambda>x. x\<lparr>status_State := StateNone\<rparr>) dto"

lemma erase_counted: "erase dto = erase dto' \<Longrightarrow> counted dto = counted dto'"
proof -
  have "counted (erase dto) = counted dto" for dto by (simp add: counted_def erase_def Let_def)
  then show "erase dto = erase dto' \<Longrightarrow> ?thesis" by metis
qed

lemma erase_LastOperation:
  assumes "erase dto = erase dto'"
  shows "dto_LastOperation dto = dto_LastOperation dto'"
proof -
  have "dto_LastOperation (erase dto) = dto_LastOperation dto" for dto by (simp add: dto_LastOperation_def erase_def Let_def)
  with assms show ?thesis by metis
qed

text \<open>One step of the converter: a field is set and the state is adjusted.\<close>

lemma converter_step:
  assumes "erase dto = erase ref" "counted (on_status f ref)" "\<And>x t. f (x\<lparr>status_State := t\<rparr>) = (f x)\<lparr>status_State := t\<rparr>"
  obtains dto' where "adjustRuntimeState (on_status f dto) = Returned dto'" "erase dto' = erase (on_status f ref)"
proof -
  have "erase (on_status f dto) = on_status f (erase dto)" for dto by (simp add: erase_def assms(3))
  then have same: "erase (on_status f dto) = erase (on_status f ref)" using assms(1) by simp
  with assms(2) have "counted (on_status f dto)" by (metis erase_counted)
  then obtain st where "adjustRuntimeState (on_status f dto) = Returned (on_status (\<lambda>x. x\<lparr>status_State := st\<rparr>) (on_status f dto))"
    by (rule adjustRuntimeState_done)
  moreover have "erase (on_status (\<lambda>x. x\<lparr>status_State := st\<rparr>) (on_status f dto)) = erase (on_status f ref)"
    using same by (simp add: erase_def)
  ultimately show thesis by (rule that)
qed

lemma runtime_for_status:
  assumes "ListProvisioningOperationsByInstanceID visit (inst_ID i) s = Inr p" "p \<noteq> []"
    and "ListDeprovisioningOperationsByInstanceID visit (inst_ID i) s = (if d = [] then Inl e else Inr d)" "IsNotFound e"
  obtains dto where "runtime_for visit region s i = Returned (Some dto)" "erase dto = erase (on_status (status_for p d) (NewDTO region i))"
proof -
  let ?sus = "filter (\<lambda>op. Temporary op \<and> State op \<noteq> Pending) d"
  define f1 where "f1 = (\<lambda>x :: runtime_status. x\<lparr>Provisioning := Some (applyOperation (last p) no_dto_operation)\<rparr>)"
  define f2 where "f2 = (\<lambda>x :: runtime_status. if 1 < length p then x\<lparr>Unsuspension := Some (data_of (butlast p) (int (length (butlast p))))\<rparr> else x)"
  define f3 where "f3 = (\<lambda>x :: runtime_status.
    if d \<noteq> [] \<and> State (hd d) \<noteq> Pending then x\<lparr>Deprovisioning := Some (applyOperation (hd d) no_dto_operation)\<rparr> else x)"
  define f4 where "f4 = (\<lambda>x :: runtime_status. if ?sus \<noteq> [] then x\<lparr>Suspension := Some (data_of ?sus (int (length ?sus)))\<rparr> else x)"
  note fs = f1_def f2_def f3_def f4_def
  define new where "new = NewDTO region i"
  have f: "f1 (x\<lparr>status_State := t\<rparr>) = (f1 x)\<lparr>status_State := t\<rparr>" "f2 (x\<lparr>status_State := t\<rparr>) = (f2 x)\<lparr>status_State := t\<rparr>"
    "f3 (x\<lparr>status_State := t\<rparr>) = (f3 x)\<lparr>status_State := t\<rparr>" "f4 (x\<lparr>status_State := t\<rparr>) = (f4 x)\<lparr>status_State := t\<rparr>" for x t
    by (simp_all add: fs)
  have c: "counted (on_status f1 new)" "counted (on_status f2 (on_status f1 new))" "counted (on_status f3 (on_status f2 (on_status f1 new)))"
    "counted (on_status f4 (on_status f3 (on_status f2 (on_status f1 new))))"
    by (simp_all add: counted_def new_def NewDTO_def fs Let_def)
  from converter_step [OF refl c(1) f(1)] obtain d1 where d1: "ApplyProvisioningOperation (last p) new = Returned d1" "erase d1 = erase (on_status f1 new)"
    by (auto simp: ApplyProvisioningOperation_def f1_def)
  have "\<exists>d2. (if 1 < length p then ApplyUnsuspensionOperations (butlast p) d1 else Returned d1) = Returned d2 \<and>
      erase d2 = erase (on_status f2 (on_status f1 new))"
  proof (cases "1 < length p")
    case True
    then have "butlast p \<noteq> []" by (cases p) auto
    with True converter_step [OF d1(2) c(2) f(2)] show ?thesis by (auto simp: ApplyUnsuspensionOperations_def f2_def)
  qed (use d1(2) in \<open>simp add: f2_def on_status_def\<close>)
  then obtain d2 where d2: "(if 1 < length p then ApplyUnsuspensionOperations (butlast p) d1 else Returned d1) = Returned d2"
    "erase d2 = erase (on_status f2 (on_status f1 new))" by blast
  have final: "on_status f4 (on_status f3 (on_status f2 (on_status f1 new))) = on_status (status_for p d) new"
    by (simp add: on_status_def fs status_for_def new_def NewDTO_def Let_def)
  show thesis
  proof (cases "d = []")
    case True
    then have "erase d2 = erase (on_status (status_for p d) new)" using d2(2) final by (simp add: fs on_status_def)
    with True assms d1(1) d2(1) that show thesis by (simp add: runtime_for_def new_def [symmetric])
  next
    case False
    have "\<exists>d3. ApplyDeprovisioningOperation (hd d) d2 = Returned d3 \<and> erase d3 = erase (on_status f3 (on_status f2 (on_status f1 new)))"
    proof (cases "State (hd d) = Pending")
      case True
      with d2(2) show ?thesis by (simp add: ApplyDeprovisioningOperation_def f3_def on_status_def)
    next
      case notpending: False
      with False converter_step [OF d2(2) c(3) f(3)] show ?thesis by (auto simp: ApplyDeprovisioningOperation_def f3_def)
    qed
    then obtain d3 where d3: "ApplyDeprovisioningOperation (hd d) d2 = Returned d3"
      "erase d3 = erase (on_status f3 (on_status f2 (on_status f1 new)))" by blast
    from converter_step [OF d3(2) c(4) f(4)] obtain d4 where d4: "adjustRuntimeState (on_status f4 d3) = Returned d4"
      "erase d4 = erase (on_status (status_for p d) new)" unfolding final .
    have "ApplySuspensionOperations d d3 = adjustRuntimeState (on_status f4 d3)"
      using False by (simp add: ApplySuspensionOperations_def f4_def on_status_def Let_def)
    with False assms d1(1) d2(1) d3(1) d4 that show thesis by (simp add: runtime_for_def new_def [symmetric])
  qed
qed

lemma applyOperation_simps [simp]:
  "dop_CreatedAt (applyOperation op t) = CreatedAt op" "dop_OperationID (applyOperation op t) = op_ID op" "dop_State (applyOperation op t) = State op"
  by (simp_all add: applyOperation_def)

lemma later_of_None: "later_of always ty None op = op"
  by (simp add: later_of_def)

lemma head_of_if:
  "head_of (if ops \<noteq> [] then Some (data_of ops n) else None) =
   (case ops of op # _ \<Rightarrow> Some (applyOperation op no_dto_operation) | [] \<Rightarrow> None)"
  by (simp split: list.split)

text \<open>The provisioning or unsuspension that counts is the newest one.\<close>

lemma newest_provisioning:
  assumes "p \<noteq> []" "sorted (map (\<lambda>op. - CreatedAt op) p)" "distinct (map CreatedAt p)"
  shows "later_of False RtUnsuspension (head_of (if 1 < length p then Some (data_of (butlast p) n) else None))
           (later_of True RtProvision (Some (applyOperation (last p) no_dto_operation)) t) =
         (applyOperation (hd p) no_dto_operation)\<lparr>dop_Type := (if 1 < length p then RtUnsuspension else RtProvision)\<rparr>"
proof (cases p rule: list.exhaust)
  case (Cons x xs)
  show ?thesis
  proof (cases xs rule: rev_exhaust)
    case (snoc ys y)
    with Cons assms have "CreatedAt y < CreatedAt x" by (auto simp: sorted_append less_le)
    with Cons snoc show ?thesis by (simp add: later_of_def)
  qed (use Cons in \<open>simp add: later_of_def\<close>)
qed (use assms in simp)

lemma newest_or_error_sorted:
  assumes "newest_or_error kind k ops = Inr p"
  shows "p \<noteq> []" "sorted (map (\<lambda>op. - CreatedAt op) p)"
proof -
  from assms have p: "p = newest_first ops" "ops \<noteq> []" by (simp_all add: newest_or_error_Inr)
  then show "p \<noteq> []" by (simp add: newest_first_Nil)
  show "sorted (map (\<lambda>op. - CreatedAt op) p)" by (simp add: p newest_first_def)
qed

lemma hd_filter_le:
  assumes "sorted (map (\<lambda>op. - CreatedAt op) d)" "filter P d = x # xs"
  shows "CreatedAt x \<le> CreatedAt (hd d)" "x \<in> set d" "P (hd d) \<Longrightarrow> x = hd d"
proof -
  have "x \<in> set (filter P d)" using assms(2) by simp
  then have x: "x \<in> set d" "P x" by simp_all
  obtain y ys where d: "d = y # ys" using x by (cases d) auto
  show "x \<in> set d" by (rule x)
  show "CreatedAt x \<le> CreatedAt (hd d)" using x(1) assms(1) by (auto simp: d)
  show "P (hd d) \<Longrightarrow> x = hd d" using assms(2) by (simp add: d)
qed

text \<open>The last operation, computed.\<close>

lemma last_operation_of_runtime:
  assumes "ListProvisioningOperationsByInstanceID visit (inst_ID i) s = Inr p"
    and "ListDeprovisioningOperationsByInstanceID visit (inst_ID i) s = Inr d" and "State (hd d) \<noteq> Pending"
    and "distinct (map CreatedAt (p @ d))"
  shows "\<exists>dto lo. runtime_for visit region s i = Returned (Some dto) \<and> dto_RuntimeID dto = inst_RuntimeID i \<and>
    dto_LastOperation dto = Returned lo \<and>
    (if CreatedAt (hd p) < CreatedAt (hd d)
     then dop_OperationID lo = op_ID (hd d) \<and> dop_State lo = State (hd d) \<and>
       dop_Type lo = (if Temporary (hd d) then RtSuspension else RtDeprovision)
     else dop_OperationID lo = op_ID (hd p) \<and> dop_State lo = State (hd p) \<and>
       dop_Type lo = (if 1 < length p then RtUnsuspension else RtProvision))"
proof -
  from assms(1,2) have ne: "p \<noteq> []" "d \<noteq> []" and sorted: "sorted (map (\<lambda>op. - CreatedAt op) p)" "sorted (map (\<lambda>op. - CreatedAt op) d)"
    by (auto simp: ListProvisioningOperationsByInstanceID_def ListDeprovisioningOperationsByInstanceID_def dest: newest_or_error_sorted)
  have "ListDeprovisioningOperationsByInstanceID visit (inst_ID i) s = (if d = [] then Inl (DbError CodeNotFound []) else Inr d)"
    "IsNotFound (DbError CodeNotFound [])"
    using assms(2) ne by (simp_all add: IsNotFound_def)
  from runtime_for_status [OF assms(1) ne(1) this, of region] obtain dto
    where dto: "runtime_for visit region s i = Returned (Some dto)" "erase dto = erase (on_status (status_for p d) (NewDTO region i))" by blast
  let ?ref = "on_status (status_for p d) (NewDTO region i)" and ?sus = "filter (\<lambda>op. Temporary op \<and> State op \<noteq> Pending) d"
  define b where "b = (applyOperation (hd p) no_dto_operation)\<lparr>dop_Type := (if 1 < length p then RtUnsuspension else RtProvision)\<rparr>"
  define lo where "lo = later_of False RtDeprovision (Some (applyOperation (hd d) no_dto_operation))
    (later_of False RtSuspension (case ?sus of x # _ \<Rightarrow> Some (applyOperation x no_dto_operation) | [] \<Rightarrow> None) b)"
  have c: "counted ?ref" by (simp add: counted_def status_for_def NewDTO_def Let_def)
  have fields: "Provisioning (dto_Status ?ref) = Some (applyOperation (last p) no_dto_operation)"
    "Unsuspension (dto_Status ?ref) = (if 1 < length p then Some (data_of (butlast p) (int (length (butlast p)))) else None)"
    "Deprovisioning (dto_Status ?ref) = Some (applyOperation (hd d) no_dto_operation)"
    "Suspension (dto_Status ?ref) = (if ?sus \<noteq> [] then Some (data_of ?sus (int (length ?sus))) else None)"
    "UpgradingKyma (dto_Status ?ref) = None" "UpgradingCluster (dto_Status ?ref) = None" "Updating (dto_Status ?ref) = None"
    unfolding on_status_simps status_for_def NewDTO_def Let_def using ne(2) assms(3) by simp_all
  have "distinct (map CreatedAt p)" using assms(4) by simp
  from newest_provisioning [OF ne(1) sorted(1) this, of "int (length (butlast p))" no_dto_operation]
  have "dto_LastOperation ?ref = Returned lo"
    unfolding LastOperation_later [OF c] Let_def fields head_of_data(1) later_of_None head_of_if lo_def b_def by simp
  with erase_LastOperation [OF dto(2)] have last: "dto_LastOperation dto = Returned lo" by simp
  have "dto_RuntimeID (erase dto) = dto_RuntimeID dto" for dto by (simp add: erase_def)
  then have id: "dto_RuntimeID dto = inst_RuntimeID i" using dto(2) by (metis on_status_simps(4) NewDTO_id)
  have b: "dop_CreatedAt b = CreatedAt (hd p)" "dop_OperationID b = op_ID (hd p)" "dop_State b = State (hd p)" by (simp_all add: b_def)
  have "CreatedAt (hd p) \<in> CreatedAt ` set p" "CreatedAt (hd d) \<in> CreatedAt ` set d" using ne by simp_all
  moreover have "CreatedAt ` set p \<inter> CreatedAt ` set d = {}" using assms(4) by simp
  ultimately have time: "CreatedAt (hd p) \<noteq> CreatedAt (hd d)" by (metis disjoint_iff)
  have sus: "CreatedAt x \<le> CreatedAt (hd d)" "Temporary (hd d) \<longrightarrow> x = hd d" "\<not> Temporary (hd d) \<longrightarrow> CreatedAt x \<noteq> CreatedAt (hd d)"
    if x: "?sus = x # xs" for x xs
  proof -
    note le = hd_filter_le [OF sorted(2) x]
    show "CreatedAt x \<le> CreatedAt (hd d)" by (rule le)
    show "Temporary (hd d) \<longrightarrow> x = hd d" using le(3) assms(3) by blast
    have "x \<in> set ?sus" using x by simp
    then have "Temporary x" by simp
    moreover have "distinct (map CreatedAt d)" using assms(4) by simp
    ultimately show "\<not> Temporary (hd d) \<longrightarrow> CreatedAt x \<noteq> CreatedAt (hd d)"
      using le(2) ne(2) by (metis distinct_map inj_on_def list.set_sel(1))
  qed
  have "if CreatedAt (hd p) < CreatedAt (hd d)
     then dop_OperationID lo = op_ID (hd d) \<and> dop_State lo = State (hd d) \<and> dop_Type lo = (if Temporary (hd d) then RtSuspension else RtDeprovision)
     else dop_OperationID lo = op_ID (hd p) \<and> dop_State lo = State (hd p) \<and> dop_Type lo = (if 1 < length p then RtUnsuspension else RtProvision)"
  proof (cases ?sus)
    case Nil
    then have "\<not> Temporary (hd d)" using assms(3) ne(2) by (auto simp: filter_empty_conv)
    with Nil time show ?thesis by (simp add: lo_def later_of_def b) (simp add: b_def)
  next
    case (Cons x xs)
    with sus [OF Cons] time show ?thesis by (auto simp: lo_def later_of_def b) (simp_all add: b_def)
  qed
  with dto(1) id last show ?thesis by blast
qed


lemma runtime_for_counted:
  assumes "ListProvisioningOperationsByInstanceID visit (inst_ID i) s = Inr p"
    and "ListDeprovisioningOperationsByInstanceID visit (inst_ID i) s = (if d = [] then Inl e else Inr d)" "IsNotFound e"
    and "runtime_for visit region s i = Returned (Some dto)"
  shows "counted dto"
proof -
  have "p \<noteq> []" using assms(1) by (auto simp: ListProvisioningOperationsByInstanceID_def dest: newest_or_error_sorted)
  from runtime_for_status [OF assms(1) this assms(2,3), of region] assms(4)
  have "erase dto = erase (on_status (status_for p d) (NewDTO region i))" by auto
  moreover have "counted (on_status (status_for p d) (NewDTO region i))" by (simp add: counted_def status_for_def NewDTO_def Let_def)
  ultimately show ?thesis by (metis erase_counted)
qed

definition suspended_store :: memory_operations where
  "suspended_store = \<lparr>operations =
     [(''p'', some_operation\<lparr>op_ID := ''p'', op_Type := OperationTypeProvision, InstanceID := ''i'', CreatedAt := 1, State := Succeeded\<rparr>),
      (''d'', some_operation\<lparr>op_ID := ''d'', op_Type := OperationTypeDeprovision, InstanceID := ''i'', CreatedAt := 2, State := Succeeded, Temporary := True\<rparr>)],
     upgradeClusterOperations = [], updateOperations = []\<rparr>"


end
