(* ===== verification/Runtime_Resolver.thy ===== *)
theory Runtime_Resolver
  imports Runtime_State Orchestration_Storage
begin

text \<open>
  The resolver of the targets of an orchestration (\<^verbatim>\<open>src/common/orchestration/resolver.go\<close>): the runtimes that match one of the
  targets to include and none of those to exclude.

  The shoots come from the client of Gardener; a shoot is what the accessors of the package for unstructured objects return for it,
  where a field of the wrong type panics.  The regular expressions and \<open>time.Parse\<close> are those of \<open>window_lib\<close>.  The resolver keeps
  the runtimes it has ever been told about in a map.
\<close>

section \<open>Shoots\<close>

record shoot =
  shoot_Name :: string
  shoot_Annotations :: "(string \<times> string) list"
  shoot_Labels :: "(string \<times> string) list"
  GetSpecMaintenanceTimeWindowBegin :: "string go_call"
  GetSpecMaintenanceTimeWindowEnd :: "string go_call"
  GetSpecRegion :: "string go_call"

text \<open>Reading a map of strings in Go: the empty string if there is no entry.\<close>

definition entry_of :: "(string \<times> string) list \<Rightarrow> string \<Rightarrow> string" where
  "entry_of m k = (case map_of m k of Some v \<Rightarrow> v | None \<Rightarrow> [])"

definition runtimeIDAnnotation :: string where
  "runtimeIDAnnotation = ''kcp.provisioner.kyma-project.io/runtime-id''"

definition shoot_runtimeID :: "shoot \<Rightarrow> string" where
  "shoot_runtimeID s = entry_of (shoot_Annotations s) runtimeIDAnnotation"

section \<open>One target\<close>

definition runtimeFromDTO :: "runtime_dto \<Rightarrow> string \<Rightarrow> go_time \<Rightarrow> go_time \<Rightarrow> runtime" where
  "runtimeFromDTO r shootName windowBegin windowEnd =
     \<lparr>rt_InstanceID = dto_InstanceID r, rt_RuntimeID = dto_RuntimeID r, rt_GlobalAccountID = dto_GlobalAccountID r,
      rt_SubAccountID = dto_SubAccountID r, rt_ShootName = shootName, MaintenanceWindowBegin = windowBegin,
      MaintenanceWindowEnd = windowEnd, MaintenanceDays = [''Mon'', ''Tue'', ''Wed'', ''Thu'', ''Fri'', ''Sat'', ''Sun''],
      rt_Plan = dto_ServicePlanName r, rt_Region = dto_ProviderRegion r\<rparr>"

text \<open>The last operation rules an upgrade out.\<close>

definition skipped :: "dto_operation \<Rightarrow> bool" where
  "skipped lastOp =
     (dop_Type lastOp = RtDeprovision \<or> dop_Type lastOp = RtSuspension \<or>
      (dop_Type lastOp = RtProvision \<or> dop_Type lastOp = RtUnsuspension) \<and> dop_State lastOp \<noteq> Succeeded)"

type_synonym runtime_map = "(string \<times> runtime_dto) list"

text \<open>The runtime of a shoot if it can be upgraded at all.\<close>

definition usable_runtime :: "window_lib \<Rightarrow> runtime_map \<Rightarrow> shoot \<Rightarrow> (runtime_dto \<times> runtime) option go_call" where
  "usable_runtime L rts s =
     (if shoot_runtimeID s = [] then Returned None
      else case map_of rts (shoot_runtimeID s) of
             None \<Rightarrow> Returned None
           | Some r \<Rightarrow>
               and_call (dto_LastOperation r) (\<lambda>lastOp.
                 if skipped lastOp then Returned None
                 else and_call (GetSpecMaintenanceTimeWindowBegin s) (\<lambda>tb.
                        case parse_window L tb of
                          None \<Rightarrow> Returned None
                        | Some windowBegin \<Rightarrow>
                            and_call (GetSpecMaintenanceTimeWindowEnd s) (\<lambda>te.
                              case parse_window L te of
                                None \<Rightarrow> Returned None
                              | Some windowEnd \<Rightarrow> Returned (Some (r, runtimeFromDTO r (shoot_Name s) windowBegin windowEnd))))))"

text \<open>Whether it matches the target; the region of the shoot is read last and only if the target has one.\<close>

definition target_matches :: "window_lib \<Rightarrow> runtime_target \<Rightarrow> shoot \<Rightarrow> runtime_dto \<Rightarrow> bool go_call" where
  "target_matches L rt s r =
     (if target_RuntimeID rt \<noteq> [] then Returned (target_RuntimeID rt = shoot_runtimeID s)
      else if target_InstanceID rt \<noteq> [] \<and> target_InstanceID rt \<noteq> dto_InstanceID r then Returned False
      else if target_Shoot rt \<noteq> [] \<and> target_Shoot rt \<noteq> shoot_Name s then Returned False
      else if target_PlanName rt \<noteq> [] \<and> target_PlanName rt \<noteq> dto_ServicePlanName r then Returned False
      else if \<not> pattern_ok L (target_GlobalAccount rt) (entry_of (shoot_Labels s) ''account'') then Returned False
      else if \<not> pattern_ok L (target_SubAccount rt) (entry_of (shoot_Labels s) ''subaccount'') then Returned False
      else and_call (if target_Region rt \<noteq> [] then and_call (GetSpecRegion s) (\<lambda>region. Returned (pattern_ok L (target_Region rt) region))
                     else Returned True) (\<lambda>region_ok.
             Returned (region_ok \<and> (Target rt = [] \<or> Target rt = TargetAll))))"

fun resolveRuntimeTarget :: "window_lib \<Rightarrow> runtime_map \<Rightarrow> runtime_target \<Rightarrow> shoot list \<Rightarrow> runtime list go_call" where
  "resolveRuntimeTarget L rts rt [] = Returned []"
| "resolveRuntimeTarget L rts rt (s # shoots) =
     and_call (usable_runtime L rts s) (\<lambda>u.
     and_call (case u of None \<Rightarrow> Returned [] | Some (r, found) \<Rightarrow>
                 and_call (target_matches L rt s r) (\<lambda>b. Returned (if b then [found] else []))) (\<lambda>here.
     and_call (resolveRuntimeTarget L rts rt shoots) (\<lambda>rest. Returned (here @ rest))))"

section \<open>All targets\<close>

fun resolve_targets :: "window_lib \<Rightarrow> runtime_map \<Rightarrow> shoot list \<Rightarrow> runtime_target list \<Rightarrow> runtime list go_call" where
  "resolve_targets L rts shoots [] = Returned []"
| "resolve_targets L rts shoots (rt # targets) =
     and_call (resolveRuntimeTarget L rts rt shoots) (\<lambda>found.
     and_call (resolve_targets L rts shoots targets) (\<lambda>rest. Returned (found @ rest)))"

text \<open>The loop over the runtimes to add, with the ids that are excluded and those that were included.\<close>

fun include_new :: "string list \<Rightarrow> string list \<Rightarrow> runtime list \<Rightarrow> runtime list" where
  "include_new excluded included [] = []"
| "include_new excluded included (r # rs) =
     (if rt_RuntimeID r \<notin> set excluded \<and> rt_RuntimeID r \<notin> set included
      then r # include_new excluded (rt_RuntimeID r # included) rs else include_new excluded included rs)"

definition syncRuntimeOperations :: "runtime_dto list \<Rightarrow> runtime_map \<Rightarrow> runtime_map" where
  "syncRuntimeOperations runtimes rts = fold (\<lambda>rt m. assoc_set (dto_RuntimeID rt) rt m) runtimes rts"

text \<open>
  The shoots and the runtimes are the results of the two clients.  The loop over the targets to include adds to one list, which
  is the list over the concatenation of what they stand for.
\<close>

definition Resolve ::
  "window_lib \<Rightarrow> string \<Rightarrow> (go_error + shoot list) \<Rightarrow> (go_error + runtime_dto list) \<Rightarrow> target_spec \<Rightarrow> runtime_map \<Rightarrow>
   (go_error + runtime list) go_call \<times> runtime_map" where
  "Resolve L namespace getAllShoots listAllRuntimes targets rts =
     (case getAllShoots of
        Inl e \<Rightarrow> (Returned (Inl (WrappedError (''while listing gardener shoots in namespace '' @ namespace @ '': '' @ error_message e) e)), rts)
      | Inr shoots \<Rightarrow>
          (case listAllRuntimes of
             Inl e \<Rightarrow> (Returned (Inl (WrappedError (''while syncing runtimes: '' @ error_message e) e)), rts)
           | Inr runtimes \<Rightarrow>
               (let rts1 = syncRuntimeOperations runtimes rts in
                (and_call (resolve_targets L rts1 shoots (Exclude targets)) (\<lambda>excluded.
                 and_call (resolve_targets L rts1 shoots (Include targets)) (\<lambda>found.
                   Returned (Inr (include_new (map rt_RuntimeID excluded) [] found)))), rts1))))"

section \<open>Properties\<close>

definition returns :: "'a go_call \<Rightarrow> bool" where
  "returns m = (case m of Returned a \<Rightarrow> True | Panicked v \<Rightarrow> False)"

lemma returns_simps [simp]: "returns (Returned a)" "\<not> returns (Panicked v)"
  by (simp_all add: returns_def)

lemma returns_iff: "returns m \<longleftrightarrow> (\<exists>a. m = Returned a)"
  by (cases m) auto

lemma returns_and_call: "returns m \<Longrightarrow> (\<And>a. m = Returned a \<Longrightarrow> returns (f a)) \<Longrightarrow> returns (and_call m f)"
  by (cases m) auto

text \<open>No field of a shoot has the wrong type, and the runtimes are as the converter makes them.\<close>

definition shoot_ok :: "shoot \<Rightarrow> bool" where
  "shoot_ok s = (returns (GetSpecMaintenanceTimeWindowBegin s) \<and> returns (GetSpecMaintenanceTimeWindowEnd s) \<and> returns (GetSpecRegion s))"

lemma usable_runtime_returns:
  assumes "shoot_ok s" "list_all (\<lambda>(k, dto). counted dto) rts"
  shows "returns (usable_runtime L rts s)"
proof -
  have "returns (dto_LastOperation r)" if "map_of rts k = Some r" for k r
    using that assms(2) by (auto dest!: map_of_SomeD simp: list_all_iff LastOperation_later)
  then show ?thesis
    using assms(1) by (auto simp: usable_runtime_def shoot_ok_def intro!: returns_and_call split: option.split)
qed

lemma target_matches_returns: "shoot_ok s \<Longrightarrow> returns (target_matches L rt s r)"
  by (auto simp: target_matches_def shoot_ok_def intro!: returns_and_call)

text \<open>A target stands for a runtime of a shoot.\<close>

definition stands_for :: "window_lib \<Rightarrow> runtime_map \<Rightarrow> shoot list \<Rightarrow> runtime_target \<Rightarrow> runtime \<Rightarrow> bool" where
  "stands_for L rts shoots rt found =
     (\<exists>s\<in>set shoots. \<exists>r. usable_runtime L rts s = Returned (Some (r, found)) \<and> target_matches L rt s r = Returned True)"

lemma resolveRuntimeTarget_set:
  assumes "list_all shoot_ok shoots" "list_all (\<lambda>(k, dto). counted dto) rts"
  shows "\<exists>xs. resolveRuntimeTarget L rts rt shoots = Returned xs \<and> set xs = {found. stands_for L rts shoots rt found}"
  using assms(1)
proof (induction shoots)
  case (Cons s shoots)
  then obtain xs where xs: "resolveRuntimeTarget L rts rt shoots = Returned xs" "set xs = {found. stands_for L rts shoots rt found}" by auto
  have ok: "shoot_ok s" using Cons.prems by simp
  from usable_runtime_returns [OF this assms(2), of L] obtain u where u: "usable_runtime L rts s = Returned u" by (auto simp: returns_iff)
  show ?case
  proof (cases u)
    case None
    with u xs show ?thesis by (auto simp: stands_for_def)
  next
    case (Some y)
    obtain r found where y: "y = (r, found)" by fastforce
    from target_matches_returns [OF ok, of L rt r] obtain b where "target_matches L rt s r = Returned b" by (auto simp: returns_iff)
    with u Some y xs show ?thesis by (auto simp: stands_for_def)
  qed
qed (simp add: stands_for_def)

lemma resolve_targets_set:
  assumes "list_all shoot_ok shoots" "list_all (\<lambda>(k, dto). counted dto) rts"
  shows "\<exists>xs. resolve_targets L rts shoots targets = Returned xs \<and> set xs = {found. \<exists>rt\<in>set targets. stands_for L rts shoots rt found}"
proof (induction targets)
  case (Cons rt targets)
  from resolveRuntimeTarget_set [OF assms, of L rt] Cons show ?case by fastforce
qed simp

lemma include_new_set:
  "rt_RuntimeID ` set (include_new ex inc rs) = rt_RuntimeID ` set rs - set ex - set inc" "set (include_new ex inc rs) \<subseteq> set rs"
  by (induction rs arbitrary: inc) auto

lemma include_new_distinct: "distinct (map rt_RuntimeID (include_new ex inc rs))"
  by (induction rs arbitrary: inc) (auto simp: include_new_set)

text \<open>
  (C8) Resolving the targets of an orchestration yields every runtime at most once: a runtime id is in the result exactly
  when some target to include stands for it and no target to exclude does.  There is no panic when the shoots have the right types and
  the runtimes come from the converter.
\<close>

theorem resolved_runtimes_are_exact:
  assumes "list_all shoot_ok shoots" and "list_all (\<lambda>(k, dto). counted dto) (syncRuntimeOperations runtimes rts)"
  shows "let rts1 = syncRuntimeOperations runtimes rts in
    \<exists>found. Resolve L namespace (Inr shoots) (Inr runtimes) targets rts = (Returned (Inr found), rts1) \<and>
      distinct (map rt_RuntimeID found) \<and>
      set (map rt_RuntimeID found) =
        rt_RuntimeID ` {r. \<exists>rt\<in>set (Include targets). stands_for L rts1 shoots rt r}
        - rt_RuntimeID ` {r. \<exists>rt\<in>set (Exclude targets). stands_for L rts1 shoots rt r}"
proof -
  let ?m = "syncRuntimeOperations runtimes rts"
  from resolve_targets_set [OF assms, of L "Exclude targets"] obtain ex where ex: "resolve_targets L ?m shoots (Exclude targets) = Returned ex"
    "set ex = {r. \<exists>rt\<in>set (Exclude targets). stands_for L ?m shoots rt r}" by blast
  from resolve_targets_set [OF assms, of L "Include targets"] obtain inc where inc: "resolve_targets L ?m shoots (Include targets) = Returned inc"
    "set inc = {r. \<exists>rt\<in>set (Include targets). stands_for L ?m shoots rt r}" by blast
  have "Resolve L namespace (Inr shoots) (Inr runtimes) targets rts = (Returned (Inr (include_new (map rt_RuntimeID ex) [] inc)), ?m)"
    using ex(1) inc(1) by (simp add: Resolve_def Let_def)
  with include_new_set(1) [of "map rt_RuntimeID ex" "[]" inc] include_new_distinct [of "map rt_RuntimeID ex" "[]" inc] ex(2) inc(2)
  show ?thesis by (auto simp: Let_def)
qed

definition some_shoot :: shoot where
  "some_shoot = \<lparr>shoot_Name = ''shoot'', shoot_Annotations = [(runtimeIDAnnotation, ''r'')], shoot_Labels = [(''account'', ''ga'')],
     GetSpecMaintenanceTimeWindowBegin = Returned ''040000+0000'', GetSpecMaintenanceTimeWindowEnd = Returned ''080000+0000'',
     GetSpecRegion = Returned ''westeurope''\<rparr>"

definition some_lib :: window_lib where
  "some_lib = \<lparr>re_match = (\<lambda>p v. Some (p = v)), parse_window = (\<lambda>s. Some zero_time)\<rparr>"

definition some_dto :: runtime_dto where
  "some_dto = on_status (\<lambda>st. st\<lparr>Provisioning := Some (no_dto_operation\<lparr>dop_State := Succeeded\<rparr>)\<rparr>) (NewDTO [] some_instance)"

definition target_all :: runtime_target where
  "target_all = \<lparr>Target = TargetAll, target_GlobalAccount = [], target_SubAccount = [], target_Region = [], target_RuntimeID = [],
     target_PlanName = [], target_Shoot = [], target_InstanceID = []\<rparr>"

theorem resolved_runtimes_are_exact_witness:
  "\<exists>found. Resolve some_lib ''ns'' (Inr [some_shoot, some_shoot]) (Inr [some_dto]) \<lparr>Include = [target_all], Exclude = []\<rparr> [] =
     (Returned (Inr found), [(''r'', some_dto)]) \<and> distinct (map rt_RuntimeID found) \<and> ''r'' \<in> set (map rt_RuntimeID found)"
proof -
  let ?m = "syncRuntimeOperations [some_dto] []" and ?t = "\<lparr>Include = [target_all], Exclude = []\<rparr>"
  have ok: "list_all shoot_ok [some_shoot, some_shoot]" by (simp add: shoot_ok_def some_shoot_def)
  have m: "?m = [(''r'', some_dto)]" by (simp add: syncRuntimeOperations_def some_dto_def NewDTO_def some_instance_def)
  have cnt: "list_all (\<lambda>(k, dto). counted dto) ?m"
    by (simp add: m) (simp add: counted_def some_dto_def NewDTO_def)
  have "case usable_runtime some_lib ?m some_shoot of Returned (Some (r, found)) \<Rightarrow>
      rt_RuntimeID found = ''r'' \<and> target_matches some_lib target_all some_shoot r = Returned True | _ \<Rightarrow> False"
    by code_simp
  then obtain r found where "usable_runtime some_lib ?m some_shoot = Returned (Some (r, found))" "rt_RuntimeID found = ''r''"
    "target_matches some_lib target_all some_shoot r = Returned True"
    by (auto split: go_call.split_asm option.split_asm)
  then have "''r'' \<in> rt_RuntimeID ` {r. stands_for some_lib ?m [some_shoot, some_shoot] target_all r}"
    by (force simp: stands_for_def)
  with resolved_runtimes_are_exact [OF ok cnt, of some_lib "''ns''" ?t] show ?thesis by (auto simp: Let_def m)
qed

text \<open>
  (C23) A runtime whose instance was last suspended or deprovisioned, or is being so, is
  not upgraded: no target stands for a runtime of its shoot, not even the target for all runtimes.
\<close>

theorem suspended_runtimes_are_left_alone:
  assumes "ListProvisioningOperationsByInstanceID visit (inst_ID i) s = Inr p"
    and "ListDeprovisioningOperationsByInstanceID visit (inst_ID i) s = Inr d" and "State (hd d) \<noteq> Pending"
    and "distinct (map CreatedAt (p @ d))" and "CreatedAt (hd p) < CreatedAt (hd d)"
    and "runtime_for visit region s i = Returned (Some dto)" and "map_of rts (shoot_runtimeID sh) = Some dto"
  shows "\<not> stands_for L rts [sh] rt r"
proof -
  from last_operation_of_runtime [OF assms(1-4), of region] assms(5,6) obtain lo
    where "dto_LastOperation dto = Returned lo" "dop_Type lo = RtSuspension \<or> dop_Type lo = RtDeprovision" by (auto split: if_splits)
  then have "usable_runtime L rts sh = Returned None" using assms(7) by (auto simp: usable_runtime_def skipped_def)
  then show ?thesis by (simp add: stands_for_def)
qed

theorem suspended_runtimes_are_left_alone_witness:
  "\<exists>dto. runtime_for (\<lambda>m. m) [] suspended_store some_instance = Returned (Some dto) \<and>
     (\<forall>r. \<not> stands_for some_lib [(''r'', dto)] [some_shoot] target_all r)"
proof -
  let ?p = "[some_operation\<lparr>op_ID := ''p'', op_Type := OperationTypeProvision, InstanceID := ''i'', CreatedAt := 1, State := Succeeded\<rparr>]"
    and ?d = "[some_operation\<lparr>op_ID := ''d'', op_Type := OperationTypeDeprovision, InstanceID := ''i'', CreatedAt := 2, State := Succeeded, Temporary := True\<rparr>]"
  have l: "ListProvisioningOperationsByInstanceID (\<lambda>m. m) (inst_ID some_instance) suspended_store = Inr ?p"
    "ListDeprovisioningOperationsByInstanceID (\<lambda>m. m) (inst_ID some_instance) suspended_store = Inr ?d"
    by code_simp+
  have h: "State (hd ?d) \<noteq> Pending" "distinct (map CreatedAt (?p @ ?d))" "CreatedAt (hd ?p) < CreatedAt (hd ?d)" by (simp_all add: op_states)
  from last_operation_of_runtime [OF l h(1,2), of "[]"] obtain dto
    where dto: "runtime_for (\<lambda>m. m) [] suspended_store some_instance = Returned (Some dto)" by blast
  have "map_of [(''r'', dto)] (shoot_runtimeID some_shoot) = Some dto" by (simp add: shoot_runtimeID_def entry_of_def some_shoot_def)
  from suspended_runtimes_are_left_alone [OF l h dto this] dto show ?thesis by blast
qed

text \<open>
  The resolver only ever adds runtimes to the ones it knows.  When the broker has no instances any more, the same
  targets still yield the same runtimes as before, as long as the shoots are there.
\<close>

theorem gone_runtimes_are_still_resolved:
  "fst (Resolve L namespace (Inr shoots) (Inr []) targets (snd (Resolve L namespace (Inr shoots) (Inr runtimes) targets rts))) =
   fst (Resolve L namespace (Inr shoots) (Inr runtimes) targets rts)"
  by (simp add: Resolve_def Let_def) (simp add: syncRuntimeOperations_def)

end
