(* ===== verification/Runtime_States.thy ===== *)
theory Runtime_States
  imports Memory_Storage
begin

text \<open>
  Runtime states: the configuration that was sent for a runtime with an operation (\<^verbatim>\<open>src/internal/model.go\<close>) and their
  in-memory storage (\<^verbatim>\<open>src/internal/storage/driver/memory/runtime_state.go\<close>).

  The configurations are types of other modules (\<^verbatim>\<open>gqlschema\<close>, the API of the reconciler); of them the fields that the sources name
  are modelled.  The values of configuration entries have a type of their own and \<open>fmt.Sprint\<close> is a parameter.
\<close>

section \<open>Data\<close>

record 'v config_entry =
  cfg_Key :: string
  cfg_Value :: 'v
  cfg_Secret :: bool

record 'v reconciler_component =
  rc_Component :: string
  rc_Namespace :: string
  rc_URL :: string
  rc_Configuration :: "'v config_entry list"

record 'v cluster_setup =
  setup_Version :: string
  setup_Profile :: string
  setup_Components :: "'v reconciler_component list"

record component_input =
  comp_Component :: string
  comp_Namespace :: string
  comp_SourceURL :: "string option"
  comp_Configuration :: "string config_entry list"

record kyma_config =
  kc_Version :: string
  kc_Profile :: "string option"
  kc_Components :: "component_input list"

record cluster_config =
  cc_Provider :: string
  cc_OidcConfig :: "string option"
  cc_rest :: string

record 'v rt_state =
  rs_ID :: string
  rs_CreatedAt :: int
  rs_RuntimeID :: string
  rs_OperationID :: string
  rs_KymaConfig :: kyma_config
  rs_ClusterConfig :: cluster_config
  rs_ClusterSetup :: "'v cluster_setup option"
  rs_KymaVersion :: string

definition no_kyma_config :: kyma_config where
  "no_kyma_config = \<lparr>kc_Version = [], kc_Profile = None, kc_Components = []\<rparr>"

definition no_cluster_config :: cluster_config where
  "no_cluster_config = \<lparr>cc_Provider = [], cc_OidcConfig = None, cc_rest = []\<rparr>"

definition no_rt_state :: "'v rt_state" where
  "no_rt_state = \<lparr>rs_ID = [], rs_CreatedAt = 0, rs_RuntimeID = [], rs_OperationID = [], rs_KymaConfig = no_kyma_config,
     rs_ClusterConfig = no_cluster_config, rs_ClusterSetup = None, rs_KymaVersion = []\<rparr>"

definition NewRuntimeState ::
  "string \<Rightarrow> int \<Rightarrow> string \<Rightarrow> string \<Rightarrow> kyma_config option \<Rightarrow> cluster_config option \<Rightarrow> 'v rt_state" where
  "NewRuntimeState k now runtimeID operationID kymaConfig clusterConfig =
     no_rt_state\<lparr>rs_ID := k, rs_CreatedAt := now, rs_RuntimeID := runtimeID, rs_OperationID := operationID,
       rs_KymaConfig := (case kymaConfig of Some c \<Rightarrow> c | None \<Rightarrow> no_kyma_config),
       rs_ClusterConfig := (case clusterConfig of Some c \<Rightarrow> c | None \<Rightarrow> no_cluster_config)\<rparr>"

definition NewRuntimeStateWithReconcilerInput ::
  "string \<Rightarrow> int \<Rightarrow> string \<Rightarrow> string \<Rightarrow> 'v cluster_setup option \<Rightarrow> 'v rt_state" where
  "NewRuntimeStateWithReconcilerInput k now runtimeID operationID reconcilerInput =
     no_rt_state\<lparr>rs_ID := k, rs_CreatedAt := now, rs_RuntimeID := runtimeID, rs_OperationID := operationID,
       rs_ClusterSetup := reconcilerInput\<rparr>"

section \<open>The configuration of Kyma\<close>

text \<open>
  The loop over the components.  The source URL of a new component is a pointer into the loop variable, which is one
  variable for the whole loop (Go 1.21): \<open>url\<close> is what it points to, and the second result what it points to in the end.
\<close>

definition config_input :: "('v \<Rightarrow> string) \<Rightarrow> 'v config_entry \<Rightarrow> string config_entry" where
  "config_input sprint c = \<lparr>cfg_Key = cfg_Key c, cfg_Value = sprint (cfg_Value c), cfg_Secret = cfg_Secret c\<rparr>"

fun component_loop :: "('v \<Rightarrow> string) \<Rightarrow> 'v reconciler_component list \<Rightarrow> string \<Rightarrow> (string \<Rightarrow> component_input) list \<times> string" where
  "component_loop sprint [] url = ([], url)"
| "component_loop sprint (cmp # cmps) url =
     (let (rest, final) = component_loop sprint cmps (rc_URL cmp) in
      ((\<lambda>target. \<lparr>comp_Component = rc_Component cmp, comp_Namespace = rc_Namespace cmp, comp_SourceURL = Some target,
          comp_Configuration = map (config_input sprint) (rc_Configuration cmp)\<rparr>) # rest, final))"

definition buildKymaConfigFromClusterSetup :: "('v \<Rightarrow> string) \<Rightarrow> 'v cluster_setup \<Rightarrow> kyma_config" where
  "buildKymaConfigFromClusterSetup sprint setup =
     (let (components, target) = component_loop sprint (setup_Components setup) [] in
      \<lparr>kc_Version = setup_Version setup, kc_Profile = Some (setup_Profile setup), kc_Components = map (\<lambda>c. c target) components\<rparr>)"

definition GetKymaConfig :: "('v \<Rightarrow> string) \<Rightarrow> 'v rt_state \<Rightarrow> kyma_config" where
  "GetKymaConfig sprint r =
     (case rs_ClusterSetup r of Some setup \<Rightarrow> buildKymaConfigFromClusterSetup sprint setup | None \<Rightarrow> rs_KymaConfig r)"

definition GetKymaVersion :: "'v rt_state \<Rightarrow> string" where
  "GetKymaVersion r =
     (if rs_KymaVersion r \<noteq> [] then rs_KymaVersion r
      else case rs_ClusterSetup r of Some setup \<Rightarrow> setup_Version setup | None \<Rightarrow> kc_Version (rs_KymaConfig r))"

section \<open>The store\<close>

type_synonym 'v rt_states = "(string \<times> 'v rt_state) list"

definition rs_Insert :: "'v rt_state \<Rightarrow> 'v rt_states \<Rightarrow> 'v rt_states" where
  "rs_Insert r m = assoc_set (rs_ID r) r m"

definition ListByRuntimeID :: "('v rt_states \<Rightarrow> 'v rt_states) \<Rightarrow> string \<Rightarrow> 'v rt_states \<Rightarrow> 'v rt_state list" where
  "ListByRuntimeID visit runtimeID m =
     sort_key (\<lambda>r. - rs_CreatedAt r) (filter (\<lambda>r. rs_RuntimeID r = runtimeID) (map snd (visit m)))"

definition rs_not_found :: "string \<Rightarrow> string \<Rightarrow> go_error" where
  "rs_not_found what k = DbError CodeNotFound (what @ k @ '' not found'')"

definition GetByOperationID :: "('v rt_states \<Rightarrow> 'v rt_states) \<Rightarrow> string \<Rightarrow> 'v rt_states \<Rightarrow> go_error + 'v rt_state" where
  "GetByOperationID visit operationID m =
     (case find (\<lambda>r. rs_OperationID r = operationID) (map snd (visit m)) of
        Some r \<Rightarrow> Inr r | None \<Rightarrow> Inl (rs_not_found ''runtime state with operation ID '' operationID))"

definition getRuntimeStatesByRuntimeID :: "('v rt_states \<Rightarrow> 'v rt_states) \<Rightarrow> string \<Rightarrow> 'v rt_states \<Rightarrow> go_error + 'v rt_state list" where
  "getRuntimeStatesByRuntimeID visit runtimeID m =
     (let states = ListByRuntimeID visit runtimeID m in
      if states = [] then Inl (rs_not_found ''runtime state for runtime with ID: '' runtimeID) else Inr states)"

text \<open>The three searches below are the same loop with another condition and message.\<close>

definition latest_with ::
  "('v rt_state \<Rightarrow> bool) \<Rightarrow> string \<Rightarrow> ('v rt_states \<Rightarrow> 'v rt_states) \<Rightarrow> string \<Rightarrow> 'v rt_states \<Rightarrow> go_error + 'v rt_state" where
  "latest_with p what visit runtimeID m =
     (case getRuntimeStatesByRuntimeID visit runtimeID m of
        Inl e \<Rightarrow> Inl e
      | Inr states \<Rightarrow>
          (case find p states of Some r \<Rightarrow> Inr r | None \<Rightarrow> Inl (rs_not_found what runtimeID)))"

definition GetLatestByRuntimeID :: "('v rt_states \<Rightarrow> 'v rt_states) \<Rightarrow> string \<Rightarrow> 'v rt_states \<Rightarrow> go_error + 'v rt_state" where
  "GetLatestByRuntimeID visit runtimeID m =
     (case getRuntimeStatesByRuntimeID visit runtimeID m of Inl e \<Rightarrow> Inl e | Inr states \<Rightarrow> Inr (hd states))"

definition with_version :: "'v rt_state \<Rightarrow> bool" where
  "with_version r =
     (rs_KymaVersion r \<noteq> [] \<or> (case rs_ClusterSetup r of Some setup \<Rightarrow> setup_Version setup \<noteq> [] | None \<Rightarrow> False) \<or>
      kc_Version (rs_KymaConfig r) \<noteq> [])"

definition GetLatestWithKymaVersionByRuntimeID :: "('v rt_states \<Rightarrow> 'v rt_states) \<Rightarrow> string \<Rightarrow> 'v rt_states \<Rightarrow> go_error + 'v rt_state" where
  "GetLatestWithKymaVersionByRuntimeID =
     latest_with with_version ''runtime state with Reconciler input for runtime with ID: ''"

definition GetLatestWithReconcilerInputByRuntimeID :: "('v rt_states \<Rightarrow> 'v rt_states) \<Rightarrow> string \<Rightarrow> 'v rt_states \<Rightarrow> go_error + 'v rt_state" where
  "GetLatestWithReconcilerInputByRuntimeID =
     latest_with (\<lambda>r. rs_ClusterSetup r \<noteq> None) ''runtime state with Reconciler input for runtime with ID: ''"

definition GetLatestWithOIDCConfigByRuntimeID :: "('v rt_states \<Rightarrow> 'v rt_states) \<Rightarrow> string \<Rightarrow> 'v rt_states \<Rightarrow> go_error + 'v rt_state" where
  "GetLatestWithOIDCConfigByRuntimeID =
     latest_with (\<lambda>r. cc_OidcConfig (rs_ClusterConfig r) \<noteq> None) ''runtime state with OIDC config for runtime with ID: ''"

section \<open>The newest state\<close>

lemma find_sorted:
  assumes "sorted (map f xs)" "find p xs = Some x"
  shows "x \<in> set xs \<and> p x \<and> (\<forall>y\<in>set xs. p y \<longrightarrow> f x \<le> f y)"
  using assms by (induction xs) (auto split: if_splits)

text \<open>
  What the four searches for the newest state promise: a found state is stored, belongs to the runtime and has what
  is looked for, and no such state is newer; nothing is found only if there is none.
\<close>

locale latest_state =
  fixes lookup :: "('v rt_states \<Rightarrow> 'v rt_states) \<Rightarrow> string \<Rightarrow> 'v rt_states \<Rightarrow> go_error + 'v rt_state"
    and sel :: "'v rt_state \<Rightarrow> bool"
  assumes found: "(\<And>m. set (visit m) = set m) \<Longrightarrow> lookup visit k m = Inr r \<Longrightarrow>
          r \<in> snd ` set m \<and> rs_RuntimeID r = k \<and> sel r \<and>
          (\<forall>other\<in>snd ` set m. rs_RuntimeID other = k \<longrightarrow> sel other \<longrightarrow> rs_CreatedAt other \<le> rs_CreatedAt r)"
    and missing: "(\<And>m. set (visit m) = set m) \<Longrightarrow> lookup visit k m = Inl e \<Longrightarrow>
          IsNotFound e \<and> (\<forall>r\<in>snd ` set m. rs_RuntimeID r = k \<longrightarrow> \<not> sel r)"
begin

text \<open>A new state that is younger than the others is the one that is found.\<close>

lemma lookup_newest_state:
  assumes v: "\<And>m. set (visit m) = set m" and "r \<in> snd ` set m" "sel r"
    and "\<And>other. other \<in> snd ` set m \<Longrightarrow> rs_RuntimeID other = rs_RuntimeID r \<Longrightarrow> other \<noteq> r \<Longrightarrow> rs_CreatedAt other < rs_CreatedAt r"
  shows "lookup visit (rs_RuntimeID r) m = Inr r"
proof (cases "lookup visit (rs_RuntimeID r) m")
  case (Inl e)
  with missing [OF v Inl] assms(2,3) show ?thesis by blast
next
  case (Inr other)
  from found [OF v Inr] assms(2,3) have o: "other \<in> snd ` set m" "rs_RuntimeID other = rs_RuntimeID r" "rs_CreatedAt r \<le> rs_CreatedAt other"
    by blast+
  with assms(4) [OF o(1,2)] Inr show ?thesis by force
qed

end

lemma set_ListByRuntimeID:
  assumes "\<And>m. set (visit m) = set m"
  shows "set (ListByRuntimeID visit k m) = {r \<in> snd ` set m. rs_RuntimeID r = k}"
  by (auto simp: ListByRuntimeID_def assms)

lemma latest_state_latest_with:
  fixes p :: "'v rt_state \<Rightarrow> bool"
  shows "latest_state (latest_with p what) p"
proof
  fix visit :: "'v rt_states \<Rightarrow> 'v rt_states" and k m r e
  assume v: "\<And>m. set (visit m) = set m"
  note rows = set_ListByRuntimeID [OF v, of k m]
  show "r \<in> snd ` set m \<and> rs_RuntimeID r = k \<and> p r \<and>
      (\<forall>other\<in>snd ` set m. rs_RuntimeID other = k \<longrightarrow> p other \<longrightarrow> rs_CreatedAt other \<le> rs_CreatedAt r)"
    if "latest_with p what visit k m = Inr r"
  proof -
    from that have f: "find p (ListByRuntimeID visit k m) = Some r"
      by (auto simp: latest_with_def getRuntimeStatesByRuntimeID_def Let_def split: if_splits option.splits)
    have "sorted (map (\<lambda>r. - rs_CreatedAt r) (ListByRuntimeID visit k m))"
      by (simp add: ListByRuntimeID_def)
    from find_sorted [OF this f] show ?thesis unfolding rows by auto
  qed
  show "IsNotFound e \<and> (\<forall>r\<in>snd ` set m. rs_RuntimeID r = k \<longrightarrow> \<not> p r)" if "latest_with p what visit k m = Inl e"
  proof -
    from that have "IsNotFound e" "find p (ListByRuntimeID visit k m) = None"
      by (auto simp: latest_with_def getRuntimeStatesByRuntimeID_def Let_def rs_not_found_def IsNotFound_def split: if_splits option.splits)
    then show ?thesis using rows by (auto simp: find_None_iff)
  qed
qed

interpretation kyma_version: latest_state GetLatestWithKymaVersionByRuntimeID with_version
  unfolding GetLatestWithKymaVersionByRuntimeID_def by (rule latest_state_latest_with)

interpretation reconciler_input: latest_state GetLatestWithReconcilerInputByRuntimeID "\<lambda>r. rs_ClusterSetup r \<noteq> None"
  unfolding GetLatestWithReconcilerInputByRuntimeID_def by (rule latest_state_latest_with)

interpretation oidc_state: latest_state GetLatestWithOIDCConfigByRuntimeID "\<lambda>r. cc_OidcConfig (rs_ClusterConfig r) \<noteq> None"
  unfolding GetLatestWithOIDCConfigByRuntimeID_def by (rule latest_state_latest_with)

lemma GetLatestByRuntimeID_latest_with: "GetLatestByRuntimeID visit k m = latest_with (\<lambda>_. True) what visit k m"
proof (cases "ListByRuntimeID visit k m")
  case Nil
  then show ?thesis by (simp add: GetLatestByRuntimeID_def latest_with_def getRuntimeStatesByRuntimeID_def)
next
  case (Cons r rs)
  then show ?thesis by (simp add: GetLatestByRuntimeID_def latest_with_def getRuntimeStatesByRuntimeID_def)
qed

interpretation any_state: latest_state GetLatestByRuntimeID "\<lambda>_. True"
  using latest_state_latest_with [of "\<lambda>_. True"] by (simp add: GetLatestByRuntimeID_latest_with [abs_def, symmetric])

section \<open>The version of Kyma\<close>

text \<open>The two ways in which states are made.\<close>

definition made :: "'v rt_state \<Rightarrow> bool" where
  "made r = (rs_ClusterSetup r \<noteq> None \<longrightarrow> kc_Version (rs_KymaConfig r) = [])"

lemma made_new:
  "made (NewRuntimeState k now runtimeID operationID c d)" "made (NewRuntimeStateWithReconcilerInput k now runtimeID operationID i)"
  by (simp_all add: made_def NewRuntimeState_def NewRuntimeStateWithReconcilerInput_def no_rt_state_def no_kyma_config_def)

lemma with_version_made: "made r \<Longrightarrow> with_version r \<longleftrightarrow> GetKymaVersion r \<noteq> []"
  by (auto simp: made_def with_version_def GetKymaVersion_def split: option.splits)

text \<open>
  The newest state with a version of Kyma: when the states of a runtime are made
  by the two constructors, with a version set or not, the version read from the state that is found is not empty, and every younger
  state of the runtime has none; nothing is found exactly when no state of the runtime has a version.
\<close>

theorem latest_version_is_known:
  assumes "\<And>m. set (visit m) = set m" "\<forall>r\<in>snd ` set m. made r"
  shows "case GetLatestWithKymaVersionByRuntimeID visit k m of
           Inr r \<Rightarrow> r \<in> snd ` set m \<and> rs_RuntimeID r = k \<and> GetKymaVersion r \<noteq> [] \<and>
             (\<forall>other\<in>snd ` set m. rs_RuntimeID other = k \<and> rs_CreatedAt r < rs_CreatedAt other \<longrightarrow> GetKymaVersion other = [])
         | Inl e \<Rightarrow> IsNotFound e \<and> (\<forall>r\<in>snd ` set m. rs_RuntimeID r = k \<longrightarrow> GetKymaVersion r = [])"
proof (cases "GetLatestWithKymaVersionByRuntimeID visit k m")
  case (Inl e)
  from kyma_version.missing [OF assms(1) Inl] assms(2) with_version_made show ?thesis unfolding Inl sum.case by metis
next
  case (Inr r)
  from kyma_version.found [OF assms(1) Inr] assms(2) with_version_made show ?thesis unfolding Inr sum.case by (metis linorder_not_le)
qed

definition two_states :: "unit rt_states" where
  "two_states =
     [(''a'', (NewRuntimeState ''a'' 1 ''r'' ''op1'' (Some (no_kyma_config\<lparr>kc_Version := ''2.0''\<rparr>)) None)),
      (''b'', (NewRuntimeState ''b'' 2 ''r'' ''op2'' None None))]"

theorem latest_version_is_known_witness:
  "GetLatestWithKymaVersionByRuntimeID (\<lambda>m. m) ''r'' two_states = Inr (snd (hd two_states)) \<and>
   (\<forall>r\<in>snd ` set two_states. made r) \<and> GetKymaVersion (snd (hd two_states)) \<noteq> []"
proof -
  have made: "\<forall>r\<in>snd ` set two_states. made r" by (simp add: two_states_def made_new)
  have "GetLatestWithKymaVersionByRuntimeID (\<lambda>m. m) ''r'' two_states = Inr (snd (hd two_states))"
    by code_simp
  with latest_version_is_known [of "\<lambda>m. m" two_states "''r''"] made show ?thesis by simp
qed

text \<open>A state with a setup that has no version and an older configuration is found although its version reads as empty.\<close>

lemma found_without_version:
  assumes "rs_KymaVersion r = []" "rs_ClusterSetup r = Some setup" "setup_Version setup = []" "kc_Version (rs_KymaConfig r) \<noteq> []"
  shows "with_version r \<and> GetKymaVersion r = []"
  using assms by (simp add: with_version_def GetKymaVersion_def)

section \<open>The source of the components\<close>

lemma component_loop_spec:
  "snd (component_loop sprint cmps url) = (if cmps = [] then url else rc_URL (last cmps))"
  "map (\<lambda>c. c target) (fst (component_loop sprint cmps url)) =
     map (\<lambda>cmp. \<lparr>comp_Component = rc_Component cmp, comp_Namespace = rc_Namespace cmp, comp_SourceURL = Some target,
        comp_Configuration = map (config_input sprint) (rc_Configuration cmp)\<rparr>) cmps"
  by (induction cmps arbitrary: url) (simp_all add: Let_def case_prod_beta)

text \<open>
  (C32) The configuration of Kyma that is shown for a state with a setup has the components of the setup in their
  order, with their names, namespaces and entries; but all of them have the source URL of the last component.
\<close>

theorem components_share_one_source:
  assumes "rs_ClusterSetup r = Some setup" "setup_Components setup = cmps @ [final]"
  shows "kc_Components (GetKymaConfig sprint r) =
    map (\<lambda>cmp. \<lparr>comp_Component = rc_Component cmp, comp_Namespace = rc_Namespace cmp, comp_SourceURL = Some (rc_URL final),
      comp_Configuration = map (config_input sprint) (rc_Configuration cmp)\<rparr>) (cmps @ [final])"
proof -
  obtain cs target where loop: "component_loop sprint (cmps @ [final]) [] = (cs, target)" by fastforce
  have "target = rc_URL final" using component_loop_spec(1) [of sprint "cmps @ [final]" "[]"] by (simp add: loop)
  with component_loop_spec(2) [of target sprint "cmps @ [final]" "[]"] show ?thesis
    by (simp add: GetKymaConfig_def buildKymaConfigFromClusterSetup_def assms loop)
qed

definition two_components :: "string cluster_setup" where
  "two_components = \<lparr>setup_Version = ''2.0'', setup_Profile = ''production'', setup_Components =
     [\<lparr>rc_Component = ''istio'', rc_Namespace = ''istio-system'', rc_URL = ''https://a'', rc_Configuration = []\<rparr>,
      \<lparr>rc_Component = ''custom'', rc_Namespace = ''kyma-system'', rc_URL = ''https://b'', rc_Configuration = []\<rparr>]\<rparr>"

theorem components_share_one_source_witness:
  "map comp_SourceURL (kc_Components (GetKymaConfig (\<lambda>v. v)
     (NewRuntimeStateWithReconcilerInput ''a'' 1 ''r'' ''op'' (Some two_components)))) = [Some ''https://b'', Some ''https://b'']"
  using components_share_one_source [of "NewRuntimeStateWithReconcilerInput ''a'' 1 ''r'' ''op'' (Some two_components)" two_components
    "[\<lparr>rc_Component = ''istio'', rc_Namespace = ''istio-system'', rc_URL = ''https://a'', rc_Configuration = []\<rparr>]"
    "\<lparr>rc_Component = ''custom'', rc_Namespace = ''kyma-system'', rc_URL = ''https://b'', rc_Configuration = []\<rparr>" "\<lambda>v. v"]
  by (simp add: NewRuntimeStateWithReconcilerInput_def two_components_def)

end
