(* ===== verification/Orchestration_Status.thy ===== *)
theory Orchestration_Status
  imports Orchestration_Handlers Runtime_States Broker_Endpoints
begin

text \<open>
  The handlers that show orchestrations and their operations
  (\<^verbatim>\<open>src/internal/orchestration/handlers/orchestration_handler.go\<close>, \<^verbatim>\<open>converter.go\<close>) and the reading of page numbers from a
  request (\<^verbatim>\<open>src/common/pagination/pagination.go\<close>).  They change nothing.  The query of a request is the list of its parameters with
  their values, as \<open>URL.Query\<close> returns them.
\<close>

section \<open>Pages\<close>

type_synonym query = "(string \<times> string list) list"

definition ValidatePageParameters :: "int \<Rightarrow> int \<Rightarrow> go_error option" where
  "ValidatePageParameters pageSize page =
     (if page < 1 then Some (TextError ''page cannot be smaller than 1'')
      else if pageSize < 1 then Some (TextError ''page size cannot be smaller than 1'') else None)"

definition ConvertPageSizeAndOrderedColumnToSQL :: "int \<Rightarrow> int \<Rightarrow> string \<Rightarrow> go_error + string" where
  "ConvertPageSizeAndOrderedColumnToSQL pageSize page orderedColumn =
     (case ValidatePageParameters pageSize page of
        Some e \<Rightarrow> Inl (wrap ''while validating page parameters'' e)
      | None \<Rightarrow> Inr (''ORDER BY '' @ orderedColumn @ '' LIMIT '' @ show_int pageSize @ '' OFFSET '' @ show_int ((page - 1) * pageSize)))"

text \<open>
  One parameter: the default if it is missing.  A parameter that is there has at least one value; the first element of an empty list would
  panic.
\<close>

definition query_int :: "string \<Rightarrow> int \<Rightarrow> string list option \<Rightarrow> (go_error + int) go_call" where
  "query_int name dflt vs =
     (case vs of
        None \<Rightarrow> Returned (Inr dflt)
      | Some [] \<Rightarrow> Panicked ''index out of range''
      | Some [v] \<Rightarrow>
          Returned (case Atoi v of Some i \<Rightarrow> Inr i | None \<Rightarrow> Inl (TextError (name @ '' has to be an integer'')))
      | Some (v # _ # _) \<Rightarrow> Returned (Inl (TextError (name @ '' has to be one parameter''))))"

definition and_result :: "(go_error + 'a) go_call \<Rightarrow> ('a \<Rightarrow> (go_error + 'b) go_call) \<Rightarrow> (go_error + 'b) go_call" where
  "and_result m f =
     (case m of Panicked v \<Rightarrow> Panicked v | Returned (Inl e) \<Rightarrow> Returned (Inl e) | Returned (Inr a) \<Rightarrow> f a)"

definition ExtractPaginationConfigFromRequest :: "query \<Rightarrow> int \<Rightarrow> (go_error + int \<times> int) go_call" where
  "ExtractPaginationConfigFromRequest params maxPage =
     and_result (query_int ''pageSize'' maxPage (map_of params ''page_size'')) (\<lambda>pageSize.
       if maxPage < pageSize
       then Returned (Inl (TextError (''pageSize is bigger than maxPage('' @ show_int maxPage @ '')'')))
       else if pageSize < 1 then Returned (Inl (TextError ''pageSize cannot be smaller than 1''))
       else and_result (query_int ''page'' 1 (map_of params ''page'')) (\<lambda>page.
              if page < 1 then Returned (Inl (TextError ''page cannot be smaller than 1''))
              else Returned (Inr (pageSize, page))))"

section \<open>Responses\<close>

record status_response =
  sr_OrchestrationID :: string
  sr_Type :: string
  sr_State :: string
  sr_Description :: string
  sr_CreatedAt :: int
  sr_UpdatedAt :: int
  sr_Parameters :: orchestration_parameters
  sr_OperationStats :: "(string \<Rightarrow> nat) option"

record operation_response =
  opr_OperationID :: string
  opr_RuntimeID :: string
  opr_GlobalAccountID :: string
  opr_SubAccountID :: string
  opr_OrchestrationID :: string
  opr_ServicePlanID :: string
  opr_ServicePlanName :: string
  opr_DryRun :: bool
  opr_ShootName :: string
  opr_MaintenanceWindowBegin :: go_time
  opr_MaintenanceWindowEnd :: go_time
  opr_State :: string
  opr_Description :: string

record 'a response_list =
  rl_Data :: "'a list"
  rl_Count :: nat
  rl_TotalCount :: nat

record detail_response =
  dr_Operation :: operation_response
  dr_KymaConfig :: "kyma_config option"
  dr_ClusterConfig :: "cluster_config option"

definition OrchestrationToDTO :: "orchestration \<Rightarrow> (string \<Rightarrow> nat) option \<Rightarrow> status_response" where
  "OrchestrationToDTO o' stats =
     \<lparr>sr_OrchestrationID = orch_ID o', sr_Type = orch_Type o', sr_State = orch_State o', sr_Description = orch_Description o',
      sr_CreatedAt = orch_CreatedAt o', sr_UpdatedAt = orch_UpdatedAt o', sr_Parameters = orch_Parameters o', sr_OperationStats = stats\<rparr>"

definition OrchestrationListToDTO :: "orchestration list \<Rightarrow> nat \<Rightarrow> nat \<Rightarrow> status_response response_list" where
  "OrchestrationListToDTO os c n =
     \<lparr>rl_Data = map (\<lambda>o'. OrchestrationToDTO o' None) os, rl_Count = c, rl_TotalCount = n\<rparr>"

text \<open>The conversions for upgrades of Kyma and of clusters are the same.\<close>

definition UpgradeOperationToDTO :: "operation \<Rightarrow> operation_response" where
  "UpgradeOperationToDTO op =
     (let r = ro_Runtime (RuntimeOperation op) in
      \<lparr>opr_OperationID = op_ID op, opr_RuntimeID = rt_RuntimeID r, opr_GlobalAccountID = rt_GlobalAccountID r, opr_SubAccountID = rt_SubAccountID r,
       opr_OrchestrationID = OrchestrationID op, opr_ServicePlanID = PlanID (ProvisioningParameters op),
       opr_ServicePlanName = plan_name (PlanID (ProvisioningParameters op)), opr_DryRun = ro_DryRun (RuntimeOperation op),
       opr_ShootName = rt_ShootName r, opr_MaintenanceWindowBegin = MaintenanceWindowBegin r, opr_MaintenanceWindowEnd = MaintenanceWindowEnd r,
       opr_State = State op, opr_Description = Description op\<rparr>)"

definition UpgradeOperationListToDTO :: "operation list \<Rightarrow> nat \<Rightarrow> nat \<Rightarrow> operation_response response_list" where
  "UpgradeOperationListToDTO shown c n = \<lparr>rl_Data = map UpgradeOperationToDTO shown, rl_Count = c, rl_TotalCount = n\<rparr>"

section \<open>Handlers\<close>

type_synonym 'a reply = "(int \<times> (go_error + 'a)) go_call"

definition orchestration_or :: "string \<Rightarrow> orch_world \<Rightarrow> (orchestration \<Rightarrow> 'a reply) \<Rightarrow> 'a reply" where
  "orchestration_or k w f =
     (case orch_GetByID k (w_orchs w) of
        Inl e \<Rightarrow> Returned (resolveErrorStatus e, Inl (wrap (''while getting orchestration '' @ k) e))
      | Inr o' \<Rightarrow> f o')"

definition getOrchestration :: "visit \<Rightarrow> string \<Rightarrow> orch_world \<Rightarrow> status_response reply" where
  "getOrchestration visit k w =
     orchestration_or k w (\<lambda>o'. Returned (200, Inr (OrchestrationToDTO o' (Some (GetOperationStatsForOrchestration visit k (w_ops w))))))"

definition paged :: "query \<Rightarrow> int \<Rightarrow> (int \<Rightarrow> int \<Rightarrow> 'a reply) \<Rightarrow> 'a reply" where
  "paged params maxPage f =
     (case ExtractPaginationConfigFromRequest params maxPage of
        Panicked v \<Rightarrow> Panicked v
      | Returned (Inl e) \<Rightarrow> Returned (400, Inl (wrap ''while getting query parameters'' e))
      | Returned (Inr (pageSize, page)) \<Rightarrow> f pageSize page)"

definition state_param :: "query \<Rightarrow> string list" where
  "state_param params = (case map_of params ''state'' of Some vs \<Rightarrow> vs | None \<Rightarrow> [])"

definition listOrchestration :: "(orch_map \<Rightarrow> orch_map) \<Rightarrow> int \<Rightarrow> query \<Rightarrow> orch_world \<Rightarrow> status_response response_list reply" where
  "listOrchestration visit maxPage params w =
     paged params maxPage (\<lambda>pageSize page.
       case orch_List visit \<lparr>filter_Types = [], orch_filter_States = state_param params, orch_filter_Page = page, orch_filter_PageSize = pageSize\<rparr> (w_orchs w) of
         Panicked v \<Rightarrow> Panicked v
       | Returned (os, c, n) \<Rightarrow> Returned (200, Inr (OrchestrationListToDTO os c n)))"

definition listOperations :: "visit \<Rightarrow> int \<Rightarrow> string \<Rightarrow> query \<Rightarrow> orch_world \<Rightarrow> operation_response response_list reply" where
  "listOperations visit maxPage k params w =
     paged params maxPage (\<lambda>pageSize page.
       let flt = \<lparr>filter_States = state_param params, filter_Page = page, filter_PageSize = pageSize\<rparr>;
           respond = (\<lambda>call. case call of
             Panicked v \<Rightarrow> Panicked v
           | Returned (shown, c, n) \<Rightarrow> Returned (200, Inr (UpgradeOperationListToDTO shown c n)))
       in orchestration_or k w (\<lambda>o'.
            if orch_Type o' = UpgradeKymaOrchestration then respond (ListUpgradeKymaOperationsByOrchestrationID visit k flt (w_ops w))
            else if orch_Type o' = UpgradeClusterOrchestration then respond (ListUpgradeClusterOperationsByOrchestrationID visit k flt (w_ops w))
            else Returned (500, Inl (TextError (''unsupported orchestration type: '' @ orch_Type o')))))"

text \<open>If there is no runtime state, the configurations are those of the zero state.\<close>

definition orch_getOperation ::
  "('v \<Rightarrow> string) \<Rightarrow> ('v rt_states \<Rightarrow> 'v rt_states) \<Rightarrow> 'v rt_states \<Rightarrow> string \<Rightarrow> string \<Rightarrow> orch_world \<Rightarrow> detail_response reply" where
  "orch_getOperation sprint visit states k operationID w =
     orchestration_or k w (\<lambda>o'.
       let st = (case GetByOperationID visit operationID states of Inr r \<Rightarrow> r | Inl e \<Rightarrow> no_rt_state);
           kymaConfig = GetKymaConfig sprint st;
           respond = (\<lambda>found kc cc. case found of
             Inl e \<Rightarrow> Returned (resolveErrorStatus e, Inl (wrap (''while getting upgrade operation '' @ operationID) e))
           | Inr op \<Rightarrow> Returned (200, Inr \<lparr>dr_Operation = UpgradeOperationToDTO op, dr_KymaConfig = kc, dr_ClusterConfig = cc\<rparr>))
       in if orch_Type o' = UpgradeKymaOrchestration
          then respond (GetUpgradeKymaOperationByID operationID (w_ops w)) (Some kymaConfig) None
          else if orch_Type o' = UpgradeClusterOrchestration
          then respond (GetUpgradeClusterOperationByID operationID (w_ops w)) None (Some (rs_ClusterConfig st))
          else Returned (500, Inl (TextError (''unsupported orchestration type: '' @ orch_Type o'))))"

section \<open>Properties\<close>

text \<open>
  A request that is not refused asks for a page from 1 on with a size from 1 to the maximum, for which the offset for the
  database is never negative; parameters that are missing stand for the first page of maximal size.
\<close>

theorem pages_are_in_bounds:
  assumes "ExtractPaginationConfigFromRequest params maxPage = Returned (Inr (pageSize, page))"
  shows "1 \<le> pageSize \<and> pageSize \<le> maxPage \<and> 1 \<le> page \<and>
    (map_of params ''page_size'' = None \<longrightarrow> pageSize = maxPage) \<and> (map_of params ''page'' = None \<longrightarrow> page = 1) \<and>
    (\<exists>sql. ConvertPageSizeAndOrderedColumnToSQL pageSize page column = Inr sql) \<and> 0 \<le> (page - 1) * pageSize"
  using assms
  by (auto simp: ExtractPaginationConfigFromRequest_def and_result_def query_int_def ConvertPageSizeAndOrderedColumnToSQL_def
      ValidatePageParameters_def split: go_call.splits sum.splits if_splits option.splits list.splits)

theorem pages_are_in_bounds_witness:
  "ExtractPaginationConfigFromRequest [(''page'', [''3'']), (''page_size'', [''20''])] 100 = Returned (Inr (20, 3)) \<and>
   (0 :: int) \<le> (3 - 1) * 20"
proof -
  have "ExtractPaginationConfigFromRequest [(''page'', [''3'']), (''page_size'', [''20''])] 100 = Returned (Inr (20, 3))" by code_simp
  with pages_are_in_bounds [OF this, of "''created_at''"] show ?thesis by simp
qed

lemma unknown_orchestration: "map_of (w_orchs w) k = None \<Longrightarrow> \<exists>e. orchestration_or k w f = Returned (404, Inl e)"
  by (simp add: orchestration_or_def orch_GetByID_def orch_not_found_def resolveErrorStatus_def IsNotFound_def Let_def UnwrapAll_leaf)

lemma known_orchestration: "map_of (w_orchs w) k = Some o' \<Longrightarrow> orchestration_or k w f = f o'"
  by (simp add: orchestration_or_def orch_GetByID_def)

text \<open>The first page of a list.\<close>

lemma first_page: "page_result (copy_page xs ps 0 (int (length xs)) 0) xs = Returned (if ps < 1 then xs else take (nat ps) xs,
    length (if ps < 1 then xs else take (nat ps) xs), length xs)"
  by (simp add: copy_page_spec page_result_def)

text \<open>
  When the operations of an upgrade of clusters fit on one page, the first page shows all
  operations of the orchestration in the asked states, the oldest first, and no other.
\<close>

theorem first_page_is_complete:
  assumes "visits_all visit" "k \<noteq> []" "map_of (w_orchs w) k = Some o'" "orch_Type o' = UpgradeClusterOrchestration"
    and "ExtractPaginationConfigFromRequest params maxPage = Returned (Inr (pageSize, 1))"
    and "int (length (filterUpgradeCluster visit k (with_states (state_param params)) (w_ops w))) \<le> pageSize"
  shows "\<exists>shown. listOperations visit maxPage k params w =
      Returned (200, Inr \<lparr>rl_Data = map UpgradeOperationToDTO shown, rl_Count = length shown, rl_TotalCount = length shown\<rparr>) \<and>
    set shown = cluster_upgrades k (state_param params) (w_ops w) \<and> sorted (map CreatedAt shown)"
proof -
  let ?flt = "\<lparr>filter_States = state_param params, filter_Page = 1, filter_PageSize = pageSize\<rparr>"
  define shown where "shown = oldest_first (filterUpgradeCluster visit k ?flt (w_ops w))"
  have same: "filterUpgradeCluster visit k ?flt (w_ops w) = filterUpgradeCluster visit k (with_states (state_param params)) (w_ops w)"
    by (simp add: filterUpgradeCluster_def with_states_def)
  with assms(6) have len: "int (length shown) \<le> pageSize" by (simp add: shown_def oldest_first_def)
  then have "ListUpgradeClusterOperationsByOrchestrationID visit k ?flt (w_ops w) = Returned (shown, length shown, length shown)"
    by (simp add: ListUpgradeClusterOperationsByOrchestrationID_def ConvertPageAndPageSizeToOffset_def Let_def first_page nat_le_iff flip: shown_def)
  then have "listOperations visit maxPage k params w =
      Returned (200, Inr \<lparr>rl_Data = map UpgradeOperationToDTO shown, rl_Count = length shown, rl_TotalCount = length shown\<rparr>)"
    using assms(3-5) by (simp add: listOperations_def paged_def Let_def known_orchestration UpgradeOperationListToDTO_def
        UpgradeKymaOrchestration_def UpgradeClusterOrchestration_def)
  moreover have "set shown = cluster_upgrades k (state_param params) (w_ops w)"
    using assms(2)
    by (auto simp: shown_def same oldest_first_def filterUpgradeCluster_def cluster_upgrades_def set_visit [OF assms(1)] with_states_def)
  moreover have "sorted (map CreatedAt shown)" by (simp add: shown_def oldest_first_def)
  ultimately show ?thesis by blast
qed

theorem first_page_is_complete_witness:
  "\<exists>shown. listOperations (\<lambda>m. m) 100 ''orch'' [] (some_world\<lparr>w_orchs := [(''orch'', some_orchestration)]\<rparr>) =
     Returned (200, Inr \<lparr>rl_Data = map UpgradeOperationToDTO shown, rl_Count = length shown, rl_TotalCount = length shown\<rparr>)"
proof -
  let ?w = "some_world\<lparr>w_orchs := [(''orch'', some_orchestration)]\<rparr>"
  have "visits_all (\<lambda>m. m)" by (simp add: visits_all_def)
  moreover have "map_of (w_orchs ?w) ''orch'' = Some some_orchestration" by simp
  moreover have "orch_Type some_orchestration = UpgradeClusterOrchestration" by (simp add: some_orchestration_def)
  moreover have "ExtractPaginationConfigFromRequest [] 100 = Returned (Inr (100, 1))" by code_simp
  moreover have "int (length (filterUpgradeCluster (\<lambda>m. m) ''orch'' (with_states (state_param [])) (w_ops ?w))) \<le> 100" by code_simp
  ultimately show ?thesis using first_page_is_complete [of "\<lambda>m. m" "''orch''" ?w some_orchestration "[]" 100 100] by blast
qed

text \<open>
  An accepted request for an upgrade of clusters is shown under the returned id as pending with the
  requested parameters, and once its cancellation has been answered it is shown as canceling; its operations are counted in
  the storage both times.
\<close>

theorem status_follows_requests:
  assumes "cluster_createOrchestration uuid parse request w = ((202, Inr k), w1)" "cancelOrchestrationByID k w1 = ((200, r), w2)"
  shows "\<exists>p dto. getOrchestration visit k w1 = Returned (200, Inr dto) \<and> sr_State dto = Pending \<and> sr_Type dto = UpgradeClusterOrchestration \<and>
      request = Inr p \<and> Targets (sr_Parameters dto) = Targets p \<and>
      getOrchestration visit k w2 = Returned (200, Inr (dto\<lparr>sr_State := Canceling, sr_Description := ''Orchestration was canceled'',
        sr_UpdatedAt := instant (w_now w1)\<rparr>))"
proof -
  from assms(1) obtain p p1 where p: "request = Inr p" "ValidateScheduleParameter parse (w_now w) p = Inr p1" and
      w1: "k = uuid (w_ids w)" "map_of (w_orchs w1) k = Some (new_orchestration k UpgradeClusterOrchestration (instant (w_now w)) p1)"
    by (auto simp: cluster_createOrchestration_def accept_orchestration_def cluster_enqueue_def orch_Insert_def Let_def
        split: sum.splits option.splits)
  have t: "Targets p1 = Targets p" using p(2) by (auto simp: ValidateScheduleParameter_def Let_def split: if_splits sum.splits)
  from w1(2) have "\<not> orch_IsFinished (new_orchestration k UpgradeClusterOrchestration (instant (w_now w)) p1)"
    by (simp add: orch_IsFinished_def Pending_def Succeeded_def Failed_def Canceled_def)
  with assms(2) w1(2) have w2: "map_of (w_orchs w2) k = Some ((new_orchestration k UpgradeClusterOrchestration (instant (w_now w)) p1)\<lparr>
      orch_UpdatedAt := instant (w_now w1), orch_Description := ''Orchestration was canceled'', orch_State := Canceling\<rparr>)" "w_ops w2 = w_ops w1"
    by (auto simp: cancelOrchestrationByID_def CancelForID_def orch_GetByID_def orch_Update_def Pending_def Canceling_def)
  let ?dto = "OrchestrationToDTO (new_orchestration k UpgradeClusterOrchestration (instant (w_now w)) p1)
    (Some (GetOperationStatsForOrchestration visit k (w_ops w1)))"
  have "getOrchestration visit k w2 = Returned (200, Inr (?dto\<lparr>sr_State := Canceling, sr_Description := ''Orchestration was canceled'',
        sr_UpdatedAt := instant (w_now w1)\<rparr>))"
    unfolding getOrchestration_def known_orchestration [OF w2(1)] w2(2) by (simp add: OrchestrationToDTO_def)
  moreover have "getOrchestration visit k w1 = Returned (200, Inr ?dto)"
    unfolding getOrchestration_def known_orchestration [OF w1(2)] by simp
  ultimately show ?thesis using p(1) t by (intro exI [of _ p] exI [of _ ?dto]) (simp add: OrchestrationToDTO_def)
qed

theorem status_follows_requests_witness:
  "\<exists>w1 w2 dto. cluster_createOrchestration (\<lambda>n. ''orch'') (\<lambda>t. Inl (TextError ''no date'')) (Inr some_parameters_orch) some_world = ((202, Inr ''orch''), w1) \<and>
     cancelOrchestrationByID ''orch'' w1 = ((200, Inr ''orch''), w2) \<and> getOrchestration (\<lambda>m. m) ''orch'' w1 = Returned (200, Inr dto) \<and> sr_State dto = Pending"
proof -
  let ?create = "cluster_createOrchestration (\<lambda>n. ''orch'') (\<lambda>t. Inl (TextError ''no date'')) (Inr some_parameters_orch) some_world"
  have c: "?create = ((202, Inr ''orch''), snd ?create)" by code_simp
  have d: "cancelOrchestrationByID ''orch'' (snd ?create) = ((200, Inr ''orch''), snd (cancelOrchestrationByID ''orch'' (snd ?create)))" by code_simp
  from status_follows_requests [OF c d, of "\<lambda>m. m"] c d show ?thesis by blast
qed

end
