(* ===== verification/Runtime_Handler.thy ===== *)
theory Runtime_Handler
  imports Runtime_State Orchestration_Status
begin

text \<open>
  The endpoint \<open>/runtimes\<close> that shows runtimes with their operations (\<^verbatim>\<open>src/internal/runtime/handler.go\<close>), on top of the
  converter of \<open>Runtime_State\<close>.

  The client of the provisioner is a parameter.  The in-memory storage does not read the fields \<open>Expired\<close> and
  \<open>DeletionAttempted\<close> of a filter, nor the filter for instances in a filter for operations, so they are left out, and so is
  the id of the monitoring that is copied from an operation.  The orders in which maps are visited are the record \<open>map_orders\<close>.
\<close>

section \<open>Instances\<close>

definition no_provisioning_parameters :: provisioning_parameters where
  "no_provisioning_parameters = \<lparr>PlanID = [], ServiceID = [],
     ErsContext = \<lparr>TenantID = [], SubAccountID = [], GlobalAccountID = [], SMOperatorCredentials = None, Active = None, UserID = [],
       CommercialModel = None, LicenseType = None, Origin = None, Platform = None, ers_Region = None\<rparr>,
     Parameters = \<lparr>AutoScaler = upd_AutoScaler no_update, Name = [], TargetSecret = None, VolumeSizeGb = None,
       MachineType = None, param_Region = None, Purpose = None, LicenceType = None, Zones = None,
       OptionalComponentsToInstall = None, KymaVersion = [], OverridesVersion = [], RuntimeAdministrators = None,
       param_Provider = None, Kubeconfig = [], param_ShootName = [], param_ShootDomain = [], OIDC = None,
       Networking = None, Modules = None\<rparr>,
     PlatformRegion = [], PlatformProvider = []\<rparr>"

definition no_instance :: kyma_instance where
  "no_instance = \<lparr>inst_ID = [], inst_RuntimeID = [], inst_GlobalAccountID = [], SubscriptionGlobalAccountID = [], inst_SubAccountID = [],
     inst_ServiceID = [], ServiceName = [], ServicePlanID = [], ServicePlanName = [], inst_DashboardURL = [],
     inst_Parameters = no_provisioning_parameters, ProviderRegion = [], inst_Details = no_details, inst_CreatedAt = 0,
     inst_UpdatedAt = 0, DeletedAt = 0, ExpiredAt = None, inst_Version = 0, inst_Provider = [], Reconcilable = False\<rparr>"

text \<open>The loop ends before it reaches the first operation.\<close>

definition findLastDeprovisioning :: "operation list \<Rightarrow> operation" where
  "findLastDeprovisioning xs =
     (case find (\<lambda>x. op_Type x = OperationTypeDeprovision \<and> State x = Succeeded) (rev (tl xs)) of Some x \<Rightarrow> x | None \<Rightarrow> last xs)"

type_synonym op_groups = "(string \<times> operation list) list"

definition by_instance :: "operation list \<Rightarrow> op_groups" where
  "by_instance xs =
     fold (\<lambda>x m. assoc_set (InstanceID x) ((case map_of m (InstanceID x) of Some ys \<Rightarrow> ys | None \<Rightarrow> []) @ [x]) m) xs []"

definition recreate_instance :: "string \<Rightarrow> operation list \<Rightarrow> kyma_instance" where
  "recreate_instance k xs =
     (let x = hd xs; final = findLastDeprovisioning xs in
      no_instance\<lparr>inst_ID := k, inst_GlobalAccountID := rt_GlobalAccountID (ro_Runtime (RuntimeOperation x)),
        inst_SubAccountID := det_SubAccountID (InstanceDetails x), inst_RuntimeID := RuntimeID (InstanceDetails x),
        inst_CreatedAt := CreatedAt x, ServicePlanID := PlanID (ProvisioningParameters x), DeletedAt := UpdatedAt final,
        inst_Details := InstanceDetails final, inst_Parameters := ProvisioningParameters final\<rparr>)"

definition recreateInstances :: "(op_groups \<Rightarrow> op_groups) \<Rightarrow> operation list \<Rightarrow> kyma_instance list" where
  "recreateInstances order xs = map (\<lambda>(k, ys). recreate_instance k ys) (order (by_instance xs))"

definition unionInstances :: "(inst_map \<Rightarrow> inst_map) \<Rightarrow> kyma_instance list list \<Rightarrow> kyma_instance list" where
  "unionInstances order sets =
     map snd (order (fold (\<lambda>i m. if map_of m (inst_ID i) = None then assoc_set (inst_ID i) i m else m) (concat sets) []))"

record map_orders =
  order_ops :: visit
  order_insts :: "inst_map \<Rightarrow> inst_map"
  order_groups :: "op_groups \<Rightarrow> op_groups"

text \<open>An instance that is stored under another id is read as the zero value.\<close>

definition instance_or_zero :: "kyma_instance option \<Rightarrow> kyma_instance" where
  "instance_or_zero x = (case x of Some i \<Rightarrow> i | None \<Rightarrow> no_instance)"

definition listInstances ::
  "map_orders \<Rightarrow> instance_filter \<Rightarrow> inst_map \<Rightarrow> memory_operations \<Rightarrow> (go_error + kyma_instance list \<times> nat \<times> nat) go_call" where
  "listInstances M flt m s =
     and_call (inst_List (order_insts M) (order_ops M) flt m s) (\<lambda>(found, c, n).
       let instances = map instance_or_zero found in
       if InstanceDeprovisioned \<in> set (flt_States flt)
       then and_call (ListOperations (order_ops M) \<lparr>filter_States = [], filter_Page = flt_Page flt, filter_PageSize = flt_PageSize flt\<rparr> s) (\<lambda>r.
              case r of
                Inl e \<Rightarrow> Returned (Inl e)
              | Inr (xs, _, _) \<Rightarrow>
                  (let recreated = recreateInstances (order_groups M) xs in
                   Returned (Inr (unionInstances (order_insts M) [instances, recreated], length recreated + c, length recreated + n))))
       else Returned (Inr (instances, c, n)))"

section \<open>Operations\<close>

definition takeLastNonDryRunOperations :: "operation list \<Rightarrow> operation list \<times> int" where
  "takeLastNonDryRunOperations xs =
     (let ys = filter (\<lambda>x. \<not> ro_DryRun (RuntimeOperation x)) xs in (take 2 ys, int (length ys)))"

definition processed_upgrade :: "int \<Rightarrow> operation \<Rightarrow> bool" where
  "processed_upgrade setAt u =
     (\<not> ro_DryRun (RuntimeOperation u) \<and> setAt < CreatedAt u \<and> rv_Version (RuntimeVersion u) \<noteq> [] \<and>
      State u \<noteq> Pending \<and> State u \<noteq> Canceling \<and> State u \<noteq> Canceled)"

fun scan_upgrades :: "string \<Rightarrow> int \<Rightarrow> operation list \<Rightarrow> string" where
  "scan_upgrades version setAt [] = version"
| "scan_upgrades version setAt (u # us) =
     (if processed_upgrade setAt u then rv_Version (RuntimeVersion u)
      else if CreatedAt u < setAt then version else scan_upgrades version setAt us)"

definition determineKymaVersion :: "operation list \<Rightarrow> operation list \<Rightarrow> string" where
  "determineKymaVersion pOprs uOprs =
     (case pOprs of
        [] \<Rightarrow> scan_upgrades [] 0 uOprs
      | p # _ \<Rightarrow> scan_upgrades (rv_Version (RuntimeVersion p)) (CreatedAt p) uOprs)"

text \<open>The lists of the storage report only that nothing was found; then they are empty here.\<close>

definition list_or_empty :: "go_error + 'a list \<Rightarrow> 'a list" where
  "list_or_empty r = (case r of Inr xs \<Rightarrow> xs | Inl e \<Rightarrow> [])"

record 'g shown_runtime =
  sh_DTO :: runtime_dto
  sh_KymaVersion :: string
  sh_KymaConfig :: "kyma_config option"
  sh_ClusterConfig :: "cluster_config option"
  sh_GardenerConfig :: "'g option"

definition applied_provisionings :: "operation list \<Rightarrow> runtime_dto \<Rightarrow> runtime_dto go_call" where
  "applied_provisionings provOprs dto =
     (if provOprs = [] then Returned dto
      else and_call (ApplyProvisioningOperation (last provOprs) dto) (\<lambda>dto.
             if 1 < length provOprs then ApplyUnsuspensionOperations (butlast provOprs) dto else Returned dto))"

definition applied_deprovisioning :: "operation option \<Rightarrow> runtime_dto \<Rightarrow> runtime_dto go_call" where
  "applied_deprovisioning x dto = (case x of Some d \<Rightarrow> ApplyDeprovisioningOperation d dto | None \<Rightarrow> Returned dto)"

text \<open>The runtime with all operations and the version of Kyma.\<close>

definition setRuntimeAllOperations :: "visit \<Rightarrow> memory_operations \<Rightarrow> kyma_instance \<Rightarrow> runtime_dto \<Rightarrow> (runtime_dto \<times> string) go_call" where
  "setRuntimeAllOperations visit s i dto =
     (let k = inst_ID i;
          provOprs = list_or_empty (ListProvisioningOperationsByInstanceID visit k s);
          deprovOprs = list_or_empty (ListDeprovisioningOperationsByInstanceID visit k s);
          ukOprs = list_or_empty (ListUpgradeKymaOperationsByInstanceID visit k s);
          (kyma, kymaCount) = takeLastNonDryRunOperations ukOprs;
          (cluster, clusterCount) = takeLastNonDryRunOperations (list_or_empty (ListUpgradeClusterOperationsByInstanceID visit k s));
          uOprs = ListUpdatingOperationsByInstanceID visit k s
      in and_call (applied_provisionings provOprs dto) (\<lambda>dto.
         and_call (applied_deprovisioning (find (\<lambda>x. \<not> Temporary x) deprovOprs) dto) (\<lambda>dto.
         and_call (ApplySuspensionOperations deprovOprs dto) (\<lambda>dto.
         and_call (ApplyUpgradingKymaOperations kyma kymaCount dto) (\<lambda>dto.
         and_call (ApplyUpgradingClusterOperations cluster clusterCount dto) (\<lambda>dto.
         and_call (ApplyUpdateOperations (take 2 uOprs) (int (length uOprs)) dto) (\<lambda>dto.
           Returned (dto, determineKymaVersion provOprs ukOprs))))))))"

text \<open>The runtime with its last operation only.\<close>

definition fetched :: "string \<Rightarrow> string \<Rightarrow> go_error + 'a \<Rightarrow> ('a \<Rightarrow> (go_error + 'b) go_call) \<Rightarrow> (go_error + 'b) go_call" where
  "fetched k what r f =
     (case r of Inl e \<Rightarrow> Returned (Inl (wrap (''while fetching '' @ what @ '' for instance '' @ k) e)) | Inr x \<Rightarrow> f x)"

definition setRuntimeLastOperation :: "visit \<Rightarrow> memory_operations \<Rightarrow> kyma_instance \<Rightarrow> runtime_dto \<Rightarrow> (go_error + runtime_dto) go_call" where
  "setRuntimeLastOperation visit s i dto =
     (let k = inst_ID i;
          ok = (\<lambda>m. and_call m (\<lambda>dto. Returned (Inr dto)))
      in case GetLastOperation visit k s of
           Inl e \<Rightarrow> Returned (Inl (wrap (''while fetching last operation instance '' @ k) e))
         | Inr lastOp \<Rightarrow>
             (case op_Type lastOp of
                OperationTypeProvision \<Rightarrow>
                  fetched k ''provisioning operations'' (ListProvisioningOperationsByInstanceID visit k s) (\<lambda>provOps.
                    ok (if 1 < length provOps then ApplyUnsuspensionOperations [hd provOps] dto else ApplyProvisioningOperation (hd provOps) dto))
              | OperationTypeDeprovision \<Rightarrow>
                  fetched k ''deprovisioning operation'' (GetDeprovisioningOperationByID (op_ID lastOp) s) (\<lambda>x.
                    ok (if Temporary x then ApplySuspensionOperations [x] dto else ApplyDeprovisioningOperation x dto))
              | OperationTypeUpgradeKyma \<Rightarrow>
                  fetched k ''upgrade kyma operation'' (GetUpgradeKymaOperationByID (op_ID lastOp) s) (\<lambda>x. ok (ApplyUpgradingKymaOperations [x] 1 dto))
              | OperationTypeUpgradeCluster \<Rightarrow>
                  fetched k ''upgrade cluster operation'' (GetUpgradeClusterOperationByID (op_ID lastOp) s) (\<lambda>x.
                    ok (ApplyUpgradingClusterOperations [x] 1 dto))
              | OperationTypeUpdate \<Rightarrow>
                  fetched k ''update operation'' (GetUpdatingOperationByID visit (op_ID lastOp) s) (\<lambda>x. ok (ApplyUpdateOperations [x] 1 dto))
              | OperationTypeUndefined \<Rightarrow> Returned (Inl (TextError ''unsupported operation type: ''))))"

definition determineStatusModifiedAt :: "visit \<Rightarrow> memory_operations \<Rightarrow> runtime_dto \<Rightarrow> runtime_dto" where
  "determineStatusModifiedAt visit s dto =
     (case GetLastOperation visit (dto_InstanceID dto) s of
        Inr x \<Rightarrow> on_status (\<lambda>st. st\<lparr>status_ModifiedAt := UpdatedAt x\<rparr>) dto | Inl e \<Rightarrow> dto)"

definition setRuntimeOptionalAttributes ::
  "(string \<Rightarrow> string \<Rightarrow> go_error + 'g) \<Rightarrow> ('v rt_states \<Rightarrow> 'v rt_states) \<Rightarrow> 'v rt_states \<Rightarrow> bool \<Rightarrow> bool \<Rightarrow> bool \<Rightarrow>
   kyma_instance \<Rightarrow> 'g shown_runtime \<Rightarrow> go_error + 'g shown_runtime" where
  "setRuntimeOptionalAttributes RuntimeStatus visit states kymaConfig clusterConfig gardenerConfig i sh =
     (let sts = ListByRuntimeID visit (inst_RuntimeID i) states;
          sh1 = sh\<lparr>sh_KymaConfig := (if kymaConfig then map_option rs_KymaConfig (find (\<lambda>r. kc_Version (rs_KymaConfig r) \<noteq> []) sts) else None),
                   sh_ClusterConfig := (if clusterConfig then map_option rs_ClusterConfig (find (\<lambda>r. cc_Provider (rs_ClusterConfig r) \<noteq> []) sts) else None)\<rparr>
      in if gardenerConfig
         then (case RuntimeStatus (inst_GlobalAccountID i) (inst_RuntimeID i) of
                 Inl e \<Rightarrow> Inl (wrap (''while fetching runtime status from provisioner for instance '' @ inst_ID i) e)
               | Inr c \<Rightarrow> Inr (sh1\<lparr>sh_GardenerConfig := Some c\<rparr>))
         else Inr sh1)"

section \<open>The request\<close>

definition instance_state_named :: "string \<Rightarrow> instance_state option" where
  "instance_state_named =
     map_of [(''succeeded'', InstanceSucceeded), (''failed'', InstanceFailed), (''error'', InstanceError), (''provisioning'', InstanceProvisioning),
       (''deprovisioning'', InstanceDeprovisioning), (''upgrading'', InstanceUpgrading), (''updating'', InstanceUpdating),
       (''suspended'', InstanceDeprovisioned), (''deprovisioned'', InstanceDeprovisioned)]"

definition param :: "string \<Rightarrow> query \<Rightarrow> string list" where
  "param name params = (case map_of params name of Some vs \<Rightarrow> vs | None \<Rightarrow> [])"

definition getFilters :: "query \<Rightarrow> instance_filter" where
  "getFilters params =
     (let sts = param ''state'' params in
      \<lparr>flt_PageSize = 0, flt_Page = 0, flt_GlobalAccountIDs = param ''account'' params, flt_SubscriptionGlobalAccountIDs = [],
       flt_SubAccountIDs = param ''subaccount'' params, flt_InstanceIDs = param ''instance_id'' params, flt_RuntimeIDs = param ''runtime_id'' params,
       flt_Regions = param ''region'' params, flt_Plans = param ''plan'' params, flt_Shoots = param ''shoot'' params,
       flt_States = (if sts = [] then [InstanceNotDeprovisioned] else if ''all'' \<in> set sts then [] else List.map_filter instance_state_named sts)\<rparr>)"

text \<open>Whether only the last operation is asked for: the last valid value counts.\<close>

definition getOpDetail :: "query \<Rightarrow> bool" where
  "getOpDetail params = fold (\<lambda>p acc. if p = ''last'' then True else if p = ''all'' then False else acc) (param ''op_detail'' params) False"

definition getBoolParam :: "string \<Rightarrow> query \<Rightarrow> bool" where
  "getBoolParam name params = (''true'' \<in> set (param name params))"

definition show_runtime ::
  "(string \<Rightarrow> string \<Rightarrow> go_error + 'g) \<Rightarrow> ('v rt_states \<Rightarrow> 'v rt_states) \<Rightarrow> 'v rt_states \<Rightarrow> visit \<Rightarrow> string \<Rightarrow> query \<Rightarrow> memory_operations \<Rightarrow>
   kyma_instance \<Rightarrow> (go_error + 'g shown_runtime) go_call" where
  "show_runtime RuntimeStatus visit_r states visit region params s i =
     and_result (if getOpDetail params then and_call (setRuntimeLastOperation visit s i (NewDTO region i)) (\<lambda>r.
                     Returned (case r of Inl e \<Rightarrow> Inl e | Inr dto \<Rightarrow> Inr (dto, [])))
                 else and_call (setRuntimeAllOperations visit s i (NewDTO region i)) (\<lambda>x. Returned (Inr x))) (\<lambda>(dto, version).
       Returned (setRuntimeOptionalAttributes RuntimeStatus visit_r states (getBoolParam ''kyma_config'' params) (getBoolParam ''cluster_config'' params)
         (getBoolParam ''gardener_config'' params) i
         \<lparr>sh_DTO = determineStatusModifiedAt visit s dto, sh_KymaVersion = version, sh_KymaConfig = None, sh_ClusterConfig = None, sh_GardenerConfig = None\<rparr>))"

fun show_all :: "('i \<Rightarrow> (go_error + 'r) go_call) \<Rightarrow> 'i list \<Rightarrow> (go_error + 'r list) go_call" where
  "show_all f [] = Returned (Inr [])"
| "show_all f (i # is') = and_result (f i) (\<lambda>r. and_result (show_all f is') (\<lambda>rs. Returned (Inr (r # rs))))"

definition getRuntimes ::
  "(string \<Rightarrow> string \<Rightarrow> go_error + 'g) \<Rightarrow> ('v rt_states \<Rightarrow> 'v rt_states) \<Rightarrow> 'v rt_states \<Rightarrow> map_orders \<Rightarrow> string \<Rightarrow> int \<Rightarrow> query \<Rightarrow>
   inst_map \<Rightarrow> memory_operations \<Rightarrow> 'g shown_runtime response_list reply" where
  "getRuntimes RuntimeStatus visit_r states M region maxPage params m s =
     paged params maxPage (\<lambda>pageSize page.
       and_call (listInstances M ((getFilters params)\<lparr>flt_PageSize := pageSize, flt_Page := page\<rparr>) m s) (\<lambda>r.
         case r of
           Inl e \<Rightarrow> Returned (500, Inl (wrap ''while fetching instances'' e))
         | Inr (instances, c, n) \<Rightarrow>
             and_call (show_all (show_runtime RuntimeStatus visit_r states (order_ops M) region params s) instances) (\<lambda>q.
               Returned (case q of
                 Inl e \<Rightarrow> (500, Inl e)
               | Inr rs \<Rightarrow> (200, Inr \<lparr>rl_Data = rs, rl_Count = c, rl_TotalCount = n\<rparr>)))))"

section \<open>Steps of the converter\<close>

text \<open>The state of a runtime is the one that its operations give.\<close>

definition settled :: "runtime_dto \<Rightarrow> bool" where
  "settled dto = (adjustRuntimeState dto = Returned dto)"

lemma on_status_twice: "h (f (dto_Status dto)) = g (dto_Status dto) \<Longrightarrow> on_status h (on_status f dto) = on_status g dto"
  by (simp add: on_status_def)

lemma on_status_id [simp]: "on_status (\<lambda>st. st) dto = dto"
  by (simp add: on_status_def)

lemma suspended_state_cases:
  "suspended_state st old = Returned t \<Longrightarrow> t = old \<or> (\<forall>old'. suspended_state st old' = Returned t)"
  unfolding suspended_state_def Let_def
  by (cases "Suspension st"; cases "Unsuspension st") (auto simp: and_call_def split: go_call.splits if_splits)

lemma state_of_last_again: "state_of_last x (state_of_last x old) = state_of_last x old"
  by (auto simp: state_of_last_def split: runtime_op_type.splits)

lemma suspended_state_field [simp]: "suspended_state (st\<lparr>status_State := x\<rparr>) = suspended_state st"
  by (intro ext) (simp add: suspended_state_def split: option.split)

lemma adjust_settles:
  assumes "adjustRuntimeState dto = Returned dto'"
  shows "settled dto'"
proof -
  from assms obtain x t where x: "dto_LastOperation dto = Returned x"
    and t: "suspended_state (dto_Status dto) (state_of_last x (status_State (dto_Status dto))) = Returned t"
    and dto': "dto' = on_status (\<lambda>st. st\<lparr>status_State := t\<rparr>) dto"
    by (auto simp: adjustRuntimeState_def and_call_Returned on_status_def)
  have x': "dto_LastOperation dto' = Returned x" using erase_LastOperation [of dto' dto] x by (simp add: dto' erase_def)
  have "suspended_state (dto_Status dto) (state_of_last x t) = Returned t"
    using suspended_state_cases [OF t]
  proof
    assume "t = state_of_last x (status_State (dto_Status dto))"
    with t show ?thesis by (simp add: state_of_last_again)
  qed simp
  then show ?thesis unfolding settled_def adjustRuntimeState_def x' by (simp add: dto' on_status_def)
qed

text \<open>A call that changes the status as \<open>f\<close> does and leaves the state right.\<close>

definition converts :: "(runtime_dto \<Rightarrow> runtime_dto go_call) \<Rightarrow> (runtime_status \<Rightarrow> runtime_status) \<Rightarrow> bool" where
  "converts g f =
     (\<forall>dto ref. erase dto = erase ref \<and> counted ref \<longrightarrow>
        counted (on_status f ref) \<and>
        (\<exists>dto'. g dto = Returned dto' \<and> erase dto' = erase (on_status f ref) \<and> (settled dto \<longrightarrow> settled dto')))"

lemma converts_return [simp]: "converts Returned (\<lambda>st. st)"
  by (simp add: converts_def)

lemma converts_then:
  assumes "converts g f" "converts h k"
  shows "converts (\<lambda>dto. and_call (g dto) h) (\<lambda>st. k (f st))"
  unfolding converts_def
proof (intro allI impI)
  fix dto ref
  assume "erase dto = erase ref \<and> counted ref"
  with assms(1) obtain d1 where d1: "counted (on_status f ref)" "g dto = Returned d1" "erase d1 = erase (on_status f ref)" "settled dto \<longrightarrow> settled d1"
    unfolding converts_def by blast
  with assms(2) obtain d2 where "counted (on_status k (on_status f ref))" "h d1 = Returned d2"
    "erase d2 = erase (on_status k (on_status f ref))" "settled d1 \<longrightarrow> settled d2"
    unfolding converts_def by blast
  with d1 show "counted (on_status (\<lambda>st. k (f st)) ref) \<and> (\<exists>dto'. and_call (g dto) h = Returned dto' \<and>
      erase dto' = erase (on_status (\<lambda>st. k (f st)) ref) \<and> (settled dto \<longrightarrow> settled dto'))" by simp
qed

lemma converts_adjust:
  assumes "\<And>ref. counted ref \<Longrightarrow> counted (on_status f ref)" "\<And>x t. f (x\<lparr>status_State := t\<rparr>) = (f x)\<lparr>status_State := t\<rparr>"
  shows "converts (\<lambda>dto. adjustRuntimeState (on_status f dto)) f"
  unfolding converts_def
proof (intro allI impI)
  fix dto ref
  assume a: "erase dto = erase ref \<and> counted ref"
  then have c: "counted (on_status f ref)" using assms(1) by blast
  from a converter_step [OF _ c assms(2)] obtain dto' where "adjustRuntimeState (on_status f dto) = Returned dto'" "erase dto' = erase (on_status f ref)"
    by blast
  with c adjust_settles show "counted (on_status f ref) \<and> (\<exists>dto'. adjustRuntimeState (on_status f dto) = Returned dto' \<and>
      erase dto' = erase (on_status f ref) \<and> (settled dto \<longrightarrow> settled dto'))" by blast
qed

lemma converts_provisioning: "converts (ApplyProvisioningOperation x) (\<lambda>st. st\<lparr>Provisioning := Some (applyOperation x no_dto_operation)\<rparr>)"
  unfolding ApplyProvisioningOperation_def by (rule converts_adjust) (simp_all add: counted_def Let_def)

lemma converts_deprovisioning:
  "converts (ApplyDeprovisioningOperation x)
     (\<lambda>st. if State x = Pending then st else st\<lparr>Deprovisioning := Some (applyOperation x no_dto_operation)\<rparr>)"
proof (cases "State x = Pending")
  case True
  then show ?thesis by (simp add: ApplyDeprovisioningOperation_def [abs_def])
next
  case False
  have "converts (\<lambda>dto. adjustRuntimeState (on_status (\<lambda>st. st\<lparr>Deprovisioning := Some (applyOperation x no_dto_operation)\<rparr>) dto))
      (\<lambda>st. st\<lparr>Deprovisioning := Some (applyOperation x no_dto_operation)\<rparr>)"
    by (rule converts_adjust) (simp_all add: counted_def Let_def)
  with False show ?thesis by (simp add: ApplyDeprovisioningOperation_def [abs_def])
qed

text \<open>The steps that set a list, unless it is empty.\<close>

lemma converts_list:
  assumes "\<And>ref. counted ref \<Longrightarrow> counted (on_status f ref)" "\<And>x t. f (x\<lparr>status_State := t\<rparr>) = (f x)\<lparr>status_State := t\<rparr>"
  shows "converts (\<lambda>dto. if xs = [] then Returned dto else adjustRuntimeState (on_status f dto)) (\<lambda>st. if xs = [] then st else f st)"
  using converts_adjust [OF assms] by (cases "xs = []") simp_all

lemma converts_unsuspensions:
  "converts (ApplyUnsuspensionOperations xs) (\<lambda>st. if xs = [] then st else st\<lparr>Unsuspension := Some (data_of xs (int (length xs)))\<rparr>)"
  unfolding ApplyUnsuspensionOperations_def by (rule converts_list) (simp_all add: counted_def Let_def)

lemma converts_kyma:
  "converts (ApplyUpgradingKymaOperations xs n) (\<lambda>st. if xs = [] then st else st\<lparr>UpgradingKyma := Some (data_of xs n)\<rparr>)"
  unfolding ApplyUpgradingKymaOperations_def by (rule converts_list) (simp_all add: counted_def Let_def)

lemma converts_cluster:
  "converts (ApplyUpgradingClusterOperations xs n) (\<lambda>st. if xs = [] then st else st\<lparr>UpgradingCluster := Some (data_of xs n)\<rparr>)"
  unfolding ApplyUpgradingClusterOperations_def by (rule converts_list) (simp_all add: counted_def Let_def)

lemma converts_updates:
  "converts (ApplyUpdateOperations xs n) (\<lambda>st. if xs = [] then st else st\<lparr>Updating := Some (data_of xs n)\<rparr>)"
  unfolding ApplyUpdateOperations_def by (rule converts_list) (simp_all add: counted_def Let_def)

definition suspensions_of :: "operation list \<Rightarrow> operation list" where
  "suspensions_of d = filter (\<lambda>x. Temporary x \<and> State x \<noteq> Pending) d"

lemma converts_suspensions:
  "converts (ApplySuspensionOperations d)
     (\<lambda>st. if suspensions_of d = [] then st else st\<lparr>Suspension := Some (data_of (suspensions_of d) (int (length (suspensions_of d))))\<rparr>)"
proof (cases "d = []")
  case True
  then show ?thesis by (simp add: ApplySuspensionOperations_def [abs_def] suspensions_of_def)
next
  case False
  let ?f = "\<lambda>st. if suspensions_of d = [] then st else st\<lparr>Suspension := Some (data_of (suspensions_of d) (int (length (suspensions_of d))))\<rparr>"
  have "converts (\<lambda>dto. adjustRuntimeState (on_status ?f dto)) ?f"
    by (rule converts_adjust) (simp_all add: counted_def Let_def)
  moreover have "ApplySuspensionOperations d = (\<lambda>dto. adjustRuntimeState (on_status ?f dto))"
    using False by (intro ext) (simp add: ApplySuspensionOperations_def suspensions_of_def Let_def)
  ultimately show ?thesis by simp
qed

section \<open>What is shown\<close>

lemma and_call_assoc: "and_call (and_call m f) g = and_call m (\<lambda>a. and_call (f a) g)"
  by (cases m) simp_all

lemma converts_provisionings:
  "converts (applied_provisionings p)
     (\<lambda>st. if p = [] then st else if 1 < length p
        then st\<lparr>Provisioning := Some (applyOperation (last p) no_dto_operation), Unsuspension := Some (data_of (butlast p) (int (length (butlast p))))\<rparr>
        else st\<lparr>Provisioning := Some (applyOperation (last p) no_dto_operation)\<rparr>)"
proof (cases "1 < length p")
  case True
  then have "p \<noteq> []" "butlast p \<noteq> []" by (auto simp: butlast_conv_take)
  with True converts_then [OF converts_provisioning [of "last p"] converts_unsuspensions [of "butlast p"]] show ?thesis
    by (simp add: applied_provisionings_def [abs_def])
next
  case False
  with converts_then [OF converts_provisioning [of "last p"] converts_return] show ?thesis
    by (cases "p = []") (simp_all add: applied_provisionings_def [abs_def])
qed

lemma provisionings_settle:
  assumes "applied_provisionings p dto = Returned dto'" "p \<noteq> []"
  shows "settled dto'"
proof (cases "1 < length p")
  case True
  then have "butlast p \<noteq> []" by (auto simp: butlast_conv_take)
  with assms True show ?thesis
    by (auto simp: applied_provisionings_def and_call_Returned ApplyUnsuspensionOperations_def intro: adjust_settles)
next
  case False
  with assms show ?thesis
    by (auto simp: applied_provisionings_def and_call_Returned ApplyProvisioningOperation_def intro: adjust_settles)
qed

lemma converts_first_deprovisioning:
  "converts (applied_deprovisioning x)
     (\<lambda>st. case x of Some d \<Rightarrow> if State d = Pending then st else st\<lparr>Deprovisioning := Some (applyOperation d no_dto_operation)\<rparr> | None \<Rightarrow> st)"
  by (cases x) (simp_all add: applied_deprovisioning_def [abs_def] converts_deprovisioning)

definition list_data :: "operation list \<Rightarrow> int \<Rightarrow> operations_data option" where
  "list_data xs n = (if xs = [] then None else Some (data_of xs n))"

definition in_earnest :: "operation list \<Rightarrow> operation list" where
  "in_earnest xs = filter (\<lambda>x. \<not> ro_DryRun (RuntimeOperation x)) xs"

text \<open>
  The status of an instance with provisionings \<open>p\<close>, deprovisionings \<open>d\<close>, upgrades of Kyma \<open>uk\<close> and of the cluster \<open>uc\<close>, all the newest first,
  and updates \<open>u\<close>, the oldest first.
\<close>

definition all_status :: "operation list \<Rightarrow> operation list \<Rightarrow> operation list \<Rightarrow> operation list \<Rightarrow> operation list \<Rightarrow> runtime_status \<Rightarrow> runtime_status" where
  "all_status p d uk uc u st =
     st\<lparr>Provisioning := (if p = [] then None else Some (applyOperation (last p) no_dto_operation)),
       Deprovisioning := (case find (\<lambda>x. \<not> Temporary x) d of
          Some x \<Rightarrow> if State x = Pending then None else Some (applyOperation x no_dto_operation) | None \<Rightarrow> None),
       UpgradingKyma := list_data (take 2 (in_earnest uk)) (int (length (in_earnest uk))),
       UpgradingCluster := list_data (take 2 (in_earnest uc)) (int (length (in_earnest uc))),
       Updating := list_data (take 2 u) (int (length u)),
       Suspension := list_data (suspensions_of d) (int (length (suspensions_of d))),
       Unsuspension := list_data (butlast p) (int (length (butlast p)))\<rparr>"

lemma setRuntimeAllOperations_status:
  fixes visit s i region
  defines "k \<equiv> inst_ID i"
  defines "p \<equiv> list_or_empty (ListProvisioningOperationsByInstanceID visit k s)"
    and "d \<equiv> list_or_empty (ListDeprovisioningOperationsByInstanceID visit k s)"
    and "uk \<equiv> list_or_empty (ListUpgradeKymaOperationsByInstanceID visit k s)"
    and "uc \<equiv> list_or_empty (ListUpgradeClusterOperationsByInstanceID visit k s)"
    and "u \<equiv> ListUpdatingOperationsByInstanceID visit k s"
  shows "\<exists>dto. setRuntimeAllOperations visit s i (NewDTO region i) = Returned (dto, determineKymaVersion p uk) \<and>
    erase dto = erase (on_status (all_status p d uk uc u) (NewDTO region i)) \<and> (p = [] \<or> settled dto)"
proof -
  let ?new = "NewDTO region i"
  have new: "counted ?new" by (simp add: counted_def NewDTO_def Let_def)
  define f :: "runtime_status \<Rightarrow> runtime_status" where "f = (\<lambda>st. if p = [] then st else if 1 < length p
        then st\<lparr>Provisioning := Some (applyOperation (last p) no_dto_operation), Unsuspension := Some (data_of (butlast p) (int (length (butlast p))))\<rparr>
        else st\<lparr>Provisioning := Some (applyOperation (last p) no_dto_operation)\<rparr>)"
  from converts_provisionings [of p] new obtain d1 where d1: "applied_provisionings p ?new = Returned d1"
    and e1: "erase d1 = erase (on_status f ?new)" and c1: "counted (on_status f ?new)"
    unfolding converts_def f_def by blast
  define h :: "runtime_status \<Rightarrow> runtime_status" where "h =
    (\<lambda>st. (\<lambda>st. (\<lambda>st. (\<lambda>st. (\<lambda>st. if take 2 u = [] then st else st\<lparr>Updating := Some (data_of (take 2 u) (int (length u)))\<rparr>)
      (if take 2 (in_earnest uc) = [] then st else st\<lparr>UpgradingCluster := Some (data_of (take 2 (in_earnest uc)) (int (length (in_earnest uc))))\<rparr>))
      (if take 2 (in_earnest uk) = [] then st else st\<lparr>UpgradingKyma := Some (data_of (take 2 (in_earnest uk)) (int (length (in_earnest uk))))\<rparr>))
      (if suspensions_of d = [] then st else st\<lparr>Suspension := Some (data_of (suspensions_of d) (int (length (suspensions_of d))))\<rparr>))
      (case find (\<lambda>x. \<not> Temporary x) d of Some x \<Rightarrow> if State x = Pending then st else st\<lparr>Deprovisioning := Some (applyOperation x no_dto_operation)\<rparr>
       | None \<Rightarrow> st))"
  have rest: "converts (\<lambda>dto. and_call (applied_deprovisioning (find (\<lambda>x. \<not> Temporary x) d) dto) (\<lambda>dto.
      and_call (ApplySuspensionOperations d dto) (\<lambda>dto.
      and_call (ApplyUpgradingKymaOperations (take 2 (in_earnest uk)) (int (length (in_earnest uk))) dto) (\<lambda>dto.
      and_call (ApplyUpgradingClusterOperations (take 2 (in_earnest uc)) (int (length (in_earnest uc))) dto)
        (ApplyUpdateOperations (take 2 u) (int (length u)))))))
    h" (is "converts ?g h")
    unfolding h_def by (rule converts_then [OF converts_first_deprovisioning converts_then [OF converts_suspensions
          converts_then [OF converts_kyma converts_then [OF converts_cluster converts_updates]]]])
  from rest e1 c1 obtain d2 where d2: "?g d1 = Returned d2" "erase d2 = erase (on_status h (on_status f ?new))" "settled d1 \<longrightarrow> settled d2"
    unfolding converts_def by blast
  have "setRuntimeAllOperations visit s i ?new = and_call (and_call (applied_provisionings p ?new) ?g) (\<lambda>dto. Returned (dto, determineKymaVersion p uk))"
    by (simp add: setRuntimeAllOperations_def Let_def takeLastNonDryRunOperations_def and_call_assoc p_def d_def uk_def uc_def u_def k_def
        in_earnest_def)
  also have "\<dots> = Returned (d2, determineKymaVersion p uk)" by (simp add: d1 d2(1))
  finally have "setRuntimeAllOperations visit s i ?new = Returned (d2, determineKymaVersion p uk)" .
  moreover have "h (f (dto_Status ?new)) = all_status p d uk uc u (dto_Status ?new)"
    by (cases p) (auto simp: f_def h_def all_status_def list_data_def NewDTO_def split: option.split)
  then have "on_status h (on_status f ?new) = on_status (all_status p d uk uc u) ?new"
    by (rule on_status_twice)
  ultimately show ?thesis using d2(2,3) provisionings_settle [OF d1] by (cases "p = []") (intro exI [of _ d2], simp)+
qed


text \<open>
  The version of Kyma that is shown, for upgrades that are listed the newest first: that of the
  newest upgrade that was processed in earnest after the last provisioning and has a version, else that of the last provisioning.
\<close>

theorem shown_version_is_the_newest:
  assumes "sorted (map (\<lambda>x. - CreatedAt x) us)"
  shows "determineKymaVersion (p # ps) us =
    (case find (processed_upgrade (CreatedAt p)) us of Some u \<Rightarrow> rv_Version (RuntimeVersion u) | None \<Rightarrow> rv_Version (RuntimeVersion p))"
proof -
  have "scan_upgrades v t us = (case find (processed_upgrade t) us of Some u \<Rightarrow> rv_Version (RuntimeVersion u) | None \<Rightarrow> v)" for v t
    using assms
  proof (induction us)
    case (Cons u us)
    have "find (processed_upgrade t) us = None" if "CreatedAt u < t"
      using Cons.prems that by (auto simp: find_None_iff processed_upgrade_def)
    then show ?case using Cons by auto
  qed simp
  then show ?thesis by (simp add: determineKymaVersion_def)
qed

definition upgraded_to :: "int \<Rightarrow> string \<Rightarrow> operation" where
  "upgraded_to t v = some_operation\<lparr>op_Type := OperationTypeUpgradeKyma, CreatedAt := t, State := Succeeded,
     RuntimeVersion := \<lparr>rv_Version = v, rv_Origin = ''parameters'', rv_MajorVersion = 2\<rparr>\<rparr>"

theorem shown_version_is_the_newest_witness:
  "determineKymaVersion [upgraded_to 5 ''2.0''] [upgraded_to 9 ''2.2'', upgraded_to 7 ''2.1'', upgraded_to 3 ''1.0''] = ''2.2'' \<and>
   sorted (map (\<lambda>x. - CreatedAt x) [upgraded_to 9 ''2.2'', upgraded_to 7 ''2.1'', upgraded_to 3 ''1.0''])"
proof -
  have "sorted (map (\<lambda>x. - CreatedAt x) [upgraded_to 9 ''2.2'', upgraded_to 7 ''2.1'', upgraded_to 3 ''1.0''])"
    by (simp add: upgraded_to_def)
  from shown_version_is_the_newest [OF this, of "upgraded_to 5 ''2.0''" "[]"] show ?thesis
    by (simp add: processed_upgrade_def upgraded_to_def some_operation_def no_runtime_operation_def Succeeded_def Pending_def Canceling_def Canceled_def)
qed

section \<open>Filters\<close>

lemma filter_call_Returned: "filter_call q xs = Returned ys \<Longrightarrow> ys = filter (\<lambda>x. q x = Returned True) xs"
  by (induction xs arbitrary: ys) (auto split: go_call.splits)

lemma passes_state: "passes visit s flt v = Returned True \<Longrightarrow> matchInstanceState visit s (inst_ID v) (flt_States flt)"
  by (auto simp: passes_def Let_def split: if_splits sum.splits)

lemma copy_page_subset: "copy_page xs ps offset (int (length xs)) i = Returned ys \<Longrightarrow> 0 \<le> i \<Longrightarrow> set ys \<subseteq> set xs"
  by (auto simp: copy_page_spec split: if_splits dest: in_set_takeD in_set_dropD)

lemma offset_not_negative:
  assumes "1 \<le> ps" "1 \<le> pg"
  shows "0 \<le> ConvertPageAndPageSizeToOffset ps pg"
proof -
  have "1 * 1 \<le> pg * ps" using assms by (intro mult_mono) auto
  then show ?thesis by (simp add: ConvertPageAndPageSizeToOffset_def)
qed

lemma in_bounds: "ExtractPaginationConfigFromRequest params maxPage = Returned (Inr (pageSize, page)) \<Longrightarrow> 1 \<le> pageSize \<and> 1 \<le> page"
  by (auto simp: ExtractPaginationConfigFromRequest_def and_result_def split: go_call.splits sum.splits if_splits)

text \<open>An instance that is listed is stored and passes the filter.\<close>

lemma listed_instances:
  assumes "insts_ok m" "\<And>m. set (order_insts M m) = set m" "1 \<le> flt_PageSize flt" "1 \<le> flt_Page flt"
    and "listInstances M flt m s = Returned (Inr (instances, c, n))" "InstanceDeprovisioned \<notin> set (flt_States flt)" "i \<in> set instances"
  shows "i \<in> snd ` set m \<and> passes (order_ops M) s flt i = Returned True"
proof -
  from assms(5,6) obtain found where l: "inst_List (order_insts M) (order_ops M) flt m s = Returned (found, c, n)"
    and i: "instances = map instance_or_zero found"
    by (auto simp: listInstances_def and_call_Returned Let_def)
  define offset where "offset = ConvertPageAndPageSizeToOffset (flt_PageSize flt) (flt_Page flt)"
  from l obtain matching where m: "filterInstances (order_insts M) (order_ops M) flt m s = Returned matching"
    and page: "copy_page (map (\<lambda>i. map_of m (inst_ID i)) (sortInstancesByCreatedAt matching)) (flt_PageSize flt) offset
      (int (length (map (\<lambda>i. map_of m (inst_ID i)) (sortInstancesByCreatedAt matching)))) offset = Returned found"
    by (auto simp: inst_List_def Let_def page_result_def offset_def split: go_call.splits)
  from copy_page_subset [OF page] offset_not_negative [OF assms(3,4)] have "set found \<subseteq> (\<lambda>i. map_of m (inst_ID i)) ` set matching"
    by (simp add: offset_def sortInstancesByCreatedAt_def)
  with assms(7) i obtain j where j: "j \<in> set matching" "i = instance_or_zero (map_of m (inst_ID j))" by auto
  from filter_call_Returned m have "matching = filter (\<lambda>x. passes (order_ops M) s flt x = Returned True) (map snd (order_insts M m))"
    by (auto simp: filterInstances_def)
  with j(1) assms(2) have p: "j \<in> snd ` set m" "passes (order_ops M) s flt j = Returned True" by auto
  with assms(1) have "map_of m (inst_ID j) = Some j" by (force simp: insts_ok_def)
  with j(2) p show ?thesis by (simp add: instance_or_zero_def)
qed

lemma show_all_results:
  "show_all f xs = Returned (Inr rs) \<Longrightarrow> list_all2 (\<lambda>x r. f x = Returned (Inr r)) xs rs"
  by (induction xs arbitrary: rs) (auto simp: and_result_def split: go_call.splits sum.splits)

lemma adjust_ID: "adjustRuntimeState dto = Returned dto' \<Longrightarrow> dto_InstanceID dto' = dto_InstanceID dto"
  by (auto simp: adjustRuntimeState_def and_call_Returned)

lemmas apply_defs = ApplyProvisioningOperation_def ApplyUnsuspensionOperations_def ApplyDeprovisioningOperation_def ApplySuspensionOperations_def
  ApplyUpgradingKymaOperations_def ApplyUpgradingClusterOperations_def ApplyUpdateOperations_def

lemma last_operation_ID:
  assumes "setRuntimeLastOperation visit s i dto = Returned (Inr dto')"
  shows "dto_InstanceID dto' = dto_InstanceID dto"
  using assms
  by (auto simp: setRuntimeLastOperation_def Let_def fetched_def apply_defs and_call_Returned dest!: adjust_ID
      split: sum.splits operation_type.splits if_splits)

lemma shown_ID:
  assumes "show_runtime RS vr sts visit region params s i = Returned (Inr sh)"
  shows "dto_InstanceID (sh_DTO sh) = inst_ID i"
proof -
  have all: "dto_InstanceID dto = inst_ID i" if "setRuntimeAllOperations visit s i (NewDTO region i) = Returned (dto, v)" for dto v
  proof -
    from that setRuntimeAllOperations_status [of visit s i region] obtain f where "erase dto = erase (on_status f (NewDTO region i))" by auto
    then have "dto_InstanceID (erase dto) = dto_InstanceID (NewDTO region i)" by (simp add: erase_def)
    then show ?thesis by (simp add: erase_def NewDTO_def)
  qed
  have modified: "dto_InstanceID (determineStatusModifiedAt visit s dto) = dto_InstanceID dto" for dto
    by (simp add: determineStatusModifiedAt_def split: sum.split)
  have optional: "sh_DTO sh = sh_DTO sh0" if "setRuntimeOptionalAttributes RS vr sts a b c i sh0 = Inr sh" for sh0 a b c
    using that by (auto simp: setRuntimeOptionalAttributes_def Let_def split: if_splits sum.splits)
  from assms obtain dto v where "(if getOpDetail params then setRuntimeLastOperation visit s i (NewDTO region i) = Returned (Inr dto)
      else setRuntimeAllOperations visit s i (NewDTO region i) = Returned (dto, v))" "dto_InstanceID (sh_DTO sh) = dto_InstanceID dto"
    by (auto simp: show_runtime_def and_result_def and_call_def modified dest!: optional split: if_splits go_call.splits sum.splits prod.splits)
  with all last_operation_ID show ?thesis by (auto simp: NewDTO_def split: if_splits)
qed

text \<open>
  Without a filter for states, no runtime is shown whose last operation, a suspension included, is a
  deprovisioning that succeeded.
\<close>

theorem deprovisioned_runtimes_are_hidden:
  assumes "insts_ok m" "\<And>m. set (order_insts M m) = set m" "map_of params ''state'' = None"
    and "getRuntimes RS vr sts M region maxPage params m s = Returned (200, Inr shown)" "sh \<in> set (rl_Data shown)"
    and "GetLastOperation (order_ops M) (dto_InstanceID (sh_DTO sh)) s = Inr x"
  shows "\<not> (op_Type x = OperationTypeDeprovision \<and> State x = Succeeded)"
proof -
  from assms(4) obtain pageSize page where pp: "ExtractPaginationConfigFromRequest params maxPage = Returned (Inr (pageSize, page))"
    by (auto simp: getRuntimes_def paged_def split: go_call.splits sum.splits prod.splits)
  define flt where "flt = (getFilters params)\<lparr>flt_PageSize := pageSize, flt_Page := page\<rparr>"
  from assms(4) pp obtain instances c n where l: "listInstances M flt m s = Returned (Inr (instances, c, n))"
    and rs: "show_all (show_runtime RS vr sts (order_ops M) region params s) instances = Returned (Inr (rl_Data shown))"
    by (auto simp: getRuntimes_def paged_def flt_def and_call_def split: go_call.split_asm sum.split_asm prod.split_asm)
  from show_all_results [OF rs] assms(5) obtain i where i: "i \<in> set instances"
    "show_runtime RS vr sts (order_ops M) region params s i = Returned (Inr sh)"
    by (auto simp: list_all2_conv_all_nth in_set_conv_nth) metis
  have states: "flt_States flt = [InstanceNotDeprovisioned]" using assms(3) by (simp add: flt_def getFilters_def param_def)
  have "1 \<le> pageSize" "1 \<le> page" using in_bounds [OF pp] by simp_all
  with listed_instances [OF assms(1,2) _ _ l _ i(1)] have "passes (order_ops M) s flt i = Returned True"
    by (simp add: states) (simp add: flt_def)
  from passes_state [OF this] assms(6) shown_ID [OF i(2)] show ?thesis by (auto simp: matchInstanceState_def states)
qed

lemma reply_cases:
  assumes "case x of Returned (st, r) \<Rightarrow> (case r of Inr a \<Rightarrow> q st a | Inl _ \<Rightarrow> False) | Panicked _ \<Rightarrow> False"
  shows "\<exists>st a. x = Returned (st, Inr a) \<and> q st a"
  using assms by (auto split: go_call.splits prod.splits sum.splits)

definition plain_orders :: map_orders where
  "plain_orders = \<lparr>order_ops = (\<lambda>m. m), order_insts = (\<lambda>m. m), order_groups = (\<lambda>m. m)\<rparr>"

definition shown_example :: "unit shown_runtime response_list reply" where
  "shown_example = getRuntimes (\<lambda>a b. Inr ()) (\<lambda>m. m) ([] :: unit rt_states) plain_orders [] 100 [] [(''i'', some_instance\<lparr>inst_ID := ''i''\<rparr>)] some_store"

theorem deprovisioned_runtimes_are_hidden_witness:
  "\<exists>shown sh x. shown_example = Returned (200, Inr shown) \<and> rl_Data shown = [sh] \<and>
     GetLastOperation (\<lambda>m. m) (dto_InstanceID (sh_DTO sh)) some_store = Inr x \<and> \<not> (op_Type x = OperationTypeDeprovision \<and> State x = Succeeded)"
proof -
  have e: "case shown_example of Returned (st, r) \<Rightarrow> (case r of Inr shown \<Rightarrow> st = 200 \<and> map (\<lambda>sh. dto_InstanceID (sh_DTO sh)) (rl_Data shown) = [''i'']
      | Inl _ \<Rightarrow> False) | Panicked _ \<Rightarrow> False"
    by code_simp
  from reply_cases [OF e] obtain shown sh where r: "shown_example = Returned (200, Inr shown)" "rl_Data shown = [sh]" "dto_InstanceID (sh_DTO sh) = ''i''"
    by auto
  have l: "GetLastOperation (order_ops plain_orders) (dto_InstanceID (sh_DTO sh)) some_store = Inr some_operation"
    unfolding r(3) by code_simp
  have ok: "insts_ok [(''i'', some_instance\<lparr>inst_ID := ''i''\<rparr>)]" by (simp add: insts_ok_def)
  have order: "\<And>m. set (order_insts plain_orders m) = set m" by (simp add: plain_orders_def)
  have "\<not> (op_Type some_operation = OperationTypeDeprovision \<and> State some_operation = Succeeded)"
    using deprovisioned_runtimes_are_hidden [OF ok order _ r(1) [unfolded shown_example_def] _ l] r(2) by simp
  with r l show ?thesis by (auto simp: plain_orders_def)
qed

section \<open>Two defects\<close>

lemma fold_keys:
  assumes "\<And>x m. distinct (map fst m) \<Longrightarrow> distinct (map fst (f x m)) \<and> fst ` set (f x m) = insert (key x) (fst ` set m)" "distinct (map fst m)"
  shows "distinct (map fst (fold f xs m)) \<and> fst ` set (fold f xs m) = key ` set xs \<union> fst ` set m"
  using assms(2) by (induction xs arbitrary: m) (auto simp: assms(1))

lemma fold_keys_length:
  assumes "\<And>x m. distinct (map fst m) \<Longrightarrow> distinct (map fst (f x m)) \<and> fst ` set (f x m) = insert (key x) (fst ` set m)"
  shows "length (fold f xs []) = card (key ` set xs)"
proof -
  from fold_keys [of f key "[]" xs, OF assms] have "distinct (map fst (fold f xs []))" "fst ` set (fold f xs []) = key ` set xs" by simp_all
  then show ?thesis by (metis distinct_card image_set length_map)
qed

lemma by_instance_length: "length (by_instance xs) = card (InstanceID ` set xs)"
  unfolding by_instance_def by (rule fold_keys_length) (simp add: distinct_assoc_set keys_assoc_set)

lemma union_length:
  assumes "\<And>m. length (order m) = length m"
  shows "length (unionInstances order sets) = card (inst_ID ` set (concat sets))"
proof -
  have "length (fold (\<lambda>i m. if map_of m (inst_ID i) = None then assoc_set (inst_ID i) i m else m) (concat sets) []) = card (inst_ID ` set (concat sets))"
    by (rule fold_keys_length) (auto simp: distinct_assoc_set keys_assoc_set map_of_eq_None_iff insert_absorb)
  then show ?thesis by (simp add: unionInstances_def assms)
qed

lemma recreated_IDs: "(\<And>m. set (order m) = set m) \<Longrightarrow> inst_ID ` set (recreateInstances order xs) = fst ` set (by_instance xs)"
  by (force simp: recreateInstances_def recreate_instance_def Let_def image_iff)

text \<open>
  When deprovisioned runtimes are asked for, the runtimes that are listed and those recreated from operations are added up
  although they are shown once: with an instance that is both, the reported count is larger than the number of runtimes.
\<close>

theorem counted_twice:
  assumes "\<And>m. length (order_insts M m) = length m" "\<And>m. set (order_groups M m) = set m" "\<And>m. length (order_groups M m) = length m"
    and "InstanceDeprovisioned \<in> set (flt_States flt)" "listInstances M flt m s = Returned (Inr (instances, c, n))"
    and "inst_List (order_insts M) (order_ops M) flt m s = Returned (found, k, t)"
    and "ListOperations (order_ops M) \<lparr>filter_States = [], filter_Page = flt_Page flt, filter_PageSize = flt_PageSize flt\<rparr> s = Returned (Inr (xs, a, b))"
    and "Some i \<in> set found" "x \<in> set xs" "InstanceID x = inst_ID i"
  shows "length instances < c"
proof -
  let ?found = "map instance_or_zero found" and ?recreated = "recreateInstances (order_groups M) xs"
  from assms(4-7) have c: "c = length ?recreated + k" and instances: "instances = unionInstances (order_insts M) [?found, ?recreated]"
    by (auto simp: listInstances_def Let_def)
  have k: "k = length found" using assms(6) by (auto simp: inst_List_def Let_def page_result_def split: go_call.splits)
  have by_inst: "fst ` set (by_instance xs) = InstanceID ` set xs"
    using fold_keys [of "\<lambda>x m. assoc_set (InstanceID x) ((case map_of m (InstanceID x) of Some ys \<Rightarrow> ys | None \<Rightarrow> []) @ [x]) m" InstanceID "[]" xs]
    by (simp add: by_instance_def distinct_assoc_set keys_assoc_set)
  let ?A = "inst_ID ` set ?found" and ?B = "InstanceID ` set xs"
  have "inst_ID ` set (concat [?found, ?recreated]) = ?A \<union> ?B"
    using recreated_IDs [OF assms(2), of xs] by_inst by (simp only: concat.simps set_append image_Un append_Nil2)
  then have "length instances = card (?A \<union> ?B)" unfolding instances by (simp only: union_length [OF assms(1)])
  moreover have "card (?A \<union> ?B) + card (?A \<inter> ?B) = card ?A + card ?B" by (rule card_Un_Int [symmetric]) simp_all
  moreover have "instance_or_zero (Some i) = i" by (simp add: instance_or_zero_def)
  with assms(8) have "inst_ID i \<in> ?A" by (metis imageI list.set_map)
  with assms(9,10) have "inst_ID i \<in> ?A \<inter> ?B" by (metis IntI imageI)
  then have "0 < card (?A \<inter> ?B)" by (auto simp: card_gt_0_iff)
  moreover have "card ?A \<le> k" unfolding k by (metis card_image_le card_length finite_set le_trans length_map)
  moreover have "length ?recreated = card ?B" by (simp add: recreateInstances_def assms(3) by_instance_length)
  ultimately show ?thesis using c by linarith
qed

definition deprovisioned_filter :: instance_filter where
  "deprovisioned_filter = all_instances\<lparr>flt_States := [InstanceDeprovisioned], flt_PageSize := 10, flt_Page := 1\<rparr>"

definition deprovisioned_store :: memory_operations where
  "deprovisioned_store = \<lparr>operations = [(''op'', some_operation\<lparr>op_Type := OperationTypeDeprovision, State := Succeeded\<rparr>)],
     upgradeClusterOperations = [], updateOperations = []\<rparr>"

theorem counted_twice_witness:
  "\<exists>instances c n. listInstances plain_orders deprovisioned_filter [(''i'', some_instance)] deprovisioned_store = Returned (Inr (instances, c, n)) \<and>
     length instances < c"
proof -
  let ?op = "some_operation\<lparr>op_Type := OperationTypeDeprovision, State := Succeeded\<rparr>"
  have found: "inst_List (order_insts plain_orders) (order_ops plain_orders) deprovisioned_filter [(''i'', some_instance)] deprovisioned_store =
      Returned ([Some some_instance], 1, 1)"
    by code_simp
  have ops: "ListOperations (order_ops plain_orders) \<lparr>filter_States = [], filter_Page = flt_Page deprovisioned_filter,
      filter_PageSize = flt_PageSize deprovisioned_filter\<rparr> deprovisioned_store = Returned (Inr ([?op], 1, 1))"
    by code_simp
  have st: "InstanceDeprovisioned \<in> set (flt_States deprovisioned_filter)" by (simp add: deprovisioned_filter_def)
  obtain instances c n where l: "listInstances plain_orders deprovisioned_filter [(''i'', some_instance)] deprovisioned_store = Returned (Inr (instances, c, n))"
    using found ops st by (simp add: listInstances_def Let_def)
  have "length instances < c"
    using counted_twice [OF _ _ _ st l found ops, of some_instance ?op] by (simp add: plain_orders_def)
  with l show ?thesis by blast
qed

text \<open>
  Updates are listed the oldest first, unlike the other operations, so the first two are shown, and the state follows the oldest: here a running update
  is not seen because an earlier one succeeded.
\<close>

definition two_updates :: memory_operations where
  "two_updates = \<lparr>operations = [(''op'', some_operation\<lparr>State := Succeeded\<rparr>)], upgradeClusterOperations = [], updateOperations =
     [(''u1'', some_operation\<lparr>op_ID := ''u1'', op_Type := OperationTypeUpdate, CreatedAt := 1, State := Succeeded\<rparr>),
      (''u2'', some_operation\<lparr>op_ID := ''u2'', op_Type := OperationTypeUpdate, CreatedAt := 2, State := InProgress\<rparr>)]\<rparr>"

lemma running_update_is_not_seen:
  "case setRuntimeAllOperations (\<lambda>m. m) two_updates some_instance (NewDTO [] some_instance) of
     Returned (dto, v) \<Rightarrow> status_State (dto_Status dto) = StateSucceeded | Panicked v \<Rightarrow> False"
  by code_simp

end
