(* ===== verification/Upgrade_Manager.thy ===== *)
theory Upgrade_Manager
  imports Staged_Manager Parallel_Strategy "HOL-Library.AList"
begin

text \<open>
  The managers that execute one upgrade (\<^verbatim>\<open>src/internal/process/upgrade_cluster/manager.go\<close> and
  \<^verbatim>\<open>upgrade_kyma/manager.go\<close>) and the operation managers their steps use
  (\<^verbatim>\<open>src/internal/process/upgrade_cluster_operation.go\<close>, \<^verbatim>\<open>upgrade_kyma_operation.go\<close>).

  Both pairs have the same text except for the storage methods and the type of the published event, which are fields of the manager here.
  Where the operation managers agree with the one of \<open>Operation_Manager\<close>, which is generic in the storage, it is used with
  \<open>cluster_storage\<close> and \<open>kyma_storage\<close>; the methods that differ are given here.
\<close>

section \<open>Operation managers\<close>

definition cluster_storage :: "memory_operations op_storage" where
  "cluster_storage = \<lparr>get_op = (\<lambda>k s. (GetUpgradeClusterOperationByID k s, s)), upd_op = UpdateUpgradeClusterOperation\<rparr>"

definition kyma_storage :: "memory_operations op_storage" where
  "kyma_storage = \<lparr>get_op = (\<lambda>k s. (GetUpgradeKymaOperationByID k s, s)), upd_op = UpdateUpgradeKymaOperation\<rparr>"

text \<open>Here the error of \<open>OperationFailed\<close> is returned as it is.\<close>

definition upgrade_RetryOperation ::
  "'s op_storage \<Rightarrow> operation \<Rightarrow> string \<Rightarrow> go_error option \<Rightarrow> int \<Rightarrow> int \<Rightarrow> int \<Rightarrow> 's \<Rightarrow> step_return \<times> 's" where
  "upgrade_RetryOperation S operation errorMessage err retryInterval maxTime now s =
     (if now - UpdatedAt operation < maxTime then ((operation, retryInterval, None), s)
      else OperationFailed S operation errorMessage err s)"

definition SimpleUpdateOperation :: "'s op_storage \<Rightarrow> operation \<Rightarrow> 's \<Rightarrow> (operation \<times> int) \<times> 's" where
  "SimpleUpdateOperation S operation s =
     (case upd_op S operation s of
        (Inl e, s1) \<Rightarrow> ((operation, minute), s1) | (Inr op, s1) \<Rightarrow> ((op, 0), s1))"

definition upgrade_RetryOperationWithoutFail ::
  "'s op_storage \<Rightarrow> operation \<Rightarrow> string \<Rightarrow> int \<Rightarrow> int \<Rightarrow> int \<Rightarrow> 's \<Rightarrow> step_return \<times> 's" where
  "upgrade_RetryOperationWithoutFail S operation description retryInterval maxTime now s =
     (if now - UpdatedAt operation < maxTime then ((operation, retryInterval, None), s)
      else (let ((op, repeat, e), s1) = om_update S operation InProgress description s in
            if repeat \<noteq> 0 then ((op, repeat, None), s1) else ((op, 0, None), s1)))"

section \<open>The manager\<close>

record 's upgrade_manager =
  um_storage :: "'s op_storage"
  um_processed :: "string \<Rightarrow> int \<Rightarrow> int \<Rightarrow> go_error option \<Rightarrow> operation \<Rightarrow> operation \<Rightarrow> event"
  um_steps :: "(int \<times> 's step list) list"

definition NewManager :: "'s op_storage \<Rightarrow> (string \<Rightarrow> int \<Rightarrow> int \<Rightarrow> go_error option \<Rightarrow> operation \<Rightarrow> operation \<Rightarrow> event) \<Rightarrow> 's upgrade_manager" where
  "NewManager S ev = \<lparr>um_storage = S, um_processed = ev, um_steps = []\<rparr>"

text \<open>A step of weight 0 or less counts as one of weight 1.\<close>

definition effective_weight :: "int \<Rightarrow> int" where
  "effective_weight weight = (if weight \<le> 0 then 1 else weight)"

definition steps_at :: "int \<Rightarrow> (int \<times> 's step list) list \<Rightarrow> 's step list" where
  "steps_at weight m = (case map_of m weight of Some sts \<Rightarrow> sts | None \<Rightarrow> [])"

definition um_AddStep :: "int \<Rightarrow> 's step \<Rightarrow> 's upgrade_manager \<Rightarrow> 's upgrade_manager" where
  "um_AddStep weight st m =
     (let k = effective_weight weight in
      m\<lparr>um_steps := AList.update k (steps_at k (um_steps m) @ [st]) (um_steps m)\<rparr>)"

definition um_InitStep :: "'s step \<Rightarrow> 's upgrade_manager \<Rightarrow> 's upgrade_manager" where
  "um_InitStep st m = um_AddStep 0 (st\<lparr>condition := None\<rparr>) m"

definition sortWeight :: "'s upgrade_manager \<Rightarrow> int list" where
  "sortWeight m = sort (map fst (um_steps m))"

text \<open>After a panic the time to wait has its zero value.\<close>

definition um_runStep ::
  "'s upgrade_manager \<Rightarrow> 's step \<Rightarrow> operation \<Rightarrow> 's process_state \<Rightarrow> (operation \<times> int \<times> go_error option) \<times> 's process_state" where
  "um_runStep m st operation w =
     (case step_run st operation w of
        (StepReturns op when err, w1) \<Rightarrow>
          ((op, when, err), Publish (um_processed m (step_name st) (clock w1 - clock w) when err op operation) w1)
      | (StepPanics v, w1) \<Rightarrow>
          (let ((op, _, _), s) = OperationFailed (um_storage m) operation ''recovered from panic'' (Some (TextError v)) (store w1) in
           ((op, 0, Some (TextError v)), w1\<lparr>store := s\<rparr>)))"

fun um_run_steps :: "'s upgrade_manager \<Rightarrow> 's step list \<Rightarrow> operation \<Rightarrow> 's process_state \<Rightarrow> (int \<times> go_error option) \<times> 's process_state" where
  "um_run_steps m [] operation w = ((0, None), w)"
| "um_run_steps m (st # sts) operation w =
     (if (case condition st of Some c \<Rightarrow> \<not> c operation | None \<Rightarrow> False) then um_run_steps m sts operation w
      else (case um_runStep m st operation w of
              ((op, when, Some e), w1) \<Rightarrow> ((0, Some e), w1)
            | ((op, when, None), w1) \<Rightarrow>
                if IsFinished op then ((0, None), w1)
                else if when = 0 then um_run_steps m sts op w1
                else ((when, None), w1)))"

text \<open>The two loops over the weights and the steps of a weight.\<close>

definition ordered_steps :: "'s upgrade_manager \<Rightarrow> 's step list" where
  "ordered_steps m = concat (map (\<lambda>k. steps_at k (um_steps m)) (sortWeight m))"

definition um_Execute :: "'s upgrade_manager \<Rightarrow> string \<Rightarrow> 's process_state \<Rightarrow> (int \<times> go_error option) \<times> 's process_state" where
  "um_Execute m operationID w =
     (case get_op (um_storage m) operationID (store w) of
        (Inl e, s) \<Rightarrow> ((3 * one_second, None), w\<lparr>store := s\<rparr>)
      | (Inr operation, s) \<Rightarrow>
          if IsFinished operation then ((0, None), w\<lparr>store := s\<rparr>)
          else um_run_steps m (ordered_steps m) operation (w\<lparr>store := s\<rparr>))"

section \<open>As an executor of the strategy\<close>

definition upgrade_executor ::
  "memory_operations upgrade_manager \<Rightarrow> (string \<Rightarrow> go_time \<Rightarrow> go_time \<Rightarrow> memory_operations \<Rightarrow> (go_error + unit) \<times> memory_operations) \<Rightarrow> op_executor" where
  "upgrade_executor m reschedule =
     \<lparr>x_Execute = (\<lambda>k w.
        let ((when, err), p) = um_Execute m k \<lparr>store = w_ops w, clock = instant (w_now w), published = []\<rparr> in
        (ProcessReturns when err, w\<lparr>w_ops := store p, w_now := (w_now w)\<lparr>instant := clock p\<rparr>\<rparr>)),
      x_Reschedule = reschedule\<rparr>"

section \<open>The order of the steps\<close>

text \<open>The steps that were added with a weight, in the order in which they were added.\<close>

definition added_at :: "int \<Rightarrow> (int \<times> 's step) list \<Rightarrow> (int \<times> 's step) list" where
  "added_at k calls = filter (\<lambda>c. effective_weight (fst c) = k) calls"

definition add_all :: "(int \<times> 's step) list \<Rightarrow> 's upgrade_manager \<Rightarrow> 's upgrade_manager" where
  "add_all calls m = fold (\<lambda>(weight, st) m. um_AddStep weight st m) calls m"

lemma add_all_Cons [simp]: "add_all ((weight, st) # calls) m = add_all calls (um_AddStep weight st m)"
  by (simp add: add_all_def)

lemma um_AddStep_steps:
  "steps_at j (um_steps (um_AddStep weight st m)) = steps_at j (um_steps m) @ (if j = effective_weight weight then [st] else [])"
  "fst ` set (um_steps (um_AddStep weight st m)) = insert (effective_weight weight) (fst ` set (um_steps m))"
  "distinct (map fst (um_steps m)) \<Longrightarrow> distinct (map fst (um_steps (um_AddStep weight st m)))"
  by (simp_all add: um_AddStep_def Let_def steps_at_def update_conv' distinct_update dom_update)

lemma add_all_steps:
  assumes "distinct (map fst (um_steps m))"
  shows "steps_at k (um_steps (add_all calls m)) = steps_at k (um_steps m) @ map snd (added_at k calls)"
    and "fst ` set (um_steps (add_all calls m)) = fst ` set (um_steps m) \<union> (\<lambda>c. effective_weight (fst c)) ` set calls"
    and "distinct (map fst (um_steps (add_all calls m)))"
  using assms
proof (induction calls arbitrary: m)
  case (Cons c calls)
  obtain weight st where c: "c = (weight, st)" by fastforce
  {
    case 1
    with Cons.IH(1) [OF um_AddStep_steps(3)] show ?case by (simp add: um_AddStep_steps added_at_def c)
  next
    case 2
    with Cons.IH(2) [OF um_AddStep_steps(3)] show ?case by (simp add: um_AddStep_steps c)
  next
    case 3
    with Cons.IH(3) [OF um_AddStep_steps(3)] show ?case by (simp add: c)
  }
qed (simp_all add: add_all_def added_at_def)

lemma filter_concat_groups:
  assumes "distinct ks"
  shows "filter (\<lambda>c. f c = k) (concat (map (\<lambda>k. filter (\<lambda>c. f c = k) xs) ks)) = (if k \<in> set ks then filter (\<lambda>c. f c = k) xs else [])"
  using assms by (induction ks) (auto simp: filter_empty_conv)

text \<open>Grouping by a key and going through the keys in order is a stable sort.\<close>

lemma sort_key_groups:
  assumes "distinct ks" "sorted ks" "set ks = f ` set xs"
  shows "sort_key f xs = concat (map (\<lambda>k. filter (\<lambda>c. f c = k) xs) ks)"
proof (rule properties_for_sort_key)
  let ?ys = "concat (map (\<lambda>k. filter (\<lambda>c. f c = k) xs) ks)"
  have "count (mset ?ys) x = count (mset xs) x" for x
  proof -
    have "f x \<notin> set ks \<Longrightarrow> filter (\<lambda>c. f c = f x) xs = []" using assms(3) by (metis (mono_tags) filter_False image_eqI)
    then have "filter (\<lambda>c. f c = f x) ?ys = filter (\<lambda>c. f c = f x) xs"
      using filter_concat_groups [OF assms(1), of f "f x" xs] by (cases "f x \<in> set ks") simp_all
    moreover have "count (mset ys) x = count (mset (filter (\<lambda>c. f c = f x) ys)) x" for ys
      by (induction ys) auto
    ultimately show ?thesis by metis
  qed
  then show "mset ?ys = mset xs" by (rule multiset_eqI)
  show "filter (\<lambda>x. f k = f x) ?ys = filter (\<lambda>x. f k = f x) xs" if "k \<in> set ?ys" for k
  proof -
    have "f k \<in> set ks" using that by auto
    with filter_concat_groups [OF assms(1), of f "f k" xs] show ?thesis by (simp add: eq_commute [of "f k"])
  qed
  show "sorted (map f ?ys)"
    using assms(2)
  proof (induction ks)
    case (Cons k ks)
    have "map f (filter (\<lambda>c. f c = k) xs) = replicate (length (filter (\<lambda>c. f c = k) xs)) k"
      by (induction xs) auto
    with Cons show ?case by (auto simp: sorted_append sorted_replicate)
  qed simp
qed

text \<open>
  (C17) The steps of an upgrade are run in the order of their weights, and those of the same weight in the order in which
  they were added: collecting them in a map by weight and sorting its keys is a stable sort.  A weight below 1, which is
  that of the initial steps, counts as 1.
\<close>

theorem steps_run_in_order_of_weight:
  "ordered_steps (add_all calls (NewManager S ev)) = map snd (sort_key (\<lambda>c. if fst c \<le> 0 then 1 else fst c) calls)"
proof -
  let ?m = "add_all calls (NewManager S ev)" and ?f = "\<lambda>c :: int \<times> 'a step. effective_weight (fst c)"
  have new: "distinct (map fst (um_steps (NewManager S ev)))" "um_steps (NewManager S ev) = []" by (simp_all add: NewManager_def)
  note all = add_all_steps(1) [OF new(1), of _ calls] add_all_steps(2,3) [OF new(1), of calls]
  have ks: "distinct (sortWeight ?m)" "sorted (sortWeight ?m)" "set (sortWeight ?m) = ?f ` set calls"
    using all(2,3) by (simp_all add: sortWeight_def new(2))
  have "ordered_steps ?m = concat (map (\<lambda>k. map snd (filter (\<lambda>c. ?f c = k) calls)) (sortWeight ?m))"
    unfolding ordered_steps_def all(1) by (simp add: new(2) steps_at_def added_at_def)
  also have "\<dots> = map snd (concat (map (\<lambda>k. filter (\<lambda>c. ?f c = k) calls) (sortWeight ?m)))" by (simp add: map_concat comp_def)
  also have "concat (map (\<lambda>k. filter (\<lambda>c. ?f c = k) calls) (sortWeight ?m)) = sort_key ?f calls"
    by (rule sort_key_groups [OF ks, symmetric])
  finally show ?thesis by (simp add: effective_weight_def)
qed

section \<open>Panics\<close>

lemma lock_storage:
  assumes lock: "optimistic_lock (upd_op S) stored op_ID Version newer"
    and "\<And>s i op. good s \<Longrightarrow> stored s i = Some op \<Longrightarrow> op_ID op = i"
    and "\<And>s i op. stored s i = Some op \<Longrightarrow> get_op S i s = (Inr op, s)"
    and "\<And>s op. good s \<Longrightarrow> good (snd (upd_op S op s))"
  shows "versioned_store S stored good"
proof (rule versioned_store.intro)
  fix s s' op op' old e
  show "upd_op S op s = (Inr op', s') \<Longrightarrow> op' = op\<lparr>Version := Version op + 1\<rparr> \<and> stored s' = (stored s)(op_ID op \<mapsto> op')"
    using optimistic_lock.upd_done [OF lock, of op s op' s'] by (simp add: newer_def)
qed (fact assms optimistic_lock.upd_needs [OF lock] optimistic_lock.upd_failed [OF lock] optimistic_lock.upd_current [OF lock]
      optimistic_lock.upd_stale [OF lock])+

interpretation cluster_ops: versioned_store cluster_storage "\<lambda>s. map_of (upgradeClusterOperations s)" store_ok
  using cluster_lock.optimistic_lock_axioms cluster_upgrade.update_ok
  by (intro lock_storage)
     (auto simp: cluster_storage_def cluster_kind_def store_ok_def GetUpgradeClusterOperationByID_def get_typed_def dest: map_ok_ID)

interpretation kyma_ops: versioned_store kyma_storage "\<lambda>s. map_of (operations s)" store_ok
  using kyma_lock.optimistic_lock_axioms kyma_upgrade.update_ok
  by (intro lock_storage)
     (auto simp: kyma_storage_def kyma_kind_def store_ok_def GetUpgradeKymaOperationByID_def get_typed_def dest: map_ok_ID)

text \<open>
  A step that panics fails the upgrade: the stored operation, even if it has changed meanwhile, becomes failed,
  no later step is run, the manager returns the panic as an error, and a worker of the strategy counts the
  operation as processed instead of waiting.
\<close>

theorem panic_fails_the_upgrade:
  assumes "um_storage m = cluster_storage" and "ordered_steps m = st # sts" and "condition st = None"
    and "store_ok (w_ops w)" and "map_of (upgradeClusterOperations (w_ops w)) (ro_ID ro) = Some operation" and "\<not> IsFinished operation"
    and "step_run st operation \<lparr>store = w_ops w, clock = instant (w_now w), published = []\<rparr> = (StepPanics v, p)"
    and "store_ok (store p)" and "map_of (upgradeClusterOperations (store p)) (ro_ID ro) = Some cur"
  shows "\<exists>op w'. processOperation (upgrade_executor m reschedule) factor [Some ro] w = ([QueueDone ro], [QueueDone ro], ProcessedOne, w') \<and>
    map_of (upgradeClusterOperations (w_ops w')) = (map_of (upgradeClusterOperations (store p)))(ro_ID ro \<mapsto> op) \<and>
    State op = Failed \<and> Description op = ''recovered from panic''"
proof -
  let ?f = "\<lambda>op :: operation. op\<lparr>State := Failed, Description := ''recovered from panic''\<rparr>"
  have id: "op_ID operation = ro_ID ro" using assms(4,5) by (rule cluster_ops.stored_ID)
  then have "map_of (upgradeClusterOperations (store p)) (op_ID operation) = Some cur" using assms(9) by simp
  from cluster_ops.manager_update [OF assms(8) this, of ?f] obtain s'
    where s': "om_update cluster_storage operation Failed ''recovered from panic'' (store p) = ((bumped (?f (base operation cur)), 0, None), s')"
      "map_of (upgradeClusterOperations s') = (map_of (upgradeClusterOperations (store p)))(op_ID operation \<mapsto> bumped (?f (base operation cur)))"
    by (auto simp: om_update_def)
  have get: "get_op cluster_storage (ro_ID ro) (w_ops w) = (Inr operation, w_ops w)" by (rule cluster_ops.get_stored) (rule assms(5))
  have "um_runStep m st operation \<lparr>store = w_ops w, clock = instant (w_now w), published = []\<rparr> =
      ((bumped (?f (base operation cur)), 0, Some (TextError v)), p\<lparr>store := s'\<rparr>)"
    using assms(1,7) s'(1) by (simp add: um_runStep_def OperationFailed_def)
  then have "x_Execute (upgrade_executor m reschedule) (ro_ID ro) w =
      (ProcessReturns 0 (Some (TextError v)), w\<lparr>w_ops := s', w_now := (w_now w)\<lparr>instant := clock p\<rparr>\<rparr>)"
    using assms(1-3,6) get by (simp add: upgrade_executor_def um_Execute_def)
  with s'(2) id show ?thesis by (auto simp: bumped_def)
qed

definition panicking :: "memory_operations step" where
  "panicking = \<lparr>step_name = ''step'', step_run = (\<lambda>op w. (StepPanics ''boom'', w)), condition = None\<rparr>"

theorem panic_fails_the_upgrade_witness:
  "\<exists>op w'. processOperation (upgrade_executor (um_AddStep 5 panicking (NewManager cluster_storage UpgradeClusterStepProcessed)) cluster_Reschedule) 1
     [Some (some_ro\<lparr>ro_ID := ''a''\<rparr>)] (some_world\<lparr>w_ops := two_clusters\<rparr>) =
       ([QueueDone (some_ro\<lparr>ro_ID := ''a''\<rparr>)], [QueueDone (some_ro\<lparr>ro_ID := ''a''\<rparr>)], ProcessedOne, w') \<and>
     map_of (upgradeClusterOperations (w_ops w')) ''a'' = Some op \<and> State op = Failed"
proof -
  let ?m = "um_AddStep 5 panicking (NewManager cluster_storage UpgradeClusterStepProcessed)" and ?w = "some_world\<lparr>w_ops := two_clusters\<rparr>"
    and ?ro = "some_ro\<lparr>ro_ID := ''a''\<rparr>" and ?op = "upgrade_example OperationTypeUpgradeCluster ''a'' ''orch1'' Pending"
  have m: "um_storage ?m = cluster_storage" "ordered_steps ?m = [panicking]" "condition panicking = None"
    by (simp_all add: um_AddStep_def NewManager_def ordered_steps_def sortWeight_def effective_weight_def steps_at_def panicking_def)
  have ok: "store_ok (w_ops ?w)" by (simp add: two_clusters_def store_ok_def map_ok_def)
  have op: "map_of (upgradeClusterOperations (w_ops ?w)) (ro_ID ?ro) = Some ?op" "\<not> IsFinished ?op"
    by (simp_all add: two_clusters_def IsFinished_def)
  have "step_run panicking ?op \<lparr>store = w_ops ?w, clock = instant (w_now ?w), published = []\<rparr> =
      (StepPanics ''boom'', \<lparr>store = w_ops ?w, clock = instant (w_now ?w), published = []\<rparr>)" by (simp add: panicking_def)
  from panic_fails_the_upgrade [OF m ok op this] ok op show ?thesis by fastforce
qed

end
